(* ===== verification/Go_Prelude.thy ===== *)
theory Go_Prelude
  imports Main "HOL-Library.Char_ord" "HOL-Library.List_Lexorder"
    "HOL-Library.Product_Lexorder" "HOL-Library.Multiset"
begin

text \<open>
  The vocabulary every component shares: the part of Go's \<^verbatim>\<open>strings\<close> and
  \<^verbatim>\<open>sort\<close> packages the sources call, pointers as options, dictionaries as
  association lists, time stamps as integers, and the facts about them that the
  component theories use.

  A Go string is a byte sequence and an Isabelle \<^typ>\<open>char\<close> is one byte, so a Go
  string is a \<^typ>\<open>string\<close>; \<^verbatim>\<open><\<close> on Go strings is the byte-wise lexicographic
  order, which is the order of \<^verbatim>\<open>List_Lexorder\<close> over \<^verbatim>\<open>Char_ord\<close>.
  \<^verbatim>\<open>strings.ToLower\<close> and \<^verbatim>\<open>strings.ToUpper\<close> are modelled on the ASCII letters;
  bytes above 127 are left alone (Go would also fold non-ASCII letters).
\<close>

section \<open>Fact collections\<close>

named_theorems go_str \<open>unfolding rules of the string functions\<close>
named_theorems step_defs \<open>definitions of operations, to be unfolded together\<close>

section \<open>Strings\<close>

text \<open>\<^verbatim>\<open>strings.HasPrefix\<close>, \<^verbatim>\<open>HasSuffix\<close>, \<^verbatim>\<open>TrimPrefix\<close>.\<close>

fun has_prefix :: "string \<Rightarrow> string \<Rightarrow> bool" where
  "has_prefix s [] = True"
| "has_prefix [] (p # ps) = False"
| "has_prefix (c # s) (p # ps) = (c = p \<and> has_prefix s ps)"

definition trim_prefix :: "string \<Rightarrow> string \<Rightarrow> string" where
  "trim_prefix s p = (if has_prefix s p then drop (length p) s else s)"

lemma has_prefix_iff: "has_prefix s p \<longleftrightarrow> (\<exists>t. s = p @ t)"
  by (induction s p rule: has_prefix.induct) auto

lemma has_prefix_take: "has_prefix s p \<Longrightarrow> length p \<le> length s \<and> take (length p) s = p"
  by (auto simp: has_prefix_iff)

lemma has_prefix_append [simp]: "has_prefix (p @ t) p"
  by (auto simp: has_prefix_iff)

lemma trim_prefix_append [simp]: "trim_prefix (p @ t) p = t"
  by (simp add: trim_prefix_def)

lemma has_prefix_trans: "has_prefix s p \<Longrightarrow> has_prefix p q \<Longrightarrow> has_prefix s q"
  by (auto simp: has_prefix_iff)

text \<open>
  \<^verbatim>\<open>strings.Split(s, sep)\<close> for a one-byte separator: it always returns at least
  one segment.
\<close>

fun split_on :: "char \<Rightarrow> string \<Rightarrow> string list" where
  "split_on d [] = [[]]"
| "split_on d (c # cs) =
     (if c = d then [] # split_on d cs
      else (case split_on d cs of [] \<Rightarrow> [[c]] | seg # segs \<Rightarrow> (c # seg) # segs))"

text \<open>\<^verbatim>\<open>strings.Join(xs, sep)\<close>.\<close>

fun join :: "string \<Rightarrow> string list \<Rightarrow> string" where
  "join sep [] = []"
| "join sep [x] = x"
| "join sep (x # y # zs) = x @ sep @ join sep (y # zs)"

lemma split_on_neq_Nil [simp]: "split_on d s \<noteq> []"
  by (induction s) (auto split: list.splits)

lemma split_on_no_sep: "d \<notin> set s \<Longrightarrow> split_on d s = [s]"
  by (induction s) auto

lemma split_on_append: "d \<notin> set s \<Longrightarrow> split_on d (s @ d # t) = s # split_on d t"
  by (induction s) auto

lemma split_on_append_gen:
  "split_on d (s @ d # t) = split_on d s @ split_on d t"
  by (induction s) (auto split: list.splits)

lemma join_split_on: "join [d] (split_on d s) = s"
proof (induction s)
  case (Cons c cs)
  obtain seg segs where sp: "split_on d cs = seg # segs"
    by (cases "split_on d cs") auto
  show ?case using Cons.IH sp by (cases segs) auto
qed simp

lemma split_on_segments: "seg \<in> set (split_on d s) \<Longrightarrow> d \<notin> set seg"
proof (induction s arbitrary: seg)
  case (Cons c cs)
  obtain x xs where sp: "split_on d cs = x # xs"
    by (cases "split_on d cs") auto
  show ?case using Cons.prems Cons.IH [of x] Cons.IH sp by (auto split: if_splits)
qed simp

lemma split_on_join:
  "xs \<noteq> [] \<Longrightarrow> \<forall>x \<in> set xs. d \<notin> set x \<Longrightarrow> split_on d (join [d] xs) = xs"
  by (induction "[d]" xs rule: join.induct) (auto simp: split_on_no_sep split_on_append)

text \<open>\<^verbatim>\<open>strings.SplitN(s, sep, 2)\<close>: cut at the first separator only.\<close>

fun split_first :: "char \<Rightarrow> string \<Rightarrow> string \<Rightarrow> string list" where
  "split_first d acc [] = [rev acc]"
| "split_first d acc (c # cs) =
     (if c = d then [rev acc, cs] else split_first d (c # acc) cs)"

definition splitN2 :: "char \<Rightarrow> string \<Rightarrow> string list" where
  "splitN2 d s = split_first d [] s"

lemma split_first_append:
  "d \<notin> set s \<Longrightarrow> split_first d acc (s @ d # t) = [rev acc @ s, t]"
  by (induction s arbitrary: acc) auto

lemma split_first_no_sep: "d \<notin> set s \<Longrightarrow> split_first d acc s = [rev acc @ s]"
  by (induction s arbitrary: acc) auto

lemma splitN2_cut: "d \<notin> set s \<Longrightarrow> splitN2 d (s @ d # t) = [s, t]"
  by (simp add: splitN2_def split_first_append)

lemma splitN2_no_sep: "d \<notin> set s \<Longrightarrow> splitN2 d s = [s]"
  by (simp add: splitN2_def split_first_no_sep)

text \<open>
  \<^verbatim>\<open>strings.Index\<close> and \<^verbatim>\<open>strings.LastIndex\<close>; the result \<open>-1\<close> is \<^const>\<open>None\<close>.
\<close>

fun str_index :: "string \<Rightarrow> string \<Rightarrow> nat option" where
  "str_index [] sub = (if sub = [] then Some 0 else None)"
| "str_index (c # cs) sub =
     (if has_prefix (c # cs) sub then Some 0 else map_option Suc (str_index cs sub))"

definition str_contains :: "string \<Rightarrow> string \<Rightarrow> bool" where
  "str_contains s sub \<longleftrightarrow> str_index s sub \<noteq> None"

fun last_index :: "char \<Rightarrow> string \<Rightarrow> nat option" where
  "last_index d [] = None"
| "last_index d (c # cs) =
     (case last_index d cs of
        Some i \<Rightarrow> Some (Suc i)
      | None \<Rightarrow> (if c = d then Some 0 else None))"

lemma str_index_Some:
  "str_index s sub = Some i \<Longrightarrow> i + length sub \<le> length s \<and> take (length sub) (drop i s) = sub"
proof (induction s arbitrary: i)
  case (Cons c cs)
  show ?case
  proof (cases "has_prefix (c # cs) sub")
    case True
    then show ?thesis using Cons.prems has_prefix_take [of "c # cs" sub] by simp
  next
    case False
    then obtain j where "str_index cs sub = Some j" "i = Suc j"
      using Cons.prems by auto
    then show ?thesis using Cons.IH [of j] by simp
  qed
qed (auto split: if_splits)

lemma str_index_prefix: "has_prefix s sub \<Longrightarrow> str_index s sub = Some 0"
  by (cases s) (auto simp: has_prefix_iff)

lemma str_index_append: "\<exists>i. str_index (s @ sub @ t) sub = Some i"
  by (induction s) (auto simp: str_index_prefix)

lemma str_contains_iff: "str_contains s sub \<longleftrightarrow> (\<exists>a b. s = a @ sub @ b)"
proof
  assume "str_contains s sub"
  then obtain i where "str_index s sub = Some i" by (auto simp: str_contains_def)
  then have *: "take (length sub) (drop i s) = sub" by (blast dest: str_index_Some)
  have "s = take i s @ take (length sub) (drop i s) @ drop (length sub) (drop i s)"
    by (metis append_take_drop_id)
  with * show "\<exists>a b. s = a @ sub @ b" by metis
next
  assume "\<exists>a b. s = a @ sub @ b"
  then show "str_contains s sub" using str_index_append by (fastforce simp: str_contains_def)
qed

lemma last_index_None: "last_index d s = None \<longleftrightarrow> d \<notin> set s"
  by (induction s) (auto split: option.splits)

lemma last_index_cut:
  "d \<notin> set t \<Longrightarrow> last_index d (s @ d # t) = Some (length s)"
proof (induction s)
  case Nil
  then have "last_index d t = None" by (simp add: last_index_None)
  then show ?case by simp
qed simp

text \<open>\<^verbatim>\<open>strings.ReplaceAll(s, old, new)\<close> for a non-empty \<open>old\<close>.\<close>

function replace_all :: "string \<Rightarrow> string \<Rightarrow> string \<Rightarrow> string" where
  "replace_all old new [] = []"
| "replace_all old new (c # cs) =
     (if old \<noteq> [] \<and> has_prefix (c # cs) old
      then new @ replace_all old new (drop (length old - 1) cs)
      else c # replace_all old new cs)"
  by pat_completeness auto
termination
  by (relation "measure (\<lambda>(old, new, s). length s)") auto

lemma replace_all_absent:
  "d \<in> set old \<Longrightarrow> d \<notin> set s \<Longrightarrow> replace_all old new s = s"
  by (induction old new s rule: replace_all.induct) (auto simp: has_prefix_iff Cons_eq_append_conv)

text \<open>ASCII case mapping.\<close>

definition ascii_lower :: "char \<Rightarrow> char" where
  "ascii_lower c = (let n = (of_char c :: nat) in if 65 \<le> n \<and> n \<le> 90 then char_of (n + 32) else c)"

definition ascii_upper :: "char \<Rightarrow> char" where
  "ascii_upper c = (let n = (of_char c :: nat) in if 97 \<le> n \<and> n \<le> 122 then char_of (n - 32) else c)"

definition to_lower :: "string \<Rightarrow> string" where
  "to_lower s = map ascii_lower s"

definition to_upper :: "string \<Rightarrow> string" where
  "to_upper s = map ascii_upper s"

lemma of_char_ascii_lower:
  "(of_char (ascii_lower c) :: nat) =
     (let n = of_char c in if 65 \<le> n \<and> n \<le> 90 then n + 32 else n)"
  by (simp add: ascii_lower_def Let_def)

lemma ascii_lower_idem [simp]: "ascii_lower (ascii_lower c) = ascii_lower c"
proof -
  have "(of_char (ascii_lower (ascii_lower c)) :: nat) = of_char (ascii_lower c)"
    by (simp add: of_char_ascii_lower Let_def)
  then show ?thesis by simp
qed

lemma to_lower_idem [simp]: "to_lower (to_lower s) = to_lower s"
  by (simp add: to_lower_def)

lemma to_lower_append: "to_lower (s @ t) = to_lower s @ to_lower t"
  by (simp add: to_lower_def)

lemma length_to_lower [simp]: "length (to_lower s) = length s"
  by (simp add: to_lower_def)

text \<open>\<^verbatim>\<open>strings.EqualFold\<close>, on ASCII.\<close>

definition equal_fold :: "string \<Rightarrow> string \<Rightarrow> bool" where
  "equal_fold s t \<longleftrightarrow> to_lower s = to_lower t"

text \<open>
  \<^verbatim>\<open>strings.TrimSpace\<close>: the UTF-8 encodings of the code points that Go's
  \<^verbatim>\<open>unicode.IsSpace\<close> accepts are cut from both ends.
\<close>

definition space_encodings :: "string list" where
  "space_encodings =
     map (\<lambda>n. [char_of (n::nat)]) [9, 10, 11, 12, 13, 32] @
     map (map (\<lambda>n. char_of (n::nat)))
       ([[194, 133], [194, 160], [225, 154, 128]] @
        map (\<lambda>n. [226, 128, n]) [128, 129, 130, 131, 132, 133, 134, 135, 136, 137, 138, 168, 169, 175] @
        [[226, 129, 159], [227, 128, 128]])"

function trim_left :: "string list \<Rightarrow> string \<Rightarrow> string" where
  "trim_left encs s =
     (case find (\<lambda>e. e \<noteq> [] \<and> has_prefix s e) encs of
        None \<Rightarrow> s
      | Some e \<Rightarrow> trim_left encs (drop (length e) s))"
  by pat_completeness auto
termination
proof (relation "measure (\<lambda>(encs, s). length s)", goal_cases)
  case (2 encs s e)
  then have "e \<noteq> []" "has_prefix s e" by (auto simp: find_Some_iff)
  then show ?case using has_prefix_take [of s e] by (cases e) auto
qed simp

declare trim_left.simps [simp del]

definition trim_space :: "string \<Rightarrow> string" where
  "trim_space s = rev (trim_left (map rev space_encodings) (rev (trim_left space_encodings s)))"

lemma trim_left_suffix: "\<exists>p. s = p @ trim_left encs s"
proof (induction encs s rule: trim_left.induct)
  case (1 encs s)
  show ?case
  proof (cases "find (\<lambda>e. e \<noteq> [] \<and> has_prefix s e) encs")
    case None
    then show ?thesis by (subst trim_left.simps) simp
  next
    case (Some e)
    then obtain p where "drop (length e) s = p @ trim_left encs (drop (length e) s)"
      using "1" by blast
    then have "s = (take (length e) s @ p) @ trim_left encs (drop (length e) s)"
      by (metis append.assoc append_take_drop_id)
    with Some show ?thesis by (subst trim_left.simps) (auto simp del: append_assoc)
  qed
qed

lemma trim_left_fixed:
  "\<forall>e \<in> set encs. e = [] \<or> \<not> has_prefix s e \<Longrightarrow> trim_left encs s = s"
  by (subst trim_left.simps) (auto split: option.splits simp: find_Some_iff)

text \<open>\<^verbatim>\<open>%d\<close> on an integer.\<close>

fun digits :: "nat \<Rightarrow> string" where
  "digits n = (if n < 10 then [char_of (n + 48)] else digits (n div 10) @ [char_of (n mod 10 + 48)])"

declare digits.simps [simp del]

definition itoa :: "int \<Rightarrow> string" where
  "itoa i = (if i < 0 then ''-'' @ digits (nat (- i)) else digits (nat i))"

text \<open>
  \<^verbatim>\<open>%q\<close> on a string: the escapes of \<^verbatim>\<open>strconv.Quote\<close> for ASCII; bytes above 127
  are kept (Go keeps the printable runes they encode).
\<close>

definition hex_digit :: "nat \<Rightarrow> char" where
  "hex_digit n = (if n < 10 then char_of (n + 48) else char_of (n + 87))"

definition quote_char :: "char \<Rightarrow> string" where
  "quote_char c =
     (let n = (of_char c :: nat); esc = (\<lambda>x. [CHR 0x5C, x]) in
      if n = 34 \<or> n = 92 then esc c
      else if n = 7 then esc (CHR ''a'') else if n = 8 then esc (CHR ''b'')
      else if n = 12 then esc (CHR ''f'') else if n = 10 then esc (CHR ''n'')
      else if n = 13 then esc (CHR ''r'') else if n = 9 then esc (CHR ''t'')
      else if n = 11 then esc (CHR ''v'')
      else if n < 32 \<or> n = 127 then [CHR 0x5C, CHR ''x'', hex_digit (n div 16), hex_digit (n mod 16)]
      else [c])"

definition go_quote :: "string \<Rightarrow> string" where
  "go_quote s = [CHR 0x22] @ concat (map quote_char s) @ [CHR 0x22]"

section \<open>Sorting\<close>

text \<open>
  \<^verbatim>\<open>sort.Strings\<close> and \<^verbatim>\<open>sort.SliceStable\<close> with a comparator that compares a key
  are \<^const>\<open>sort\<close> and \<^const>\<open>sort_key\<close>.  \<^verbatim>\<open>sort.Slice\<close> promises no order among
  elements with equal keys; its documented contract is \<open>slice_sorted\<close>, which
  \<^const>\<open>sort_key\<close> meets.
\<close>

definition slice_sorted :: "('a \<Rightarrow> 'k::linorder) \<Rightarrow> 'a list \<Rightarrow> 'a list \<Rightarrow> bool" where
  "slice_sorted key xs ys \<longleftrightarrow> mset ys = mset xs \<and> sorted (map key ys)"

lemma slice_sorted_sort_key [simp]: "slice_sorted key xs (sort_key key xs)"
  by (simp add: slice_sorted_def)

lemma slice_sorted_map_key: "slice_sorted key xs ys \<Longrightarrow> map key ys = sort (map key xs)"
  by (metis mset_map properties_for_sort slice_sorted_def)

lemma slice_sorted_set: "slice_sorted key xs ys \<Longrightarrow> set ys = set xs"
  by (metis set_mset_mset slice_sorted_def)

section \<open>Deduplication loops\<close>

text \<open>
  The idiom of a \<open>seen\<close> map: the first element with each key is kept.  \<open>skip\<close> is
  the loop's other reason to continue.
\<close>

fun dedup_by :: "('a \<Rightarrow> 'k) \<Rightarrow> 'k set \<Rightarrow> 'a list \<Rightarrow> 'a list" where
  "dedup_by key seen [] = []"
| "dedup_by key seen (x # xs) =
     (if key x \<in> seen then dedup_by key seen xs
      else x # dedup_by key (insert (key x) seen) xs)"

lemma dedup_by_keys: "key ` set (dedup_by key seen xs) = key ` set xs - seen"
  by (induction key seen xs rule: dedup_by.induct) auto

lemma dedup_by_subset: "set (dedup_by key seen xs) \<subseteq> set xs"
  by (induction key seen xs rule: dedup_by.induct) auto

lemma distinct_dedup_by: "distinct (map key (dedup_by key seen xs))"
proof (induction key seen xs rule: dedup_by.induct)
  case (2 key seen x xs)
  then show ?case using dedup_by_keys [of key "insert (key x) seen" xs] by auto
qed simp

lemma sorted_dedup_by: "sorted (map key xs) \<Longrightarrow> sorted (map key (dedup_by key' seen xs))"
proof (induction key' seen xs rule: dedup_by.induct)
  case (2 key' seen x xs)
  then show ?case using dedup_by_subset [of key' "insert (key' x) seen" xs] by auto
qed simp

lemma map_key_dedup_by: "map key (dedup_by key seen xs) = dedup_by id seen (map key xs)"
  by (induction key seen xs rule: dedup_by.induct) auto

section \<open>Pointers, dictionaries, time\<close>

text \<open>
  A pointer to a value that is only read is an \<^typ>\<open>'a option\<close>: \<^const>\<open>None\<close> is
  \<^verbatim>\<open>nil\<close>.  A dictionary is an association list (iteration order and duplicates
  are visible); reading an absent key of a \<^verbatim>\<open>map[string]string\<close> gives the zero
  value.
\<close>

definition deref_string :: "string option \<Rightarrow> string" where
  "deref_string p = (case p of None \<Rightarrow> [] | Some s \<Rightarrow> s)"

definition nonempty_ptr :: "string \<Rightarrow> string option" where
  "nonempty_ptr s = (if s = [] then None else Some s)"

lemma deref_nonempty_ptr [simp]: "deref_string (nonempty_ptr s) = s"
  by (simp add: deref_string_def nonempty_ptr_def)

lemma nonempty_ptr_inj [simp]: "nonempty_ptr s = nonempty_ptr t \<longleftrightarrow> s = t"
  by (auto simp: nonempty_ptr_def)

type_synonym dict = "(string \<times> string) list"

definition dict_get :: "dict \<Rightarrow> string \<Rightarrow> string" where
  "dict_get d k = (case map_of d k of None \<Rightarrow> [] | Some v \<Rightarrow> v)"

text \<open>
  An instant is the number of nanoseconds since Go's zero time (1 January of year 1,
  UTC), so \<^verbatim>\<open>IsZero\<close> is \<open>= 0\<close>, \<^verbatim>\<open>Before\<close> is \<open><\<close>.  \<^verbatim>\<open>time.Since\<close> saturates at the
  range of a 64-bit \<^verbatim>\<open>Duration\<close>.
\<close>

type_synonym time = int

definition time_since :: "time \<Rightarrow> time \<Rightarrow> int" where
  "time_since now t = max (- (2 ^ 63)) (min (2 ^ 63 - 1) (now - t))"

text \<open>\<^verbatim>\<open>errors\<close> are the left summand of a result.\<close>

type_synonym ('e, 'a) result = "'e + 'a"

abbreviation is_ok :: "('e, 'a) result \<Rightarrow> bool" where
  "is_ok r \<equiv> \<not> isl r"

end
