(* ===== verification/Json_Values.thy ===== *)
theory Json_Values
  imports Go_Prelude "HOL-Library.Word"
begin

text \<open>
  The dynamic values (\<^verbatim>\<open>any\<close>) that JSON decoding produces: what
  \<^verbatim>\<open>encoding/json\<close> and the Kubernetes unstructured decoder put into a
  \<^verbatim>\<open>map[string]any\<close>.  An object is the association list of its fields in some
  iteration order (Go iterates maps in an unspecified order); an \<^verbatim>\<open>int64\<close> is an
  integer and a \<^verbatim>\<open>float64\<close> its 64 bits.  \<open>JMarker\<close> is the value of the Go struct
  \<^verbatim>\<open>redaction.Marker\<close> (\<^verbatim>\<open>internal/audit/redaction/redact.go\<close>), which the redactor
  stores into such trees in place of a field.
\<close>

section \<open>Values\<close>

datatype json =
    JNull
  | JBool bool
  | JInt int
  | JFloat "64 word"
  | JString string
  | JArr "json list"
  | JObj "(string \<times> json) list"
  | JMarker string

text \<open>Reading a field of an object, and following a path of keys.\<close>

fun json_field :: "json \<Rightarrow> string \<Rightarrow> json option" where
  "json_field (JObj fs) k = map_of fs k"
| "json_field _ k = None"

fun json_at :: "json \<Rightarrow> string list \<Rightarrow> json option" where
  "json_at v [] = Some v"
| "json_at v (k # ks) =
     (case json_field v k of None \<Rightarrow> None | Some w \<Rightarrow> json_at w ks)"

text \<open>
  Well-formed values are those that stand for Go values: a map has each key once, at
  every depth.
\<close>

fun wf_json :: "json \<Rightarrow> bool" where
  "wf_json (JObj fs) = (distinct (map fst fs) \<and> (\<forall>(k, v) \<in> set fs. wf_json v))"
| "wf_json (JArr vs) = (\<forall>v \<in> set vs. wf_json v)"
| "wf_json _ = True"

text \<open>
  Two values are the same Go value when they differ in the order of map fields only.
\<close>

inductive json_eqv :: "json \<Rightarrow> json \<Rightarrow> bool" where
  eqv_refl: "json_eqv v v"
| eqv_arr: "list_all2 json_eqv vs ws \<Longrightarrow> json_eqv (JArr vs) (JArr ws)"
| eqv_obj: "mset gs = mset gs' \<Longrightarrow>
    list_all2 (\<lambda>x y. fst x = fst y \<and> json_eqv (snd x) (snd y)) fs gs \<Longrightarrow>
    json_eqv (JObj fs) (JObj gs')"

inductive_cases json_eqv_ObjE: "json_eqv (JObj fs) w"
inductive_cases json_eqv_ArrE: "json_eqv (JArr vs) w"

text \<open>The shape of a value: what is left when every leaf is forgotten.\<close>

fun json_keys :: "json \<Rightarrow> string list" where
  "json_keys (JObj fs) = map fst fs"
| "json_keys _ = []"

definition is_container :: "json \<Rightarrow> bool" where
  "is_container v \<longleftrightarrow> (case v of JArr _ \<Rightarrow> True | JObj _ \<Rightarrow> True | _ \<Rightarrow> False)"

lemma json_field_Some_Obj: "json_field v k = Some w \<Longrightarrow> \<exists>fs. v = JObj fs \<and> map_of fs k = Some w"
  by (cases v) auto

lemma map_of_map_val:
  "map_of (map (\<lambda>(k, v). (k, f k v)) fs) k = map_option (f k) (map_of fs k)"
  by (induction fs) auto

lemma map_of_mset_eq:
  assumes "mset fs = mset gs" and "distinct (map fst fs)"
  shows "map_of fs = map_of gs"
proof -
  have "mset (map fst fs) = mset (map fst gs)" using assms(1) by simp
  then have "distinct (map fst gs)" using assms(2) mset_eq_imp_distinct_iff by blast
  then show ?thesis using assms map_of_inject_set [of fs gs] mset_eq_setD by blast
qed

end
