(* ===== verification/Audit_Redaction.thy ===== *)
theory Audit_Redaction
  imports Json_Values
begin

text \<open>
  The field redactor of \<^verbatim>\<open>internal/audit/redaction/redact.go\<close>: the rule list, the
  matcher of dotted paths and the recursive walk that replaces matching fields by a
  marker.  The walk mutates a tree of maps in place; the model returns the new tree (a
  tree decoded from JSON shares no map between two positions, so the two agree).
  The lemmas say what the walk does at one key; the claims lift them to whole paths.
\<close>

section \<open>Rules\<close>

abbreviation ClassSecretBytes :: string where "ClassSecretBytes \<equiv> ''secret-bytes''"
abbreviation ClassBearerToken :: string where "ClassBearerToken \<equiv> ''bearer-token''"
abbreviation ClassTLSMaterial :: string where "ClassTLSMaterial \<equiv> ''tls-material''"
abbreviation ClassWebhookSecret :: string where "ClassWebhookSecret \<equiv> ''webhook-secret''"
abbreviation ClassPluginSensitive :: string where "ClassPluginSensitive \<equiv> ''plugin-sensitive''"

record Rule =
  Rule_ParentKind :: string
  Rule_FieldPath :: string
  Rule_Class :: string

abbreviation dot :: char where "dot \<equiv> CHR ''.''"
abbreviation backslash :: char where "backslash \<equiv> CHR 0x5C"

definition DefaultRules :: "Rule list" where
  "DefaultRules =
     [\<lparr>Rule_ParentKind = ''Secret'', Rule_FieldPath = ''data.*'', Rule_Class = ClassSecretBytes\<rparr>,
      \<lparr>Rule_ParentKind = ''Secret'', Rule_FieldPath = ''stringData.*'', Rule_Class = ClassSecretBytes\<rparr>,
      \<lparr>Rule_ParentKind = '''', Rule_FieldPath = ''spec.webhook.secret'', Rule_Class = ClassWebhookSecret\<rparr>,
      \<lparr>Rule_ParentKind = '''', Rule_FieldPath = ''spec.webhook.secretRef'', Rule_Class = ClassWebhookSecret\<rparr>,
      \<lparr>Rule_ParentKind = '''', Rule_FieldPath = ''data.tls'' @ [backslash] @ ''.crt'', Rule_Class = ClassTLSMaterial\<rparr>,
      \<lparr>Rule_ParentKind = '''', Rule_FieldPath = ''data.tls'' @ [backslash] @ ''.key'', Rule_Class = ClassTLSMaterial\<rparr>,
      \<lparr>Rule_ParentKind = '''', Rule_FieldPath = ''*.token'', Rule_Class = ClassBearerToken\<rparr>,
      \<lparr>Rule_ParentKind = '''', Rule_FieldPath = ''*.bearerToken'', Rule_Class = ClassBearerToken\<rparr>]"

section \<open>Paths\<close>

definition joinPath :: "string \<Rightarrow> string \<Rightarrow> string" where
  "joinPath parent segment = (if parent = [] then segment else parent @ ''.'' @ segment)"

definition indexSegment :: "nat \<Rightarrow> string" where
  "indexSegment i = ''[]''"

text \<open>
  The loop of \<^verbatim>\<open>pathMatches\<close> over the paired segments, with the unescaping of each
  pattern segment.
\<close>

fun segments_match :: "string list \<Rightarrow> string list \<Rightarrow> bool" where
  "segments_match (p # pp) (t # tp) =
     (let seg = replace_all [backslash, dot] [dot] p in
      if seg = ''*'' then segments_match pp tp
      else if seg \<noteq> t then False
      else segments_match pp tp)"
| "segments_match _ _ = True"

definition pathMatches :: "string \<Rightarrow> string \<Rightarrow> bool" where
  "pathMatches pattern path =
     (let pp = split_on dot pattern; tp = split_on dot path in
      if length pp \<noteq> length tp then False else segments_match pp tp)"

fun first_rule :: "Rule list \<Rightarrow> string \<Rightarrow> string \<Rightarrow> string option" where
  "first_rule [] kind path = None"
| "first_rule (r # rs) kind path =
     (if Rule_ParentKind r \<noteq> [] \<and> Rule_ParentKind r \<noteq> kind then first_rule rs kind path
      else if pathMatches (Rule_FieldPath r) path then Some (Rule_Class r)
      else first_rule rs kind path)"

definition matchRule :: "string \<Rightarrow> string \<Rightarrow> string option" where
  "matchRule kind path = first_rule DefaultRules kind path"

section \<open>The walk\<close>

text \<open>
  The special case of \<^verbatim>\<open>walk\<close>: a rule on the children of a container (\<^verbatim>\<open>data.*\<close>)
  redacts every key of the child map without descending; it does not apply when the
  child is no map.
\<close>

definition redact_children :: "string \<Rightarrow> string \<Rightarrow> json \<Rightarrow> json option" where
  "redact_children kind childPath child =
     (case matchRule kind (childPath @ ''.*'') of
        None \<Rightarrow> None
      | Some cls \<Rightarrow>
          (case child of
             JObj cs \<Rightarrow> Some (JObj (map (\<lambda>(ck, _). (ck, JMarker cls)) cs))
           | _ \<Rightarrow> None))"

function walk :: "string \<Rightarrow> string \<Rightarrow> json \<Rightarrow> json" where
  "walk kind path (JObj fs) =
     JObj (map (\<lambda>(k, child).
       let childPath = joinPath path k in
       (k, case matchRule kind childPath of
             Some cls \<Rightarrow> JMarker cls
           | None \<Rightarrow>
               (case redact_children kind childPath child of
                  Some child' \<Rightarrow> child'
                | None \<Rightarrow> walk kind childPath child))) fs)"
| "walk kind path (JArr vs) =
     JArr (map (\<lambda>(i, child). walk kind (joinPath path (indexSegment i)) child)
               (enumerate 0 vs))"
| "walk kind path JNull = JNull"
| "walk kind path (JBool b) = JBool b"
| "walk kind path (JInt i) = JInt i"
| "walk kind path (JFloat w) = JFloat w"
| "walk kind path (JString s) = JString s"
| "walk kind path (JMarker c) = JMarker c"
  by pat_completeness auto
termination
proof (relation "measure (\<lambda>(kind, path, v). size v)", goal_cases)
  case (2 kind path fs x k child)
  then have "(k, child) \<in> set fs" by simp
  then have "size_prod (\<lambda>_. 0) size (k, child) < Suc (size_list (size_prod (\<lambda>_. 0) size) fs)"
    by (intro le_imp_less_Suc size_list_estimation') auto
  then show ?case by simp
next
  case (3 kind path vs x i child)
  then have "child \<in> set vs" by (auto simp: in_set_enumerate_eq)
  then show ?case by (simp add: less_Suc_eq_le size_list_estimation')
qed simp_all

text \<open>The entry point: \<open>kind\<close> is the kind of the root object.\<close>

definition Apply :: "string \<Rightarrow> json \<Rightarrow> json" where
  "Apply kind root = walk kind [] root"

section \<open>The matcher\<close>

lemma segments_match_iff:
  "length pp = length tp \<Longrightarrow> \<forall>p \<in> set pp. dot \<notin> set p \<Longrightarrow>
   segments_match pp tp \<longleftrightarrow> list_all2 (\<lambda>p t. p = ''*'' \<or> p = t) pp tp"
  by (induction pp tp rule: segments_match.induct)
    (auto simp: Let_def replace_all_absent [where d = dot])

lemma pathMatches_iff:
  "pathMatches pattern path \<longleftrightarrow>
     list_all2 (\<lambda>p t. p = ''*'' \<or> p = t) (split_on dot pattern) (split_on dot path)"
proof (cases "length (split_on dot pattern) = length (split_on dot path)")
  case True
  then show ?thesis
    using segments_match_iff split_on_segments by (simp add: pathMatches_def Let_def)
next
  case False
  then show ?thesis by (auto simp: pathMatches_def Let_def dest: list_all2_lengthD)
qed

lemmas matchRule_simps =
  matchRule_def DefaultRules_def pathMatches_iff

lemma matchRule_kind_free: "matchRule kind path = None \<Longrightarrow> matchRule [] path = None"
  by (auto simp: matchRule_def DefaultRules_def split: if_splits)

section \<open>What the walk does at one key\<close>

lemma joinPath_neq_Nil: "k \<noteq> [] \<Longrightarrow> joinPath p k \<noteq> []"
  by (simp add: joinPath_def)

definition walk_child :: "string \<Rightarrow> string \<Rightarrow> string \<Rightarrow> json \<Rightarrow> json" where
  "walk_child kind path k child =
     (case matchRule kind (joinPath path k) of
        Some cls \<Rightarrow> JMarker cls
      | None \<Rightarrow>
          (case redact_children kind (joinPath path k) child of
             Some child' \<Rightarrow> child'
           | None \<Rightarrow> walk kind (joinPath path k) child))"

lemma walk_JObj: "walk kind path (JObj fs) = JObj (map (\<lambda>(k, v). (k, walk_child kind path k v)) fs)"
  by (simp add: walk_child_def Let_def)

lemma walk_JArr:
  "walk kind path (JArr vs) = JArr (map (walk kind (joinPath path ''[]'')) vs)"
  by (simp add: indexSegment_def comp_def enumerate_eq_zip case_prod_unfold
      flip: map_map [of _ snd, unfolded comp_def])

declare walk.simps(1,2) [simp del]
declare walk_JObj [simp] walk_JArr [simp]

lemma json_field_walk:
  "json_field (walk kind path v) k = map_option (walk_child kind path k) (json_field v k)"
  by (cases v) (auto simp: map_of_map_val)

lemma redact_children_SomeD:
  "redact_children kind p child = Some child' \<Longrightarrow>
   \<exists>cls cs. matchRule kind (p @ ''.*'') = Some cls \<and> child = JObj cs \<and>
     child' = JObj (map (\<lambda>(ck, _). (ck, JMarker cls)) cs)"
  by (auto simp: redact_children_def split: option.splits json.splits)

lemma redact_children_field:
  "redact_children kind p child = Some child' \<Longrightarrow> json_field child k = Some w \<Longrightarrow>
   \<exists>cls. matchRule kind (p @ ''.*'') = Some cls \<and> json_field child' k = Some (JMarker cls)"
  by (auto dest!: redact_children_SomeD simp: map_of_map_val)

lemma walk_child_hit: "matchRule kind (joinPath path k) = Some cls \<Longrightarrow> walk_child kind path k v = JMarker cls"
  by (simp add: walk_child_def)

text \<open>The dotted path of a list of keys, extending a given path.\<close>

fun path_from :: "string \<Rightarrow> string list \<Rightarrow> string" where
  "path_from p [] = p"
| "path_from p (k # ks) = path_from (joinPath p k) ks"

definition path_of :: "string list \<Rightarrow> string" where
  "path_of ks = path_from [] ks"

text \<open>A marker is met on the way along a path.\<close>

fun redacted_on :: "json \<Rightarrow> string list \<Rightarrow> bool" where
  "redacted_on (JMarker c) ks = True"
| "redacted_on v [] = False"
| "redacted_on v (k # ks) =
     (case json_field v k of None \<Rightarrow> False | Some w \<Rightarrow> redacted_on w ks)"

lemma redacted_on_Cons:
  "redacted_on v (k # ks) \<longleftrightarrow>
     (\<exists>c. v = JMarker c) \<or> (\<exists>w. json_field v k = Some w \<and> redacted_on w ks)"
  by (cases v) (auto split: option.splits)

lemma walk_redacts_from:
  "json_at v ks = Some w \<Longrightarrow> ks \<noteq> [] \<Longrightarrow> matchRule kind (path_from p ks) = Some cls \<Longrightarrow>
   redacted_on (walk kind p v) ks"
proof (induction ks arbitrary: v p)
  case (Cons k ks)
  then obtain child where child: "json_field v k = Some child" "json_at child ks = Some w"
    by (auto split: option.splits)
  have goal: "redacted_on (walk_child kind p k child) ks"
  proof (cases "matchRule kind (joinPath p k)")
    case None
    then have "ks \<noteq> []" using Cons.prems by auto
    then obtain k' ks' where ks: "ks = k' # ks'" by (cases ks) auto
    show ?thesis
    proof (cases "redact_children kind (joinPath p k) child")
      case None2: None
      then show ?thesis
        using None Cons.IH [OF child(2) \<open>ks \<noteq> []\<close>] Cons.prems(3) by (simp add: walk_child_def)
    next
      case (Some child')
      obtain w' where "json_field child k' = Some w'"
        using child(2) ks by (auto split: option.splits)
      then obtain c where "json_field child' k' = Some (JMarker c)"
        using redact_children_field [OF Some] by blast
      then show ?thesis
        using None Some ks by (auto simp: walk_child_def redacted_on_Cons)
    qed
  qed (simp add: walk_child_hit)
  then show ?case
    using child by (simp add: redacted_on_Cons json_field_walk)
qed simp

text \<open>Where no rule bites on the way, the walk reaches the value itself.\<close>

lemma walk_reaches:
  "json_at v ks = Some w \<Longrightarrow>
   \<forall>n. 0 < n \<and> n \<le> length ks \<longrightarrow>
     matchRule kind (path_from p (take n ks)) = None \<and>
     matchRule kind (path_from p (take n ks) @ ''.*'') = None \<Longrightarrow>
   json_at (walk kind p v) ks = Some (walk kind (path_from p ks) w)"
proof (induction ks arbitrary: v p)
  case (Cons k ks)
  then obtain child where child: "json_field v k = Some child" "json_at child ks = Some w"
    by (auto split: option.splits)
  have "matchRule kind (joinPath p k) = None \<and> matchRule kind (joinPath p k @ ''.*'') = None"
    using Cons.prems(2) [rule_format, of 1] by simp
  then have "walk_child kind p k child = walk kind (joinPath p k) child"
    by (simp add: walk_child_def redact_children_def)
  moreover have "json_at (walk kind (joinPath p k) child) ks =
      Some (walk kind (path_from (joinPath p k) ks) w)"
  proof (rule Cons.IH [OF child(2)], intro allI impI)
    fix n assume "0 < n \<and> n \<le> length ks"
    then show "matchRule kind (path_from (joinPath p k) (take n ks)) = None \<and>
        matchRule kind (path_from (joinPath p k) (take n ks) @ ''.*'') = None"
      using Cons.prems(2) [rule_format, of "Suc n"] by simp
  qed
  ultimately show ?case using child by (simp add: json_field_walk)
qed simp

lemma walk_leaf: "\<not> is_container w \<Longrightarrow> walk kind p w = w"
  by (cases w) (auto simp: is_container_def)

text \<open>A second walk changes nothing.\<close>

lemma redact_children_idem:
  "redact_children kind p child = Some child' \<Longrightarrow> redact_children kind p child' = Some child'"
  by (drule redact_children_SomeD) (auto simp: redact_children_def comp_def case_prod_unfold)

lemma redact_children_None_walk:
  "redact_children kind p child = None \<Longrightarrow> redact_children kind p (walk kind q child) = None"
  by (cases child) (auto simp: redact_children_def split: option.splits)

lemma walk_idem: "walk kind p (walk kind p v) = walk kind p v"
proof (induction v arbitrary: p)
  case (JObj fs)
  have "walk_child kind p k (walk_child kind p k child) = walk_child kind p k child"
    if "(k, child) \<in> set fs" for k child
  proof (cases "matchRule kind (joinPath p k)")
    case None
    have IH: "walk kind q (walk kind q child) = walk kind q child" for q
      using that by (intro JObj [of "(k, child)" child]) auto
    show ?thesis
    proof (cases "redact_children kind (joinPath p k) child")
      case None2: None
      then show ?thesis
        using None IH redact_children_None_walk [OF None2] by (simp add: walk_child_def)
    next
      case (Some child')
      then show ?thesis using None redact_children_idem by (simp add: walk_child_def)
    qed
  qed (simp add: walk_child_hit)
  then show ?case by (auto simp: comp_def case_prod_unfold)
qed (auto simp: comp_def)

text \<open>The iteration order of the maps does not matter.\<close>

lemma walk_child_eqv:
  assumes "json_eqv v w" and "\<And>p. json_eqv (walk kind p v) (walk kind p w)"
  shows "json_eqv (walk_child kind path k v) (walk_child kind path k w)"
proof (cases "matchRule kind (joinPath path k)")
  case None
  have "json_eqv (JObj (map (\<lambda>(ck, _). (ck, JMarker c)) fs)) (JObj (map (\<lambda>(ck, _). (ck, JMarker c)) gs'))"
    if "mset gs = mset gs'" and "list_all2 (\<lambda>x y. fst x = fst y \<and> json_eqv (snd x) (snd y)) fs gs"
    for c fs gs gs'
  proof -
    have "map (\<lambda>(ck, _). (ck, JMarker c)) fs = map (\<lambda>(ck, _). (ck, JMarker c)) gs"
      using that(2) by (induction rule: list_all2_induct) (auto simp: case_prod_unfold)
    then show ?thesis using that(1)
      by (intro eqv_obj [where gs = "map (\<lambda>(ck, _). (ck, JMarker c)) gs"])
        (auto intro: list_all2_refl eqv_refl)
  qed
  then show ?thesis
    using assms None
    by (auto simp: walk_child_def redact_children_def elim: json_eqv.cases
        intro: eqv_refl split: option.splits json.splits)
qed (simp add: walk_child_hit eqv_refl)

lemma walk_eqv: "json_eqv v w \<Longrightarrow> json_eqv (walk kind p v) (walk kind p w)"
proof (induction arbitrary: p rule: json_eqv.induct)
  case (eqv_refl v)
  show ?case by (rule json_eqv.eqv_refl)
next
  case (eqv_arr vs ws)
  then show ?case
    by (auto simp: list_all2_map1 list_all2_map2 intro!: json_eqv.eqv_arr elim!: list_all2_mono)
next
  case (eqv_obj gs gs' fs)
  let ?f = "\<lambda>(k, v). (k, walk_child kind p k v)"
  have "list_all2 (\<lambda>x y. fst x = fst y \<and> json_eqv (snd x) (snd y)) (map ?f fs) (map ?f gs)"
    using eqv_obj.IH
    by (auto simp: list_all2_map1 list_all2_map2 case_prod_unfold elim!: list_all2_mono
        intro!: walk_child_eqv)
  then show ?case
    using eqv_obj.hyps by (auto intro: json_eqv.eqv_obj [where gs = "map ?f gs"])
qed

lemma Apply_secret_data:
  assumes "container = ''data'' \<or> container = ''stringData''"
  shows "json_at (Apply ''Secret'' obj) [container, k] =
    map_option (\<lambda>_. JMarker ClassSecretBytes) (json_at obj [container, k])"
proof (cases "json_field obj container")
  case (Some child)
  have none: "matchRule ''Secret'' container = None"
    and all: "matchRule ''Secret'' (container @ ''.*'') = Some ClassSecretBytes"
    using assms by (auto simp: matchRule_simps)
  have child': "json_field (Apply ''Secret'' obj) container = Some (walk_child ''Secret'' [] container child)"
    using Some by (simp add: Apply_def json_field_walk)
  show ?thesis
  proof (cases "\<exists>fs. child = JObj fs")
    case True
    then show ?thesis using Some child' none all
      by (auto simp: walk_child_def redact_children_def joinPath_def map_of_map_val split: option.splits)
  next
    case False
    then have "json_field child k = None" by (cases child) auto
    moreover have "redact_children ''Secret'' container child = None"
      using False by (cases child) (simp_all add: redact_children_def split: option.splits)
    ultimately show ?thesis using Some child' none
      by (simp add: walk_child_def joinPath_def json_field_walk)
  qed
qed (simp add: Apply_def json_field_walk)

section \<open>Claims\<close>

text \<open>C1: Completeness of the redactor.  Whenever the dotted path of a field of a snapshot
  matches a rule for the kind of the object, the redacted snapshot has a marker on the way
  to that field (at the field itself or at a container above it), so the value is gone.\<close>
theorem redaction_complete:
  assumes "json_at obj ks = Some w" and "ks \<noteq> []" and "matchRule kind (path_of ks) = Some cls"
  shows "redacted_on (Apply kind obj) ks"
  using assms by (simp add: Apply_def path_of_def walk_redacts_from)

theorem redaction_complete_witness:
  "redacted_on (Apply ''Source'' (JObj [(''spec'', JObj [(''webhook'',
      JObj [(''secret'', JString ''hmac''), (''url'', JString ''u'')])])]))
    [''spec'', ''webhook'', ''secret'']"
  by (rule redaction_complete [where w = "JString ''hmac''" and cls = ClassWebhookSecret])
    (simp_all add: path_of_def joinPath_def matchRule_simps)

text \<open>C2: Secret payloads.  In the redacted snapshot of a Secret every entry of
  \<^verbatim>\<open>data\<close> and of \<^verbatim>\<open>stringData\<close> is the secret-bytes marker, whatever its key
  (keys with dots included).\<close>
theorem secret_data_redacted:
  assumes "container = ''data'' \<or> container = ''stringData''"
    and "json_at obj [container, k] = Some w"
  shows "json_at (Apply ''Secret'' obj) [container, k] = Some (JMarker ClassSecretBytes)"
  using Apply_secret_data [OF assms(1), of obj k] assms(2) by simp

theorem secret_data_redacted_witness:
  "json_at (Apply ''Secret'' (JObj [(''data'', JObj [(''tls.key'', JString ''k'')])]))
     [''data'', ''tls.key''] = Some (JMarker ClassSecretBytes)"
  by (rule secret_data_redacted [where w = "JString ''k''"]) simp_all

text \<open>C3: Precision of the redactor.  A scalar on whose path no rule matches (neither for a
  prefix of the path nor, through \<^verbatim>\<open>.*\<close>, for the children of one) is kept.\<close>
theorem redaction_preserves:
  assumes "json_at obj ks = Some w" and "\<not> is_container w"
    and "\<forall>n. 0 < n \<and> n \<le> length ks \<longrightarrow>
      matchRule kind (path_of (take n ks)) = None \<and>
      matchRule kind (path_of (take n ks) @ ''.*'') = None"
  shows "json_at (Apply kind obj) ks = Some w"
  using assms walk_reaches [of obj ks w kind "[]"] by (simp add: Apply_def path_of_def walk_leaf)

theorem redaction_preserves_witness:
  "json_at (Apply ''Secret'' (JObj [(''metadata'', JObj [(''name'', JString ''creds'')])]))
     [''metadata'', ''name''] = Some (JString ''creds'')"
proof (rule redaction_preserves)
  show "\<forall>n. 0 < n \<and> n \<le> length [''metadata'', ''name''] \<longrightarrow>
      matchRule ''Secret'' (path_of (take n [''metadata'', ''name''])) = None \<and>
      matchRule ''Secret'' (path_of (take n [''metadata'', ''name'']) @ ''.*'') = None"
  proof (intro allI impI)
    fix n :: nat
    assume "0 < n \<and> n \<le> length [''metadata'', ''name'']"
    then have "n = 1 \<or> n = 2" by auto
    then show "matchRule ''Secret'' (path_of (take n [''metadata'', ''name''])) = None \<and>
      matchRule ''Secret'' (path_of (take n [''metadata'', ''name'']) @ ''.*'') = None"
      by (elim disjE) (simp_all add: numeral_2_eq_2 path_of_def joinPath_def matchRule_simps)
  qed
qed (simp_all add: is_container_def)

text \<open>Redacting a snapshot twice is redacting it once.\<close>
theorem redaction_idempotent: "Apply kind (Apply kind obj) = Apply kind obj"
  by (simp add: Apply_def walk_idem)

text \<open>Go iterates a map in random order.  The redacted value does not depend on it:
  two presentations of the same Go value have redactions that present the same Go value.\<close>
theorem redaction_order_independent:
  assumes "json_eqv v w"
  shows "json_eqv (Apply kind v) (Apply kind w)"
  using assms by (simp add: Apply_def walk_eqv)

theorem redaction_order_independent_witness:
  "json_eqv (Apply ''Secret'' (JObj [(''data'', JNull), (''kind'', JString ''Secret'')]))
     (Apply ''Secret'' (JObj [(''kind'', JString ''Secret''), (''data'', JNull)]))"
proof (rule redaction_order_independent)
  let ?fs = "[(''data'', JNull), (''kind'', JString ''Secret'')]"
  show "json_eqv (JObj ?fs) (JObj [(''kind'', JString ''Secret''), (''data'', JNull)])"
    by (rule eqv_obj [where gs = ?fs]) (simp_all add: eqv_refl add_mset_commute)
qed

text \<open>The two TLS rules are dead.  Their escaped pattern is cut at the escaped dot too, so
  neither path is matched for any kind, and the key material under \<^verbatim>\<open>data\<close> of an object
  that is no Secret passes the redactor in the clear.\<close>
theorem tls_rules_never_match:
  "matchRule kind ''data.tls.crt'' = None \<and> matchRule kind ''data.tls.key'' = None \<and>
   Apply ''ConfigMap'' (JObj [(''data'', JObj [(''tls.crt'', JString c), (''tls.key'', JString k)])]) =
     JObj [(''data'', JObj [(''tls.crt'', JString c), (''tls.key'', JString k)])]"
  by (simp add: Apply_def walk_child_def redact_children_def joinPath_def matchRule_simps)

end
