(* ===== verification/Go_Errors.thy ===== *)
theory Go_Errors
  imports Go_Prelude
begin

text \<open>
  The error values that cross component boundaries, as one datatype: the sentinels of
  \<^verbatim>\<open>internal/api/readmodel/port.go\<close> and \<^verbatim>\<open>internal/api/server/errors.go\<close>, the
  parameter-binding errors of the generated router, \<^verbatim>\<open>fmt.Errorf\<close> with \<^verbatim>\<open>%w\<close>
  (\<open>Wrapped\<close>) and everything else (\<open>Opaque\<close>).  \<open>Sentinels\<close> compare by identity, so
  \<^verbatim>\<open>errors.Is\<close> and \<^verbatim>\<open>errors.As\<close> walk the chain that \<^verbatim>\<open>Unwrap\<close> exposes.
\<close>

section \<open>The errors\<close>

datatype goerr =
    ErrNotImplemented
  | ErrNotFound
  | ErrForbidden
  | ForbiddenError string string
  | RequiredParamError string
  | InvalidParamFormatError string goerr
  | TooManyValuesForParamError string int
  | UnmarshalingParamError string goerr
  | RequiredHeaderError string goerr
  | UnescapedCookieParamError string goerr
  | Wrapped string goerr
  | Opaque string

text \<open>
  \<open>Wrapped msg e\<close> is \<^verbatim>\<open>fmt.Errorf("msg: %w", e)\<close>: every use in the sources puts the
  wrapped error after a colon.
\<close>

fun error_string :: "goerr \<Rightarrow> string" where
  "error_string ErrNotImplemented =
     ''write path not implemented: Git-mutation engine pending (ADR 0003)''"
| "error_string ErrNotFound = ''readmodel: not found''"
| "error_string ErrForbidden = ''readmodel: forbidden''"
| "error_string (ForbiddenError verb resource) = ''forbidden: missing '' @ verb @ '' on '' @ resource"
| "error_string (RequiredParamError p) =
     ''Query argument '' @ p @ '' is required, but not found''"
| "error_string (InvalidParamFormatError p e) =
     ''Invalid format for parameter '' @ p @ '': '' @ error_string e"
| "error_string (TooManyValuesForParamError p n) =
     ''Expected one value for '' @ p @ '', got '' @ itoa n"
| "error_string (UnmarshalingParamError p e) =
     ''Error unmarshaling parameter '' @ p @ '' as JSON: '' @ error_string e"
| "error_string (RequiredHeaderError p e) =
     ''Header parameter '' @ p @ '' is required, but not found''"
| "error_string (UnescapedCookieParamError p e) =
     ''error unescaping cookie parameter '' @ [CHR 0x27] @ p @ [CHR 0x27]"
| "error_string (Wrapped msg e) = msg @ '': '' @ error_string e"
| "error_string (Opaque msg) = msg"

text \<open>The \<^verbatim>\<open>Unwrap\<close> methods.\<close>

fun unwrap :: "goerr \<Rightarrow> goerr option" where
  "unwrap (InvalidParamFormatError p e) = Some e"
| "unwrap (UnmarshalingParamError p e) = Some e"
| "unwrap (RequiredHeaderError p e) = Some e"
| "unwrap (UnescapedCookieParamError p e) = Some e"
| "unwrap (Wrapped msg e) = Some e"
| "unwrap _ = None"

text \<open>The chain an error heads, itself first.\<close>

function chain :: "goerr \<Rightarrow> goerr list" where
  "chain e = e # (case unwrap e of None \<Rightarrow> [] | Some e' \<Rightarrow> chain e')"
  by pat_completeness auto
termination
proof (relation "measure size", goal_cases)
  case (2 e e')
  then show ?case by (cases e) auto
qed simp

declare chain.simps [simp del]

lemma chain_simps [simp]:
  "chain ErrNotImplemented = [ErrNotImplemented]"
  "chain ErrNotFound = [ErrNotFound]"
  "chain ErrForbidden = [ErrForbidden]"
  "chain (ForbiddenError v r) = [ForbiddenError v r]"
  "chain (RequiredParamError p) = [RequiredParamError p]"
  "chain (InvalidParamFormatError p e) = InvalidParamFormatError p e # chain e"
  "chain (TooManyValuesForParamError p n) = [TooManyValuesForParamError p n]"
  "chain (UnmarshalingParamError p e) = UnmarshalingParamError p e # chain e"
  "chain (RequiredHeaderError p e) = RequiredHeaderError p e # chain e"
  "chain (UnescapedCookieParamError p e) = UnescapedCookieParamError p e # chain e"
  "chain (Wrapped msg e) = Wrapped msg e # chain e"
  "chain (Opaque msg) = [Opaque msg]"
  by (simp_all add: chain.simps)

lemma chain_hd: "e \<in> set (chain e)"
  by (subst chain.simps) simp

text \<open>
  \<^verbatim>\<open>errors.Is(err, sentinel)\<close>: the sentinel occurs in the chain.
  \<^verbatim>\<open>errors.As(err, &target)\<close> for a pointer type: the first link of that type.
\<close>

definition errors_is :: "goerr \<Rightarrow> goerr \<Rightarrow> bool" where
  "errors_is err sentinel \<longleftrightarrow> sentinel \<in> set (chain err)"

definition errors_as :: "(goerr \<Rightarrow> bool) \<Rightarrow> goerr \<Rightarrow> goerr option" where
  "errors_as is_type err = find is_type (chain err)"

lemma errors_is_refl [simp]: "errors_is e e"
  by (simp add: errors_is_def chain_hd)

lemma errors_is_Wrapped [simp]:
  "s \<noteq> Wrapped msg e \<Longrightarrow> errors_is (Wrapped msg e) s \<longleftrightarrow> errors_is e s"
  by (simp add: errors_is_def)

end
