(* ===== verification/Audit_Ulid.thy ===== *)
theory Audit_Ulid
  imports Go_Prelude "HOL-Library.Word"
begin

unbundle bit_operations_syntax

text \<open>
  Event identifiers, \<^verbatim>\<open>internal/audit/ulid.go\<close>: 48 bits of milliseconds and 80 bits of
  entropy in 26 Crockford base-32 characters.  The shifts and masks are those of the code
  on 64-, 16- and 8-bit words; the central lemma reads the 26 characters as the base-32
  digits of one number, from which length, alphabet, order and decoding follow.
\<close>

section \<open>Encoding\<close>

definition crockfordAlphabet :: string where
  "crockfordAlphabet = ''0123456789ABCDEFGHJKMNPQRSTVWXYZ''"

definition crock :: "'w::len word \<Rightarrow> char" where
  "crock w = crockfordAlphabet ! unat w"

text \<open>\<^verbatim>\<open>binary.BigEndian.Uint16\<close> and \<^verbatim>\<open>Uint64\<close> of a byte slice.\<close>

definition big_endian :: "8 word list \<Rightarrow> 'w::len word" where
  "big_endian bs = foldl (\<lambda>acc b. push_bit 8 acc OR ucast b) 0 bs"

definition encodeULID :: "64 word \<Rightarrow> 8 word list \<Rightarrow> string" where
  "encodeULID ms entropy =
     (let hi = big_endian (take 2 entropy) :: 16 word;
          lo = big_endian (take 8 (drop 2 entropy)) :: 64 word
      in [crock (drop_bit 45 ms AND 0x1F), crock (drop_bit 40 ms AND 0x1F),
          crock (drop_bit 35 ms AND 0x1F), crock (drop_bit 30 ms AND 0x1F),
          crock (drop_bit 25 ms AND 0x1F), crock (drop_bit 20 ms AND 0x1F),
          crock (drop_bit 15 ms AND 0x1F), crock (drop_bit 10 ms AND 0x1F),
          crock (drop_bit 5 ms AND 0x1F), crock (ms AND 0x1F),
          crock (drop_bit 11 hi AND 0x1F), crock (drop_bit 6 hi AND 0x1F),
          crock (drop_bit 1 hi AND 0x1F),
          crock (push_bit 4 (ucast (hi AND 0x01) :: 8 word) OR
                 (ucast (drop_bit 60 lo AND 0x0F) :: 8 word)),
          crock (drop_bit 55 lo AND 0x1F), crock (drop_bit 50 lo AND 0x1F),
          crock (drop_bit 45 lo AND 0x1F), crock (drop_bit 40 lo AND 0x1F),
          crock (drop_bit 35 lo AND 0x1F), crock (drop_bit 30 lo AND 0x1F),
          crock (drop_bit 25 lo AND 0x1F), crock (drop_bit 20 lo AND 0x1F),
          crock (drop_bit 15 lo AND 0x1F), crock (drop_bit 10 lo AND 0x1F),
          crock (drop_bit 5 lo AND 0x1F), crock (lo AND 0x1F)])"

text \<open>
  \<^verbatim>\<open>NewEventID\<close>: the clock in milliseconds and the outcome of \<^verbatim>\<open>rand.Read\<close> on the
  ten-byte buffer (\<^const>\<open>None\<close> when it fails) come from the environment; on failure the
  entropy is zeroed.
\<close>

definition NewEventID :: "64 word \<Rightarrow> 8 word list option \<Rightarrow> string" where
  "NewEventID ms rand_read =
     encodeULID ms (case rand_read of None \<Rightarrow> replicate 10 0 | Some buf \<Rightarrow> buf)"

text \<open>The shape check the tests use; the index and character of the error are kept.\<close>

datatype ulid_error = UlidLength nat | UlidChar char nat

fun check_chars :: "nat \<Rightarrow> string \<Rightarrow> ulid_error option" where
  "check_chars i [] = None"
| "check_chars i (c # cs) =
     (if c \<in> set crockfordAlphabet then check_chars (Suc i) cs else Some (UlidChar c i))"

definition validULID :: "string \<Rightarrow> ulid_error option" where
  "validULID s = (if length s \<noteq> 26 then Some (UlidLength (length s)) else check_chars 0 s)"

section \<open>Base-32 digits\<close>

text \<open>The \<open>n\<close> lowest base-32 digits of a number, most significant first.\<close>

fun b32 :: "nat \<Rightarrow> nat \<Rightarrow> nat list" where
  "b32 0 x = []"
| "b32 (Suc n) x = (x div 32 ^ n mod 32) # b32 n x"

definition unb32 :: "nat list \<Rightarrow> nat" where
  "unb32 ds = foldl (\<lambda>acc d. acc * 32 + d) 0 ds"

lemma length_b32 [simp]: "length (b32 n x) = n"
  by (induction n) auto

lemma b32_lt: "d \<in> set (b32 n x) \<Longrightarrow> d < 32"
  by (induction n) auto

lemma foldl_b32: "foldl (\<lambda>acc d. acc * 32 + d) a (b32 n x) = a * 32 ^ n + x mod 32 ^ n"
proof (induction n arbitrary: a)
  case (Suc n)
  have "x mod 32 ^ Suc n = x div 32 ^ n mod 32 * 32 ^ n + x mod 32 ^ n"
    by (metis add.commute mod_mult2_eq mult.commute power_Suc2)
  then show ?case by (simp only: b32.simps foldl_Cons Suc.IH) (simp add: algebra_simps)
qed simp

lemma unb32_b32: "unb32 (b32 n x) = x mod 32 ^ n"
  by (simp add: unb32_def foldl_b32)

lemma b32_mono: "x mod 32 ^ n < y mod 32 ^ n \<Longrightarrow> b32 n x < b32 n y"
proof (induction n)
  case (Suc n)
  have split: "z mod 32 ^ Suc n = z div 32 ^ n mod 32 * 32 ^ n + z mod 32 ^ n" for z :: nat
    by (metis add.commute mod_mult2_eq mult.commute power_Suc2)
  have "x div 32 ^ n mod 32 \<le> y div 32 ^ n mod 32"
  proof (rule ccontr)
    assume "\<not> ?thesis"
    then have "(y div 32 ^ n mod 32 + 1) * 32 ^ n \<le> x div 32 ^ n mod 32 * 32 ^ n"
      by (intro mult_le_mono1) simp
    moreover have "y mod 32 ^ n < 32 ^ n" by simp
    ultimately show False using Suc.prems unfolding split [of x] split [of y] add_mult_distrib
      by linarith
  qed
  then show ?case using Suc split [of x] split [of y] by (auto simp: le_less)
qed simp

section \<open>The characters are digits\<close>

lemma unat_and_31: "unat (w AND 0x1F) = unat (w :: 'w::len word) mod 32"
proof -
  have *: "w AND 0x1F = take_bit 5 w" by (simp add: take_bit_eq_mask mask_eq_exp_minus_1)
  show ?thesis unfolding * unsigned_take_bit_eq by (simp add: take_bit_eq_mod)
qed

lemma and_15: "w AND 0x0F = take_bit 4 (w :: 'w::len word)"
  by (simp add: take_bit_eq_mask mask_eq_exp_minus_1)

lemma unat_drop_and_31: "unat (drop_bit k w AND 0x1F) = unat (w :: 'w::len word) div 2 ^ k mod 32"
  unfolding unat_and_31 unat_drop_bit_eq by (simp add: drop_bit_eq_div)

lemma unat_or_disjoint:
  fixes a b :: "8 word"
  assumes "a AND b = 0" and "unat a + unat b < 256"
  shows "unat (a OR b) = unat a + unat b"
  using assms by (simp add: disjunctive_add_eq_or [symmetric] unat_word_ariths)

lemma crock_middle:
  fixes hi :: "16 word" and lo :: "64 word"
  shows "unat (push_bit 4 (ucast (hi AND 0x01) :: 8 word) OR (ucast (drop_bit 60 lo AND 0x0F) :: 8 word))
    = unat hi mod 2 * 16 + unat lo div 2 ^ 60"
proof -
  let ?a = "push_bit 4 (ucast (hi AND 0x01) :: 8 word)"
  let ?b = "ucast (drop_bit 60 lo AND 0x0F) :: 8 word"
  have hi1: "hi AND 0x01 = take_bit 1 hi" by (simp add: take_bit_eq_mask)
  have "unat ?a = take_bit 8 (push_bit 4 (take_bit 1 (unat hi)))"
    unfolding hi1 unsigned_push_bit_eq unsigned_ucast_eq unsigned_take_bit_eq by simp
  also have "\<dots> = unat hi mod 2 * 16"
    by (simp add: take_bit_eq_mod push_bit_eq_mult mod2_eq_if)
  finally have ua: "unat ?a = unat hi mod 2 * 16" .
  have lo: "unat lo div 2 ^ 60 < 16"
    using unsigned_less [of lo] by (simp add: div_less_iff_less_mult)
  have "unat ?b = take_bit 4 (unat lo div 2 ^ 60)"
    unfolding and_15 unsigned_ucast_eq unsigned_take_bit_eq unat_drop_bit_eq
    by (simp add: take_bit_take_bit drop_bit_eq_div)
  then have ub: "unat ?b = unat lo div 2 ^ 60" using lo by (simp add: take_bit_nat_eq_self)
  have "?a AND ?b = 0"
    by (simp only: and_15) (rule bit_word_eqI, auto simp: bit_simps)
  moreover have "unat ?a + unat ?b < 256" unfolding ua ub using lo by simp
  ultimately show ?thesis by (simp only: unat_or_disjoint ua ub)
qed

text \<open>
  The number an identifier stands for: the low 50 bits of the clock, then the entropy.
\<close>

definition entropy_hi :: "8 word list \<Rightarrow> nat" where
  "entropy_hi entropy = unat (big_endian (take 2 entropy) :: 16 word)"

definition entropy_lo :: "8 word list \<Rightarrow> nat" where
  "entropy_lo entropy = unat (big_endian (take 8 (drop 2 entropy)) :: 64 word)"

definition ulid_number :: "64 word \<Rightarrow> 8 word list \<Rightarrow> nat" where
  "ulid_number ms entropy =
     (unat ms mod 2 ^ 50) * 2 ^ 80 + entropy_hi entropy * 2 ^ 64 + entropy_lo entropy"

lemma entropy_bounds: "entropy_hi e < 2 ^ 16" "entropy_lo e < 2 ^ 64"
  using unsigned_less [of "big_endian (take 2 e) :: 16 word"]
    unsigned_less [of "big_endian (take 8 (drop 2 e)) :: 64 word"]
  by (simp_all add: entropy_hi_def entropy_lo_def)

lemma ulid_number_bound: "ulid_number ms e < 32 ^ 26"
proof -
  have "unat ms mod 2 ^ 50 < 2 ^ 50" by simp
  then show ?thesis using entropy_bounds [of e] by (simp add: ulid_number_def)
qed

text \<open>Splitting a number at a power of two, for the digits above and below the cut.\<close>

lemma div_split_high: "(l::nat) < 2 ^ c \<Longrightarrow> (h * 2 ^ c + l) div 2 ^ (c + k) = h div 2 ^ k"
  by (simp add: power_add div_mult2_eq)

lemma div_split_low:
  assumes "k + 5 \<le> c"
  shows "(h * 2 ^ c + l) div 2 ^ k mod 32 = (l::nat) div 2 ^ k mod 32"
proof -
  obtain d where c: "c = k + 5 + d" using assms le_Suc_ex by blast
  have "h * 2 ^ c + l = l + (h * 2 ^ d * 32) * 2 ^ k"
    unfolding c power_add by simp
  then have "(h * 2 ^ c + l) div 2 ^ k = h * 2 ^ d * 32 + l div 2 ^ k"
    by (simp only: div_mult_self1 power_not_zero [of "2::nat"]) simp
  then show ?thesis by simp
qed

text \<open>The three regions of the 26 digits, and the one that straddles the two halves.\<close>

lemma ulid_digit_time:
  "ulid_number ms e div 2 ^ (80 + k) mod 32 = unat ms div 2 ^ k mod 32" if "k + 5 \<le> 50"
proof -
  have "entropy_hi e * 2 ^ 64 + entropy_lo e < 2 ^ 80" using entropy_bounds [of e] by simp
  then have "ulid_number ms e div 2 ^ (80 + k) = (unat ms mod 2 ^ 50) div 2 ^ k"
    using div_split_high [of "entropy_hi e * 2 ^ 64 + entropy_lo e" 80 "unat ms mod 2 ^ 50" k]
    by (simp add: ulid_number_def add.assoc)
  also have "\<dots> mod 32 = (unat ms div 2 ^ 50 * 2 ^ 50 + unat ms mod 2 ^ 50) div 2 ^ k mod 32"
    by (rule div_split_low [OF that, symmetric])
  finally show ?thesis by (simp only: div_mult_mod_eq)
qed

lemma ulid_digit_hi:
  "ulid_number ms e div 2 ^ (64 + k) mod 32 = entropy_hi e div 2 ^ k mod 32" if "k + 5 \<le> 16"
proof -
  have "ulid_number ms e div 2 ^ (64 + k) =
      ((unat ms mod 2 ^ 50) * 2 ^ 16 + entropy_hi e) div 2 ^ k"
    using div_split_high [OF entropy_bounds(2), of "(unat ms mod 2 ^ 50) * 2 ^ 16 + entropy_hi e" e k]
    by (simp add: ulid_number_def algebra_simps)
  then show ?thesis by (simp only: div_split_low [OF that])
qed

lemma ulid_digit_middle:
  "ulid_number ms e div 2 ^ 60 mod 32 = entropy_hi e mod 2 * 16 + entropy_lo e div 2 ^ 60"
proof -
  let ?x = "entropy_lo e div 2 ^ 60" and ?h = "entropy_hi e"
  have lo: "?x < 16" using entropy_bounds(2) [of e] by (simp add: div_less_iff_less_mult)
  have "ulid_number ms e = entropy_lo e + (((unat ms mod 2 ^ 50) * 2 ^ 16 + ?h) * 16) * 2 ^ 60"
    by (simp add: ulid_number_def algebra_simps)
  then have "ulid_number ms e div 2 ^ 60 = ((unat ms mod 2 ^ 50) * 2 ^ 16 + ?h) * 16 + ?x"
    by (simp only: div_mult_self1 power_not_zero [of "2::nat"]) simp
  also have "\<dots> = (?h mod 2 * 16 + ?x) + ((unat ms mod 2 ^ 50) * 2 ^ 15 + ?h div 2) * 32"
  proof -
    have "?h * 16 = ?h mod 2 * 16 + ?h div 2 * 32" by presburger
    then show ?thesis by simp
  qed
  finally have "ulid_number ms e div 2 ^ 60 mod 32 = (?h mod 2 * 16 + ?x) mod 32"
    by (simp only: mod_mult_self1)
  also have "\<dots> = ?h mod 2 * 16 + ?x"
  proof (rule mod_less)
    have "?h mod 2 < 2" by simp
    then show "?h mod 2 * 16 + ?x < 32" using lo by linarith
  qed
  finally show ?thesis .
qed

lemma ulid_digit_lo:
  "ulid_number ms e div 2 ^ k mod 32 = entropy_lo e div 2 ^ k mod 32" if "k + 5 \<le> 64"
proof -
  have "ulid_number ms e = ((unat ms mod 2 ^ 50) * 2 ^ 16 + entropy_hi e) * 2 ^ 64 + entropy_lo e"
    by (simp add: ulid_number_def algebra_simps)
  then show ?thesis by (simp only: div_split_low [OF that])
qed

section \<open>The characters of an identifier\<close>

lemma b32_map: "b32 n x = map (\<lambda>i. x div 2 ^ (5 * i) mod 32) (rev [0..<n])"
proof (induction n)
  case (Suc n)
  have "(32::nat) ^ n = 2 ^ (5 * n)" by (simp add: power_mult)
  then show ?case using Suc by simp
qed simp

definition alphabet_digit :: "nat \<Rightarrow> char" where
  "alphabet_digit d = crockfordAlphabet ! d"

lemma encode_digits:
  "encodeULID ms e = map alphabet_digit (b32 26 (ulid_number ms e))"
proof -
  let ?d = "\<lambda>k. alphabet_digit (ulid_number ms e div 2 ^ k mod 32)"
  have time: "crock (drop_bit k ms AND 0x1F) = ?d (80 + k)" if "k + 5 \<le> 50" for k
    by (simp only: crock_def alphabet_digit_def unat_drop_and_31 ulid_digit_time [OF that])
  have time0: "crock (ms AND 0x1F) = ?d 80" using time [of 0] by simp
  have hi: "crock (drop_bit k (big_endian (take 2 e) :: 16 word) AND 0x1F) = ?d (64 + k)"
    if "k + 5 \<le> 16" for k
    by (simp only: crock_def alphabet_digit_def unat_drop_and_31 ulid_digit_hi [OF that] entropy_hi_def)
  have hi1: "crock (drop_bit 1 (big_endian (take 2 e) :: 16 word) AND 0x1F) = ?d 65"
    using hi [of 1] by simp
  have lo: "crock (drop_bit k (big_endian (take 8 (drop 2 e)) :: 64 word) AND 0x1F) = ?d k"
    if "k + 5 \<le> 64" for k
    by (simp only: crock_def alphabet_digit_def unat_drop_and_31 ulid_digit_lo [OF that] entropy_lo_def)
  have lo0: "crock ((big_endian (take 8 (drop 2 e)) :: 64 word) AND 0x1F) = ?d 0"
    using lo [of 0] by simp
  have middle: "crock (push_bit 4 (ucast ((big_endian (take 2 e) :: 16 word) AND 0x01) :: 8 word) OR
      (ucast (drop_bit 60 (big_endian (take 8 (drop 2 e)) :: 64 word) AND 0x0F) :: 8 word)) = ?d 60"
    by (simp only: crock_def alphabet_digit_def crock_middle ulid_digit_middle entropy_hi_def entropy_lo_def)
  have "encodeULID ms e = map ?d [125, 120, 115, 110, 105, 100, 95, 90, 85, 80, 75, 70, 65, 60,
      55, 50, 45, 40, 35, 30, 25, 20, 15, 10, 5, 0]"
    unfolding encodeULID_def Let_def list.map middle time0 lo0 hi1
    by (simp only: time hi lo arith_simps)
  moreover have "map (\<lambda>i. 5 * i) (rev [0..<26]) = [125, 120, 115, 110, 105, 100, 95, 90, 85, 80,
      75, 70, 65, 60, 55, 50, 45, 40, 35, 30, 25, 20, 15, 10, 5, 0]"
    by code_simp
  moreover have "map alphabet_digit (b32 26 (ulid_number ms e)) = map ?d (map (\<lambda>i. 5 * i) (rev [0..<26]))"
    by (simp add: b32_map)
  ultimately show ?thesis by (simp only:)
qed


lemma length_alphabet: "length crockfordAlphabet = 32"
  by (simp add: crockfordAlphabet_def)

lemma alphabet_digit_mono: "d < d' \<Longrightarrow> d' < 32 \<Longrightarrow> alphabet_digit d < alphabet_digit d'"
proof -
  have "sorted_wrt (<) crockfordAlphabet"
    by (simp add: crockfordAlphabet_def less_char_def)
  then show "d < d' \<Longrightarrow> d' < 32 \<Longrightarrow> alphabet_digit d < alphabet_digit d'"
    by (simp add: alphabet_digit_def sorted_wrt_nth_less length_alphabet)
qed

lemma map_alphabet_mono:
  "length ds = length ds' \<Longrightarrow> \<forall>d \<in> set ds. d < 32 \<Longrightarrow> \<forall>d \<in> set ds'. d < 32 \<Longrightarrow> ds < ds' \<Longrightarrow>
   map alphabet_digit ds < map alphabet_digit ds'"
  by (induction ds ds' rule: list_induct2) (auto simp: alphabet_digit_mono)

lemma map_alphabet_inj:
  "length ds = length ds' \<Longrightarrow> \<forall>d \<in> set ds. d < 32 \<Longrightarrow> \<forall>d \<in> set ds'. d < 32 \<Longrightarrow>
   map alphabet_digit ds = map alphabet_digit ds' \<longleftrightarrow> ds = ds'"
proof (induction ds ds' rule: list_induct2)
  case (Cons d ds d' ds')
  then have "alphabet_digit d = alphabet_digit d' \<longleftrightarrow> d = d'"
    by (metis alphabet_digit_mono less_irrefl linorder_cases list.set_intros(1))
  with Cons show ?case by simp
qed simp

lemma check_chars_alphabet: "set s \<subseteq> set crockfordAlphabet \<Longrightarrow> check_chars i s = None"
  by (induction s arbitrary: i) auto

lemma encodeULID_eq_iff:
  "encodeULID ms e = encodeULID ms' e' \<longleftrightarrow> ulid_number ms e = ulid_number ms' e'"
proof -
  have "b32 26 (ulid_number ms e) = b32 26 (ulid_number ms' e') \<longleftrightarrow> ulid_number ms e = ulid_number ms' e'"
    by (metis mod_less ulid_number_bound unb32_b32)
  moreover have "map alphabet_digit (b32 26 (ulid_number ms e)) =
      map alphabet_digit (b32 26 (ulid_number ms' e')) \<longleftrightarrow>
      b32 26 (ulid_number ms e) = b32 26 (ulid_number ms' e')"
    by (rule map_alphabet_inj) (auto dest: b32_lt)
  ultimately show ?thesis by (simp only: encode_digits)
qed

section \<open>The entropy bytes are recovered\<close>

definition be_nat :: "8 word list \<Rightarrow> nat" where
  "be_nat bs = foldl (\<lambda>acc b. acc * 256 + unat b) 0 bs"

lemma be_nat_snoc: "be_nat (bs @ [b]) = be_nat bs * 256 + unat b"
  by (simp add: be_nat_def)

lemma be_nat_bound: "be_nat bs < 256 ^ length bs"
proof (induction bs rule: rev_induct)
  case (snoc b bs)
  have "unat b < 256" using unsigned_less [of b] by simp
  then show ?case using snoc.IH unfolding be_nat_snoc by simp
qed (simp add: be_nat_def)

lemma be_nat_inj: "length bs = length cs \<Longrightarrow> be_nat bs = be_nat cs \<Longrightarrow> bs = cs"
proof (induction bs arbitrary: cs rule: rev_induct)
  case (snoc b bs)
  then obtain c ds where cs: "cs = ds @ [c]" by (cases cs rule: rev_cases) auto
  have small: "unat b < 256" "unat c < 256" using unsigned_less [of b] unsigned_less [of c] by simp_all
  have eq: "be_nat bs * 256 + unat b = be_nat ds * 256 + unat c"
    using snoc.prems(2) by (simp only: cs be_nat_snoc)
  have "be_nat bs = be_nat ds" "unat b = unat c"
    using arg_cong [OF eq, of "\<lambda>x. x div 256"] arg_cong [OF eq, of "\<lambda>x. x mod 256"] small by simp_all
  then show ?case using snoc by (simp add: cs word_unat_eq_iff)
qed simp

lemma big_endian_snoc:
  "big_endian (bs @ [b]) = push_bit 8 (big_endian bs) + (ucast b :: 'w::len word)"
proof -
  have "push_bit 8 (big_endian bs :: 'w word) AND ucast b = 0"
    by (rule bit_word_eqI) (auto simp: bit_simps dest: bit_imp_le_length)
  then show ?thesis by (simp add: big_endian_def disjunctive_add_eq_or)
qed

lemma unat_big_endian:
  "8 * length bs \<le> LENGTH('w) \<Longrightarrow> unat (big_endian bs :: 'w::len word) = be_nat bs"
proof (induction bs rule: rev_induct)
  case (snoc b bs)
  have "be_nat (bs @ [b]) < 256 ^ length (bs @ [b])" by (rule be_nat_bound)
  also have "\<dots> = 2 ^ (8 * length (bs @ [b]))" by (simp add: power_mult power_add)
  also have "\<dots> \<le> 2 ^ LENGTH('w)" using snoc.prems by (intro power_increasing) auto
  finally have bound: "be_nat bs * 256 + unat b < 2 ^ LENGTH('w)" by (simp only: be_nat_snoc)
  have "unat b < 2 ^ LENGTH('w)" using bound by simp
  then have ub: "unat (ucast b :: 'w word) = unat b" by (simp add: unsigned_ucast_eq take_bit_nat_eq_self)
  have "unat (push_bit 8 (big_endian bs) :: 'w word) = take_bit LENGTH('w) (be_nat bs * 256)"
    unfolding unsigned_push_bit_eq using snoc by (simp add: push_bit_eq_mult)
  also have "\<dots> = be_nat bs * 256" using bound by (intro take_bit_nat_eq_self) simp
  finally have "unat (push_bit 8 (big_endian bs) :: 'w word) = be_nat bs * 256" .
  then show ?case
    using bound ub by (simp only: big_endian_snoc be_nat_snoc unat_word_ariths mod_less)
qed (simp add: big_endian_def be_nat_def)

lemma ulid_number_inj:
  assumes "length e = 10" "length e' = 10"
    and "unat ms < 2 ^ 50" "unat ms' < 2 ^ 50" and eq: "ulid_number ms e = ulid_number ms' e'"
  shows "ms = ms' \<and> e = e'"
proof -
  have form: "ulid_number m x = (unat m * 2 ^ 16 + entropy_hi x) * 2 ^ 64 + entropy_lo x"
    if "unat m < 2 ^ 50" for m x
    using that by (simp add: ulid_number_def)
  have lo: "ulid_number m x mod 2 ^ 64 = entropy_lo x" if "unat m < 2 ^ 50" for m x
    using entropy_bounds(2) [of x] by (simp only: form [OF that] mod_mult_self3 mod_less)
  have hi: "ulid_number m x div 2 ^ 64 = unat m * 2 ^ 16 + entropy_hi x" if "unat m < 2 ^ 50" for m x
    using entropy_bounds(2) [of x] unfolding form [OF that] by simp
  have "unat ms * 2 ^ 16 + entropy_hi e = unat ms' * 2 ^ 16 + entropy_hi e'"
    using eq hi assms(3,4) by metis
  then have "(unat ms * 2 ^ 16 + entropy_hi e) div 2 ^ 16 = (unat ms' * 2 ^ 16 + entropy_hi e') div 2 ^ 16"
    and "(unat ms * 2 ^ 16 + entropy_hi e) mod 2 ^ 16 = (unat ms' * 2 ^ 16 + entropy_hi e') mod 2 ^ 16"
    by (simp_all only:)
  then have uu: "unat ms = unat ms'" and hi_eq: "entropy_hi e = entropy_hi e'"
    using entropy_bounds(1) [of e] entropy_bounds(1) [of e'] by simp_all
  have "entropy_lo e = entropy_lo e'" using eq lo assms(3,4) by metis
  then have "be_nat (drop 2 e) = be_nat (drop 2 e')"
    using assms(1,2) by (simp add: entropy_lo_def unat_big_endian)
  then have "drop 2 e = drop 2 e'" using assms(1,2) by (intro be_nat_inj) simp_all
  moreover have "take 2 e = take 2 e'"
    using hi_eq assms(1,2) by (intro be_nat_inj) (simp_all add: entropy_hi_def unat_big_endian)
  ultimately have "e = e'" by (metis append_take_drop_id)
  then show ?thesis using uu by (simp add: word_unat_eq_iff)
qed


lemma time_dominates:
  assumes "unat ms < unat ms'" "unat ms' < 2 ^ 50"
  shows "ulid_number ms e < ulid_number ms' e'"
proof -
  have "(unat ms + 1) * 2 ^ 80 \<le> unat ms' * 2 ^ 80" using assms(1) by (intro mult_le_mono1) simp
  then show ?thesis
    using assms entropy_bounds [of e] by (simp add: ulid_number_def)
qed

section \<open>Claims\<close>

text \<open>C33: Every event id is a well-formed ULID: 26 characters of the Crockford alphabet, for
  any clock value and entropy, also when the random source fails.\<close>
theorem event_id_well_formed: "validULID (NewEventID ms rand_read) = None"
proof -
  have "set (encodeULID ms e) \<subseteq> set crockfordAlphabet" for e
    by (auto simp: encode_digits alphabet_digit_def length_alphabet intro!: nth_mem dest: b32_lt)
  moreover have "length (encodeULID ms e) = 26" for e by (simp only: encode_digits length_map length_b32)
  ultimately show ?thesis by (simp add: NewEventID_def validULID_def check_chars_alphabet)
qed

text \<open>C34: Event ids sort by time.  Below the 48-bit horizon of the format, an id of an earlier
  millisecond is a smaller string than one of a later millisecond, whatever the entropy.\<close>
theorem event_ids_sort_by_time:
  assumes "unat ms < unat ms'" and "unat ms' < 2 ^ 48"
  shows "NewEventID ms r < NewEventID ms' r'"
proof -
  have "encodeULID ms e < encodeULID ms' e'" for e e'
    unfolding encode_digits
  proof (rule map_alphabet_mono)
    have "ulid_number ms e < ulid_number ms' e'" by (rule time_dominates) (use assms in simp_all)
    then show "b32 26 (ulid_number ms e) < b32 26 (ulid_number ms' e')"
      by (intro b32_mono) (simp only: mod_less ulid_number_bound)
  qed (auto dest: b32_lt)
  then show ?thesis by (simp add: NewEventID_def)
qed

theorem event_ids_sort_by_time_witness: "NewEventID 1 (Some (replicate 10 255)) < NewEventID 2 None"
  by (rule event_ids_sort_by_time) simp_all

text \<open>The encoding loses nothing: within the 48-bit horizon and with ten bytes of
  entropy, two ids are equal exactly when their times and their entropies are.\<close>
theorem ulid_injective:
  assumes "unat ms < 2 ^ 48" "unat ms' < 2 ^ 48" and "length e = 10" "length e' = 10"
  shows "encodeULID ms e = encodeULID ms' e' \<longleftrightarrow> ms = ms' \<and> e = e'"
proof -
  have "unat ms < 2 ^ 50" "unat ms' < 2 ^ 50" using assms by simp_all
  then have "ulid_number ms e = ulid_number ms' e' \<Longrightarrow> ms = ms' \<and> e = e'"
    by (rule ulid_number_inj [OF assms(3,4)])
  then show ?thesis unfolding encodeULID_eq_iff by blast
qed

theorem ulid_injective_witness:
  "encodeULID 7 (replicate 10 0) \<noteq> encodeULID 7 (replicate 10 1)"
proof -
  have "(replicate 10 0 :: 8 word list) \<noteq> replicate 10 1" by (simp add: replicate_eq_replicate)
  then show ?thesis by (subst ulid_injective) simp_all
qed

end
