(* ===== verification/Audit_Emitter.thy ===== *)
theory Audit_Emitter
  imports Json_Values Go_Errors Audit_Ulid "HOL-Library.Sublist"
begin

text \<open>
  The audit envelope and its emission, \<^verbatim>\<open>internal/audit\<close> (\<^verbatim>\<open>types.go\<close>,
  \<^verbatim>\<open>envelope.go\<close>, \<^verbatim>\<open>payload.go\<close>, \<^verbatim>\<open>emitter.go\<close>) and its payload registry
  \<^verbatim>\<open>internal/audit/payloads\<close>.  The \<^verbatim>\<open>Emitter\<close> interface is the locale
  \<open>emitter\<close>; the helper \<^verbatim>\<open>Emit\<close> is verified against its contract and the two
  implementations of the package, \<open>LogEmitter\<close> and \<open>InMemoryEmitter\<close>, are shown to
  satisfy it.
\<close>

section \<open>Enumerations\<close>

abbreviation SchemaVersion :: string where "SchemaVersion \<equiv> ''audit/v1''"

type_synonym ActorType = string

abbreviation ActorHuman :: string where "ActorHuman \<equiv> ''human''"
abbreviation ActorCI :: string where "ActorCI \<equiv> ''ci''"
abbreviation ActorAgent :: string where "ActorAgent \<equiv> ''agent''"
abbreviation ActorSystem :: string where "ActorSystem \<equiv> ''system''"

definition ActorType_values :: "string list" where
  "ActorType_values = [ActorHuman, ActorCI, ActorAgent, ActorSystem]"

type_synonym Outcome = string

abbreviation OutcomeSuccess :: string where "OutcomeSuccess \<equiv> ''success''"
abbreviation OutcomeDenied :: string where "OutcomeDenied \<equiv> ''denied''"
abbreviation OutcomeError :: string where "OutcomeError \<equiv> ''error''"
abbreviation OutcomePartial :: string where "OutcomePartial \<equiv> ''partial''"

definition Outcome_values :: "string list" where
  "Outcome_values = [OutcomeSuccess, OutcomeDenied, OutcomeError, OutcomePartial]"

type_synonym Verb = string

abbreviation VerbCreate :: string where "VerbCreate \<equiv> ''create''"
abbreviation VerbEdit :: string where "VerbEdit \<equiv> ''edit''"
abbreviation VerbDelete :: string where "VerbDelete \<equiv> ''delete''"
abbreviation VerbView :: string where "VerbView \<equiv> ''view''"

definition Verb_values :: "string list" where
  "Verb_values = [VerbCreate, VerbEdit, VerbDelete, VerbView]"

section \<open>The envelope\<close>

text \<open>
  \<^verbatim>\<open>Actor\<close> points to another \<^verbatim>\<open>Actor\<close>, so it is a datatype; a field of type
  \<^verbatim>\<open>any\<close> is an option whose \<^const>\<open>None\<close> is the nil interface.
\<close>

datatype Actor = Actor
  (Actor_Type: ActorType)
  (Actor_Subject: string)
  (Actor_SubjectID: string)
  (Actor_IdentityProvider: string)
  (Actor_Groups: "string list")
  (Actor_DelegatedFrom: "Actor option")

record ActionSubject =
  ActionSubject_APIGroup :: string
  ActionSubject_Version :: string
  ActionSubject_Kind :: string
  ActionSubject_Namespace :: string
  ActionSubject_Name :: string
  ActionSubject_ULID :: string

record Action =
  Action_Verb :: Verb
  Action_Scope :: string
  Action_Subject :: ActionSubject

record Context =
  Context_SourceIP :: string
  Context_UserAgent :: string
  Context_AuditTicket :: string
  Context_ClusterName :: string
  Context_Shard :: string

record Result =
  Result_Outcome :: Outcome
  Result_Reason :: string
  Result_Before :: "json option"
  Result_After :: "json option"

record Evidence =
  Evidence_Kind :: string
  Evidence_Hash :: string
  Evidence_ObjectRef :: string
  Evidence_Store :: string
  Evidence_Label :: string

record Envelope =
  Envelope_SchemaVersion :: string
  Envelope_EventID :: string
  Envelope_OccurredAt :: time
  Envelope_RecordedAt :: "time option"
  Envelope_RequestID :: string
  Envelope_SessionID :: string
  Envelope_TraceParent :: string
  Envelope_Actor :: Actor
  Envelope_Action :: Action
  Envelope_Intent :: string
  Envelope_Context :: Context
  Envelope_Result :: Result
  Envelope_Payload :: "json option"
  Envelope_Evidence :: "Evidence list"

section \<open>Its JSON form\<close>

text \<open>
  \<^verbatim>\<open>encoding/json\<close> on the struct tags: a plain tag always writes the field, an
  \<^verbatim>\<open>omitempty\<close> tag leaves out an empty string, an empty slice, a nil pointer and a
  nil interface.  Instants are written by the argument \<open>rfc3339\<close>.
\<close>

definition required :: "string \<Rightarrow> json \<Rightarrow> (string \<times> json) list" where
  "required tag v = [(tag, v)]"

definition opt_string :: "string \<Rightarrow> string \<Rightarrow> (string \<times> json) list" where
  "opt_string tag s = (if s = [] then [] else [(tag, JString s)])"

definition opt_json :: "string \<Rightarrow> json option \<Rightarrow> (string \<times> json) list" where
  "opt_json tag v = (case v of None \<Rightarrow> [] | Some j \<Rightarrow> [(tag, j)])"

definition opt_list :: "string \<Rightarrow> json list \<Rightarrow> (string \<times> json) list" where
  "opt_list tag vs = (if vs = [] then [] else [(tag, JArr vs)])"

fun actor_json :: "Actor \<Rightarrow> json" where
  "actor_json (Actor t s sid idp gs from) =
     JObj (required ''type'' (JString t) @ required ''subject'' (JString s) @ opt_string ''subjectId'' sid @
           opt_string ''identityProvider'' idp @ opt_list ''groups'' (map JString gs) @
           opt_json ''delegatedFrom'' (case from of None \<Rightarrow> None | Some a \<Rightarrow> Some (actor_json a)))"

definition subject_json :: "ActionSubject \<Rightarrow> json" where
  "subject_json s = JObj
     (opt_string ''apiGroup'' (ActionSubject_APIGroup s) @
      opt_string ''version'' (ActionSubject_Version s) @
      opt_string ''kind'' (ActionSubject_Kind s) @
      opt_string ''namespace'' (ActionSubject_Namespace s) @
      opt_string ''name'' (ActionSubject_Name s) @
      opt_string ''ulid'' (ActionSubject_ULID s))"

definition action_json :: "Action \<Rightarrow> json" where
  "action_json a = JObj
     (required ''verb'' (JString (Action_Verb a)) @ opt_string ''scope'' (Action_Scope a) @
      required ''subject'' (subject_json (Action_Subject a)))"

definition context_json :: "Context \<Rightarrow> json" where
  "context_json c = JObj
     (opt_string ''sourceIp'' (Context_SourceIP c) @
      opt_string ''userAgent'' (Context_UserAgent c) @
      opt_string ''auditTicket'' (Context_AuditTicket c) @
      opt_string ''clusterName'' (Context_ClusterName c) @
      opt_string ''shard'' (Context_Shard c))"

definition result_json :: "Result \<Rightarrow> json" where
  "result_json r = JObj
     (required ''outcome'' (JString (Result_Outcome r)) @ opt_string ''reason'' (Result_Reason r) @
      opt_json ''before'' (Result_Before r) @ opt_json ''after'' (Result_After r))"

definition evidence_json :: "Evidence \<Rightarrow> json" where
  "evidence_json e = JObj
     (required ''kind'' (JString (Evidence_Kind e)) @ opt_string ''hash'' (Evidence_Hash e) @
      opt_string ''objectRef'' (Evidence_ObjectRef e) @ opt_string ''store'' (Evidence_Store e) @
      opt_string ''label'' (Evidence_Label e))"

definition envelope_json :: "(time \<Rightarrow> string) \<Rightarrow> Envelope \<Rightarrow> json" where
  "envelope_json rfc3339 env = JObj
     (required ''schemaVersion'' (JString (Envelope_SchemaVersion env)) @
      required ''eventId'' (JString (Envelope_EventID env)) @
      required ''occurredAt'' (JString (rfc3339 (Envelope_OccurredAt env))) @
      opt_json ''recordedAt'' (map_option (\<lambda>t. JString (rfc3339 t)) (Envelope_RecordedAt env)) @
      opt_string ''requestId'' (Envelope_RequestID env) @
      opt_string ''sessionId'' (Envelope_SessionID env) @
      opt_string ''traceparent'' (Envelope_TraceParent env) @
      required ''actor'' (actor_json (Envelope_Actor env)) @
      required ''action'' (action_json (Envelope_Action env)) @
      opt_string ''intent'' (Envelope_Intent env) @
      required ''context'' (context_json (Envelope_Context env)) @
      required ''result'' (result_json (Envelope_Result env)) @
      opt_json ''payload'' (Envelope_Payload env) @
      opt_list ''evidence'' (map evidence_json (Envelope_Evidence env)))"

text \<open>
  \<^verbatim>\<open>json.Marshal\<close> fails on an instant outside the years 0 to 9999 and on a float that
  is infinite or not a number (which of the three, the message would say, is left out).
\<close>

fun unsupported :: "json \<Rightarrow> bool" where
  "unsupported (JFloat w) = (take_bit 11 (drop_bit 52 w) = mask 11)"
| "unsupported (JArr vs) = (\<exists>v \<in> set vs. unsupported v)"
| "unsupported (JObj fs) = (\<exists>(k, v) \<in> set fs. unsupported v)"
| "unsupported _ = False"

definition time_in_range :: "time \<Rightarrow> bool" where
  "time_in_range t \<longleftrightarrow> - 366 * 86400 * 10 ^ 9 \<le> t \<and> t < 3652059 * 86400 * 10 ^ 9"

definition marshal_envelope :: "(time \<Rightarrow> string) \<Rightarrow> Envelope \<Rightarrow> (goerr, json) result" where
  "marshal_envelope rfc3339 env =
     (if \<not> time_in_range (Envelope_OccurredAt env) \<or>
         (case Envelope_RecordedAt env of None \<Rightarrow> False | Some t \<Rightarrow> \<not> time_in_range t)
      then Inl (Opaque ''json: error calling MarshalJSON for type time.Time: Time.MarshalJSON: year outside of range [0,9999]'')
      else if unsupported (envelope_json rfc3339 env) then Inl (Opaque ''json: unsupported value'')
      else Inr (envelope_json rfc3339 env))"

section \<open>Payloads and their registry\<close>

text \<open>
  A value of the \<^verbatim>\<open>Payload\<close> interface: its methods, the name of its Go type (printed
  by \<^verbatim>\<open>%T\<close>) and the JSON value \<^verbatim>\<open>json.Marshal\<close> gives for it, as decoding would
  read it back.
\<close>

record Payload =
  Payload_AuditType :: string
  Payload_Validate :: "goerr option"
  Payload_GoType :: string
  Payload_Marshal :: "(goerr, json) result"

record CRDWriteV1 =
  CRDWriteV1_Patch :: "json list"
  CRDWriteV1_SubresourceWrite :: bool
  CRDWriteV1_DryRun :: bool

definition opt_bool :: "string \<Rightarrow> bool \<Rightarrow> (string \<times> json) list" where
  "opt_bool tag b = (if b then [(tag, JBool True)] else [])"

definition crdwrite_json :: "CRDWriteV1 \<Rightarrow> json" where
  "crdwrite_json p = JObj
     (opt_list ''patch'' (CRDWriteV1_Patch p) @
      opt_bool ''subresourceWrite'' (CRDWriteV1_SubresourceWrite p) @
      opt_bool ''dryRun'' (CRDWriteV1_DryRun p))"

definition crdwrite_payload :: "CRDWriteV1 \<Rightarrow> Payload" where
  "crdwrite_payload p =
     \<lparr>Payload_AuditType = ''crd.write.v1'', Payload_Validate = None,
      Payload_GoType = ''payloads.CRDWriteV1'',
      Payload_Marshal =
        (if unsupported (crdwrite_json p) then Inl (Opaque ''json: unsupported value'')
         else Inr (crdwrite_json p))\<rparr>"

definition Registry :: "string \<rightharpoonup> string" where
  "Registry = [''create'' \<mapsto> ''crd.write.v1'', ''edit'' \<mapsto> ''crd.write.v1'',
     ''delete'' \<mapsto> ''crd.write.v1'', ''view'' \<mapsto> '''']"

definition AllowedPayloadType :: "string \<Rightarrow> string option" where
  "AllowedPayloadType verb = Registry verb"

definition validatePayloadForVerb :: "string \<Rightarrow> Payload option \<Rightarrow> goerr option" where
  "validatePayloadForVerb verb p =
     (case AllowedPayloadType verb of
        None \<Rightarrow> Some (Opaque (''audit: verb '' @ go_quote verb @ '' is not in the '' @ [CHR 0xC2, CHR 0xA7] @ ''13 registry''))
      | Some want \<Rightarrow>
          if want = [] then
            (case p of
               Some q \<Rightarrow> Some (Opaque (''audit: verb '' @ go_quote verb @ '' takes no payload, got '' @ Payload_GoType q))
             | None \<Rightarrow> None)
          else
            (case p of
               None \<Rightarrow> Some (Opaque (''audit: verb '' @ go_quote verb @ '' requires payload @type '' @ go_quote want))
             | Some q \<Rightarrow>
                 if Payload_AuditType q \<noteq> want
                 then Some (Opaque (''audit: verb '' @ go_quote verb @ '' wants payload @type '' @ go_quote want @
                                    '', got '' @ go_quote (Payload_AuditType q)))
                 else None))"

text \<open>
  \<^verbatim>\<open>json.Unmarshal\<close> into a \<^verbatim>\<open>map[string]any\<close>: an object becomes a map, \<^verbatim>\<open>null\<close>
  leaves the map nil, anything else is an error.  Storing a key replaces the entry.
\<close>

definition unmarshal_map :: "json \<Rightarrow> (goerr, (string \<times> json) list option) result" where
  "unmarshal_map v =
     (let fail = (\<lambda>what. Inl (Opaque (''json: cannot unmarshal '' @ what @ '' into Go value of type map[string]interface {}'')))
      in case v of
        JObj fs \<Rightarrow> Inr (Some fs)
      | JMarker c \<Rightarrow> Inr (Some [(''@redacted'', JString c)])
      | JNull \<Rightarrow> Inr None
      | JBool _ \<Rightarrow> fail ''bool''
      | JInt _ \<Rightarrow> fail ''number''
      | JFloat _ \<Rightarrow> fail ''number''
      | JString _ \<Rightarrow> fail ''string''
      | JArr _ \<Rightarrow> fail ''array'')"

definition map_put :: "string \<Rightarrow> 'a \<Rightarrow> (string \<times> 'a) list \<Rightarrow> (string \<times> 'a) list" where
  "map_put k v m = filter (\<lambda>(k', _). k' \<noteq> k) m @ [(k, v)]"

definition marshal_failed :: "Payload \<Rightarrow> goerr \<Rightarrow> json" where
  "marshal_failed p err =
     JObj [(''@type'', JString (Payload_AuditType p)), (''@marshalError'', JString (error_string err))]"

definition withType :: "Payload \<Rightarrow> json" where
  "withType p =
     (case Payload_Marshal p of
        Inl err \<Rightarrow> marshal_failed p err
      | Inr raw \<Rightarrow>
          (case unmarshal_map raw of
             Inl err \<Rightarrow> marshal_failed p err
           | Inr m \<Rightarrow>
               let fields = (case m of None \<Rightarrow> [] | Some fs \<Rightarrow> fs)
               in JObj (map_put ''@type'' (JString (Payload_AuditType p)) fields)))"

section \<open>Emit\<close>

text \<open>
  What \<^verbatim>\<open>Emit\<close> reads from its surroundings: the clock twice (in milliseconds for the
  identifier, as an instant for \<^verbatim>\<open>OccurredAt\<close>) and the random source.
\<close>

record Ambient =
  Ambient_millis :: "64 word"
  Ambient_rand :: "8 word list option"
  Ambient_now :: time

type_synonym 's emit_fun = "'s \<Rightarrow> Envelope \<Rightarrow> Payload option \<Rightarrow> (goerr, string) result \<times> 's"

definition fill_defaults :: "Ambient \<Rightarrow> Envelope \<Rightarrow> Envelope" where
  "fill_defaults amb env0 =
     (let env1 = (if Envelope_SchemaVersion env0 = [] then env0\<lparr>Envelope_SchemaVersion := SchemaVersion\<rparr> else env0);
          env2 = (if Envelope_EventID env1 = []
                  then env1\<lparr>Envelope_EventID := NewEventID (Ambient_millis amb) (Ambient_rand amb)\<rparr> else env1)
      in (if Envelope_OccurredAt env2 = 0 then env2\<lparr>Envelope_OccurredAt := Ambient_now amb\<rparr> else env2))"

definition Emit :: "'s emit_fun \<Rightarrow> Ambient \<Rightarrow> 's \<Rightarrow> Envelope \<Rightarrow> Payload option \<Rightarrow> (goerr, string) result \<times> 's" where
  "Emit emit amb st env0 p =
     (let env = fill_defaults amb env0 in
      case validatePayloadForVerb (Action_Verb (Envelope_Action env)) p of
        Some err \<Rightarrow> (Inl err, st)
      | None \<Rightarrow>
          (case p of
             None \<Rightarrow> emit st env p
           | Some q \<Rightarrow>
               (case Payload_Validate q of
                  Some err \<Rightarrow> (Inl (Wrapped ''audit: payload validation'' err), st)
                | None \<Rightarrow> emit st (env\<lparr>Envelope_Payload := Some (withType q)\<rparr>) p)))"

section \<open>The two emitters\<close>

text \<open>
  A \<^verbatim>\<open>*LogEmitter\<close> may be nil and its logger may have no sink; the sink is the list of
  the JSON bodies logged so far.  A sink is taken to be enabled at the info level, as the
  process sets it up.
\<close>

record LogEmitter =
  LogEmitter_sink :: "json list option"

definition NewLogEmitter :: "json list option \<Rightarrow> LogEmitter option" where
  "NewLogEmitter sink = Some \<lparr>LogEmitter_sink = sink\<rparr>"

definition LogEmitter_Emit :: "(time \<Rightarrow> string) \<Rightarrow> LogEmitter option emit_fun" where
  "LogEmitter_Emit rfc3339 st env p =
     (case st of
        None \<Rightarrow> (Inl (Opaque ''audit: log emitter not initialized''), st)
      | Some e \<Rightarrow>
          (case LogEmitter_sink e of
             None \<Rightarrow> (Inl (Opaque ''audit: log emitter not initialized''), st)
           | Some lines \<Rightarrow>
               (case marshal_envelope rfc3339 env of
                  Inl err \<Rightarrow> (Inl (Wrapped ''audit: marshal envelope'' err), st)
                | Inr body \<Rightarrow>
                    (Inr (Envelope_EventID env), Some (e\<lparr>LogEmitter_sink := Some (lines @ [body])\<rparr>)))))"

record InMemoryEmitter =
  InMemoryEmitter_events :: "Envelope list"

definition NewInMemoryEmitter :: InMemoryEmitter where
  "NewInMemoryEmitter = \<lparr>InMemoryEmitter_events = []\<rparr>"

definition InMemoryEmitter_Emit :: "InMemoryEmitter emit_fun" where
  "InMemoryEmitter_Emit m env p =
     (Inr (Envelope_EventID env), m\<lparr>InMemoryEmitter_events := InMemoryEmitter_events m @ [env]\<rparr>)"

definition Events :: "InMemoryEmitter \<Rightarrow> Envelope list" where
  "Events m = InMemoryEmitter_events m"

definition log_lines :: "LogEmitter option \<Rightarrow> json list" where
  "log_lines st = (case st of None \<Rightarrow> [] | Some e \<Rightarrow> (case LogEmitter_sink e of None \<Rightarrow> [] | Some ls \<Rightarrow> ls))"

section \<open>The contract of an emitter\<close>

text \<open>
  What \<^verbatim>\<open>Emit\<close> relies on: an emitter that returns an identifier has recorded exactly
  the envelope it was given (seen through \<open>view\<close>) and returns that envelope's identifier;
  one that returns an error has recorded nothing.
\<close>

locale emitter =
  fixes emit :: "'s emit_fun"
    and recorded :: "'s \<Rightarrow> 'v list"
    and view :: "Envelope \<Rightarrow> 'v"
  assumes emit_success: "emit st env p = (Inr eid, st') \<Longrightarrow>
      eid = Envelope_EventID env \<and> recorded st' = recorded st @ [view env]"
    and emit_failure: "emit st env p = (Inl err, st') \<Longrightarrow> recorded st' = recorded st"
begin

lemma Emit_cases:
  obtains (pairing) err where "validatePayloadForVerb (Action_Verb (Envelope_Action env)) p = Some err"
      "Emit emit amb st env p = (Inl err, st)"
  | (invalid) q err where "p = Some q" "Payload_Validate q = Some err"
      "Emit emit amb st env p = (Inl (Wrapped ''audit: payload validation'' err), st)"
  | (envelope_only) "validatePayloadForVerb (Action_Verb (Envelope_Action env)) p = None" "p = None"
      "Emit emit amb st env p = emit st (fill_defaults amb env) p"
  | (payload) q where "validatePayloadForVerb (Action_Verb (Envelope_Action env)) p = None" "p = Some q"
      "Payload_Validate q = None"
      "Emit emit amb st env p = emit st ((fill_defaults amb env)\<lparr>Envelope_Payload := Some (withType q)\<rparr>) p"
  by (cases "validatePayloadForVerb (Action_Verb (Envelope_Action env)) p"; cases p;
      cases "Payload_Validate (the p)")
    (auto simp: Emit_def fill_defaults_def Let_def)

lemma Emit_failure:
  assumes "Emit emit amb st env p = (Inl err, st')"
  shows "recorded st' = recorded st"
  by (cases rule: Emit_cases [of env p amb st]) (use assms in \<open>auto dest: emit_failure\<close>)

lemma Emit_success:
  assumes "Emit emit amb st env p = (Inr eid, st')"
  shows "\<exists>env'. recorded st' = recorded st @ [view env'] \<and> eid = Envelope_EventID env' \<and>
    validatePayloadForVerb (Action_Verb (Envelope_Action env)) p = None \<and>
    env' = (fill_defaults amb env)\<lparr>Envelope_Payload :=
      (case p of None \<Rightarrow> Envelope_Payload env | Some q \<Rightarrow> Some (withType q))\<rparr>"
proof (cases rule: Emit_cases [of env p amb st])
  case envelope_only
  have "(fill_defaults amb env)\<lparr>Envelope_Payload := Envelope_Payload env\<rparr> = fill_defaults amb env"
    by (simp add: fill_defaults_def Let_def)
  then show ?thesis using envelope_only assms by (auto dest: emit_success)
qed (use assms in \<open>auto dest: emit_success\<close>)

end

interpretation in_memory: emitter InMemoryEmitter_Emit Events "\<lambda>env. env"
  by unfold_locales (auto simp: InMemoryEmitter_Emit_def Events_def)

interpretation log: emitter "LogEmitter_Emit rfc3339" log_lines "envelope_json rfc3339"
  by unfold_locales
    (auto simp: LogEmitter_Emit_def log_lines_def marshal_envelope_def split: option.splits sum.splits if_splits)

section \<open>Facts about the pieces\<close>

lemma fill_defaults_simps [simp]:
  "Envelope_Action (fill_defaults amb env) = Envelope_Action env"
  "Envelope_Actor (fill_defaults amb env) = Envelope_Actor env"
  "Envelope_Result (fill_defaults amb env) = Envelope_Result env"
  "Envelope_Context (fill_defaults amb env) = Envelope_Context env"
  "Envelope_RequestID (fill_defaults amb env) = Envelope_RequestID env"
  "Envelope_EventID (fill_defaults amb env) =
     (if Envelope_EventID env = [] then NewEventID (Ambient_millis amb) (Ambient_rand amb) else Envelope_EventID env)"
  "Envelope_SchemaVersion (fill_defaults amb env) =
     (if Envelope_SchemaVersion env = [] then SchemaVersion else Envelope_SchemaVersion env)"
  "Envelope_OccurredAt (fill_defaults amb env) =
     (if Envelope_OccurredAt env = 0 then Ambient_now amb else Envelope_OccurredAt env)"
  by (simp_all add: fill_defaults_def Let_def)

lemma validatePayloadForVerb_ok:
  "validatePayloadForVerb verb p = None \<longleftrightarrow>
     (verb \<in> {VerbCreate, VerbEdit, VerbDelete} \<and> (\<exists>q. p = Some q \<and> Payload_AuditType q = ''crd.write.v1'')) \<or>
     (verb = VerbView \<and> p = None)"
  by (auto simp: validatePayloadForVerb_def AllowedPayloadType_def Registry_def split: option.splits)

lemma NewEventID_neq_Nil [simp]: "NewEventID ms r \<noteq> []"
  by (simp add: NewEventID_def encodeULID_def Let_def)

lemma field_keys:
  "subseq (map fst (required t v)) [t]" "subseq [t] (map fst (required t v))"
  "subseq (map fst (opt_string t s)) [t]" "subseq (map fst (opt_json t j)) [t]"
  "subseq (map fst (opt_list t vs)) [t]"
  by (simp_all add: required_def opt_string_def opt_json_def opt_list_def split: option.splits)

lemma withType_field: "json_field (withType p) ''@type'' = Some (JString (Payload_AuditType p))"
proof -
  have "map_of (filter (\<lambda>(k', _). k' \<noteq> k) m) k = None" for k and m :: "(string \<times> json) list"
    by (auto simp: map_of_eq_None_iff)
  then show ?thesis
    by (auto simp: withType_def marshal_failed_def map_put_def Let_def map_add_def split: sum.splits)
qed

lemma subseq_distinct: "subseq xs ys \<Longrightarrow> distinct ys \<Longrightarrow> distinct xs"
  by (metis distinct_nthsI subseq_conv_nths)

text \<open>A sample event for concrete instances: the edit of a resource, dry run.\<close>

definition sample_edit :: Envelope where
  "sample_edit =
     \<lparr>Envelope_SchemaVersion = [], Envelope_EventID = [], Envelope_OccurredAt = 0,
      Envelope_RecordedAt = None, Envelope_RequestID = ''r1'', Envelope_SessionID = [],
      Envelope_TraceParent = [], Envelope_Actor = Actor ActorHuman ''jane'' [] [] [] None,
      Envelope_Action = \<lparr>Action_Verb = VerbEdit, Action_Scope = [],
        Action_Subject = \<lparr>ActionSubject_APIGroup = [], ActionSubject_Version = ''v1'',
          ActionSubject_Kind = ''Secret'', ActionSubject_Namespace = ''n'', ActionSubject_Name = ''s'',
          ActionSubject_ULID = []\<rparr>\<rparr>,
      Envelope_Intent = [],
      Envelope_Context = \<lparr>Context_SourceIP = [], Context_UserAgent = [], Context_AuditTicket = [],
        Context_ClusterName = [], Context_Shard = []\<rparr>,
      Envelope_Result = \<lparr>Result_Outcome = OutcomeSuccess, Result_Reason = [],
        Result_Before = None, Result_After = None\<rparr>,
      Envelope_Payload = None, Envelope_Evidence = []\<rparr>"

definition sample_ambient :: Ambient where
  "sample_ambient = \<lparr>Ambient_millis = 1767225600000, Ambient_rand = None, Ambient_now = 63902822400000000000\<rparr>"

definition sample_payload :: Payload where
  "sample_payload = crdwrite_payload
     \<lparr>CRDWriteV1_Patch = [], CRDWriteV1_SubresourceWrite = False, CRDWriteV1_DryRun = True\<rparr>"

section \<open>Claims\<close>

text \<open>C9: All or nothing.  On the log emitter, an \<^verbatim>\<open>Emit\<close> that returns an error has
  written no line, and one that returns an identifier has appended exactly one line: the
  JSON of an envelope that carries this (non-empty) identifier, a schema version and the
  caller's action, actor and result.\<close>
theorem emit_all_or_nothing:
  "case Emit (LogEmitter_Emit rfc3339) amb st env p of
     (Inl err, st') \<Rightarrow> log_lines st' = log_lines st
   | (Inr eid, st') \<Rightarrow> eid \<noteq> [] \<and>
       (\<exists>env'. log_lines st' = log_lines st @ [envelope_json rfc3339 env'] \<and>
          Envelope_EventID env' = eid \<and> Envelope_SchemaVersion env' \<noteq> [] \<and>
          Envelope_Action env' = Envelope_Action env \<and> Envelope_Actor env' = Envelope_Actor env \<and>
          Envelope_Result env' = Envelope_Result env)"
proof (cases "Emit (LogEmitter_Emit rfc3339) amb st env p")
  case (Pair r st')
  show ?thesis
  proof (cases r)
    case (Inl err)
    then show ?thesis using Pair log.Emit_failure by fastforce
  next
    case (Inr eid)
    then obtain env' where "log_lines st' = log_lines st @ [envelope_json rfc3339 env']"
      "eid = Envelope_EventID env'"
      "env' = (fill_defaults amb env)\<lparr>Envelope_Payload :=
        (case p of None \<Rightarrow> Envelope_Payload env | Some q \<Rightarrow> Some (withType q))\<rparr>"
      using Pair log.Emit_success by blast
    then show ?thesis using Pair Inr by (auto intro!: exI [of _ env'] split: if_splits)
  qed
qed

text \<open>C10: What \<^verbatim>\<open>Emit\<close> lets through.  If \<^verbatim>\<open>Emit\<close> to the in-memory emitter
  succeeds, one event was recorded and nothing else changed.  It carries the caller's verb,
  and either that verb is \<^verbatim>\<open>view\<close>, no payload came with it, and the recorded event keeps
  the envelope's own \<^verbatim>\<open>Payload\<close> field as the caller set it (\<^verbatim>\<open>Emit\<close> neither checks nor
  clears it, so a view has no payload exactly when the caller left the field unset); or the
  verb is \<^verbatim>\<open>create\<close>, \<^verbatim>\<open>edit\<close> or \<^verbatim>\<open>delete\<close>, a valid payload came with it, and the
  recorded event carries that payload, whatever the caller had put into the field, under the
  registered \<^verbatim>\<open>@type\<close>.\<close>
theorem emit_registered_pair:
  assumes "Emit InMemoryEmitter_Emit amb st env p = (Inr eid, st')"
  shows "\<exists>env'. Events st' = Events st @ [env'] \<and>
    Action_Verb (Envelope_Action env') = Action_Verb (Envelope_Action env) \<and>
    (Action_Verb (Envelope_Action env) = VerbView \<and> p = None \<and>
       Envelope_Payload env' = Envelope_Payload env \<or>
     Action_Verb (Envelope_Action env) \<in> {VerbCreate, VerbEdit, VerbDelete} \<and>
       (\<exists>q. p = Some q \<and> Payload_Validate q = None \<and> Payload_AuditType q = ''crd.write.v1'' \<and>
         Envelope_Payload env' = Some (withType q) \<and>
         json_field (withType q) ''@type'' = Some (JString ''crd.write.v1'')))"
proof -
  have "p = None \<or> (\<exists>q. p = Some q \<and> Payload_Validate q = None)"
    by (cases rule: in_memory.Emit_cases [of env p amb st]) (use assms in auto)
  then show ?thesis
    using in_memory.Emit_success [OF assms]
    by (elim exE conjE disjE) (auto simp: validatePayloadForVerb_ok withType_field)
qed

theorem emit_registered_pair_witness:
  "\<exists>env'. Events (snd (Emit InMemoryEmitter_Emit sample_ambient NewInMemoryEmitter
       sample_edit (Some sample_payload))) = [env'] \<and>
     Action_Verb (Envelope_Action env') = VerbEdit \<and>
     Envelope_Payload env' = Some (withType sample_payload)"
proof -
  have "\<exists>eid st'. Emit InMemoryEmitter_Emit sample_ambient NewInMemoryEmitter sample_edit (Some sample_payload) = (Inr eid, st')"
    by (simp add: Emit_def InMemoryEmitter_Emit_def sample_edit_def sample_payload_def crdwrite_payload_def
        validatePayloadForVerb_def AllowedPayloadType_def Registry_def Let_def fill_defaults_def)
  then obtain eid st' where
    ok: "Emit InMemoryEmitter_Emit sample_ambient NewInMemoryEmitter sample_edit (Some sample_payload) = (Inr eid, st')"
    by blast
  have [simp]: "Events NewInMemoryEmitter = []" by (simp add: Events_def NewInMemoryEmitter_def)
  show ?thesis
    using emit_registered_pair [OF ok] unfolding ok by (auto simp: sample_edit_def)
qed

text \<open>The wire shape.  Whatever the envelope holds, the keys of its JSON object are
  written in the order of the schema, each at most once, and the seven required ones are
  always there.\<close>
theorem envelope_wire_shape:
  "subseq (json_keys (envelope_json rfc3339 env))
     [''schemaVersion'', ''eventId'', ''occurredAt'', ''recordedAt'', ''requestId'', ''sessionId'',
      ''traceparent'', ''actor'', ''action'', ''intent'', ''context'', ''result'', ''payload'', ''evidence''] \<and>
   distinct (json_keys (envelope_json rfc3339 env)) \<and>
   subseq [''schemaVersion'', ''eventId'', ''occurredAt'', ''actor'', ''action'', ''context'', ''result'']
     (json_keys (envelope_json rfc3339 env))"
proof -
  let ?all = "[''schemaVersion'', ''eventId'', ''occurredAt'', ''recordedAt'', ''requestId'', ''sessionId'',
      ''traceparent'', ''actor'', ''action'', ''intent'', ''context'', ''result'', ''payload'', ''evidence'']"
  have "subseq (json_keys (envelope_json rfc3339 env))
     ([''schemaVersion''] @ [''eventId''] @ [''occurredAt''] @ [''recordedAt''] @ [''requestId''] @ [''sessionId''] @
      [''traceparent''] @ [''actor''] @ [''action''] @ [''intent''] @ [''context''] @ [''result''] @ [''payload''] @ [''evidence''])"
    unfolding envelope_json_def json_keys.simps map_append
    by (intro list_emb_append_mono field_keys)
  then have sub: "subseq (json_keys (envelope_json rfc3339 env)) ?all" by simp
  have "distinct ?all" by simp
  with sub have "distinct (json_keys (envelope_json rfc3339 env))" by (rule subseq_distinct)
  moreover have "subseq ([''schemaVersion''] @ [''eventId''] @ [''occurredAt''] @ [] @ [] @ [] @ [] @
      [''actor''] @ [''action''] @ [] @ [''context''] @ [''result''] @ [] @ [])
      (json_keys (envelope_json rfc3339 env))"
    unfolding envelope_json_def json_keys.simps map_append
    by (intro list_emb_append_mono field_keys list_emb_Nil)
  ultimately show ?thesis using sub by simp
qed

end
