(* ===== verification/Audit_Webhook.thy ===== *)
theory Audit_Webhook
  imports Audit_Redaction Audit_Emitter
begin

text \<open>
  The admission handler of \<^verbatim>\<open>internal/audit/webhook/handler.go\<close>: one audit event per
  create, update or delete of a custom resource, before the change is admitted.  The
  emitter is an argument (any function of the contract \<open>emitter\<close>), and so is the decoder
  of raw JSON bytes.
\<close>

section \<open>Requests and responses\<close>

text \<open>
  The fields of the Kubernetes admission request the handler reads; a \<open>Response\<close> records
  which constructor of the admission package was called, and with what.
\<close>

record GroupVersionKind =
  GVK_Group :: string
  GVK_Version :: string
  GVK_Kind :: string

record UserInfo =
  UserInfo_Username :: string
  UserInfo_UID :: string
  UserInfo_Groups :: "string list"

record Request =
  Request_UID :: string
  Request_Kind :: GroupVersionKind
  Request_SubResource :: string
  Request_Name :: string
  Request_Namespace :: string
  Request_Operation :: string
  Request_UserInfo :: UserInfo
  Request_Object :: string
  Request_OldObject :: string
  Request_DryRun :: "bool option"

datatype Response = Allowed string | Denied string | Errored int goerr

record Handler =
  Handler_clusterName :: string

section \<open>The handler\<close>

definition verbFor :: "string \<Rightarrow> Verb option" where
  "verbFor op =
     (if op = ''CREATE'' then Some VerbCreate
      else if op = ''UPDATE'' then Some VerbEdit
      else if op = ''DELETE'' then Some VerbDelete
      else None)"

definition actorTypeFor :: "string \<Rightarrow> ActorType" where
  "actorTypeFor username =
     (if has_prefix username ''system:serviceaccount:'' \<or> has_prefix username ''system:''
      then ActorSystem else ActorHuman)"

definition buildActor :: "UserInfo \<Rightarrow> Actor" where
  "buildActor u =
     (let sid = (if UserInfo_UID u \<noteq> [] then UserInfo_UID u else [])
      in Actor (actorTypeFor (UserInfo_Username u)) (UserInfo_Username u) sid [] (UserInfo_Groups u) None)"

text \<open>
  An empty raw object is the nil interface; JSON \<^verbatim>\<open>null\<close> decodes to a nil map, which is
  not the nil interface and is written as \<^verbatim>\<open>null\<close>.
\<close>

definition redactedSnapshot :: "(string \<Rightarrow> (goerr, json) result) \<Rightarrow> string \<Rightarrow> string \<Rightarrow> (goerr, json option) result" where
  "redactedSnapshot decode raw kind =
     (if length raw = 0 then Inr None
      else (case decode raw of
              Inl err \<Rightarrow> Inl err
            | Inr v \<Rightarrow>
                (case unmarshal_map v of
                   Inl err \<Rightarrow> Inl err
                 | Inr obj \<Rightarrow> Inr (Some (Apply kind (case obj of None \<Rightarrow> JNull | Some fs \<Rightarrow> JObj fs))))))"

definition buildEnvelope ::
  "(string \<Rightarrow> (goerr, json) result) \<Rightarrow> Handler \<Rightarrow> Request \<Rightarrow> Verb \<Rightarrow> (goerr, Envelope \<times> Payload) result" where
  "buildEnvelope decode h r verb =
     (case redactedSnapshot decode (Request_OldObject r) (GVK_Kind (Request_Kind r)) of
        Inl err \<Rightarrow> Inl (Wrapped ''decode oldObject'' err)
      | Inr before \<Rightarrow>
          (case redactedSnapshot decode (Request_Object r) (GVK_Kind (Request_Kind r)) of
             Inl err \<Rightarrow> Inl (Wrapped ''decode object'' err)
           | Inr after \<Rightarrow>
               Inr (\<lparr>Envelope_SchemaVersion = [], Envelope_EventID = [], Envelope_OccurredAt = 0,
                     Envelope_RecordedAt = None, Envelope_RequestID = Request_UID r,
                     Envelope_SessionID = [], Envelope_TraceParent = [],
                     Envelope_Actor = buildActor (Request_UserInfo r),
                     Envelope_Action =
                       \<lparr>Action_Verb = verb, Action_Scope = [],
                        Action_Subject =
                          \<lparr>ActionSubject_APIGroup = GVK_Group (Request_Kind r),
                           ActionSubject_Version = GVK_Version (Request_Kind r),
                           ActionSubject_Kind = GVK_Kind (Request_Kind r),
                           ActionSubject_Namespace = Request_Namespace r,
                           ActionSubject_Name = Request_Name r,
                           ActionSubject_ULID = []\<rparr>\<rparr>,
                     Envelope_Intent = [],
                     Envelope_Context =
                       \<lparr>Context_SourceIP = [], Context_UserAgent = [], Context_AuditTicket = [],
                        Context_ClusterName = Handler_clusterName h, Context_Shard = []\<rparr>,
                     Envelope_Result =
                       \<lparr>Result_Outcome = OutcomeSuccess, Result_Reason = [],
                        Result_Before = before, Result_After = after\<rparr>,
                     Envelope_Payload = None, Envelope_Evidence = []\<rparr>,
                    crdwrite_payload
                      \<lparr>CRDWriteV1_Patch = [],
                       CRDWriteV1_SubresourceWrite = (Request_SubResource r \<noteq> []),
                       CRDWriteV1_DryRun = (case Request_DryRun r of None \<Rightarrow> False | Some b \<Rightarrow> b)\<rparr>)))"

definition Handle ::
  "'s emit_fun \<Rightarrow> (string \<Rightarrow> (goerr, json) result) \<Rightarrow> Ambient \<Rightarrow> 's \<Rightarrow> Handler \<Rightarrow> Request \<Rightarrow> Response \<times> 's" where
  "Handle emit decode amb st h r =
     (case verbFor (Request_Operation r) of
        None \<Rightarrow> (Allowed [], st)
      | Some verb \<Rightarrow>
          (case buildEnvelope decode h r verb of
             Inl err \<Rightarrow> (Errored 500 err, st)
           | Inr (env, payload) \<Rightarrow>
               (case Emit emit amb st env (Some payload) of
                  (Inl err, st') \<Rightarrow> (Denied (''audit emit failed: '' @ error_string err), st')
                | (Inr eid, st') \<Rightarrow> (Allowed [], st'))))"

section \<open>The envelope of a request\<close>

text \<open>What an envelope must say of the request it audits.\<close>

definition audits :: "Handler \<Rightarrow> Request \<Rightarrow> Envelope \<Rightarrow> bool" where
  "audits h r env \<longleftrightarrow>
     Some (Action_Verb (Envelope_Action env)) = verbFor (Request_Operation r) \<and>
     Envelope_RequestID env = Request_UID r \<and>
     Actor_Subject (Envelope_Actor env) = UserInfo_Username (Request_UserInfo r) \<and>
     Actor_SubjectID (Envelope_Actor env) = UserInfo_UID (Request_UserInfo r) \<and>
     Actor_Groups (Envelope_Actor env) = UserInfo_Groups (Request_UserInfo r) \<and>
     ActionSubject_Kind (Action_Subject (Envelope_Action env)) = GVK_Kind (Request_Kind r) \<and>
     ActionSubject_Namespace (Action_Subject (Envelope_Action env)) = Request_Namespace r \<and>
     ActionSubject_Name (Action_Subject (Envelope_Action env)) = Request_Name r \<and>
     Context_ClusterName (Envelope_Context env) = Handler_clusterName h \<and>
     Result_Outcome (Envelope_Result env) = OutcomeSuccess"

lemma buildEnvelope_audits:
  "verbFor (Request_Operation r) = Some verb \<Longrightarrow> buildEnvelope decode h r verb = Inr (env, p) \<Longrightarrow>
   audits h r env"
  by (auto simp: buildEnvelope_def audits_def buildActor_def split: sum.splits)

lemma audits_fill_defaults [simp]:
  "audits h r ((fill_defaults amb env)\<lparr>Envelope_Payload := j\<rparr>) = audits h r env"
  by (simp add: audits_def)

text \<open>A snapshot in which no entry of a Secret's data is in the clear.\<close>

definition secret_free :: "json option \<Rightarrow> bool" where
  "secret_free snap \<longleftrightarrow>
     (\<forall>v container k w. snap = Some v \<longrightarrow> container \<in> {''data'', ''stringData''} \<longrightarrow>
        json_at v [container, k] = Some w \<longrightarrow> w = JMarker ClassSecretBytes)"

lemma secret_free_Apply: "secret_free (Some (Apply ''Secret'' v))"
  using Apply_secret_data [of _ v] by (auto simp: secret_free_def)

lemma redactedSnapshot_secret_free:
  "redactedSnapshot decode raw ''Secret'' = Inr snap \<Longrightarrow> secret_free snap"
  by (auto simp: redactedSnapshot_def secret_free_Apply split: if_splits sum.splits)
    (simp add: secret_free_def)


lemma buildEnvelope_secret_free:
  "buildEnvelope decode h r verb = Inr (env, p) \<Longrightarrow> GVK_Kind (Request_Kind r) = ''Secret'' \<Longrightarrow>
   secret_free (Result_Before (Envelope_Result env)) \<and> secret_free (Result_After (Envelope_Result env))"
  by (auto simp: buildEnvelope_def redactedSnapshot_secret_free split: sum.splits)

section \<open>The handler over any emitter\<close>

context emitter
begin

lemma Handle_Allowed:
  assumes "Handle emit decode amb st h r = (Allowed m, st')"
  shows "verbFor (Request_Operation r) = None \<and> st' = st \<or>
    (\<exists>verb env p env'. verbFor (Request_Operation r) = Some verb \<and>
       buildEnvelope decode h r verb = Inr (env, p) \<and>
       recorded st' = recorded st @ [view env'] \<and> audits h r env' \<and>
       Envelope_Result env' = Envelope_Result env \<and> Envelope_EventID env' \<noteq> [])"
proof (cases "verbFor (Request_Operation r)")
  case None
  then show ?thesis using assms by (simp add: Handle_def)
next
  case (Some verb)
  then obtain env p eid where be: "buildEnvelope decode h r verb = Inr (env, p)"
    and em: "Emit emit amb st env (Some p) = (Inr eid, st')"
    using assms by (auto simp: Handle_def split: sum.splits prod.splits)
  obtain env' where "recorded st' = recorded st @ [view env']"
    and env': "env' = (fill_defaults amb env)\<lparr>Envelope_Payload := Some (withType p)\<rparr>"
    using Emit_success [OF em] by auto
  moreover have "audits h r env'" unfolding env' audits_fill_defaults
    by (rule buildEnvelope_audits [OF Some be])
  moreover have "Envelope_EventID env' \<noteq> []" by (simp add: env')
  ultimately show ?thesis using Some be by (auto simp: env')
qed

lemma Handle_not_Allowed:
  assumes "Handle emit decode amb st h r = (resp, st')" and "\<nexists>m. resp = Allowed m"
  shows "recorded st' = recorded st"
  using assms Emit_failure
  by (fastforce simp: Handle_def split: option.splits sum.splits prod.splits)

end

section \<open>Claims\<close>

text \<open>C4: Write, then act.  When the handler, on the log emitter, lets a create, update or
  delete through, exactly one line has been logged, and it is the JSON of an envelope that
  names the verb, the requesting user, the object and the cluster of this request; when it
  refuses, nothing has been logged; an operation it does not audit is allowed and logs
  nothing.\<close>
theorem write_then_act:
  "case Handle (LogEmitter_Emit rfc3339) decode amb st h r of
     (Allowed m, st') \<Rightarrow>
       (if verbFor (Request_Operation r) = None then st' = st
        else (\<exists>env. log_lines st' = log_lines st @ [envelope_json rfc3339 env] \<and> audits h r env))
   | (_, st') \<Rightarrow> verbFor (Request_Operation r) \<noteq> None \<and> log_lines st' = log_lines st"
proof (cases "Handle (LogEmitter_Emit rfc3339) decode amb st h r")
  case (Pair resp st')
  have "verbFor (Request_Operation r) \<noteq> None" if "\<nexists>m. resp = Allowed m"
    using Pair that by (auto simp: Handle_def split: option.splits)
  moreover have "log_lines st' = log_lines st" if "\<nexists>m. resp = Allowed m"
    using log.Handle_not_Allowed [OF Pair that] .
  moreover have "verbFor (Request_Operation r) = None \<and> st' = st \<or> verbFor (Request_Operation r) \<noteq> None \<and>
      (\<exists>env. log_lines st' = log_lines st @ [envelope_json rfc3339 env] \<and> audits h r env)" if "resp = Allowed m" for m
    using log.Handle_Allowed [OF Pair [unfolded that]] by (elim disjE exE conjE) auto
  ultimately show ?thesis using Pair by (cases resp) auto
qed

text \<open>C5: No secret reaches the trail.  Whatever the decoder and the request on a Secret, in
  the event the in-memory emitter records no entry of \<^verbatim>\<open>data\<close> or \<^verbatim>\<open>stringData\<close> is in the
  clear, before or after the change.\<close>
theorem handler_hides_secrets:
  assumes "GVK_Kind (Request_Kind r) = ''Secret''"
    and "Handle InMemoryEmitter_Emit decode amb NewInMemoryEmitter h r = (resp, st')"
    and "env \<in> set (Events st')"
  shows "secret_free (Result_Before (Envelope_Result env)) \<and> secret_free (Result_After (Envelope_Result env))"
proof (cases resp)
  case (Allowed m)
  have empty: "Events NewInMemoryEmitter = []" by (simp add: Events_def NewInMemoryEmitter_def)
  from in_memory.Handle_Allowed [OF assms(2) [unfolded Allowed]] assms(3)
  show ?thesis using buildEnvelope_secret_free assms(1) empty by fastforce
qed (use assms in_memory.Handle_not_Allowed [OF assms(2)] in
  \<open>auto simp: Events_def NewInMemoryEmitter_def\<close>)

definition sample_request :: Request where
  "sample_request =
     \<lparr>Request_UID = ''u-1'', Request_Kind = \<lparr>GVK_Group = [], GVK_Version = ''v1'', GVK_Kind = ''Secret''\<rparr>,
      Request_SubResource = [], Request_Name = ''creds'', Request_Namespace = ''prod'',
      Request_Operation = ''CREATE'',
      Request_UserInfo = \<lparr>UserInfo_Username = ''jane'', UserInfo_UID = [], UserInfo_Groups = []\<rparr>,
      Request_Object = ''raw'', Request_OldObject = [], Request_DryRun = None\<rparr>"

definition sample_decode :: "string \<Rightarrow> (goerr, json) result" where
  "sample_decode raw = Inr (JObj [(''kind'', JString ''Secret''), (''data'', JObj [(''password'', JString ''aHVudGVy'')])])"

lemma sample_handle:
  "\<exists>st' env. Handle InMemoryEmitter_Emit sample_decode sample_ambient NewInMemoryEmitter \<lparr>Handler_clusterName = ''c''\<rparr>
     sample_request = (Allowed [], st') \<and> env \<in> set (Events st') \<and>
     (\<exists>w. json_at (the (Result_After (Envelope_Result env))) [''data'', ''password''] = Some w)"
  by (simp add: Handle_def verbFor_def sample_request_def buildEnvelope_def redactedSnapshot_def sample_decode_def
      unmarshal_map_def Emit_def validatePayloadForVerb_def AllowedPayloadType_def Registry_def crdwrite_payload_def
      InMemoryEmitter_Emit_def Events_def Let_def NewInMemoryEmitter_def fill_defaults_def Apply_def
      walk_child_def redact_children_def joinPath_def matchRule_simps)

theorem handler_hides_secrets_witness:
  "\<exists>st' env w. Handle InMemoryEmitter_Emit sample_decode sample_ambient NewInMemoryEmitter \<lparr>Handler_clusterName = ''c''\<rparr>
     sample_request = (Allowed [], st') \<and> env \<in> set (Events st') \<and>
     json_at (the (Result_After (Envelope_Result env))) [''data'', ''password''] = Some w \<and>
     secret_free (Result_Before (Envelope_Result env)) \<and> secret_free (Result_After (Envelope_Result env))"
proof -
  obtain st' env w where h: "Handle InMemoryEmitter_Emit sample_decode sample_ambient NewInMemoryEmitter
      \<lparr>Handler_clusterName = ''c''\<rparr> sample_request = (Allowed [], st')"
    and env: "env \<in> set (Events st')"
    and w: "json_at (the (Result_After (Envelope_Result env))) [''data'', ''password''] = Some w"
    using sample_handle by blast
  have "GVK_Kind (Request_Kind sample_request) = ''Secret''" by (simp add: sample_request_def)
  from handler_hides_secrets [OF this h env] h env w show ?thesis by blast
qed

text \<open>Availability.  With an emitter that never fails, the handler admits a request
  exactly when its operation is not audited or both snapshots can be decoded: the pair it
  builds is always a registered one.\<close>
theorem handler_admits_iff_decodable:
  "(\<exists>m st'. Handle InMemoryEmitter_Emit decode amb st h r = (Allowed m, st')) \<longleftrightarrow>
   verbFor (Request_Operation r) = None \<or>
   is_ok (redactedSnapshot decode (Request_OldObject r) (GVK_Kind (Request_Kind r))) \<and>
   is_ok (redactedSnapshot decode (Request_Object r) (GVK_Kind (Request_Kind r)))"
proof (cases "verbFor (Request_Operation r)")
  case (Some verb)
  then have "verb \<in> {VerbCreate, VerbEdit, VerbDelete}" by (auto simp: verbFor_def split: if_splits)
  then have ok: "validatePayloadForVerb verb (Some (crdwrite_payload p)) = None" for p
    by (auto simp: validatePayloadForVerb_ok crdwrite_payload_def)
  have valid: "Payload_Validate (crdwrite_payload p) = None" for p
    by (simp add: crdwrite_payload_def)
  show ?thesis using Some
    by (auto simp: Handle_def buildEnvelope_def Emit_def ok valid InMemoryEmitter_Emit_def Let_def
        split: sum.splits)
qed (simp add: Handle_def)

end
