(* ===== verification/Api_Types.thy ===== *)
theory Api_Types
  imports Go_Prelude
begin

text \<open>
  The custom resources of \<^verbatim>\<open>api/v1alpha1\<close>: one record per Go struct, one field per
  Go field, in the order of the files.  A named string type keeps its Go form (any string
  can be stored in it, the zero value is the empty string) and its constants are
  abbreviations; the list \<open>T_values\<close> holds the members the CRD schema admits.

  \<open>ObjectMeta\<close> and \<open>Condition\<close> are the fields of the Kubernetes structs
  \<^verbatim>\<open>metav1.ObjectMeta\<close> and \<^verbatim>\<open>metav1.Condition\<close> that the sources read or write;
  \<^verbatim>\<open>TypeMeta\<close> is never read and is left out, and a \<^verbatim>\<open>FooList\<close> is the list of its
  \<^verbatim>\<open>Items\<close>.
\<close>

section \<open>The Kubernetes metadata the sources use\<close>

record ObjectMeta =
  ObjectMeta_Name :: string
  ObjectMeta_Namespace :: string
  ObjectMeta_Generation :: int
  ObjectMeta_CreationTimestamp :: time
  ObjectMeta_Labels :: dict
  ObjectMeta_Annotations :: dict

record Condition =
  Condition_Type :: string
  Condition_Status :: string
  Condition_ObservedGeneration :: int
  Condition_LastTransitionTime :: time
  Condition_Reason :: string
  Condition_Message :: string

abbreviation ConditionTrue :: string where "ConditionTrue \<equiv> ''True''"
abbreviation ConditionFalse :: string where "ConditionFalse \<equiv> ''False''"
abbreviation ConditionUnknown :: string where "ConditionUnknown \<equiv> ''Unknown''"

section \<open>\<^verbatim>\<open>api/v1alpha1/common_types.go\<close>\<close>

record LocalObjectReference =
  LocalObjectReference_Name :: string

record SecretKeyRef =
  SecretKeyRef_Name :: string
  SecretKeyRef_Key :: string

record OwnerInfo =
  OwnerInfo_Team :: string
  OwnerInfo_Contact :: string

section \<open>\<^verbatim>\<open>api/v1alpha1/application_types.go\<close>\<close>

type_synonym ApplicationManifestType = string

abbreviation ApplicationManifestKustomize :: string where "ApplicationManifestKustomize \<equiv> ''kustomize''"
abbreviation ApplicationManifestHelm :: string where "ApplicationManifestHelm \<equiv> ''helm''"
abbreviation ApplicationManifestRaw :: string where "ApplicationManifestRaw \<equiv> ''raw''"

definition ApplicationManifestType_values :: "string list" where
  "ApplicationManifestType_values = [ApplicationManifestKustomize, ApplicationManifestHelm, ApplicationManifestRaw]"

type_synonym ApplicationDeploymentStrategy = string

abbreviation ApplicationDeploymentGitOps :: string where "ApplicationDeploymentGitOps \<equiv> ''gitops''"
abbreviation ApplicationDeploymentDirectApply :: string where "ApplicationDeploymentDirectApply \<equiv> ''directApply''"

definition ApplicationDeploymentStrategy_values :: "string list" where
  "ApplicationDeploymentStrategy_values = [ApplicationDeploymentGitOps, ApplicationDeploymentDirectApply]"

record ApplicationManifest =
  ApplicationManifest_Type :: ApplicationManifestType
  ApplicationManifest_Repo :: string
  ApplicationManifest_BasePath :: string
  ApplicationManifest_Chart :: string

record ApplicationDeployment =
  ApplicationDeployment_Strategy :: ApplicationDeploymentStrategy
  ApplicationDeployment_Manifest :: ApplicationManifest

record ApplicationTopology =
  ApplicationTopology_Environments :: "string list"

record ApplicationSpec =
  ApplicationSpec_Owner :: OwnerInfo
  ApplicationSpec_SourceRefs :: "LocalObjectReference list"
  ApplicationSpec_Deployment :: ApplicationDeployment
  ApplicationSpec_Topology :: ApplicationTopology

record ApplicationStatus =
  ApplicationStatus_ObservedGeneration :: int
  ApplicationStatus_Conditions :: "Condition list"

record Application =
  Application_ObjectMeta :: ObjectMeta
  Application_Spec :: ApplicationSpec
  Application_Status :: ApplicationStatus

section \<open>\<^verbatim>\<open>api/v1alpha1/approval_types.go\<close>\<close>

type_synonym ApprovalDecision = string

abbreviation ApprovalDecisionPending :: string where "ApprovalDecisionPending \<equiv> ''Pending''"
abbreviation ApprovalDecisionApproved :: string where "ApprovalDecisionApproved \<equiv> ''Approved''"
abbreviation ApprovalDecisionRejected :: string where "ApprovalDecisionRejected \<equiv> ''Rejected''"
abbreviation ApprovalDecisionWithdrawn :: string where "ApprovalDecisionWithdrawn \<equiv> ''Withdrawn''"

definition ApprovalDecision_values :: "string list" where
  "ApprovalDecision_values = [ApprovalDecisionPending, ApprovalDecisionApproved, ApprovalDecisionRejected, ApprovalDecisionWithdrawn]"

record ApprovalSpec =
  ApprovalSpec_PromotionRef :: LocalObjectReference
  ApprovalSpec_Decision :: ApprovalDecision
  ApprovalSpec_Reviewer :: string
  ApprovalSpec_Comment :: string

record ApprovalStatus =
  ApprovalStatus_ObservedGeneration :: int
  ApprovalStatus_RecordedAt :: "time option"
  ApprovalStatus_Conditions :: "Condition list"

record Approval =
  Approval_ObjectMeta :: ObjectMeta
  Approval_Spec :: ApprovalSpec
  Approval_Status :: ApprovalStatus

section \<open>\<^verbatim>\<open>api/v1alpha1/cell_types.go\<close>\<close>

record CellSpec =
  CellSpec_Environment :: string
  CellSpec_Purpose :: string
  CellSpec_FailureBoundary :: string
  CellSpec_Regions :: "string list"

record CellStatus =
  CellStatus_ObservedGeneration :: int
  CellStatus_Conditions :: "Condition list"

record Cell =
  Cell_ObjectMeta :: ObjectMeta
  Cell_Spec :: CellSpec
  Cell_Status :: CellStatus

section \<open>\<^verbatim>\<open>api/v1alpha1/deployment_types.go\<close>\<close>

record DeploymentSpec =
  DeploymentSpec_Application :: string
  DeploymentSpec_TargetRef :: LocalObjectReference
  DeploymentSpec_Release :: string

record DeploymentStatus =
  DeploymentStatus_ObservedGeneration :: int
  DeploymentStatus_Conditions :: "Condition list"
  DeploymentStatus_LastSyncRun :: string

record Deployment =
  Deployment_ObjectMeta :: ObjectMeta
  Deployment_Spec :: DeploymentSpec
  Deployment_Status :: DeploymentStatus

section \<open>\<^verbatim>\<open>api/v1alpha1/deploymenttarget_types.go\<close>\<close>

record DeploymentTargetCluster =
  DeploymentTargetCluster_Name :: string
  DeploymentTargetCluster_KubeconfigSecretRef :: "LocalObjectReference option"

record DeploymentTargetSpec =
  DeploymentTargetSpec_Environment :: string
  DeploymentTargetSpec_Cell :: string
  DeploymentTargetSpec_Region :: string
  DeploymentTargetSpec_Cluster :: DeploymentTargetCluster

record DeploymentTargetStatus =
  DeploymentTargetStatus_ObservedGeneration :: int
  DeploymentTargetStatus_Conditions :: "Condition list"
  DeploymentTargetStatus_Reachable :: bool
  DeploymentTargetStatus_LastContactedAt :: "time option"

record DeploymentTarget =
  DeploymentTarget_ObjectMeta :: ObjectMeta
  DeploymentTarget_Spec :: DeploymentTargetSpec
  DeploymentTarget_Status :: DeploymentTargetStatus

section \<open>\<^verbatim>\<open>api/v1alpha1/environment_types.go\<close>\<close>

record EnvironmentChangeControl =
  EnvironmentChangeControl_Required :: bool

record EnvironmentSpec =
  EnvironmentSpec_Order :: int
  EnvironmentSpec_Protected :: bool
  EnvironmentSpec_ChangeControl :: EnvironmentChangeControl

record EnvironmentStatus =
  EnvironmentStatus_ObservedGeneration :: int
  EnvironmentStatus_Conditions :: "Condition list"

record Environment =
  Environment_ObjectMeta :: ObjectMeta
  Environment_Spec :: EnvironmentSpec
  Environment_Status :: EnvironmentStatus

section \<open>\<^verbatim>\<open>api/v1alpha1/freezewindow_types.go\<close>\<close>

record FreezeWindowSpec =
  FreezeWindowSpec_Reason :: string
  FreezeWindowSpec_Start :: time
  FreezeWindowSpec_End :: time
  FreezeWindowSpec_Environments :: "string list"
  FreezeWindowSpec_Cells :: "string list"

record FreezeWindowStatus =
  FreezeWindowStatus_ObservedGeneration :: int
  FreezeWindowStatus_Active :: bool
  FreezeWindowStatus_Conditions :: "Condition list"

record FreezeWindow =
  FreezeWindow_ObjectMeta :: ObjectMeta
  FreezeWindow_Spec :: FreezeWindowSpec
  FreezeWindow_Status :: FreezeWindowStatus

section \<open>\<^verbatim>\<open>api/v1alpha1/healthcheck_types.go\<close>\<close>

type_synonym HealthState = string

abbreviation HealthStateHealthy :: string where "HealthStateHealthy \<equiv> ''Healthy''"
abbreviation HealthStateProgressing :: string where "HealthStateProgressing \<equiv> ''Progressing''"
abbreviation HealthStateDegraded :: string where "HealthStateDegraded \<equiv> ''Degraded''"
abbreviation HealthStateSuspended :: string where "HealthStateSuspended \<equiv> ''Suspended''"
abbreviation HealthStateMissing :: string where "HealthStateMissing \<equiv> ''Missing''"
abbreviation HealthStateUnknown :: string where "HealthStateUnknown \<equiv> ''Unknown''"

definition HealthState_values :: "string list" where
  "HealthState_values = [HealthStateHealthy, HealthStateProgressing, HealthStateDegraded, HealthStateSuspended, HealthStateMissing, HealthStateUnknown]"

record HealthCheckSpec =
  HealthCheckSpec_Application :: string
  HealthCheckSpec_TargetRef :: "LocalObjectReference option"

record HealthCheckStatus =
  HealthCheckStatus_ObservedGeneration :: int
  HealthCheckStatus_State :: HealthState
  HealthCheckStatus_Summary :: string
  HealthCheckStatus_Conditions :: "Condition list"

record HealthCheck =
  HealthCheck_ObjectMeta :: ObjectMeta
  HealthCheck_Spec :: HealthCheckSpec
  HealthCheck_Status :: HealthCheckStatus

section \<open>\<^verbatim>\<open>api/v1alpha1/notifier_types.go\<close>\<close>

type_synonym NotifierDeliveryMode = string

abbreviation NotifierDeliveryModeAsync :: string where "NotifierDeliveryModeAsync \<equiv> ''async''"
abbreviation NotifierDeliveryModeSync :: string where "NotifierDeliveryModeSync \<equiv> ''sync''"

definition NotifierDeliveryMode_values :: "string list" where
  "NotifierDeliveryMode_values = [NotifierDeliveryModeAsync, NotifierDeliveryModeSync]"

type_synonym NotifierBackoff = string

abbreviation NotifierBackoffConstant :: string where "NotifierBackoffConstant \<equiv> ''constant''"
abbreviation NotifierBackoffExponential :: string where "NotifierBackoffExponential \<equiv> ''exponential''"

definition NotifierBackoff_values :: "string list" where
  "NotifierBackoff_values = [NotifierBackoffConstant, NotifierBackoffExponential]"

record NotifierDelivery =
  NotifierDelivery_Mode :: NotifierDeliveryMode
  NotifierDelivery_Timeout :: "int option"
  NotifierDelivery_Retries :: int
  NotifierDelivery_Backoff :: NotifierBackoff

record NotifierWebhookEndpoint =
  NotifierWebhookEndpoint_URL :: string
  NotifierWebhookEndpoint_AuthSecretRef :: "SecretKeyRef option"

record NotifierEndpoint =
  NotifierEndpoint_Builtin :: string
  NotifierEndpoint_Webhook :: "NotifierWebhookEndpoint option"

record NotifierEventSelector =
  NotifierEventSelector_Include :: "string list"
  NotifierEventSelector_Exclude :: "string list"

record NotifierFilters =
  NotifierFilters_Environments :: "string list"
  NotifierFilters_Applications :: "string list"

record NotifierSpec =
  NotifierSpec_Endpoint :: NotifierEndpoint
  NotifierSpec_Events :: NotifierEventSelector
  NotifierSpec_Filters :: NotifierFilters
  NotifierSpec_Delivery :: NotifierDelivery

record NotifierStatus =
  NotifierStatus_ObservedGeneration :: int
  NotifierStatus_Conditions :: "Condition list"

record Notifier =
  Notifier_ObjectMeta :: ObjectMeta
  Notifier_Spec :: NotifierSpec
  Notifier_Status :: NotifierStatus

section \<open>\<^verbatim>\<open>api/v1alpha1/promotion_types.go\<close>\<close>

type_synonym PromotionMode = string

abbreviation PromotionModeDirectCommit :: string where "PromotionModeDirectCommit \<equiv> ''directCommit''"
abbreviation PromotionModePullRequest :: string where "PromotionModePullRequest \<equiv> ''pullRequest''"
abbreviation PromotionModeManualRecordOnly :: string where "PromotionModeManualRecordOnly \<equiv> ''manualRecordOnly''"
abbreviation PromotionModeDryRun :: string where "PromotionModeDryRun \<equiv> ''dryRun''"

definition PromotionMode_values :: "string list" where
  "PromotionMode_values = [PromotionModeDirectCommit, PromotionModePullRequest, PromotionModeManualRecordOnly, PromotionModeDryRun]"

type_synonym PromotionPhase = string

abbreviation PromotionPhaseProposed :: string where "PromotionPhaseProposed \<equiv> ''Proposed''"
abbreviation PromotionPhaseEvaluating :: string where "PromotionPhaseEvaluating \<equiv> ''Evaluating''"
abbreviation PromotionPhaseBlocked :: string where "PromotionPhaseBlocked \<equiv> ''Blocked''"
abbreviation PromotionPhaseApproved :: string where "PromotionPhaseApproved \<equiv> ''Approved''"
abbreviation PromotionPhaseMutatingGit :: string where "PromotionPhaseMutatingGit \<equiv> ''MutatingGit''"
abbreviation PromotionPhaseWaitingForMerge :: string where "PromotionPhaseWaitingForMerge \<equiv> ''WaitingForMerge''"
abbreviation PromotionPhaseWaitingForSync :: string where "PromotionPhaseWaitingForSync \<equiv> ''WaitingForSync''"
abbreviation PromotionPhaseVerifying :: string where "PromotionPhaseVerifying \<equiv> ''Verifying''"
abbreviation PromotionPhaseSucceeded :: string where "PromotionPhaseSucceeded \<equiv> ''Succeeded''"
abbreviation PromotionPhaseFailed :: string where "PromotionPhaseFailed \<equiv> ''Failed''"
abbreviation PromotionPhaseRolledBack :: string where "PromotionPhaseRolledBack \<equiv> ''RolledBack''"
abbreviation PromotionPhaseCanceled :: string where "PromotionPhaseCanceled \<equiv> ''Canceled''"

definition PromotionPhase_values :: "string list" where
  "PromotionPhase_values = [PromotionPhaseProposed, PromotionPhaseEvaluating, PromotionPhaseBlocked, PromotionPhaseApproved, PromotionPhaseMutatingGit, PromotionPhaseWaitingForMerge, PromotionPhaseWaitingForSync, PromotionPhaseVerifying, PromotionPhaseSucceeded, PromotionPhaseFailed, PromotionPhaseRolledBack, PromotionPhaseCanceled]"

record PromotionFrom =
  PromotionFrom_Environment :: string

record PromotionTo =
  PromotionTo_Environment :: string
  PromotionTo_Cells :: "string list"
  PromotionTo_Regions :: "string list"

record PromotionChange =
  PromotionChange_Provider :: string
  PromotionChange_ID :: string

record PromotionSpec =
  PromotionSpec_Application :: string
  PromotionSpec_Release :: string
  PromotionSpec_From :: PromotionFrom
  PromotionSpec_To :: PromotionTo
  PromotionSpec_Mode :: PromotionMode
  PromotionSpec_Change :: PromotionChange
  PromotionSpec_PolicyRefs :: "LocalObjectReference list"

record PromotionStatus =
  PromotionStatus_ObservedGeneration :: int
  PromotionStatus_Phase :: PromotionPhase
  PromotionStatus_Blockers :: "string list"
  PromotionStatus_Conditions :: "Condition list"

record Promotion =
  Promotion_ObjectMeta :: ObjectMeta
  Promotion_Spec :: PromotionSpec
  Promotion_Status :: PromotionStatus

section \<open>\<^verbatim>\<open>api/v1alpha1/promotionpolicy_types.go\<close>\<close>

record PromotionPolicySpec =
  PromotionPolicySpec_Required :: "string list"

record PromotionPolicyStatus =
  PromotionPolicyStatus_ObservedGeneration :: int
  PromotionPolicyStatus_Conditions :: "Condition list"

record PromotionPolicy =
  PromotionPolicy_ObjectMeta :: ObjectMeta
  PromotionPolicy_Spec :: PromotionPolicySpec
  PromotionPolicy_Status :: PromotionPolicyStatus

section \<open>\<^verbatim>\<open>api/v1alpha1/release_types.go\<close>\<close>

type_synonym ReleaseArtifactType = string

abbreviation ReleaseArtifactImage :: string where "ReleaseArtifactImage \<equiv> ''image''"
abbreviation ReleaseArtifactChart :: string where "ReleaseArtifactChart \<equiv> ''chart''"
abbreviation ReleaseArtifactOCIBlob :: string where "ReleaseArtifactOCIBlob \<equiv> ''ociArtifact''"

definition ReleaseArtifactType_values :: "string list" where
  "ReleaseArtifactType_values = [ReleaseArtifactImage, ReleaseArtifactChart, ReleaseArtifactOCIBlob]"

record ReleaseArtifact =
  ReleaseArtifact_Type :: ReleaseArtifactType
  ReleaseArtifact_Ref :: string
  ReleaseArtifact_Digest :: string
  ReleaseArtifact_Version :: string

record ReleaseProvenance =
  ReleaseProvenance_Commit :: string
  ReleaseProvenance_BuildURL :: string
  ReleaseProvenance_SBOMRef :: string

record ReleaseSpec =
  ReleaseSpec_Application :: string
  ReleaseSpec_Artifacts :: "ReleaseArtifact list"
  ReleaseSpec_Provenance :: ReleaseProvenance

record ReleaseStatus =
  ReleaseStatus_ObservedGeneration :: int
  ReleaseStatus_Conditions :: "Condition list"

record Release =
  Release_ObjectMeta :: ObjectMeta
  Release_Spec :: ReleaseSpec
  Release_Status :: ReleaseStatus

section \<open>\<^verbatim>\<open>api/v1alpha1/source_types.go\<close>\<close>

type_synonym SourceType = string

abbreviation SourceTypeContainerImage :: string where "SourceTypeContainerImage \<equiv> ''containerImage''"
abbreviation SourceTypeGitRepository :: string where "SourceTypeGitRepository \<equiv> ''gitRepository''"
abbreviation SourceTypeHelmChart :: string where "SourceTypeHelmChart \<equiv> ''helmChart''"
abbreviation SourceTypeOCIArtifact :: string where "SourceTypeOCIArtifact \<equiv> ''ociArtifact''"

definition SourceType_values :: "string list" where
  "SourceType_values = [SourceTypeContainerImage, SourceTypeGitRepository, SourceTypeHelmChart, SourceTypeOCIArtifact]"

record SourceVerify =
  SourceVerify_Cosign :: bool
  SourceVerify_RequireSBOM :: bool

record SourceSpec =
  SourceSpec_Type :: SourceType
  SourceSpec_Image :: string
  SourceSpec_Repo :: string
  SourceSpec_Chart :: string
  SourceSpec_Semver :: string
  SourceSpec_Verify :: SourceVerify

record SourceObservedRevision =
  SourceObservedRevision_Tag :: string
  SourceObservedRevision_Digest :: string
  SourceObservedRevision_ObservedAt :: "time option"

record SourceStatus =
  SourceStatus_ObservedGeneration :: int
  SourceStatus_Conditions :: "Condition list"
  SourceStatus_LatestRevision :: "SourceObservedRevision option"

record Source =
  Source_ObjectMeta :: ObjectMeta
  Source_Spec :: SourceSpec
  Source_Status :: SourceStatus

section \<open>\<^verbatim>\<open>api/v1alpha1/syncplan_types.go\<close>\<close>

record SyncPlanSpec =
  SyncPlanSpec_Application :: string
  SyncPlanSpec_TargetRefs :: "LocalObjectReference list"
  SyncPlanSpec_AutoSync :: bool
  SyncPlanSpec_Suspended :: bool

record SyncPlanStatus =
  SyncPlanStatus_ObservedGeneration :: int
  SyncPlanStatus_Conditions :: "Condition list"
  SyncPlanStatus_LastSyncRun :: string

record SyncPlan =
  SyncPlan_ObjectMeta :: ObjectMeta
  SyncPlan_Spec :: SyncPlanSpec
  SyncPlan_Status :: SyncPlanStatus

section \<open>\<^verbatim>\<open>api/v1alpha1/syncrun_types.go\<close>\<close>

type_synonym SyncRunPhase = string

abbreviation SyncRunPhasePending :: string where "SyncRunPhasePending \<equiv> ''Pending''"
abbreviation SyncRunPhaseRendering :: string where "SyncRunPhaseRendering \<equiv> ''Rendering''"
abbreviation SyncRunPhaseApplying :: string where "SyncRunPhaseApplying \<equiv> ''Applying''"
abbreviation SyncRunPhaseVerifying :: string where "SyncRunPhaseVerifying \<equiv> ''Verifying''"
abbreviation SyncRunPhaseSucceeded :: string where "SyncRunPhaseSucceeded \<equiv> ''Succeeded''"
abbreviation SyncRunPhaseFailed :: string where "SyncRunPhaseFailed \<equiv> ''Failed''"

definition SyncRunPhase_values :: "string list" where
  "SyncRunPhase_values = [SyncRunPhasePending, SyncRunPhaseRendering, SyncRunPhaseApplying, SyncRunPhaseVerifying, SyncRunPhaseSucceeded, SyncRunPhaseFailed]"

record SyncRunSpec =
  SyncRunSpec_PlanRef :: LocalObjectReference
  SyncRunSpec_TargetRef :: LocalObjectReference
  SyncRunSpec_Revision :: string

record SyncRunStatus =
  SyncRunStatus_ObservedGeneration :: int
  SyncRunStatus_Phase :: SyncRunPhase
  SyncRunStatus_StartedAt :: "time option"
  SyncRunStatus_CompletedAt :: "time option"
  SyncRunStatus_Conditions :: "Condition list"

record SyncRun =
  SyncRun_ObjectMeta :: ObjectMeta
  SyncRun_Spec :: SyncRunSpec
  SyncRun_Status :: SyncRunStatus

end
