(* ===== verification/Controllers.thy ===== *)
theory Controllers
  imports Api_Types Go_Errors
begin

text \<open>
  The fifteen reconcilers of \<^verbatim>\<open>internal/controller\<close>: each reads its object, records the
  observed generation and an \<^verbatim>\<open>Accepted\<close> condition in its status, and writes the status
  back when it changed.  The API client, \<^verbatim>\<open>apierrors.IsNotFound\<close>,
  \<^verbatim>\<open>meta.SetStatusCondition\<close> and \<^verbatim>\<open>equality.Semantic.DeepEqual\<close> are not part of the
  repository: they are arguments, and what is relied on is stated as \<open>lawful_\<close> predicates.
  \<^verbatim>\<open>DeepCopy\<close> of a status is the value itself.  Every reconciler returns the empty
  \<^verbatim>\<open>ctrl.Result\<close>, so only the error is kept.
\<close>

section \<open>The client and the library functions\<close>

record NamespacedName =
  NamespacedName_Namespace :: string
  NamespacedName_Name :: string

record ('c, 'o) kube_client =
  Client_Get :: "'c \<Rightarrow> NamespacedName \<Rightarrow> (goerr, 'o) result"
  Client_StatusUpdate :: "'c \<Rightarrow> 'o \<Rightarrow> goerr option \<times> 'c"

text \<open>\<open>SetStatusCondition\<close> reads the clock, which is its first argument.\<close>

record kube_lib =
  lib_IsNotFound :: "goerr \<Rightarrow> bool"
  lib_SetStatusCondition :: "time \<Rightarrow> Condition list \<Rightarrow> Condition \<Rightarrow> Condition list"

definition conditionAccepted :: string where
  "conditionAccepted = ''Accepted''"

definition reasonScaffoldReconciler :: string where
  "reasonScaffoldReconciler = ''ScaffoldReconciler''"

text \<open>The condition literal of the reconcilers; the time of transition is left zero.\<close>

definition accepted_condition :: "int \<Rightarrow> string \<Rightarrow> Condition" where
  "accepted_condition generation message =
     \<lparr>Condition_Type = conditionAccepted, Condition_Status = ConditionTrue,
      Condition_ObservedGeneration = generation, Condition_LastTransitionTime = 0,
      Condition_Reason = reasonScaffoldReconciler, Condition_Message = message\<rparr>"

section \<open>The reconcilers\<close>

text \<open>
  For each kind, \<open>mark\<close> is the block between the copy of the status and the comparison, and
  \<open>Reconcile\<close> the whole method.
\<close>

definition markApplication :: "kube_lib \<Rightarrow> time \<Rightarrow> Application \<Rightarrow> Application" where
  "markApplication lib now app =
     (let generation = ObjectMeta_Generation (Application_ObjectMeta app);
          status1 = (Application_Status app)\<lparr>ApplicationStatus_ObservedGeneration := generation\<rparr>;
          status2 = status1\<lparr>ApplicationStatus_Conditions :=
            lib_SetStatusCondition lib now (ApplicationStatus_Conditions status1)
              (accepted_condition generation ''Application specification accepted; reconciliation engines pending.'')\<rparr>
      in app\<lparr>Application_Status := status2\<rparr>)"

definition ApplicationReconciler_Reconcile ::
  "kube_lib \<Rightarrow> (ApplicationStatus \<Rightarrow> ApplicationStatus \<Rightarrow> bool) \<Rightarrow> ('c, Application) kube_client \<Rightarrow> 'c \<Rightarrow>
   NamespacedName \<Rightarrow> time \<Rightarrow> goerr option \<times> 'c" where
  "ApplicationReconciler_Reconcile lib deep_equal cl c req now =
     (case Client_Get cl c req of
        Inl err \<Rightarrow> if lib_IsNotFound lib err then (None, c) else (Some err, c)
      | Inr app \<Rightarrow>
          let before = Application_Status app; app' = markApplication lib now app in
           if deep_equal before (Application_Status app') then (None, c)
           else (case Client_StatusUpdate cl c app' of
                   (Some err, c') \<Rightarrow> (Some err, c')
                 | (None, c') \<Rightarrow> (None, c')))"

definition markApproval :: "kube_lib \<Rightarrow> time \<Rightarrow> Approval \<Rightarrow> Approval" where
  "markApproval lib now obj =
     (let generation = ObjectMeta_Generation (Approval_ObjectMeta obj);
          status1 = (Approval_Status obj)\<lparr>ApprovalStatus_ObservedGeneration := generation\<rparr>;
          status2 = status1\<lparr>ApprovalStatus_Conditions :=
            lib_SetStatusCondition lib now (ApprovalStatus_Conditions status1)
              (accepted_condition generation ''Approval accepted; approval semantics arrive with MVP 2.'')\<rparr>
      in obj\<lparr>Approval_Status := status2\<rparr>)"

definition ApprovalReconciler_Reconcile ::
  "kube_lib \<Rightarrow> (ApprovalStatus \<Rightarrow> ApprovalStatus \<Rightarrow> bool) \<Rightarrow> ('c, Approval) kube_client \<Rightarrow> 'c \<Rightarrow>
   NamespacedName \<Rightarrow> time \<Rightarrow> goerr option \<times> 'c" where
  "ApprovalReconciler_Reconcile lib deep_equal cl c req now =
     (case Client_Get cl c req of
        Inl err \<Rightarrow> if lib_IsNotFound lib err then (None, c) else (Some err, c)
      | Inr obj \<Rightarrow>
          let before = Approval_Status obj; obj' = markApproval lib now obj in
           if deep_equal before (Approval_Status obj') then (None, c)
           else Client_StatusUpdate cl c obj')"

definition markCell :: "kube_lib \<Rightarrow> time \<Rightarrow> Cell \<Rightarrow> Cell" where
  "markCell lib now cell =
     (let generation = ObjectMeta_Generation (Cell_ObjectMeta cell);
          status1 = (Cell_Status cell)\<lparr>CellStatus_ObservedGeneration := generation\<rparr>;
          status2 = status1\<lparr>CellStatus_Conditions :=
            lib_SetStatusCondition lib now (CellStatus_Conditions status1)
              (accepted_condition generation ''Cell specification accepted.'')\<rparr>
      in cell\<lparr>Cell_Status := status2\<rparr>)"

definition CellReconciler_Reconcile ::
  "kube_lib \<Rightarrow> (CellStatus \<Rightarrow> CellStatus \<Rightarrow> bool) \<Rightarrow> ('c, Cell) kube_client \<Rightarrow> 'c \<Rightarrow>
   NamespacedName \<Rightarrow> time \<Rightarrow> goerr option \<times> 'c" where
  "CellReconciler_Reconcile lib deep_equal cl c req now =
     (case Client_Get cl c req of
        Inl err \<Rightarrow> if lib_IsNotFound lib err then (None, c) else (Some err, c)
      | Inr cell \<Rightarrow>
          let before = Cell_Status cell; cell' = markCell lib now cell in
           if deep_equal before (Cell_Status cell') then (None, c)
           else Client_StatusUpdate cl c cell')"

definition markDeployment :: "kube_lib \<Rightarrow> time \<Rightarrow> Deployment \<Rightarrow> Deployment" where
  "markDeployment lib now obj =
     (let generation = ObjectMeta_Generation (Deployment_ObjectMeta obj);
          status1 = (Deployment_Status obj)\<lparr>DeploymentStatus_ObservedGeneration := generation\<rparr>;
          status2 = status1\<lparr>DeploymentStatus_Conditions :=
            lib_SetStatusCondition lib now (DeploymentStatus_Conditions status1)
              (accepted_condition generation ''Deployment accepted; live-state reporting arrives with the Sync Engine.'')\<rparr>
      in obj\<lparr>Deployment_Status := status2\<rparr>)"

definition DeploymentReconciler_Reconcile ::
  "kube_lib \<Rightarrow> (DeploymentStatus \<Rightarrow> DeploymentStatus \<Rightarrow> bool) \<Rightarrow> ('c, Deployment) kube_client \<Rightarrow> 'c \<Rightarrow>
   NamespacedName \<Rightarrow> time \<Rightarrow> goerr option \<times> 'c" where
  "DeploymentReconciler_Reconcile lib deep_equal cl c req now =
     (case Client_Get cl c req of
        Inl err \<Rightarrow> if lib_IsNotFound lib err then (None, c) else (Some err, c)
      | Inr obj \<Rightarrow>
          let before = Deployment_Status obj; obj' = markDeployment lib now obj in
           if deep_equal before (Deployment_Status obj') then (None, c)
           else Client_StatusUpdate cl c obj')"

definition markDeploymentTarget :: "kube_lib \<Rightarrow> time \<Rightarrow> DeploymentTarget \<Rightarrow> DeploymentTarget" where
  "markDeploymentTarget lib now target =
     (let generation = ObjectMeta_Generation (DeploymentTarget_ObjectMeta target);
          status1 = (DeploymentTarget_Status target)\<lparr>DeploymentTargetStatus_ObservedGeneration := generation\<rparr>;
          status2 = status1\<lparr>DeploymentTargetStatus_Conditions :=
            lib_SetStatusCondition lib now (DeploymentTargetStatus_Conditions status1)
              (accepted_condition generation ''DeploymentTarget specification accepted; cluster connectivity is not yet probed.'')\<rparr>
      in target\<lparr>DeploymentTarget_Status := status2\<rparr>)"

definition DeploymentTargetReconciler_Reconcile ::
  "kube_lib \<Rightarrow> (DeploymentTargetStatus \<Rightarrow> DeploymentTargetStatus \<Rightarrow> bool) \<Rightarrow> ('c, DeploymentTarget) kube_client \<Rightarrow> 'c \<Rightarrow>
   NamespacedName \<Rightarrow> time \<Rightarrow> goerr option \<times> 'c" where
  "DeploymentTargetReconciler_Reconcile lib deep_equal cl c req now =
     (case Client_Get cl c req of
        Inl err \<Rightarrow> if lib_IsNotFound lib err then (None, c) else (Some err, c)
      | Inr target \<Rightarrow>
          let before = DeploymentTarget_Status target; target' = markDeploymentTarget lib now target in
           if deep_equal before (DeploymentTarget_Status target') then (None, c)
           else Client_StatusUpdate cl c target')"

definition markEnvironment :: "kube_lib \<Rightarrow> time \<Rightarrow> Environment \<Rightarrow> Environment" where
  "markEnvironment lib now env =
     (let generation = ObjectMeta_Generation (Environment_ObjectMeta env);
          status1 = (Environment_Status env)\<lparr>EnvironmentStatus_ObservedGeneration := generation\<rparr>;
          status2 = status1\<lparr>EnvironmentStatus_Conditions :=
            lib_SetStatusCondition lib now (EnvironmentStatus_Conditions status1)
              (accepted_condition generation ''Environment specification accepted.'')\<rparr>
      in env\<lparr>Environment_Status := status2\<rparr>)"

definition EnvironmentReconciler_Reconcile ::
  "kube_lib \<Rightarrow> (EnvironmentStatus \<Rightarrow> EnvironmentStatus \<Rightarrow> bool) \<Rightarrow> ('c, Environment) kube_client \<Rightarrow> 'c \<Rightarrow>
   NamespacedName \<Rightarrow> time \<Rightarrow> goerr option \<times> 'c" where
  "EnvironmentReconciler_Reconcile lib deep_equal cl c req now =
     (case Client_Get cl c req of
        Inl err \<Rightarrow> if lib_IsNotFound lib err then (None, c) else (Some err, c)
      | Inr env \<Rightarrow>
          let before = Environment_Status env; env' = markEnvironment lib now env in
           if deep_equal before (Environment_Status env') then (None, c)
           else Client_StatusUpdate cl c env')"

definition markFreezeWindow :: "kube_lib \<Rightarrow> time \<Rightarrow> FreezeWindow \<Rightarrow> FreezeWindow" where
  "markFreezeWindow lib now obj =
     (let generation = ObjectMeta_Generation (FreezeWindow_ObjectMeta obj);
          status1 = (FreezeWindow_Status obj)\<lparr>FreezeWindowStatus_ObservedGeneration := generation\<rparr>;
          status2 = status1\<lparr>FreezeWindowStatus_Conditions :=
            lib_SetStatusCondition lib now (FreezeWindowStatus_Conditions status1)
              (accepted_condition generation ''FreezeWindow accepted; active-window evaluation arrives with MVP 2.'')\<rparr>
      in obj\<lparr>FreezeWindow_Status := status2\<rparr>)"

definition FreezeWindowReconciler_Reconcile ::
  "kube_lib \<Rightarrow> (FreezeWindowStatus \<Rightarrow> FreezeWindowStatus \<Rightarrow> bool) \<Rightarrow> ('c, FreezeWindow) kube_client \<Rightarrow> 'c \<Rightarrow>
   NamespacedName \<Rightarrow> time \<Rightarrow> goerr option \<times> 'c" where
  "FreezeWindowReconciler_Reconcile lib deep_equal cl c req now =
     (case Client_Get cl c req of
        Inl err \<Rightarrow> if lib_IsNotFound lib err then (None, c) else (Some err, c)
      | Inr obj \<Rightarrow>
          let before = FreezeWindow_Status obj; obj' = markFreezeWindow lib now obj in
           if deep_equal before (FreezeWindow_Status obj') then (None, c)
           else Client_StatusUpdate cl c obj')"

definition markHealthCheck :: "kube_lib \<Rightarrow> time \<Rightarrow> HealthCheck \<Rightarrow> HealthCheck" where
  "markHealthCheck lib now obj =
     (let generation = ObjectMeta_Generation (HealthCheck_ObjectMeta obj);
          status1 = (HealthCheck_Status obj)\<lparr>HealthCheckStatus_ObservedGeneration := generation\<rparr>;
          status2 = status1\<lparr>HealthCheckStatus_Conditions :=
            lib_SetStatusCondition lib now (HealthCheckStatus_Conditions status1)
              (accepted_condition generation ''HealthCheck accepted; Health Engine arrives with MVP 1.'')\<rparr>
      in obj\<lparr>HealthCheck_Status := status2\<rparr>)"

definition HealthCheckReconciler_Reconcile ::
  "kube_lib \<Rightarrow> (HealthCheckStatus \<Rightarrow> HealthCheckStatus \<Rightarrow> bool) \<Rightarrow> ('c, HealthCheck) kube_client \<Rightarrow> 'c \<Rightarrow>
   NamespacedName \<Rightarrow> time \<Rightarrow> goerr option \<times> 'c" where
  "HealthCheckReconciler_Reconcile lib deep_equal cl c req now =
     (case Client_Get cl c req of
        Inl err \<Rightarrow> if lib_IsNotFound lib err then (None, c) else (Some err, c)
      | Inr obj \<Rightarrow>
          let before = HealthCheck_Status obj; obj' = markHealthCheck lib now obj in
           if deep_equal before (HealthCheck_Status obj') then (None, c)
           else Client_StatusUpdate cl c obj')"

definition markNotifier :: "kube_lib \<Rightarrow> time \<Rightarrow> Notifier \<Rightarrow> Notifier" where
  "markNotifier lib now obj =
     (let generation = ObjectMeta_Generation (Notifier_ObjectMeta obj);
          status1 = (Notifier_Status obj)\<lparr>NotifierStatus_ObservedGeneration := generation\<rparr>;
          status2 = status1\<lparr>NotifierStatus_Conditions :=
            lib_SetStatusCondition lib now (NotifierStatus_Conditions status1)
              (accepted_condition generation ''Notifier accepted; plugin dispatcher arrives with MVP 1.'')\<rparr>
      in obj\<lparr>Notifier_Status := status2\<rparr>)"

definition NotifierReconciler_Reconcile ::
  "kube_lib \<Rightarrow> (NotifierStatus \<Rightarrow> NotifierStatus \<Rightarrow> bool) \<Rightarrow> ('c, Notifier) kube_client \<Rightarrow> 'c \<Rightarrow>
   NamespacedName \<Rightarrow> time \<Rightarrow> goerr option \<times> 'c" where
  "NotifierReconciler_Reconcile lib deep_equal cl c req now =
     (case Client_Get cl c req of
        Inl err \<Rightarrow> if lib_IsNotFound lib err then (None, c) else (Some err, c)
      | Inr obj \<Rightarrow>
          let before = Notifier_Status obj; obj' = markNotifier lib now obj in
           if deep_equal before (Notifier_Status obj') then (None, c)
           else Client_StatusUpdate cl c obj')"

definition markPromotion :: "kube_lib \<Rightarrow> time \<Rightarrow> Promotion \<Rightarrow> Promotion" where
  "markPromotion lib now promo =
     (let generation = ObjectMeta_Generation (Promotion_ObjectMeta promo);
          status1 = (Promotion_Status promo)\<lparr>PromotionStatus_ObservedGeneration := generation\<rparr>;
          status2 = (if PromotionStatus_Phase status1 = [] then status1\<lparr>PromotionStatus_Phase := PromotionPhaseProposed\<rparr>
                     else status1);
          status3 = status2\<lparr>PromotionStatus_Conditions :=
            lib_SetStatusCondition lib now (PromotionStatus_Conditions status2)
              (accepted_condition generation ''Promotion accepted; Promotion Engine arrives with MVP 2.'')\<rparr>
      in promo\<lparr>Promotion_Status := status3\<rparr>)"

definition PromotionReconciler_Reconcile ::
  "kube_lib \<Rightarrow> (PromotionStatus \<Rightarrow> PromotionStatus \<Rightarrow> bool) \<Rightarrow> ('c, Promotion) kube_client \<Rightarrow> 'c \<Rightarrow>
   NamespacedName \<Rightarrow> time \<Rightarrow> goerr option \<times> 'c" where
  "PromotionReconciler_Reconcile lib deep_equal cl c req now =
     (case Client_Get cl c req of
        Inl err \<Rightarrow> if lib_IsNotFound lib err then (None, c) else (Some err, c)
      | Inr promo \<Rightarrow>
          let before = Promotion_Status promo; promo' = markPromotion lib now promo in
           if deep_equal before (Promotion_Status promo') then (None, c)
           else Client_StatusUpdate cl c promo')"

definition markPromotionPolicy :: "kube_lib \<Rightarrow> time \<Rightarrow> PromotionPolicy \<Rightarrow> PromotionPolicy" where
  "markPromotionPolicy lib now obj =
     (let generation = ObjectMeta_Generation (PromotionPolicy_ObjectMeta obj);
          status1 = (PromotionPolicy_Status obj)\<lparr>PromotionPolicyStatus_ObservedGeneration := generation\<rparr>;
          status2 = status1\<lparr>PromotionPolicyStatus_Conditions :=
            lib_SetStatusCondition lib now (PromotionPolicyStatus_Conditions status1)
              (accepted_condition generation ''PromotionPolicy accepted; Promotion Engine arrives with MVP 2.'')\<rparr>
      in obj\<lparr>PromotionPolicy_Status := status2\<rparr>)"

definition PromotionPolicyReconciler_Reconcile ::
  "kube_lib \<Rightarrow> (PromotionPolicyStatus \<Rightarrow> PromotionPolicyStatus \<Rightarrow> bool) \<Rightarrow> ('c, PromotionPolicy) kube_client \<Rightarrow> 'c \<Rightarrow>
   NamespacedName \<Rightarrow> time \<Rightarrow> goerr option \<times> 'c" where
  "PromotionPolicyReconciler_Reconcile lib deep_equal cl c req now =
     (case Client_Get cl c req of
        Inl err \<Rightarrow> if lib_IsNotFound lib err then (None, c) else (Some err, c)
      | Inr obj \<Rightarrow>
          let before = PromotionPolicy_Status obj; obj' = markPromotionPolicy lib now obj in
           if deep_equal before (PromotionPolicy_Status obj') then (None, c)
           else Client_StatusUpdate cl c obj')"

definition markRelease :: "kube_lib \<Rightarrow> time \<Rightarrow> Release \<Rightarrow> Release" where
  "markRelease lib now obj =
     (let generation = ObjectMeta_Generation (Release_ObjectMeta obj);
          status1 = (Release_Status obj)\<lparr>ReleaseStatus_ObservedGeneration := generation\<rparr>;
          status2 = status1\<lparr>ReleaseStatus_Conditions :=
            lib_SetStatusCondition lib now (ReleaseStatus_Conditions status1)
              (accepted_condition generation ''Release accepted; release-cut behavior arrives with MVP 2.'')\<rparr>
      in obj\<lparr>Release_Status := status2\<rparr>)"

definition ReleaseReconciler_Reconcile ::
  "kube_lib \<Rightarrow> (ReleaseStatus \<Rightarrow> ReleaseStatus \<Rightarrow> bool) \<Rightarrow> ('c, Release) kube_client \<Rightarrow> 'c \<Rightarrow>
   NamespacedName \<Rightarrow> time \<Rightarrow> goerr option \<times> 'c" where
  "ReleaseReconciler_Reconcile lib deep_equal cl c req now =
     (case Client_Get cl c req of
        Inl err \<Rightarrow> if lib_IsNotFound lib err then (None, c) else (Some err, c)
      | Inr obj \<Rightarrow>
          let before = Release_Status obj; obj' = markRelease lib now obj in
           if deep_equal before (Release_Status obj') then (None, c)
           else Client_StatusUpdate cl c obj')"

definition markSource :: "kube_lib \<Rightarrow> time \<Rightarrow> Source \<Rightarrow> Source" where
  "markSource lib now obj =
     (let generation = ObjectMeta_Generation (Source_ObjectMeta obj);
          status1 = (Source_Status obj)\<lparr>SourceStatus_ObservedGeneration := generation\<rparr>;
          status2 = status1\<lparr>SourceStatus_Conditions :=
            lib_SetStatusCondition lib now (SourceStatus_Conditions status1)
              (accepted_condition generation ''Source accepted; Source Engine arrives with MVP 2.'')\<rparr>
      in obj\<lparr>Source_Status := status2\<rparr>)"

definition SourceReconciler_Reconcile ::
  "kube_lib \<Rightarrow> (SourceStatus \<Rightarrow> SourceStatus \<Rightarrow> bool) \<Rightarrow> ('c, Source) kube_client \<Rightarrow> 'c \<Rightarrow>
   NamespacedName \<Rightarrow> time \<Rightarrow> goerr option \<times> 'c" where
  "SourceReconciler_Reconcile lib deep_equal cl c req now =
     (case Client_Get cl c req of
        Inl err \<Rightarrow> if lib_IsNotFound lib err then (None, c) else (Some err, c)
      | Inr obj \<Rightarrow>
          let before = Source_Status obj; obj' = markSource lib now obj in
           if deep_equal before (Source_Status obj') then (None, c)
           else Client_StatusUpdate cl c obj')"

definition markSyncPlan :: "kube_lib \<Rightarrow> time \<Rightarrow> SyncPlan \<Rightarrow> SyncPlan" where
  "markSyncPlan lib now plan =
     (let generation = ObjectMeta_Generation (SyncPlan_ObjectMeta plan);
          status1 = (SyncPlan_Status plan)\<lparr>SyncPlanStatus_ObservedGeneration := generation\<rparr>;
          status2 = status1\<lparr>SyncPlanStatus_Conditions :=
            lib_SetStatusCondition lib now (SyncPlanStatus_Conditions status1)
              (accepted_condition generation ''SyncPlan accepted; Sync Engine arrives with MVP 1.'')\<rparr>
      in plan\<lparr>SyncPlan_Status := status2\<rparr>)"

definition SyncPlanReconciler_Reconcile ::
  "kube_lib \<Rightarrow> (SyncPlanStatus \<Rightarrow> SyncPlanStatus \<Rightarrow> bool) \<Rightarrow> ('c, SyncPlan) kube_client \<Rightarrow> 'c \<Rightarrow>
   NamespacedName \<Rightarrow> time \<Rightarrow> goerr option \<times> 'c" where
  "SyncPlanReconciler_Reconcile lib deep_equal cl c req now =
     (case Client_Get cl c req of
        Inl err \<Rightarrow> if lib_IsNotFound lib err then (None, c) else (Some err, c)
      | Inr plan \<Rightarrow>
          let before = SyncPlan_Status plan; plan' = markSyncPlan lib now plan in
           if deep_equal before (SyncPlan_Status plan') then (None, c)
           else Client_StatusUpdate cl c plan')"

definition markSyncRun :: "kube_lib \<Rightarrow> time \<Rightarrow> SyncRun \<Rightarrow> SyncRun" where
  "markSyncRun lib now obj =
     (let generation = ObjectMeta_Generation (SyncRun_ObjectMeta obj);
          status1 = (SyncRun_Status obj)\<lparr>SyncRunStatus_ObservedGeneration := generation\<rparr>;
          status2 = status1\<lparr>SyncRunStatus_Conditions :=
            lib_SetStatusCondition lib now (SyncRunStatus_Conditions status1)
              (accepted_condition generation ''SyncRun accepted; Sync Engine arrives with MVP 1.'')\<rparr>
      in obj\<lparr>SyncRun_Status := status2\<rparr>)"

definition SyncRunReconciler_Reconcile ::
  "kube_lib \<Rightarrow> (SyncRunStatus \<Rightarrow> SyncRunStatus \<Rightarrow> bool) \<Rightarrow> ('c, SyncRun) kube_client \<Rightarrow> 'c \<Rightarrow>
   NamespacedName \<Rightarrow> time \<Rightarrow> goerr option \<times> 'c" where
  "SyncRunReconciler_Reconcile lib deep_equal cl c req now =
     (case Client_Get cl c req of
        Inl err \<Rightarrow> if lib_IsNotFound lib err then (None, c) else (Some err, c)
      | Inr obj \<Rightarrow>
          let before = SyncRun_Status obj; obj' = markSyncRun lib now obj in
           if deep_equal before (SyncRun_Status obj') then (None, c)
           else Client_StatusUpdate cl c obj')"

section \<open>What is relied on\<close>

text \<open>
  \<open>SetStatusCondition\<close>, as documented: afterwards the condition of the given type has the
  given status, generation, reason and message; conditions of other types are as before; and
  setting the same condition again changes nothing, at any time, because the transition time
  moves only with the status.
\<close>

definition lawful_lib :: "kube_lib \<Rightarrow> bool" where
  "lawful_lib lib \<longleftrightarrow>
     (\<forall>now cs c. \<exists>x. find (\<lambda>x. Condition_Type x = Condition_Type c) (lib_SetStatusCondition lib now cs c) = Some x \<and>
        Condition_Status x = Condition_Status c \<and>
        Condition_ObservedGeneration x = Condition_ObservedGeneration c \<and>
        Condition_Reason x = Condition_Reason c \<and> Condition_Message x = Condition_Message c) \<and>
     (\<forall>now cs c. filter (\<lambda>x. Condition_Type x \<noteq> Condition_Type c) (lib_SetStatusCondition lib now cs c) =
        filter (\<lambda>x. Condition_Type x \<noteq> Condition_Type c) cs) \<and>
     (\<forall>now now' cs c. lib_SetStatusCondition lib now' (lib_SetStatusCondition lib now cs c) c =
        lib_SetStatusCondition lib now cs c)"

text \<open>
  The API server, seen by one reconciler with no other writer in between: an object is read
  under its own name; an accepted status update is what is read back and touches no other
  object; a refused one changes nothing.
\<close>

definition object_key :: "ObjectMeta \<Rightarrow> NamespacedName" where
  "object_key m = \<lparr>NamespacedName_Namespace = ObjectMeta_Namespace m, NamespacedName_Name = ObjectMeta_Name m\<rparr>"

definition lawful_client :: "('o \<Rightarrow> ObjectMeta) \<Rightarrow> ('c, 'o) kube_client \<Rightarrow> bool" where
  "lawful_client meta cl \<longleftrightarrow>
     (\<forall>c nn obj. Client_Get cl c nn = Inr obj \<longrightarrow> object_key (meta obj) = nn) \<and>
     (\<forall>c obj c'. Client_StatusUpdate cl c obj = (None, c') \<longrightarrow>
        Client_Get cl c' (object_key (meta obj)) = Inr obj \<and>
        (\<forall>nn. nn \<noteq> object_key (meta obj) \<longrightarrow> Client_Get cl c' nn = Client_Get cl c nn)) \<and>
     (\<forall>c obj err c'. Client_StatusUpdate cl c obj = (Some err, c') \<longrightarrow> c' = c)"

text \<open>Semantic equality is equality here: a status in the model has no nil slices or time zones.\<close>

definition lawful_equal :: "('s \<Rightarrow> 's \<Rightarrow> bool) \<Rightarrow> bool" where
  "lawful_equal deep_equal \<longleftrightarrow> (\<forall>a b. deep_equal a b \<longleftrightarrow> a = b)"

section \<open>The contract of a scaffold reconciler\<close>

text \<open>The reading, comparing and writing that the methods share, around their \<open>mark\<close>.\<close>

definition scaffold ::
  "('o \<Rightarrow> 's) \<Rightarrow> (kube_lib \<Rightarrow> time \<Rightarrow> 'o \<Rightarrow> 'o) \<Rightarrow> kube_lib \<Rightarrow> ('s \<Rightarrow> 's \<Rightarrow> bool) \<Rightarrow>
   ('c, 'o) kube_client \<Rightarrow> 'c \<Rightarrow> NamespacedName \<Rightarrow> time \<Rightarrow> goerr option \<times> 'c" where
  "scaffold status mark lib deep_equal cl c nn now =
     (case Client_Get cl c nn of
        Inl err \<Rightarrow> (if lib_IsNotFound lib err then None else Some err, c)
      | Inr obj \<Rightarrow>
          if deep_equal (status obj) (status (mark lib now obj)) then (None, c)
          else Client_StatusUpdate cl c (mark lib now obj))"

text \<open>What a status must show once its object has been reconciled.\<close>

definition accepted_at :: "int \<Rightarrow> int \<Rightarrow> Condition list \<Rightarrow> bool" where
  "accepted_at generation observed cs \<longleftrightarrow>
     observed = generation \<and>
     (\<exists>x. find (\<lambda>x. Condition_Type x = conditionAccepted) cs = Some x \<and>
        Condition_Status x = ConditionTrue \<and> Condition_ObservedGeneration x = generation)"

definition scaffold_contract ::
  "('o \<Rightarrow> ObjectMeta) \<Rightarrow> ('o \<Rightarrow> 'p) \<Rightarrow> ('o \<Rightarrow> int) \<Rightarrow> ('o \<Rightarrow> Condition list) \<Rightarrow>
   (kube_lib \<Rightarrow> ('s \<Rightarrow> 's \<Rightarrow> bool) \<Rightarrow> ('c, 'o) kube_client \<Rightarrow> 'c \<Rightarrow> NamespacedName \<Rightarrow> time \<Rightarrow> goerr option \<times> 'c) \<Rightarrow>
   kube_lib \<Rightarrow> bool" where
  "scaffold_contract meta spec observed conditions Reconcile lib \<longleftrightarrow>
     (\<forall>deep_equal cl c nn now. lawful_equal deep_equal \<longrightarrow> lawful_client meta cl \<longrightarrow>
       (case Client_Get cl c nn of
          Inl err \<Rightarrow> Reconcile lib deep_equal cl c nn now = (if lib_IsNotFound lib err then None else Some err, c)
        | Inr obj \<Rightarrow>
            (case Reconcile lib deep_equal cl c nn now of
               (Some err, c') \<Rightarrow> c' = c
             | (None, c') \<Rightarrow>
                 (\<exists>obj'. Client_Get cl c' nn = Inr obj' \<and> spec obj' = spec obj \<and> meta obj' = meta obj \<and>
                    accepted_at (ObjectMeta_Generation (meta obj)) (observed obj') (conditions obj') \<and>
                    filter (\<lambda>x. Condition_Type x \<noteq> conditionAccepted) (conditions obj') =
                      filter (\<lambda>x. Condition_Type x \<noteq> conditionAccepted) (conditions obj)) \<and>
                 (\<forall>later. Reconcile lib deep_equal cl c' nn later = (None, c')) \<and>
                 (\<forall>other. other \<noteq> nn \<longrightarrow> Client_Get cl c' other = Client_Get cl c other))))"

text \<open>
  A kind provides its \<open>mark\<close> with the laws below and a \<open>Reconcile\<close> that is the scaffold
  around it.
\<close>

locale scaffold_reconciler =
  fixes Reconcile :: "kube_lib \<Rightarrow> ('s \<Rightarrow> 's \<Rightarrow> bool) \<Rightarrow> ('c, 'o) kube_client \<Rightarrow> 'c \<Rightarrow> NamespacedName \<Rightarrow> time \<Rightarrow> goerr option \<times> 'c"
    and mark :: "kube_lib \<Rightarrow> time \<Rightarrow> 'o \<Rightarrow> 'o"
    and meta :: "'o \<Rightarrow> ObjectMeta" and spec :: "'o \<Rightarrow> 'p" and status :: "'o \<Rightarrow> 's"
    and observed :: "'o \<Rightarrow> int" and conditions :: "'o \<Rightarrow> Condition list" and message :: string
  assumes reconcile_scaffold: "Reconcile lib deep_equal cl c nn now = scaffold status mark lib deep_equal cl c nn now"
    and mark_meta: "meta (mark lib now obj) = meta obj"
    and mark_spec: "spec (mark lib now obj) = spec obj"
    and mark_observed: "observed (mark lib now obj) = ObjectMeta_Generation (meta obj)"
    and mark_conditions: "conditions (mark lib now obj) = lib_SetStatusCondition lib now (conditions obj)
      (accepted_condition (ObjectMeta_Generation (meta obj)) message)"
    and mark_status: "status (mark lib now obj) = status obj \<Longrightarrow> mark lib now obj = obj"
    and mark_again: "lib_SetStatusCondition lib now' (conditions (mark lib now obj))
      (accepted_condition (ObjectMeta_Generation (meta obj)) message) = conditions (mark lib now obj) \<Longrightarrow>
      mark lib now' (mark lib now obj) = mark lib now obj"
begin

lemma marked_accepted:
  assumes "lawful_lib lib"
  shows "accepted_at (ObjectMeta_Generation (meta obj)) (observed (mark lib now obj)) (conditions (mark lib now obj))"
proof -
  let ?a = "accepted_condition (ObjectMeta_Generation (meta obj)) message"
  obtain x where "find (\<lambda>x. Condition_Type x = Condition_Type ?a)
      (lib_SetStatusCondition lib now (conditions obj) ?a) = Some x"
    "Condition_Status x = Condition_Status ?a" "Condition_ObservedGeneration x = Condition_ObservedGeneration ?a"
    using assms unfolding lawful_lib_def by blast
  then show ?thesis by (simp add: accepted_at_def mark_observed mark_conditions accepted_condition_def)
qed

lemma marked_others:
  assumes "lawful_lib lib"
  shows "filter (\<lambda>x. Condition_Type x \<noteq> conditionAccepted) (conditions (mark lib now obj)) =
    filter (\<lambda>x. Condition_Type x \<noteq> conditionAccepted) (conditions obj)"
proof -
  have "Condition_Type (accepted_condition g m) = conditionAccepted" for g m
    by (simp add: accepted_condition_def)
  then show ?thesis using assms unfolding lawful_lib_def mark_conditions by metis
qed

lemma mark_idem: "lawful_lib lib \<Longrightarrow> mark lib now' (mark lib now obj) = mark lib now obj"
  by (rule mark_again) (simp add: mark_conditions lawful_lib_def)

lemma reconcile_marks:
  assumes lib: "lawful_lib lib" and eq: "lawful_equal deep_equal" and cl: "lawful_client meta cl"
    and get: "Client_Get cl c nn = Inr obj" and r: "Reconcile lib deep_equal cl c nn now = (None, c')"
  shows "Client_Get cl c' nn = Inr (mark lib now obj) \<and>
    (\<forall>other. other \<noteq> nn \<longrightarrow> Client_Get cl c' other = Client_Get cl c other)"
proof (cases "status obj = status (mark lib now obj)")
  case True
  then have "c' = c" using r get eq by (simp add: reconcile_scaffold scaffold_def lawful_equal_def)
  moreover have "mark lib now obj = obj" using True mark_status by metis
  ultimately show ?thesis using get by simp
next
  case False
  then have "Client_StatusUpdate cl c (mark lib now obj) = (None, c')"
    using r get eq by (simp add: reconcile_scaffold scaffold_def lawful_equal_def)
  moreover have "object_key (meta (mark lib now obj)) = nn"
    using cl get by (simp add: lawful_client_def mark_meta)
  ultimately show ?thesis using cl unfolding lawful_client_def by metis
qed

lemma reconcile_quiet:
  assumes "lawful_lib lib" "lawful_equal deep_equal" "Client_Get cl c nn = Inr (mark lib now obj)"
  shows "Reconcile lib deep_equal cl c nn later = (None, c)"
  using assms by (simp add: reconcile_scaffold scaffold_def lawful_equal_def mark_idem)

lemma reconcile_refused:
  assumes "lawful_client meta cl" "Reconcile lib deep_equal cl c nn now = (Some err, c')"
  shows "c' = c"
  using assms by (auto simp: reconcile_scaffold scaffold_def lawful_client_def split: sum.splits if_splits)

lemma contract: "lawful_lib lib \<Longrightarrow> scaffold_contract meta spec observed conditions Reconcile lib"
  unfolding scaffold_contract_def
proof (intro allI impI, goal_cases)
  case (1 deep_equal cl c nn now)
  show ?case
  proof (cases "Client_Get cl c nn")
    case (Inl err)
    then show ?thesis by (simp add: reconcile_scaffold scaffold_def)
  next
    case (Inr obj)
    obtain e c' where R: "Reconcile lib deep_equal cl c nn now = (e, c')" by fastforce
    show ?thesis
    proof (cases e)
      case None
      note m = reconcile_marks [OF 1 Inr R [unfolded None]]
      have "\<forall>later. Reconcile lib deep_equal cl c' nn later = (None, c')"
        using reconcile_quiet 1 m by blast
      then show ?thesis
        using Inr R None m marked_accepted [OF 1(1)] marked_others [OF 1(1)]
        by (simp add: mark_meta mark_spec)
    next
      case (Some err)
      then show ?thesis using Inr R reconcile_refused [OF 1(3) R [unfolded Some]] by simp
    qed
  qed
qed

end

interpretation application: scaffold_reconciler ApplicationReconciler_Reconcile markApplication
    Application_ObjectMeta Application_Spec Application_Status "\<lambda>x. ApplicationStatus_ObservedGeneration (Application_Status x)"
    "\<lambda>x. ApplicationStatus_Conditions (Application_Status x)"
    "''Application specification accepted; reconciliation engines pending.''"
  by unfold_locales (auto simp: ApplicationReconciler_Reconcile_def scaffold_def markApplication_def Let_def split: sum.splits option.splits prod.splits)

interpretation approval: scaffold_reconciler ApprovalReconciler_Reconcile markApproval
    Approval_ObjectMeta Approval_Spec Approval_Status "\<lambda>x. ApprovalStatus_ObservedGeneration (Approval_Status x)"
    "\<lambda>x. ApprovalStatus_Conditions (Approval_Status x)"
    "''Approval accepted; approval semantics arrive with MVP 2.''"
  by unfold_locales (auto simp: ApprovalReconciler_Reconcile_def scaffold_def markApproval_def Let_def split: sum.splits option.splits prod.splits)

interpretation cell: scaffold_reconciler CellReconciler_Reconcile markCell
    Cell_ObjectMeta Cell_Spec Cell_Status "\<lambda>x. CellStatus_ObservedGeneration (Cell_Status x)"
    "\<lambda>x. CellStatus_Conditions (Cell_Status x)"
    "''Cell specification accepted.''"
  by unfold_locales (auto simp: CellReconciler_Reconcile_def scaffold_def markCell_def Let_def split: sum.splits option.splits prod.splits)

interpretation deployment: scaffold_reconciler DeploymentReconciler_Reconcile markDeployment
    Deployment_ObjectMeta Deployment_Spec Deployment_Status "\<lambda>x. DeploymentStatus_ObservedGeneration (Deployment_Status x)"
    "\<lambda>x. DeploymentStatus_Conditions (Deployment_Status x)"
    "''Deployment accepted; live-state reporting arrives with the Sync Engine.''"
  by unfold_locales (auto simp: DeploymentReconciler_Reconcile_def scaffold_def markDeployment_def Let_def split: sum.splits option.splits prod.splits)

interpretation deploymenttarget: scaffold_reconciler DeploymentTargetReconciler_Reconcile markDeploymentTarget
    DeploymentTarget_ObjectMeta DeploymentTarget_Spec DeploymentTarget_Status "\<lambda>x. DeploymentTargetStatus_ObservedGeneration (DeploymentTarget_Status x)"
    "\<lambda>x. DeploymentTargetStatus_Conditions (DeploymentTarget_Status x)"
    "''DeploymentTarget specification accepted; cluster connectivity is not yet probed.''"
  by unfold_locales (auto simp: DeploymentTargetReconciler_Reconcile_def scaffold_def markDeploymentTarget_def Let_def split: sum.splits option.splits prod.splits)

interpretation environment: scaffold_reconciler EnvironmentReconciler_Reconcile markEnvironment
    Environment_ObjectMeta Environment_Spec Environment_Status "\<lambda>x. EnvironmentStatus_ObservedGeneration (Environment_Status x)"
    "\<lambda>x. EnvironmentStatus_Conditions (Environment_Status x)"
    "''Environment specification accepted.''"
  by unfold_locales (auto simp: EnvironmentReconciler_Reconcile_def scaffold_def markEnvironment_def Let_def split: sum.splits option.splits prod.splits)

interpretation freezewindow: scaffold_reconciler FreezeWindowReconciler_Reconcile markFreezeWindow
    FreezeWindow_ObjectMeta FreezeWindow_Spec FreezeWindow_Status "\<lambda>x. FreezeWindowStatus_ObservedGeneration (FreezeWindow_Status x)"
    "\<lambda>x. FreezeWindowStatus_Conditions (FreezeWindow_Status x)"
    "''FreezeWindow accepted; active-window evaluation arrives with MVP 2.''"
  by unfold_locales (auto simp: FreezeWindowReconciler_Reconcile_def scaffold_def markFreezeWindow_def Let_def split: sum.splits option.splits prod.splits)

interpretation healthcheck: scaffold_reconciler HealthCheckReconciler_Reconcile markHealthCheck
    HealthCheck_ObjectMeta HealthCheck_Spec HealthCheck_Status "\<lambda>x. HealthCheckStatus_ObservedGeneration (HealthCheck_Status x)"
    "\<lambda>x. HealthCheckStatus_Conditions (HealthCheck_Status x)"
    "''HealthCheck accepted; Health Engine arrives with MVP 1.''"
  by unfold_locales (auto simp: HealthCheckReconciler_Reconcile_def scaffold_def markHealthCheck_def Let_def split: sum.splits option.splits prod.splits)

interpretation notifier: scaffold_reconciler NotifierReconciler_Reconcile markNotifier
    Notifier_ObjectMeta Notifier_Spec Notifier_Status "\<lambda>x. NotifierStatus_ObservedGeneration (Notifier_Status x)"
    "\<lambda>x. NotifierStatus_Conditions (Notifier_Status x)"
    "''Notifier accepted; plugin dispatcher arrives with MVP 1.''"
  by unfold_locales (auto simp: NotifierReconciler_Reconcile_def scaffold_def markNotifier_def Let_def split: sum.splits option.splits prod.splits)

interpretation promotion: scaffold_reconciler PromotionReconciler_Reconcile markPromotion
    Promotion_ObjectMeta Promotion_Spec Promotion_Status "\<lambda>x. PromotionStatus_ObservedGeneration (Promotion_Status x)"
    "\<lambda>x. PromotionStatus_Conditions (Promotion_Status x)"
    "''Promotion accepted; Promotion Engine arrives with MVP 2.''"
  by unfold_locales (auto simp: PromotionReconciler_Reconcile_def scaffold_def markPromotion_def Let_def split: sum.splits option.splits prod.splits)

interpretation promotionpolicy: scaffold_reconciler PromotionPolicyReconciler_Reconcile markPromotionPolicy
    PromotionPolicy_ObjectMeta PromotionPolicy_Spec PromotionPolicy_Status "\<lambda>x. PromotionPolicyStatus_ObservedGeneration (PromotionPolicy_Status x)"
    "\<lambda>x. PromotionPolicyStatus_Conditions (PromotionPolicy_Status x)"
    "''PromotionPolicy accepted; Promotion Engine arrives with MVP 2.''"
  by unfold_locales (auto simp: PromotionPolicyReconciler_Reconcile_def scaffold_def markPromotionPolicy_def Let_def split: sum.splits option.splits prod.splits)

interpretation release: scaffold_reconciler ReleaseReconciler_Reconcile markRelease
    Release_ObjectMeta Release_Spec Release_Status "\<lambda>x. ReleaseStatus_ObservedGeneration (Release_Status x)"
    "\<lambda>x. ReleaseStatus_Conditions (Release_Status x)"
    "''Release accepted; release-cut behavior arrives with MVP 2.''"
  by unfold_locales (auto simp: ReleaseReconciler_Reconcile_def scaffold_def markRelease_def Let_def split: sum.splits option.splits prod.splits)

interpretation source: scaffold_reconciler SourceReconciler_Reconcile markSource
    Source_ObjectMeta Source_Spec Source_Status "\<lambda>x. SourceStatus_ObservedGeneration (Source_Status x)"
    "\<lambda>x. SourceStatus_Conditions (Source_Status x)"
    "''Source accepted; Source Engine arrives with MVP 2.''"
  by unfold_locales (auto simp: SourceReconciler_Reconcile_def scaffold_def markSource_def Let_def split: sum.splits option.splits prod.splits)

interpretation syncplan: scaffold_reconciler SyncPlanReconciler_Reconcile markSyncPlan
    SyncPlan_ObjectMeta SyncPlan_Spec SyncPlan_Status "\<lambda>x. SyncPlanStatus_ObservedGeneration (SyncPlan_Status x)"
    "\<lambda>x. SyncPlanStatus_Conditions (SyncPlan_Status x)"
    "''SyncPlan accepted; Sync Engine arrives with MVP 1.''"
  by unfold_locales (auto simp: SyncPlanReconciler_Reconcile_def scaffold_def markSyncPlan_def Let_def split: sum.splits option.splits prod.splits)

interpretation syncrun: scaffold_reconciler SyncRunReconciler_Reconcile markSyncRun
    SyncRun_ObjectMeta SyncRun_Spec SyncRun_Status "\<lambda>x. SyncRunStatus_ObservedGeneration (SyncRun_Status x)"
    "\<lambda>x. SyncRunStatus_Conditions (SyncRun_Status x)"
    "''SyncRun accepted; Sync Engine arrives with MVP 1.''"
  by unfold_locales (auto simp: SyncRunReconciler_Reconcile_def scaffold_def markSyncRun_def Let_def split: sum.splits option.splits prod.splits)

section \<open>Deliveries\<close>

text \<open>
  The work queue delivers a request any number of times and in any order; a run is the
  sequence of deliveries with their times.
\<close>

fun deliver :: "('c \<Rightarrow> NamespacedName \<Rightarrow> time \<Rightarrow> goerr option \<times> 'c) \<Rightarrow> (NamespacedName \<times> time) list \<Rightarrow> 'c \<Rightarrow> 'c" where
  "deliver rec [] c = c"
| "deliver rec ((nn, now) # rs) c = deliver rec rs (snd (rec c nn now))"

context scaffold_reconciler
begin

lemma step_keeps:
  assumes laws: "lawful_lib lib" "lawful_equal deep_equal" "lawful_client meta cl"
    and get: "Client_Get cl c nn = Inr obj"
  shows "\<exists>obj'. Client_Get cl (snd (Reconcile lib deep_equal cl c req now)) nn = Inr obj' \<and>
    (obj' = obj \<or> (\<exists>t. obj' = mark lib t obj))"
proof -
  obtain e c' where R: "Reconcile lib deep_equal cl c req now = (e, c')" by fastforce
  show ?thesis
  proof (cases e)
    case (Some err)
    then show ?thesis using R get reconcile_refused [OF laws(3) R [unfolded Some]] by simp
  next
    case None
    show ?thesis
    proof (cases "req = nn")
      case True
      then show ?thesis using reconcile_marks [OF laws get] R None by auto
    next
      case False
      have "Client_Get cl c' nn = Client_Get cl c nn"
      proof (cases "Client_Get cl c req")
        case (Inl err)
        then show ?thesis using R by (simp add: reconcile_scaffold scaffold_def)
      next
        case (Inr o2)
        then show ?thesis using reconcile_marks [OF laws Inr R [unfolded None]] False by metis
      qed
      then show ?thesis using R get by simp
    qed
  qed
qed

lemma deliver_keeps_mark:
  assumes laws: "lawful_lib lib" "lawful_equal deep_equal" "lawful_client meta cl"
  shows "Client_Get cl c nn = Inr (mark lib t obj) \<Longrightarrow>
    Client_Get cl (deliver (Reconcile lib deep_equal cl) rs c) nn = Inr (mark lib t obj)"
proof (induction rs arbitrary: c)
  case (Cons r rs)
  then show ?case
    using step_keeps [OF laws Cons.prems] mark_idem [OF laws(1)] by (cases r) fastforce
qed simp

lemma deliver_marks:
  assumes laws: "lawful_lib lib" "lawful_equal deep_equal" "lawful_client meta cl"
    and no_error: "\<And>c nn now obj. Client_Get cl c nn = Inr obj \<Longrightarrow> fst (Reconcile lib deep_equal cl c nn now) = None"
  shows "Client_Get cl c nn = Inr obj \<Longrightarrow> nn \<in> fst ` set rs \<Longrightarrow>
    \<exists>t. Client_Get cl (deliver (Reconcile lib deep_equal cl) rs c) nn = Inr (mark lib t obj)"
proof (induction rs arbitrary: c obj)
  case (Cons r rs)
  obtain req now where r: "r = (req, now)" by (cases r)
  obtain e c' where R: "Reconcile lib deep_equal cl c req now = (e, c')" by fastforce
  show ?case
  proof (cases "req = nn")
    case True
    then have "e = None" using no_error [OF Cons.prems(1), of now] R by simp
    then have "Client_Get cl c' nn = Inr (mark lib now obj)"
      using reconcile_marks [OF laws Cons.prems(1)] R True by blast
    then show ?thesis using deliver_keeps_mark [OF laws] r R by auto
  next
    case False
    then have nn: "nn \<in> fst ` set rs" using Cons.prems(2) r by auto
    obtain obj' where get': "Client_Get cl c' nn = Inr obj'" and o': "obj' = obj \<or> (\<exists>t. obj' = mark lib t obj)"
      using step_keeps [OF laws Cons.prems(1), of req now] R by auto
    then show ?thesis using Cons.IH [OF get' nn] r R mark_idem [OF laws(1)] by fastforce
  qed
qed simp

end

section \<open>An instance of the laws\<close>

text \<open>
  A condition setter and a store that satisfy the laws, so that the claims below are about
  something.
\<close>

fun set_condition :: "time \<Rightarrow> Condition list \<Rightarrow> Condition \<Rightarrow> Condition list" where
  "set_condition now [] c =
     [c\<lparr>Condition_LastTransitionTime :=
         (if Condition_LastTransitionTime c = 0 then now else Condition_LastTransitionTime c)\<rparr>]"
| "set_condition now (x # xs) c =
     (if Condition_Type x = Condition_Type c
      then x\<lparr>Condition_Status := Condition_Status c,
             Condition_LastTransitionTime :=
               (if Condition_Status x = Condition_Status c then Condition_LastTransitionTime x
                else if Condition_LastTransitionTime c = 0 then now else Condition_LastTransitionTime c),
             Condition_Reason := Condition_Reason c, Condition_Message := Condition_Message c,
             Condition_ObservedGeneration := Condition_ObservedGeneration c\<rparr> # xs
      else x # set_condition now xs c)"

definition sample_lib :: kube_lib where
  "sample_lib = \<lparr>lib_IsNotFound = (\<lambda>e. e = ErrNotFound), lib_SetStatusCondition = set_condition\<rparr>"

lemma set_condition_again: "set_condition now' (set_condition now cs c) c = set_condition now cs c"
  by (induction now cs c rule: set_condition.induct) auto

lemma sample_lib_lawful: "lawful_lib sample_lib"
proof -
  have "\<exists>x. find (\<lambda>x. Condition_Type x = Condition_Type c) (set_condition now cs c) = Some x \<and>
      Condition_Status x = Condition_Status c \<and> Condition_ObservedGeneration x = Condition_ObservedGeneration c \<and>
      Condition_Reason x = Condition_Reason c \<and> Condition_Message x = Condition_Message c" for now cs c
    by (induction now cs c rule: set_condition.induct) auto
  moreover have "filter (\<lambda>x. Condition_Type x \<noteq> Condition_Type c) (set_condition now cs c) =
      filter (\<lambda>x. Condition_Type x \<noteq> Condition_Type c) cs" for now cs c
    by (induction now cs c rule: set_condition.induct) auto
  ultimately show ?thesis by (simp add: lawful_lib_def sample_lib_def set_condition_again)
qed

definition store_client :: "('o \<Rightarrow> ObjectMeta) \<Rightarrow> (NamespacedName \<rightharpoonup> 'o, 'o) kube_client" where
  "store_client meta =
     \<lparr>Client_Get = (\<lambda>c nn. case c nn of
        None \<Rightarrow> Inl ErrNotFound
      | Some obj \<Rightarrow> if object_key (meta obj) = nn then Inr obj else Inl ErrNotFound),
      Client_StatusUpdate = (\<lambda>c obj. (None, c(object_key (meta obj) \<mapsto> obj)))\<rparr>"

lemma store_client_lawful: "lawful_client meta (store_client meta)"
  by (auto simp: lawful_client_def store_client_def split: option.splits if_splits)

lemma equality_lawful: "lawful_equal (=)"
  by (simp add: lawful_equal_def)

definition sample_promotion :: Promotion where
  "sample_promotion =
     \<lparr>Promotion_ObjectMeta = \<lparr>ObjectMeta_Name = ''p1'', ObjectMeta_Namespace = ''ns'', ObjectMeta_Generation = 3,
        ObjectMeta_CreationTimestamp = 1, ObjectMeta_Labels = [], ObjectMeta_Annotations = []\<rparr>,
      Promotion_Spec = \<lparr>PromotionSpec_Application = ''app'', PromotionSpec_Release = ''r1'',
        PromotionSpec_From = \<lparr>PromotionFrom_Environment = ''dev''\<rparr>,
        PromotionSpec_To = \<lparr>PromotionTo_Environment = ''prod'', PromotionTo_Cells = [], PromotionTo_Regions = []\<rparr>,
        PromotionSpec_Mode = PromotionModePullRequest,
        PromotionSpec_Change = \<lparr>PromotionChange_Provider = [], PromotionChange_ID = []\<rparr>,
        PromotionSpec_PolicyRefs = []\<rparr>,
      Promotion_Status = \<lparr>PromotionStatus_ObservedGeneration = 0, PromotionStatus_Phase = [],
        PromotionStatus_Blockers = [], PromotionStatus_Conditions = []\<rparr>\<rparr>"

definition sample_name :: NamespacedName where
  "sample_name = \<lparr>NamespacedName_Namespace = ''ns'', NamespacedName_Name = ''p1''\<rparr>"

definition sample_store :: "NamespacedName \<rightharpoonup> Promotion" where
  "sample_store = [sample_name \<mapsto> sample_promotion]"

lemma sample_get: "Client_Get (store_client Promotion_ObjectMeta) sample_store sample_name = Inr sample_promotion"
  by (simp add: store_client_def sample_store_def sample_name_def object_key_def sample_promotion_def)

lemma sample_reconcile:
  "\<exists>c'. PromotionReconciler_Reconcile sample_lib (=) (store_client Promotion_ObjectMeta)
     sample_store sample_name 7 = (None, c')"
proof -
  have "fst (PromotionReconciler_Reconcile sample_lib (=) (store_client Promotion_ObjectMeta) sample_store sample_name 7) = None"
    using sample_get by (simp add: PromotionReconciler_Reconcile_def Let_def) (simp add: store_client_def)
  then show ?thesis by (metis prod.collapse)
qed

section \<open>Claims\<close>

text \<open>C17: Every kind settles.  For each of the fifteen reconcilers and any lawful API server: a
  missing object is no error, any other read error is returned and nothing is written; a
  refused write is returned and changes nothing; a reconciliation that returns no error
  leaves the object with its spec and metadata, its observed generation equal to its
  generation, a true \<^verbatim>\<open>Accepted\<close> condition of that generation and its other conditions;
  from then on reconciling it again, at any time, writes nothing; other objects are
  untouched.\<close>
theorem all_reconcilers_settle:
  assumes "lawful_lib lib"
  shows
    "scaffold_contract Application_ObjectMeta Application_Spec (\<lambda>x. ApplicationStatus_ObservedGeneration (Application_Status x))
       (\<lambda>x. ApplicationStatus_Conditions (Application_Status x)) ApplicationReconciler_Reconcile lib \<and>
     scaffold_contract Approval_ObjectMeta Approval_Spec (\<lambda>x. ApprovalStatus_ObservedGeneration (Approval_Status x))
       (\<lambda>x. ApprovalStatus_Conditions (Approval_Status x)) ApprovalReconciler_Reconcile lib \<and>
     scaffold_contract Cell_ObjectMeta Cell_Spec (\<lambda>x. CellStatus_ObservedGeneration (Cell_Status x))
       (\<lambda>x. CellStatus_Conditions (Cell_Status x)) CellReconciler_Reconcile lib \<and>
     scaffold_contract Deployment_ObjectMeta Deployment_Spec (\<lambda>x. DeploymentStatus_ObservedGeneration (Deployment_Status x))
       (\<lambda>x. DeploymentStatus_Conditions (Deployment_Status x)) DeploymentReconciler_Reconcile lib \<and>
     scaffold_contract DeploymentTarget_ObjectMeta DeploymentTarget_Spec (\<lambda>x. DeploymentTargetStatus_ObservedGeneration (DeploymentTarget_Status x))
       (\<lambda>x. DeploymentTargetStatus_Conditions (DeploymentTarget_Status x)) DeploymentTargetReconciler_Reconcile lib \<and>
     scaffold_contract Environment_ObjectMeta Environment_Spec (\<lambda>x. EnvironmentStatus_ObservedGeneration (Environment_Status x))
       (\<lambda>x. EnvironmentStatus_Conditions (Environment_Status x)) EnvironmentReconciler_Reconcile lib \<and>
     scaffold_contract FreezeWindow_ObjectMeta FreezeWindow_Spec (\<lambda>x. FreezeWindowStatus_ObservedGeneration (FreezeWindow_Status x))
       (\<lambda>x. FreezeWindowStatus_Conditions (FreezeWindow_Status x)) FreezeWindowReconciler_Reconcile lib \<and>
     scaffold_contract HealthCheck_ObjectMeta HealthCheck_Spec (\<lambda>x. HealthCheckStatus_ObservedGeneration (HealthCheck_Status x))
       (\<lambda>x. HealthCheckStatus_Conditions (HealthCheck_Status x)) HealthCheckReconciler_Reconcile lib \<and>
     scaffold_contract Notifier_ObjectMeta Notifier_Spec (\<lambda>x. NotifierStatus_ObservedGeneration (Notifier_Status x))
       (\<lambda>x. NotifierStatus_Conditions (Notifier_Status x)) NotifierReconciler_Reconcile lib \<and>
     scaffold_contract Promotion_ObjectMeta Promotion_Spec (\<lambda>x. PromotionStatus_ObservedGeneration (Promotion_Status x))
       (\<lambda>x. PromotionStatus_Conditions (Promotion_Status x)) PromotionReconciler_Reconcile lib \<and>
     scaffold_contract PromotionPolicy_ObjectMeta PromotionPolicy_Spec (\<lambda>x. PromotionPolicyStatus_ObservedGeneration (PromotionPolicy_Status x))
       (\<lambda>x. PromotionPolicyStatus_Conditions (PromotionPolicy_Status x)) PromotionPolicyReconciler_Reconcile lib \<and>
     scaffold_contract Release_ObjectMeta Release_Spec (\<lambda>x. ReleaseStatus_ObservedGeneration (Release_Status x))
       (\<lambda>x. ReleaseStatus_Conditions (Release_Status x)) ReleaseReconciler_Reconcile lib \<and>
     scaffold_contract Source_ObjectMeta Source_Spec (\<lambda>x. SourceStatus_ObservedGeneration (Source_Status x))
       (\<lambda>x. SourceStatus_Conditions (Source_Status x)) SourceReconciler_Reconcile lib \<and>
     scaffold_contract SyncPlan_ObjectMeta SyncPlan_Spec (\<lambda>x. SyncPlanStatus_ObservedGeneration (SyncPlan_Status x))
       (\<lambda>x. SyncPlanStatus_Conditions (SyncPlan_Status x)) SyncPlanReconciler_Reconcile lib \<and>
     scaffold_contract SyncRun_ObjectMeta SyncRun_Spec (\<lambda>x. SyncRunStatus_ObservedGeneration (SyncRun_Status x))
       (\<lambda>x. SyncRunStatus_Conditions (SyncRun_Status x)) SyncRunReconciler_Reconcile lib"
  by (intro conjI application.contract approval.contract cell.contract deployment.contract deploymenttarget.contract environment.contract freezewindow.contract healthcheck.contract notifier.contract promotion.contract promotionpolicy.contract release.contract source.contract syncplan.contract syncrun.contract assms)

theorem all_reconcilers_settle_witness:
  "\<exists>p. Client_Get (store_client Promotion_ObjectMeta)
       (snd (PromotionReconciler_Reconcile sample_lib (=) (store_client Promotion_ObjectMeta) sample_store sample_name 7))
       sample_name = Inr p \<and>
     accepted_at 3 (PromotionStatus_ObservedGeneration (Promotion_Status p)) (PromotionStatus_Conditions (Promotion_Status p))"
proof -
  obtain c' where R: "PromotionReconciler_Reconcile sample_lib (=) (store_client Promotion_ObjectMeta)
      sample_store sample_name 7 = (None, c')"
    using sample_reconcile by blast
  have "scaffold_contract Promotion_ObjectMeta Promotion_Spec
      (\<lambda>x. PromotionStatus_ObservedGeneration (Promotion_Status x))
      (\<lambda>x. PromotionStatus_Conditions (Promotion_Status x)) PromotionReconciler_Reconcile sample_lib"
    using all_reconcilers_settle [OF sample_lib_lawful] by blast
  from this [unfolded scaffold_contract_def, rule_format, OF equality_lawful store_client_lawful,
      of sample_store sample_name 7] R sample_get
  show ?thesis by (auto simp: sample_promotion_def)
qed

text \<open>C18: The phase of a promotion.  A reconciliation without error sets the phase to
  \<^verbatim>\<open>Proposed\<close> only where it was empty; a promotion that is already further, or finished,
  keeps its phase and its blockers.\<close>
theorem promotion_phase_never_reset:
  assumes "lawful_lib lib" "lawful_equal deep_equal" "lawful_client Promotion_ObjectMeta cl"
    and "Client_Get cl c nn = Inr p"
    and "PromotionReconciler_Reconcile lib deep_equal cl c nn now = (None, c')"
  shows "\<exists>p'. Client_Get cl c' nn = Inr p' \<and>
    PromotionStatus_Phase (Promotion_Status p') =
      (if PromotionStatus_Phase (Promotion_Status p) = [] then PromotionPhaseProposed
       else PromotionStatus_Phase (Promotion_Status p)) \<and>
    PromotionStatus_Blockers (Promotion_Status p') = PromotionStatus_Blockers (Promotion_Status p)"
  using promotion.reconcile_marks [OF assms] by (auto simp: markPromotion_def Let_def)

theorem promotion_phase_never_reset_witness:
  "\<exists>p'. Client_Get (store_client Promotion_ObjectMeta)
      (snd (PromotionReconciler_Reconcile sample_lib (=) (store_client Promotion_ObjectMeta) sample_store sample_name 7))
      sample_name = Inr p' \<and> PromotionStatus_Phase (Promotion_Status p') = PromotionPhaseProposed"
proof -
  obtain c' where R: "PromotionReconciler_Reconcile sample_lib (=) (store_client Promotion_ObjectMeta)
      sample_store sample_name 7 = (None, c')"
    using sample_reconcile by blast
  show ?thesis
    using promotion_phase_never_reset [OF sample_lib_lawful equality_lawful store_client_lawful sample_get R] R
    by (auto simp: sample_promotion_def)
qed

text \<open>C19: Deliveries in any order.  However often and in whatever order the work queue delivers
  the promotions, an object that was delivered at least once ends up accepted at its
  generation, provided the server accepts the status writes.\<close>
theorem promotion_deliveries_converge:
  assumes "lawful_lib lib" "lawful_equal deep_equal" "lawful_client Promotion_ObjectMeta cl"
    and "\<forall>c p. fst (Client_StatusUpdate cl c p) = None"
    and "Client_Get cl c nn = Inr p" and "nn \<in> fst ` set rs"
  shows "\<exists>p'. Client_Get cl (deliver (PromotionReconciler_Reconcile lib deep_equal cl) rs c) nn = Inr p' \<and>
    Promotion_Spec p' = Promotion_Spec p \<and>
    accepted_at (ObjectMeta_Generation (Promotion_ObjectMeta p))
      (PromotionStatus_ObservedGeneration (Promotion_Status p')) (PromotionStatus_Conditions (Promotion_Status p'))"
proof -
  have "fst (PromotionReconciler_Reconcile lib deep_equal cl c nn now) = None"
    if "Client_Get cl c nn = Inr obj" for c nn now obj
    using that assms(4) by (simp add: PromotionReconciler_Reconcile_def Let_def)
  then obtain t where "Client_Get cl (deliver (PromotionReconciler_Reconcile lib deep_equal cl) rs c) nn =
      Inr (markPromotion lib t p)"
    using promotion.deliver_marks [OF assms(1-3) _ assms(5,6)] by blast
  then show ?thesis
    using promotion.marked_accepted [OF assms(1)] promotion.mark_spec by blast
qed

theorem promotion_deliveries_converge_witness:
  "\<exists>p'. Client_Get (store_client Promotion_ObjectMeta)
      (deliver (PromotionReconciler_Reconcile sample_lib (=) (store_client Promotion_ObjectMeta))
        [(sample_name\<lparr>NamespacedName_Name := ''gone''\<rparr>, 5), (sample_name, 6), (sample_name, 7)] sample_store)
      sample_name = Inr p' \<and>
    accepted_at 3 (PromotionStatus_ObservedGeneration (Promotion_Status p')) (PromotionStatus_Conditions (Promotion_Status p'))"
proof -
  have "\<forall>c p. fst (Client_StatusUpdate (store_client Promotion_ObjectMeta) c p) = None"
    by (simp add: store_client_def)
  from promotion_deliveries_converge [OF sample_lib_lawful equality_lawful store_client_lawful this sample_get,
      of "[(sample_name\<lparr>NamespacedName_Name := ''gone''\<rparr>, 5), (sample_name, 6), (sample_name, 7)]"]
  show ?thesis by (auto simp: sample_promotion_def)
qed


end
