(* ===== verification/Observability.thy ===== *)
theory Observability
  imports Api_Types
begin

text \<open>
  The shared vocabulary of logs and metrics, \<^verbatim>\<open>internal/observability\<close>, and the phase
  translation of \<^verbatim>\<open>internal/sync/engine.go\<close>.  A logger is the list of its key-value
  pairs; the metrics are explicit state: whether they are registered, the counters by
  label values, the gauges by label values.
\<close>

section \<open>Labels\<close>

abbreviation LabelEngine :: string where "LabelEngine \<equiv> ''engine''"
abbreviation LabelKind :: string where "LabelKind \<equiv> ''kind''"
abbreviation LabelResult :: string where "LabelResult \<equiv> ''result''"
abbreviation LabelPhase :: string where "LabelPhase \<equiv> ''phase''"
abbreviation LabelApplication :: string where "LabelApplication \<equiv> ''application''"
abbreviation LabelEnvironment :: string where "LabelEnvironment \<equiv> ''environment''"
abbreviation LabelTarget :: string where "LabelTarget \<equiv> ''target''"
abbreviation LabelRegion :: string where "LabelRegion \<equiv> ''region''"

definition Label_values :: "string list" where
  "Label_values = [LabelEngine, LabelKind, LabelResult, LabelPhase, LabelApplication,
     LabelEnvironment, LabelTarget, LabelRegion]"

definition Engine_values :: "string list" where
  "Engine_values = [''manager'', ''source'', ''sync'', ''promotion'', ''git_mutation'', ''policy'',
     ''health'', ''diff'', ''worker'']"

definition ObsResult_values :: "string list" where
  "ObsResult_values = [''success'', ''error'', ''blocked'', ''canceled'', ''timeout'']"

abbreviation LogFieldEvent :: string where "LogFieldEvent \<equiv> ''event''"
abbreviation LogFieldReconcileGeneration :: string where "LogFieldReconcileGeneration \<equiv> ''reconcileGeneration''"
abbreviation LogFieldTraceID :: string where "LogFieldTraceID \<equiv> ''traceId''"
abbreviation LogFieldSpanID :: string where "LogFieldSpanID \<equiv> ''spanId''"

section \<open>Loggers\<close>

datatype logval = LStr string | LInt int

type_synonym logger = "(string \<times> logval) list"

record LogFields =
  LogFields_Engine :: string
  LogFields_Kind :: string
  LogFields_Application :: string
  LogFields_Environment :: string
  LogFields_Target :: string
  LogFields_Region :: string
  LogFields_ReconcileGeneration :: int
  LogFields_TraceID :: string
  LogFields_SpanID :: string

definition kv_string :: "string \<Rightarrow> string \<Rightarrow> logger" where
  "kv_string k v = (if v \<noteq> [] then [(k, LStr v)] else [])"

definition WithFields :: "logger \<Rightarrow> LogFields \<Rightarrow> logger" where
  "WithFields log f =
     log @
     kv_string LabelEngine (LogFields_Engine f) @
     kv_string LabelKind (LogFields_Kind f) @
     kv_string LabelApplication (LogFields_Application f) @
     kv_string LabelEnvironment (LogFields_Environment f) @
     kv_string LabelTarget (LogFields_Target f) @
     kv_string LabelRegion (LogFields_Region f) @
     (if LogFields_ReconcileGeneration f \<noteq> 0
      then [(LogFieldReconcileGeneration, LInt (LogFields_ReconcileGeneration f))] else []) @
     kv_string LogFieldTraceID (LogFields_TraceID f) @
     kv_string LogFieldSpanID (LogFields_SpanID f)"

text \<open>\<^verbatim>\<open>NamespacedName.String\<close> of Kubernetes is the argument \<open>show_name\<close>.\<close>

definition WithResource ::
  "(string \<Rightarrow> string \<Rightarrow> string) \<Rightarrow> logger \<Rightarrow> string \<Rightarrow> string \<Rightarrow> string \<Rightarrow> string \<Rightarrow> logger" where
  "WithResource show_name log engine kind namespace name =
     (let out = log @ [(LabelEngine, LStr engine), (LabelKind, LStr kind)]
      in if name = [] \<and> namespace = [] then out
         else out @ [(''namespacedName'', LStr (show_name namespace name))])"

section \<open>Metrics\<close>

text \<open>
  A vector that has not been created yet is the nil pointer; creating both is guarded by
  \<^verbatim>\<open>sync.Once\<close>.  The conversion of a generation to a \<^verbatim>\<open>float64\<close> is the argument
  \<open>to_float\<close>.
\<close>

record 'f Metrics =
  Metrics_reconcileEvents :: "(string \<times> string \<times> string \<Rightarrow> nat) option"
  Metrics_reconcileGeneration :: "(string \<times> string \<rightharpoonup> 'f) option"
  Metrics_registrations :: nat

definition initial_metrics :: "'f Metrics" where
  "initial_metrics =
     \<lparr>Metrics_reconcileEvents = None, Metrics_reconcileGeneration = None, Metrics_registrations = 0\<rparr>"

definition Register :: "'f Metrics \<Rightarrow> 'f Metrics" where
  "Register m =
     (if 0 < Metrics_registrations m then m
      else m\<lparr>Metrics_reconcileEvents := Some (\<lambda>_. 0), Metrics_reconcileGeneration := Some (\<lambda>_. None),
             Metrics_registrations := Metrics_registrations m + 1\<rparr>)"

definition ObserveReconcileEvent :: "string \<Rightarrow> string \<Rightarrow> string \<Rightarrow> 'f Metrics \<Rightarrow> 'f Metrics" where
  "ObserveReconcileEvent engine kind result m =
     (case Metrics_reconcileEvents m of
        None \<Rightarrow> m
      | Some v \<Rightarrow> m\<lparr>Metrics_reconcileEvents := Some (v((engine, kind, result) := v (engine, kind, result) + 1))\<rparr>)"

definition ObserveReconcileGeneration :: "(int \<Rightarrow> 'f) \<Rightarrow> string \<Rightarrow> string \<Rightarrow> int \<Rightarrow> 'f Metrics \<Rightarrow> 'f Metrics" where
  "ObserveReconcileGeneration to_float engine kind generation m =
     (case Metrics_reconcileGeneration m of
        None \<Rightarrow> m
      | Some v \<Rightarrow> m\<lparr>Metrics_reconcileGeneration := Some (v((engine, kind) \<mapsto> to_float generation))\<rparr>)"

text \<open>Registration any number of times, at any point, neither resets nor repeats it.\<close>

lemma Register_idem: "Register (Register m) = Register m"
  by (simp add: Register_def)

lemma Register_once: "0 < Metrics_registrations m \<Longrightarrow> Register m = m"
  by (simp add: Register_def)

lemma observed_count:
  assumes "0 < Metrics_registrations m" "Metrics_reconcileEvents m = Some v"
  shows "\<exists>v'. Metrics_reconcileEvents (fold (\<lambda>(e, k, r) m. Register (ObserveReconcileEvent e k r m)) es m) = Some v' \<and>
    (\<forall>l. v' l = v l + count_list es l)"
  using assms
proof (induction es arbitrary: m v)
  case (Cons x es)
  obtain e k r where x: "x = (e, k, r)" by (cases x)
  let ?m = "ObserveReconcileEvent e k r m"
  have "Register ?m = ?m" "Metrics_reconcileEvents ?m = Some (v((e, k, r) := v (e, k, r) + 1))"
    "0 < Metrics_registrations ?m"
    using Cons.prems by (simp_all add: ObserveReconcileEvent_def Register_def)
  from Cons.IH [OF this(3,2)] this(1) show ?case by (auto simp: x split: if_splits)
qed simp

section \<open>Sync phases\<close>

type_synonym sync_SyncRunPhase = string

abbreviation PhasePending :: string where "PhasePending \<equiv> ''Pending''"
abbreviation PhaseRunning :: string where "PhaseRunning \<equiv> ''Running''"
abbreviation PhaseSucceeded :: string where "PhaseSucceeded \<equiv> ''Succeeded''"
abbreviation PhaseFailed :: string where "PhaseFailed \<equiv> ''Failed''"
abbreviation PhaseError :: string where "PhaseError \<equiv> ''Error''"

definition sync_SyncRunPhase_values :: "string list" where
  "sync_SyncRunPhase_values = [PhasePending, PhaseRunning, PhaseSucceeded, PhaseFailed, PhaseError]"

text \<open>The upstream phases the switch names, and any other value.\<close>

datatype OperationPhase =
    OperationRunning | OperationTerminating | OperationSucceeded | OperationFailed | OperationError
  | OperationOther string

fun PhaseFromOperation :: "OperationPhase \<Rightarrow> sync_SyncRunPhase" where
  "PhaseFromOperation OperationRunning = PhaseRunning"
| "PhaseFromOperation OperationTerminating = PhaseRunning"
| "PhaseFromOperation OperationSucceeded = PhaseSucceeded"
| "PhaseFromOperation OperationFailed = PhaseFailed"
| "PhaseFromOperation OperationError = PhaseError"
| "PhaseFromOperation (OperationOther op) = PhasePending"

section \<open>Claims\<close>

text \<open>The translated phases are not the phases of the custom resource.  The image of the
  translation is exactly the five local constants, and of these the schema of
  \<^verbatim>\<open>SyncRun.status.phase\<close> admits exactly the three for a pending, a succeeded and a failed
  run: an operation has a phase outside the schema exactly when it is running, terminating
  or in error.\<close>
lemma sync_phases_outside_schema:
  "range PhaseFromOperation = set sync_SyncRunPhase_values \<and>
   (PhaseFromOperation op \<notin> set SyncRunPhase_values \<longleftrightarrow>
      op \<in> {OperationRunning, OperationTerminating, OperationError})"
proof
  have "PhaseFromOperation x \<in> set sync_SyncRunPhase_values" for x
    by (cases x) (simp_all add: sync_SyncRunPhase_values_def)
  moreover have "set sync_SyncRunPhase_values =
      PhaseFromOperation ` {OperationOther [], OperationRunning, OperationSucceeded, OperationFailed, OperationError}"
    by (simp add: sync_SyncRunPhase_values_def)
  ultimately show "range PhaseFromOperation = set sync_SyncRunPhase_values" by blast
  show "PhaseFromOperation op \<notin> set SyncRunPhase_values \<longleftrightarrow> op \<in> {OperationRunning, OperationTerminating, OperationError}"
    by (cases op) (auto simp: SyncRunPhase_values_def)
qed

text \<open>Counting reconciliations.  After registration, and with any number of further
  registrations in between, the counter of each engine, kind and result is the number of
  times that event was observed.\<close>
theorem reconcile_events_counted:
  "\<exists>v. Metrics_reconcileEvents
      (fold (\<lambda>(e, k, r) m. Register (ObserveReconcileEvent e k r m)) es (Register initial_metrics)) = Some v \<and>
    (\<forall>l. v l = count_list es l)"
  using observed_count [of "Register initial_metrics" "\<lambda>_. 0" es]
  by (simp add: Register_def initial_metrics_def)

end
