(* ===== verification/Cli_Kinds.thy ===== *)
theory Cli_Kinds
  imports Go_Errors
begin

text \<open>
  The kinds the command line knows, \<^verbatim>\<open>internal/cli/kinds.go\<close>: the registry, the resolution of
  an alias, and the two shapes in which \<^verbatim>\<open>describe\<close> takes a kind and a name
  (\<^verbatim>\<open>internal/cli/describe.go\<close>).  \<^verbatim>\<open>schema.GroupVersionKind\<close> and
  \<^verbatim>\<open>schema.GroupVersionResource\<close> are records of strings.
\<close>

section \<open>The registry\<close>

record SchemaGVK =
  SchemaGVK_Group :: string
  SchemaGVK_Version :: string
  SchemaGVK_Kind :: string

record SchemaGVR =
  SchemaGVR_Group :: string
  SchemaGVR_Version :: string
  SchemaGVR_Resource :: string

record column =
  column_Header :: string
  column_JSONPath :: string

record resolvedKind =
  resolvedKind_GVK :: SchemaGVK
  resolvedKind_GVR :: SchemaGVR
  resolvedKind_Aliases :: "string list"
  resolvedKind_Columns :: "column list"

definition keleustesGroup :: string where
  "keleustesGroup = ''keleustes.skaphos.io''"

definition keleustesVersion :: string where
  "keleustesVersion = ''v1alpha1''"

definition gvk :: "string \<Rightarrow> SchemaGVK" where
  "gvk kind = \<lparr>SchemaGVK_Group = keleustesGroup, SchemaGVK_Version = keleustesVersion, SchemaGVK_Kind = kind\<rparr>"

definition gvr :: "string \<Rightarrow> SchemaGVR" where
  "gvr resource =
     \<lparr>SchemaGVR_Group = keleustesGroup, SchemaGVR_Version = keleustesVersion, SchemaGVR_Resource = resource\<rparr>"

text \<open>The column that most kinds share.\<close>

definition status_column :: column where
  "status_column =
     \<lparr>column_Header = ''Status'',
      column_JSONPath = ''.status.conditions[?(@.type=='' @ [CHR 0x27] @ ''Accepted'' @ [CHR 0x27] @ '')].status''\<rparr>"

definition keleustesKinds :: "resolvedKind list" where
  "keleustesKinds = [
    \<lparr>resolvedKind_GVK = gvk ''Application'', resolvedKind_GVR = gvr ''applications'',
      resolvedKind_Aliases = [''app'', ''application'', ''applications''],
      resolvedKind_Columns = [\<lparr>column_Header = ''Strategy'', column_JSONPath = ''.spec.deployment.strategy''\<rparr>,
        \<lparr>column_Header = ''Manifest'', column_JSONPath = ''.spec.deployment.manifest.type''\<rparr>,
        status_column]\<rparr>,
    \<lparr>resolvedKind_GVK = gvk ''Source'', resolvedKind_GVR = gvr ''sources'',
      resolvedKind_Aliases = [''src'', ''source'', ''sources''],
      resolvedKind_Columns = [\<lparr>column_Header = ''Type'', column_JSONPath = ''.spec.type''\<rparr>,
        status_column]\<rparr>,
    \<lparr>resolvedKind_GVK = gvk ''Release'', resolvedKind_GVR = gvr ''releases'',
      resolvedKind_Aliases = [''rel'', ''release'', ''releases''],
      resolvedKind_Columns = [\<lparr>column_Header = ''Application'', column_JSONPath = ''.spec.application''\<rparr>,
        \<lparr>column_Header = ''Artifacts'', column_JSONPath = ''.spec.artifacts[*].type''\<rparr>]\<rparr>,
    \<lparr>resolvedKind_GVK = gvk ''Deployment'', resolvedKind_GVR = gvr ''deployments'',
      resolvedKind_Aliases = [''deploy'', ''deployment'', ''deployments''],
      resolvedKind_Columns = [\<lparr>column_Header = ''Application'', column_JSONPath = ''.spec.application''\<rparr>,
        \<lparr>column_Header = ''Target'', column_JSONPath = ''.spec.targetRef.name''\<rparr>,
        status_column]\<rparr>,
    \<lparr>resolvedKind_GVK = gvk ''Environment'', resolvedKind_GVR = gvr ''environments'',
      resolvedKind_Aliases = [''env'', ''environment'', ''environments''],
      resolvedKind_Columns = [\<lparr>column_Header = ''Order'', column_JSONPath = ''.spec.order''\<rparr>,
        status_column]\<rparr>,
    \<lparr>resolvedKind_GVK = gvk ''Cell'', resolvedKind_GVR = gvr ''cells'',
      resolvedKind_Aliases = [''cell'', ''cells''],
      resolvedKind_Columns = [\<lparr>column_Header = ''Environment'', column_JSONPath = ''.spec.environment''\<rparr>,
        status_column]\<rparr>,
    \<lparr>resolvedKind_GVK = gvk ''DeploymentTarget'', resolvedKind_GVR = gvr ''deploymenttargets'',
      resolvedKind_Aliases = [''dt'', ''deploymenttarget'', ''deploymenttargets''],
      resolvedKind_Columns = [\<lparr>column_Header = ''Environment'', column_JSONPath = ''.spec.environment''\<rparr>,
        \<lparr>column_Header = ''Cluster'', column_JSONPath = ''.spec.cluster.name''\<rparr>,
        status_column]\<rparr>,
    \<lparr>resolvedKind_GVK = gvk ''Promotion'', resolvedKind_GVR = gvr ''promotions'',
      resolvedKind_Aliases = [''promo'', ''promotion'', ''promotions''],
      resolvedKind_Columns = [\<lparr>column_Header = ''Application'', column_JSONPath = ''.spec.application''\<rparr>,
        \<lparr>column_Header = ''Release'', column_JSONPath = ''.spec.release''\<rparr>,
        \<lparr>column_Header = ''To'', column_JSONPath = ''.spec.to.environment''\<rparr>,
        \<lparr>column_Header = ''Phase'', column_JSONPath = ''.status.phase''\<rparr>]\<rparr>,
    \<lparr>resolvedKind_GVK = gvk ''PromotionPolicy'', resolvedKind_GVR = gvr ''promotionpolicies'',
      resolvedKind_Aliases = [''pp'', ''promotionpolicy'', ''promotionpolicies''],
      resolvedKind_Columns = [\<lparr>column_Header = ''Required'', column_JSONPath = ''.spec.required[*]''\<rparr>]\<rparr>,
    \<lparr>resolvedKind_GVK = gvk ''Approval'', resolvedKind_GVR = gvr ''approvals'',
      resolvedKind_Aliases = [''appr'', ''approval'', ''approvals''],
      resolvedKind_Columns = [\<lparr>column_Header = ''Promotion'', column_JSONPath = ''.spec.promotionRef.name''\<rparr>,
        \<lparr>column_Header = ''Decision'', column_JSONPath = ''.spec.decision''\<rparr>,
        \<lparr>column_Header = ''Reviewer'', column_JSONPath = ''.spec.reviewer''\<rparr>]\<rparr>,
    \<lparr>resolvedKind_GVK = gvk ''FreezeWindow'', resolvedKind_GVR = gvr ''freezewindows'',
      resolvedKind_Aliases = [''fw'', ''freezewindow'', ''freezewindows''],
      resolvedKind_Columns = [\<lparr>column_Header = ''Reason'', column_JSONPath = ''.spec.reason''\<rparr>,
        \<lparr>column_Header = ''Start'', column_JSONPath = ''.spec.start''\<rparr>,
        \<lparr>column_Header = ''End'', column_JSONPath = ''.spec.end''\<rparr>]\<rparr>,
    \<lparr>resolvedKind_GVK = gvk ''SyncPlan'', resolvedKind_GVR = gvr ''syncplans'',
      resolvedKind_Aliases = [''sp'', ''syncplan'', ''syncplans''],
      resolvedKind_Columns = [\<lparr>column_Header = ''Application'', column_JSONPath = ''.spec.application''\<rparr>,
        \<lparr>column_Header = ''Targets'', column_JSONPath = ''.spec.targetRefs[*].name''\<rparr>]\<rparr>,
    \<lparr>resolvedKind_GVK = gvk ''SyncRun'', resolvedKind_GVR = gvr ''syncruns'',
      resolvedKind_Aliases = [''sr'', ''syncrun'', ''syncruns''],
      resolvedKind_Columns = [\<lparr>column_Header = ''Plan'', column_JSONPath = ''.spec.planRef.name''\<rparr>,
        \<lparr>column_Header = ''Target'', column_JSONPath = ''.spec.targetRef.name''\<rparr>,
        \<lparr>column_Header = ''Phase'', column_JSONPath = ''.status.phase''\<rparr>]\<rparr>,
    \<lparr>resolvedKind_GVK = gvk ''HealthCheck'', resolvedKind_GVR = gvr ''healthchecks'',
      resolvedKind_Aliases = [''hc'', ''healthcheck'', ''healthchecks''],
      resolvedKind_Columns = [\<lparr>column_Header = ''Application'', column_JSONPath = ''.spec.application''\<rparr>,
        \<lparr>column_Header = ''State'', column_JSONPath = ''.status.state''\<rparr>]\<rparr>,
    \<lparr>resolvedKind_GVK = gvk ''Notifier'', resolvedKind_GVR = gvr ''notifiers'',
      resolvedKind_Aliases = [''notif'', ''notifier'', ''notifiers''],
      resolvedKind_Columns = [\<lparr>column_Header = ''Builtin'', column_JSONPath = ''.spec.endpoint.builtin''\<rparr>,
        \<lparr>column_Header = ''Mode'', column_JSONPath = ''.spec.delivery.mode''\<rparr>]\<rparr>
  ]"

text \<open>\<^verbatim>\<open>k.Aliases[len(k.Aliases)-1]\<close>; every row of the registry has an alias.\<close>

definition knownAliases :: "string list" where
  "knownAliases = sort (map (\<lambda>k. last (resolvedKind_Aliases k)) keleustesKinds)"

definition resolveKind :: "string \<Rightarrow> (goerr, resolvedKind) result" where
  "resolveKind s =
     (let key = to_lower s in
      case find (\<lambda>k. key \<in> set (resolvedKind_Aliases k)) keleustesKinds of
        Some k \<Rightarrow> Inr k
      | None \<Rightarrow> Inl (Opaque (''unknown kind '' @ go_quote s @ ''; valid kinds: '' @ join '', '' knownAliases)))"

text \<open>Shell completion of the first argument of \<^verbatim>\<open>get\<close> and \<^verbatim>\<open>describe\<close>.\<close>

definition completeKindArg :: "string list \<Rightarrow> string list" where
  "completeKindArg args = (if args \<noteq> [] then [] else knownAliases)"

definition splitDescribeArgs :: "string list \<Rightarrow> (goerr, string \<times> string) result" where
  "splitDescribeArgs args =
     (case args of
        [arg] \<Rightarrow>
          (case splitN2 (CHR ''/'') arg of
             [kind, name] \<Rightarrow>
               if kind = [] \<or> name = []
               then Inl (Opaque (''describe requires KIND NAME or KIND/NAME, got '' @ go_quote arg))
               else Inr (kind, name)
           | _ \<Rightarrow> Inl (Opaque (''describe requires KIND NAME or KIND/NAME, got '' @ go_quote arg)))
      | [kind, name] \<Rightarrow> Inr (kind, name)
      | _ \<Rightarrow> Inl (Opaque ''describe requires KIND NAME or KIND/NAME''))"

section \<open>Lookups\<close>

lemma kinds_aliases_distinct: "distinct (concat (map resolvedKind_Aliases keleustesKinds))"
  by code_simp

lemma kinds_have_aliases: "k \<in> set keleustesKinds \<Longrightarrow> resolvedKind_Aliases k \<noteq> []"
proof -
  have "list_all (\<lambda>k. resolvedKind_Aliases k \<noteq> []) keleustesKinds" by code_simp
  then show "k \<in> set keleustesKinds \<Longrightarrow> resolvedKind_Aliases k \<noteq> []" by (auto simp: list_all_iff)
qed

text \<open>The last alias is the resource, and the kind in lower case is an alias.\<close>

lemma kinds_names:
  assumes "k \<in> set keleustesKinds"
  shows "last (resolvedKind_Aliases k) = SchemaGVR_Resource (resolvedKind_GVR k)"
    and "to_lower (SchemaGVK_Kind (resolvedKind_GVK k)) \<in> set (resolvedKind_Aliases k)"
    and "\<forall>a \<in> set (resolvedKind_Aliases k). to_lower a = a"
proof -
  have "list_all (\<lambda>k. last (resolvedKind_Aliases k) = SchemaGVR_Resource (resolvedKind_GVR k)) keleustesKinds"
    by code_simp
  then show "last (resolvedKind_Aliases k) = SchemaGVR_Resource (resolvedKind_GVR k)"
    using assms by (simp add: list_all_iff)
  have "list_all (\<lambda>k. list_ex (\<lambda>a. to_lower (SchemaGVK_Kind (resolvedKind_GVK k)) = a) (resolvedKind_Aliases k)) keleustesKinds"
    by code_simp
  then show "to_lower (SchemaGVK_Kind (resolvedKind_GVK k)) \<in> set (resolvedKind_Aliases k)"
    using assms by (auto simp: list_all_iff list_ex_iff)
  have "list_all (\<lambda>k. list_all (\<lambda>a. to_lower a = a) (resolvedKind_Aliases k)) keleustesKinds"
    by (simp add: to_lower_def ascii_lower_def Let_def keleustesKinds_def)
  then show "\<forall>a \<in> set (resolvedKind_Aliases k). to_lower a = a"
    using assms unfolding list_all_iff by blast
qed

lemma distinct_concat_unique:
  "distinct (concat (map f xs)) \<Longrightarrow> x \<in> set xs \<Longrightarrow> y \<in> set xs \<Longrightarrow> a \<in> set (f x) \<Longrightarrow> a \<in> set (f y) \<Longrightarrow> x = y"
  by (induction xs) auto

lemma find_unique:
  assumes "x \<in> set xs" "P x" "\<And>y. y \<in> set xs \<Longrightarrow> P y \<Longrightarrow> y = x"
  shows "find P xs = Some x"
proof (cases "find P xs")
  case None
  then show ?thesis using assms(1,2) by (auto simp: find_None_iff)
next
  case (Some y)
  then have "y \<in> set xs" "P y" by (auto simp: find_Some_iff)
  then show ?thesis using Some assms(3) by blast
qed

lemma resolveKind_alias:
  assumes "k \<in> set keleustesKinds" "to_lower s \<in> set (resolvedKind_Aliases k)"
  shows "resolveKind s = Inr k"
proof -
  have "find (\<lambda>k. to_lower s \<in> set (resolvedKind_Aliases k)) keleustesKinds = Some k"
    using assms distinct_concat_unique [OF kinds_aliases_distinct] by (intro find_unique) auto
  then show ?thesis by (simp add: resolveKind_def)
qed

lemma resolveKind_Inr:
  assumes "resolveKind s = Inr k"
  shows "k \<in> set keleustesKinds" "to_lower s \<in> set (resolvedKind_Aliases k)"
  using assms by (auto simp: resolveKind_def Let_def find_Some_iff split: option.splits)

section \<open>Claims\<close>

text \<open>C39: Naming a kind.  An argument resolves to a kind exactly when, in lower case, it is one of
  the kind's aliases, so no alias is ambiguous; the kind's own name resolves to it in any
  case; and each completion that is offered resolves to the kind with that resource.\<close>
theorem kind_arguments_resolve:
  "(resolveKind s = Inr k \<longleftrightarrow> k \<in> set keleustesKinds \<and> to_lower s \<in> set (resolvedKind_Aliases k)) \<and>
   (k \<in> set keleustesKinds \<and> to_lower s = to_lower (SchemaGVK_Kind (resolvedKind_GVK k)) \<longrightarrow> resolveKind s = Inr k) \<and>
   (a \<in> set (completeKindArg []) \<longrightarrow> (\<exists>k'. resolveKind a = Inr k' \<and> SchemaGVR_Resource (resolvedKind_GVR k') = a)) \<and>
   sorted (completeKindArg []) \<and> length (completeKindArg []) = 15"
proof (intro conjI impI)
  show "resolveKind s = Inr k \<longleftrightarrow> k \<in> set keleustesKinds \<and> to_lower s \<in> set (resolvedKind_Aliases k)"
    using resolveKind_alias resolveKind_Inr by blast
  show "resolveKind s = Inr k"
    if "k \<in> set keleustesKinds \<and> to_lower s = to_lower (SchemaGVK_Kind (resolvedKind_GVK k))"
    using that kinds_names(2) by (intro resolveKind_alias) auto
  show "\<exists>k'. resolveKind a = Inr k' \<and> SchemaGVR_Resource (resolvedKind_GVR k') = a" if offered: "a \<in> set (completeKindArg [])"
  proof -
    obtain k' where k': "k' \<in> set keleustesKinds" "a = last (resolvedKind_Aliases k')"
      using offered by (auto simp: completeKindArg_def knownAliases_def)
    then have "a \<in> set (resolvedKind_Aliases k')" using kinds_have_aliases by auto
    then have "resolveKind a = Inr k'" using kinds_names(3) [OF k'(1)] k' by (intro resolveKind_alias) auto
    then show ?thesis using kinds_names(1) [OF k'(1)] k' by auto
  qed
  show "sorted (completeKindArg [])" by (simp add: completeKindArg_def knownAliases_def)
  show "length (completeKindArg []) = 15" by (simp add: completeKindArg_def knownAliases_def keleustesKinds_def)
qed

theorem kind_arguments_resolve_witness:
  "\<exists>k. resolveKind ''SyncRun'' = Inr k \<and> SchemaGVR_Resource (resolvedKind_GVR k) = ''syncruns''"
proof -
  let ?k = "keleustesKinds ! 12"
  have "?k \<in> set keleustesKinds" by (intro nth_mem) (simp add: keleustesKinds_def)
  moreover have "to_lower ''SyncRun'' = to_lower (SchemaGVK_Kind (resolvedKind_GVK ?k)) \<and>
      SchemaGVR_Resource (resolvedKind_GVR ?k) = ''syncruns''"
    by (simp add: keleustesKinds_def gvk_def gvr_def)
  ultimately show ?thesis using kind_arguments_resolve [of "''SyncRun''" ?k "[]"] by blast
qed

end
