(* ===== verification/Cli_Output.thy ===== *)
theory Cli_Output
  imports Complex_Main Cli_Kinds Json_Values
begin

text \<open>
  What \<^verbatim>\<open>keleustesctl get\<close> prints, \<^verbatim>\<open>internal/cli/output.go\<close>: columns read out of an
  untyped object, ages, tables.  The accessors of the Kubernetes \<^verbatim>\<open>unstructured\<close> package and
  the encoders are arguments (\<open>unstr_lib\<close>).  A stream is a function that takes the text of
  one write and may fail; text that goes through a \<^verbatim>\<open>text/tabwriter\<close> is laid out by
  \<open>tab_layout\<close> and written by the deferred flush, whose error the code drops.
\<close>

section \<open>Streams and libraries\<close>

type_synonym 'w stream = "string \<Rightarrow> 'w \<Rightarrow> goerr option \<times> 'w"

record unstr_lib =
  ul_NestedFieldCopy :: "json \<Rightarrow> string list \<Rightarrow> (goerr, json option) result"
  ul_NestedSlice :: "json \<Rightarrow> string list \<Rightarrow> (goerr, json list option) result"
  ul_GetName :: "json \<Rightarrow> string"
  ul_GetNamespace :: "json \<Rightarrow> string"
  ul_GetCreationTimestamp :: "json \<Rightarrow> time"
  ul_GetGeneration :: "json \<Rightarrow> int"
  ul_GetLabels :: "json \<Rightarrow> dict"
  ul_GetAnnotations :: "json \<Rightarrow> dict"
  ul_EncodeJSON :: "json \<Rightarrow> (goerr, string) result"
  ul_MarshalYAML :: "json \<Rightarrow> (goerr, string) result"
  ul_FormatG :: "64 word \<Rightarrow> string"
  ul_FormatTime :: "time \<Rightarrow> string"

abbreviation (input) newline :: string where "newline \<equiv> [CHR 0x0A]"
abbreviation (input) tab :: string where "tab \<equiv> [CHR 0x09]"

definition Fprintln :: "'w stream \<Rightarrow> string \<Rightarrow> 'w \<Rightarrow> goerr option \<times> 'w" where
  "Fprintln put s w = put (s @ newline) w"

section \<open>Formats\<close>

type_synonym outputFormat = string

abbreviation (input) outputTable :: outputFormat where "outputTable \<equiv> []"
abbreviation outputWide :: outputFormat where "outputWide \<equiv> ''wide''"
abbreviation outputJSON :: outputFormat where "outputJSON \<equiv> ''json''"
abbreviation outputYAML :: outputFormat where "outputYAML \<equiv> ''yaml''"

definition parseOutputFormat :: "string \<Rightarrow> (goerr, outputFormat) result" where
  "parseOutputFormat s =
     (if s \<in> set [outputTable, outputWide, outputJSON, outputYAML] then Inr s
      else Inl (Opaque (''unsupported -o format '' @ go_quote s @ ''; valid: table (default), wide, yaml, json'')))"

section \<open>Scalars\<close>

text \<open>
  The integer a \<^verbatim>\<open>float64\<close> stands for, when it stands for one that an \<^verbatim>\<open>int64\<close> can hold: sign
  bit, eleven bits of exponent, 52 of fraction.
\<close>

definition float64_int :: "64 word \<Rightarrow> int option" where
  "float64_int w =
     (let e = uint w div 2 ^ 52 mod 2 ^ 11; m = uint w mod 2 ^ 52; negative = uint w div 2 ^ 63 = 1 in
      if e = 2047 then None
      else if e = 0 then (if m = 0 then Some 0 else None)
      else let k = 2 ^ 52 + m;
               whole = (if e \<ge> 1075 then True else k mod 2 ^ nat (1075 - e) = 0);
               v = (if e \<ge> 1075 then k * 2 ^ nat (e - 1075) else k div 2 ^ nat (1075 - e));
               x = (if negative then - v else v) in
           if whole \<and> - (2 ^ 63) \<le> x \<and> x < 2 ^ 63 then Some x else None)"

text \<open>\<^verbatim>\<open>fmt\<close>'s \<^verbatim>\<open>%v\<close>: maps are printed in key order.\<close>

function go_v :: "(64 word \<Rightarrow> string) \<Rightarrow> json \<Rightarrow> string" where
  "go_v g JNull = ''<nil>''"
| "go_v g (JBool b) = (if b then ''true'' else ''false'')"
| "go_v g (JInt i) = itoa i"
| "go_v g (JFloat w) = g w"
| "go_v g (JString s) = s"
| "go_v g (JArr vs) = ''['' @ join '' '' (map (go_v g) vs) @ '']''"
| "go_v g (JObj fs) =
     ''map['' @ join '' '' (map (\<lambda>(k, s). k @ '':'' @ s) (sort_key fst (map (\<lambda>(k, v). (k, go_v g v)) fs))) @ '']''"
| "go_v g (JMarker c) = ''{'' @ c @ ''}''"
  by pat_completeness auto
termination
proof (relation "measure (\<lambda>(g, v). size v)", goal_cases)
  case (3 g fs x k v)
  then have "(k, v) \<in> set fs" by simp
  then have "size_prod (\<lambda>_. 0) size (k, v) < Suc (size_list (size_prod (\<lambda>_. 0) size) fs)"
    by (intro le_imp_less_Suc size_list_estimation') auto
  then show ?case by simp
qed (auto intro: le_imp_less_Suc size_list_estimation')

definition scalarToString :: "(64 word \<Rightarrow> string) \<Rightarrow> json \<Rightarrow> string" where
  "scalarToString g v =
     (case v of
        JNull \<Rightarrow> []
      | JString x \<Rightarrow> x
      | JBool x \<Rightarrow> if x then ''true'' else ''false''
      | JInt x \<Rightarrow> itoa x
      | JFloat x \<Rightarrow> (case float64_int x of Some n \<Rightarrow> itoa n | None \<Rightarrow> g x)
      | _ \<Rightarrow> go_v g v)"

section \<open>Columns\<close>

fun nested :: "json \<Rightarrow> string list \<Rightarrow> json option" where
  "nested cur [] = Some cur"
| "nested cur (p # ps) =
     (case cur of
        JObj fs \<Rightarrow> (case map_of fs p of None \<Rightarrow> None | Some v \<Rightarrow> nested v ps)
      | _ \<Rightarrow> None)"

text \<open>The condition loop: the first map of that type decides.\<close>

fun find_condition :: "string \<Rightarrow> json list \<Rightarrow> json option" where
  "find_condition condType [] = None"
| "find_condition condType (c # cs) =
     (case c of
        JObj m \<Rightarrow> if map_of m ''type'' = Some (JString condType) then Some c else find_condition condType cs
      | _ \<Rightarrow> find_condition condType cs)"

definition conditionField :: "unstr_lib \<Rightarrow> json \<Rightarrow> string \<Rightarrow> string \<Rightarrow> string \<Rightarrow> string" where
  "conditionField ul obj condPath condType fld =
     (case ul_NestedSlice ul obj (split_on (CHR ''.'') condPath) of
        Inl _ \<Rightarrow> []
      | Inr None \<Rightarrow> []
      | Inr (Some conds) \<Rightarrow>
          (case find_condition condType conds of
             None \<Rightarrow> []
           | Some m \<Rightarrow>
               if fld = [] then scalarToString (ul_FormatG ul) m
               else (case json_field m fld of None \<Rightarrow> [] | Some v \<Rightarrow> scalarToString (ul_FormatG ul) v)))"

definition join_part :: "(64 word \<Rightarrow> string) \<Rightarrow> string \<Rightarrow> json \<Rightarrow> string list" where
  "join_part g suffix elem =
     (if suffix = [] then [scalarToString g elem]
      else (case elem of
              JObj m \<Rightarrow> (case nested elem (split_on (CHR ''.'') suffix) of
                           Some v \<Rightarrow> [scalarToString g v] | None \<Rightarrow> [])
            | _ \<Rightarrow> []))"

definition arrayJoin :: "unstr_lib \<Rightarrow> json \<Rightarrow> string \<Rightarrow> string \<Rightarrow> string" where
  "arrayJoin ul obj prefix suffix =
     (case ul_NestedSlice ul obj (split_on (CHR ''.'') prefix) of
        Inl _ \<Rightarrow> []
      | Inr None \<Rightarrow> []
      | Inr (Some arr) \<Rightarrow>
          if arr = [] then [] else join '','' (concat (map (join_part (ul_FormatG ul) suffix) arr)))"

definition cond_open :: string where "cond_open = ''[?(@.type=='' @ [CHR 0x27]"
definition cond_close :: string where "cond_close = [CHR 0x27] @ '')]''"

definition extractColumn :: "unstr_lib \<Rightarrow> json \<Rightarrow> string \<Rightarrow> string" where
  "extractColumn ul obj path0 =
     (let path = trim_prefix path0 ''.'' in
      if path = [] then []
      else (case str_index path cond_open of
          Some idx \<Rightarrow>
            (let prefix = take idx path; rest = drop (idx + length cond_open) path in
             case str_index rest cond_close of
               None \<Rightarrow> ''<unsupported>''
             | Some e \<Rightarrow>
                 conditionField ul obj prefix (take e rest)
                   (trim_prefix (drop (e + length cond_close) rest) ''.''))
        | None \<Rightarrow>
            (case str_index path ''[*]'' of
               Some idx \<Rightarrow>
                 arrayJoin ul obj (take idx path) (trim_prefix (drop (idx + length ''[*]'') path) ''.'')
             | None \<Rightarrow>
                 (case ul_NestedFieldCopy ul obj (split_on (CHR ''.'') path) of
                    Inl _ \<Rightarrow> []
                  | Inr None \<Rightarrow> []
                  | Inr (Some v) \<Rightarrow> scalarToString (ul_FormatG ul) v))))"

section \<open>Ages\<close>

text \<open>
  \<^verbatim>\<open>Duration.Seconds\<close>, \<^verbatim>\<open>Minutes\<close> and \<^verbatim>\<open>Hours\<close> compute in binary64.  \<open>fl64\<close> rounds a
  positive rational to 53 significant bits, ties to even, for values of at least \<open>2\<^sup>-\<^sup>6\<^sup>4\<close> (the
  values here are zero or above \<open>2\<^sup>-\<^sup>4\<^sup>2\<close>).
\<close>

fun bit_length :: "nat \<Rightarrow> nat" where
  "bit_length n = (if n = 0 then 0 else Suc (bit_length (n div 2)))"

declare bit_length.simps [simp del]

definition round_half_even :: "rat \<Rightarrow> int" where
  "round_half_even q =
     (let f = \<lfloor>q\<rfloor>; r = q - of_int f in
      if r < 1/2 then f else if r > 1/2 then f + 1 else if even f then f else f + 1)"

definition scale2 :: "int \<Rightarrow> rat" where
  "scale2 e = (if e \<ge> 0 then 2 ^ nat e else 1 / 2 ^ nat (- e))"

definition fl64 :: "rat \<Rightarrow> rat" where
  "fl64 q =
     (if q = 0 then 0
      else let e = int (bit_length (nat \<lfloor>q * 2 ^ 64\<rfloor>)) - 1 - 64 - 52
           in of_int (round_half_even (q / scale2 e)) * scale2 e)"

definition duration_in :: "int \<Rightarrow> int \<Rightarrow> rat" where
  "duration_in unit d = fl64 (of_int (d div unit) + fl64 (of_int (d mod unit) / of_int unit))"

definition nsSecond :: int where "nsSecond = 10 ^ 9"
definition nsMinute :: int where "nsMinute = 60 * 10 ^ 9"
definition nsHour :: int where "nsHour = 3600 * 10 ^ 9"

definition age_label :: "int \<Rightarrow> string" where
  "age_label d =
     (if d < 0 then ''0s''
      else if d < nsMinute then itoa \<lfloor>duration_in nsSecond d\<rfloor> @ ''s''
      else if d < nsHour then itoa \<lfloor>duration_in nsMinute d\<rfloor> @ ''m''
      else if d < 24 * nsHour then itoa \<lfloor>duration_in nsHour d\<rfloor> @ ''h''
      else itoa \<lfloor>fl64 (duration_in nsHour d / 24)\<rfloor> @ ''d'')"

definition formatAge :: "time \<Rightarrow> time \<Rightarrow> string" where
  "formatAge now t = (if t = 0 then ''<unknown>'' else age_label (time_since now t))"

section \<open>Tables\<close>

text \<open>
  The layout of \<^verbatim>\<open>tabwriter.NewWriter(w, 0, 0, 2, ' ', 0)\<close>: a cell ended by a tab is padded to
  the widest such cell of its column block, the run of neighbouring lines that have a cell
  there, plus two.  Widths count the bytes that start a UTF-8 sequence; the other control
  characters of the package (vertical tab, form feed, the escape byte) are not treated.
\<close>

definition rune_count :: "string \<Rightarrow> nat" where
  "rune_count s = length (filter (\<lambda>c. (of_char c :: nat) div 64 \<noteq> 2) s)"

definition column_width :: "string list list \<Rightarrow> nat \<Rightarrow> nat \<Rightarrow> nat" where
  "column_width lines i j =
     (let has = (\<lambda>l. j + 1 < length l);
          block = takeWhile has (rev (take i lines)) @ takeWhile has (drop i lines)
      in Max (set (0 # map (\<lambda>l. rune_count (l ! j)) block)) + 2)"

definition tab_line :: "string list list \<Rightarrow> nat \<Rightarrow> string" where
  "tab_line lines i =
     (let l = lines ! i in
      concat (map (\<lambda>j. l ! j @ (if j + 1 < length l
                                then replicate (column_width lines i j - rune_count (l ! j)) (CHR '' '')
                                else []))
        [0..<length l]))"

definition tab_layout :: "string \<Rightarrow> string" where
  "tab_layout text =
     (let lines = map (split_on (CHR 0x09)) (split_on (CHR 0x0A) text)
      in join newline (map (tab_line lines) [0..<length lines]))"

text \<open>The lines that are printed to the tabwriter, and the deferred flush.\<close>

definition print_lines :: "'w stream \<Rightarrow> string list list \<Rightarrow> 'w \<Rightarrow> goerr option \<times> 'w" where
  "print_lines put rows w =
     (None, snd (put (tab_layout (concat (map (\<lambda>r. join tab r @ newline) rows))) w))"

definition table_header :: "resolvedKind \<Rightarrow> string list" where
  "table_header kind =
     [''NAME''] @ map (\<lambda>c. to_upper (column_Header c)) (resolvedKind_Columns kind) @ [''AGE'']"

definition table_row :: "unstr_lib \<Rightarrow> time \<Rightarrow> resolvedKind \<Rightarrow> json \<Rightarrow> string list" where
  "table_row ul now kind item =
     [ul_GetName ul item] @
     map (\<lambda>c. extractColumn ul item (column_JSONPath c)) (resolvedKind_Columns kind) @
     [formatAge now (ul_GetCreationTimestamp ul item)]"

definition renderTable ::
  "unstr_lib \<Rightarrow> time \<Rightarrow> 'w stream \<Rightarrow> resolvedKind \<Rightarrow> json list \<Rightarrow> 'w \<Rightarrow> goerr option \<times> 'w" where
  "renderTable ul now put kind items w =
     (if items = [] then Fprintln put ''No resources found.'' w
      else print_lines put (table_header kind # map (table_row ul now kind) items) w)"

section \<open>JSON and YAML\<close>

definition list_object :: "json list \<Rightarrow> json" where
  "list_object items =
     JObj [(''apiVersion'', JString ''v1''), (''kind'', JString ''List''), (''items'', JArr items)]"

definition renderJSON :: "unstr_lib \<Rightarrow> 'w stream \<Rightarrow> json list \<Rightarrow> 'w \<Rightarrow> goerr option \<times> 'w" where
  "renderJSON ul put items w =
     (case ul_EncodeJSON ul (case items of [item] \<Rightarrow> item | _ \<Rightarrow> list_object items) of
        Inl err \<Rightarrow> (Some err, w)
      | Inr txt \<Rightarrow> put txt w)"

definition renderYAML :: "unstr_lib \<Rightarrow> 'w stream \<Rightarrow> json list \<Rightarrow> 'w \<Rightarrow> goerr option \<times> 'w" where
  "renderYAML ul put items w =
     (case ul_MarshalYAML ul (case items of [item] \<Rightarrow> item | _ \<Rightarrow> list_object items) of
        Inl err \<Rightarrow> (Some err, w)
      | Inr txt \<Rightarrow> put txt w)"

definition renderList ::
  "unstr_lib \<Rightarrow> time \<Rightarrow> 'w stream \<Rightarrow> resolvedKind \<Rightarrow> json list \<Rightarrow> outputFormat \<Rightarrow> 'w \<Rightarrow> goerr option \<times> 'w" where
  "renderList ul now put kind items format w =
     (if format = outputJSON then renderJSON ul put items w
      else if format = outputYAML then renderYAML ul put items w
      else renderTable ul now put kind items w)"

definition renderOne ::
  "unstr_lib \<Rightarrow> time \<Rightarrow> 'w stream \<Rightarrow> resolvedKind \<Rightarrow> json \<Rightarrow> outputFormat \<Rightarrow> 'w \<Rightarrow> goerr option \<times> 'w" where
  "renderOne ul now put kind obj format w = renderList ul now put kind [obj] format w"

section \<open>Reading column paths\<close>

text \<open>
  The shapes of path a column may have, and what each reads: a field, a field of the first
  condition of a type, and the elements of an array or a field of each.
\<close>

datatype column_path =
    FieldPath "string list"
  | ConditionPath "string list" string string
  | ArrayPath "string list" "string list"

fun print_path :: "column_path \<Rightarrow> string" where
  "print_path (FieldPath ks) = ''.'' @ join ''.'' ks"
| "print_path (ConditionPath ks t f) = ''.'' @ join ''.'' ks @ cond_open @ t @ cond_close @ ''.'' @ f"
| "print_path (ArrayPath ks fs) = ''.'' @ join ''.'' ks @ ''[*]'' @ (if fs = [] then [] else ''.'' @ join ''.'' fs)"

definition wf_key :: "string \<Rightarrow> bool" where
  "wf_key k \<longleftrightarrow> k \<noteq> [] \<and> list_all (\<lambda>c. c \<noteq> CHR ''.'' \<and> c \<noteq> CHR ''['') k"

fun wf_path :: "column_path \<Rightarrow> bool" where
  "wf_path (FieldPath ks) = (ks \<noteq> [] \<and> list_all wf_key ks)"
| "wf_path (ConditionPath ks t f) = (ks \<noteq> [] \<and> list_all wf_key ks \<and> list_all (\<lambda>c. c \<noteq> CHR 0x27) t \<and> f \<noteq> [])"
| "wf_path (ArrayPath ks fs) = (ks \<noteq> [] \<and> list_all wf_key ks \<and> list_all wf_key fs)"

definition found :: "(goerr, 'a option) result \<Rightarrow> 'a option" where
  "found r = (case r of Inl _ \<Rightarrow> None | Inr v \<Rightarrow> v)"

abbreviation show_opt :: "unstr_lib \<Rightarrow> json option \<Rightarrow> string" where
  "show_opt ul v \<equiv> (case v of None \<Rightarrow> [] | Some x \<Rightarrow> scalarToString (ul_FormatG ul) x)"

fun read_path :: "unstr_lib \<Rightarrow> json \<Rightarrow> column_path \<Rightarrow> string" where
  "read_path ul obj (FieldPath ks) = show_opt ul (found (ul_NestedFieldCopy ul obj ks))"
| "read_path ul obj (ConditionPath ks t f) =
     (case found (ul_NestedSlice ul obj ks) of
        None \<Rightarrow> []
      | Some conds \<Rightarrow>
          (case find (\<lambda>c. json_field c ''type'' = Some (JString t)) conds of
             None \<Rightarrow> [] | Some c \<Rightarrow> show_opt ul (json_field c f)))"
| "read_path ul obj (ArrayPath ks fs) =
     (case found (ul_NestedSlice ul obj ks) of
        None \<Rightarrow> []
      | Some vs \<Rightarrow> join '','' (map (scalarToString (ul_FormatG ul))
          (if fs = [] then vs else List.map_filter (\<lambda>v. json_at v fs) vs)))"

lemma str_index_SomeD: "str_index s sub = Some i \<Longrightarrow> has_prefix (drop i s) sub \<and> i \<le> length s"
  by (induction s arbitrary: i) (auto split: if_splits)

lemma str_index_skip: "c \<notin> set p \<Longrightarrow> str_index (p @ (c # sub) @ rest) (c # sub) = Some (length p)"
  by (induction p) (auto simp: has_prefix_iff)

lemma str_index_free: "c \<notin> set p \<Longrightarrow> str_index p (c # sub) = None"
  by (induction p) auto

lemma str_index_only:
  assumes "c \<notin> set p" "c \<notin> set q" "d \<noteq> e" "c \<noteq> d"
  shows "str_index (p @ c # d # q) (c # e # sub) = None"
  using assms(1)
proof (induction p)
  case Nil
  have "str_index (d # q) (c # e # sub) = None" using assms by (intro str_index_free) auto
  then show ?case using assms(3) by simp
qed (auto split: if_splits)

lemma index_cond_open: "CHR ''['' \<notin> set p \<Longrightarrow> str_index (p @ cond_open @ rest) cond_open = Some (length p)"
  using str_index_skip [of "CHR ''[''" p "tl cond_open" rest] by (simp add: cond_open_def)

lemma index_cond_close: "CHR 0x27 \<notin> set t \<Longrightarrow> str_index (t @ cond_close @ rest) cond_close = Some (length t)"
  using str_index_skip [of "CHR 0x27" t "tl cond_close" rest] by (simp add: cond_close_def)

lemma find_condition_find:
  "find_condition t cs = find (\<lambda>c. json_field c ''type'' = Some (JString t)) cs"
  by (induction cs) (auto split: json.splits)

lemma nested_json_at: "nested v ks = json_at v ks"
  by (induction v ks rule: nested.induct) (auto split: json.splits option.splits)

lemma wf_key_join: "list_all wf_key ks \<Longrightarrow> CHR ''['' \<notin> set (join ''.'' ks)"
  by (induction "''.''" ks rule: join.induct) (auto simp: wf_key_def list_all_iff)

lemma wf_key_split: "list_all wf_key ks \<Longrightarrow> ks \<noteq> [] \<Longrightarrow> split_on (CHR ''.'') (join ''.'' ks) = ks"
  by (rule split_on_join) (auto simp: wf_key_def list_all_iff)

lemma wf_key_join_neq: "list_all wf_key ks \<Longrightarrow> ks \<noteq> [] \<Longrightarrow> join ''.'' ks \<noteq> []"
  by (induction "''.''" ks rule: join.induct) (auto simp: wf_key_def)

lemma trim_dot [simp]: "trim_prefix (CHR ''.'' # s) ''.'' = s"
  by (simp add: trim_prefix_def)

lemma extract_field:
  assumes "wf_path (FieldPath ks)"
  shows "extractColumn ul obj (print_path (FieldPath ks)) = read_path ul obj (FieldPath ks)"
  using assms wf_key_join [of ks] wf_key_split [of ks] wf_key_join_neq [of ks]
  by (simp add: extractColumn_def cond_open_def str_index_free found_def Let_def split: sum.splits option.splits)

lemma extract_condition:
  assumes "wf_path (ConditionPath ks t f)"
  shows "extractColumn ul obj (print_path (ConditionPath ks t f)) = read_path ul obj (ConditionPath ks t f)"
proof -
  let ?p = "join ''.'' ks" let ?rest = "t @ cond_close @ ''.'' @ f"
  have wf: "list_all wf_key ks" "ks \<noteq> []" "CHR 0x27 \<notin> set t" "f \<noteq> []" using assms by (auto simp: list_all_iff)
  have "str_index (?p @ cond_open @ ?rest) cond_open = Some (length ?p)"
    by (rule index_cond_open [OF wf_key_join [OF wf(1)]])
  moreover have "str_index ?rest cond_close = Some (length t)"
    by (rule index_cond_close [OF wf(3)])
  moreover have "print_path (ConditionPath ks t f) = CHR ''.'' # ?p @ cond_open @ ?rest" by simp
  ultimately have "extractColumn ul obj (print_path (ConditionPath ks t f)) = conditionField ul obj ?p t f"
    using wf_key_join_neq [OF wf(1,2)] by (simp add: extractColumn_def Let_def)
  then show ?thesis using wf wf_key_split [OF wf(1,2)]
    by (simp add: conditionField_def find_condition_find found_def split: sum.splits option.splits)
qed

lemma concat_opt: "concat (map (\<lambda>v. case f v of None \<Rightarrow> [] | Some x \<Rightarrow> [g x]) vs) = map g (List.map_filter f vs)"
  by (induction vs) (auto simp: List.map_filter_def split: option.splits)

lemma extract_array:
  assumes "wf_path (ArrayPath ks fs)"
  shows "extractColumn ul obj (print_path (ArrayPath ks fs)) = read_path ul obj (ArrayPath ks fs)"
proof -
  let ?p = "join ''.'' ks" let ?tail = "if fs = [] then [] else ''.'' @ join ''.'' fs"
  let ?path = "?p @ ''[*]'' @ ?tail"
  have wf: "list_all wf_key ks" "ks \<noteq> []" "list_all wf_key fs" using assms by auto
  have tail: "CHR ''['' \<notin> set ?tail" using wf_key_join [OF wf(3)] by auto
  have "str_index ?path cond_open = None"
    using str_index_only [OF wf_key_join [OF wf(1)], of "CHR '']'' # ?tail" "CHR ''*''" "CHR ''?''"] tail
    by (simp add: cond_open_def)
  moreover have "str_index ?path ''[*]'' = Some (length ?p)"
    using str_index_skip [OF wf_key_join [OF wf(1)], of "''*]''" ?tail] by simp
  moreover have "print_path (ArrayPath ks fs) = CHR ''.'' # ?path" by simp
  ultimately have *: "extractColumn ul obj (print_path (ArrayPath ks fs)) = arrayJoin ul obj ?p (join ''.'' fs)"
    using wf_key_join_neq [OF wf(1,2)] by (simp add: extractColumn_def Let_def trim_prefix_def)
  have part: "join_part g (join ''.'' fs) v =
      (if fs = [] then [scalarToString g v] else case json_at v fs of None \<Rightarrow> [] | Some x \<Rightarrow> [scalarToString g x])" for g v
    using wf_key_join_neq [OF wf(3)] wf_key_split [OF wf(3)]
    by (cases fs; cases v) (auto simp: join_part_def nested_json_at split: option.splits)
  show ?thesis unfolding * using wf_key_split [OF wf(1,2)]
    by (auto simp: arrayJoin_def part [abs_def] found_def concat_opt split: sum.splits option.splits)
qed

lemma extract_print_path: "wf_path cp \<Longrightarrow> extractColumn ul obj (print_path cp) = read_path ul obj cp"
  by (cases cp) (simp_all only: extract_field extract_condition extract_array)

text \<open>What the registered columns read, kind by kind.\<close>

definition registered_paths :: "column_path list list" where
  "registered_paths = [
    [FieldPath [''spec'', ''deployment'', ''strategy''], FieldPath [''spec'', ''deployment'', ''manifest'', ''type''], ConditionPath [''status'', ''conditions''] ''Accepted'' ''status''],
    [FieldPath [''spec'', ''type''], ConditionPath [''status'', ''conditions''] ''Accepted'' ''status''],
    [FieldPath [''spec'', ''application''], ArrayPath [''spec'', ''artifacts''] [''type'']],
    [FieldPath [''spec'', ''application''], FieldPath [''spec'', ''targetRef'', ''name''], ConditionPath [''status'', ''conditions''] ''Accepted'' ''status''],
    [FieldPath [''spec'', ''order''], ConditionPath [''status'', ''conditions''] ''Accepted'' ''status''],
    [FieldPath [''spec'', ''environment''], ConditionPath [''status'', ''conditions''] ''Accepted'' ''status''],
    [FieldPath [''spec'', ''environment''], FieldPath [''spec'', ''cluster'', ''name''], ConditionPath [''status'', ''conditions''] ''Accepted'' ''status''],
    [FieldPath [''spec'', ''application''], FieldPath [''spec'', ''release''], FieldPath [''spec'', ''to'', ''environment''], FieldPath [''status'', ''phase'']],
    [ArrayPath [''spec'', ''required''] []],
    [FieldPath [''spec'', ''promotionRef'', ''name''], FieldPath [''spec'', ''decision''], FieldPath [''spec'', ''reviewer'']],
    [FieldPath [''spec'', ''reason''], FieldPath [''spec'', ''start''], FieldPath [''spec'', ''end'']],
    [FieldPath [''spec'', ''application''], ArrayPath [''spec'', ''targetRefs''] [''name'']],
    [FieldPath [''spec'', ''planRef'', ''name''], FieldPath [''spec'', ''targetRef'', ''name''], FieldPath [''status'', ''phase'']],
    [FieldPath [''spec'', ''application''], FieldPath [''status'', ''state'']],
    [FieldPath [''spec'', ''endpoint'', ''builtin''], FieldPath [''spec'', ''delivery'', ''mode'']]]"

lemma registered_columns:
  "map (\<lambda>k. map column_JSONPath (resolvedKind_Columns k)) keleustesKinds = map (map print_path) registered_paths"
  "list_all (list_all wf_path) registered_paths"
  by code_simp+

section \<open>Rounding\<close>

lemma bit_length_bounds: "0 < n \<Longrightarrow> 2 ^ (bit_length n - 1) \<le> n \<and> n < 2 ^ bit_length n \<and> 0 < bit_length n"
proof (induction n rule: bit_length.induct)
  case (1 n)
  show ?case
  proof (cases "n div 2 = 0")
    case True
    then have "n = 1" using 1(2) by simp
    then show ?thesis by (simp add: bit_length.simps)
  next
    case False
    then obtain b where b: "bit_length (n div 2) = Suc b" "2 ^ b \<le> n div 2" "n div 2 < 2 ^ Suc b"
      using 1 by (cases "bit_length (n div 2)") auto
    moreover have "n div 2 * 2 \<le> n" "n < n div 2 * 2 + 2" by presburger+
    ultimately have "2 * 2 ^ b \<le> n" "n < 4 * 2 ^ b" by simp_all
    then show ?thesis using 1(2) b(1) by (simp add: bit_length.simps [of n])
  qed
qed

lemma scale2_diff: "scale2 (int a - int b) = 2 ^ a / 2 ^ b"
proof (cases "b \<le> a")
  case True
  then obtain c where "a = b + c" using le_Suc_ex by blast
  then show ?thesis by (simp add: scale2_def power_add)
next
  case False
  then obtain c where "b = a + c" "0 < c" using less_imp_add_positive by (metis not_le)
  then show ?thesis by (simp add: scale2_def power_add)
qed

lemma round_half_even_err: "\<bar>of_int (round_half_even q) - q\<bar> \<le> 1 / 2"
proof -
  have "of_int \<lfloor>q\<rfloor> \<le> q" "q < of_int \<lfloor>q\<rfloor> + 1" by linarith+
  then show ?thesis unfolding round_half_even_def Let_def abs_le_iff
    by (auto simp del: of_int_floor_le; linarith)
qed

lemma round_half_even_int [simp]: "round_half_even (of_int n) = n"
  by (simp add: round_half_even_def)

text \<open>The unit in the last place of the value, a power of two.\<close>

lemma fl64_scale:
  assumes "1 / 2 ^ 64 \<le> q"
  obtains b :: nat where "fl64 q = of_int (round_half_even (q / (2 ^ b / 2 ^ 116))) * (2 ^ b / 2 ^ 116)"
    and "2 ^ b / 2 ^ 64 \<le> q"
proof -
  let ?n = "nat \<lfloor>q * 2 ^ 64\<rfloor>"
  have "1 \<le> q * 2 ^ 64" using assms by (simp add: field_simps)
  then have fl: "1 \<le> \<lfloor>q * 2 ^ 64\<rfloor>" by simp
  then have n: "0 < ?n" "(of_nat ?n :: rat) \<le> q * 2 ^ 64" by (simp_all add: of_nat_nat)
  define b where "b = bit_length ?n - 1"
  have len: "bit_length ?n = Suc b" "2 ^ b \<le> ?n" using bit_length_bounds [OF n(1)] by (auto simp: b_def)
  have "(2 ^ b :: rat) \<le> of_nat ?n" using len(2) by (metis of_nat_le_iff of_nat_numeral of_nat_power)
  then have le: "2 ^ b \<le> q * 2 ^ 64" using n(2) by linarith
  have "int (bit_length ?n) - 1 - 64 - 52 = int b - int 116" using len(1) by simp
  moreover have "q \<noteq> 0" using assms by auto
  ultimately have "fl64 q = of_int (round_half_even (q / (2 ^ b / 2 ^ 116))) * (2 ^ b / 2 ^ 116)"
    unfolding fl64_def Let_def by (simp only: scale2_diff if_False)
  moreover have "2 ^ b / 2 ^ 64 \<le> q" using le by (simp add: divide_le_eq)
  ultimately show ?thesis by (rule that)
qed

lemma fl64_err:
  assumes "1 / 2 ^ 64 \<le> q"
  shows "\<bar>fl64 q - q\<bar> \<le> q / 2 ^ 53"
proof -
  obtain b :: nat where fl: "fl64 q = of_int (round_half_even (q / (2 ^ b / 2 ^ 116))) * (2 ^ b / 2 ^ 116)"
    and le: "2 ^ b / 2 ^ 64 \<le> q" using fl64_scale [OF assms] .
  let ?s = "2 ^ b / 2 ^ 116 :: rat"
  have pos: "0 < ?s" by simp
  have "fl64 q - q = (of_int (round_half_even (q / ?s)) - q / ?s) * ?s"
    unfolding fl using pos by (simp add: left_diff_distrib)
  then have "\<bar>fl64 q - q\<bar> = \<bar>of_int (round_half_even (q / ?s)) - q / ?s\<bar> * ?s"
    using pos by (simp only: abs_mult abs_of_pos)
  also have "\<dots> \<le> 1 / 2 * ?s" using round_half_even_err pos by (intro mult_right_mono) auto
  also have "\<dots> = (2 ^ b / 2 ^ 64) / 2 ^ 53" by simp
  also have "\<dots> \<le> q / 2 ^ 53" using le by (intro divide_right_mono) auto
  finally show ?thesis .
qed

lemma fl64_of_int:
  assumes "0 \<le> n" "n < 2 ^ 53"
  shows "fl64 (of_int n) = of_int n"
proof (cases "n = 0")
  case True
  then show ?thesis by (simp add: fl64_def)
next
  case False
  then have "1 \<le> n" using assms by simp
  then have "(1 :: rat) \<le> of_int n" by simp
  then have "1 / 2 ^ 64 \<le> (of_int n :: rat)" by (rule order_trans [rotated]) simp
  then obtain b :: nat where fl: "fl64 (of_int n) =
      of_int (round_half_even (of_int n / (2 ^ b / 2 ^ 116))) * (2 ^ b / 2 ^ 116)"
    and le: "2 ^ b / 2 ^ 64 \<le> (of_int n :: rat)" by (rule fl64_scale)
  have "(of_int n :: rat) < 2 ^ 53" using assms(2) by (metis of_int_less_iff of_int_numeral of_int_power)
  then have "(2 :: rat) ^ b / 2 ^ 64 < 2 ^ 53" using le by linarith
  then have "(2 :: rat) ^ b < 2 ^ 117" by (simp add: divide_less_eq)
  then have "b < 117" by (rule power_less_imp_less_exp [rotated]) simp
  then obtain c where c: "116 = b + c" using le_Suc_ex [of b 116] by auto
  have "(of_int n :: rat) / (2 ^ b / 2 ^ 116) = of_int (n * 2 ^ c)" unfolding c power_add by simp
  then show ?thesis unfolding fl by (simp only: round_half_even_int) (simp add: c power_add)
qed

lemma duration_in_bounds:
  assumes "0 \<le> d" "0 < unit" "unit \<le> 2 ^ 42" "d div unit < 720"
  shows "d mod unit = 0 \<and> duration_in unit d = of_int (d div unit) \<or>
    of_int (d div unit) + 1 / 2 ^ 43 \<le> duration_in unit d \<and>
    duration_in unit d \<le> of_int (d div unit) + 1 - 1 / 2 ^ 43"
proof (cases "d mod unit = 0")
  case True
  have "fl64 (of_int (d div unit)) = of_int (d div unit)"
    using assms by (intro fl64_of_int) (auto simp: pos_imp_zdiv_nonneg_iff)
  then show ?thesis using True by (simp add: duration_in_def fl64_def [of 0])
next
  case False
  define n y where "n = (of_int (d div unit) :: rat)" and "y = (of_int (d mod unit) / of_int unit :: rat)"
  have r: "1 \<le> d mod unit" "d mod unit \<le> unit - 1"
    using False assms(2) pos_mod_sign [of unit d] pos_mod_bound [of unit d] by linarith+
  have u: "(0 :: rat) < of_int unit" "(of_int unit :: rat) \<le> 2 ^ 42"
    using assms(2,3) by (simp, metis of_int_le_iff of_int_numeral of_int_power)
  have inv: "1 / 2 ^ 42 \<le> (1 / of_int unit :: rat)" using u by (intro divide_left_mono) auto
  have "(1 :: rat) \<le> of_int (d mod unit)" "(of_int (d mod unit) :: rat) \<le> of_int unit - 1"
    using r by (simp, metis of_int_1 of_int_diff of_int_le_iff)
  then have "1 / of_int unit \<le> y" "y \<le> (of_int unit - 1) / of_int unit"
    unfolding y_def using u by (auto intro: divide_right_mono)
  moreover have "(of_int unit - 1) / of_int unit = (1 - 1 / of_int unit :: rat)"
    using u by (simp add: diff_divide_distrib)
  ultimately have y: "1 / 2 ^ 42 \<le> y" "y \<le> 1 - 1 / 2 ^ 42" using inv by linarith+
  have "(0 :: int) \<le> d div unit" using assms by (simp add: pos_imp_zdiv_nonneg_iff)
  then have n: "0 \<le> n" "n \<le> 719" using assms(4) unfolding n_def by linarith+
  have "\<bar>fl64 y - y\<bar> \<le> y / 2 ^ 53" using y by (intro fl64_err) simp
  then have fy: "fl64 y \<le> y + y / 2 ^ 53" "y - y / 2 ^ 53 \<le> fl64 y" by linarith+
  define x where "x = n + fl64 y"
  have x: "n + 1 / 2 ^ 42 - 1 / 2 ^ 53 \<le> x" "x \<le> n + 1 - 1 / 2 ^ 42 + 1 / 2 ^ 53"
    using fy y unfolding x_def by simp_all
  then have "\<bar>fl64 x - x\<bar> \<le> x / 2 ^ 53" using n by (intro fl64_err) simp
  then have "fl64 x \<le> x + x / 2 ^ 53" "x - x / 2 ^ 53 \<le> fl64 x" by linarith+
  then have "n + 1 / 2 ^ 43 \<le> fl64 x" "fl64 x \<le> n + 1 - 1 / 2 ^ 43"
    using x n by simp_all
  then show ?thesis unfolding duration_in_def x_def n_def y_def by blast
qed

lemma floor_duration_in:
  assumes "0 \<le> d" "0 < unit" "unit \<le> 2 ^ 42" "d div unit < 720"
  shows "\<lfloor>duration_in unit d\<rfloor> = d div unit"
  using duration_in_bounds [OF assms] by (intro floor_unique) auto

lemma floor_days:
  assumes "0 \<le> d" "d < 720 * nsHour"
  shows "\<lfloor>fl64 (duration_in nsHour d / 24)\<rfloor> = d div (24 * nsHour)"
proof -
  define n h where "n = d div nsHour" and "h = duration_in nsHour d"
  have n: "0 \<le> n" "n < 720" using assms by (auto simp: n_def nsHour_def)
  define k where "k = n div 24"
  have k: "24 * k \<le> n" "n \<le> 24 * k + 23" "0 \<le> k" "k < 30" using n by (auto simp: k_def)
  have K: "(24 * of_int k :: rat) \<le> of_int n" "(of_int n :: rat) \<le> 24 * of_int k + 23" "(0 :: rat) \<le> of_int k" "(of_int k :: rat) \<le> 29"
    using k by linarith+
  have "h = of_int n \<or> of_int n + 1 / 2 ^ 43 \<le> h \<and> h \<le> of_int n + 1 - 1 / 2 ^ 43"
    using duration_in_bounds [of d nsHour] assms n unfolding h_def n_def by (auto simp: nsHour_def)
  then have "\<lfloor>fl64 (h / 24)\<rfloor> = k"
  proof (cases "h = 24 * of_int k")
    case True
    then have "fl64 (h / 24) = of_int k" using k by (simp add: fl64_of_int)
    then show ?thesis by simp
  next
    case False
    assume "h = of_int n \<or> of_int n + 1 / 2 ^ 43 \<le> h \<and> h \<le> of_int n + 1 - 1 / 2 ^ 43"
    moreover have "n = 24 * k \<or> 24 * k + 1 \<le> n" using k by linarith
    then have "n = 24 * k \<or> (24 * of_int k + 1 :: rat) \<le> of_int n" by linarith
    ultimately have h: "24 * of_int k + 1 / 2 ^ 43 \<le> h" "h \<le> 24 * of_int k + 24 - 1 / 2 ^ 43"
      using False K by auto
    have "\<bar>fl64 (h / 24) - h / 24\<bar> \<le> h / 24 / 2 ^ 53" using h K by (intro fl64_err) simp
    then have "fl64 (h / 24) \<le> h / 24 + h / 24 / 2 ^ 53" "h / 24 - h / 24 / 2 ^ 53 \<le> fl64 (h / 24)" by linarith+
    then have "of_int k \<le> fl64 (h / 24)" "fl64 (h / 24) < of_int k + 1" using h K by simp_all
    then show ?thesis by (rule floor_unique)
  qed
  moreover have "k = d div (24 * nsHour)" by (simp add: k_def n_def zdiv_zmult2_eq mult.commute nsHour_def)
  ultimately show ?thesis by (simp add: h_def)
qed

section \<open>Claims\<close>

text \<open>C37: Reading columns.  A path of one of the three documented shapes is read as documented: a
  field, a field of the first condition of a type, or the joined elements of an array; and
  the paths of all registered columns, kind by kind, have these shapes, so no table prints
  \<^verbatim>\<open><unsupported>\<close> for them.\<close>
theorem column_paths_read:
  assumes "i < length keleustesKinds" and "j < length (resolvedKind_Columns (keleustesKinds ! i))"
  shows "extractColumn ul obj (column_JSONPath (resolvedKind_Columns (keleustesKinds ! i) ! j)) =
      read_path ul obj (registered_paths ! i ! j) \<and>
    (wf_path cp \<longrightarrow> extractColumn ul obj (print_path cp) = read_path ul obj cp)"
proof -
  have "length registered_paths = length keleustesKinds"
    by (metis registered_columns(1) length_map)
  then have i: "i < length registered_paths" using assms(1) by simp
  have row: "map column_JSONPath (resolvedKind_Columns (keleustesKinds ! i)) = map print_path (registered_paths ! i)"
    using arg_cong [OF registered_columns(1), of "\<lambda>xs. xs ! i"] assms(1) i by simp
  then have j: "j < length (registered_paths ! i)" using assms(2) by (metis length_map)
  have "column_JSONPath (resolvedKind_Columns (keleustesKinds ! i) ! j) = print_path (registered_paths ! i ! j)"
    using arg_cong [OF row, of "\<lambda>xs. xs ! j"] assms(2) j by simp
  moreover have "wf_path (registered_paths ! i ! j)"
    using registered_columns(2) i j by (simp add: list_all_length)
  ultimately show ?thesis by (simp add: extract_print_path)
qed

theorem column_paths_read_witness:
  "\<forall>ul obj. extractColumn ul obj (column_JSONPath (resolvedKind_Columns (keleustesKinds ! 2) ! 1)) =
     read_path ul obj (ArrayPath [''spec'', ''artifacts''] [''type''])"
proof -
  have "2 < length keleustesKinds" "1 < length (resolvedKind_Columns (keleustesKinds ! 2))"
    "registered_paths ! 2 ! 1 = ArrayPath [''spec'', ''artifacts''] [''type'']"
    by (simp_all add: keleustesKinds_def registered_paths_def)
  then show ?thesis using column_paths_read [of 2 1] by simp
qed

text \<open>C38: Ages.  An unset timestamp (the zero time) shows as unknown whatever the clock says, and
  one in the future, however far, as zero seconds.  In spite of the floating-point division, the
  age column is exact for every other timestamp less than thirty days old: it shows the number of
  whole seconds, minutes, hours or days, in the largest of these units that is not zero.\<close>
theorem age_column_exact:
  "formatAge now 0 = ''<unknown>''
   \<and> (t \<noteq> 0 \<and> now - t < 720 * nsHour \<longrightarrow> formatAge now t =
       (if now < t then ''0s''
        else if now - t < nsMinute then itoa ((now - t) div nsSecond) @ ''s''
        else if now - t < nsHour then itoa ((now - t) div nsMinute) @ ''m''
        else if now - t < 24 * nsHour then itoa ((now - t) div nsHour) @ ''h''
        else itoa ((now - t) div (24 * nsHour)) @ ''d''))"
proof (intro conjI impI, goal_cases)
  case 1
  show ?case by (simp add: formatAge_def)
next
  case 2
  have past: "\<lfloor>duration_in unit d\<rfloor> = d div unit"
    if "0 \<le> d" "d < 60 * unit" "unit = nsSecond \<or> unit = nsMinute \<or> unit = nsHour" for unit d
  proof -
    have u: "0 < unit" "unit \<le> 2 ^ 42" using that(3) by (auto simp: nsSecond_def nsMinute_def nsHour_def)
    have "d div unit * unit \<le> d" using pos_mod_sign [OF u(1), of d] div_mult_mod_eq [of d unit] by linarith
    then have "d div unit * unit < 60 * unit" using that(2) by linarith
    then have "d div unit < 60" using u(1) by (simp only: mult_less_cancel_right_pos)
    then show ?thesis using u that(1) by (intro floor_duration_in) auto
  qed
  show ?case
  proof (cases "now < t")
    case True
    then have "time_since now t < 0" by (simp add: time_since_def)
    then show ?thesis using 2 True by (simp add: formatAge_def age_label_def)
  next
    case False
    then have since: "time_since now t = now - t" using 2 by (simp add: time_since_def nsHour_def)
    show ?thesis
      unfolding formatAge_def age_label_def since
      using 2 False floor_days [of "now - t"] past [of "now - t" nsSecond] past [of "now - t" nsMinute]
        past [of "now - t" nsHour]
      by (auto simp: nsSecond_def nsMinute_def nsHour_def)
  qed
qed

theorem age_column_exact_witness:
  "formatAge (7 + 3 * 24 * nsHour) 8 = itoa 2 @ ''d'' \<and> formatAge 63902822400000000000 0 = ''<unknown>''"
  using age_column_exact [of "7 + 3 * 24 * nsHour" 8] age_column_exact [of 63902822400000000000]
  by (simp add: nsHour_def nsMinute_def)

end
