(* ===== verification/Openapi_Types.thy ===== *)
theory Openapi_Types
  imports Json_Values
begin

text \<open>
  The wire types of the read API, from \<^verbatim>\<open>internal/api/openapi/keleustes.gen.go\<close> (the
  models and parameter objects of the contract), with the prefix \<open>oa_\<close> because several
  share their name with a custom resource.  A pointer field is an option, an anonymous
  struct is a record of its own (\<open>AuditResult\<close>, \<open>DiffSummary\<close>, and the three that
  \<^verbatim>\<open>crdsource/map.go\<close> names: \<open>EnvCell\<close>, \<open>MatrixColumn\<close>, \<open>ProvenanceFields\<close>), and
  each string enumeration comes with its \<^verbatim>\<open>Valid\<close> method.
\<close>

type_synonym oa_ApprovalDecision = string

abbreviation oa_ApprovalDecisionApprove :: string where "oa_ApprovalDecisionApprove \<equiv> ''approve''"
abbreviation oa_ApprovalDecisionPending :: string where "oa_ApprovalDecisionPending \<equiv> ''pending''"
abbreviation oa_ApprovalDecisionReject :: string where "oa_ApprovalDecisionReject \<equiv> ''reject''"

definition oa_ApprovalDecision_values :: "string list" where
  "oa_ApprovalDecision_values = [oa_ApprovalDecisionApprove, oa_ApprovalDecisionPending, oa_ApprovalDecisionReject]"

definition oa_ApprovalDecision_Valid :: "oa_ApprovalDecision \<Rightarrow> bool" where
  "oa_ApprovalDecision_Valid e \<longleftrightarrow>
     (if e = oa_ApprovalDecisionApprove then True
      else if e = oa_ApprovalDecisionPending then True
      else if e = oa_ApprovalDecisionReject then True
      else False)"

type_synonym oa_DiffEntryChange = string

abbreviation oa_Added :: string where "oa_Added \<equiv> ''added''"
abbreviation oa_Changed :: string where "oa_Changed \<equiv> ''changed''"
abbreviation oa_Removed :: string where "oa_Removed \<equiv> ''removed''"
abbreviation oa_Unchanged :: string where "oa_Unchanged \<equiv> ''unchanged''"

definition oa_DiffEntryChange_values :: "string list" where
  "oa_DiffEntryChange_values = [oa_Added, oa_Changed, oa_Removed, oa_Unchanged]"

definition oa_DiffEntryChange_Valid :: "oa_DiffEntryChange \<Rightarrow> bool" where
  "oa_DiffEntryChange_Valid e \<longleftrightarrow>
     (if e = oa_Added then True
      else if e = oa_Changed then True
      else if e = oa_Removed then True
      else if e = oa_Unchanged then True
      else False)"

type_synonym oa_Status = string

abbreviation oa_StatusBlocked :: string where "oa_StatusBlocked \<equiv> ''Blocked''"
abbreviation oa_StatusDegraded :: string where "oa_StatusDegraded \<equiv> ''Degraded''"
abbreviation oa_StatusDrifted :: string where "oa_StatusDrifted \<equiv> ''Drifted''"
abbreviation oa_StatusFailed :: string where "oa_StatusFailed \<equiv> ''Failed''"
abbreviation oa_StatusFrozen :: string where "oa_StatusFrozen \<equiv> ''Frozen''"
abbreviation oa_StatusHealthy :: string where "oa_StatusHealthy \<equiv> ''Healthy''"
abbreviation oa_StatusMissing :: string where "oa_StatusMissing \<equiv> ''Missing''"
abbreviation oa_StatusProgressing :: string where "oa_StatusProgressing \<equiv> ''Progressing''"

definition oa_Status_values :: "string list" where
  "oa_Status_values = [oa_StatusBlocked, oa_StatusDegraded, oa_StatusDrifted, oa_StatusFailed, oa_StatusFrozen, oa_StatusHealthy, oa_StatusMissing, oa_StatusProgressing]"

definition oa_Status_Valid :: "oa_Status \<Rightarrow> bool" where
  "oa_Status_Valid e \<longleftrightarrow>
     (if e = oa_StatusBlocked then True
      else if e = oa_StatusDegraded then True
      else if e = oa_StatusDrifted then True
      else if e = oa_StatusFailed then True
      else if e = oa_StatusFrozen then True
      else if e = oa_StatusHealthy then True
      else if e = oa_StatusMissing then True
      else if e = oa_StatusProgressing then True
      else False)"

type_synonym oa_SyncPhase = string

abbreviation oa_SyncPhaseError :: string where "oa_SyncPhaseError \<equiv> ''Error''"
abbreviation oa_SyncPhaseFailed :: string where "oa_SyncPhaseFailed \<equiv> ''Failed''"
abbreviation oa_SyncPhasePending :: string where "oa_SyncPhasePending \<equiv> ''Pending''"
abbreviation oa_SyncPhaseRunning :: string where "oa_SyncPhaseRunning \<equiv> ''Running''"
abbreviation oa_SyncPhaseSucceeded :: string where "oa_SyncPhaseSucceeded \<equiv> ''Succeeded''"

definition oa_SyncPhase_values :: "string list" where
  "oa_SyncPhase_values = [oa_SyncPhaseError, oa_SyncPhaseFailed, oa_SyncPhasePending, oa_SyncPhaseRunning, oa_SyncPhaseSucceeded]"

definition oa_SyncPhase_Valid :: "oa_SyncPhase \<Rightarrow> bool" where
  "oa_SyncPhase_Valid e \<longleftrightarrow>
     (if e = oa_SyncPhaseError then True
      else if e = oa_SyncPhaseFailed then True
      else if e = oa_SyncPhasePending then True
      else if e = oa_SyncPhaseRunning then True
      else if e = oa_SyncPhaseSucceeded then True
      else False)"

type_synonym oa_GetDiffParamsMode = string

abbreviation oa_EnvEnv :: string where "oa_EnvEnv \<equiv> ''env-env''"
abbreviation oa_GitLive :: string where "oa_GitLive \<equiv> ''git-live''"
abbreviation oa_Policy :: string where "oa_Policy \<equiv> ''policy''"
abbreviation oa_ReleaseRelease :: string where "oa_ReleaseRelease \<equiv> ''release-release''"
abbreviation oa_Rendered :: string where "oa_Rendered \<equiv> ''rendered''"

definition oa_GetDiffParamsMode_values :: "string list" where
  "oa_GetDiffParamsMode_values = [oa_EnvEnv, oa_GitLive, oa_Policy, oa_ReleaseRelease, oa_Rendered]"

definition oa_GetDiffParamsMode_Valid :: "oa_GetDiffParamsMode \<Rightarrow> bool" where
  "oa_GetDiffParamsMode_Valid e \<longleftrightarrow>
     (if e = oa_EnvEnv then True
      else if e = oa_GitLive then True
      else if e = oa_Policy then True
      else if e = oa_ReleaseRelease then True
      else if e = oa_Rendered then True
      else False)"

type_synonym oa_GetPromotionsParamsState = string

abbreviation oa_GetPromotionsParamsStateActive :: string where "oa_GetPromotionsParamsStateActive \<equiv> ''active''"
abbreviation oa_GetPromotionsParamsStateBlocked :: string where "oa_GetPromotionsParamsStateBlocked \<equiv> ''blocked''"
abbreviation oa_GetPromotionsParamsStateHistory :: string where "oa_GetPromotionsParamsStateHistory \<equiv> ''history''"
abbreviation oa_GetPromotionsParamsStateMine :: string where "oa_GetPromotionsParamsStateMine \<equiv> ''mine''"

definition oa_GetPromotionsParamsState_values :: "string list" where
  "oa_GetPromotionsParamsState_values = [oa_GetPromotionsParamsStateActive, oa_GetPromotionsParamsStateBlocked, oa_GetPromotionsParamsStateHistory, oa_GetPromotionsParamsStateMine]"

definition oa_GetPromotionsParamsState_Valid :: "oa_GetPromotionsParamsState \<Rightarrow> bool" where
  "oa_GetPromotionsParamsState_Valid e \<longleftrightarrow>
     (if e = oa_GetPromotionsParamsStateActive then True
      else if e = oa_GetPromotionsParamsStateBlocked then True
      else if e = oa_GetPromotionsParamsStateHistory then True
      else if e = oa_GetPromotionsParamsStateMine then True
      else False)"

type_synonym oa_PostPromotionsIDApproveJSONBodyDecision = string

abbreviation oa_Approve :: string where "oa_Approve \<equiv> ''approve''"
abbreviation oa_Reject :: string where "oa_Reject \<equiv> ''reject''"

definition oa_PostPromotionsIDApproveJSONBodyDecision_values :: "string list" where
  "oa_PostPromotionsIDApproveJSONBodyDecision_values = [oa_Approve, oa_Reject]"

definition oa_PostPromotionsIDApproveJSONBodyDecision_Valid :: "oa_PostPromotionsIDApproveJSONBodyDecision \<Rightarrow> bool" where
  "oa_PostPromotionsIDApproveJSONBodyDecision_Valid e \<longleftrightarrow>
     (if e = oa_Approve then True
      else if e = oa_Reject then True
      else False)"

record oa_SourceRef =
  oa_SourceRef_Commit :: "string option"
  oa_SourceRef_Path :: "string option"
  oa_SourceRef_Ref :: "string option"
  oa_SourceRef_Repo :: "string option"

record oa_Application =
  oa_Application_AddonRefs :: "string list option"
  oa_Application_Name :: string
  oa_Application_Owner :: "string option"
  oa_Application_Project :: "string option"
  oa_Application_Source :: "oa_SourceRef option"
  oa_Application_Status :: oa_Status
  oa_Application_Ulid :: string

record oa_Approval =
  oa_Approval_Approver :: "string option"
  oa_Approval_At :: "time option"
  oa_Approval_Comment :: "string option"
  oa_Approval_Decision :: "oa_ApprovalDecision option"

record oa_AuditResult =
  oa_AuditResult_After :: json
  oa_AuditResult_Before :: json

record oa_AuditEvent =
  oa_AuditEvent_Actor :: string
  oa_AuditEvent_At :: time
  oa_AuditEvent_Evidence :: "string list option"
  oa_AuditEvent_Result :: "oa_AuditResult option"
  oa_AuditEvent_Target :: string
  oa_AuditEvent_Ulid :: string
  oa_AuditEvent_Verb :: string

record oa_DeploymentTarget =
  oa_DeploymentTarget_Cell :: "string option"
  oa_DeploymentTarget_Cluster :: "string option"
  oa_DeploymentTarget_Drift :: "bool option"
  oa_DeploymentTarget_Env :: "string option"
  oa_DeploymentTarget_Frozen :: "bool option"
  oa_DeploymentTarget_LastSync :: "time option"
  oa_DeploymentTarget_Name :: string
  oa_DeploymentTarget_Region :: "string option"
  oa_DeploymentTarget_Status :: oa_Status
  oa_DeploymentTarget_Ulid :: "string option"
  oa_DeploymentTarget_Version :: "string option"

record oa_DiffEntry =
  oa_DiffEntry_Change :: oa_DiffEntryChange
  oa_DiffEntry_Drift :: "bool option"
  oa_DiffEntry_Object :: string
  oa_DiffEntry_Patch :: "string option"

record oa_DiffSummary =
  oa_DiffSummary_Added :: "int option"
  oa_DiffSummary_Changed :: "int option"
  oa_DiffSummary_Removed :: "int option"

record oa_Diff =
  oa_Diff_Entries :: "oa_DiffEntry list"
  oa_Diff_Left :: "string option"
  oa_Diff_Mode :: string
  oa_Diff_Right :: "string option"
  oa_Diff_Summary :: "oa_DiffSummary option"

record oa_EnvCell =
  oa_EnvCell_Name :: "string option"
  oa_EnvCell_Region :: "string option"
  oa_EnvCell_Status :: "oa_Status option"
  oa_EnvCell_Targets :: "oa_DeploymentTarget list option"

record oa_FreezeWindow =
  oa_FreezeWindow_Active :: "bool option"
  oa_FreezeWindow_End :: "time option"
  oa_FreezeWindow_Reason :: "string option"
  oa_FreezeWindow_Scope :: "string option"
  oa_FreezeWindow_Start :: "time option"

record oa_Environment =
  oa_Environment_Cells :: "oa_EnvCell list option"
  oa_Environment_Freeze :: "oa_FreezeWindow option"
  oa_Environment_Name :: string
  oa_Environment_Regions :: "string list option"

record oa_Gate =
  oa_Gate_Detail :: "string option"
  oa_Gate_Name :: string
  oa_Gate_Passed :: bool

record oa_HealthCheck =
  oa_HealthCheck_LastProbe :: "time option"
  oa_HealthCheck_Message :: "string option"
  oa_HealthCheck_Resource :: string
  oa_HealthCheck_Status :: oa_Status

record oa_MatrixColumn =
  oa_MatrixColumn_Env :: "string option"
  oa_MatrixColumn_Lagging :: "bool option"
  oa_MatrixColumn_Region :: "string option"

record oa_MatrixCell =
  oa_MatrixCell_Drift :: "bool option"
  oa_MatrixCell_Env :: "string option"
  oa_MatrixCell_LastSync :: "time option"
  oa_MatrixCell_Region :: "string option"
  oa_MatrixCell_Status :: oa_Status
  oa_MatrixCell_TargetRef :: "string option"
  oa_MatrixCell_Version :: "string option"

record oa_MatrixRow =
  oa_MatrixRow_Application :: string
  oa_MatrixRow_Cells :: "oa_MatrixCell list"
  oa_MatrixRow_Ulid :: "string option"

record oa_Matrix =
  oa_Matrix_AsOf :: time
  oa_Matrix_Columns :: "oa_MatrixColumn list"
  oa_Matrix_Rows :: "oa_MatrixRow list"

record oa_ProblemError =
  oa_ProblemError_Detail :: string
  oa_ProblemError_Pointer :: "string option"

record oa_Problem =
  oa_Problem_AsOf :: "time option"
  oa_Problem_Detail :: "string option"
  oa_Problem_Errors :: "oa_ProblemError list option"
  oa_Problem_Instance :: "string option"
  oa_Problem_Region :: "string option"
  oa_Problem_Resource :: "string option"
  oa_Problem_Status :: int
  oa_Problem_Title :: string
  oa_Problem_Type :: string
  oa_Problem_Verb :: "string option"

record oa_Promotion =
  oa_Promotion_Application :: string
  oa_Promotion_Approvals :: "oa_Approval list option"
  oa_Promotion_From :: string
  oa_Promotion_Gates :: "oa_Gate list option"
  oa_Promotion_Mode :: "string option"
  oa_Promotion_PrURL :: "string option"
  oa_Promotion_Release :: "string option"
  oa_Promotion_RequestedAt :: "time option"
  oa_Promotion_RequestedBy :: "string option"
  oa_Promotion_Status :: oa_Status
  oa_Promotion_Sync :: "oa_SyncPhase option"
  oa_Promotion_To :: string
  oa_Promotion_Ulid :: string

record oa_PromotionRequest =
  oa_PromotionRequest_Application :: string
  oa_PromotionRequest_From :: string
  oa_PromotionRequest_Release :: "string option"
  oa_PromotionRequest_To :: string

record oa_ProvenanceFields =
  oa_ProvenanceFields_Attestation :: "bool option"
  oa_ProvenanceFields_Sbom :: "bool option"
  oa_ProvenanceFields_Signed :: "bool option"

record oa_Release =
  oa_Release_App :: string
  oa_Release_Created :: "time option"
  oa_Release_DeployedOn :: "string list option"
  oa_Release_Provenance :: "oa_ProvenanceFields option"
  oa_Release_Source :: "oa_SourceRef option"
  oa_Release_Ulid :: "string option"
  oa_Release_Version :: string

record oa_GetApplicationsParams =
  oa_GetApplicationsParams_Project :: "string option"
  oa_GetApplicationsParams_Env :: "string option"
  oa_GetApplicationsParams_Region :: "string option"
  oa_GetApplicationsParams_Q :: "string option"

record oa_GetAuditParams =
  oa_GetAuditParams_Resource :: "string option"
  oa_GetAuditParams_Actor :: "string option"
  oa_GetAuditParams_Verb :: "string option"
  oa_GetAuditParams_From :: "time option"
  oa_GetAuditParams_To :: "time option"
  oa_GetAuditParams_Limit :: "int option"

record oa_GetDiffParams =
  oa_GetDiffParams_Mode :: oa_GetDiffParamsMode
  oa_GetDiffParams_Left :: "string option"
  oa_GetDiffParams_Right :: "string option"

record oa_GetPromotionsParams =
  oa_GetPromotionsParams_State :: "oa_GetPromotionsParamsState option"

record oa_PostPromotionsParams =
  oa_PostPromotionsParams_IdempotencyKey :: "string option"

record oa_PostPromotionsIDApproveJSONBody =
  oa_PostPromotionsIDApproveJSONBody_Comment :: "string option"
  oa_PostPromotionsIDApproveJSONBody_Decision :: oa_PostPromotionsIDApproveJSONBodyDecision

record oa_PostPromotionsIDApproveParams =
  oa_PostPromotionsIDApproveParams_IdempotencyKey :: "string option"

record oa_PostPromotionsIDCancelParams =
  oa_PostPromotionsIDCancelParams_IdempotencyKey :: "string option"

record oa_PostPromotionsIDRetryParams =
  oa_PostPromotionsIDRetryParams_IdempotencyKey :: "string option"

record oa_GetReleasesParams =
  oa_GetReleasesParams_Project :: "string option"

end
