(* ===== verification/Read_Model.thy ===== *)
theory Read_Model
  imports Openapi_Types Go_Errors "HOL-Library.Sublist"
begin

text \<open>
  The port of \<^verbatim>\<open>internal/api/readmodel/port.go\<close>: its query and page types, the interface
  as a record of operations, and the contract its adapters share as the locale
  \<open>read_model\<close>, with the facts the API server relies on proved once inside it.  The
  theories \<open>Crd_Source\<close> and \<open>Fixtures\<close> interpret it.
\<close>

section \<open>Queries and pages\<close>

record ApplicationFilter =
  ApplicationFilter_Project :: string
  ApplicationFilter_Env :: string
  ApplicationFilter_Region :: string
  ApplicationFilter_Q :: string

record DiffQuery =
  DiffQuery_Mode :: string
  DiffQuery_Left :: string
  DiffQuery_Right :: string

record AuditQuery =
  AuditQuery_Resource :: string
  AuditQuery_Actor :: string
  AuditQuery_Verb :: string
  AuditQuery_From :: "time option"
  AuditQuery_To :: "time option"
  AuditQuery_Limit :: int

record ApplicationsPage =
  ApplicationsPage_Items :: "oa_Application list"
  ApplicationsPage_AsOf :: time

record AuditPage =
  AuditPage_Items :: "oa_AuditEvent list"
  AuditPage_NextCursor :: string

section \<open>The interface\<close>

text \<open>
  One snapshot of a backend: the Go interface, a method per field.  Every method only
  reads.
\<close>

record ReadModel =
  rm_ListApplications :: "ApplicationFilter \<Rightarrow> (goerr, ApplicationsPage) result"
  rm_GetApplication :: "string \<Rightarrow> (goerr, oa_Application) result"
  rm_GetMatrix :: "string \<Rightarrow> (goerr, oa_Matrix) result"
  rm_ListApplicationReleases :: "string \<Rightarrow> (goerr, oa_Release list) result"
  rm_ListApplicationPromotions :: "string \<Rightarrow> (goerr, oa_Promotion list) result"
  rm_ListPromotions :: "string \<Rightarrow> (goerr, oa_Promotion list) result"
  rm_GetPromotion :: "string \<Rightarrow> (goerr, oa_Promotion) result"
  rm_ListReleases :: "string \<Rightarrow> (goerr, oa_Release list) result"
  rm_ListTargets :: "(goerr, oa_DeploymentTarget list) result"
  rm_GetTargetHealth :: "string \<Rightarrow> (goerr, oa_HealthCheck list) result"
  rm_GetTargetDrift :: "string \<Rightarrow> (goerr, oa_Diff) result"
  rm_ListEnvironments :: "(goerr, oa_Environment list) result"
  rm_GetDiff :: "DiffQuery \<Rightarrow> (goerr, oa_Diff) result"
  rm_QueryAudit :: "AuditQuery \<Rightarrow> (goerr, AuditPage) result"

definition no_filter :: ApplicationFilter where
  "no_filter = \<lparr>ApplicationFilter_Project = [], ApplicationFilter_Env = [], ApplicationFilter_Region = [],
     ApplicationFilter_Q = []\<rparr>"

lemma subseq_set: "subseq xs ys \<Longrightarrow> x \<in> set xs \<Longrightarrow> x \<in> set ys"
  by (metis in_set_nthsD subseq_conv_nths)

section \<open>The contract\<close>

text \<open>
  What every adapter keeps.  A list that can be read decides what the lookups of the same
  snapshot answer: the item is there and found, or it is not and the error is
  \<^const>\<open>ErrNotFound\<close>.  Narrowed lists keep the order of the full ones.
\<close>

locale read_model =
  fixes rm :: ReadModel
  assumes application_lookup: "rm_ListApplications rm no_filter = Inr page \<Longrightarrow>
      (case rm_GetApplication rm name of
         Inr a \<Rightarrow> oa_Application_Name a = name \<and> a \<in> set (ApplicationsPage_Items page)
       | Inl err \<Rightarrow> err = ErrNotFound \<and> name \<notin> oa_Application_Name ` set (ApplicationsPage_Items page))"
    and application_filter: "rm_ListApplications rm no_filter = Inr page \<Longrightarrow>
      \<exists>page'. rm_ListApplications rm f = Inr page' \<and>
        subseq (ApplicationsPage_Items page') (ApplicationsPage_Items page)"
    and matrix_row: "name \<noteq> ''all'' \<Longrightarrow> rm_GetMatrix rm name = Inr m \<Longrightarrow>
      \<exists>row. oa_Matrix_Rows m = [row] \<and> oa_MatrixRow_Application row = name"
    and matrix_all: "name \<noteq> ''all'' \<Longrightarrow> rm_GetMatrix rm ''all'' = Inr all \<Longrightarrow>
      (case rm_GetMatrix rm name of
         Inr m \<Rightarrow> oa_Matrix_Columns m = oa_Matrix_Columns all \<and> set (oa_Matrix_Rows m) \<subseteq> set (oa_Matrix_Rows all)
       | Inl err \<Rightarrow> err = ErrNotFound \<and> name \<notin> oa_MatrixRow_Application ` set (oa_Matrix_Rows all))"
    and application_releases: "rm_ListReleases rm [] = Inr rs \<Longrightarrow>
      rm_ListApplicationReleases rm name = Inr (filter (\<lambda>r. oa_Release_App r = name) rs)"
    and application_promotions: "rm_ListPromotions rm [] = Inr ps \<Longrightarrow>
      rm_ListApplicationPromotions rm name = Inr (filter (\<lambda>p. oa_Promotion_Application p = name) ps)"
    and promotion_filter: "rm_ListPromotions rm [] = Inr ps \<Longrightarrow>
      \<exists>ps'. rm_ListPromotions rm state = Inr ps' \<and> subseq ps' ps"
    and promotions_mine: "rm_ListPromotions rm ''mine'' = rm_ListPromotions rm []"
    and promotion_lookup: "rm_ListPromotions rm [] = Inr ps \<Longrightarrow>
      (case rm_GetPromotion rm pid of
         Inr p \<Rightarrow> p \<in> set ps
       | Inl err \<Rightarrow> err = ErrNotFound \<and> (pid = [] \<or> pid \<notin> oa_Promotion_Ulid ` set ps))"
    and release_filter: "rm_ListReleases rm [] = Inr rs \<Longrightarrow>
      \<exists>rs'. rm_ListReleases rm project = Inr rs' \<and> subseq rs' rs"
    and target_drift: "rm_ListTargets rm = Inr ts \<Longrightarrow>
      (case rm_GetTargetDrift rm name of
         Inr d \<Rightarrow> name \<in> oa_DeploymentTarget_Name ` set ts \<and> oa_Diff_Mode d = oa_GitLive
       | Inl err \<Rightarrow> err = ErrNotFound \<and> name \<notin> oa_DeploymentTarget_Name ` set ts)"
    and target_health: "rm_ListTargets rm = Inr ts \<Longrightarrow> name \<notin> oa_DeploymentTarget_Name ` set ts \<Longrightarrow>
      rm_GetTargetHealth rm name = Inl ErrNotFound"
    and diff_echo: "\<exists>d. rm_GetDiff rm q = Inr d \<and>
      oa_Diff_Left d = nonempty_ptr (DiffQuery_Left q) \<and> oa_Diff_Right d = nonempty_ptr (DiffQuery_Right q) \<and>
      (DiffQuery_Mode q \<noteq> [] \<longrightarrow> oa_Diff_Mode d = DiffQuery_Mode q)"
begin

lemma application_found_iff_listed:
  assumes "rm_ListApplications rm no_filter = Inr page"
  shows "is_ok (rm_GetApplication rm name) \<longleftrightarrow> name \<in> oa_Application_Name ` set (ApplicationsPage_Items page)"
    and "isl (rm_GetApplication rm name) \<Longrightarrow> rm_GetApplication rm name = Inl ErrNotFound"
  using application_lookup [OF assms, of name] by (auto split: sum.splits)

lemma filtered_application_found:
  assumes "rm_ListApplications rm no_filter = Inr page" "rm_ListApplications rm f = Inr page'"
    and "a \<in> set (ApplicationsPage_Items page')"
  shows "is_ok (rm_GetApplication rm (oa_Application_Name a))"
proof -
  have "a \<in> set (ApplicationsPage_Items page)"
    using application_filter [OF assms(1), of f] assms(2,3) by (auto dest: subseq_set)
  then show ?thesis using application_found_iff_listed(1) [OF assms(1)] by blast
qed

lemma every_promotion_under_its_application:
  assumes "rm_ListPromotions rm state = Inr ps" "rm_ListPromotions rm [] = Inr all" "p \<in> set ps"
  shows "\<exists>qs. rm_ListApplicationPromotions rm (oa_Promotion_Application p) = Inr qs \<and> p \<in> set qs"
proof -
  have "p \<in> set all"
    using promotion_filter [OF assms(2), of state] assms(1,3) by (auto dest: subseq_set)
  then show ?thesis using application_promotions [OF assms(2)] by simp
qed

lemma promotion_found_by_ulid:
  assumes "rm_ListPromotions rm [] = Inr all" "p \<in> set all" "oa_Promotion_Ulid p \<noteq> []"
  shows "is_ok (rm_GetPromotion rm (oa_Promotion_Ulid p))"
  using promotion_lookup [OF assms(1), of "oa_Promotion_Ulid p"] assms(2,3) by (auto split: sum.splits)

lemma matrix_rows_agree:
  assumes "rm_GetMatrix rm ''all'' = Inr all" "name \<noteq> ''all''" "name \<in> oa_MatrixRow_Application ` set (oa_Matrix_Rows all)"
  shows "\<exists>m row. rm_GetMatrix rm name = Inr m \<and> oa_Matrix_Rows m = [row] \<and> row \<in> set (oa_Matrix_Rows all) \<and>
    oa_MatrixRow_Application row = name \<and> oa_Matrix_Columns m = oa_Matrix_Columns all"
proof (cases "rm_GetMatrix rm name")
  case (Inl e)
  then show ?thesis using matrix_all [OF assms(2,1)] assms(3) by simp
next
  case (Inr m)
  then show ?thesis using matrix_all [OF assms(2,1)] matrix_row [OF assms(2) Inr] by auto
qed

end

text \<open>A lookup loop returns the first match of a list.\<close>

lemma find_Some_set: "find P xs = Some x \<Longrightarrow> x \<in> set xs \<and> P x"
  by (metis find_Some_iff nth_mem)

lemma find_None_set: "find P xs = None \<Longrightarrow> x \<in> set xs \<Longrightarrow> \<not> P x"
  by (metis find_None_iff)

lemma find_None_key: "find (\<lambda>x. f x = k) xs = None \<longleftrightarrow> k \<notin> f ` set xs"
  by (auto simp: find_None_iff)

end
