(* ===== verification/Crd_Source.thy ===== *)
theory Crd_Source
  imports Api_Types Read_Model
begin

text \<open>
  The CRD-backed adapter of the port, \<^verbatim>\<open>internal/api/readmodel/crdsource\<close>: the mapping
  of custom resources to wire types (\<^verbatim>\<open>map.go\<close>) and the operations
  (\<^verbatim>\<open>crdsource.go\<close>).  What the cluster answers to each \<^verbatim>\<open>List\<close> call, the clock, and
  the two functions of the Kubernetes libraries the code calls are arguments.
\<close>

section \<open>Surroundings\<close>

record kube_fns =
  kf_FindStatusCondition :: "Condition list \<Rightarrow> string \<Rightarrow> Condition option"
  kf_IsNotFound :: "goerr \<Rightarrow> bool"

record Cluster =
  Cluster_Applications :: "(goerr, Application list) result"
  Cluster_DeploymentTargets :: "(goerr, DeploymentTarget list) result"
  Cluster_Releases :: "(goerr, Release list) result"
  Cluster_Promotions :: "(goerr, Promotion list) result"
  Cluster_HealthChecks :: "(goerr, HealthCheck list) result"
  Cluster_Environments :: "(goerr, Environment list) result"

section \<open>Mapping\<close>

definition src_conditionAccepted :: string where
  "src_conditionAccepted = ''Accepted''"

definition labelPartOf :: string where
  "labelPartOf = ''app.kubernetes.io/part-of''"

definition annotationULID :: string where
  "annotationULID = ''keleustes.skaphos.io/ulid''"

definition strPtrOrNil :: "string \<Rightarrow> string option" where
  "strPtrOrNil s = (if s = [] then None else Some s)"

definition ulidOf :: "ObjectMeta \<Rightarrow> string" where
  "ulidOf o' = dict_get (ObjectMeta_Annotations o') annotationULID"

definition projectOf :: "ObjectMeta \<Rightarrow> string" where
  "projectOf o' =
     (let v = dict_get (ObjectMeta_Labels o') labelPartOf
      in if v \<noteq> [] then v else ObjectMeta_Namespace o')"

definition contains :: "string list \<Rightarrow> string \<Rightarrow> bool" where
  "contains ss s = list_ex (\<lambda>x. x = s) ss"

definition statusFromConditions :: "kube_fns \<Rightarrow> Condition list \<Rightarrow> oa_Status" where
  "statusFromConditions kf conds =
     (case kf_FindStatusCondition kf conds src_conditionAccepted of
        None \<Rightarrow> oa_StatusMissing
      | Some c \<Rightarrow>
          if Condition_Status c = ConditionTrue then oa_StatusProgressing
          else if Condition_Status c = ConditionFalse then oa_StatusBlocked
          else oa_StatusProgressing)"

definition sourceRefFromManifest :: "ApplicationManifest \<Rightarrow> oa_SourceRef option" where
  "sourceRefFromManifest m =
     (if ApplicationManifest_Repo m = [] \<and> ApplicationManifest_BasePath m = [] then None
      else Some \<lparr>oa_SourceRef_Commit = None,
                 oa_SourceRef_Path = strPtrOrNil (ApplicationManifest_BasePath m),
                 oa_SourceRef_Ref = None,
                 oa_SourceRef_Repo = strPtrOrNil (ApplicationManifest_Repo m)\<rparr>)"

definition applicationToAPI :: "kube_fns \<Rightarrow> Application \<Rightarrow> oa_Application" where
  "applicationToAPI kf a =
     \<lparr>oa_Application_AddonRefs = None,
      oa_Application_Name = ObjectMeta_Name (Application_ObjectMeta a),
      oa_Application_Owner = strPtrOrNil (OwnerInfo_Team (ApplicationSpec_Owner (Application_Spec a))),
      oa_Application_Project = strPtrOrNil (projectOf (Application_ObjectMeta a)),
      oa_Application_Source =
        sourceRefFromManifest (ApplicationDeployment_Manifest (ApplicationSpec_Deployment (Application_Spec a))),
      oa_Application_Status = statusFromConditions kf (ApplicationStatus_Conditions (Application_Status a)),
      oa_Application_Ulid = ulidOf (Application_ObjectMeta a)\<rparr>"

definition releaseVersion :: "Release \<Rightarrow> string" where
  "releaseVersion r =
     (case ReleaseSpec_Artifacts (Release_Spec r) of
        [] \<Rightarrow> ObjectMeta_Name (Release_ObjectMeta r)
      | art # _ \<Rightarrow> if ReleaseArtifact_Version art \<noteq> [] then ReleaseArtifact_Version art
                  else ObjectMeta_Name (Release_ObjectMeta r))"

definition releaseToAPI :: "Release \<Rightarrow> oa_Release" where
  "releaseToAPI r =
     (let out0 = \<lparr>oa_Release_App = ReleaseSpec_Application (Release_Spec r), oa_Release_Created = None,
                  oa_Release_DeployedOn = None, oa_Release_Provenance = None, oa_Release_Source = None,
                  oa_Release_Ulid = strPtrOrNil (ulidOf (Release_ObjectMeta r)),
                  oa_Release_Version = releaseVersion r\<rparr>;
          created = ObjectMeta_CreationTimestamp (Release_ObjectMeta r);
          out1 = (if created \<noteq> 0 then out0\<lparr>oa_Release_Created := Some created\<rparr> else out0);
          c = ReleaseProvenance_Commit (ReleaseSpec_Provenance (Release_Spec r));
          out2 = (if c \<noteq> []
                  then out1\<lparr>oa_Release_Source := Some \<lparr>oa_SourceRef_Commit = strPtrOrNil c,
                         oa_SourceRef_Path = None, oa_SourceRef_Ref = None, oa_SourceRef_Repo = None\<rparr>\<rparr>
                  else out1)
      in if ReleaseProvenance_SBOMRef (ReleaseSpec_Provenance (Release_Spec r)) \<noteq> []
         then out2\<lparr>oa_Release_Provenance := Some \<lparr>oa_ProvenanceFields_Attestation = None,
                oa_ProvenanceFields_Sbom = Some True, oa_ProvenanceFields_Signed = None\<rparr>\<rparr>
         else out2)"

definition targetToAPI :: "kube_fns \<Rightarrow> DeploymentTarget \<Rightarrow> oa_DeploymentTarget" where
  "targetToAPI kf t =
     (let spec = DeploymentTarget_Spec t; status = DeploymentTarget_Status t in
      \<lparr>oa_DeploymentTarget_Cell = strPtrOrNil (DeploymentTargetSpec_Cell spec),
       oa_DeploymentTarget_Cluster =
         strPtrOrNil (DeploymentTargetCluster_Name (DeploymentTargetSpec_Cluster spec)),
       oa_DeploymentTarget_Drift = None,
       oa_DeploymentTarget_Env = strPtrOrNil (DeploymentTargetSpec_Environment spec),
       oa_DeploymentTarget_Frozen = None,
       oa_DeploymentTarget_LastSync =
         (case DeploymentTargetStatus_LastContactedAt status of None \<Rightarrow> None | Some t \<Rightarrow> Some t),
       oa_DeploymentTarget_Name = ObjectMeta_Name (DeploymentTarget_ObjectMeta t),
       oa_DeploymentTarget_Region = strPtrOrNil (DeploymentTargetSpec_Region spec),
       oa_DeploymentTarget_Status = statusFromConditions kf (DeploymentTargetStatus_Conditions status),
       oa_DeploymentTarget_Ulid = strPtrOrNil (ulidOf (DeploymentTarget_ObjectMeta t)),
       oa_DeploymentTarget_Version = None\<rparr>)"

definition promotionStatus :: "PromotionPhase \<Rightarrow> oa_Status" where
  "promotionStatus phase =
     (if phase = PromotionPhaseBlocked then oa_StatusBlocked
      else if phase = PromotionPhaseSucceeded then oa_StatusHealthy
      else if phase = PromotionPhaseFailed then oa_StatusFailed
      else if phase = PromotionPhaseRolledBack \<or> phase = PromotionPhaseCanceled then oa_StatusDegraded
      else oa_StatusProgressing)"

definition promotionToAPI :: "Promotion \<Rightarrow> oa_Promotion" where
  "promotionToAPI p =
     (let spec = Promotion_Spec p; created = ObjectMeta_CreationTimestamp (Promotion_ObjectMeta p) in
      \<lparr>oa_Promotion_Application = PromotionSpec_Application spec,
       oa_Promotion_Approvals = None,
       oa_Promotion_From = PromotionFrom_Environment (PromotionSpec_From spec),
       oa_Promotion_Gates = None,
       oa_Promotion_Mode = strPtrOrNil (PromotionSpec_Mode spec),
       oa_Promotion_PrURL = None,
       oa_Promotion_Release = strPtrOrNil (PromotionSpec_Release spec),
       oa_Promotion_RequestedAt = (if created \<noteq> 0 then Some created else None),
       oa_Promotion_RequestedBy = None,
       oa_Promotion_Status = promotionStatus (PromotionStatus_Phase (Promotion_Status p)),
       oa_Promotion_Sync = None,
       oa_Promotion_To = PromotionTo_Environment (PromotionSpec_To spec),
       oa_Promotion_Ulid = ulidOf (Promotion_ObjectMeta p)\<rparr>)"

definition isTerminalPhase :: "PromotionPhase \<Rightarrow> bool" where
  "isTerminalPhase phase \<longleftrightarrow>
     phase = PromotionPhaseSucceeded \<or> phase = PromotionPhaseFailed \<or>
     phase = PromotionPhaseRolledBack \<or> phase = PromotionPhaseCanceled"

definition promotionMatchesState :: "Promotion \<Rightarrow> string \<Rightarrow> bool" where
  "promotionMatchesState p state =
     (let phase = PromotionStatus_Phase (Promotion_Status p) in
      if state = [] \<or> state = ''mine'' then True
      else if state = ''blocked'' then phase = PromotionPhaseBlocked
      else if state = ''history'' then isTerminalPhase phase
      else if state = ''active'' then \<not> isTerminalPhase phase \<and> phase \<noteq> PromotionPhaseBlocked
      else True)"

definition healthStatus :: "HealthState \<Rightarrow> oa_Status" where
  "healthStatus state =
     (if state = HealthStateHealthy then oa_StatusHealthy
      else if state = HealthStateDegraded then oa_StatusDegraded
      else if state = HealthStateMissing then oa_StatusMissing
      else if state = HealthStateSuspended then oa_StatusFrozen
      else if state = HealthStateProgressing then oa_StatusProgressing
      else oa_StatusProgressing)"

definition healthCheckToAPI :: "HealthCheck \<Rightarrow> oa_HealthCheck" where
  "healthCheckToAPI h =
     (let app = HealthCheckSpec_Application (HealthCheck_Spec h);
          resource = (if app = [] then ObjectMeta_Name (HealthCheck_ObjectMeta h) else app)
      in \<lparr>oa_HealthCheck_LastProbe = None,
          oa_HealthCheck_Message = strPtrOrNil (HealthCheckStatus_Summary (HealthCheck_Status h)),
          oa_HealthCheck_Resource = resource,
          oa_HealthCheck_Status = healthStatus (HealthCheckStatus_State (HealthCheck_Status h))\<rparr>)"

section \<open>Groups, columns and rows\<close>

abbreviation target_env :: "DeploymentTarget \<Rightarrow> string" where
  "target_env t \<equiv> DeploymentTargetSpec_Environment (DeploymentTarget_Spec t)"
abbreviation target_region :: "DeploymentTarget \<Rightarrow> string" where
  "target_region t \<equiv> DeploymentTargetSpec_Region (DeploymentTarget_Spec t)"
abbreviation target_cell :: "DeploymentTarget \<Rightarrow> string" where
  "target_cell t \<equiv> DeploymentTargetSpec_Cell (DeploymentTarget_Spec t)"

text \<open>
  The loop that groups targets by a key into a map of slices and, for cells, notes each new
  key in \<open>order\<close>.
\<close>

type_synonym groups = "string \<rightharpoonup> DeploymentTarget list"

definition group_append :: "(DeploymentTarget \<Rightarrow> string) \<Rightarrow> groups \<Rightarrow> DeploymentTarget \<Rightarrow> groups" where
  "group_append key groups t =
     groups(key t \<mapsto> (case groups (key t) of None \<Rightarrow> [] | Some ts \<Rightarrow> ts) @ [t])"

definition group_cell :: "groups \<times> string list \<Rightarrow> DeploymentTarget \<Rightarrow> groups \<times> string list" where
  "group_cell = (\<lambda>(groups, order) t.
     (group_append target_cell groups t,
      if groups (target_cell t) = None then order @ [target_cell t] else order))"

definition group_members :: "groups \<Rightarrow> string \<Rightarrow> DeploymentTarget list" where
  "group_members groups k = (case groups k of None \<Rightarrow> [] | Some ts \<Rightarrow> ts)"

fun first_region :: "string \<Rightarrow> DeploymentTarget list \<Rightarrow> string" where
  "first_region region [] = region"
| "first_region region (m # ms) =
     first_region (if region = [] then target_region m else region) ms"

definition envCells :: "kube_fns \<Rightarrow> DeploymentTarget list \<Rightarrow> oa_EnvCell list" where
  "envCells kf targets =
     (let (groups, order) = foldl group_cell (Map.empty, []) targets in
      map (\<lambda>cell.
        let members = group_members groups cell in
        \<lparr>oa_EnvCell_Name = strPtrOrNil cell,
         oa_EnvCell_Region = strPtrOrNil (first_region [] members),
         oa_EnvCell_Status = None,
         oa_EnvCell_Targets = Some (map (targetToAPI kf) members)\<rparr>) (sort order))"

fun unique_regions_loop :: "string set \<Rightarrow> DeploymentTarget list \<Rightarrow> string list" where
  "unique_regions_loop seen [] = []"
| "unique_regions_loop seen (t # ts) =
     (let r = target_region t in
      if r = [] \<or> r \<in> seen then unique_regions_loop seen ts
      else r # unique_regions_loop (insert r seen) ts)"

definition uniqueRegions :: "DeploymentTarget list \<Rightarrow> string list" where
  "uniqueRegions targets = sort (unique_regions_loop {} targets)"

definition environmentToAPI :: "kube_fns \<Rightarrow> Environment \<Rightarrow> DeploymentTarget list \<Rightarrow> oa_Environment" where
  "environmentToAPI kf e targets =
     (let regions = uniqueRegions targets; cells = envCells kf targets in
      \<lparr>oa_Environment_Cells = (if length cells > 0 then Some cells else None),
       oa_Environment_Freeze = None,
       oa_Environment_Name = ObjectMeta_Name (Environment_ObjectMeta e),
       oa_Environment_Regions = (if length regions > 0 then Some regions else None)\<rparr>)"

text \<open>
  \<^verbatim>\<open>sort.Slice\<close> is not stable.  The loop after it takes the sorted slice as its
  argument, so that its result can be shown not to depend on the order of equal targets;
  the composition uses \<^const>\<open>sort_key\<close>.
\<close>

definition column_key :: "DeploymentTarget \<Rightarrow> string" where
  "column_key t = target_env t @ [CHR 0x00] @ target_region t"

fun matrix_columns_loop :: "string set \<Rightarrow> DeploymentTarget list \<Rightarrow> oa_MatrixColumn list" where
  "matrix_columns_loop seen [] = []"
| "matrix_columns_loop seen (t # ts) =
     (if column_key t \<in> seen then matrix_columns_loop seen ts
      else \<lparr>oa_MatrixColumn_Env = strPtrOrNil (target_env t), oa_MatrixColumn_Lagging = None,
            oa_MatrixColumn_Region = strPtrOrNil (target_region t)\<rparr>
           # matrix_columns_loop (insert (column_key t) seen) ts)"

definition env_region :: "DeploymentTarget \<Rightarrow> string \<times> string" where
  "env_region t = (target_env t, target_region t)"

definition matrixColumns :: "DeploymentTarget list \<Rightarrow> oa_MatrixColumn list" where
  "matrixColumns targets = matrix_columns_loop {} (sort_key env_region targets)"

definition matrixRow :: "kube_fns \<Rightarrow> Application \<Rightarrow> oa_MatrixColumn list \<Rightarrow> oa_MatrixRow" where
  "matrixRow kf a cols =
     (let status = statusFromConditions kf (ApplicationStatus_Conditions (Application_Status a)) in
      \<lparr>oa_MatrixRow_Application = ObjectMeta_Name (Application_ObjectMeta a),
       oa_MatrixRow_Cells =
         map (\<lambda>c. \<lparr>oa_MatrixCell_Drift = None, oa_MatrixCell_Env = oa_MatrixColumn_Env c,
                   oa_MatrixCell_LastSync = None, oa_MatrixCell_Region = oa_MatrixColumn_Region c,
                   oa_MatrixCell_Status = status, oa_MatrixCell_TargetRef = None,
                   oa_MatrixCell_Version = None\<rparr>) cols,
       oa_MatrixRow_Ulid = strPtrOrNil (ulidOf (Application_ObjectMeta a))\<rparr>)"

definition environment_key :: "Environment \<Rightarrow> int \<times> string" where
  "environment_key e = (EnvironmentSpec_Order (Environment_Spec e), ObjectMeta_Name (Environment_ObjectMeta e))"

definition sortedEnvironments :: "Environment list \<Rightarrow> Environment list" where
  "sortedEnvironments es = sort_key environment_key es"

section \<open>Operations\<close>

definition wrapErr :: "kube_fns \<Rightarrow> goerr \<Rightarrow> goerr" where
  "wrapErr kf err = (if kf_IsNotFound kf err then ErrNotFound else err)"

definition matchesApplicationFilter :: "Application \<Rightarrow> ApplicationFilter \<Rightarrow> bool" where
  "matchesApplicationFilter app f =
     (if ApplicationFilter_Project f \<noteq> [] \<and> projectOf (Application_ObjectMeta app) \<noteq> ApplicationFilter_Project f
      then False
      else if ApplicationFilter_Env f \<noteq> [] \<and>
              \<not> contains (ApplicationTopology_Environments (ApplicationSpec_Topology (Application_Spec app)))
                  (ApplicationFilter_Env f)
      then False
      else if ApplicationFilter_Q f \<noteq> [] \<and>
              (let q = to_lower (ApplicationFilter_Q f) in
               \<not> str_contains (to_lower (ObjectMeta_Name (Application_ObjectMeta app))) q \<and>
               \<not> str_contains (to_lower (OwnerInfo_Team (ApplicationSpec_Owner (Application_Spec app)))) q)
      then False
      else True)"

definition ListApplications ::
  "kube_fns \<Rightarrow> Cluster \<Rightarrow> time \<Rightarrow> ApplicationFilter \<Rightarrow> (goerr, ApplicationsPage) result" where
  "ListApplications kf s now f =
     (case Cluster_Applications s of
        Inl err \<Rightarrow> Inl (wrapErr kf err)
      | Inr items \<Rightarrow>
          Inr \<lparr>ApplicationsPage_Items =
                 map (applicationToAPI kf) (filter (\<lambda>app. matchesApplicationFilter app f) items),
               ApplicationsPage_AsOf = now\<rparr>)"

definition GetApplication :: "kube_fns \<Rightarrow> Cluster \<Rightarrow> string \<Rightarrow> (goerr, oa_Application) result" where
  "GetApplication kf s name =
     (case Cluster_Applications s of
        Inl err \<Rightarrow> Inl (wrapErr kf err)
      | Inr items \<Rightarrow>
          (case find (\<lambda>a. ObjectMeta_Name (Application_ObjectMeta a) = name) items of
             Some a \<Rightarrow> Inr (applicationToAPI kf a)
           | None \<Rightarrow> Inl ErrNotFound))"

definition GetMatrix :: "kube_fns \<Rightarrow> Cluster \<Rightarrow> time \<Rightarrow> string \<Rightarrow> (goerr, oa_Matrix) result" where
  "GetMatrix kf s now name =
     (case Cluster_Applications s of
        Inl err \<Rightarrow> Inl (wrapErr kf err)
      | Inr apps \<Rightarrow>
          let selected =
            (if name \<noteq> ''all''
             then (case find (\<lambda>a. ObjectMeta_Name (Application_ObjectMeta a) = name) apps of
                     None \<Rightarrow> [] | Some a \<Rightarrow> [a])
             else apps)
          in if name \<noteq> ''all'' \<and> length selected = 0 then Inl ErrNotFound
             else (case Cluster_DeploymentTargets s of
                     Inl err \<Rightarrow> Inl (wrapErr kf err)
                   | Inr targets \<Rightarrow>
                       let cols = matrixColumns targets in
                       Inr \<lparr>oa_Matrix_AsOf = now, oa_Matrix_Columns = cols,
                            oa_Matrix_Rows = map (\<lambda>a. matrixRow kf a cols) selected\<rparr>))"

definition ListApplicationReleases :: "kube_fns \<Rightarrow> Cluster \<Rightarrow> string \<Rightarrow> (goerr, oa_Release list) result" where
  "ListApplicationReleases kf s name =
     (case Cluster_Releases s of
        Inl err \<Rightarrow> Inl (wrapErr kf err)
      | Inr items \<Rightarrow>
          Inr (map releaseToAPI (filter (\<lambda>r. ReleaseSpec_Application (Release_Spec r) = name) items)))"

definition ListApplicationPromotions :: "kube_fns \<Rightarrow> Cluster \<Rightarrow> string \<Rightarrow> (goerr, oa_Promotion list) result" where
  "ListApplicationPromotions kf s name =
     (case Cluster_Promotions s of
        Inl err \<Rightarrow> Inl (wrapErr kf err)
      | Inr items \<Rightarrow>
          Inr (map promotionToAPI (filter (\<lambda>p. PromotionSpec_Application (Promotion_Spec p) = name) items)))"

definition ListPromotions :: "kube_fns \<Rightarrow> Cluster \<Rightarrow> string \<Rightarrow> (goerr, oa_Promotion list) result" where
  "ListPromotions kf s state =
     (case Cluster_Promotions s of
        Inl err \<Rightarrow> Inl (wrapErr kf err)
      | Inr items \<Rightarrow> Inr (map promotionToAPI (filter (\<lambda>p. promotionMatchesState p state) items)))"

definition GetPromotion :: "kube_fns \<Rightarrow> Cluster \<Rightarrow> string \<Rightarrow> (goerr, oa_Promotion) result" where
  "GetPromotion kf s i =
     (case Cluster_Promotions s of
        Inl err \<Rightarrow> Inl (wrapErr kf err)
      | Inr items \<Rightarrow>
          (case find (\<lambda>p. let u = ulidOf (Promotion_ObjectMeta p) in
                          (u \<noteq> [] \<and> u = i) \<or> ObjectMeta_Name (Promotion_ObjectMeta p) = i) items of
             Some p \<Rightarrow> Inr (promotionToAPI p)
           | None \<Rightarrow> Inl ErrNotFound))"

definition ListReleases :: "kube_fns \<Rightarrow> Cluster \<Rightarrow> string \<Rightarrow> (goerr, oa_Release list) result" where
  "ListReleases kf s project =
     (case Cluster_Releases s of
        Inl err \<Rightarrow> Inl (wrapErr kf err)
      | Inr items \<Rightarrow>
          Inr (map releaseToAPI
                (filter (\<lambda>r. \<not> (project \<noteq> [] \<and> projectOf (Release_ObjectMeta r) \<noteq> project)) items)))"

definition ListTargets :: "kube_fns \<Rightarrow> Cluster \<Rightarrow> (goerr, oa_DeploymentTarget list) result" where
  "ListTargets kf s =
     (case Cluster_DeploymentTargets s of
        Inl err \<Rightarrow> Inl (wrapErr kf err)
      | Inr items \<Rightarrow> Inr (map (targetToAPI kf) items))"

definition findTarget :: "kube_fns \<Rightarrow> Cluster \<Rightarrow> string \<Rightarrow> (goerr, DeploymentTarget) result" where
  "findTarget kf s name =
     (case Cluster_DeploymentTargets s of
        Inl err \<Rightarrow> Inl (wrapErr kf err)
      | Inr items \<Rightarrow>
          (case find (\<lambda>t. ObjectMeta_Name (DeploymentTarget_ObjectMeta t) = name) items of
             Some t \<Rightarrow> Inr t
           | None \<Rightarrow> Inl ErrNotFound))"

definition GetTargetHealth :: "kube_fns \<Rightarrow> Cluster \<Rightarrow> string \<Rightarrow> (goerr, oa_HealthCheck list) result" where
  "GetTargetHealth kf s name =
     (case findTarget kf s name of
        Inl err \<Rightarrow> Inl err
      | Inr _ \<Rightarrow>
          (case Cluster_HealthChecks s of
             Inl err \<Rightarrow> Inl (wrapErr kf err)
           | Inr items \<Rightarrow>
               Inr (map healthCheckToAPI
                 (filter (\<lambda>h. case HealthCheckSpec_TargetRef (HealthCheck_Spec h) of
                                None \<Rightarrow> False
                              | Some ref \<Rightarrow> LocalObjectReference_Name ref = name) items))))"

definition GetTargetDrift :: "kube_fns \<Rightarrow> Cluster \<Rightarrow> string \<Rightarrow> (goerr, oa_Diff) result" where
  "GetTargetDrift kf s name =
     (case findTarget kf s name of
        Inl err \<Rightarrow> Inl err
      | Inr _ \<Rightarrow> Inr \<lparr>oa_Diff_Entries = [], oa_Diff_Left = None, oa_Diff_Mode = oa_GitLive,
                      oa_Diff_Right = None, oa_Diff_Summary = None\<rparr>)"

definition ListEnvironments :: "kube_fns \<Rightarrow> Cluster \<Rightarrow> (goerr, oa_Environment list) result" where
  "ListEnvironments kf s =
     (case Cluster_Environments s of
        Inl err \<Rightarrow> Inl (wrapErr kf err)
      | Inr envs \<Rightarrow>
          (case Cluster_DeploymentTargets s of
             Inl err \<Rightarrow> Inl (wrapErr kf err)
           | Inr targets \<Rightarrow>
               let byEnv = foldl (group_append target_env) Map.empty targets in
               Inr (map (\<lambda>e. environmentToAPI kf e
                      (group_members byEnv (ObjectMeta_Name (Environment_ObjectMeta e))))
                    (sortedEnvironments envs))))"

definition GetDiff :: "DiffQuery \<Rightarrow> (goerr, oa_Diff) result" where
  "GetDiff q =
     Inr \<lparr>oa_Diff_Entries = [], oa_Diff_Left = strPtrOrNil (DiffQuery_Left q),
          oa_Diff_Mode = DiffQuery_Mode q, oa_Diff_Right = strPtrOrNil (DiffQuery_Right q),
          oa_Diff_Summary = None\<rparr>"

definition QueryAudit :: "AuditQuery \<Rightarrow> (goerr, AuditPage) result" where
  "QueryAudit q = Inr \<lparr>AuditPage_Items = [], AuditPage_NextCursor = []\<rparr>"

text \<open>The adapter: the method table over one snapshot of the cluster.\<close>

definition crd_source :: "kube_fns \<Rightarrow> Cluster \<Rightarrow> time \<Rightarrow> ReadModel" where
  "crd_source kf s now =
     \<lparr>rm_ListApplications = ListApplications kf s now,
      rm_GetApplication = GetApplication kf s,
      rm_GetMatrix = GetMatrix kf s now,
      rm_ListApplicationReleases = ListApplicationReleases kf s,
      rm_ListApplicationPromotions = ListApplicationPromotions kf s,
      rm_ListPromotions = ListPromotions kf s,
      rm_GetPromotion = GetPromotion kf s,
      rm_ListReleases = ListReleases kf s,
      rm_ListTargets = ListTargets kf s,
      rm_GetTargetHealth = GetTargetHealth kf s,
      rm_GetTargetDrift = GetTargetDrift kf s,
      rm_ListEnvironments = ListEnvironments kf s,
      rm_GetDiff = GetDiff,
      rm_QueryAudit = QueryAudit\<rparr>"

section \<open>The contract of the port\<close>

lemma filter_map_name:
  "(\<And>x. name' (f x) = name x) \<Longrightarrow> filter (\<lambda>y. name' y = k) (map f xs) = map f (filter (\<lambda>x. name x = k) xs)"
  by (induction xs) auto

lemma to_api_names [simp]:
  "oa_Application_Name (applicationToAPI kf a) = ObjectMeta_Name (Application_ObjectMeta a)"
  "oa_Promotion_Application (promotionToAPI p) = PromotionSpec_Application (Promotion_Spec p)"
  "oa_Promotion_Ulid (promotionToAPI p) = ulidOf (Promotion_ObjectMeta p)"
  "oa_Promotion_Status (promotionToAPI p) = promotionStatus (PromotionStatus_Phase (Promotion_Status p))"
  "oa_Release_App (releaseToAPI r) = ReleaseSpec_Application (Release_Spec r)"
  "oa_DeploymentTarget_Name (targetToAPI kf t) = ObjectMeta_Name (DeploymentTarget_ObjectMeta t)"
  "oa_MatrixRow_Application (matrixRow kf a cols) = ObjectMeta_Name (Application_ObjectMeta a)"
  by (simp_all add: applicationToAPI_def promotionToAPI_def releaseToAPI_def targetToAPI_def matrixRow_def Let_def)

lemma no_filter_matches [simp]: "matchesApplicationFilter app no_filter"
  by (simp add: matchesApplicationFilter_def no_filter_def)

lemma strPtrOrNil_nonempty: "strPtrOrNil s = nonempty_ptr s"
  by (simp add: strPtrOrNil_def nonempty_ptr_def)

lemma matches_all [simp]: "promotionMatchesState p []" "promotionMatchesState p ''mine''"
  by (simp_all add: promotionMatchesState_def)

lemmas crd_ops = ListApplications_def GetApplication_def GetMatrix_def ListApplicationReleases_def
  ListApplicationPromotions_def ListPromotions_def GetPromotion_def ListReleases_def ListTargets_def
  findTarget_def GetTargetHealth_def GetTargetDrift_def GetDiff_def


interpretation crd: read_model "crd_source kf s now"
proof (unfold_locales, goal_cases)
  case (1 page name)
  then show ?case
    by (auto simp: crd_source_def crd_ops split: sum.splits option.splits
        simp: find_None_key image_image dest!: find_Some_set)
next
  case (2 page f)
  then show ?case
    by (auto simp: crd_source_def ListApplications_def intro!: subseq_map split: sum.splits)
next
  case (3 name m)
  then show ?case
    by (auto simp: crd_source_def GetMatrix_def Let_def split: sum.splits option.splits if_splits
        dest!: find_Some_set)
next
  case (4 name all)
  then show ?case
    by (auto simp: crd_source_def GetMatrix_def Let_def split: sum.splits option.splits
        simp: find_None_key image_image dest!: find_Some_set)
next
  case (5 rs name)
  then show ?case
    by (auto simp: crd_source_def ListReleases_def ListApplicationReleases_def filter_map comp_def split: sum.splits)
next
  case (6 ps name)
  then show ?case
    by (auto simp: crd_source_def ListPromotions_def ListApplicationPromotions_def filter_map comp_def split: sum.splits)
next
  case (7 ps state)
  then show ?case
    by (auto simp: crd_source_def ListPromotions_def intro!: subseq_map split: sum.splits)
next
  case 8
  show ?case by (simp add: crd_source_def ListPromotions_def split: sum.splits)
next
  case (9 ps pid)
  then show ?case
    by (auto simp: crd_source_def ListPromotions_def GetPromotion_def Let_def split: sum.splits option.splits
        simp: find_None_iff dest!: find_Some_set) blast
next
  case (10 rs project)
  then show ?case
    by (auto simp: crd_source_def ListReleases_def intro!: subseq_map split: sum.splits)
next
  case (11 ts name)
  then show ?case
    by (auto simp: crd_source_def ListTargets_def GetTargetDrift_def findTarget_def split: sum.splits option.splits
        simp: find_None_key image_image dest!: find_Some_set)
next
  case (12 ts name)
  have "\<exists>items. Cluster_DeploymentTargets s = Inr items \<and> ts = map (targetToAPI kf) items"
    using 12(1) by (auto simp: crd_source_def ListTargets_def split: sum.splits)
  then obtain items where items: "Cluster_DeploymentTargets s = Inr items" "ts = map (targetToAPI kf) items"
    by blast
  then have "name \<notin> (\<lambda>t. ObjectMeta_Name (DeploymentTarget_ObjectMeta t)) ` set items"
    using 12(2) by (simp add: image_image)
  then have "find (\<lambda>t. ObjectMeta_Name (DeploymentTarget_ObjectMeta t) = name) items = None"
    unfolding find_None_key .
  then show ?case using items by (simp add: crd_source_def GetTargetHealth_def findTarget_def)
next
  case (13 q)
  show ?case by (simp add: crd_source_def GetDiff_def strPtrOrNil_nonempty)
qed

section \<open>Grouping\<close>

lemma group_append_fold:
  "group_members (foldl (group_append key) groups ts) k = group_members groups k @ filter (\<lambda>t. key t = k) ts"
proof (induction ts arbitrary: groups)
  case (Cons t ts)
  have "group_members (group_append key groups t) k = group_members groups k @ (if key t = k then [t] else [])"
    by (simp add: group_members_def group_append_def)
  then show ?case using Cons.IH by simp
qed simp

lemma group_cell_fst: "fst (foldl group_cell (groups, order) ts) = foldl (group_append target_cell) groups ts"
  by (induction ts arbitrary: groups order) (simp_all add: group_cell_def)

lemma group_cell_snd:
  "set order = dom groups \<Longrightarrow> distinct order \<Longrightarrow>
   set (snd (foldl group_cell (groups, order) ts)) = set order \<union> target_cell ` set ts \<and>
   distinct (snd (foldl group_cell (groups, order) ts))"
proof (induction ts arbitrary: groups order)
  case (Cons t ts)
  let ?g = "group_append target_cell groups t"
  let ?o = "if groups (target_cell t) = None then order @ [target_cell t] else order"
  have "set ?o = dom ?g" "distinct ?o"
    using Cons.prems by (auto simp: group_append_def domIff)
  from Cons.IH [OF this]
  have "set (snd (foldl group_cell (?g, ?o) ts)) = set ?o \<union> target_cell ` set ts \<and>
      distinct (snd (foldl group_cell (?g, ?o) ts))" .
  moreover have "set ?o = insert (target_cell t) (set order)"
    using Cons.prems(1) by auto
  ultimately show ?case by (simp add: group_cell_def)
qed simp

definition cell_names :: "DeploymentTarget list \<Rightarrow> string list" where
  "cell_names ts = sort (snd (foldl group_cell (Map.empty, []) ts))"

lemma cell_names:
  "set (cell_names ts) = target_cell ` set ts" "distinct (cell_names ts)" "sorted (cell_names ts)"
  using group_cell_snd [of "[]" Map.empty ts] by (simp_all add: cell_names_def)

lemma envCells_groups:
  "envCells kf ts = map (\<lambda>cell. let members = filter (\<lambda>t. target_cell t = cell) ts in
     \<lparr>oa_EnvCell_Name = strPtrOrNil cell, oa_EnvCell_Region = strPtrOrNil (first_region [] members),
      oa_EnvCell_Status = None, oa_EnvCell_Targets = Some (map (targetToAPI kf) members)\<rparr>) (cell_names ts)"
proof -
  have "group_members (fst (foldl group_cell (Map.empty, []) ts)) cell = filter (\<lambda>t. target_cell t = cell) ts" for cell
    unfolding group_cell_fst group_append_fold by (simp add: group_members_def)
  then show ?thesis by (simp add: envCells_def cell_names_def case_prod_unfold Let_def)
qed

lemma mset_partition:
  "distinct ks \<Longrightarrow> key ` set xs \<subseteq> set ks \<Longrightarrow> mset (concat (map (\<lambda>k. filter (\<lambda>x. key x = k) xs) ks)) = mset xs"
proof (induction ks arbitrary: xs)
  case (Cons k ks)
  let ?rest = "filter (\<lambda>x. key x \<noteq> k) xs"
  have "filter (\<lambda>x. key x = k') xs = filter (\<lambda>x. key x = k') ?rest" if "k' \<in> set ks" for k'
    using Cons.prems(1) that by (auto simp: filter_filter intro!: filter_cong)
  then have "concat (map (\<lambda>k'. filter (\<lambda>x. key x = k') xs) ks) = concat (map (\<lambda>k'. filter (\<lambda>x. key x = k') ?rest) ks)"
    by (metis (no_types, lifting) map_cong)
  moreover have "mset (concat (map (\<lambda>k'. filter (\<lambda>x. key x = k') ?rest) ks)) = mset ?rest"
    using Cons.prems by (intro Cons.IH) auto
  ultimately show ?case by (simp add: mset_filter multiset_partition [symmetric])
qed simp

section \<open>Columns\<close>

lemma column_key_inj:
  assumes "CHR 0x00 \<notin> set (target_env t)" "CHR 0x00 \<notin> set (target_env u)"
  shows "column_key t = column_key u \<longleftrightarrow> env_region t = env_region u"
proof
  assume "column_key t = column_key u"
  then have "splitN2 (CHR 0x00) (target_env t @ CHR 0x00 # target_region t) =
      splitN2 (CHR 0x00) (target_env u @ CHR 0x00 # target_region u)"
    by (simp add: column_key_def)
  then show "env_region t = env_region u" using assms by (simp add: splitN2_cut env_region_def)
qed (simp add: column_key_def env_region_def)

definition column_pair :: "oa_MatrixColumn \<Rightarrow> string \<times> string" where
  "column_pair c = (deref_string (oa_MatrixColumn_Env c), deref_string (oa_MatrixColumn_Region c))"

lemma column_pair_target [simp]:
  "column_pair \<lparr>oa_MatrixColumn_Env = strPtrOrNil (target_env t), oa_MatrixColumn_Lagging = l,
     oa_MatrixColumn_Region = strPtrOrNil (target_region t)\<rparr> = env_region t"
  by (simp add: column_pair_def env_region_def strPtrOrNil_nonempty)

lemma matrix_columns_loop_dedup:
  "\<forall>t \<in> set ts. CHR 0x00 \<notin> set (target_env t) \<Longrightarrow> \<forall>u \<in> us. CHR 0x00 \<notin> set (target_env u) \<Longrightarrow>
   map column_pair (matrix_columns_loop (column_key ` us) ts) = dedup_by id (env_region ` us) (map env_region ts)"
proof (induction ts arbitrary: us)
  case (Cons t ts)
  have seen: "column_key t \<in> column_key ` us \<longleftrightarrow> env_region t \<in> env_region ` us"
    using Cons.prems column_key_inj by (force simp: image_iff)
  have "map column_pair (matrix_columns_loop (column_key ` insert t us) ts) =
      dedup_by id (env_region ` insert t us) (map env_region ts)"
    using Cons.prems by (intro Cons.IH) auto
  moreover have "map column_pair (matrix_columns_loop (column_key ` us) ts) = dedup_by id (env_region ` us) (map env_region ts)"
    using Cons.prems by (intro Cons.IH) auto
  ultimately show ?case using seen by (simp add: id_def)
qed simp

lemma matrix_columns_loop_pairs:
  "\<forall>t \<in> set ts. CHR 0x00 \<notin> set (target_env t) \<Longrightarrow>
   map column_pair (matrix_columns_loop {} ts) = dedup_by id {} (map env_region ts)"
  using matrix_columns_loop_dedup [of ts "{}"] by simp

lemma matrix_columns_loop_lagging:
  "c \<in> set (matrix_columns_loop seen ts) \<Longrightarrow> \<exists>e r. c = \<lparr>oa_MatrixColumn_Env = nonempty_ptr e,
     oa_MatrixColumn_Lagging = None, oa_MatrixColumn_Region = nonempty_ptr r\<rparr>"
  by (induction seen ts rule: matrix_columns_loop.induct) (auto simp: strPtrOrNil_nonempty split: if_splits)

lemma column_pair_inj:
  assumes "c \<in> set (matrix_columns_loop seen ts)" "d \<in> set (matrix_columns_loop seen' us)"
  shows "column_pair c = column_pair d \<longleftrightarrow> c = d"
  using matrix_columns_loop_lagging [OF assms(1)] matrix_columns_loop_lagging [OF assms(2)]
  by (auto simp: column_pair_def)

lemma columns_eq_of_pairs:
  assumes "map column_pair (matrix_columns_loop {} ts) = map column_pair (matrix_columns_loop {} us)"
  shows "matrix_columns_loop {} ts = matrix_columns_loop {} us"
proof (rule nth_equalityI)
  show len: "length (matrix_columns_loop {} ts) = length (matrix_columns_loop {} us)"
    using assms map_eq_imp_length_eq by blast
  fix i assume i: "i < length (matrix_columns_loop {} ts)"
  have "column_pair (matrix_columns_loop {} ts ! i) = column_pair (matrix_columns_loop {} us ! i)"
    using assms i len by (metis nth_map)
  then show "matrix_columns_loop {} ts ! i = matrix_columns_loop {} us ! i"
    using column_pair_inj i len by (metis nth_mem)
qed


section \<open>Sample objects\<close>

definition sample_meta :: "string \<Rightarrow> ObjectMeta" where
  "sample_meta name = \<lparr>ObjectMeta_Name = name, ObjectMeta_Namespace = ''team'', ObjectMeta_Generation = 1,
     ObjectMeta_CreationTimestamp = 0, ObjectMeta_Labels = [], ObjectMeta_Annotations = []\<rparr>"

definition sample_target :: "string \<Rightarrow> string \<Rightarrow> string \<Rightarrow> string \<Rightarrow> DeploymentTarget" where
  "sample_target name env cell region =
     \<lparr>DeploymentTarget_ObjectMeta = sample_meta name,
      DeploymentTarget_Spec = \<lparr>DeploymentTargetSpec_Environment = env, DeploymentTargetSpec_Cell = cell,
        DeploymentTargetSpec_Region = region,
        DeploymentTargetSpec_Cluster = \<lparr>DeploymentTargetCluster_Name = [],
          DeploymentTargetCluster_KubeconfigSecretRef = None\<rparr>\<rparr>,
      DeploymentTarget_Status = \<lparr>DeploymentTargetStatus_ObservedGeneration = 0,
        DeploymentTargetStatus_Conditions = [], DeploymentTargetStatus_Reachable = False,
        DeploymentTargetStatus_LastContactedAt = None\<rparr>\<rparr>"

definition sample_promo :: "string \<Rightarrow> string \<Rightarrow> PromotionPhase \<Rightarrow> Promotion" where
  "sample_promo name ulid phase =
     \<lparr>Promotion_ObjectMeta = (sample_meta name)\<lparr>ObjectMeta_Annotations := [(annotationULID, ulid)]\<rparr>,
      Promotion_Spec = \<lparr>PromotionSpec_Application = ''app'', PromotionSpec_Release = ''r1'',
        PromotionSpec_From = \<lparr>PromotionFrom_Environment = ''dev''\<rparr>,
        PromotionSpec_To = \<lparr>PromotionTo_Environment = ''prod'', PromotionTo_Cells = [], PromotionTo_Regions = []\<rparr>,
        PromotionSpec_Mode = PromotionModePullRequest,
        PromotionSpec_Change = \<lparr>PromotionChange_Provider = [], PromotionChange_ID = []\<rparr>,
        PromotionSpec_PolicyRefs = []\<rparr>,
      Promotion_Status = \<lparr>PromotionStatus_ObservedGeneration = 0, PromotionStatus_Phase = phase,
        PromotionStatus_Blockers = [], PromotionStatus_Conditions = []\<rparr>\<rparr>"

definition sample_app :: Application where
  "sample_app =
     \<lparr>Application_ObjectMeta = sample_meta ''app'',
      Application_Spec = \<lparr>ApplicationSpec_Owner = \<lparr>OwnerInfo_Team = ''team'', OwnerInfo_Contact = []\<rparr>,
        ApplicationSpec_SourceRefs = [],
        ApplicationSpec_Deployment = \<lparr>ApplicationDeployment_Strategy = [],
          ApplicationDeployment_Manifest = \<lparr>ApplicationManifest_Type = [], ApplicationManifest_Repo = [],
            ApplicationManifest_BasePath = [], ApplicationManifest_Chart = []\<rparr>\<rparr>,
        ApplicationSpec_Topology = \<lparr>ApplicationTopology_Environments = []\<rparr>\<rparr>,
      Application_Status = \<lparr>ApplicationStatus_ObservedGeneration = 0, ApplicationStatus_Conditions = []\<rparr>\<rparr>"

definition sample_fns :: kube_fns where
  "sample_fns = \<lparr>kf_FindStatusCondition = (\<lambda>cs t. find (\<lambda>c. Condition_Type c = t) cs),
     kf_IsNotFound = (\<lambda>e. e = Opaque ''not found'')\<rparr>"

definition sample_cluster :: Cluster where
  "sample_cluster = \<lparr>Cluster_Applications = Inr [], Cluster_DeploymentTargets = Inr [], Cluster_Releases = Inr [],
     Cluster_Promotions = Inr [], Cluster_HealthChecks = Inr [], Cluster_Environments = Inr []\<rparr>"

definition inbox_cluster :: Cluster where
  "inbox_cluster = sample_cluster\<lparr>Cluster_Promotions :=
     Inr [sample_promo ''p1'' [] PromotionPhaseBlocked, sample_promo ''p2'' [] PromotionPhaseApproved]\<rparr>"

section \<open>Claims\<close>

text \<open>The columns as the distinct pairs, for any result of the sort.\<close>

lemma matrix_columns_pairs:
  assumes "\<forall>t \<in> set targets. CHR 0x00 \<notin> set (target_env t)" and "slice_sorted env_region targets ts"
  shows "map column_pair (matrix_columns_loop {} ts) = dedup_by id {} (sort (map env_region targets))"
  using assms matrix_columns_loop_pairs [of ts] slice_sorted_map_key slice_sorted_set by metis

lemma matrixColumns_pairs:
  assumes "\<forall>t \<in> set targets. CHR 0x00 \<notin> set (target_env t)"
  shows "map column_pair (matrixColumns targets) = dedup_by id {} (sort (map env_region targets))"
  unfolding matrixColumns_def by (rule matrix_columns_pairs [OF assms]) simp

lemma matrixColumns_set:
  assumes "\<forall>t \<in> set targets. CHR 0x00 \<notin> set (target_env t)"
  shows "set (map column_pair (matrixColumns targets)) = env_region ` set targets"
    and "sorted_wrt (<) (map column_pair (matrixColumns targets))"
proof -
  show "set (map column_pair (matrixColumns targets)) = env_region ` set targets"
    using dedup_by_keys [of id "{}" "sort (map env_region targets)"] unfolding matrixColumns_pairs [OF assms] by simp
  have "sorted (map id (dedup_by id {} (sort (map env_region targets))))"
    by (rule sorted_dedup_by) simp
  moreover have "distinct (map id (dedup_by id {} (sort (map env_region targets))))"
    by (rule distinct_dedup_by)
  ultimately show "sorted_wrt (<) (map column_pair (matrixColumns targets))"
    unfolding matrixColumns_pairs [OF assms] by (simp add: strict_sorted_iff)
qed

text \<open>C28: The columns of the matrix.  When no environment name contains a NUL, the columns are
  strictly sorted by environment and region and are exactly the pairs that occur among the
  targets; and any result of the unstable sort gives the same columns.\<close>
theorem matrix_columns_exact:
  assumes "\<forall>t \<in> set targets. CHR 0x00 \<notin> set (target_env t)"
  shows "sorted_wrt (<) (map column_pair (matrixColumns targets)) \<and>
    set (map column_pair (matrixColumns targets)) = env_region ` set targets \<and>
    (\<forall>ts. slice_sorted env_region targets ts \<longrightarrow> matrix_columns_loop {} ts = matrixColumns targets)"
proof (intro conjI allI impI)
  show "matrix_columns_loop {} ts = matrixColumns targets" if "slice_sorted env_region targets ts" for ts
    using matrix_columns_pairs [OF assms that] matrixColumns_pairs [OF assms] columns_eq_of_pairs
    unfolding matrixColumns_def by metis
qed (use matrixColumns_set [OF assms] in auto)

theorem matrix_columns_exact_witness:
  "map column_pair (matrixColumns [sample_target ''t1'' ''prod'' ''a'' ''eu'', sample_target ''t2'' ''dev'' ''a'' [],
      sample_target ''t3'' ''prod'' ''b'' ''eu'']) = [(''dev'', []), (''prod'', ''eu'')]"
proof -
  let ?ts = "[sample_target ''t1'' ''prod'' ''a'' ''eu'', sample_target ''t2'' ''dev'' ''a'' [],
      sample_target ''t3'' ''prod'' ''b'' ''eu'']"
  have "\<forall>t \<in> set ?ts. CHR 0x00 \<notin> set (target_env t)" by (simp add: sample_target_def)
  from matrix_columns_exact [OF this]
  have "sorted_wrt (<) (map column_pair (matrixColumns ?ts))"
    and "set (map column_pair (matrixColumns ?ts)) = {(''dev'', []), (''prod'', ''eu'')}"
    by (auto simp: env_region_def sample_target_def)
  moreover have "sorted_wrt (<) [(''dev'', []), (''prod'', ''eu'')]" by (simp add: less_char_def)
  ultimately show ?thesis
    by (intro strict_sorted_equal) simp_all
qed

text \<open>C29: The cells of an environment.  They are named in strictly increasing order, and
  together they hold each of the environment's targets exactly once, in the cell the target
  names.\<close>
theorem environment_cells_partition:
  "sorted_wrt (<) (map (\<lambda>c. deref_string (oa_EnvCell_Name c)) (envCells kf targets)) \<and>
   mset (concat (map (\<lambda>c. the (oa_EnvCell_Targets c)) (envCells kf targets))) = mset (map (targetToAPI kf) targets) \<and>
   (\<forall>c \<in> set (envCells kf targets). \<forall>t \<in> set (the (oa_EnvCell_Targets c)).
      oa_DeploymentTarget_Cell t = oa_EnvCell_Name c)"
proof (intro conjI)
  have "map (\<lambda>c. deref_string (oa_EnvCell_Name c)) (envCells kf targets) = cell_names targets"
    by (simp add: envCells_groups comp_def Let_def strPtrOrNil_nonempty)
  then show "sorted_wrt (<) (map (\<lambda>c. deref_string (oa_EnvCell_Name c)) (envCells kf targets))"
    using cell_names by (simp add: strict_sorted_iff)
  have "concat (map (\<lambda>c. the (oa_EnvCell_Targets c)) (envCells kf targets)) =
      map (targetToAPI kf) (concat (map (\<lambda>cell. filter (\<lambda>t. target_cell t = cell) targets) (cell_names targets)))"
    by (simp add: envCells_groups comp_def Let_def map_concat)
  moreover have "mset (concat (map (\<lambda>cell. filter (\<lambda>t. target_cell t = cell) targets) (cell_names targets))) = mset targets"
    by (rule mset_partition) (simp_all add: cell_names)
  ultimately show "mset (concat (map (\<lambda>c. the (oa_EnvCell_Targets c)) (envCells kf targets))) = mset (map (targetToAPI kf) targets)"
    by (simp only: mset_map)
  show "\<forall>c \<in> set (envCells kf targets). \<forall>t \<in> set (the (oa_EnvCell_Targets c)).
      oa_DeploymentTarget_Cell t = oa_EnvCell_Name c"
    by (auto simp: envCells_groups Let_def targetToAPI_def)
qed

theorem environment_cells_partition_witness:
  "(let targets = [sample_target ''t1'' ''prod'' ''b'' ''eu'', sample_target ''t2'' ''prod'' ''a'' ''us'',
        sample_target ''t3'' ''prod'' ''b'' ''us''];
      cells = envCells sample_fns targets in
     sorted_wrt (<) (map (\<lambda>c. deref_string (oa_EnvCell_Name c)) cells) \<and>
     mset (concat (map (\<lambda>c. the (oa_EnvCell_Targets c)) cells)) = mset (map (targetToAPI sample_fns) targets))"
  using environment_cells_partition unfolding Let_def by blast

text \<open>The inbox.  When the promotions can be listed, the active, blocked and history views
  split them: every promotion is in exactly one of the three, in each kept in order.\<close>
theorem inbox_states_partition:
  assumes "Cluster_Promotions s = Inr items"
  shows "\<exists>act blk hist all. ListPromotions kf s ''active'' = Inr act \<and> ListPromotions kf s ''blocked'' = Inr blk \<and>
    ListPromotions kf s ''history'' = Inr hist \<and> ListPromotions kf s [] = Inr all \<and>
    mset act + mset blk + mset hist = mset all \<and> subseq act all \<and> subseq blk all \<and> subseq hist all"
proof -
  have part: "mset (filter (\<lambda>p. promotionMatchesState p ''active'') ps) + mset (filter (\<lambda>p. promotionMatchesState p ''blocked'') ps) +
      mset (filter (\<lambda>p. promotionMatchesState p ''history'') ps) = mset ps" for ps
    by (induction ps) (auto simp: promotionMatchesState_def isTerminalPhase_def Let_def)
  have "mset (map promotionToAPI (filter (\<lambda>p. promotionMatchesState p ''active'') items)) +
      mset (map promotionToAPI (filter (\<lambda>p. promotionMatchesState p ''blocked'') items)) +
      mset (map promotionToAPI (filter (\<lambda>p. promotionMatchesState p ''history'') items)) = mset (map promotionToAPI items)"
    unfolding mset_map using arg_cong [OF part [of items], of "image_mset promotionToAPI"] by simp
  then show ?thesis using assms by (simp add: ListPromotions_def subseq_map)
qed

theorem inbox_states_partition_witness:
  "\<exists>act blk hist all. ListPromotions sample_fns inbox_cluster ''active'' = Inr act \<and>
     ListPromotions sample_fns inbox_cluster ''blocked'' = Inr blk \<and>
     ListPromotions sample_fns inbox_cluster ''history'' = Inr hist \<and>
     ListPromotions sample_fns inbox_cluster [] = Inr all \<and> mset act + mset blk + mset hist = mset all \<and> length all = 2"
proof -
  let ?items = "[sample_promo ''p1'' [] PromotionPhaseBlocked, sample_promo ''p2'' [] PromotionPhaseApproved]"
  have c: "Cluster_Promotions inbox_cluster = Inr ?items" by (simp add: inbox_cluster_def)
  have "ListPromotions sample_fns inbox_cluster [] = Inr (map promotionToAPI ?items)"
    using c by (simp add: ListPromotions_def)
  moreover obtain act blk hist all where "ListPromotions sample_fns inbox_cluster ''active'' = Inr act"
    "ListPromotions sample_fns inbox_cluster ''blocked'' = Inr blk"
    "ListPromotions sample_fns inbox_cluster ''history'' = Inr hist" "ListPromotions sample_fns inbox_cluster [] = Inr all"
    "mset act + mset blk + mset hist = mset all"
    using inbox_states_partition [OF c, of sample_fns] by (elim exE conjE)
  ultimately show ?thesis by simp
qed

text \<open>Environments in lifecycle order.  The environments come sorted by order, then name;
  each is one of the cluster's, and is shown with exactly the non-empty regions of the
  targets that name it.\<close>
theorem environments_in_order:
  assumes "Cluster_Environments s = Inr envs" and "Cluster_DeploymentTargets s = Inr targets"
  shows "\<exists>es out. ListEnvironments kf s = Inr out \<and> slice_sorted environment_key envs es \<and>
    map oa_Environment_Name out = map (\<lambda>e. ObjectMeta_Name (Environment_ObjectMeta e)) es \<and>
    (\<forall>e \<in> set out. (case oa_Environment_Regions e of None \<Rightarrow> {} | Some rs \<Rightarrow> set rs) =
       {r. r \<noteq> [] \<and> (\<exists>t \<in> set targets. target_env t = oa_Environment_Name e \<and> target_region t = r)})"
proof -
  have loop: "set (unique_regions_loop seen ts) = {r. r \<noteq> [] \<and> r \<notin> seen \<and> (\<exists>t \<in> set ts. target_region t = r)}" for seen ts
    by (induction seen ts rule: unique_regions_loop.induct) (auto simp: Let_def)
  have grp: "group_members (foldl (group_append target_env) Map.empty targets) k = filter (\<lambda>t. target_env t = k) targets" for k
    unfolding group_append_fold by (simp add: group_members_def)
  have "set (uniqueRegions ts) = {r. r \<noteq> [] \<and> (\<exists>t \<in> set ts. target_region t = r)}" for ts
    unfolding uniqueRegions_def set_sort loop by simp
  moreover have "(case oa_Environment_Regions (environmentToAPI kf e ts) of None \<Rightarrow> {} | Some rs \<Rightarrow> set rs) =
      set (uniqueRegions ts)" for e ts
    by (cases "uniqueRegions ts") (simp_all add: environmentToAPI_def Let_def)
  ultimately have regs: "(case oa_Environment_Regions (environmentToAPI kf e ts) of None \<Rightarrow> {} | Some rs \<Rightarrow> set rs) =
      {r. r \<noteq> [] \<and> (\<exists>t \<in> set ts. target_region t = r)}" for e ts
    by (simp only:)
  have nm: "oa_Environment_Name (environmentToAPI kf e ts) = ObjectMeta_Name (Environment_ObjectMeta e)" for e ts
    by (simp add: environmentToAPI_def Let_def)
  let ?es = "sortedEnvironments envs"
  let ?api = "\<lambda>e. environmentToAPI kf e (filter (\<lambda>t. target_env t = ObjectMeta_Name (Environment_ObjectMeta e)) targets)"
  have out: "ListEnvironments kf s = Inr (map ?api ?es)"
    using assms by (simp add: ListEnvironments_def grp)
  moreover have "slice_sorted environment_key envs ?es" by (simp add: sortedEnvironments_def)
  moreover have "map oa_Environment_Name (map ?api ?es) = map (\<lambda>e. ObjectMeta_Name (Environment_ObjectMeta e)) ?es"
    by (simp add: nm)
  moreover have "(case oa_Environment_Regions (?api e) of None \<Rightarrow> {} | Some rs \<Rightarrow> set rs) =
      {r. r \<noteq> [] \<and> (\<exists>t \<in> set targets. target_env t = oa_Environment_Name (?api e) \<and> target_region t = r)}" for e
    unfolding regs nm by auto
  ultimately show ?thesis by (intro exI [of _ ?es] exI [of _ "map ?api ?es"]) auto
qed

definition sample_environment :: "string \<Rightarrow> int \<Rightarrow> Environment" where
  "sample_environment name order =
     \<lparr>Environment_ObjectMeta = sample_meta name,
      Environment_Spec = \<lparr>EnvironmentSpec_Order = order, EnvironmentSpec_Protected = False,
        EnvironmentSpec_ChangeControl = \<lparr>EnvironmentChangeControl_Required = False\<rparr>\<rparr>,
      Environment_Status = \<lparr>EnvironmentStatus_ObservedGeneration = 0, EnvironmentStatus_Conditions = []\<rparr>\<rparr>"

theorem environments_in_order_witness:
  "\<exists>es out. ListEnvironments sample_fns
      (sample_cluster\<lparr>Cluster_Environments := Inr [sample_environment ''prod'' 2, sample_environment ''dev'' 1],
         Cluster_DeploymentTargets := Inr [sample_target ''t1'' ''prod'' ''a'' ''eu'']\<rparr>) = Inr out \<and>
     slice_sorted environment_key [sample_environment ''prod'' 2, sample_environment ''dev'' 1] es \<and>
     map oa_Environment_Name out = map (\<lambda>e. ObjectMeta_Name (Environment_ObjectMeta e)) es"
proof -
  let ?s = "sample_cluster\<lparr>Cluster_Environments := Inr [sample_environment ''prod'' 2, sample_environment ''dev'' 1],
      Cluster_DeploymentTargets := Inr [sample_target ''t1'' ''prod'' ''a'' ''eu'']\<rparr>"
  have "Cluster_Environments ?s = Inr [sample_environment ''prod'' 2, sample_environment ''dev'' 1]"
    and "Cluster_DeploymentTargets ?s = Inr [sample_target ''t1'' ''prod'' ''a'' ''eu'']" by simp_all
  from environments_in_order [OF this, of sample_fns] show ?thesis by blast
qed

text \<open>A name can shadow an identifier.  Looked up by a ULID that one promotion carries,
  the adapter answers with another promotion, without that ULID, when the cluster lists it
  earlier and its object name is the identifier.\<close>
lemma promotion_name_shadows_ulid:
  "Cluster_Promotions s = Inr [sample_promo ''01J'' [] ph, sample_promo ''p2'' ''01J'' ph'] \<Longrightarrow>
   oa_Promotion_Ulid (promotionToAPI (sample_promo ''p2'' ''01J'' ph')) = ''01J'' \<and>
   (\<exists>p. GetPromotion kf s ''01J'' = Inr p \<and> oa_Promotion_Ulid p \<noteq> ''01J'')"
  by (simp add: GetPromotion_def sample_promo_def sample_meta_def ulidOf_def dict_get_def Let_def)

end
