(* ===== verification/Cli_Commands.thy ===== *)
theory Cli_Commands
  imports Cli_Output Crd_Source
begin

text \<open>
  The verbs of \<^verbatim>\<open>keleustesctl\<close>: \<^verbatim>\<open>internal/cli/commands.go\<close>, \<^verbatim>\<open>get.go\<close>, \<^verbatim>\<open>describe.go\<close> and
  \<^verbatim>\<open>apiclient.go\<close>.  The generated API client (\<open>api_client\<close>), the Kubernetes dynamic client
  (\<open>dyn_client\<close>), the flag values and the URL package are arguments.
\<close>

section \<open>Surroundings\<close>

text \<open>A parsed response: the decoded body if the status was 200, the status, the raw body.\<close>

record 'a api_response =
  ar_JSON200 :: "'a option"
  ar_StatusCode :: int
  ar_Body :: string

record api_client =
  ac_GetApplications :: "(goerr, oa_Application list api_response) result"
  ac_GetApplicationsName :: "string \<Rightarrow> (goerr, oa_Application api_response) result"
  ac_GetApplicationsNameMatrix :: "string \<Rightarrow> (goerr, oa_Matrix api_response) result"
  ac_GetApplicationsNameReleases :: "string \<Rightarrow> (goerr, oa_Release list api_response) result"
  ac_GetApplicationsNamePromotions :: "string \<Rightarrow> (goerr, oa_Promotion list api_response) result"
  ac_GetDiff :: "oa_GetDiffParams \<Rightarrow> (goerr, oa_Diff api_response) result"

record cli_env =
  env_NewAPIClient :: "(goerr, api_client) result"
  env_Flag :: "string \<Rightarrow> string"
  env_DecodeProblem :: "string \<Rightarrow> (goerr, oa_Problem) result"
  env_FormatTime :: "time \<Rightarrow> string"

record 'u url_lib =
  url_Parse :: "string \<Rightarrow> (goerr, 'u) result"
  url_Host :: "'u \<Rightarrow> string"
  url_Path :: "'u \<Rightarrow> string"
  url_WithPath :: "string \<Rightarrow> 'u \<Rightarrow> 'u"
  url_String :: "'u \<Rightarrow> string"

section \<open>The base URL\<close>

definition defaultAPIBaseURL :: string where
  "defaultAPIBaseURL = ''http://localhost:8443/api/v1''"

text \<open>\<^verbatim>\<open>strings.Trim(p, "/") == ""\<close>: only slashes.\<close>

definition normalizeBaseURL :: "'u url_lib \<Rightarrow> string \<Rightarrow> string" where
  "normalizeBaseURL lib raw =
     (case url_Parse lib raw of
        Inl _ \<Rightarrow> raw
      | Inr u \<Rightarrow>
          if url_Host lib u = [] then raw
          else url_String lib (if list_all (\<lambda>c. c = CHR ''/'') (url_Path lib u)
                               then url_WithPath lib ''/api/v1'' u else u))"

text \<open>The flag, if it is registered and set, then the environment variable, then the default.\<close>

definition apiBaseURL :: "'u url_lib \<Rightarrow> (goerr, string) result \<Rightarrow> string \<Rightarrow> string" where
  "apiBaseURL lib flag environment =
     normalizeBaseURL lib
       (case flag of
          Inr v \<Rightarrow> if v \<noteq> [] then v else if environment \<noteq> [] then environment else defaultAPIBaseURL
        | Inl _ \<Rightarrow> if environment \<noteq> [] then environment else defaultAPIBaseURL)"

section \<open>Rendering\<close>

definition printTable :: "'w stream \<Rightarrow> string list \<Rightarrow> string list list \<Rightarrow> 'w \<Rightarrow> goerr option \<times> 'w" where
  "printTable put headers rows w =
     (if rows = [] then Fprintln put ''No resources found.'' w
      else print_lines put (headers # rows) w)"

definition formatTimePtr :: "(time \<Rightarrow> string) \<Rightarrow> time option \<Rightarrow> string" where
  "formatTimePtr fmt t = (case t of None \<Rightarrow> [] | Some t \<Rightarrow> fmt t)"

definition boolPtrMark :: "bool option \<Rightarrow> string" where
  "boolPtrMark b = (if b = Some True then ''yes'' else [])"

definition intPtrVal :: "int option \<Rightarrow> int" where
  "intPtrVal i = (case i of None \<Rightarrow> 0 | Some i \<Rightarrow> i)"

definition joinStrPtr :: "string list option \<Rightarrow> string" where
  "joinStrPtr s = (case s of None \<Rightarrow> [] | Some s \<Rightarrow> join '','' s)"

definition renderApplications :: "'w stream \<Rightarrow> oa_Application list \<Rightarrow> 'w \<Rightarrow> goerr option \<times> 'w" where
  "renderApplications put apps =
     printTable put [''NAME'', ''PROJECT'', ''OWNER'', ''STATUS'']
       (map (\<lambda>a. [oa_Application_Name a, deref_string (oa_Application_Project a),
                  deref_string (oa_Application_Owner a), oa_Application_Status a]) apps)"

definition renderReleases :: "(time \<Rightarrow> string) \<Rightarrow> 'w stream \<Rightarrow> oa_Release list \<Rightarrow> 'w \<Rightarrow> goerr option \<times> 'w" where
  "renderReleases fmt put rels =
     printTable put [''VERSION'', ''APP'', ''CREATED'', ''DEPLOYED-ON'']
       (map (\<lambda>r. [oa_Release_Version r, oa_Release_App r, formatTimePtr fmt (oa_Release_Created r),
                  joinStrPtr (oa_Release_DeployedOn r)]) rels)"

definition renderPromotions :: "'w stream \<Rightarrow> oa_Promotion list \<Rightarrow> 'w \<Rightarrow> goerr option \<times> 'w" where
  "renderPromotions put proms =
     printTable put [''APPLICATION'', ''FROM'', ''TO'', ''STATUS'', ''RELEASE'']
       (map (\<lambda>p. [oa_Promotion_Application p, oa_Promotion_From p, oa_Promotion_To p,
                  oa_Promotion_Status p, deref_string (oa_Promotion_Release p)]) proms)"

definition renderDiff :: "'w stream \<Rightarrow> oa_Diff \<Rightarrow> 'w \<Rightarrow> goerr option \<times> 'w" where
  "renderDiff put d w =
     (case put (''mode='' @ oa_Diff_Mode d @ '' left='' @ deref_string (oa_Diff_Left d) @ '' right='' @
               deref_string (oa_Diff_Right d) @ newline) w of
        (Some err, w) \<Rightarrow> (Some err, w)
      | (None, w) \<Rightarrow>
          (case printTable put [''OBJECT'', ''CHANGE'', ''DRIFT'']
                  (map (\<lambda>e. [oa_DiffEntry_Object e, oa_DiffEntry_Change e, boolPtrMark (oa_DiffEntry_Drift e)])
                    (oa_Diff_Entries d)) w of
             (Some err, w) \<Rightarrow> (Some err, w)
           | (None, w) \<Rightarrow>
               (case oa_Diff_Summary d of
                  None \<Rightarrow> (None, w)
                | Some s \<Rightarrow>
                    put (newline @ ''summary: +'' @ itoa (intPtrVal (oa_DiffSummary_Added s)) @ '' ~'' @
                         itoa (intPtrVal (oa_DiffSummary_Changed s)) @ '' -'' @
                         itoa (intPtrVal (oa_DiffSummary_Removed s)) @ newline) w)))"

section \<open>The matrix\<close>

definition matrixColumnHeader :: "string \<Rightarrow> string \<Rightarrow> string" where
  "matrixColumnHeader env region =
     (let env = (if env = [] then ''?'' else env) in
      if region = [] then to_upper env else to_upper (env @ ''/'' @ region))"

definition matrixCellText :: "oa_MatrixCell \<Rightarrow> string" where
  "matrixCellText c =
     (let s = (if oa_MatrixCell_Status c = [] then ''-'' else oa_MatrixCell_Status c)
      in if oa_MatrixCell_Drift c = Some True then s @ ''*'' else s)"

definition matrix_cols :: "oa_Matrix \<Rightarrow> string \<Rightarrow> (string \<times> string) list" where
  "matrix_cols m envFilter =
     map (\<lambda>c. (deref_string (oa_MatrixColumn_Env c), deref_string (oa_MatrixColumn_Region c)))
       (filter (\<lambda>c. \<not> (envFilter \<noteq> [] \<and> deref_string (oa_MatrixColumn_Env c) \<noteq> envFilter)) (oa_Matrix_Columns m))"

text \<open>The index of a row's cells; a later cell replaces an earlier one with its key.\<close>

definition matrix_index :: "oa_MatrixCell list \<Rightarrow> (string \<times> string) \<Rightarrow> oa_MatrixCell option" where
  "matrix_index cells =
     map_of (rev (map (\<lambda>c. ((deref_string (oa_MatrixCell_Env c), deref_string (oa_MatrixCell_Region c)), c)) cells))"

definition matrix_row :: "(string \<times> string) list \<Rightarrow> oa_MatrixRow \<Rightarrow> string list" where
  "matrix_row cols r =
     oa_MatrixRow_Application r #
     map (\<lambda>ck. case matrix_index (oa_MatrixRow_Cells r) ck of Some cell \<Rightarrow> matrixCellText cell | None \<Rightarrow> ''-'') cols"

definition matrix_headers :: "(string \<times> string) list \<Rightarrow> string list" where
  "matrix_headers cols = ''APPLICATION'' # map (\<lambda>(env, region). matrixColumnHeader env region) cols"

definition renderMatrix :: "(time \<Rightarrow> string) \<Rightarrow> 'w stream \<Rightarrow> oa_Matrix \<Rightarrow> string \<Rightarrow> 'w \<Rightarrow> goerr option \<times> 'w" where
  "renderMatrix fmt put m envFilter w =
     (let cols = matrix_cols m envFilter in
      case put (''AS OF: '' @ fmt (oa_Matrix_AsOf m) @ newline) w of
        (Some err, w) \<Rightarrow> (Some err, w)
      | (None, w) \<Rightarrow> printTable put (matrix_headers cols) (map (matrix_row cols) (oa_Matrix_Rows m)) w)"

section \<open>API verbs\<close>

definition apiError :: "cli_env \<Rightarrow> string \<Rightarrow> int \<Rightarrow> string \<Rightarrow> goerr" where
  "apiError env operation status body =
     (case env_DecodeProblem env body of
        Inr p \<Rightarrow>
          if oa_Problem_Type p \<noteq> []
          then Opaque (operation @ '': '' @
                 (case oa_Problem_Detail p of
                    Some d \<Rightarrow> if d \<noteq> [] then d else oa_Problem_Title p
                  | None \<Rightarrow> oa_Problem_Title p) @
                 '' (type='' @ oa_Problem_Type p @ '', http '' @ itoa status @ '')'')
          else Opaque (operation @ '': unexpected status '' @ itoa status)
      | Inl _ \<Rightarrow> Opaque (operation @ '': unexpected status '' @ itoa status))"

text \<open>The frame the verbs share: client, request, status, rendering.\<close>

definition api_call ::
  "cli_env \<Rightarrow> string \<Rightarrow> (api_client \<Rightarrow> (goerr, 'a api_response) result) \<Rightarrow>
   ('a \<Rightarrow> 'w \<Rightarrow> goerr option \<times> 'w) \<Rightarrow> 'w \<Rightarrow> goerr option \<times> 'w" where
  "api_call env operation request render w =
     (case env_NewAPIClient env of
        Inl err \<Rightarrow> (Some err, w)
      | Inr client \<Rightarrow>
          (case request client of
             Inl err \<Rightarrow> (Some err, w)
           | Inr resp \<Rightarrow>
               (case ar_JSON200 resp of
                  None \<Rightarrow> (Some (apiError env operation (ar_StatusCode resp) (ar_Body resp)), w)
                | Some v \<Rightarrow> render v w)))"

definition runAppList :: "cli_env \<Rightarrow> 'w stream \<Rightarrow> 'w \<Rightarrow> goerr option \<times> 'w" where
  "runAppList env put = api_call env ''list applications'' ac_GetApplications (renderApplications put)"

definition runAppGet :: "cli_env \<Rightarrow> 'w stream \<Rightarrow> string \<Rightarrow> 'w \<Rightarrow> goerr option \<times> 'w" where
  "runAppGet env put name =
     api_call env (''get application '' @ go_quote name) (\<lambda>c. ac_GetApplicationsName c name)
       (\<lambda>a. renderApplications put [a])"

definition runMatrix :: "cli_env \<Rightarrow> 'w stream \<Rightarrow> string list \<Rightarrow> 'w \<Rightarrow> goerr option \<times> 'w" where
  "runMatrix env put args =
     api_call env ''matrix''
       (\<lambda>c. ac_GetApplicationsNameMatrix c (case args of [name] \<Rightarrow> name | _ \<Rightarrow> ''all''))
       (\<lambda>m. renderMatrix (env_FormatTime env) put m (env_Flag env ''env''))"

definition runReleaseList :: "cli_env \<Rightarrow> 'w stream \<Rightarrow> string \<Rightarrow> 'w \<Rightarrow> goerr option \<times> 'w" where
  "runReleaseList env put app =
     api_call env ''list releases'' (\<lambda>c. ac_GetApplicationsNameReleases c app)
       (renderReleases (env_FormatTime env) put)"

definition diff_params :: "string \<Rightarrow> string \<Rightarrow> string \<Rightarrow> oa_GetDiffParams" where
  "diff_params app from to =
     (let left = (if from \<noteq> [] then from else app);
          right = (if to \<noteq> [] then to else [])
      in \<lparr>oa_GetDiffParams_Mode = (if from \<noteq> [] \<and> to \<noteq> [] then ''env-env'' else ''git-live''),
          oa_GetDiffParams_Left = (if left \<noteq> [] then Some left else None),
          oa_GetDiffParams_Right = (if right \<noteq> [] then Some right else None)\<rparr>)"

definition runDiff :: "cli_env \<Rightarrow> 'w stream \<Rightarrow> string \<Rightarrow> 'w \<Rightarrow> goerr option \<times> 'w" where
  "runDiff env put app =
     api_call env ''diff'' (\<lambda>c. ac_GetDiff c (diff_params app (env_Flag env ''from'') (env_Flag env ''to'')))
       (renderDiff put)"

definition blocked_to :: "string \<Rightarrow> oa_Promotion list \<Rightarrow> oa_Promotion list" where
  "blocked_to to ps =
     filter (\<lambda>p. if oa_Promotion_Status p \<noteq> oa_StatusBlocked then False
                 else if to \<noteq> [] \<and> oa_Promotion_To p \<noteq> to then False
                 else True) ps"

definition runBlockers :: "cli_env \<Rightarrow> 'w stream \<Rightarrow> string \<Rightarrow> 'w \<Rightarrow> goerr option \<times> 'w" where
  "runBlockers env put app =
     api_call env ''blockers'' (\<lambda>c. ac_GetApplicationsNamePromotions c app)
       (\<lambda>ps. renderPromotions put (blocked_to (env_Flag env ''to'') ps))"

definition notImplemented :: "string \<Rightarrow> goerr" where
  "notImplemented path = Opaque (path @ '': not implemented in this scaffold'')"

definition runVersion :: "'w stream \<Rightarrow> 'w \<Rightarrow> goerr option \<times> 'w" where
  "runVersion put w = Fprintln put ''keleustesctl 0.0.0 (scaffold)'' w"

section \<open>The matrix on the terminal\<close>

lemma matrix_cols_pairs:
  "matrix_cols m env = filter (\<lambda>(e, r). env = [] \<or> e = env) (map column_pair (oa_Matrix_Columns m))"
  by (simp add: matrix_cols_def filter_map comp_def column_pair_def)

lemma map_of_key_ex: "k \<in> fst ` set xs \<Longrightarrow> \<exists>v. map_of xs k = Some v"
  by (cases "map_of xs k") (auto simp: map_of_eq_None_iff)

lemma status_nonempty: "statusFromConditions kf cs \<noteq> []"
  by (simp add: statusFromConditions_def split: option.splits)

text \<open>In a row the cluster adapter makes, every column of the matrix finds its cell.\<close>

lemma matrix_index_row:
  assumes "c \<in> set cols"
  shows "\<exists>cell. matrix_index (oa_MatrixRow_Cells (matrixRow kf a cols)) (column_pair c) = Some cell \<and>
    matrixCellText cell = statusFromConditions kf (ApplicationStatus_Conditions (Application_Status a))"
proof -
  let ?cells = "oa_MatrixRow_Cells (matrixRow kf a cols)"
  let ?entries = "rev (map (\<lambda>c. ((deref_string (oa_MatrixCell_Env c), deref_string (oa_MatrixCell_Region c)), c)) ?cells)"
  have "fst ` set ?entries = column_pair ` set cols"
    by (simp add: matrixRow_def Let_def column_pair_def image_image)
  then have "column_pair c \<in> fst ` set ?entries" using assms by blast
  then have "\<exists>cell. map_of ?entries (column_pair c) = Some cell" by (rule map_of_key_ex)
  then obtain cell where cell: "map_of ?entries (column_pair c) = Some cell" by (rule exE)
  then have "cell \<in> set ?cells" using map_of_SomeD [OF cell] by auto
  then have "matrixCellText cell = statusFromConditions kf (ApplicationStatus_Conditions (Application_Status a))"
    by (auto simp: matrixRow_def Let_def matrixCellText_def status_nonempty)
  then show ?thesis using cell by (simp add: matrix_index_def)
qed

lemma matrix_row_adapter:
  assumes "set cols' \<subseteq> column_pair ` set cols"
  shows "matrix_row cols' (matrixRow kf a cols) =
    ObjectMeta_Name (Application_ObjectMeta a) #
    replicate (length cols') (statusFromConditions kf (ApplicationStatus_Conditions (Application_Status a)))"
proof -
  have "(case matrix_index (oa_MatrixRow_Cells (matrixRow kf a cols)) ck of
      Some cell \<Rightarrow> matrixCellText cell | None \<Rightarrow> ''-'') =
    statusFromConditions kf (ApplicationStatus_Conditions (Application_Status a))" if ck: "ck \<in> set cols'" for ck
  proof -
    obtain c where "c \<in> set cols" "ck = column_pair c" using ck assms by blast
    then show ?thesis using matrix_index_row [of c cols kf a] by auto
  qed
  then show ?thesis
    by (simp add: matrix_row_def matrixRow_def Let_def map_replicate_const [symmetric] cong: map_cong)
qed

lemma GetMatrix_shape:
  assumes "GetMatrix kf s now name = Inr m" "Cluster_Applications s = Inr apps" "Cluster_DeploymentTargets s = Inr targets"
  obtains shown where "oa_Matrix_Columns m = matrixColumns targets"
    and "oa_Matrix_Rows m = map (\<lambda>a. matrixRow kf a (matrixColumns targets)) shown"
    and "oa_Matrix_AsOf m = now"
    and "if name = ''all'' then shown = apps
      else \<exists>a. shown = [a] \<and> find (\<lambda>a. ObjectMeta_Name (Application_ObjectMeta a) = name) apps = Some a"
  using assms by (auto simp: GetMatrix_def Let_def split: option.splits if_splits)

section \<open>Claims\<close>

text \<open>C36: The fleet on the terminal.  The matrix comes from the cluster adapter, no environment
  name holds a NUL byte (the adapter's separator of environment and region), and the terminal
  takes all that is written.  Then the command prints the instant of the matrix and, when there
  is no application to show, that there is none; otherwise the table whose first line heads one
  column for each pair of environment and region that occurs among the targets, once and in
  order, restricted to the environment asked for, and which has a line for each application of
  the cluster, or for the one asked for, with its own status in every column, which is never
  blank.\<close>
theorem matrix_shows_fleet:
  assumes "GetMatrix kf s now name = Inr m"
    and "Cluster_Applications s = Inr apps" and "Cluster_DeploymentTargets s = Inr targets"
    and "\<forall>t \<in> set targets. CHR 0x00 \<notin> set (target_env t)"
  shows "\<exists>shown cols.
    (if name = ''all'' then shown = apps
     else \<exists>a. shown = [a] \<and> find (\<lambda>a. ObjectMeta_Name (Application_ObjectMeta a) = name) apps = Some a) \<and>
    sorted_wrt (<) cols \<and> set cols = {p \<in> env_region ` set targets. env = [] \<or> fst p = env} \<and>
    (\<forall>a. statusFromConditions kf (ApplicationStatus_Conditions (Application_Status a)) \<noteq> []) \<and>
    renderMatrix fmt (\<lambda>s out. (None, out @ s)) m env [] =
      (None, ''AS OF: '' @ fmt now @ newline @
        (if shown = [] then ''No resources found.'' @ newline
         else tab_layout (concat (map (\<lambda>l. join tab l @ newline)
           ((''APPLICATION'' # map (\<lambda>(e, r). matrixColumnHeader e r) cols) #
            map (\<lambda>a. ObjectMeta_Name (Application_ObjectMeta a) #
              replicate (length cols)
                (statusFromConditions kf (ApplicationStatus_Conditions (Application_Status a)))) shown)))))"
proof -
  obtain shown where m: "oa_Matrix_Columns m = matrixColumns targets"
    "oa_Matrix_Rows m = map (\<lambda>a. matrixRow kf a (matrixColumns targets)) shown" "oa_Matrix_AsOf m = now"
    and shown: "if name = ''all'' then shown = apps
      else \<exists>a. shown = [a] \<and> find (\<lambda>a. ObjectMeta_Name (Application_ObjectMeta a) = name) apps = Some a"
    by (rule GetMatrix_shape [OF assms(1-3)])
  have cols: "matrix_cols m env = filter (\<lambda>(e, r). env = [] \<or> e = env) (map column_pair (matrixColumns targets))"
    by (simp add: matrix_cols_pairs m(1))
  then have "set (matrix_cols m env) \<subseteq> column_pair ` set (matrixColumns targets)" by auto
  then have rows: "map (matrix_row (matrix_cols m env)) (oa_Matrix_Rows m) =
      map (\<lambda>a. ObjectMeta_Name (Application_ObjectMeta a) #
        replicate (length (matrix_cols m env))
          (statusFromConditions kf (ApplicationStatus_Conditions (Application_Status a)))) shown"
    by (simp add: m(2) matrix_row_adapter)
  have "map (matrix_row (matrix_cols m env)) (oa_Matrix_Rows m) = [] \<longleftrightarrow> shown = []" by (simp add: m(2))
  then have out: "renderMatrix fmt (\<lambda>s out. (None, out @ s)) m env [] =
      (None, ''AS OF: '' @ fmt now @ newline @
        (if shown = [] then ''No resources found.'' @ newline
         else tab_layout (concat (map (\<lambda>l. join tab l @ newline)
           ((''APPLICATION'' # map (\<lambda>(e, r). matrixColumnHeader e r) (matrix_cols m env)) #
            map (\<lambda>a. ObjectMeta_Name (Application_ObjectMeta a) #
              replicate (length (matrix_cols m env))
                (statusFromConditions kf (ApplicationStatus_Conditions (Application_Status a)))) shown)))))"
    unfolding renderMatrix_def Let_def printTable_def Fprintln_def print_lines_def matrix_headers_def rows m(3)
    by simp
  have "sorted_wrt (<) (matrix_cols m env)"
    unfolding cols by (rule sorted_wrt_filter) (rule matrixColumns_set(2) [OF assms(4)])
  moreover have "set (matrix_cols m env) = {p \<in> env_region ` set targets. env = [] \<or> fst p = env}"
    unfolding cols set_filter matrixColumns_set(1) [OF assms(4)] by (auto simp: env_region_def)
  ultimately show ?thesis using shown out status_nonempty by blast
qed

theorem matrix_shows_fleet_witness:
  "renderMatrix (\<lambda>_. ''now'') (\<lambda>s out. (None, out @ s))
     \<lparr>oa_Matrix_AsOf = 1, oa_Matrix_Columns = matrixColumns [sample_target ''t1'' ''prod'' ''a'' ''eu''],
      oa_Matrix_Rows = [matrixRow sample_fns sample_app (matrixColumns [sample_target ''t1'' ''prod'' ''a'' ''eu''])]\<rparr>
     ''prod'' []
   = (None, ''AS OF: '' @ ''now'' @ newline @ tab_layout (''APPLICATION'' @ tab @ ''PROD/EU'' @ newline @
       ObjectMeta_Name (Application_ObjectMeta sample_app) @ tab @
       statusFromConditions sample_fns (ApplicationStatus_Conditions (Application_Status sample_app)) @ newline))"
proof -
  let ?ts = "[sample_target ''t1'' ''prod'' ''a'' ''eu'']"
  let ?s = "sample_cluster\<lparr>Cluster_Applications := Inr [sample_app], Cluster_DeploymentTargets := Inr ?ts\<rparr>"
  let ?m = "\<lparr>oa_Matrix_AsOf = 1, oa_Matrix_Columns = matrixColumns ?ts,
     oa_Matrix_Rows = [matrixRow sample_fns sample_app (matrixColumns ?ts)]\<rparr>"
  have h: "GetMatrix sample_fns ?s 1 ''all'' = Inr ?m"
    "Cluster_Applications ?s = Inr [sample_app]" "Cluster_DeploymentTargets ?s = Inr ?ts"
    "\<forall>t \<in> set ?ts. CHR 0x00 \<notin> set (target_env t)"
    by (simp_all add: GetMatrix_def Let_def sample_target_def)
  have e: "{p \<in> env_region ` set ?ts. ''prod'' = [] \<or> fst p = ''prod''} = set [(''prod'', ''eu'')]"
    by (auto simp: env_region_def sample_target_def)
  have header: "matrixColumnHeader ''prod'' ''eu'' = ''PROD/EU''" by code_simp
  obtain cols where cols: "sorted_wrt (<) cols" "set cols = set [(''prod'', ''eu'')]"
    and out: "renderMatrix (\<lambda>_. ''now'') (\<lambda>s out. (None, out @ s)) ?m ''prod'' [] =
      (None, ''AS OF: '' @ ''now'' @ newline @ tab_layout (concat (map (\<lambda>l. join tab l @ newline)
         [''APPLICATION'' # map (\<lambda>(e, r). matrixColumnHeader e r) cols,
          ObjectMeta_Name (Application_ObjectMeta sample_app) # replicate (length cols)
            (statusFromConditions sample_fns (ApplicationStatus_Conditions (Application_Status sample_app)))])))"
    using matrix_shows_fleet [OF h, of "''prod''" "\<lambda>_. ''now''"] unfolding e
    by (elim exE conjE) (simp only: refl if_True list.distinct if_False list.map)
  have "cols = [(''prod'', ''eu'')]" using cols by (rule strict_sorted_equal [rotated]) simp
  then show ?thesis unfolding out by (simp add: header)
qed

end
