(* ===== verification/Net_Url.thy ===== *)
theory Net_Url
  imports Go_Errors "HOL-Library.AList"
begin

text \<open>
  What the sources use of \<^verbatim>\<open>net/url\<close>: percent escaping, parsing and printing a URL,
  resolving a relative reference, and query strings.  The path of a \<open>URL\<close> is kept in its
  escaped form, what \<^verbatim>\<open>EscapedPath\<close> returns; the authority (user and host) is kept as text,
  and its grammar, \<^verbatim>\<open>parseAuthority\<close>, is an argument.
\<close>

section \<open>Escaping\<close>

datatype encoding = encodePath | encodePathSegment | encodeQueryComponent | encodeFragment

definition is_letter :: "char \<Rightarrow> bool" where
  "is_letter c \<longleftrightarrow> (let n = (of_char c :: nat) in (65 \<le> n \<and> n \<le> 90) \<or> (97 \<le> n \<and> n \<le> 122))"

definition is_digit :: "char \<Rightarrow> bool" where
  "is_digit c \<longleftrightarrow> (let n = (of_char c :: nat) in 48 \<le> n \<and> n \<le> 57)"

definition shouldEscape :: "encoding \<Rightarrow> char \<Rightarrow> bool" where
  "shouldEscape m c =
     (if is_letter c \<or> is_digit c then False
      else if c \<in> set ''-_.~'' then False
      else if c \<in> set ''$&+,/:;=?@''
      then (case m of
              encodePath \<Rightarrow> c = CHR ''?''
            | encodePathSegment \<Rightarrow> c \<in> set ''/;,?''
            | encodeQueryComponent \<Rightarrow> True
            | encodeFragment \<Rightarrow> False)
      else \<not> (m = encodeFragment \<and> c \<in> set ''!()*''))"

definition upper_hex :: "nat \<Rightarrow> char" where
  "upper_hex n = (if n < 10 then char_of (n + 48) else char_of (n + 55))"

definition escape_char :: "encoding \<Rightarrow> char \<Rightarrow> string" where
  "escape_char m c =
     (if c = CHR '' '' \<and> m = encodeQueryComponent then ''+''
      else if shouldEscape m c
      then (let n = (of_char c :: nat) in [CHR ''%'', upper_hex (n div 16), upper_hex (n mod 16)])
      else [c])"

definition escape :: "encoding \<Rightarrow> string \<Rightarrow> string" where
  "escape m s = concat (map (escape_char m) s)"

definition unhex :: "char \<Rightarrow> nat option" where
  "unhex c = (let n = (of_char c :: nat) in
     if 48 \<le> n \<and> n \<le> 57 then Some (n - 48)
     else if 97 \<le> n \<and> n \<le> 102 then Some (n - 87)
     else if 65 \<le> n \<and> n \<le> 70 then Some (n - 55)
     else None)"

text \<open>\<^const>\<open>None\<close> is \<^verbatim>\<open>EscapeError\<close>: a percent sign not followed by two hex digits.\<close>

fun unescape :: "encoding \<Rightarrow> string \<Rightarrow> string option" where
  "unescape m [] = Some []"
| "unescape m (c # cs) =
     (if c = CHR ''%''
      then (case cs of
              h # l # cs' \<Rightarrow>
                (case (unhex h, unhex l) of
                   (Some a, Some b) \<Rightarrow> map_option (\<lambda>t. char_of (16 * a + b) # t) (unescape m cs')
                 | _ \<Rightarrow> None)
            | _ \<Rightarrow> None)
      else map_option (\<lambda>t. (if c = CHR ''+'' \<and> m = encodeQueryComponent then CHR '' '' else c) # t) (unescape m cs))"

text \<open>The bytes \<^verbatim>\<open>validEncoded\<close> lets stand in an escaped path or fragment.\<close>

definition validEncoded :: "encoding \<Rightarrow> string \<Rightarrow> bool" where
  "validEncoded m s \<longleftrightarrow> list_all (\<lambda>c. c \<in> set ''!$&()*+,;=:@[]%'' \<or> c = CHR 0x27 \<or> \<not> shouldEscape m c) s"

text \<open>
  \<^verbatim>\<open>setPath\<close> followed by \<^verbatim>\<open>EscapedPath\<close> (or the same for the fragment): the text as it was
  if it is a valid encoding, otherwise its contents encoded again.
\<close>

definition canonical :: "encoding \<Rightarrow> string \<Rightarrow> string option" where
  "canonical m s =
     (case unescape m s of
        None \<Rightarrow> None
      | Some t \<Rightarrow> Some (if validEncoded m s then s else escape m t))"

section \<open>URLs\<close>

record URL =
  URL_Scheme :: string
  URL_Opaque :: string
  URL_Host :: string
  URL_Path :: string
  URL_OmitHost :: bool
  URL_ForceQuery :: bool
  URL_RawQuery :: string
  URL_Fragment :: string

definition empty_URL :: URL where
  "empty_URL = \<lparr>URL_Scheme = [], URL_Opaque = [], URL_Host = [], URL_Path = [], URL_OmitHost = False,
     URL_ForceQuery = False, URL_RawQuery = [], URL_Fragment = []\<rparr>"

text \<open>\<^verbatim>\<open>strings.Cut\<close> at a byte.\<close>

definition cut :: "char \<Rightarrow> string \<Rightarrow> string \<times> string" where
  "cut d s = (takeWhile (\<lambda>c. c \<noteq> d) s, drop 1 (dropWhile (\<lambda>c. c \<noteq> d) s))"

definition is_scheme_char :: "char \<Rightarrow> bool" where
  "is_scheme_char c \<longleftrightarrow> is_letter c \<or> is_digit c \<or> c \<in> set ''+-.''"

definition getScheme :: "string \<Rightarrow> (goerr, string \<times> string) result" where
  "getScheme raw =
     (let pre = takeWhile is_scheme_char raw; rest = dropWhile is_scheme_char raw in
      if pre \<noteq> [] \<and> \<not> is_letter (hd pre) then Inr ([], raw)
      else (case rest of
              [] \<Rightarrow> Inr ([], raw)
            | c # rest' \<Rightarrow>
                if c \<noteq> CHR '':'' then Inr ([], raw)
                else if pre = [] then Inl (Opaque ''missing protocol scheme'')
                else Inr (pre, rest')))"

text \<open>The grammar of the authority: its printed form, or an error.\<close>

type_synonym authority_parser = "string \<Rightarrow> (goerr, string) result"

definition set_path :: "string \<Rightarrow> URL \<Rightarrow> (goerr, URL) result" where
  "set_path p u =
     (case canonical encodePath p of
        None \<Rightarrow> Inl (Opaque (''invalid URL escape '' @ go_quote p))
      | Some q \<Rightarrow> Inr (u\<lparr>URL_Path := q\<rparr>))"

definition split_query :: "string \<Rightarrow> string \<times> bool \<times> string" where
  "split_query rest =
     (if rest \<noteq> [] \<and> last rest = CHR ''?'' \<and> CHR ''?'' \<notin> set (butlast rest) then (butlast rest, True, [])
      else (let (a, b) = cut (CHR ''?'') rest in (a, False, b)))"

definition parse_hier :: "authority_parser \<Rightarrow> string \<Rightarrow> string \<Rightarrow> URL \<Rightarrow> (goerr, URL) result" where
  "parse_hier pa scheme rest u =
     (if (scheme \<noteq> [] \<or> \<not> has_prefix rest ''///'') \<and> has_prefix rest ''//''
      then (let authority = takeWhile (\<lambda>c. c \<noteq> CHR ''/'') (drop 2 rest);
                path = dropWhile (\<lambda>c. c \<noteq> CHR ''/'') (drop 2 rest)
            in case pa authority of
                 Inl err \<Rightarrow> Inl err
               | Inr host \<Rightarrow> set_path path (u\<lparr>URL_Host := host\<rparr>))
      else set_path rest (u\<lparr>URL_OmitHost := scheme \<noteq> [] \<and> has_prefix rest ''/''\<rparr>))"

definition parse_url :: "authority_parser \<Rightarrow> string \<Rightarrow> (goerr, URL) result" where
  "parse_url pa raw =
     (if \<not> list_all (\<lambda>c. 32 \<le> (of_char c :: nat) \<and> (of_char c :: nat) \<noteq> 127) raw
      then Inl (Opaque ''net/url: invalid control character in URL'')
      else if raw = ''*'' then Inr (empty_URL\<lparr>URL_Path := ''*''\<rparr>)
      else (case getScheme raw of
              Inl err \<Rightarrow> Inl err
            | Inr (scheme, rest0) \<Rightarrow>
                (let (rest, force, query) = split_query rest0;
                     u = empty_URL\<lparr>URL_Scheme := to_lower scheme, URL_ForceQuery := force, URL_RawQuery := query\<rparr>
                 in if \<not> has_prefix rest ''/'' \<and> scheme \<noteq> [] then Inr (u\<lparr>URL_Opaque := rest\<rparr>)
                    else if \<not> has_prefix rest ''/'' \<and> CHR '':'' \<in> set (fst (cut (CHR ''/'') rest))
                    then Inl (Opaque ''first path segment in URL cannot contain colon'')
                    else parse_hier pa scheme rest u)))"

definition url_Parse :: "authority_parser \<Rightarrow> string \<Rightarrow> (goerr, URL) result" where
  "url_Parse pa raw =
     (let (u, frag) = cut (CHR ''#'') raw in
      case parse_url pa u of
        Inl err \<Rightarrow> Inl (Wrapped (''parse '' @ go_quote u) err)
      | Inr url \<Rightarrow>
          if frag = [] then Inr url
          else (case canonical encodeFragment frag of
                  None \<Rightarrow> Inl (Wrapped (''parse '' @ go_quote raw) (Opaque (''invalid URL escape '' @ go_quote frag)))
                | Some f \<Rightarrow> Inr (url\<lparr>URL_Fragment := f\<rparr>)))"

definition url_String :: "URL \<Rightarrow> string" where
  "url_String u =
     (let scheme = (if URL_Scheme u = [] then [] else URL_Scheme u @ '':'');
          host = (if URL_Scheme u = [] \<and> URL_Host u = [] then []
                  else if URL_OmitHost u \<and> URL_Host u = [] then []
                  else if URL_Host u = [] \<and> URL_Path u = [] then []
                  else ''//'' @ URL_Host u);
          path = (if URL_Path u \<noteq> [] \<and> hd (URL_Path u) \<noteq> CHR ''/'' \<and> URL_Host u \<noteq> [] then ''/'' @ URL_Path u
                  else if scheme @ host = [] \<and> CHR '':'' \<in> set (fst (cut (CHR ''/'') (URL_Path u))) then ''./'' @ URL_Path u
                  else URL_Path u)
      in scheme @ (if URL_Opaque u \<noteq> [] then URL_Opaque u else host @ path) @
         (if URL_ForceQuery u \<or> URL_RawQuery u \<noteq> [] then ''?'' @ URL_RawQuery u else []) @
         (if URL_Fragment u \<noteq> [] then ''#'' @ URL_Fragment u else []))"

section \<open>References\<close>

fun resolve_loop :: "string list \<Rightarrow> bool \<Rightarrow> string \<Rightarrow> string" where
  "resolve_loop [] first dst = dst"
| "resolve_loop (elem # elems) first dst =
     (if elem = ''.'' then resolve_loop elems False dst
      else if elem = ''..''
      then (case last_index (CHR ''/'') (tl dst) of
              None \<Rightarrow> resolve_loop elems True ''/''
            | Some i \<Rightarrow> resolve_loop elems first (''/'' @ take i (tl dst)))
      else resolve_loop elems False ((if first then dst else dst @ ''/'') @ elem))"

definition up_to_slash :: "string \<Rightarrow> string" where
  "up_to_slash base = (case last_index (CHR ''/'') base of None \<Rightarrow> [] | Some i \<Rightarrow> take (Suc i) base)"

definition resolvePath :: "string \<Rightarrow> string \<Rightarrow> string" where
  "resolvePath base ref =
     (let full = (if ref = [] then base else if hd ref \<noteq> CHR ''/'' then up_to_slash base @ ref else ref) in
      if full = [] then []
      else (let elems = split_on (CHR ''/'') full;
                dst = resolve_loop elems True ''/'';
                r = (if last elems = ''.'' \<or> last elems = ''..'' then dst @ ''/'' else dst)
            in if has_prefix r ''//'' then tl r else r))"

text \<open>A path that cannot be set leaves the reference's own.\<close>

definition keep_path :: "string \<Rightarrow> URL \<Rightarrow> URL" where
  "keep_path p u = (case set_path p u of Inl _ \<Rightarrow> u | Inr u' \<Rightarrow> u')"

definition ResolveReference :: "URL \<Rightarrow> URL \<Rightarrow> URL" where
  "ResolveReference u ref =
     (let url = (if URL_Scheme ref = [] then ref\<lparr>URL_Scheme := URL_Scheme u\<rparr> else ref) in
      if URL_Scheme ref \<noteq> [] \<or> URL_Host ref \<noteq> [] then keep_path (resolvePath (URL_Path ref) []) url
      else if URL_Opaque ref \<noteq> [] then url\<lparr>URL_Host := [], URL_Path := []\<rparr>
      else (let url1 = (if URL_Path ref = [] \<and> \<not> URL_ForceQuery ref \<and> URL_RawQuery ref = []
                        then url\<lparr>URL_RawQuery := URL_RawQuery u,
                                 URL_Fragment := (if URL_Fragment ref = [] then URL_Fragment u else URL_Fragment ref)\<rparr>
                        else url)
            in if URL_Path ref = [] \<and> URL_Opaque u \<noteq> []
               then url1\<lparr>URL_Opaque := URL_Opaque u, URL_Host := [], URL_Path := []\<rparr>
               else keep_path (resolvePath (URL_Path u) (URL_Path ref)) (url1\<lparr>URL_Host := URL_Host u\<rparr>)))"

definition url_ParseRef :: "authority_parser \<Rightarrow> URL \<Rightarrow> string \<Rightarrow> (goerr, URL) result" where
  "url_ParseRef pa u ref = map_sum id (ResolveReference u) (url_Parse pa ref)"

section \<open>Query strings\<close>

type_synonym url_values = "(string \<times> string list) list"

definition add_value :: "string \<times> string \<Rightarrow> url_values \<Rightarrow> url_values" where
  "add_value kv q = AList.update (fst kv) ((case map_of q (fst kv) of None \<Rightarrow> [] | Some vs \<Rightarrow> vs) @ [snd kv]) q"

text \<open>A pair that cannot be read is dropped.\<close>

definition query_pair :: "string \<Rightarrow> (string \<times> string) option" where
  "query_pair s =
     (if CHR '';'' \<in> set s \<or> s = [] then None
      else (let (k, v) = cut (CHR ''='') s in
            case (unescape encodeQueryComponent k, unescape encodeQueryComponent v) of
              (Some k, Some v) \<Rightarrow> Some (k, v)
            | _ \<Rightarrow> None))"

definition parse_query :: "string \<Rightarrow> url_values" where
  "parse_query q = fold add_value (List.map_filter query_pair (split_on (CHR ''&'') q)) []"

definition encode_query :: "url_values \<Rightarrow> string" where
  "encode_query q =
     join ''&'' (concat (map (\<lambda>k. map (\<lambda>v. escape encodeQueryComponent k @ ''='' @ escape encodeQueryComponent v)
        (case map_of q k of None \<Rightarrow> [] | Some vs \<Rightarrow> vs)) (sort (map fst q))))"

section \<open>Escaping and unescaping\<close>

lemma unhex_upper_hex [simp]: "n < 16 \<Longrightarrow> unhex (upper_hex n) = Some n"
  by (auto simp: unhex_def upper_hex_def Let_def)

lemma of_char_bound: "(of_char c :: nat) < 256"
  by simp

lemma escape_Nil [simp]: "escape m [] = []"
  by (simp add: escape_def)

lemma escape_Cons: "escape m (c # s) = escape_char m c @ escape m s"
  by (simp add: escape_def)

lemma shouldEscape_percent [simp]: "shouldEscape m (CHR ''%'')"
  by (cases m) (simp_all add: shouldEscape_def is_letter_def is_digit_def)

lemma shouldEscape_plus [simp]: "shouldEscape encodeQueryComponent (CHR ''+'')"
  by (simp add: shouldEscape_def is_letter_def is_digit_def)

lemma unescape_escape_char: "unescape m (escape_char m c @ t) = map_option (\<lambda>s. c # s) (unescape m t)"
proof -
  have n: "(of_char c :: nat) div 16 < 16" "(of_char c :: nat) mod 16 < 16"
    using of_char_bound [of c] by (simp_all add: div_less_iff_less_mult)
  have "char_of (16 * ((of_char c :: nat) div 16) + (of_char c :: nat) mod 16) = c"
    by simp
  moreover have "\<not> shouldEscape m c \<Longrightarrow> c \<noteq> CHR ''%''" by auto
  moreover have "\<not> shouldEscape m c \<Longrightarrow> \<not> (c = CHR ''+'' \<and> m = encodeQueryComponent)" by auto
  ultimately show ?thesis using n by (auto simp: escape_char_def Let_def)
qed

text \<open>Unescaping undoes escaping.\<close>

lemma unescape_escape [simp]: "unescape m (escape m s) = Some s"
  by (induction s) (simp_all add: escape_Cons unescape_escape_char)

text \<open>The bytes an escaped text is made of.\<close>

definition plain :: "encoding \<Rightarrow> char \<Rightarrow> bool" where
  "plain m c \<longleftrightarrow> \<not> shouldEscape m c \<or> c = CHR ''%'' \<or> is_letter c \<or> is_digit c \<or> (m = encodeQueryComponent \<and> c = CHR ''+'')"

lemma upper_hex_plain: "n < 16 \<Longrightarrow> is_letter (upper_hex n) \<or> is_digit (upper_hex n)"
  by (auto simp: is_letter_def is_digit_def upper_hex_def Let_def)

lemma escape_char_plain: "c \<in> set (escape_char m d) \<Longrightarrow> plain m c"
proof -
  have n: "(of_char d :: nat) div 16 < 16" "(of_char d :: nat) mod 16 < 16"
    using of_char_bound [of d] by (simp_all add: div_less_iff_less_mult)
  have "plain m (upper_hex k)" if "k < 16" for k
    using upper_hex_plain [OF that] unfolding plain_def by blast
  moreover have "plain m (CHR ''%'')" by (simp add: plain_def)
  moreover have "m = encodeQueryComponent \<Longrightarrow> plain m (CHR ''+'')" by (simp add: plain_def)
  moreover have "\<not> shouldEscape m d \<Longrightarrow> plain m d" by (simp add: plain_def)
  ultimately show "c \<in> set (escape_char m d) \<Longrightarrow> plain m c"
    using n by (auto simp: escape_char_def Let_def simp del: shouldEscape_plus split: if_splits)
qed

lemma escape_plain: "c \<in> set (escape m s) \<Longrightarrow> plain m c"
  using escape_char_plain by (auto simp: escape_def)

lemma plain_cases:
  "plain m c \<Longrightarrow> is_letter c \<or> is_digit c \<or> c \<in> set ''-_.~$&+,/:;=?@!()*%''"
  unfolding plain_def shouldEscape_def by (auto split: if_splits)

lemma plain_range: "plain m c \<Longrightarrow> 32 < (of_char c :: nat) \<and> (of_char c :: nat) < 127"
proof -
  assume "plain m c"
  then consider "is_letter c" | "is_digit c" | "c \<in> set ''-_.~$&+,/:;=?@!()*%''" using plain_cases by blast
  then show ?thesis
  proof cases
    case 3
    have "list_all (\<lambda>c. 32 < (of_char c :: nat) \<and> (of_char c :: nat) < 127) ''-_.~$&+,/:;=?@!()*%''" by simp
    with 3 show ?thesis unfolding list_all_iff by blast
  qed (auto simp: is_letter_def is_digit_def Let_def)
qed

lemma not_plain_hash: "\<not> plain m (CHR ''#'')"
  by (simp add: plain_def shouldEscape_def is_letter_def is_digit_def)

lemma not_plain_query: "m \<noteq> encodeFragment \<Longrightarrow> \<not> plain m (CHR ''?'')"
  by (cases m) (simp_all add: plain_def shouldEscape_def is_letter_def is_digit_def)

lemma not_plain_segment: "\<not> plain encodePathSegment (CHR ''/'')" "\<not> plain encodePathSegment (CHR '';'')"
  by (simp_all add: plain_def shouldEscape_def is_letter_def is_digit_def)

lemma not_plain_component:
  "\<not> plain encodeQueryComponent (CHR ''&'')" "\<not> plain encodeQueryComponent (CHR ''='')"
  "\<not> plain encodeQueryComponent (CHR '';'')"
  by (simp_all add: plain_def shouldEscape_def is_letter_def is_digit_def)

lemma unescape_path_mode: "unescape encodePath s = unescape encodePathSegment s"
  by (induction encodePath s rule: unescape.induct) (auto split: list.splits option.splits)

lemma unescape_escape_append: "unescape m (escape m s @ t) = map_option (\<lambda>u. s @ u) (unescape m t)"
  by (induction s) (simp_all add: escape_Cons unescape_escape_char option.map_comp comp_def option.map_ident)

lemma unescape_segment [simp]: "unescape encodePath (escape encodePathSegment s @ t) = map_option (\<lambda>u. s @ u) (unescape encodePath t)"
  by (simp add: unescape_path_mode unescape_escape_append)

section \<open>Printing and parsing\<close>

lemma cut_absent: "d \<notin> set s \<Longrightarrow> cut d s = (s, [])"
  by (induction s) (auto simp: cut_def)

lemma cut_append: "d \<notin> set s \<Longrightarrow> cut d (s @ d # t) = (s, t)"
  by (induction s) (auto simp: cut_def)

text \<open>
  The URLs that survive printing: an absolute path in valid encoding, an authority the parser
  takes, and no byte of one part that would end it.
\<close>

definition clean :: "char set \<Rightarrow> string \<Rightarrow> bool" where
  "clean bad s \<longleftrightarrow> (\<forall>c \<in> set s. c \<notin> bad \<and> 32 \<le> (of_char c :: nat) \<and> (of_char c :: nat) \<noteq> 127)"

lemma clean_simps [simp]:
  "clean bad []"
  "clean bad (c # s) \<longleftrightarrow> c \<notin> bad \<and> 32 \<le> (of_char c :: nat) \<and> (of_char c :: nat) \<noteq> 127 \<and> clean bad s"
  "clean bad (s @ t) \<longleftrightarrow> clean bad s \<and> clean bad t"
  by (auto simp: clean_def)

lemma clean_mono: "clean A s \<Longrightarrow> B \<subseteq> A \<Longrightarrow> clean B s"
  unfolding clean_def by blast

lemma clean_absent: "clean bad s \<Longrightarrow> c \<in> bad \<Longrightarrow> c \<notin> set s"
  unfolding clean_def by blast

lemma clean_ctl: "clean bad s \<Longrightarrow> list_all (\<lambda>c. 32 \<le> (of_char c :: nat) \<and> (of_char c :: nat) \<noteq> 127) s"
  unfolding clean_def list_all_iff by blast

definition http_url :: "authority_parser \<Rightarrow> URL \<Rightarrow> bool" where
  "http_url pa u \<longleftrightarrow>
     URL_Scheme u \<noteq> [] \<and> list_all is_scheme_char (URL_Scheme u) \<and> is_letter (hd (URL_Scheme u)) \<and>
     to_lower (URL_Scheme u) = URL_Scheme u \<and>
     URL_Opaque u = [] \<and> \<not> URL_OmitHost u \<and> \<not> URL_ForceQuery u \<and> URL_Fragment u = [] \<and>
     URL_Host u \<noteq> [] \<and> clean (set ''/?#'') (URL_Host u) \<and> pa (URL_Host u) = Inr (URL_Host u) \<and>
     has_prefix (URL_Path u) ''/'' \<and> canonical encodePath (URL_Path u) = Some (URL_Path u) \<and>
     clean (set ''?#'') (URL_Path u) \<and> clean (set ''#'') (URL_RawQuery u)"

lemma scheme_char_clean: "is_scheme_char c \<Longrightarrow> c \<notin> set '':/?#'' \<and> 32 \<le> (of_char c :: nat) \<and> (of_char c :: nat) \<noteq> 127"
proof -
  assume "is_scheme_char c"
  then consider "is_letter c" | "is_digit c" | "c \<in> set ''+-.''" unfolding is_scheme_char_def by blast
  then show ?thesis
    by cases (auto simp: is_letter_def is_digit_def Let_def)
qed

lemma takeWhile_scheme:
  "list_all P s \<Longrightarrow> \<not> P d \<Longrightarrow> takeWhile P (s @ d # t) = s \<and> dropWhile P (s @ d # t) = d # t"
  by (induction s) auto

lemma url_Parse_String:
  assumes "http_url pa u"
  shows "url_Parse pa (url_String u) = Inr u"
proof -
  note w = assms [unfolded http_url_def]
  let ?s = "URL_Scheme u" and ?h = "URL_Host u" and ?p = "URL_Path u" and ?q = "URL_RawQuery u"
  obtain p' where p': "?p = CHR ''/'' # p'" using w by (auto simp: has_prefix_iff)
  define tl where "tl = (if ?q \<noteq> [] then CHR ''?'' # ?q else [])"
  have str: "url_String u = ?s @ CHR '':'' # (''//'' @ ?h @ ?p @ tl)"
    using w p' by (simp add: url_String_def tl_def Let_def)
  have "clean (set '':/?#'') ?s" using w scheme_char_clean unfolding clean_def list_all_iff by blast
  then have "clean {CHR ''#''} ?s" by (rule clean_mono) simp
  moreover have "clean {CHR ''#''} ?h" "clean {CHR ''#''} ?p" "clean {CHR ''#''} ?q"
    using w by (auto intro: clean_mono)
  ultimately have clean_u: "clean {CHR ''#''} (url_String u)" unfolding str tl_def by simp
  have hash: "CHR ''#'' \<notin> set (url_String u)" by (rule clean_absent [OF clean_u]) simp
  have ctl: "list_all (\<lambda>c. 32 \<le> (of_char c :: nat) \<and> (of_char c :: nat) \<noteq> 127) (url_String u)"
    by (rule clean_ctl [OF clean_u])
  have nostar: "url_String u \<noteq> ''*''" using w unfolding str by (cases ?s) auto
  have sch: "getScheme (url_String u) = Inr (?s, ''//'' @ ?h @ ?p @ tl)"
    using takeWhile_scheme [of is_scheme_char ?s "CHR '':''" "''//'' @ ?h @ ?p @ tl"] w
    unfolding str getScheme_def by (simp add: Let_def is_scheme_char_def is_letter_def is_digit_def)
  have "CHR ''?'' \<notin> set ?h" "CHR ''?'' \<notin> set ?p" "CHR ''/'' \<notin> set ?h"
    using w by (auto dest: clean_absent)
  then have noq: "CHR ''?'' \<notin> set (''//'' @ ?h @ ?p)" and noslash: "list_all (\<lambda>c. c \<noteq> CHR ''/'') ?h"
    by (auto simp: list_all_iff)
  have query: "split_query (''//'' @ ?h @ ?p @ tl) = (''//'' @ ?h @ ?p, False, ?q)"
  proof (cases "?q = []")
    case True
    then have "last (''//'' @ ?h @ ?p) \<noteq> CHR ''?''" using noq by (metis append_is_Nil_conv last_in_set list.distinct(1))
    then show ?thesis using True noq cut_absent [OF noq] by (simp add: split_query_def tl_def)
  next
    case False
    then have "CHR ''?'' \<in> set (butlast (''//'' @ ?h @ ?p @ tl))" by (simp add: tl_def butlast_append)
    then show ?thesis using False noq cut_append [OF noq, of ?q] by (simp add: split_query_def tl_def)
  qed
  have host: "takeWhile (\<lambda>c. c \<noteq> CHR ''/'') (?h @ ?p) = ?h" "dropWhile (\<lambda>c. c \<noteq> CHR ''/'') (?h @ ?p) = ?p"
    using takeWhile_scheme [of "\<lambda>c. c \<noteq> CHR ''/''" ?h "CHR ''/''" p'] noslash p' by simp_all
  have "parse_url pa (url_String u) = Inr u"
    using w ctl nostar sch query host p'
    by (simp add: parse_url_def parse_hier_def set_path_def Let_def empty_URL_def)
  then show ?thesis using cut_absent [OF hash] by (simp add: url_Parse_def)
qed

section \<open>Paths of escaped segments\<close>

text \<open>The path with the given segments, and what of it survives parsing and resolving.\<close>

definition seg_path :: "string list \<Rightarrow> string" where
  "seg_path segs = concat (map (\<lambda>s. CHR ''/'' # escape encodePathSegment s) segs)"

lemma seg_path_simps [simp]:
  "seg_path [] = []"
  "seg_path (s # segs) = CHR ''/'' # escape encodePathSegment s @ seg_path segs"
  by (simp_all add: seg_path_def)

lemma slash_not_special:
  "CHR ''/'' \<notin> {CHR ''?'', CHR ''#''}" "validEncoded encodePath (''/'')"
  by (simp_all add: validEncoded_def shouldEscape_def is_letter_def is_digit_def)

lemma clean_plain: "(\<And>c. c \<in> set s \<Longrightarrow> plain encodePathSegment c) \<Longrightarrow> clean (set ''?#'') s"
  unfolding clean_def
proof
  fix c assume plain: "\<And>c. c \<in> set s \<Longrightarrow> plain encodePathSegment c" and "c \<in> set s"
  then have "plain encodePathSegment c" by blast
  moreover from this have "c \<noteq> CHR ''#''" "c \<noteq> CHR ''?''" using not_plain_hash not_plain_query [of encodePathSegment] by auto
  ultimately show "c \<notin> set ''?#'' \<and> 32 \<le> (of_char c :: nat) \<and> (of_char c :: nat) \<noteq> 127"
    using plain_range [of encodePathSegment c] by auto
qed

lemma clean_seg_path: "clean (set ''?#'') (seg_path segs)"
proof (induction segs)
  case (Cons s segs)
  have "clean (set ''?#'') (escape encodePathSegment s)" by (rule clean_plain) (rule escape_plain)
  then show ?case using Cons by simp
qed simp

lemma shouldEscape_segment: "\<not> shouldEscape encodePathSegment c \<Longrightarrow> \<not> shouldEscape encodePath c"
  unfolding shouldEscape_def by (auto split: if_splits)

lemma validEncoded_append: "validEncoded m (s @ t) \<longleftrightarrow> validEncoded m s \<and> validEncoded m t"
  by (simp add: validEncoded_def)

lemma validEncoded_escape: "validEncoded encodePath (escape encodePathSegment s)"
proof -
  have "c \<in> set ''!$&()*+,;=:@[]%'' \<or> c = CHR 0x27 \<or> \<not> shouldEscape encodePath c" if "plain encodePathSegment c" for c
  proof -
    have "is_letter c \<or> is_digit c \<Longrightarrow> \<not> shouldEscape encodePath c" by (simp add: shouldEscape_def)
    then show ?thesis using that shouldEscape_segment unfolding plain_def by auto
  qed
  then show ?thesis using escape_plain unfolding validEncoded_def list_all_iff by blast
qed

lemma validEncoded_seg_path: "validEncoded encodePath (seg_path segs)"
proof (induction segs)
  case (Cons s segs)
  have "seg_path (s # segs) = ''/'' @ escape encodePathSegment s @ seg_path segs" by simp
  then show ?case using Cons validEncoded_escape slash_not_special(2) by (metis validEncoded_append)
qed (simp add: validEncoded_def)

lemma unescape_seg_path: "unescape encodePath (seg_path segs) = Some (concat (map (\<lambda>s. CHR ''/'' # s) segs))"
  by (induction segs) simp_all

lemma canonical_seg_path: "canonical encodePath (seg_path segs) = Some (seg_path segs)"
  by (simp add: canonical_def unescape_seg_path validEncoded_seg_path)

lemma no_slash_escape: "CHR ''/'' \<notin> set (escape encodePathSegment s)"
  using escape_plain not_plain_segment by blast

lemma split_seg_path: "CHR ''/'' \<notin> set t \<Longrightarrow> split_on (CHR ''/'') (t @ seg_path segs) = t # map (escape encodePathSegment) segs"
  by (induction segs arbitrary: t) (simp_all add: split_on_no_sep split_on_append no_slash_escape)

lemma escape_inject: "escape m s = escape m t \<longleftrightarrow> s = t"
  by (metis option.inject unescape_escape)

lemma escape_dots: "escape encodePathSegment s = ''.'' \<longleftrightarrow> s = ''.''" "escape encodePathSegment s = ''..'' \<longleftrightarrow> s = ''..''"
proof -
  have "escape encodePathSegment ''.'' = ''.''" "escape encodePathSegment ''..'' = ''..''"
    by (simp_all add: escape_def escape_char_def shouldEscape_def is_letter_def is_digit_def)
  then show "escape encodePathSegment s = ''.'' \<longleftrightarrow> s = ''.''" "escape encodePathSegment s = ''..'' \<longleftrightarrow> s = ''..''"
    by (metis escape_inject)+
qed

lemma eq_flip: "(s = t) = b \<Longrightarrow> (t = s) = b"
  by auto

lemma resolve_loop_plain:
  "''.'' \<notin> set elems \<Longrightarrow> ''..'' \<notin> set elems \<Longrightarrow>
   resolve_loop elems False dst = dst @ concat (map (\<lambda>e. CHR ''/'' # e) elems)"
  by (induction elems arbitrary: dst) auto

lemma resolve_loop_append:
  "resolve_loop (es @ fs) False dst = resolve_loop fs False (dst @ concat (map (\<lambda>e. CHR ''/'' # e) es))"
  if "''.'' \<notin> set es" "''..'' \<notin> set es"
  using that by (induction es arbitrary: dst) auto

text \<open>
  A relative reference of plain segments, resolved against a directory, is appended to it.
\<close>

lemma resolvePath_segments:
  assumes "''.'' \<notin> set base" "''..'' \<notin> set base" "''.'' \<notin> set segs" "''..'' \<notin> set segs" "segs \<noteq> []" "base \<noteq> []"
  shows "resolvePath (seg_path base @ ''/'') (''.'' @ seg_path segs) = seg_path (base @ segs)"
proof -
  let ?esc = "escape encodePathSegment"
  have "up_to_slash (seg_path base @ ''/'') = seg_path base @ ''/''"
    using last_index_cut [of "CHR ''/''" "[]" "seg_path base"] by (simp add: up_to_slash_def)
  then have full: "(if ''.'' @ seg_path segs = [] then seg_path base @ ''/''
      else if hd (''.'' @ seg_path segs) \<noteq> CHR ''/'' then up_to_slash (seg_path base @ ''/'') @ ''.'' @ seg_path segs
      else ''.'' @ seg_path segs) = seg_path (base @ [''.''] @ segs)"
    by (simp add: seg_path_def escape_def escape_char_def shouldEscape_def)
  have elems: "split_on (CHR ''/'') (seg_path (base @ [''.''] @ segs)) = [] # map ?esc base @ [''.''] @ map ?esc segs"
    using split_seg_path [of "[]" "base @ [''.''] @ segs"] escape_dots by simp
  have dots: "''.'' \<notin> ?esc ` set base" "''..'' \<notin> ?esc ` set base" "''.'' \<notin> ?esc ` set segs" "''..'' \<notin> ?esc ` set segs"
    using assms escape_dots [THEN eq_flip] by (simp_all add: image_iff)
  have cc: "concat (map (\<lambda>e. CHR ''/'' # e) (map ?esc xs)) = seg_path xs" for xs
    by (simp add: seg_path_def comp_def)
  have dst: "resolve_loop ([] # map ?esc base @ [''.''] @ map ?esc segs) True ''/'' = ''/'' @ seg_path (base @ segs)"
    using dots resolve_loop_append [of "map ?esc base" "[''.''] @ map ?esc segs" "''/''"]
      resolve_loop_plain [of "map ?esc segs"] by (simp add: cc) (simp add: seg_path_def comp_def)
  have "last (map ?esc segs) \<in> ?esc ` set segs" using assms(5) by (simp add: last_map)
  then have "last ([] # map ?esc base @ [''.''] @ map ?esc segs) \<notin> {''.'', ''..''}" using dots assms(5) by auto
  moreover have "seg_path (base @ segs) = CHR ''/'' # tl (seg_path (base @ segs))" using assms(6) by (cases base) auto
  ultimately show ?thesis
    unfolding resolvePath_def full elems Let_def dst
    using assms(6) by (cases base) (auto simp: seg_path_def)
qed

text \<open>A relative reference of such a path parses into itself.\<close>

lemma url_Parse_relative:
  assumes "segs \<noteq> []"
  shows "url_Parse pa (''.'' @ seg_path segs) = Inr (empty_URL\<lparr>URL_Path := ''.'' @ seg_path segs\<rparr>)"
proof -
  let ?r = "''.'' @ seg_path segs"
  have cl: "clean (set ''?#'') ?r" using clean_seg_path [of segs] by simp
  have hash: "CHR ''#'' \<notin> set ?r" and quest: "CHR ''?'' \<notin> set ?r"
    by (rule clean_absent [OF cl], simp)+
  have ctl: "list_all (\<lambda>c. 32 \<le> (of_char c :: nat) \<and> (of_char c :: nat) \<noteq> 127) ?r" by (rule clean_ctl [OF cl])
  obtain x where x: "seg_path segs = CHR ''/'' # x" using assms by (cases segs) auto
  have sch: "getScheme ?r = Inr ([], ?r)"
    unfolding x getScheme_def by (simp add: Let_def is_scheme_char_def is_letter_def is_digit_def)
  have "last ?r \<noteq> CHR ''?''" using quest by (metis append_is_Nil_conv last_in_set list.distinct(1))
  then have query: "split_query ?r = (?r, False, [])"
    unfolding split_query_def using cut_absent [OF quest] by simp
  have "canonical encodePath ?r = Some ?r"
    using unescape_seg_path [of segs] validEncoded_seg_path [of segs]
    by (simp add: canonical_def validEncoded_def shouldEscape_def)
  then have "set_path ?r u = Inr (u\<lparr>URL_Path := ?r\<rparr>)" for u by (simp add: set_path_def)
  then have "parse_hier pa [] ?r empty_URL = Inr (empty_URL\<lparr>URL_Path := ?r\<rparr>)"
    unfolding parse_hier_def by (simp add: empty_URL_def)
  then have "parse_url pa ?r = Inr (empty_URL\<lparr>URL_Path := ?r\<rparr>)"
    using ctl sch query x unfolding parse_url_def by (simp add: empty_URL_def cut_def to_lower_def)
  then show ?thesis using cut_absent [OF hash] by (simp add: url_Parse_def)
qed

lemma ResolveReference_segments:
  assumes "URL_Path u = seg_path base @ ''/''"
    and "''.'' \<notin> set base" "''..'' \<notin> set base" "''.'' \<notin> set segs" "''..'' \<notin> set segs" "segs \<noteq> []" "base \<noteq> []"
  shows "url_ParseRef pa u (''.'' @ seg_path segs) =
    Inr (empty_URL\<lparr>URL_Scheme := URL_Scheme u, URL_Host := URL_Host u, URL_Path := seg_path (base @ segs)\<rparr>)"
  unfolding url_ParseRef_def url_Parse_relative [OF assms(6)]
  using assms(1) resolvePath_segments [OF assms(2-7)] canonical_seg_path [of "base @ segs"]
  by (simp add: ResolveReference_def keep_path_def set_path_def empty_URL_def)

declare seg_path_simps [simp del]

section \<open>Query strings of styled parameters\<close>

definition query_name :: "string \<Rightarrow> bool" where
  "query_name n \<longleftrightarrow> n \<noteq> [] \<and> list_all (\<lambda>c. is_letter c \<or> is_digit c) n"

lemma name_char:
  "is_letter c \<or> is_digit c \<Longrightarrow> c \<notin> set ''#&=;%+'' \<and> 32 \<le> (of_char c :: nat) \<and> (of_char c :: nat) \<noteq> 127"
proof -
  assume "is_letter c \<or> is_digit c"
  then consider "is_letter c" | "is_digit c" by blast
  then show ?thesis by cases (auto simp: is_letter_def is_digit_def Let_def)
qed

lemma unescape_name: "list_all (\<lambda>c. is_letter c \<or> is_digit c) n \<Longrightarrow> unescape m n = Some n"
proof (induction n)
  case (Cons c n)
  then have "c \<noteq> CHR ''%''" "c \<noteq> CHR ''+''" using name_char [of c] by auto
  then show ?case using Cons by simp
qed simp

lemma clean_name: "query_name n \<Longrightarrow> clean (set ''#&=;%+'') n"
  unfolding query_name_def list_all_iff clean_def using name_char by blast

lemma name_clean: "query_name n \<Longrightarrow> CHR ''&'' \<notin> set n \<and> CHR ''='' \<notin> set n \<and> CHR '';'' \<notin> set n"
  using clean_absent [OF clean_name] by simp

definition fragment_of :: "string \<times> string \<Rightarrow> string" where
  "fragment_of nv = fst nv @ ''='' @ escape encodeQueryComponent (snd nv)"

lemma query_pair_fragment:
  assumes "query_name n"
  shows "query_pair (fragment_of (n, v)) = Some (n, v)"
proof -
  have "CHR '';'' \<notin> set (escape encodeQueryComponent v)" using escape_plain not_plain_component by blast
  moreover have "cut (CHR ''='') (n @ CHR ''='' # escape encodeQueryComponent v) = (n, escape encodeQueryComponent v)"
    using name_clean [OF assms] by (intro cut_append) simp
  ultimately show ?thesis
    using assms name_clean [OF assms] unescape_name [of n]
    by (auto simp: query_pair_def fragment_of_def query_name_def)
qed

lemma fragment_no_amp: "query_name n \<Longrightarrow> CHR ''&'' \<notin> set (fragment_of (n, v))"
  using escape_plain not_plain_component name_clean by (auto simp: fragment_of_def)

lemma parse_query_fragments:
  assumes "\<And>n v. (n, v) \<in> set ps \<Longrightarrow> query_name n"
  shows "parse_query (join ''&'' (map fragment_of ps)) = fold add_value ps []"
proof (cases "ps = []")
  case True
  then show ?thesis by (simp add: parse_query_def query_pair_def map_filter_def)
next
  case False
  have amp: "\<forall>x \<in> set (map fragment_of ps). CHR ''&'' \<notin> set x"
    using assms fragment_no_amp by fastforce
  have "query_pair (fragment_of p) = Some p" if "p \<in> set ps" for p
    using that assms [of "fst p" "snd p"] query_pair_fragment [of "fst p" "snd p"] by simp
  then have "List.map_filter query_pair (map fragment_of ps) = ps"
    by (induction ps) (simp_all add: map_filter_simps)
  then show ?thesis using split_on_join [OF _ amp] False by (simp add: parse_query_def)
qed

lemma map_of_add_value:
  "map_of (add_value (k, v) q) = (map_of q)(k \<mapsto> (case map_of q k of None \<Rightarrow> [] | Some vs \<Rightarrow> vs) @ [v])"
  by (simp add: add_value_def update_conv')

lemma map_of_fold_add_value:
  "distinct (map fst ps) \<Longrightarrow> (\<forall>n \<in> fst ` set ps. map_of q n = None) \<Longrightarrow>
   map_of (fold add_value ps q) n = (case map_of ps n of Some v \<Rightarrow> Some [v] | None \<Rightarrow> map_of q n)"
proof (induction ps arbitrary: q)
  case (Cons nv ps)
  obtain m v where nv: "nv = (m, v)" by (cases nv)
  have "\<forall>n \<in> fst ` set ps. map_of (add_value (m, v) q) n = None"
    using Cons.prems nv by (auto simp: map_of_add_value)
  moreover have "map_of ps m = None" using Cons.prems(1) nv by (simp add: map_of_eq_None_iff)
  ultimately show ?case using Cons nv by (auto simp: map_of_add_value split: option.splits)
qed simp

lemma map_of_parse_query:
  assumes "\<And>n v. (n, v) \<in> set ps \<Longrightarrow> query_name n" "distinct (map fst ps)"
  shows "map_of (parse_query (join ''&'' (map fragment_of ps))) n = map_option (\<lambda>v. [v]) (map_of ps n)"
  using map_of_fold_add_value [OF assms(2), of "[]" n] parse_query_fragments [OF assms(1)]
  by (auto split: option.splits)

lemma clean_join: "\<forall>x \<in> set xs. clean bad x \<Longrightarrow> clean bad sep \<Longrightarrow> clean bad (join sep xs)"
  by (induction sep xs rule: join.induct) auto

lemma clean_fragments:
  assumes "\<And>n v. (n, v) \<in> set ps \<Longrightarrow> query_name n"
  shows "clean (set ''#'') (join ''&'' (map fragment_of ps))"
proof -
  have "clean (set ''#'') (escape encodeQueryComponent v)" for v
    unfolding clean_def
  proof
    fix c assume "c \<in> set (escape encodeQueryComponent v)"
    then have "plain encodeQueryComponent c" by (rule escape_plain)
    then show "c \<notin> set ''#'' \<and> 32 \<le> (of_char c :: nat) \<and> (of_char c :: nat) \<noteq> 127"
      using plain_range [of encodeQueryComponent c] not_plain_hash by auto
  qed
  moreover have "clean (set ''#'') n" if "query_name n" for n
    by (rule clean_mono [OF clean_name [OF that]]) simp
  ultimately have "clean (set ''#'') (fragment_of p)" if "p \<in> set ps" for p
    using that assms [of "fst p" "snd p"] by (simp add: fragment_of_def)
  then have "\<forall>x \<in> set (map fragment_of ps). clean (set ''#'') x" by simp
  then show ?thesis by (rule clean_join) simp
qed

end
