(* ===== verification/Client_Requests.thy ===== *)
theory Client_Requests
  imports Openapi_Types Net_Url
begin

text \<open>
  The request builders of the generated client (\<^verbatim>\<open>internal/api/openapi/keleustes.gen.go\<close>,
  \<^verbatim>\<open>New...Request\<close>).  The parameter styling of \<^verbatim>\<open>oapi-codegen/runtime\<close> and the JSON encoder of
  the two request bodies are arguments, held in \<open>ClientLib\<close>.
\<close>

section \<open>Surroundings\<close>

datatype param_location = ParamLocationPath | ParamLocationQuery | ParamLocationHeader

datatype style_value = SVString string | SVTime time | SVInt int

record ClientLib =
  cb_parseAuthority :: authority_parser
  cb_StyleParam :: "string \<Rightarrow> bool \<Rightarrow> string \<Rightarrow> style_value \<Rightarrow> param_location \<Rightarrow> (goerr, string) result"
  cb_MarshalPromotionRequest :: "oa_PromotionRequest \<Rightarrow> (goerr, string) result"
  cb_MarshalApproveBody :: "oa_PostPromotionsIDApproveJSONBody \<Rightarrow> (goerr, string) result"

text \<open>What the client uses of \<^verbatim>\<open>*http.Request\<close>; the header is keyed by canonical names.\<close>

record ClientRequest =
  cr_Method :: string
  cr_URL :: URL
  cr_Header :: "(string \<times> string list) list"
  cr_Body :: string

text \<open>The early return on an error.\<close>

definition on_ok :: "('e, 'a) result \<Rightarrow> ('a \<Rightarrow> ('e, 'b) result) \<Rightarrow> ('e, 'b) result" where
  "on_ok r f = (case r of Inl err \<Rightarrow> Inl err | Inr x \<Rightarrow> f x)"

lemma on_ok_simps [simp]: "on_ok (Inl err) f = Inl err" "on_ok (Inr x) f = f x"
  by (simp_all add: on_ok_def)

definition http_NewRequest :: "ClientLib \<Rightarrow> string \<Rightarrow> string \<Rightarrow> string \<Rightarrow> (goerr, ClientRequest) result" where
  "http_NewRequest lib method url body =
     on_ok (url_Parse (cb_parseAuthority lib) url)
       (\<lambda>u. Inr \<lparr>cr_Method = method, cr_URL = u, cr_Header = [], cr_Body = body\<rparr>)"

definition header_add :: "string \<Rightarrow> string \<Rightarrow> ClientRequest \<Rightarrow> ClientRequest" where
  "header_add k v req = req\<lparr>cr_Header := add_value (k, v) (cr_Header req)\<rparr>"

definition header_set :: "string \<Rightarrow> string \<Rightarrow> ClientRequest \<Rightarrow> ClientRequest" where
  "header_set k v req = req\<lparr>cr_Header := AList.update k [v] (cr_Header req)\<rparr>"

section \<open>Parts every builder shares\<close>

text \<open>The operation's path, made relative, resolved against the server's URL.\<close>

definition operation_url :: "ClientLib \<Rightarrow> string \<Rightarrow> string \<Rightarrow> (goerr, URL) result" where
  "operation_url lib server operationPath =
     on_ok (url_Parse (cb_parseAuthority lib) server) (\<lambda>serverURL.
       url_ParseRef (cb_parseAuthority lib) serverURL
         (if has_prefix operationPath ''/'' then ''.'' @ operationPath else operationPath))"

fun styled_fragments :: "ClientLib \<Rightarrow> (string \<times> style_value option) list \<Rightarrow> (goerr, string list) result" where
  "styled_fragments lib [] = Inr []"
| "styled_fragments lib ((name, None) # ps) = styled_fragments lib ps"
| "styled_fragments lib ((name, Some v) # ps) =
     on_ok (cb_StyleParam lib ''form'' True name v ParamLocationQuery) (\<lambda>queryFrag.
     on_ok (styled_fragments lib ps) (\<lambda>frags. Inr (split_on (CHR ''&'') queryFrag @ frags)))"

definition set_query :: "ClientLib \<Rightarrow> URL \<Rightarrow> (string \<times> style_value option) list \<Rightarrow> (goerr, URL) result" where
  "set_query lib queryURL ps =
     on_ok (styled_fragments lib ps) (\<lambda>frags.
       let encoded = encode_query (parse_query (URL_RawQuery queryURL)) in
       Inr (queryURL\<lparr>URL_RawQuery := join ''&'' (frags @ (if encoded \<noteq> [] then [encoded] else []))\<rparr>))"

definition set_idempotency_key :: "ClientLib \<Rightarrow> string option \<Rightarrow> ClientRequest \<Rightarrow> (goerr, ClientRequest) result" where
  "set_idempotency_key lib key req =
     (case key of
        None \<Rightarrow> Inr req
      | Some key \<Rightarrow>
          on_ok (cb_StyleParam lib ''simple'' False ''Idempotency-Key'' (SVString key) ParamLocationHeader)
            (\<lambda>headerParam0. Inr (header_set ''Idempotency-Key'' headerParam0 req)))"

section \<open>The builders\<close>

definition NewGetApplicationsRequest :: "ClientLib \<Rightarrow> string \<Rightarrow> oa_GetApplicationsParams option \<Rightarrow> (goerr, ClientRequest) result" where
  "NewGetApplicationsRequest lib server params =
     on_ok (operation_url lib server ''/applications'') (\<lambda>queryURL.
     on_ok (case params of None \<Rightarrow> Inr queryURL | Some params \<Rightarrow> set_query lib queryURL
           [(''project'', map_option SVString (oa_GetApplicationsParams_Project params)),
            (''env'', map_option SVString (oa_GetApplicationsParams_Env params)),
            (''region'', map_option SVString (oa_GetApplicationsParams_Region params)),
            (''q'', map_option SVString (oa_GetApplicationsParams_Q params))]) (\<lambda>queryURL.
     http_NewRequest lib ''GET'' (url_String queryURL) []))"

definition NewGetApplicationsNameRequest :: "ClientLib \<Rightarrow> string \<Rightarrow> string \<Rightarrow> (goerr, ClientRequest) result" where
  "NewGetApplicationsNameRequest lib server name =
     on_ok (cb_StyleParam lib ''simple'' False ''name'' (SVString name) ParamLocationPath) (\<lambda>pathParam0.
     on_ok (operation_url lib server (''/applications/'' @ pathParam0)) (\<lambda>queryURL.
     http_NewRequest lib ''GET'' (url_String queryURL) []))"

definition NewGetApplicationsNameMatrixRequest :: "ClientLib \<Rightarrow> string \<Rightarrow> string \<Rightarrow> (goerr, ClientRequest) result" where
  "NewGetApplicationsNameMatrixRequest lib server name =
     on_ok (cb_StyleParam lib ''simple'' False ''name'' (SVString name) ParamLocationPath) (\<lambda>pathParam0.
     on_ok (operation_url lib server (''/applications/'' @ pathParam0 @ ''/matrix'')) (\<lambda>queryURL.
     http_NewRequest lib ''GET'' (url_String queryURL) []))"

definition NewGetApplicationsNamePromotionsRequest :: "ClientLib \<Rightarrow> string \<Rightarrow> string \<Rightarrow> (goerr, ClientRequest) result" where
  "NewGetApplicationsNamePromotionsRequest lib server name =
     on_ok (cb_StyleParam lib ''simple'' False ''name'' (SVString name) ParamLocationPath) (\<lambda>pathParam0.
     on_ok (operation_url lib server (''/applications/'' @ pathParam0 @ ''/promotions'')) (\<lambda>queryURL.
     http_NewRequest lib ''GET'' (url_String queryURL) []))"

definition NewGetApplicationsNameReleasesRequest :: "ClientLib \<Rightarrow> string \<Rightarrow> string \<Rightarrow> (goerr, ClientRequest) result" where
  "NewGetApplicationsNameReleasesRequest lib server name =
     on_ok (cb_StyleParam lib ''simple'' False ''name'' (SVString name) ParamLocationPath) (\<lambda>pathParam0.
     on_ok (operation_url lib server (''/applications/'' @ pathParam0 @ ''/releases'')) (\<lambda>queryURL.
     http_NewRequest lib ''GET'' (url_String queryURL) []))"

definition NewGetAuditRequest :: "ClientLib \<Rightarrow> string \<Rightarrow> oa_GetAuditParams option \<Rightarrow> (goerr, ClientRequest) result" where
  "NewGetAuditRequest lib server params =
     on_ok (operation_url lib server ''/audit'') (\<lambda>queryURL.
     on_ok (case params of None \<Rightarrow> Inr queryURL | Some params \<Rightarrow> set_query lib queryURL
           [(''resource'', map_option SVString (oa_GetAuditParams_Resource params)),
            (''actor'', map_option SVString (oa_GetAuditParams_Actor params)),
            (''verb'', map_option SVString (oa_GetAuditParams_Verb params)),
            (''from'', map_option SVTime (oa_GetAuditParams_From params)),
            (''to'', map_option SVTime (oa_GetAuditParams_To params)),
            (''limit'', map_option SVInt (oa_GetAuditParams_Limit params))]) (\<lambda>queryURL.
     http_NewRequest lib ''GET'' (url_String queryURL) []))"

definition NewGetDiffRequest :: "ClientLib \<Rightarrow> string \<Rightarrow> oa_GetDiffParams option \<Rightarrow> (goerr, ClientRequest) result" where
  "NewGetDiffRequest lib server params =
     on_ok (operation_url lib server ''/diff'') (\<lambda>queryURL.
     on_ok (case params of None \<Rightarrow> Inr queryURL | Some params \<Rightarrow> set_query lib queryURL
           [(''mode'', Some (SVString (oa_GetDiffParams_Mode params))),
            (''left'', map_option SVString (oa_GetDiffParams_Left params)),
            (''right'', map_option SVString (oa_GetDiffParams_Right params))]) (\<lambda>queryURL.
     http_NewRequest lib ''GET'' (url_String queryURL) []))"

definition NewGetEnvironmentsRequest :: "ClientLib \<Rightarrow> string \<Rightarrow> (goerr, ClientRequest) result" where
  "NewGetEnvironmentsRequest lib server =
     on_ok (operation_url lib server ''/environments'') (\<lambda>queryURL.
     http_NewRequest lib ''GET'' (url_String queryURL) [])"

definition NewGetPromotionsRequest :: "ClientLib \<Rightarrow> string \<Rightarrow> oa_GetPromotionsParams option \<Rightarrow> (goerr, ClientRequest) result" where
  "NewGetPromotionsRequest lib server params =
     on_ok (operation_url lib server ''/promotions'') (\<lambda>queryURL.
     on_ok (case params of None \<Rightarrow> Inr queryURL | Some params \<Rightarrow> set_query lib queryURL
           [(''state'', map_option SVString (oa_GetPromotionsParams_State params))]) (\<lambda>queryURL.
     http_NewRequest lib ''GET'' (url_String queryURL) []))"

definition NewPostPromotionsRequestWithBody :: "ClientLib \<Rightarrow> string \<Rightarrow> oa_PostPromotionsParams option \<Rightarrow> string \<Rightarrow> string \<Rightarrow> (goerr, ClientRequest) result" where
  "NewPostPromotionsRequestWithBody lib server params contentType body =
     on_ok (operation_url lib server ''/promotions'') (\<lambda>queryURL.
     on_ok (http_NewRequest lib ''POST'' (url_String queryURL) body) (\<lambda>req.
     set_idempotency_key lib (case params of None \<Rightarrow> None | Some p \<Rightarrow> oa_PostPromotionsParams_IdempotencyKey p)
       (header_add ''Content-Type'' contentType req)))"

definition NewPostPromotionsRequest :: "ClientLib \<Rightarrow> string \<Rightarrow> oa_PostPromotionsParams option \<Rightarrow> oa_PromotionRequest \<Rightarrow> (goerr, ClientRequest) result" where
  "NewPostPromotionsRequest lib server params body =
     on_ok (cb_MarshalPromotionRequest lib body) (\<lambda>buf. NewPostPromotionsRequestWithBody lib server params ''application/json'' buf)"

definition NewGetPromotionsIDRequest :: "ClientLib \<Rightarrow> string \<Rightarrow> string \<Rightarrow> (goerr, ClientRequest) result" where
  "NewGetPromotionsIDRequest lib server i =
     on_ok (cb_StyleParam lib ''simple'' False ''id'' (SVString i) ParamLocationPath) (\<lambda>pathParam0.
     on_ok (operation_url lib server (''/promotions/'' @ pathParam0)) (\<lambda>queryURL.
     http_NewRequest lib ''GET'' (url_String queryURL) []))"

definition NewPostPromotionsIDApproveRequestWithBody :: "ClientLib \<Rightarrow> string \<Rightarrow> string \<Rightarrow> oa_PostPromotionsIDApproveParams option \<Rightarrow> string \<Rightarrow> string \<Rightarrow> (goerr, ClientRequest) result" where
  "NewPostPromotionsIDApproveRequestWithBody lib server i params contentType body =
     on_ok (cb_StyleParam lib ''simple'' False ''id'' (SVString i) ParamLocationPath) (\<lambda>pathParam0.
     on_ok (operation_url lib server (''/promotions/'' @ pathParam0 @ ''/approve'')) (\<lambda>queryURL.
     on_ok (http_NewRequest lib ''POST'' (url_String queryURL) body) (\<lambda>req.
     set_idempotency_key lib (case params of None \<Rightarrow> None | Some p \<Rightarrow> oa_PostPromotionsIDApproveParams_IdempotencyKey p)
       (header_add ''Content-Type'' contentType req))))"

definition NewPostPromotionsIDApproveRequest :: "ClientLib \<Rightarrow> string \<Rightarrow> string \<Rightarrow> oa_PostPromotionsIDApproveParams option \<Rightarrow> oa_PostPromotionsIDApproveJSONBody \<Rightarrow> (goerr, ClientRequest) result" where
  "NewPostPromotionsIDApproveRequest lib server i params body =
     on_ok (cb_MarshalApproveBody lib body) (\<lambda>buf. NewPostPromotionsIDApproveRequestWithBody lib server i params ''application/json'' buf)"

definition NewPostPromotionsIDCancelRequest :: "ClientLib \<Rightarrow> string \<Rightarrow> string \<Rightarrow> oa_PostPromotionsIDCancelParams option \<Rightarrow> (goerr, ClientRequest) result" where
  "NewPostPromotionsIDCancelRequest lib server i params =
     on_ok (cb_StyleParam lib ''simple'' False ''id'' (SVString i) ParamLocationPath) (\<lambda>pathParam0.
     on_ok (operation_url lib server (''/promotions/'' @ pathParam0 @ ''/cancel'')) (\<lambda>queryURL.
     on_ok (http_NewRequest lib ''POST'' (url_String queryURL) []) (\<lambda>req.
     set_idempotency_key lib (case params of None \<Rightarrow> None | Some p \<Rightarrow> oa_PostPromotionsIDCancelParams_IdempotencyKey p)
       req)))"

definition NewPostPromotionsIDRetryRequest :: "ClientLib \<Rightarrow> string \<Rightarrow> string \<Rightarrow> oa_PostPromotionsIDRetryParams option \<Rightarrow> (goerr, ClientRequest) result" where
  "NewPostPromotionsIDRetryRequest lib server i params =
     on_ok (cb_StyleParam lib ''simple'' False ''id'' (SVString i) ParamLocationPath) (\<lambda>pathParam0.
     on_ok (operation_url lib server (''/promotions/'' @ pathParam0 @ ''/retry'')) (\<lambda>queryURL.
     on_ok (http_NewRequest lib ''POST'' (url_String queryURL) []) (\<lambda>req.
     set_idempotency_key lib (case params of None \<Rightarrow> None | Some p \<Rightarrow> oa_PostPromotionsIDRetryParams_IdempotencyKey p)
       req)))"

definition NewGetReleasesRequest :: "ClientLib \<Rightarrow> string \<Rightarrow> oa_GetReleasesParams option \<Rightarrow> (goerr, ClientRequest) result" where
  "NewGetReleasesRequest lib server params =
     on_ok (operation_url lib server ''/releases'') (\<lambda>queryURL.
     on_ok (case params of None \<Rightarrow> Inr queryURL | Some params \<Rightarrow> set_query lib queryURL
           [(''project'', map_option SVString (oa_GetReleasesParams_Project params))]) (\<lambda>queryURL.
     http_NewRequest lib ''GET'' (url_String queryURL) []))"

definition NewGetTargetsRequest :: "ClientLib \<Rightarrow> string \<Rightarrow> (goerr, ClientRequest) result" where
  "NewGetTargetsRequest lib server =
     on_ok (operation_url lib server ''/targets'') (\<lambda>queryURL.
     http_NewRequest lib ''GET'' (url_String queryURL) [])"

definition NewGetTargetsNameDriftRequest :: "ClientLib \<Rightarrow> string \<Rightarrow> string \<Rightarrow> (goerr, ClientRequest) result" where
  "NewGetTargetsNameDriftRequest lib server name =
     on_ok (cb_StyleParam lib ''simple'' False ''name'' (SVString name) ParamLocationPath) (\<lambda>pathParam0.
     on_ok (operation_url lib server (''/targets/'' @ pathParam0 @ ''/drift'')) (\<lambda>queryURL.
     http_NewRequest lib ''GET'' (url_String queryURL) []))"

definition NewGetTargetsNameHealthRequest :: "ClientLib \<Rightarrow> string \<Rightarrow> string \<Rightarrow> (goerr, ClientRequest) result" where
  "NewGetTargetsNameHealthRequest lib server name =
     on_ok (cb_StyleParam lib ''simple'' False ''name'' (SVString name) ParamLocationPath) (\<lambda>pathParam0.
     on_ok (operation_url lib server (''/targets/'' @ pathParam0 @ ''/health'')) (\<lambda>queryURL.
     http_NewRequest lib ''GET'' (url_String queryURL) []))"

end
