(* ===== verification/Api_Http.thy ===== *)
theory Api_Http
  imports Openapi_Types Go_Errors "HOL-Library.AList"
begin

text \<open>
  What the API server uses of \<^verbatim>\<open>net/http\<close>: a request, the response under construction,
  and handlers as functions on both.  The world of a request is the response writer, the
  status recorder of \<^verbatim>\<open>internal/api/server/middleware.go\<close> when one is wrapped around it,
  and the log.  The step relation \<open>http_step\<close> is what a handler may do to its writer; the
  invariant of the recorder is proved by rule induction over it.
\<close>

section \<open>Requests\<close>

record Identity =
  Identity_Type :: string
  Identity_Subject :: string
  Identity_SubjectID :: string
  Identity_Name :: string
  Identity_Email :: string
  Identity_IDP :: string
  Identity_Groups :: "string list"

text \<open>
  The path comes unescaped, as it was sent, and as its segments: what was sent, split at slashes
  and unescaped.  The header is keyed by canonical names; the two context values are those the
  middlewares stamp.
\<close>

record HttpRequest =
  Req_Method :: string
  Req_Path :: string
  Req_EscapedPath :: string
  Req_Segments :: "string list"
  Req_Header :: "(string \<times> string list) list"
  Req_RawQuery :: string
  Req_Query :: "(string \<times> string list) list"
  Req_Body :: string
  Req_ctxRequestID :: "string option"
  Req_ctxIdentity :: "Identity option"

definition header_get :: "HttpRequest \<Rightarrow> string \<Rightarrow> string" where
  "header_get r k =
     (case map_of (Req_Header r) k of
        None \<Rightarrow> []
      | Some vs \<Rightarrow> (case vs of [] \<Rightarrow> [] | v # _ \<Rightarrow> v))"

section \<open>The response\<close>

text \<open>A piece of body: a problem document, some other JSON value by its text, or raw text.\<close>

datatype body = BodyProblem oa_Problem | BodyJSON string | BodyText string

record Writer =
  w_header :: dict
  w_status :: "int option"
  w_sent :: dict
  w_body :: "body list"

record StatusRecorder =
  rec_status :: int
  rec_wroteHeader :: bool

datatype logline =
    AccessLog string string int string
  | ErrorLog goerr string string
  | PanicLog string string string

record World =
  wd_writer :: Writer
  wd_rec :: "StatusRecorder option"
  wd_log :: "logline list"

definition new_world :: World where
  "new_world = \<lparr>wd_writer = \<lparr>w_header = [], w_status = None, w_sent = [], w_body = []\<rparr>,
     wd_rec = None, wd_log = []\<rparr>"

text \<open>
  The server's own writer: the first status counts and freezes the header; writing a body
  first sends status 200.  Only final statuses are sent (an informational one would not count,
  an invalid one would panic).
\<close>

definition net_WriteHeader :: "int \<Rightarrow> Writer \<Rightarrow> Writer" where
  "net_WriteHeader code w =
     (if w_status w \<noteq> None then w else w\<lparr>w_status := Some code, w_sent := w_header w\<rparr>)"

definition net_Write :: "body \<Rightarrow> Writer \<Rightarrow> Writer" where
  "net_Write b w =
     (let w' = (if w_status w = None then net_WriteHeader 200 w else w)
      in w'\<lparr>w_body := w_body w' @ [b]\<rparr>)"

definition SetHeader :: "string \<Rightarrow> string \<Rightarrow> World \<Rightarrow> World" where
  "SetHeader k v wd = wd\<lparr>wd_writer := (wd_writer wd)\<lparr>w_header := AList.update k v (w_header (wd_writer wd))\<rparr>\<rparr>"

definition WriteHeader :: "int \<Rightarrow> World \<Rightarrow> World" where
  "WriteHeader code wd =
     (case wd_rec wd of
        None \<Rightarrow> wd\<lparr>wd_writer := net_WriteHeader code (wd_writer wd)\<rparr>
      | Some r \<Rightarrow>
          if rec_wroteHeader r then wd
          else wd\<lparr>wd_rec := Some (r\<lparr>rec_status := code, rec_wroteHeader := True\<rparr>),
                  wd_writer := net_WriteHeader code (wd_writer wd)\<rparr>)"

definition Write :: "body \<Rightarrow> World \<Rightarrow> World" where
  "Write b wd =
     (case wd_rec wd of
        None \<Rightarrow> wd\<lparr>wd_writer := net_Write b (wd_writer wd)\<rparr>
      | Some r \<Rightarrow> wd\<lparr>wd_rec := Some (r\<lparr>rec_wroteHeader := True\<rparr>),
                     wd_writer := net_Write b (wd_writer wd)\<rparr>)"

definition Log :: "logline \<Rightarrow> World \<Rightarrow> World" where
  "Log l wd = wd\<lparr>wd_log := wd_log wd @ [l]\<rparr>"

text \<open>The status on the wire once the handler has returned.\<close>

definition wire_status :: "Writer \<Rightarrow> int" where
  "wire_status w = (case w_status w of None \<Rightarrow> 200 | Some s \<Rightarrow> s)"

text \<open>A handler; the flag says that it panicked.\<close>

type_synonym http_handler = "HttpRequest \<Rightarrow> World \<Rightarrow> bool \<times> World"

section \<open>Steps of a handler\<close>

inductive http_step :: "World \<Rightarrow> World \<Rightarrow> bool" where
  step_header: "http_step wd (SetHeader k v wd)"
| step_status: "http_step wd (WriteHeader code wd)"
| step_body: "http_step wd (Write b wd)"
| step_log: "http_step wd (Log l wd)"

inductive_cases http_stepE: "http_step wd wd'"

abbreviation http_steps :: "World \<Rightarrow> World \<Rightarrow> bool" where
  "http_steps \<equiv> http_step\<^sup>*\<^sup>*"

lemma http_steps_intros [intro]:
  "http_steps wd wd' \<Longrightarrow> http_steps wd (SetHeader k v wd')"
  "http_steps wd wd' \<Longrightarrow> http_steps wd (WriteHeader code wd')"
  "http_steps wd wd' \<Longrightarrow> http_steps wd (Write b wd')"
  "http_steps wd wd' \<Longrightarrow> http_steps wd (Log l wd')"
  by (auto intro: rtranclp.rtrancl_into_rtrancl http_step.intros)

text \<open>
  The recorder agrees with the writer under it: it has seen a header exactly when the writer
  has one, and then shows its status; before, it shows 200.
\<close>

definition recorded_status :: "World \<Rightarrow> bool" where
  "recorded_status wd \<longleftrightarrow>
     (case wd_rec wd of
        None \<Rightarrow> True
      | Some r \<Rightarrow> (rec_wroteHeader r \<longleftrightarrow> w_status (wd_writer wd) \<noteq> None) \<and> rec_status r = wire_status (wd_writer wd))"

lemma recorded_status_step: "http_step wd wd' \<Longrightarrow> recorded_status wd \<Longrightarrow> recorded_status wd'"
  by (erule http_stepE)
    (auto simp: recorded_status_def SetHeader_def WriteHeader_def Write_def Log_def net_WriteHeader_def
      net_Write_def wire_status_def Let_def split: option.splits)

lemma recorded_status_steps: "http_steps wd wd' \<Longrightarrow> recorded_status wd \<Longrightarrow> recorded_status wd'"
  by (induction rule: rtranclp_induct) (auto intro: recorded_status_step)

lemma rec_kept: "http_steps wd wd' \<Longrightarrow> wd_rec wd' = None \<longleftrightarrow> wd_rec wd = None"
  by (induction rule: rtranclp_induct)
    (auto elim!: http_stepE simp: SetHeader_def WriteHeader_def Write_def Log_def split: option.splits if_splits)

text \<open>A status once sent, and the header sent with it, stay.\<close>

lemma sent_kept:
  "http_steps wd wd' \<Longrightarrow> w_status (wd_writer wd) = Some s \<Longrightarrow>
   w_status (wd_writer wd') = Some s \<and> w_sent (wd_writer wd') = w_sent (wd_writer wd)"
  by (induction rule: rtranclp_induct)
    (auto elim!: http_stepE simp: SetHeader_def WriteHeader_def Write_def Log_def net_WriteHeader_def net_Write_def Let_def
      split: option.splits if_splits)

end
