(* ===== verification/Api_Responses.thy ===== *)
theory Api_Responses
  imports Api_Http
begin

text \<open>
  The response objects of the generated server (\<^verbatim>\<open>internal/api/openapi/keleustes.gen.go\<close>):
  for each operation, one constructor for every status its contract documents, and the
  \<^verbatim>\<open>Visit\<close> method that writes it.  A response is first encoded into a buffer; only when
  that has succeeded is anything written.
\<close>

section \<open>Encoded values\<close>

text \<open>
  What is given to the JSON encoder: the bodies of the successful responses, and a problem
  document.  A struct that only embeds a problem has the problem's fields.
\<close>

datatype ApiResponse =
    RApplications "oa_Application list" time
  | RApplication oa_Application
  | RMatrix oa_Matrix
  | RPromotions "oa_Promotion list"
  | RReleases "oa_Release list"
  | RAudit "oa_AuditEvent list" "string option"
  | RDiff oa_Diff
  | REnvironments "oa_Environment list"
  | RPromotion oa_Promotion
  | RTargets "oa_DeploymentTarget list"
  | RHealth "oa_HealthCheck list"
  | RProblem oa_Problem

type_synonym encoder = "ApiResponse \<Rightarrow> (goerr, string) result"

definition write_buffered ::
  "encoder \<Rightarrow> ApiResponse \<Rightarrow> string \<Rightarrow> int \<Rightarrow> World \<Rightarrow> goerr option \<times> World" where
  "write_buffered enc payload ct code wd =
     (case enc payload of
        Inl err \<Rightarrow> (Some err, wd)
      | Inr buf \<Rightarrow> (None, Write (BodyJSON buf) (WriteHeader code (SetHeader ''Content-Type'' ct wd))))"

section \<open>Response objects\<close>

datatype GetApplicationsResponseObject =
    GetApplications200JSONResponse time "oa_Application list"
  | GetApplications400ApplicationProblemPlusJSONResponse oa_Problem
  | GetApplications401ApplicationProblemPlusJSONResponse oa_Problem
  | GetApplications403ApplicationProblemPlusJSONResponse oa_Problem
  | GetApplications500ApplicationProblemPlusJSONResponse oa_Problem
  | GetApplications503ApplicationProblemPlusJSONResponse oa_Problem

primrec VisitGetApplicationsResponse :: "encoder \<Rightarrow> GetApplicationsResponseObject \<Rightarrow> World \<Rightarrow> goerr option \<times> World" where
  "VisitGetApplicationsResponse enc (GetApplications200JSONResponse asOf items) wd =
     write_buffered enc (RApplications items asOf) ''application/json'' 200 wd"
| "VisitGetApplicationsResponse enc (GetApplications400ApplicationProblemPlusJSONResponse p) wd =
     write_buffered enc (RProblem p) ''application/problem+json'' 400 wd"
| "VisitGetApplicationsResponse enc (GetApplications401ApplicationProblemPlusJSONResponse p) wd =
     write_buffered enc (RProblem p) ''application/problem+json'' 401 wd"
| "VisitGetApplicationsResponse enc (GetApplications403ApplicationProblemPlusJSONResponse p) wd =
     write_buffered enc (RProblem p) ''application/problem+json'' 403 wd"
| "VisitGetApplicationsResponse enc (GetApplications500ApplicationProblemPlusJSONResponse p) wd =
     write_buffered enc (RProblem p) ''application/problem+json'' 500 wd"
| "VisitGetApplicationsResponse enc (GetApplications503ApplicationProblemPlusJSONResponse p) wd =
     write_buffered enc (RProblem p) ''application/problem+json'' 503 wd"

datatype GetApplicationsNameResponseObject =
    GetApplicationsName200JSONResponse oa_Application
  | GetApplicationsName400ApplicationProblemPlusJSONResponse oa_Problem
  | GetApplicationsName401ApplicationProblemPlusJSONResponse oa_Problem
  | GetApplicationsName403ApplicationProblemPlusJSONResponse oa_Problem
  | GetApplicationsName404ApplicationProblemPlusJSONResponse oa_Problem
  | GetApplicationsName500ApplicationProblemPlusJSONResponse oa_Problem
  | GetApplicationsName503ApplicationProblemPlusJSONResponse oa_Problem

primrec VisitGetApplicationsNameResponse :: "encoder \<Rightarrow> GetApplicationsNameResponseObject \<Rightarrow> World \<Rightarrow> goerr option \<times> World" where
  "VisitGetApplicationsNameResponse enc (GetApplicationsName200JSONResponse v) wd =
     write_buffered enc (RApplication v) ''application/json'' 200 wd"
| "VisitGetApplicationsNameResponse enc (GetApplicationsName400ApplicationProblemPlusJSONResponse p) wd =
     write_buffered enc (RProblem p) ''application/problem+json'' 400 wd"
| "VisitGetApplicationsNameResponse enc (GetApplicationsName401ApplicationProblemPlusJSONResponse p) wd =
     write_buffered enc (RProblem p) ''application/problem+json'' 401 wd"
| "VisitGetApplicationsNameResponse enc (GetApplicationsName403ApplicationProblemPlusJSONResponse p) wd =
     write_buffered enc (RProblem p) ''application/problem+json'' 403 wd"
| "VisitGetApplicationsNameResponse enc (GetApplicationsName404ApplicationProblemPlusJSONResponse p) wd =
     write_buffered enc (RProblem p) ''application/problem+json'' 404 wd"
| "VisitGetApplicationsNameResponse enc (GetApplicationsName500ApplicationProblemPlusJSONResponse p) wd =
     write_buffered enc (RProblem p) ''application/problem+json'' 500 wd"
| "VisitGetApplicationsNameResponse enc (GetApplicationsName503ApplicationProblemPlusJSONResponse p) wd =
     write_buffered enc (RProblem p) ''application/problem+json'' 503 wd"

datatype GetApplicationsNameMatrixResponseObject =
    GetApplicationsNameMatrix200JSONResponse oa_Matrix
  | GetApplicationsNameMatrix400ApplicationProblemPlusJSONResponse oa_Problem
  | GetApplicationsNameMatrix401ApplicationProblemPlusJSONResponse oa_Problem
  | GetApplicationsNameMatrix403ApplicationProblemPlusJSONResponse oa_Problem
  | GetApplicationsNameMatrix404ApplicationProblemPlusJSONResponse oa_Problem
  | GetApplicationsNameMatrix500ApplicationProblemPlusJSONResponse oa_Problem
  | GetApplicationsNameMatrix503ApplicationProblemPlusJSONResponse oa_Problem

primrec VisitGetApplicationsNameMatrixResponse :: "encoder \<Rightarrow> GetApplicationsNameMatrixResponseObject \<Rightarrow> World \<Rightarrow> goerr option \<times> World" where
  "VisitGetApplicationsNameMatrixResponse enc (GetApplicationsNameMatrix200JSONResponse v) wd =
     write_buffered enc (RMatrix v) ''application/json'' 200 wd"
| "VisitGetApplicationsNameMatrixResponse enc (GetApplicationsNameMatrix400ApplicationProblemPlusJSONResponse p) wd =
     write_buffered enc (RProblem p) ''application/problem+json'' 400 wd"
| "VisitGetApplicationsNameMatrixResponse enc (GetApplicationsNameMatrix401ApplicationProblemPlusJSONResponse p) wd =
     write_buffered enc (RProblem p) ''application/problem+json'' 401 wd"
| "VisitGetApplicationsNameMatrixResponse enc (GetApplicationsNameMatrix403ApplicationProblemPlusJSONResponse p) wd =
     write_buffered enc (RProblem p) ''application/problem+json'' 403 wd"
| "VisitGetApplicationsNameMatrixResponse enc (GetApplicationsNameMatrix404ApplicationProblemPlusJSONResponse p) wd =
     write_buffered enc (RProblem p) ''application/problem+json'' 404 wd"
| "VisitGetApplicationsNameMatrixResponse enc (GetApplicationsNameMatrix500ApplicationProblemPlusJSONResponse p) wd =
     write_buffered enc (RProblem p) ''application/problem+json'' 500 wd"
| "VisitGetApplicationsNameMatrixResponse enc (GetApplicationsNameMatrix503ApplicationProblemPlusJSONResponse p) wd =
     write_buffered enc (RProblem p) ''application/problem+json'' 503 wd"

datatype GetApplicationsNamePromotionsResponseObject =
    GetApplicationsNamePromotions200JSONResponse "oa_Promotion list"
  | GetApplicationsNamePromotions400ApplicationProblemPlusJSONResponse oa_Problem
  | GetApplicationsNamePromotions401ApplicationProblemPlusJSONResponse oa_Problem
  | GetApplicationsNamePromotions403ApplicationProblemPlusJSONResponse oa_Problem
  | GetApplicationsNamePromotions500ApplicationProblemPlusJSONResponse oa_Problem
  | GetApplicationsNamePromotions503ApplicationProblemPlusJSONResponse oa_Problem

primrec VisitGetApplicationsNamePromotionsResponse :: "encoder \<Rightarrow> GetApplicationsNamePromotionsResponseObject \<Rightarrow> World \<Rightarrow> goerr option \<times> World" where
  "VisitGetApplicationsNamePromotionsResponse enc (GetApplicationsNamePromotions200JSONResponse v) wd =
     write_buffered enc (RPromotions v) ''application/json'' 200 wd"
| "VisitGetApplicationsNamePromotionsResponse enc (GetApplicationsNamePromotions400ApplicationProblemPlusJSONResponse p) wd =
     write_buffered enc (RProblem p) ''application/problem+json'' 400 wd"
| "VisitGetApplicationsNamePromotionsResponse enc (GetApplicationsNamePromotions401ApplicationProblemPlusJSONResponse p) wd =
     write_buffered enc (RProblem p) ''application/problem+json'' 401 wd"
| "VisitGetApplicationsNamePromotionsResponse enc (GetApplicationsNamePromotions403ApplicationProblemPlusJSONResponse p) wd =
     write_buffered enc (RProblem p) ''application/problem+json'' 403 wd"
| "VisitGetApplicationsNamePromotionsResponse enc (GetApplicationsNamePromotions500ApplicationProblemPlusJSONResponse p) wd =
     write_buffered enc (RProblem p) ''application/problem+json'' 500 wd"
| "VisitGetApplicationsNamePromotionsResponse enc (GetApplicationsNamePromotions503ApplicationProblemPlusJSONResponse p) wd =
     write_buffered enc (RProblem p) ''application/problem+json'' 503 wd"

datatype GetApplicationsNameReleasesResponseObject =
    GetApplicationsNameReleases200JSONResponse "oa_Release list"
  | GetApplicationsNameReleases400ApplicationProblemPlusJSONResponse oa_Problem
  | GetApplicationsNameReleases401ApplicationProblemPlusJSONResponse oa_Problem
  | GetApplicationsNameReleases403ApplicationProblemPlusJSONResponse oa_Problem
  | GetApplicationsNameReleases500ApplicationProblemPlusJSONResponse oa_Problem
  | GetApplicationsNameReleases503ApplicationProblemPlusJSONResponse oa_Problem

primrec VisitGetApplicationsNameReleasesResponse :: "encoder \<Rightarrow> GetApplicationsNameReleasesResponseObject \<Rightarrow> World \<Rightarrow> goerr option \<times> World" where
  "VisitGetApplicationsNameReleasesResponse enc (GetApplicationsNameReleases200JSONResponse v) wd =
     write_buffered enc (RReleases v) ''application/json'' 200 wd"
| "VisitGetApplicationsNameReleasesResponse enc (GetApplicationsNameReleases400ApplicationProblemPlusJSONResponse p) wd =
     write_buffered enc (RProblem p) ''application/problem+json'' 400 wd"
| "VisitGetApplicationsNameReleasesResponse enc (GetApplicationsNameReleases401ApplicationProblemPlusJSONResponse p) wd =
     write_buffered enc (RProblem p) ''application/problem+json'' 401 wd"
| "VisitGetApplicationsNameReleasesResponse enc (GetApplicationsNameReleases403ApplicationProblemPlusJSONResponse p) wd =
     write_buffered enc (RProblem p) ''application/problem+json'' 403 wd"
| "VisitGetApplicationsNameReleasesResponse enc (GetApplicationsNameReleases500ApplicationProblemPlusJSONResponse p) wd =
     write_buffered enc (RProblem p) ''application/problem+json'' 500 wd"
| "VisitGetApplicationsNameReleasesResponse enc (GetApplicationsNameReleases503ApplicationProblemPlusJSONResponse p) wd =
     write_buffered enc (RProblem p) ''application/problem+json'' 503 wd"

datatype GetAuditResponseObject =
    GetAudit200JSONResponse "oa_AuditEvent list" "string option"
  | GetAudit400ApplicationProblemPlusJSONResponse oa_Problem
  | GetAudit401ApplicationProblemPlusJSONResponse oa_Problem
  | GetAudit403ApplicationProblemPlusJSONResponse oa_Problem
  | GetAudit500ApplicationProblemPlusJSONResponse oa_Problem
  | GetAudit503ApplicationProblemPlusJSONResponse oa_Problem

primrec VisitGetAuditResponse :: "encoder \<Rightarrow> GetAuditResponseObject \<Rightarrow> World \<Rightarrow> goerr option \<times> World" where
  "VisitGetAuditResponse enc (GetAudit200JSONResponse items nextCursor) wd =
     write_buffered enc (RAudit items nextCursor) ''application/json'' 200 wd"
| "VisitGetAuditResponse enc (GetAudit400ApplicationProblemPlusJSONResponse p) wd =
     write_buffered enc (RProblem p) ''application/problem+json'' 400 wd"
| "VisitGetAuditResponse enc (GetAudit401ApplicationProblemPlusJSONResponse p) wd =
     write_buffered enc (RProblem p) ''application/problem+json'' 401 wd"
| "VisitGetAuditResponse enc (GetAudit403ApplicationProblemPlusJSONResponse p) wd =
     write_buffered enc (RProblem p) ''application/problem+json'' 403 wd"
| "VisitGetAuditResponse enc (GetAudit500ApplicationProblemPlusJSONResponse p) wd =
     write_buffered enc (RProblem p) ''application/problem+json'' 500 wd"
| "VisitGetAuditResponse enc (GetAudit503ApplicationProblemPlusJSONResponse p) wd =
     write_buffered enc (RProblem p) ''application/problem+json'' 503 wd"

datatype GetDiffResponseObject =
    GetDiff200JSONResponse oa_Diff
  | GetDiff400ApplicationProblemPlusJSONResponse oa_Problem
  | GetDiff401ApplicationProblemPlusJSONResponse oa_Problem
  | GetDiff403ApplicationProblemPlusJSONResponse oa_Problem
  | GetDiff500ApplicationProblemPlusJSONResponse oa_Problem
  | GetDiff503ApplicationProblemPlusJSONResponse oa_Problem

primrec VisitGetDiffResponse :: "encoder \<Rightarrow> GetDiffResponseObject \<Rightarrow> World \<Rightarrow> goerr option \<times> World" where
  "VisitGetDiffResponse enc (GetDiff200JSONResponse v) wd =
     write_buffered enc (RDiff v) ''application/json'' 200 wd"
| "VisitGetDiffResponse enc (GetDiff400ApplicationProblemPlusJSONResponse p) wd =
     write_buffered enc (RProblem p) ''application/problem+json'' 400 wd"
| "VisitGetDiffResponse enc (GetDiff401ApplicationProblemPlusJSONResponse p) wd =
     write_buffered enc (RProblem p) ''application/problem+json'' 401 wd"
| "VisitGetDiffResponse enc (GetDiff403ApplicationProblemPlusJSONResponse p) wd =
     write_buffered enc (RProblem p) ''application/problem+json'' 403 wd"
| "VisitGetDiffResponse enc (GetDiff500ApplicationProblemPlusJSONResponse p) wd =
     write_buffered enc (RProblem p) ''application/problem+json'' 500 wd"
| "VisitGetDiffResponse enc (GetDiff503ApplicationProblemPlusJSONResponse p) wd =
     write_buffered enc (RProblem p) ''application/problem+json'' 503 wd"

datatype GetEnvironmentsResponseObject =
    GetEnvironments200JSONResponse "oa_Environment list"
  | GetEnvironments400ApplicationProblemPlusJSONResponse oa_Problem
  | GetEnvironments401ApplicationProblemPlusJSONResponse oa_Problem
  | GetEnvironments403ApplicationProblemPlusJSONResponse oa_Problem
  | GetEnvironments500ApplicationProblemPlusJSONResponse oa_Problem
  | GetEnvironments503ApplicationProblemPlusJSONResponse oa_Problem

primrec VisitGetEnvironmentsResponse :: "encoder \<Rightarrow> GetEnvironmentsResponseObject \<Rightarrow> World \<Rightarrow> goerr option \<times> World" where
  "VisitGetEnvironmentsResponse enc (GetEnvironments200JSONResponse v) wd =
     write_buffered enc (REnvironments v) ''application/json'' 200 wd"
| "VisitGetEnvironmentsResponse enc (GetEnvironments400ApplicationProblemPlusJSONResponse p) wd =
     write_buffered enc (RProblem p) ''application/problem+json'' 400 wd"
| "VisitGetEnvironmentsResponse enc (GetEnvironments401ApplicationProblemPlusJSONResponse p) wd =
     write_buffered enc (RProblem p) ''application/problem+json'' 401 wd"
| "VisitGetEnvironmentsResponse enc (GetEnvironments403ApplicationProblemPlusJSONResponse p) wd =
     write_buffered enc (RProblem p) ''application/problem+json'' 403 wd"
| "VisitGetEnvironmentsResponse enc (GetEnvironments500ApplicationProblemPlusJSONResponse p) wd =
     write_buffered enc (RProblem p) ''application/problem+json'' 500 wd"
| "VisitGetEnvironmentsResponse enc (GetEnvironments503ApplicationProblemPlusJSONResponse p) wd =
     write_buffered enc (RProblem p) ''application/problem+json'' 503 wd"

datatype GetPromotionsResponseObject =
    GetPromotions200JSONResponse "oa_Promotion list"
  | GetPromotions400ApplicationProblemPlusJSONResponse oa_Problem
  | GetPromotions401ApplicationProblemPlusJSONResponse oa_Problem
  | GetPromotions403ApplicationProblemPlusJSONResponse oa_Problem
  | GetPromotions500ApplicationProblemPlusJSONResponse oa_Problem
  | GetPromotions503ApplicationProblemPlusJSONResponse oa_Problem

primrec VisitGetPromotionsResponse :: "encoder \<Rightarrow> GetPromotionsResponseObject \<Rightarrow> World \<Rightarrow> goerr option \<times> World" where
  "VisitGetPromotionsResponse enc (GetPromotions200JSONResponse v) wd =
     write_buffered enc (RPromotions v) ''application/json'' 200 wd"
| "VisitGetPromotionsResponse enc (GetPromotions400ApplicationProblemPlusJSONResponse p) wd =
     write_buffered enc (RProblem p) ''application/problem+json'' 400 wd"
| "VisitGetPromotionsResponse enc (GetPromotions401ApplicationProblemPlusJSONResponse p) wd =
     write_buffered enc (RProblem p) ''application/problem+json'' 401 wd"
| "VisitGetPromotionsResponse enc (GetPromotions403ApplicationProblemPlusJSONResponse p) wd =
     write_buffered enc (RProblem p) ''application/problem+json'' 403 wd"
| "VisitGetPromotionsResponse enc (GetPromotions500ApplicationProblemPlusJSONResponse p) wd =
     write_buffered enc (RProblem p) ''application/problem+json'' 500 wd"
| "VisitGetPromotionsResponse enc (GetPromotions503ApplicationProblemPlusJSONResponse p) wd =
     write_buffered enc (RProblem p) ''application/problem+json'' 503 wd"

datatype PostPromotionsResponseObject =
    PostPromotions202JSONResponse oa_Promotion
  | PostPromotions400ApplicationProblemPlusJSONResponse oa_Problem
  | PostPromotions401ApplicationProblemPlusJSONResponse oa_Problem
  | PostPromotions403ApplicationProblemPlusJSONResponse oa_Problem
  | PostPromotions404ApplicationProblemPlusJSONResponse oa_Problem
  | PostPromotions409ApplicationProblemPlusJSONResponse oa_Problem
  | PostPromotions429ApplicationProblemPlusJSONResponse oa_Problem
  | PostPromotions500ApplicationProblemPlusJSONResponse oa_Problem
  | PostPromotions501ApplicationProblemPlusJSONResponse oa_Problem

primrec VisitPostPromotionsResponse :: "encoder \<Rightarrow> PostPromotionsResponseObject \<Rightarrow> World \<Rightarrow> goerr option \<times> World" where
  "VisitPostPromotionsResponse enc (PostPromotions202JSONResponse v) wd =
     write_buffered enc (RPromotion v) ''application/json'' 202 wd"
| "VisitPostPromotionsResponse enc (PostPromotions400ApplicationProblemPlusJSONResponse p) wd =
     write_buffered enc (RProblem p) ''application/problem+json'' 400 wd"
| "VisitPostPromotionsResponse enc (PostPromotions401ApplicationProblemPlusJSONResponse p) wd =
     write_buffered enc (RProblem p) ''application/problem+json'' 401 wd"
| "VisitPostPromotionsResponse enc (PostPromotions403ApplicationProblemPlusJSONResponse p) wd =
     write_buffered enc (RProblem p) ''application/problem+json'' 403 wd"
| "VisitPostPromotionsResponse enc (PostPromotions404ApplicationProblemPlusJSONResponse p) wd =
     write_buffered enc (RProblem p) ''application/problem+json'' 404 wd"
| "VisitPostPromotionsResponse enc (PostPromotions409ApplicationProblemPlusJSONResponse p) wd =
     write_buffered enc (RProblem p) ''application/problem+json'' 409 wd"
| "VisitPostPromotionsResponse enc (PostPromotions429ApplicationProblemPlusJSONResponse p) wd =
     write_buffered enc (RProblem p) ''application/problem+json'' 429 wd"
| "VisitPostPromotionsResponse enc (PostPromotions500ApplicationProblemPlusJSONResponse p) wd =
     write_buffered enc (RProblem p) ''application/problem+json'' 500 wd"
| "VisitPostPromotionsResponse enc (PostPromotions501ApplicationProblemPlusJSONResponse p) wd =
     write_buffered enc (RProblem p) ''application/problem+json'' 501 wd"

datatype GetPromotionsIDResponseObject =
    GetPromotionsID200JSONResponse oa_Promotion
  | GetPromotionsID400ApplicationProblemPlusJSONResponse oa_Problem
  | GetPromotionsID401ApplicationProblemPlusJSONResponse oa_Problem
  | GetPromotionsID403ApplicationProblemPlusJSONResponse oa_Problem
  | GetPromotionsID404ApplicationProblemPlusJSONResponse oa_Problem
  | GetPromotionsID500ApplicationProblemPlusJSONResponse oa_Problem
  | GetPromotionsID503ApplicationProblemPlusJSONResponse oa_Problem

primrec VisitGetPromotionsIDResponse :: "encoder \<Rightarrow> GetPromotionsIDResponseObject \<Rightarrow> World \<Rightarrow> goerr option \<times> World" where
  "VisitGetPromotionsIDResponse enc (GetPromotionsID200JSONResponse v) wd =
     write_buffered enc (RPromotion v) ''application/json'' 200 wd"
| "VisitGetPromotionsIDResponse enc (GetPromotionsID400ApplicationProblemPlusJSONResponse p) wd =
     write_buffered enc (RProblem p) ''application/problem+json'' 400 wd"
| "VisitGetPromotionsIDResponse enc (GetPromotionsID401ApplicationProblemPlusJSONResponse p) wd =
     write_buffered enc (RProblem p) ''application/problem+json'' 401 wd"
| "VisitGetPromotionsIDResponse enc (GetPromotionsID403ApplicationProblemPlusJSONResponse p) wd =
     write_buffered enc (RProblem p) ''application/problem+json'' 403 wd"
| "VisitGetPromotionsIDResponse enc (GetPromotionsID404ApplicationProblemPlusJSONResponse p) wd =
     write_buffered enc (RProblem p) ''application/problem+json'' 404 wd"
| "VisitGetPromotionsIDResponse enc (GetPromotionsID500ApplicationProblemPlusJSONResponse p) wd =
     write_buffered enc (RProblem p) ''application/problem+json'' 500 wd"
| "VisitGetPromotionsIDResponse enc (GetPromotionsID503ApplicationProblemPlusJSONResponse p) wd =
     write_buffered enc (RProblem p) ''application/problem+json'' 503 wd"

datatype PostPromotionsIDApproveResponseObject =
    PostPromotionsIDApprove200JSONResponse oa_Promotion
  | PostPromotionsIDApprove400ApplicationProblemPlusJSONResponse oa_Problem
  | PostPromotionsIDApprove401ApplicationProblemPlusJSONResponse oa_Problem
  | PostPromotionsIDApprove403ApplicationProblemPlusJSONResponse oa_Problem
  | PostPromotionsIDApprove404ApplicationProblemPlusJSONResponse oa_Problem
  | PostPromotionsIDApprove409ApplicationProblemPlusJSONResponse oa_Problem
  | PostPromotionsIDApprove429ApplicationProblemPlusJSONResponse oa_Problem
  | PostPromotionsIDApprove500ApplicationProblemPlusJSONResponse oa_Problem
  | PostPromotionsIDApprove501ApplicationProblemPlusJSONResponse oa_Problem

primrec VisitPostPromotionsIDApproveResponse :: "encoder \<Rightarrow> PostPromotionsIDApproveResponseObject \<Rightarrow> World \<Rightarrow> goerr option \<times> World" where
  "VisitPostPromotionsIDApproveResponse enc (PostPromotionsIDApprove200JSONResponse v) wd =
     write_buffered enc (RPromotion v) ''application/json'' 200 wd"
| "VisitPostPromotionsIDApproveResponse enc (PostPromotionsIDApprove400ApplicationProblemPlusJSONResponse p) wd =
     write_buffered enc (RProblem p) ''application/problem+json'' 400 wd"
| "VisitPostPromotionsIDApproveResponse enc (PostPromotionsIDApprove401ApplicationProblemPlusJSONResponse p) wd =
     write_buffered enc (RProblem p) ''application/problem+json'' 401 wd"
| "VisitPostPromotionsIDApproveResponse enc (PostPromotionsIDApprove403ApplicationProblemPlusJSONResponse p) wd =
     write_buffered enc (RProblem p) ''application/problem+json'' 403 wd"
| "VisitPostPromotionsIDApproveResponse enc (PostPromotionsIDApprove404ApplicationProblemPlusJSONResponse p) wd =
     write_buffered enc (RProblem p) ''application/problem+json'' 404 wd"
| "VisitPostPromotionsIDApproveResponse enc (PostPromotionsIDApprove409ApplicationProblemPlusJSONResponse p) wd =
     write_buffered enc (RProblem p) ''application/problem+json'' 409 wd"
| "VisitPostPromotionsIDApproveResponse enc (PostPromotionsIDApprove429ApplicationProblemPlusJSONResponse p) wd =
     write_buffered enc (RProblem p) ''application/problem+json'' 429 wd"
| "VisitPostPromotionsIDApproveResponse enc (PostPromotionsIDApprove500ApplicationProblemPlusJSONResponse p) wd =
     write_buffered enc (RProblem p) ''application/problem+json'' 500 wd"
| "VisitPostPromotionsIDApproveResponse enc (PostPromotionsIDApprove501ApplicationProblemPlusJSONResponse p) wd =
     write_buffered enc (RProblem p) ''application/problem+json'' 501 wd"

datatype PostPromotionsIDCancelResponseObject =
    PostPromotionsIDCancel202JSONResponse oa_Promotion
  | PostPromotionsIDCancel400ApplicationProblemPlusJSONResponse oa_Problem
  | PostPromotionsIDCancel401ApplicationProblemPlusJSONResponse oa_Problem
  | PostPromotionsIDCancel403ApplicationProblemPlusJSONResponse oa_Problem
  | PostPromotionsIDCancel404ApplicationProblemPlusJSONResponse oa_Problem
  | PostPromotionsIDCancel409ApplicationProblemPlusJSONResponse oa_Problem
  | PostPromotionsIDCancel429ApplicationProblemPlusJSONResponse oa_Problem
  | PostPromotionsIDCancel500ApplicationProblemPlusJSONResponse oa_Problem
  | PostPromotionsIDCancel501ApplicationProblemPlusJSONResponse oa_Problem

primrec VisitPostPromotionsIDCancelResponse :: "encoder \<Rightarrow> PostPromotionsIDCancelResponseObject \<Rightarrow> World \<Rightarrow> goerr option \<times> World" where
  "VisitPostPromotionsIDCancelResponse enc (PostPromotionsIDCancel202JSONResponse v) wd =
     write_buffered enc (RPromotion v) ''application/json'' 202 wd"
| "VisitPostPromotionsIDCancelResponse enc (PostPromotionsIDCancel400ApplicationProblemPlusJSONResponse p) wd =
     write_buffered enc (RProblem p) ''application/problem+json'' 400 wd"
| "VisitPostPromotionsIDCancelResponse enc (PostPromotionsIDCancel401ApplicationProblemPlusJSONResponse p) wd =
     write_buffered enc (RProblem p) ''application/problem+json'' 401 wd"
| "VisitPostPromotionsIDCancelResponse enc (PostPromotionsIDCancel403ApplicationProblemPlusJSONResponse p) wd =
     write_buffered enc (RProblem p) ''application/problem+json'' 403 wd"
| "VisitPostPromotionsIDCancelResponse enc (PostPromotionsIDCancel404ApplicationProblemPlusJSONResponse p) wd =
     write_buffered enc (RProblem p) ''application/problem+json'' 404 wd"
| "VisitPostPromotionsIDCancelResponse enc (PostPromotionsIDCancel409ApplicationProblemPlusJSONResponse p) wd =
     write_buffered enc (RProblem p) ''application/problem+json'' 409 wd"
| "VisitPostPromotionsIDCancelResponse enc (PostPromotionsIDCancel429ApplicationProblemPlusJSONResponse p) wd =
     write_buffered enc (RProblem p) ''application/problem+json'' 429 wd"
| "VisitPostPromotionsIDCancelResponse enc (PostPromotionsIDCancel500ApplicationProblemPlusJSONResponse p) wd =
     write_buffered enc (RProblem p) ''application/problem+json'' 500 wd"
| "VisitPostPromotionsIDCancelResponse enc (PostPromotionsIDCancel501ApplicationProblemPlusJSONResponse p) wd =
     write_buffered enc (RProblem p) ''application/problem+json'' 501 wd"

datatype PostPromotionsIDRetryResponseObject =
    PostPromotionsIDRetry202JSONResponse oa_Promotion
  | PostPromotionsIDRetry400ApplicationProblemPlusJSONResponse oa_Problem
  | PostPromotionsIDRetry401ApplicationProblemPlusJSONResponse oa_Problem
  | PostPromotionsIDRetry403ApplicationProblemPlusJSONResponse oa_Problem
  | PostPromotionsIDRetry404ApplicationProblemPlusJSONResponse oa_Problem
  | PostPromotionsIDRetry409ApplicationProblemPlusJSONResponse oa_Problem
  | PostPromotionsIDRetry429ApplicationProblemPlusJSONResponse oa_Problem
  | PostPromotionsIDRetry500ApplicationProblemPlusJSONResponse oa_Problem
  | PostPromotionsIDRetry501ApplicationProblemPlusJSONResponse oa_Problem

primrec VisitPostPromotionsIDRetryResponse :: "encoder \<Rightarrow> PostPromotionsIDRetryResponseObject \<Rightarrow> World \<Rightarrow> goerr option \<times> World" where
  "VisitPostPromotionsIDRetryResponse enc (PostPromotionsIDRetry202JSONResponse v) wd =
     write_buffered enc (RPromotion v) ''application/json'' 202 wd"
| "VisitPostPromotionsIDRetryResponse enc (PostPromotionsIDRetry400ApplicationProblemPlusJSONResponse p) wd =
     write_buffered enc (RProblem p) ''application/problem+json'' 400 wd"
| "VisitPostPromotionsIDRetryResponse enc (PostPromotionsIDRetry401ApplicationProblemPlusJSONResponse p) wd =
     write_buffered enc (RProblem p) ''application/problem+json'' 401 wd"
| "VisitPostPromotionsIDRetryResponse enc (PostPromotionsIDRetry403ApplicationProblemPlusJSONResponse p) wd =
     write_buffered enc (RProblem p) ''application/problem+json'' 403 wd"
| "VisitPostPromotionsIDRetryResponse enc (PostPromotionsIDRetry404ApplicationProblemPlusJSONResponse p) wd =
     write_buffered enc (RProblem p) ''application/problem+json'' 404 wd"
| "VisitPostPromotionsIDRetryResponse enc (PostPromotionsIDRetry409ApplicationProblemPlusJSONResponse p) wd =
     write_buffered enc (RProblem p) ''application/problem+json'' 409 wd"
| "VisitPostPromotionsIDRetryResponse enc (PostPromotionsIDRetry429ApplicationProblemPlusJSONResponse p) wd =
     write_buffered enc (RProblem p) ''application/problem+json'' 429 wd"
| "VisitPostPromotionsIDRetryResponse enc (PostPromotionsIDRetry500ApplicationProblemPlusJSONResponse p) wd =
     write_buffered enc (RProblem p) ''application/problem+json'' 500 wd"
| "VisitPostPromotionsIDRetryResponse enc (PostPromotionsIDRetry501ApplicationProblemPlusJSONResponse p) wd =
     write_buffered enc (RProblem p) ''application/problem+json'' 501 wd"

datatype GetReleasesResponseObject =
    GetReleases200JSONResponse "oa_Release list"
  | GetReleases400ApplicationProblemPlusJSONResponse oa_Problem
  | GetReleases401ApplicationProblemPlusJSONResponse oa_Problem
  | GetReleases403ApplicationProblemPlusJSONResponse oa_Problem
  | GetReleases500ApplicationProblemPlusJSONResponse oa_Problem
  | GetReleases503ApplicationProblemPlusJSONResponse oa_Problem

primrec VisitGetReleasesResponse :: "encoder \<Rightarrow> GetReleasesResponseObject \<Rightarrow> World \<Rightarrow> goerr option \<times> World" where
  "VisitGetReleasesResponse enc (GetReleases200JSONResponse v) wd =
     write_buffered enc (RReleases v) ''application/json'' 200 wd"
| "VisitGetReleasesResponse enc (GetReleases400ApplicationProblemPlusJSONResponse p) wd =
     write_buffered enc (RProblem p) ''application/problem+json'' 400 wd"
| "VisitGetReleasesResponse enc (GetReleases401ApplicationProblemPlusJSONResponse p) wd =
     write_buffered enc (RProblem p) ''application/problem+json'' 401 wd"
| "VisitGetReleasesResponse enc (GetReleases403ApplicationProblemPlusJSONResponse p) wd =
     write_buffered enc (RProblem p) ''application/problem+json'' 403 wd"
| "VisitGetReleasesResponse enc (GetReleases500ApplicationProblemPlusJSONResponse p) wd =
     write_buffered enc (RProblem p) ''application/problem+json'' 500 wd"
| "VisitGetReleasesResponse enc (GetReleases503ApplicationProblemPlusJSONResponse p) wd =
     write_buffered enc (RProblem p) ''application/problem+json'' 503 wd"

datatype GetTargetsResponseObject =
    GetTargets200JSONResponse "oa_DeploymentTarget list"
  | GetTargets400ApplicationProblemPlusJSONResponse oa_Problem
  | GetTargets401ApplicationProblemPlusJSONResponse oa_Problem
  | GetTargets403ApplicationProblemPlusJSONResponse oa_Problem
  | GetTargets500ApplicationProblemPlusJSONResponse oa_Problem
  | GetTargets503ApplicationProblemPlusJSONResponse oa_Problem

primrec VisitGetTargetsResponse :: "encoder \<Rightarrow> GetTargetsResponseObject \<Rightarrow> World \<Rightarrow> goerr option \<times> World" where
  "VisitGetTargetsResponse enc (GetTargets200JSONResponse v) wd =
     write_buffered enc (RTargets v) ''application/json'' 200 wd"
| "VisitGetTargetsResponse enc (GetTargets400ApplicationProblemPlusJSONResponse p) wd =
     write_buffered enc (RProblem p) ''application/problem+json'' 400 wd"
| "VisitGetTargetsResponse enc (GetTargets401ApplicationProblemPlusJSONResponse p) wd =
     write_buffered enc (RProblem p) ''application/problem+json'' 401 wd"
| "VisitGetTargetsResponse enc (GetTargets403ApplicationProblemPlusJSONResponse p) wd =
     write_buffered enc (RProblem p) ''application/problem+json'' 403 wd"
| "VisitGetTargetsResponse enc (GetTargets500ApplicationProblemPlusJSONResponse p) wd =
     write_buffered enc (RProblem p) ''application/problem+json'' 500 wd"
| "VisitGetTargetsResponse enc (GetTargets503ApplicationProblemPlusJSONResponse p) wd =
     write_buffered enc (RProblem p) ''application/problem+json'' 503 wd"

datatype GetTargetsNameDriftResponseObject =
    GetTargetsNameDrift200JSONResponse oa_Diff
  | GetTargetsNameDrift400ApplicationProblemPlusJSONResponse oa_Problem
  | GetTargetsNameDrift401ApplicationProblemPlusJSONResponse oa_Problem
  | GetTargetsNameDrift403ApplicationProblemPlusJSONResponse oa_Problem
  | GetTargetsNameDrift404ApplicationProblemPlusJSONResponse oa_Problem
  | GetTargetsNameDrift500ApplicationProblemPlusJSONResponse oa_Problem
  | GetTargetsNameDrift503ApplicationProblemPlusJSONResponse oa_Problem

primrec VisitGetTargetsNameDriftResponse :: "encoder \<Rightarrow> GetTargetsNameDriftResponseObject \<Rightarrow> World \<Rightarrow> goerr option \<times> World" where
  "VisitGetTargetsNameDriftResponse enc (GetTargetsNameDrift200JSONResponse v) wd =
     write_buffered enc (RDiff v) ''application/json'' 200 wd"
| "VisitGetTargetsNameDriftResponse enc (GetTargetsNameDrift400ApplicationProblemPlusJSONResponse p) wd =
     write_buffered enc (RProblem p) ''application/problem+json'' 400 wd"
| "VisitGetTargetsNameDriftResponse enc (GetTargetsNameDrift401ApplicationProblemPlusJSONResponse p) wd =
     write_buffered enc (RProblem p) ''application/problem+json'' 401 wd"
| "VisitGetTargetsNameDriftResponse enc (GetTargetsNameDrift403ApplicationProblemPlusJSONResponse p) wd =
     write_buffered enc (RProblem p) ''application/problem+json'' 403 wd"
| "VisitGetTargetsNameDriftResponse enc (GetTargetsNameDrift404ApplicationProblemPlusJSONResponse p) wd =
     write_buffered enc (RProblem p) ''application/problem+json'' 404 wd"
| "VisitGetTargetsNameDriftResponse enc (GetTargetsNameDrift500ApplicationProblemPlusJSONResponse p) wd =
     write_buffered enc (RProblem p) ''application/problem+json'' 500 wd"
| "VisitGetTargetsNameDriftResponse enc (GetTargetsNameDrift503ApplicationProblemPlusJSONResponse p) wd =
     write_buffered enc (RProblem p) ''application/problem+json'' 503 wd"

datatype GetTargetsNameHealthResponseObject =
    GetTargetsNameHealth200JSONResponse "oa_HealthCheck list"
  | GetTargetsNameHealth400ApplicationProblemPlusJSONResponse oa_Problem
  | GetTargetsNameHealth401ApplicationProblemPlusJSONResponse oa_Problem
  | GetTargetsNameHealth403ApplicationProblemPlusJSONResponse oa_Problem
  | GetTargetsNameHealth404ApplicationProblemPlusJSONResponse oa_Problem
  | GetTargetsNameHealth500ApplicationProblemPlusJSONResponse oa_Problem
  | GetTargetsNameHealth503ApplicationProblemPlusJSONResponse oa_Problem

primrec VisitGetTargetsNameHealthResponse :: "encoder \<Rightarrow> GetTargetsNameHealthResponseObject \<Rightarrow> World \<Rightarrow> goerr option \<times> World" where
  "VisitGetTargetsNameHealthResponse enc (GetTargetsNameHealth200JSONResponse v) wd =
     write_buffered enc (RHealth v) ''application/json'' 200 wd"
| "VisitGetTargetsNameHealthResponse enc (GetTargetsNameHealth400ApplicationProblemPlusJSONResponse p) wd =
     write_buffered enc (RProblem p) ''application/problem+json'' 400 wd"
| "VisitGetTargetsNameHealthResponse enc (GetTargetsNameHealth401ApplicationProblemPlusJSONResponse p) wd =
     write_buffered enc (RProblem p) ''application/problem+json'' 401 wd"
| "VisitGetTargetsNameHealthResponse enc (GetTargetsNameHealth403ApplicationProblemPlusJSONResponse p) wd =
     write_buffered enc (RProblem p) ''application/problem+json'' 403 wd"
| "VisitGetTargetsNameHealthResponse enc (GetTargetsNameHealth404ApplicationProblemPlusJSONResponse p) wd =
     write_buffered enc (RProblem p) ''application/problem+json'' 404 wd"
| "VisitGetTargetsNameHealthResponse enc (GetTargetsNameHealth500ApplicationProblemPlusJSONResponse p) wd =
     write_buffered enc (RProblem p) ''application/problem+json'' 500 wd"
| "VisitGetTargetsNameHealthResponse enc (GetTargetsNameHealth503ApplicationProblemPlusJSONResponse p) wd =
     write_buffered enc (RProblem p) ''application/problem+json'' 503 wd"

section \<open>What visiting does\<close>

text \<open>Every visit is one buffered write: nothing before the encoding has succeeded.\<close>

definition visits :: "(encoder \<Rightarrow> 'o \<Rightarrow> World \<Rightarrow> goerr option \<times> World) \<Rightarrow> bool" where
  "visits v \<longleftrightarrow> (\<forall>enc x wd. \<exists>p ct code. v enc x wd = write_buffered enc p ct code wd)"

lemma visitsI [intro]: "(\<And>enc x wd. \<exists>p ct code. v enc x wd = write_buffered enc p ct code wd) \<Longrightarrow> visits v"
  by (simp add: visits_def)

lemma visits_GetApplications [simp, intro]: "visits VisitGetApplicationsResponse"
proof
  fix enc x wd
  show "\<exists>p ct code. VisitGetApplicationsResponse enc x wd = write_buffered enc p ct code wd" by (cases x) auto
qed

lemma visits_GetApplicationsName [simp, intro]: "visits VisitGetApplicationsNameResponse"
proof
  fix enc x wd
  show "\<exists>p ct code. VisitGetApplicationsNameResponse enc x wd = write_buffered enc p ct code wd" by (cases x) auto
qed

lemma visits_GetApplicationsNameMatrix [simp, intro]: "visits VisitGetApplicationsNameMatrixResponse"
proof
  fix enc x wd
  show "\<exists>p ct code. VisitGetApplicationsNameMatrixResponse enc x wd = write_buffered enc p ct code wd" by (cases x) auto
qed

lemma visits_GetApplicationsNamePromotions [simp, intro]: "visits VisitGetApplicationsNamePromotionsResponse"
proof
  fix enc x wd
  show "\<exists>p ct code. VisitGetApplicationsNamePromotionsResponse enc x wd = write_buffered enc p ct code wd" by (cases x) auto
qed

lemma visits_GetApplicationsNameReleases [simp, intro]: "visits VisitGetApplicationsNameReleasesResponse"
proof
  fix enc x wd
  show "\<exists>p ct code. VisitGetApplicationsNameReleasesResponse enc x wd = write_buffered enc p ct code wd" by (cases x) auto
qed

lemma visits_GetAudit [simp, intro]: "visits VisitGetAuditResponse"
proof
  fix enc x wd
  show "\<exists>p ct code. VisitGetAuditResponse enc x wd = write_buffered enc p ct code wd" by (cases x) auto
qed

lemma visits_GetDiff [simp, intro]: "visits VisitGetDiffResponse"
proof
  fix enc x wd
  show "\<exists>p ct code. VisitGetDiffResponse enc x wd = write_buffered enc p ct code wd" by (cases x) auto
qed

lemma visits_GetEnvironments [simp, intro]: "visits VisitGetEnvironmentsResponse"
proof
  fix enc x wd
  show "\<exists>p ct code. VisitGetEnvironmentsResponse enc x wd = write_buffered enc p ct code wd" by (cases x) auto
qed

lemma visits_GetPromotions [simp, intro]: "visits VisitGetPromotionsResponse"
proof
  fix enc x wd
  show "\<exists>p ct code. VisitGetPromotionsResponse enc x wd = write_buffered enc p ct code wd" by (cases x) auto
qed

lemma visits_PostPromotions [simp, intro]: "visits VisitPostPromotionsResponse"
proof
  fix enc x wd
  show "\<exists>p ct code. VisitPostPromotionsResponse enc x wd = write_buffered enc p ct code wd" by (cases x) auto
qed

lemma visits_GetPromotionsID [simp, intro]: "visits VisitGetPromotionsIDResponse"
proof
  fix enc x wd
  show "\<exists>p ct code. VisitGetPromotionsIDResponse enc x wd = write_buffered enc p ct code wd" by (cases x) auto
qed

lemma visits_PostPromotionsIDApprove [simp, intro]: "visits VisitPostPromotionsIDApproveResponse"
proof
  fix enc x wd
  show "\<exists>p ct code. VisitPostPromotionsIDApproveResponse enc x wd = write_buffered enc p ct code wd" by (cases x) auto
qed

lemma visits_PostPromotionsIDCancel [simp, intro]: "visits VisitPostPromotionsIDCancelResponse"
proof
  fix enc x wd
  show "\<exists>p ct code. VisitPostPromotionsIDCancelResponse enc x wd = write_buffered enc p ct code wd" by (cases x) auto
qed

lemma visits_PostPromotionsIDRetry [simp, intro]: "visits VisitPostPromotionsIDRetryResponse"
proof
  fix enc x wd
  show "\<exists>p ct code. VisitPostPromotionsIDRetryResponse enc x wd = write_buffered enc p ct code wd" by (cases x) auto
qed

lemma visits_GetReleases [simp, intro]: "visits VisitGetReleasesResponse"
proof
  fix enc x wd
  show "\<exists>p ct code. VisitGetReleasesResponse enc x wd = write_buffered enc p ct code wd" by (cases x) auto
qed

lemma visits_GetTargets [simp, intro]: "visits VisitGetTargetsResponse"
proof
  fix enc x wd
  show "\<exists>p ct code. VisitGetTargetsResponse enc x wd = write_buffered enc p ct code wd" by (cases x) auto
qed

lemma visits_GetTargetsNameDrift [simp, intro]: "visits VisitGetTargetsNameDriftResponse"
proof
  fix enc x wd
  show "\<exists>p ct code. VisitGetTargetsNameDriftResponse enc x wd = write_buffered enc p ct code wd" by (cases x) auto
qed

lemma visits_GetTargetsNameHealth [simp, intro]: "visits VisitGetTargetsNameHealthResponse"
proof
  fix enc x wd
  show "\<exists>p ct code. VisitGetTargetsNameHealthResponse enc x wd = write_buffered enc p ct code wd" by (cases x) auto
qed

end
