(* ===== verification/Client_Responses.thy ===== *)
theory Client_Responses
  imports Api_Responses
begin

text \<open>
  The parsed responses of the generated client
  (\<^verbatim>\<open>internal/api/openapi/keleustes.gen.go\<close>): a struct per operation with one optional
  field for every documented status, its accessors, and the parser that fills the one field the
  status and the content type select.
\<close>

section \<open>Responses on the wire\<close>

text \<open>
  What the client uses of \<^verbatim>\<open>*http.Response\<close>; \<open>hr_Body\<close> is what reading the body to its
  end gives.  The header is keyed by canonical names.
\<close>

record HttpResponse =
  hr_Status :: string
  hr_StatusCode :: int
  hr_Header :: "(string \<times> string list) list"
  hr_Body :: "(goerr, string) result"

definition hr_header_get :: "HttpResponse \<Rightarrow> string \<Rightarrow> string" where
  "hr_header_get rsp k =
     (case map_of (hr_Header rsp) k of
        None \<Rightarrow> []
      | Some vs \<Rightarrow> (case vs of [] \<Rightarrow> [] | v # _ \<Rightarrow> v))"

text \<open>\<^verbatim>\<open>json.Unmarshal\<close> into each of the destination types.\<close>

record JsonDecoders =
  jd_ApplicationsPage :: "string \<Rightarrow> (goerr, time \<times> oa_Application list) result"
  jd_Application :: "string \<Rightarrow> (goerr, oa_Application) result"
  jd_Matrix :: "string \<Rightarrow> (goerr, oa_Matrix) result"
  jd_Promotions :: "string \<Rightarrow> (goerr, oa_Promotion list) result"
  jd_Releases :: "string \<Rightarrow> (goerr, oa_Release list) result"
  jd_AuditPage :: "string \<Rightarrow> (goerr, oa_AuditEvent list \<times> string option) result"
  jd_Diff :: "string \<Rightarrow> (goerr, oa_Diff) result"
  jd_Environments :: "string \<Rightarrow> (goerr, oa_Environment list) result"
  jd_Promotion :: "string \<Rightarrow> (goerr, oa_Promotion) result"
  jd_Targets :: "string \<Rightarrow> (goerr, oa_DeploymentTarget list) result"
  jd_Health :: "string \<Rightarrow> (goerr, oa_HealthCheck list) result"
  jd_Problem :: "string \<Rightarrow> (goerr, oa_Problem) result"

definition is_json :: "HttpResponse \<Rightarrow> int \<Rightarrow> bool" where
  "is_json rsp code \<longleftrightarrow> str_contains (hr_header_get rsp ''Content-Type'') ''json'' \<and> hr_StatusCode rsp = code"

text \<open>What all the accessors do; \<^verbatim>\<open>http.StatusText(0)\<close> is empty.\<close>

definition response_Status :: "HttpResponse option \<Rightarrow> string" where
  "response_Status rsp = (case rsp of None \<Rightarrow> [] | Some h \<Rightarrow> hr_Status h)"

definition response_StatusCode :: "HttpResponse option \<Rightarrow> int" where
  "response_StatusCode rsp = (case rsp of None \<Rightarrow> 0 | Some h \<Rightarrow> hr_StatusCode h)"

definition response_ContentType :: "HttpResponse option \<Rightarrow> string" where
  "response_ContentType rsp = (case rsp of None \<Rightarrow> [] | Some h \<Rightarrow> hr_header_get h ''Content-Type'')"

section \<open>The parsed responses\<close>

record GetApplicationsResponse =
  GetApplicationsResponse_Body :: string
  GetApplicationsResponse_HTTPResponse :: "HttpResponse option"
  GetApplicationsResponse_JSON200 :: "(time \<times> oa_Application list) option"
  GetApplicationsResponse_ApplicationProblemJSON400 :: "oa_Problem option"
  GetApplicationsResponse_ApplicationProblemJSON401 :: "oa_Problem option"
  GetApplicationsResponse_ApplicationProblemJSON403 :: "oa_Problem option"
  GetApplicationsResponse_ApplicationProblemJSON500 :: "oa_Problem option"
  GetApplicationsResponse_ApplicationProblemJSON503 :: "oa_Problem option"

record GetApplicationsNameResponse =
  GetApplicationsNameResponse_Body :: string
  GetApplicationsNameResponse_HTTPResponse :: "HttpResponse option"
  GetApplicationsNameResponse_JSON200 :: "oa_Application option"
  GetApplicationsNameResponse_ApplicationProblemJSON400 :: "oa_Problem option"
  GetApplicationsNameResponse_ApplicationProblemJSON401 :: "oa_Problem option"
  GetApplicationsNameResponse_ApplicationProblemJSON403 :: "oa_Problem option"
  GetApplicationsNameResponse_ApplicationProblemJSON404 :: "oa_Problem option"
  GetApplicationsNameResponse_ApplicationProblemJSON500 :: "oa_Problem option"
  GetApplicationsNameResponse_ApplicationProblemJSON503 :: "oa_Problem option"

record GetApplicationsNameMatrixResponse =
  GetApplicationsNameMatrixResponse_Body :: string
  GetApplicationsNameMatrixResponse_HTTPResponse :: "HttpResponse option"
  GetApplicationsNameMatrixResponse_JSON200 :: "oa_Matrix option"
  GetApplicationsNameMatrixResponse_ApplicationProblemJSON400 :: "oa_Problem option"
  GetApplicationsNameMatrixResponse_ApplicationProblemJSON401 :: "oa_Problem option"
  GetApplicationsNameMatrixResponse_ApplicationProblemJSON403 :: "oa_Problem option"
  GetApplicationsNameMatrixResponse_ApplicationProblemJSON404 :: "oa_Problem option"
  GetApplicationsNameMatrixResponse_ApplicationProblemJSON500 :: "oa_Problem option"
  GetApplicationsNameMatrixResponse_ApplicationProblemJSON503 :: "oa_Problem option"

record GetApplicationsNamePromotionsResponse =
  GetApplicationsNamePromotionsResponse_Body :: string
  GetApplicationsNamePromotionsResponse_HTTPResponse :: "HttpResponse option"
  GetApplicationsNamePromotionsResponse_JSON200 :: "oa_Promotion list option"
  GetApplicationsNamePromotionsResponse_ApplicationProblemJSON400 :: "oa_Problem option"
  GetApplicationsNamePromotionsResponse_ApplicationProblemJSON401 :: "oa_Problem option"
  GetApplicationsNamePromotionsResponse_ApplicationProblemJSON403 :: "oa_Problem option"
  GetApplicationsNamePromotionsResponse_ApplicationProblemJSON500 :: "oa_Problem option"
  GetApplicationsNamePromotionsResponse_ApplicationProblemJSON503 :: "oa_Problem option"

record GetApplicationsNameReleasesResponse =
  GetApplicationsNameReleasesResponse_Body :: string
  GetApplicationsNameReleasesResponse_HTTPResponse :: "HttpResponse option"
  GetApplicationsNameReleasesResponse_JSON200 :: "oa_Release list option"
  GetApplicationsNameReleasesResponse_ApplicationProblemJSON400 :: "oa_Problem option"
  GetApplicationsNameReleasesResponse_ApplicationProblemJSON401 :: "oa_Problem option"
  GetApplicationsNameReleasesResponse_ApplicationProblemJSON403 :: "oa_Problem option"
  GetApplicationsNameReleasesResponse_ApplicationProblemJSON500 :: "oa_Problem option"
  GetApplicationsNameReleasesResponse_ApplicationProblemJSON503 :: "oa_Problem option"

record GetAuditResponse =
  GetAuditResponse_Body :: string
  GetAuditResponse_HTTPResponse :: "HttpResponse option"
  GetAuditResponse_JSON200 :: "(oa_AuditEvent list \<times> string option) option"
  GetAuditResponse_ApplicationProblemJSON400 :: "oa_Problem option"
  GetAuditResponse_ApplicationProblemJSON401 :: "oa_Problem option"
  GetAuditResponse_ApplicationProblemJSON403 :: "oa_Problem option"
  GetAuditResponse_ApplicationProblemJSON500 :: "oa_Problem option"
  GetAuditResponse_ApplicationProblemJSON503 :: "oa_Problem option"

record GetDiffResponse =
  GetDiffResponse_Body :: string
  GetDiffResponse_HTTPResponse :: "HttpResponse option"
  GetDiffResponse_JSON200 :: "oa_Diff option"
  GetDiffResponse_ApplicationProblemJSON400 :: "oa_Problem option"
  GetDiffResponse_ApplicationProblemJSON401 :: "oa_Problem option"
  GetDiffResponse_ApplicationProblemJSON403 :: "oa_Problem option"
  GetDiffResponse_ApplicationProblemJSON500 :: "oa_Problem option"
  GetDiffResponse_ApplicationProblemJSON503 :: "oa_Problem option"

record GetEnvironmentsResponse =
  GetEnvironmentsResponse_Body :: string
  GetEnvironmentsResponse_HTTPResponse :: "HttpResponse option"
  GetEnvironmentsResponse_JSON200 :: "oa_Environment list option"
  GetEnvironmentsResponse_ApplicationProblemJSON400 :: "oa_Problem option"
  GetEnvironmentsResponse_ApplicationProblemJSON401 :: "oa_Problem option"
  GetEnvironmentsResponse_ApplicationProblemJSON403 :: "oa_Problem option"
  GetEnvironmentsResponse_ApplicationProblemJSON500 :: "oa_Problem option"
  GetEnvironmentsResponse_ApplicationProblemJSON503 :: "oa_Problem option"

record GetPromotionsResponse =
  GetPromotionsResponse_Body :: string
  GetPromotionsResponse_HTTPResponse :: "HttpResponse option"
  GetPromotionsResponse_JSON200 :: "oa_Promotion list option"
  GetPromotionsResponse_ApplicationProblemJSON400 :: "oa_Problem option"
  GetPromotionsResponse_ApplicationProblemJSON401 :: "oa_Problem option"
  GetPromotionsResponse_ApplicationProblemJSON403 :: "oa_Problem option"
  GetPromotionsResponse_ApplicationProblemJSON500 :: "oa_Problem option"
  GetPromotionsResponse_ApplicationProblemJSON503 :: "oa_Problem option"

record PostPromotionsResponse =
  PostPromotionsResponse_Body :: string
  PostPromotionsResponse_HTTPResponse :: "HttpResponse option"
  PostPromotionsResponse_JSON202 :: "oa_Promotion option"
  PostPromotionsResponse_ApplicationProblemJSON400 :: "oa_Problem option"
  PostPromotionsResponse_ApplicationProblemJSON401 :: "oa_Problem option"
  PostPromotionsResponse_ApplicationProblemJSON403 :: "oa_Problem option"
  PostPromotionsResponse_ApplicationProblemJSON404 :: "oa_Problem option"
  PostPromotionsResponse_ApplicationProblemJSON409 :: "oa_Problem option"
  PostPromotionsResponse_ApplicationProblemJSON429 :: "oa_Problem option"
  PostPromotionsResponse_ApplicationProblemJSON500 :: "oa_Problem option"
  PostPromotionsResponse_ApplicationProblemJSON501 :: "oa_Problem option"

record GetPromotionsIDResponse =
  GetPromotionsIDResponse_Body :: string
  GetPromotionsIDResponse_HTTPResponse :: "HttpResponse option"
  GetPromotionsIDResponse_JSON200 :: "oa_Promotion option"
  GetPromotionsIDResponse_ApplicationProblemJSON400 :: "oa_Problem option"
  GetPromotionsIDResponse_ApplicationProblemJSON401 :: "oa_Problem option"
  GetPromotionsIDResponse_ApplicationProblemJSON403 :: "oa_Problem option"
  GetPromotionsIDResponse_ApplicationProblemJSON404 :: "oa_Problem option"
  GetPromotionsIDResponse_ApplicationProblemJSON500 :: "oa_Problem option"
  GetPromotionsIDResponse_ApplicationProblemJSON503 :: "oa_Problem option"

record PostPromotionsIDApproveResponse =
  PostPromotionsIDApproveResponse_Body :: string
  PostPromotionsIDApproveResponse_HTTPResponse :: "HttpResponse option"
  PostPromotionsIDApproveResponse_JSON200 :: "oa_Promotion option"
  PostPromotionsIDApproveResponse_ApplicationProblemJSON400 :: "oa_Problem option"
  PostPromotionsIDApproveResponse_ApplicationProblemJSON401 :: "oa_Problem option"
  PostPromotionsIDApproveResponse_ApplicationProblemJSON403 :: "oa_Problem option"
  PostPromotionsIDApproveResponse_ApplicationProblemJSON404 :: "oa_Problem option"
  PostPromotionsIDApproveResponse_ApplicationProblemJSON409 :: "oa_Problem option"
  PostPromotionsIDApproveResponse_ApplicationProblemJSON429 :: "oa_Problem option"
  PostPromotionsIDApproveResponse_ApplicationProblemJSON500 :: "oa_Problem option"
  PostPromotionsIDApproveResponse_ApplicationProblemJSON501 :: "oa_Problem option"

record PostPromotionsIDCancelResponse =
  PostPromotionsIDCancelResponse_Body :: string
  PostPromotionsIDCancelResponse_HTTPResponse :: "HttpResponse option"
  PostPromotionsIDCancelResponse_JSON202 :: "oa_Promotion option"
  PostPromotionsIDCancelResponse_ApplicationProblemJSON400 :: "oa_Problem option"
  PostPromotionsIDCancelResponse_ApplicationProblemJSON401 :: "oa_Problem option"
  PostPromotionsIDCancelResponse_ApplicationProblemJSON403 :: "oa_Problem option"
  PostPromotionsIDCancelResponse_ApplicationProblemJSON404 :: "oa_Problem option"
  PostPromotionsIDCancelResponse_ApplicationProblemJSON409 :: "oa_Problem option"
  PostPromotionsIDCancelResponse_ApplicationProblemJSON429 :: "oa_Problem option"
  PostPromotionsIDCancelResponse_ApplicationProblemJSON500 :: "oa_Problem option"
  PostPromotionsIDCancelResponse_ApplicationProblemJSON501 :: "oa_Problem option"

record PostPromotionsIDRetryResponse =
  PostPromotionsIDRetryResponse_Body :: string
  PostPromotionsIDRetryResponse_HTTPResponse :: "HttpResponse option"
  PostPromotionsIDRetryResponse_JSON202 :: "oa_Promotion option"
  PostPromotionsIDRetryResponse_ApplicationProblemJSON400 :: "oa_Problem option"
  PostPromotionsIDRetryResponse_ApplicationProblemJSON401 :: "oa_Problem option"
  PostPromotionsIDRetryResponse_ApplicationProblemJSON403 :: "oa_Problem option"
  PostPromotionsIDRetryResponse_ApplicationProblemJSON404 :: "oa_Problem option"
  PostPromotionsIDRetryResponse_ApplicationProblemJSON409 :: "oa_Problem option"
  PostPromotionsIDRetryResponse_ApplicationProblemJSON429 :: "oa_Problem option"
  PostPromotionsIDRetryResponse_ApplicationProblemJSON500 :: "oa_Problem option"
  PostPromotionsIDRetryResponse_ApplicationProblemJSON501 :: "oa_Problem option"

record GetReleasesResponse =
  GetReleasesResponse_Body :: string
  GetReleasesResponse_HTTPResponse :: "HttpResponse option"
  GetReleasesResponse_JSON200 :: "oa_Release list option"
  GetReleasesResponse_ApplicationProblemJSON400 :: "oa_Problem option"
  GetReleasesResponse_ApplicationProblemJSON401 :: "oa_Problem option"
  GetReleasesResponse_ApplicationProblemJSON403 :: "oa_Problem option"
  GetReleasesResponse_ApplicationProblemJSON500 :: "oa_Problem option"
  GetReleasesResponse_ApplicationProblemJSON503 :: "oa_Problem option"

record GetTargetsResponse =
  GetTargetsResponse_Body :: string
  GetTargetsResponse_HTTPResponse :: "HttpResponse option"
  GetTargetsResponse_JSON200 :: "oa_DeploymentTarget list option"
  GetTargetsResponse_ApplicationProblemJSON400 :: "oa_Problem option"
  GetTargetsResponse_ApplicationProblemJSON401 :: "oa_Problem option"
  GetTargetsResponse_ApplicationProblemJSON403 :: "oa_Problem option"
  GetTargetsResponse_ApplicationProblemJSON500 :: "oa_Problem option"
  GetTargetsResponse_ApplicationProblemJSON503 :: "oa_Problem option"

record GetTargetsNameDriftResponse =
  GetTargetsNameDriftResponse_Body :: string
  GetTargetsNameDriftResponse_HTTPResponse :: "HttpResponse option"
  GetTargetsNameDriftResponse_JSON200 :: "oa_Diff option"
  GetTargetsNameDriftResponse_ApplicationProblemJSON400 :: "oa_Problem option"
  GetTargetsNameDriftResponse_ApplicationProblemJSON401 :: "oa_Problem option"
  GetTargetsNameDriftResponse_ApplicationProblemJSON403 :: "oa_Problem option"
  GetTargetsNameDriftResponse_ApplicationProblemJSON404 :: "oa_Problem option"
  GetTargetsNameDriftResponse_ApplicationProblemJSON500 :: "oa_Problem option"
  GetTargetsNameDriftResponse_ApplicationProblemJSON503 :: "oa_Problem option"

record GetTargetsNameHealthResponse =
  GetTargetsNameHealthResponse_Body :: string
  GetTargetsNameHealthResponse_HTTPResponse :: "HttpResponse option"
  GetTargetsNameHealthResponse_JSON200 :: "oa_HealthCheck list option"
  GetTargetsNameHealthResponse_ApplicationProblemJSON400 :: "oa_Problem option"
  GetTargetsNameHealthResponse_ApplicationProblemJSON401 :: "oa_Problem option"
  GetTargetsNameHealthResponse_ApplicationProblemJSON403 :: "oa_Problem option"
  GetTargetsNameHealthResponse_ApplicationProblemJSON404 :: "oa_Problem option"
  GetTargetsNameHealthResponse_ApplicationProblemJSON500 :: "oa_Problem option"
  GetTargetsNameHealthResponse_ApplicationProblemJSON503 :: "oa_Problem option"

section \<open>Accessors\<close>

definition GetApplicationsResponse_Status :: "GetApplicationsResponse \<Rightarrow> string" where
  "GetApplicationsResponse_Status r = response_Status (GetApplicationsResponse_HTTPResponse r)"

definition GetApplicationsResponse_StatusCode :: "GetApplicationsResponse \<Rightarrow> int" where
  "GetApplicationsResponse_StatusCode r = response_StatusCode (GetApplicationsResponse_HTTPResponse r)"

definition GetApplicationsResponse_ContentType :: "GetApplicationsResponse \<Rightarrow> string" where
  "GetApplicationsResponse_ContentType r = response_ContentType (GetApplicationsResponse_HTTPResponse r)"

definition GetApplicationsNameResponse_Status :: "GetApplicationsNameResponse \<Rightarrow> string" where
  "GetApplicationsNameResponse_Status r = response_Status (GetApplicationsNameResponse_HTTPResponse r)"

definition GetApplicationsNameResponse_StatusCode :: "GetApplicationsNameResponse \<Rightarrow> int" where
  "GetApplicationsNameResponse_StatusCode r = response_StatusCode (GetApplicationsNameResponse_HTTPResponse r)"

definition GetApplicationsNameResponse_ContentType :: "GetApplicationsNameResponse \<Rightarrow> string" where
  "GetApplicationsNameResponse_ContentType r = response_ContentType (GetApplicationsNameResponse_HTTPResponse r)"

definition GetApplicationsNameMatrixResponse_Status :: "GetApplicationsNameMatrixResponse \<Rightarrow> string" where
  "GetApplicationsNameMatrixResponse_Status r = response_Status (GetApplicationsNameMatrixResponse_HTTPResponse r)"

definition GetApplicationsNameMatrixResponse_StatusCode :: "GetApplicationsNameMatrixResponse \<Rightarrow> int" where
  "GetApplicationsNameMatrixResponse_StatusCode r = response_StatusCode (GetApplicationsNameMatrixResponse_HTTPResponse r)"

definition GetApplicationsNameMatrixResponse_ContentType :: "GetApplicationsNameMatrixResponse \<Rightarrow> string" where
  "GetApplicationsNameMatrixResponse_ContentType r = response_ContentType (GetApplicationsNameMatrixResponse_HTTPResponse r)"

definition GetApplicationsNamePromotionsResponse_Status :: "GetApplicationsNamePromotionsResponse \<Rightarrow> string" where
  "GetApplicationsNamePromotionsResponse_Status r = response_Status (GetApplicationsNamePromotionsResponse_HTTPResponse r)"

definition GetApplicationsNamePromotionsResponse_StatusCode :: "GetApplicationsNamePromotionsResponse \<Rightarrow> int" where
  "GetApplicationsNamePromotionsResponse_StatusCode r = response_StatusCode (GetApplicationsNamePromotionsResponse_HTTPResponse r)"

definition GetApplicationsNamePromotionsResponse_ContentType :: "GetApplicationsNamePromotionsResponse \<Rightarrow> string" where
  "GetApplicationsNamePromotionsResponse_ContentType r = response_ContentType (GetApplicationsNamePromotionsResponse_HTTPResponse r)"

definition GetApplicationsNameReleasesResponse_Status :: "GetApplicationsNameReleasesResponse \<Rightarrow> string" where
  "GetApplicationsNameReleasesResponse_Status r = response_Status (GetApplicationsNameReleasesResponse_HTTPResponse r)"

definition GetApplicationsNameReleasesResponse_StatusCode :: "GetApplicationsNameReleasesResponse \<Rightarrow> int" where
  "GetApplicationsNameReleasesResponse_StatusCode r = response_StatusCode (GetApplicationsNameReleasesResponse_HTTPResponse r)"

definition GetApplicationsNameReleasesResponse_ContentType :: "GetApplicationsNameReleasesResponse \<Rightarrow> string" where
  "GetApplicationsNameReleasesResponse_ContentType r = response_ContentType (GetApplicationsNameReleasesResponse_HTTPResponse r)"

definition GetAuditResponse_Status :: "GetAuditResponse \<Rightarrow> string" where
  "GetAuditResponse_Status r = response_Status (GetAuditResponse_HTTPResponse r)"

definition GetAuditResponse_StatusCode :: "GetAuditResponse \<Rightarrow> int" where
  "GetAuditResponse_StatusCode r = response_StatusCode (GetAuditResponse_HTTPResponse r)"

definition GetAuditResponse_ContentType :: "GetAuditResponse \<Rightarrow> string" where
  "GetAuditResponse_ContentType r = response_ContentType (GetAuditResponse_HTTPResponse r)"

definition GetDiffResponse_Status :: "GetDiffResponse \<Rightarrow> string" where
  "GetDiffResponse_Status r = response_Status (GetDiffResponse_HTTPResponse r)"

definition GetDiffResponse_StatusCode :: "GetDiffResponse \<Rightarrow> int" where
  "GetDiffResponse_StatusCode r = response_StatusCode (GetDiffResponse_HTTPResponse r)"

definition GetDiffResponse_ContentType :: "GetDiffResponse \<Rightarrow> string" where
  "GetDiffResponse_ContentType r = response_ContentType (GetDiffResponse_HTTPResponse r)"

definition GetEnvironmentsResponse_Status :: "GetEnvironmentsResponse \<Rightarrow> string" where
  "GetEnvironmentsResponse_Status r = response_Status (GetEnvironmentsResponse_HTTPResponse r)"

definition GetEnvironmentsResponse_StatusCode :: "GetEnvironmentsResponse \<Rightarrow> int" where
  "GetEnvironmentsResponse_StatusCode r = response_StatusCode (GetEnvironmentsResponse_HTTPResponse r)"

definition GetEnvironmentsResponse_ContentType :: "GetEnvironmentsResponse \<Rightarrow> string" where
  "GetEnvironmentsResponse_ContentType r = response_ContentType (GetEnvironmentsResponse_HTTPResponse r)"

definition GetPromotionsResponse_Status :: "GetPromotionsResponse \<Rightarrow> string" where
  "GetPromotionsResponse_Status r = response_Status (GetPromotionsResponse_HTTPResponse r)"

definition GetPromotionsResponse_StatusCode :: "GetPromotionsResponse \<Rightarrow> int" where
  "GetPromotionsResponse_StatusCode r = response_StatusCode (GetPromotionsResponse_HTTPResponse r)"

definition GetPromotionsResponse_ContentType :: "GetPromotionsResponse \<Rightarrow> string" where
  "GetPromotionsResponse_ContentType r = response_ContentType (GetPromotionsResponse_HTTPResponse r)"

definition PostPromotionsResponse_Status :: "PostPromotionsResponse \<Rightarrow> string" where
  "PostPromotionsResponse_Status r = response_Status (PostPromotionsResponse_HTTPResponse r)"

definition PostPromotionsResponse_StatusCode :: "PostPromotionsResponse \<Rightarrow> int" where
  "PostPromotionsResponse_StatusCode r = response_StatusCode (PostPromotionsResponse_HTTPResponse r)"

definition PostPromotionsResponse_ContentType :: "PostPromotionsResponse \<Rightarrow> string" where
  "PostPromotionsResponse_ContentType r = response_ContentType (PostPromotionsResponse_HTTPResponse r)"

definition GetPromotionsIDResponse_Status :: "GetPromotionsIDResponse \<Rightarrow> string" where
  "GetPromotionsIDResponse_Status r = response_Status (GetPromotionsIDResponse_HTTPResponse r)"

definition GetPromotionsIDResponse_StatusCode :: "GetPromotionsIDResponse \<Rightarrow> int" where
  "GetPromotionsIDResponse_StatusCode r = response_StatusCode (GetPromotionsIDResponse_HTTPResponse r)"

definition GetPromotionsIDResponse_ContentType :: "GetPromotionsIDResponse \<Rightarrow> string" where
  "GetPromotionsIDResponse_ContentType r = response_ContentType (GetPromotionsIDResponse_HTTPResponse r)"

definition PostPromotionsIDApproveResponse_Status :: "PostPromotionsIDApproveResponse \<Rightarrow> string" where
  "PostPromotionsIDApproveResponse_Status r = response_Status (PostPromotionsIDApproveResponse_HTTPResponse r)"

definition PostPromotionsIDApproveResponse_StatusCode :: "PostPromotionsIDApproveResponse \<Rightarrow> int" where
  "PostPromotionsIDApproveResponse_StatusCode r = response_StatusCode (PostPromotionsIDApproveResponse_HTTPResponse r)"

definition PostPromotionsIDApproveResponse_ContentType :: "PostPromotionsIDApproveResponse \<Rightarrow> string" where
  "PostPromotionsIDApproveResponse_ContentType r = response_ContentType (PostPromotionsIDApproveResponse_HTTPResponse r)"

definition PostPromotionsIDCancelResponse_Status :: "PostPromotionsIDCancelResponse \<Rightarrow> string" where
  "PostPromotionsIDCancelResponse_Status r = response_Status (PostPromotionsIDCancelResponse_HTTPResponse r)"

definition PostPromotionsIDCancelResponse_StatusCode :: "PostPromotionsIDCancelResponse \<Rightarrow> int" where
  "PostPromotionsIDCancelResponse_StatusCode r = response_StatusCode (PostPromotionsIDCancelResponse_HTTPResponse r)"

definition PostPromotionsIDCancelResponse_ContentType :: "PostPromotionsIDCancelResponse \<Rightarrow> string" where
  "PostPromotionsIDCancelResponse_ContentType r = response_ContentType (PostPromotionsIDCancelResponse_HTTPResponse r)"

definition PostPromotionsIDRetryResponse_Status :: "PostPromotionsIDRetryResponse \<Rightarrow> string" where
  "PostPromotionsIDRetryResponse_Status r = response_Status (PostPromotionsIDRetryResponse_HTTPResponse r)"

definition PostPromotionsIDRetryResponse_StatusCode :: "PostPromotionsIDRetryResponse \<Rightarrow> int" where
  "PostPromotionsIDRetryResponse_StatusCode r = response_StatusCode (PostPromotionsIDRetryResponse_HTTPResponse r)"

definition PostPromotionsIDRetryResponse_ContentType :: "PostPromotionsIDRetryResponse \<Rightarrow> string" where
  "PostPromotionsIDRetryResponse_ContentType r = response_ContentType (PostPromotionsIDRetryResponse_HTTPResponse r)"

definition GetReleasesResponse_Status :: "GetReleasesResponse \<Rightarrow> string" where
  "GetReleasesResponse_Status r = response_Status (GetReleasesResponse_HTTPResponse r)"

definition GetReleasesResponse_StatusCode :: "GetReleasesResponse \<Rightarrow> int" where
  "GetReleasesResponse_StatusCode r = response_StatusCode (GetReleasesResponse_HTTPResponse r)"

definition GetReleasesResponse_ContentType :: "GetReleasesResponse \<Rightarrow> string" where
  "GetReleasesResponse_ContentType r = response_ContentType (GetReleasesResponse_HTTPResponse r)"

definition GetTargetsResponse_Status :: "GetTargetsResponse \<Rightarrow> string" where
  "GetTargetsResponse_Status r = response_Status (GetTargetsResponse_HTTPResponse r)"

definition GetTargetsResponse_StatusCode :: "GetTargetsResponse \<Rightarrow> int" where
  "GetTargetsResponse_StatusCode r = response_StatusCode (GetTargetsResponse_HTTPResponse r)"

definition GetTargetsResponse_ContentType :: "GetTargetsResponse \<Rightarrow> string" where
  "GetTargetsResponse_ContentType r = response_ContentType (GetTargetsResponse_HTTPResponse r)"

definition GetTargetsNameDriftResponse_Status :: "GetTargetsNameDriftResponse \<Rightarrow> string" where
  "GetTargetsNameDriftResponse_Status r = response_Status (GetTargetsNameDriftResponse_HTTPResponse r)"

definition GetTargetsNameDriftResponse_StatusCode :: "GetTargetsNameDriftResponse \<Rightarrow> int" where
  "GetTargetsNameDriftResponse_StatusCode r = response_StatusCode (GetTargetsNameDriftResponse_HTTPResponse r)"

definition GetTargetsNameDriftResponse_ContentType :: "GetTargetsNameDriftResponse \<Rightarrow> string" where
  "GetTargetsNameDriftResponse_ContentType r = response_ContentType (GetTargetsNameDriftResponse_HTTPResponse r)"

definition GetTargetsNameHealthResponse_Status :: "GetTargetsNameHealthResponse \<Rightarrow> string" where
  "GetTargetsNameHealthResponse_Status r = response_Status (GetTargetsNameHealthResponse_HTTPResponse r)"

definition GetTargetsNameHealthResponse_StatusCode :: "GetTargetsNameHealthResponse \<Rightarrow> int" where
  "GetTargetsNameHealthResponse_StatusCode r = response_StatusCode (GetTargetsNameHealthResponse_HTTPResponse r)"

definition GetTargetsNameHealthResponse_ContentType :: "GetTargetsNameHealthResponse \<Rightarrow> string" where
  "GetTargetsNameHealthResponse_ContentType r = response_ContentType (GetTargetsNameHealthResponse_HTTPResponse r)"

section \<open>Parsing\<close>

definition ParseGetApplicationsResponse :: "JsonDecoders \<Rightarrow> HttpResponse \<Rightarrow> (goerr, GetApplicationsResponse) result" where
  "ParseGetApplicationsResponse jd rsp =
     (case hr_Body rsp of
        Inl err \<Rightarrow> Inl err
      | Inr bodyBytes \<Rightarrow>
          (let response = \<lparr>GetApplicationsResponse_Body = bodyBytes, GetApplicationsResponse_HTTPResponse = Some rsp,
              GetApplicationsResponse_JSON200 = None, GetApplicationsResponse_ApplicationProblemJSON400 = None,
              GetApplicationsResponse_ApplicationProblemJSON401 = None, GetApplicationsResponse_ApplicationProblemJSON403 = None,
              GetApplicationsResponse_ApplicationProblemJSON500 = None, GetApplicationsResponse_ApplicationProblemJSON503 = None\<rparr> in
            if is_json rsp 200
            then map_sum id (\<lambda>dest. response\<lparr>GetApplicationsResponse_JSON200 := Some dest\<rparr>) (jd_ApplicationsPage jd bodyBytes)
            else if is_json rsp 400
            then map_sum id (\<lambda>dest. response\<lparr>GetApplicationsResponse_ApplicationProblemJSON400 := Some dest\<rparr>) (jd_Problem jd bodyBytes)
            else if is_json rsp 401
            then map_sum id (\<lambda>dest. response\<lparr>GetApplicationsResponse_ApplicationProblemJSON401 := Some dest\<rparr>) (jd_Problem jd bodyBytes)
            else if is_json rsp 403
            then map_sum id (\<lambda>dest. response\<lparr>GetApplicationsResponse_ApplicationProblemJSON403 := Some dest\<rparr>) (jd_Problem jd bodyBytes)
            else if is_json rsp 500
            then map_sum id (\<lambda>dest. response\<lparr>GetApplicationsResponse_ApplicationProblemJSON500 := Some dest\<rparr>) (jd_Problem jd bodyBytes)
            else if is_json rsp 503
            then map_sum id (\<lambda>dest. response\<lparr>GetApplicationsResponse_ApplicationProblemJSON503 := Some dest\<rparr>) (jd_Problem jd bodyBytes)
            else Inr response))"

definition ParseGetApplicationsNameResponse :: "JsonDecoders \<Rightarrow> HttpResponse \<Rightarrow> (goerr, GetApplicationsNameResponse) result" where
  "ParseGetApplicationsNameResponse jd rsp =
     (case hr_Body rsp of
        Inl err \<Rightarrow> Inl err
      | Inr bodyBytes \<Rightarrow>
          (let response = \<lparr>GetApplicationsNameResponse_Body = bodyBytes, GetApplicationsNameResponse_HTTPResponse = Some rsp,
              GetApplicationsNameResponse_JSON200 = None, GetApplicationsNameResponse_ApplicationProblemJSON400 = None,
              GetApplicationsNameResponse_ApplicationProblemJSON401 = None, GetApplicationsNameResponse_ApplicationProblemJSON403 = None,
              GetApplicationsNameResponse_ApplicationProblemJSON404 = None, GetApplicationsNameResponse_ApplicationProblemJSON500 = None,
              GetApplicationsNameResponse_ApplicationProblemJSON503 = None\<rparr> in
            if is_json rsp 200
            then map_sum id (\<lambda>dest. response\<lparr>GetApplicationsNameResponse_JSON200 := Some dest\<rparr>) (jd_Application jd bodyBytes)
            else if is_json rsp 400
            then map_sum id (\<lambda>dest. response\<lparr>GetApplicationsNameResponse_ApplicationProblemJSON400 := Some dest\<rparr>) (jd_Problem jd bodyBytes)
            else if is_json rsp 401
            then map_sum id (\<lambda>dest. response\<lparr>GetApplicationsNameResponse_ApplicationProblemJSON401 := Some dest\<rparr>) (jd_Problem jd bodyBytes)
            else if is_json rsp 403
            then map_sum id (\<lambda>dest. response\<lparr>GetApplicationsNameResponse_ApplicationProblemJSON403 := Some dest\<rparr>) (jd_Problem jd bodyBytes)
            else if is_json rsp 404
            then map_sum id (\<lambda>dest. response\<lparr>GetApplicationsNameResponse_ApplicationProblemJSON404 := Some dest\<rparr>) (jd_Problem jd bodyBytes)
            else if is_json rsp 500
            then map_sum id (\<lambda>dest. response\<lparr>GetApplicationsNameResponse_ApplicationProblemJSON500 := Some dest\<rparr>) (jd_Problem jd bodyBytes)
            else if is_json rsp 503
            then map_sum id (\<lambda>dest. response\<lparr>GetApplicationsNameResponse_ApplicationProblemJSON503 := Some dest\<rparr>) (jd_Problem jd bodyBytes)
            else Inr response))"

definition ParseGetApplicationsNameMatrixResponse :: "JsonDecoders \<Rightarrow> HttpResponse \<Rightarrow> (goerr, GetApplicationsNameMatrixResponse) result" where
  "ParseGetApplicationsNameMatrixResponse jd rsp =
     (case hr_Body rsp of
        Inl err \<Rightarrow> Inl err
      | Inr bodyBytes \<Rightarrow>
          (let response = \<lparr>GetApplicationsNameMatrixResponse_Body = bodyBytes, GetApplicationsNameMatrixResponse_HTTPResponse = Some rsp,
              GetApplicationsNameMatrixResponse_JSON200 = None, GetApplicationsNameMatrixResponse_ApplicationProblemJSON400 = None,
              GetApplicationsNameMatrixResponse_ApplicationProblemJSON401 = None, GetApplicationsNameMatrixResponse_ApplicationProblemJSON403 = None,
              GetApplicationsNameMatrixResponse_ApplicationProblemJSON404 = None, GetApplicationsNameMatrixResponse_ApplicationProblemJSON500 = None,
              GetApplicationsNameMatrixResponse_ApplicationProblemJSON503 = None\<rparr> in
            if is_json rsp 200
            then map_sum id (\<lambda>dest. response\<lparr>GetApplicationsNameMatrixResponse_JSON200 := Some dest\<rparr>) (jd_Matrix jd bodyBytes)
            else if is_json rsp 400
            then map_sum id (\<lambda>dest. response\<lparr>GetApplicationsNameMatrixResponse_ApplicationProblemJSON400 := Some dest\<rparr>) (jd_Problem jd bodyBytes)
            else if is_json rsp 401
            then map_sum id (\<lambda>dest. response\<lparr>GetApplicationsNameMatrixResponse_ApplicationProblemJSON401 := Some dest\<rparr>) (jd_Problem jd bodyBytes)
            else if is_json rsp 403
            then map_sum id (\<lambda>dest. response\<lparr>GetApplicationsNameMatrixResponse_ApplicationProblemJSON403 := Some dest\<rparr>) (jd_Problem jd bodyBytes)
            else if is_json rsp 404
            then map_sum id (\<lambda>dest. response\<lparr>GetApplicationsNameMatrixResponse_ApplicationProblemJSON404 := Some dest\<rparr>) (jd_Problem jd bodyBytes)
            else if is_json rsp 500
            then map_sum id (\<lambda>dest. response\<lparr>GetApplicationsNameMatrixResponse_ApplicationProblemJSON500 := Some dest\<rparr>) (jd_Problem jd bodyBytes)
            else if is_json rsp 503
            then map_sum id (\<lambda>dest. response\<lparr>GetApplicationsNameMatrixResponse_ApplicationProblemJSON503 := Some dest\<rparr>) (jd_Problem jd bodyBytes)
            else Inr response))"

definition ParseGetApplicationsNamePromotionsResponse :: "JsonDecoders \<Rightarrow> HttpResponse \<Rightarrow> (goerr, GetApplicationsNamePromotionsResponse) result" where
  "ParseGetApplicationsNamePromotionsResponse jd rsp =
     (case hr_Body rsp of
        Inl err \<Rightarrow> Inl err
      | Inr bodyBytes \<Rightarrow>
          (let response = \<lparr>GetApplicationsNamePromotionsResponse_Body = bodyBytes, GetApplicationsNamePromotionsResponse_HTTPResponse = Some rsp,
              GetApplicationsNamePromotionsResponse_JSON200 = None, GetApplicationsNamePromotionsResponse_ApplicationProblemJSON400 = None,
              GetApplicationsNamePromotionsResponse_ApplicationProblemJSON401 = None, GetApplicationsNamePromotionsResponse_ApplicationProblemJSON403 = None,
              GetApplicationsNamePromotionsResponse_ApplicationProblemJSON500 = None, GetApplicationsNamePromotionsResponse_ApplicationProblemJSON503 = None\<rparr> in
            if is_json rsp 200
            then map_sum id (\<lambda>dest. response\<lparr>GetApplicationsNamePromotionsResponse_JSON200 := Some dest\<rparr>) (jd_Promotions jd bodyBytes)
            else if is_json rsp 400
            then map_sum id (\<lambda>dest. response\<lparr>GetApplicationsNamePromotionsResponse_ApplicationProblemJSON400 := Some dest\<rparr>) (jd_Problem jd bodyBytes)
            else if is_json rsp 401
            then map_sum id (\<lambda>dest. response\<lparr>GetApplicationsNamePromotionsResponse_ApplicationProblemJSON401 := Some dest\<rparr>) (jd_Problem jd bodyBytes)
            else if is_json rsp 403
            then map_sum id (\<lambda>dest. response\<lparr>GetApplicationsNamePromotionsResponse_ApplicationProblemJSON403 := Some dest\<rparr>) (jd_Problem jd bodyBytes)
            else if is_json rsp 500
            then map_sum id (\<lambda>dest. response\<lparr>GetApplicationsNamePromotionsResponse_ApplicationProblemJSON500 := Some dest\<rparr>) (jd_Problem jd bodyBytes)
            else if is_json rsp 503
            then map_sum id (\<lambda>dest. response\<lparr>GetApplicationsNamePromotionsResponse_ApplicationProblemJSON503 := Some dest\<rparr>) (jd_Problem jd bodyBytes)
            else Inr response))"

definition ParseGetApplicationsNameReleasesResponse :: "JsonDecoders \<Rightarrow> HttpResponse \<Rightarrow> (goerr, GetApplicationsNameReleasesResponse) result" where
  "ParseGetApplicationsNameReleasesResponse jd rsp =
     (case hr_Body rsp of
        Inl err \<Rightarrow> Inl err
      | Inr bodyBytes \<Rightarrow>
          (let response = \<lparr>GetApplicationsNameReleasesResponse_Body = bodyBytes, GetApplicationsNameReleasesResponse_HTTPResponse = Some rsp,
              GetApplicationsNameReleasesResponse_JSON200 = None, GetApplicationsNameReleasesResponse_ApplicationProblemJSON400 = None,
              GetApplicationsNameReleasesResponse_ApplicationProblemJSON401 = None, GetApplicationsNameReleasesResponse_ApplicationProblemJSON403 = None,
              GetApplicationsNameReleasesResponse_ApplicationProblemJSON500 = None, GetApplicationsNameReleasesResponse_ApplicationProblemJSON503 = None\<rparr> in
            if is_json rsp 200
            then map_sum id (\<lambda>dest. response\<lparr>GetApplicationsNameReleasesResponse_JSON200 := Some dest\<rparr>) (jd_Releases jd bodyBytes)
            else if is_json rsp 400
            then map_sum id (\<lambda>dest. response\<lparr>GetApplicationsNameReleasesResponse_ApplicationProblemJSON400 := Some dest\<rparr>) (jd_Problem jd bodyBytes)
            else if is_json rsp 401
            then map_sum id (\<lambda>dest. response\<lparr>GetApplicationsNameReleasesResponse_ApplicationProblemJSON401 := Some dest\<rparr>) (jd_Problem jd bodyBytes)
            else if is_json rsp 403
            then map_sum id (\<lambda>dest. response\<lparr>GetApplicationsNameReleasesResponse_ApplicationProblemJSON403 := Some dest\<rparr>) (jd_Problem jd bodyBytes)
            else if is_json rsp 500
            then map_sum id (\<lambda>dest. response\<lparr>GetApplicationsNameReleasesResponse_ApplicationProblemJSON500 := Some dest\<rparr>) (jd_Problem jd bodyBytes)
            else if is_json rsp 503
            then map_sum id (\<lambda>dest. response\<lparr>GetApplicationsNameReleasesResponse_ApplicationProblemJSON503 := Some dest\<rparr>) (jd_Problem jd bodyBytes)
            else Inr response))"

definition ParseGetAuditResponse :: "JsonDecoders \<Rightarrow> HttpResponse \<Rightarrow> (goerr, GetAuditResponse) result" where
  "ParseGetAuditResponse jd rsp =
     (case hr_Body rsp of
        Inl err \<Rightarrow> Inl err
      | Inr bodyBytes \<Rightarrow>
          (let response = \<lparr>GetAuditResponse_Body = bodyBytes, GetAuditResponse_HTTPResponse = Some rsp,
              GetAuditResponse_JSON200 = None, GetAuditResponse_ApplicationProblemJSON400 = None,
              GetAuditResponse_ApplicationProblemJSON401 = None, GetAuditResponse_ApplicationProblemJSON403 = None,
              GetAuditResponse_ApplicationProblemJSON500 = None, GetAuditResponse_ApplicationProblemJSON503 = None\<rparr> in
            if is_json rsp 200
            then map_sum id (\<lambda>dest. response\<lparr>GetAuditResponse_JSON200 := Some dest\<rparr>) (jd_AuditPage jd bodyBytes)
            else if is_json rsp 400
            then map_sum id (\<lambda>dest. response\<lparr>GetAuditResponse_ApplicationProblemJSON400 := Some dest\<rparr>) (jd_Problem jd bodyBytes)
            else if is_json rsp 401
            then map_sum id (\<lambda>dest. response\<lparr>GetAuditResponse_ApplicationProblemJSON401 := Some dest\<rparr>) (jd_Problem jd bodyBytes)
            else if is_json rsp 403
            then map_sum id (\<lambda>dest. response\<lparr>GetAuditResponse_ApplicationProblemJSON403 := Some dest\<rparr>) (jd_Problem jd bodyBytes)
            else if is_json rsp 500
            then map_sum id (\<lambda>dest. response\<lparr>GetAuditResponse_ApplicationProblemJSON500 := Some dest\<rparr>) (jd_Problem jd bodyBytes)
            else if is_json rsp 503
            then map_sum id (\<lambda>dest. response\<lparr>GetAuditResponse_ApplicationProblemJSON503 := Some dest\<rparr>) (jd_Problem jd bodyBytes)
            else Inr response))"

definition ParseGetDiffResponse :: "JsonDecoders \<Rightarrow> HttpResponse \<Rightarrow> (goerr, GetDiffResponse) result" where
  "ParseGetDiffResponse jd rsp =
     (case hr_Body rsp of
        Inl err \<Rightarrow> Inl err
      | Inr bodyBytes \<Rightarrow>
          (let response = \<lparr>GetDiffResponse_Body = bodyBytes, GetDiffResponse_HTTPResponse = Some rsp,
              GetDiffResponse_JSON200 = None, GetDiffResponse_ApplicationProblemJSON400 = None,
              GetDiffResponse_ApplicationProblemJSON401 = None, GetDiffResponse_ApplicationProblemJSON403 = None,
              GetDiffResponse_ApplicationProblemJSON500 = None, GetDiffResponse_ApplicationProblemJSON503 = None\<rparr> in
            if is_json rsp 200
            then map_sum id (\<lambda>dest. response\<lparr>GetDiffResponse_JSON200 := Some dest\<rparr>) (jd_Diff jd bodyBytes)
            else if is_json rsp 400
            then map_sum id (\<lambda>dest. response\<lparr>GetDiffResponse_ApplicationProblemJSON400 := Some dest\<rparr>) (jd_Problem jd bodyBytes)
            else if is_json rsp 401
            then map_sum id (\<lambda>dest. response\<lparr>GetDiffResponse_ApplicationProblemJSON401 := Some dest\<rparr>) (jd_Problem jd bodyBytes)
            else if is_json rsp 403
            then map_sum id (\<lambda>dest. response\<lparr>GetDiffResponse_ApplicationProblemJSON403 := Some dest\<rparr>) (jd_Problem jd bodyBytes)
            else if is_json rsp 500
            then map_sum id (\<lambda>dest. response\<lparr>GetDiffResponse_ApplicationProblemJSON500 := Some dest\<rparr>) (jd_Problem jd bodyBytes)
            else if is_json rsp 503
            then map_sum id (\<lambda>dest. response\<lparr>GetDiffResponse_ApplicationProblemJSON503 := Some dest\<rparr>) (jd_Problem jd bodyBytes)
            else Inr response))"

definition ParseGetEnvironmentsResponse :: "JsonDecoders \<Rightarrow> HttpResponse \<Rightarrow> (goerr, GetEnvironmentsResponse) result" where
  "ParseGetEnvironmentsResponse jd rsp =
     (case hr_Body rsp of
        Inl err \<Rightarrow> Inl err
      | Inr bodyBytes \<Rightarrow>
          (let response = \<lparr>GetEnvironmentsResponse_Body = bodyBytes, GetEnvironmentsResponse_HTTPResponse = Some rsp,
              GetEnvironmentsResponse_JSON200 = None, GetEnvironmentsResponse_ApplicationProblemJSON400 = None,
              GetEnvironmentsResponse_ApplicationProblemJSON401 = None, GetEnvironmentsResponse_ApplicationProblemJSON403 = None,
              GetEnvironmentsResponse_ApplicationProblemJSON500 = None, GetEnvironmentsResponse_ApplicationProblemJSON503 = None\<rparr> in
            if is_json rsp 200
            then map_sum id (\<lambda>dest. response\<lparr>GetEnvironmentsResponse_JSON200 := Some dest\<rparr>) (jd_Environments jd bodyBytes)
            else if is_json rsp 400
            then map_sum id (\<lambda>dest. response\<lparr>GetEnvironmentsResponse_ApplicationProblemJSON400 := Some dest\<rparr>) (jd_Problem jd bodyBytes)
            else if is_json rsp 401
            then map_sum id (\<lambda>dest. response\<lparr>GetEnvironmentsResponse_ApplicationProblemJSON401 := Some dest\<rparr>) (jd_Problem jd bodyBytes)
            else if is_json rsp 403
            then map_sum id (\<lambda>dest. response\<lparr>GetEnvironmentsResponse_ApplicationProblemJSON403 := Some dest\<rparr>) (jd_Problem jd bodyBytes)
            else if is_json rsp 500
            then map_sum id (\<lambda>dest. response\<lparr>GetEnvironmentsResponse_ApplicationProblemJSON500 := Some dest\<rparr>) (jd_Problem jd bodyBytes)
            else if is_json rsp 503
            then map_sum id (\<lambda>dest. response\<lparr>GetEnvironmentsResponse_ApplicationProblemJSON503 := Some dest\<rparr>) (jd_Problem jd bodyBytes)
            else Inr response))"

definition ParseGetPromotionsResponse :: "JsonDecoders \<Rightarrow> HttpResponse \<Rightarrow> (goerr, GetPromotionsResponse) result" where
  "ParseGetPromotionsResponse jd rsp =
     (case hr_Body rsp of
        Inl err \<Rightarrow> Inl err
      | Inr bodyBytes \<Rightarrow>
          (let response = \<lparr>GetPromotionsResponse_Body = bodyBytes, GetPromotionsResponse_HTTPResponse = Some rsp,
              GetPromotionsResponse_JSON200 = None, GetPromotionsResponse_ApplicationProblemJSON400 = None,
              GetPromotionsResponse_ApplicationProblemJSON401 = None, GetPromotionsResponse_ApplicationProblemJSON403 = None,
              GetPromotionsResponse_ApplicationProblemJSON500 = None, GetPromotionsResponse_ApplicationProblemJSON503 = None\<rparr> in
            if is_json rsp 200
            then map_sum id (\<lambda>dest. response\<lparr>GetPromotionsResponse_JSON200 := Some dest\<rparr>) (jd_Promotions jd bodyBytes)
            else if is_json rsp 400
            then map_sum id (\<lambda>dest. response\<lparr>GetPromotionsResponse_ApplicationProblemJSON400 := Some dest\<rparr>) (jd_Problem jd bodyBytes)
            else if is_json rsp 401
            then map_sum id (\<lambda>dest. response\<lparr>GetPromotionsResponse_ApplicationProblemJSON401 := Some dest\<rparr>) (jd_Problem jd bodyBytes)
            else if is_json rsp 403
            then map_sum id (\<lambda>dest. response\<lparr>GetPromotionsResponse_ApplicationProblemJSON403 := Some dest\<rparr>) (jd_Problem jd bodyBytes)
            else if is_json rsp 500
            then map_sum id (\<lambda>dest. response\<lparr>GetPromotionsResponse_ApplicationProblemJSON500 := Some dest\<rparr>) (jd_Problem jd bodyBytes)
            else if is_json rsp 503
            then map_sum id (\<lambda>dest. response\<lparr>GetPromotionsResponse_ApplicationProblemJSON503 := Some dest\<rparr>) (jd_Problem jd bodyBytes)
            else Inr response))"

definition ParsePostPromotionsResponse :: "JsonDecoders \<Rightarrow> HttpResponse \<Rightarrow> (goerr, PostPromotionsResponse) result" where
  "ParsePostPromotionsResponse jd rsp =
     (case hr_Body rsp of
        Inl err \<Rightarrow> Inl err
      | Inr bodyBytes \<Rightarrow>
          (let response = \<lparr>PostPromotionsResponse_Body = bodyBytes, PostPromotionsResponse_HTTPResponse = Some rsp,
              PostPromotionsResponse_JSON202 = None, PostPromotionsResponse_ApplicationProblemJSON400 = None,
              PostPromotionsResponse_ApplicationProblemJSON401 = None, PostPromotionsResponse_ApplicationProblemJSON403 = None,
              PostPromotionsResponse_ApplicationProblemJSON404 = None, PostPromotionsResponse_ApplicationProblemJSON409 = None,
              PostPromotionsResponse_ApplicationProblemJSON429 = None, PostPromotionsResponse_ApplicationProblemJSON500 = None,
              PostPromotionsResponse_ApplicationProblemJSON501 = None\<rparr> in
            if is_json rsp 202
            then map_sum id (\<lambda>dest. response\<lparr>PostPromotionsResponse_JSON202 := Some dest\<rparr>) (jd_Promotion jd bodyBytes)
            else if is_json rsp 400
            then map_sum id (\<lambda>dest. response\<lparr>PostPromotionsResponse_ApplicationProblemJSON400 := Some dest\<rparr>) (jd_Problem jd bodyBytes)
            else if is_json rsp 401
            then map_sum id (\<lambda>dest. response\<lparr>PostPromotionsResponse_ApplicationProblemJSON401 := Some dest\<rparr>) (jd_Problem jd bodyBytes)
            else if is_json rsp 403
            then map_sum id (\<lambda>dest. response\<lparr>PostPromotionsResponse_ApplicationProblemJSON403 := Some dest\<rparr>) (jd_Problem jd bodyBytes)
            else if is_json rsp 404
            then map_sum id (\<lambda>dest. response\<lparr>PostPromotionsResponse_ApplicationProblemJSON404 := Some dest\<rparr>) (jd_Problem jd bodyBytes)
            else if is_json rsp 409
            then map_sum id (\<lambda>dest. response\<lparr>PostPromotionsResponse_ApplicationProblemJSON409 := Some dest\<rparr>) (jd_Problem jd bodyBytes)
            else if is_json rsp 429
            then map_sum id (\<lambda>dest. response\<lparr>PostPromotionsResponse_ApplicationProblemJSON429 := Some dest\<rparr>) (jd_Problem jd bodyBytes)
            else if is_json rsp 500
            then map_sum id (\<lambda>dest. response\<lparr>PostPromotionsResponse_ApplicationProblemJSON500 := Some dest\<rparr>) (jd_Problem jd bodyBytes)
            else if is_json rsp 501
            then map_sum id (\<lambda>dest. response\<lparr>PostPromotionsResponse_ApplicationProblemJSON501 := Some dest\<rparr>) (jd_Problem jd bodyBytes)
            else Inr response))"

definition ParseGetPromotionsIDResponse :: "JsonDecoders \<Rightarrow> HttpResponse \<Rightarrow> (goerr, GetPromotionsIDResponse) result" where
  "ParseGetPromotionsIDResponse jd rsp =
     (case hr_Body rsp of
        Inl err \<Rightarrow> Inl err
      | Inr bodyBytes \<Rightarrow>
          (let response = \<lparr>GetPromotionsIDResponse_Body = bodyBytes, GetPromotionsIDResponse_HTTPResponse = Some rsp,
              GetPromotionsIDResponse_JSON200 = None, GetPromotionsIDResponse_ApplicationProblemJSON400 = None,
              GetPromotionsIDResponse_ApplicationProblemJSON401 = None, GetPromotionsIDResponse_ApplicationProblemJSON403 = None,
              GetPromotionsIDResponse_ApplicationProblemJSON404 = None, GetPromotionsIDResponse_ApplicationProblemJSON500 = None,
              GetPromotionsIDResponse_ApplicationProblemJSON503 = None\<rparr> in
            if is_json rsp 200
            then map_sum id (\<lambda>dest. response\<lparr>GetPromotionsIDResponse_JSON200 := Some dest\<rparr>) (jd_Promotion jd bodyBytes)
            else if is_json rsp 400
            then map_sum id (\<lambda>dest. response\<lparr>GetPromotionsIDResponse_ApplicationProblemJSON400 := Some dest\<rparr>) (jd_Problem jd bodyBytes)
            else if is_json rsp 401
            then map_sum id (\<lambda>dest. response\<lparr>GetPromotionsIDResponse_ApplicationProblemJSON401 := Some dest\<rparr>) (jd_Problem jd bodyBytes)
            else if is_json rsp 403
            then map_sum id (\<lambda>dest. response\<lparr>GetPromotionsIDResponse_ApplicationProblemJSON403 := Some dest\<rparr>) (jd_Problem jd bodyBytes)
            else if is_json rsp 404
            then map_sum id (\<lambda>dest. response\<lparr>GetPromotionsIDResponse_ApplicationProblemJSON404 := Some dest\<rparr>) (jd_Problem jd bodyBytes)
            else if is_json rsp 500
            then map_sum id (\<lambda>dest. response\<lparr>GetPromotionsIDResponse_ApplicationProblemJSON500 := Some dest\<rparr>) (jd_Problem jd bodyBytes)
            else if is_json rsp 503
            then map_sum id (\<lambda>dest. response\<lparr>GetPromotionsIDResponse_ApplicationProblemJSON503 := Some dest\<rparr>) (jd_Problem jd bodyBytes)
            else Inr response))"

definition ParsePostPromotionsIDApproveResponse :: "JsonDecoders \<Rightarrow> HttpResponse \<Rightarrow> (goerr, PostPromotionsIDApproveResponse) result" where
  "ParsePostPromotionsIDApproveResponse jd rsp =
     (case hr_Body rsp of
        Inl err \<Rightarrow> Inl err
      | Inr bodyBytes \<Rightarrow>
          (let response = \<lparr>PostPromotionsIDApproveResponse_Body = bodyBytes, PostPromotionsIDApproveResponse_HTTPResponse = Some rsp,
              PostPromotionsIDApproveResponse_JSON200 = None, PostPromotionsIDApproveResponse_ApplicationProblemJSON400 = None,
              PostPromotionsIDApproveResponse_ApplicationProblemJSON401 = None, PostPromotionsIDApproveResponse_ApplicationProblemJSON403 = None,
              PostPromotionsIDApproveResponse_ApplicationProblemJSON404 = None, PostPromotionsIDApproveResponse_ApplicationProblemJSON409 = None,
              PostPromotionsIDApproveResponse_ApplicationProblemJSON429 = None, PostPromotionsIDApproveResponse_ApplicationProblemJSON500 = None,
              PostPromotionsIDApproveResponse_ApplicationProblemJSON501 = None\<rparr> in
            if is_json rsp 200
            then map_sum id (\<lambda>dest. response\<lparr>PostPromotionsIDApproveResponse_JSON200 := Some dest\<rparr>) (jd_Promotion jd bodyBytes)
            else if is_json rsp 400
            then map_sum id (\<lambda>dest. response\<lparr>PostPromotionsIDApproveResponse_ApplicationProblemJSON400 := Some dest\<rparr>) (jd_Problem jd bodyBytes)
            else if is_json rsp 401
            then map_sum id (\<lambda>dest. response\<lparr>PostPromotionsIDApproveResponse_ApplicationProblemJSON401 := Some dest\<rparr>) (jd_Problem jd bodyBytes)
            else if is_json rsp 403
            then map_sum id (\<lambda>dest. response\<lparr>PostPromotionsIDApproveResponse_ApplicationProblemJSON403 := Some dest\<rparr>) (jd_Problem jd bodyBytes)
            else if is_json rsp 404
            then map_sum id (\<lambda>dest. response\<lparr>PostPromotionsIDApproveResponse_ApplicationProblemJSON404 := Some dest\<rparr>) (jd_Problem jd bodyBytes)
            else if is_json rsp 409
            then map_sum id (\<lambda>dest. response\<lparr>PostPromotionsIDApproveResponse_ApplicationProblemJSON409 := Some dest\<rparr>) (jd_Problem jd bodyBytes)
            else if is_json rsp 429
            then map_sum id (\<lambda>dest. response\<lparr>PostPromotionsIDApproveResponse_ApplicationProblemJSON429 := Some dest\<rparr>) (jd_Problem jd bodyBytes)
            else if is_json rsp 500
            then map_sum id (\<lambda>dest. response\<lparr>PostPromotionsIDApproveResponse_ApplicationProblemJSON500 := Some dest\<rparr>) (jd_Problem jd bodyBytes)
            else if is_json rsp 501
            then map_sum id (\<lambda>dest. response\<lparr>PostPromotionsIDApproveResponse_ApplicationProblemJSON501 := Some dest\<rparr>) (jd_Problem jd bodyBytes)
            else Inr response))"

definition ParsePostPromotionsIDCancelResponse :: "JsonDecoders \<Rightarrow> HttpResponse \<Rightarrow> (goerr, PostPromotionsIDCancelResponse) result" where
  "ParsePostPromotionsIDCancelResponse jd rsp =
     (case hr_Body rsp of
        Inl err \<Rightarrow> Inl err
      | Inr bodyBytes \<Rightarrow>
          (let response = \<lparr>PostPromotionsIDCancelResponse_Body = bodyBytes, PostPromotionsIDCancelResponse_HTTPResponse = Some rsp,
              PostPromotionsIDCancelResponse_JSON202 = None, PostPromotionsIDCancelResponse_ApplicationProblemJSON400 = None,
              PostPromotionsIDCancelResponse_ApplicationProblemJSON401 = None, PostPromotionsIDCancelResponse_ApplicationProblemJSON403 = None,
              PostPromotionsIDCancelResponse_ApplicationProblemJSON404 = None, PostPromotionsIDCancelResponse_ApplicationProblemJSON409 = None,
              PostPromotionsIDCancelResponse_ApplicationProblemJSON429 = None, PostPromotionsIDCancelResponse_ApplicationProblemJSON500 = None,
              PostPromotionsIDCancelResponse_ApplicationProblemJSON501 = None\<rparr> in
            if is_json rsp 202
            then map_sum id (\<lambda>dest. response\<lparr>PostPromotionsIDCancelResponse_JSON202 := Some dest\<rparr>) (jd_Promotion jd bodyBytes)
            else if is_json rsp 400
            then map_sum id (\<lambda>dest. response\<lparr>PostPromotionsIDCancelResponse_ApplicationProblemJSON400 := Some dest\<rparr>) (jd_Problem jd bodyBytes)
            else if is_json rsp 401
            then map_sum id (\<lambda>dest. response\<lparr>PostPromotionsIDCancelResponse_ApplicationProblemJSON401 := Some dest\<rparr>) (jd_Problem jd bodyBytes)
            else if is_json rsp 403
            then map_sum id (\<lambda>dest. response\<lparr>PostPromotionsIDCancelResponse_ApplicationProblemJSON403 := Some dest\<rparr>) (jd_Problem jd bodyBytes)
            else if is_json rsp 404
            then map_sum id (\<lambda>dest. response\<lparr>PostPromotionsIDCancelResponse_ApplicationProblemJSON404 := Some dest\<rparr>) (jd_Problem jd bodyBytes)
            else if is_json rsp 409
            then map_sum id (\<lambda>dest. response\<lparr>PostPromotionsIDCancelResponse_ApplicationProblemJSON409 := Some dest\<rparr>) (jd_Problem jd bodyBytes)
            else if is_json rsp 429
            then map_sum id (\<lambda>dest. response\<lparr>PostPromotionsIDCancelResponse_ApplicationProblemJSON429 := Some dest\<rparr>) (jd_Problem jd bodyBytes)
            else if is_json rsp 500
            then map_sum id (\<lambda>dest. response\<lparr>PostPromotionsIDCancelResponse_ApplicationProblemJSON500 := Some dest\<rparr>) (jd_Problem jd bodyBytes)
            else if is_json rsp 501
            then map_sum id (\<lambda>dest. response\<lparr>PostPromotionsIDCancelResponse_ApplicationProblemJSON501 := Some dest\<rparr>) (jd_Problem jd bodyBytes)
            else Inr response))"

definition ParsePostPromotionsIDRetryResponse :: "JsonDecoders \<Rightarrow> HttpResponse \<Rightarrow> (goerr, PostPromotionsIDRetryResponse) result" where
  "ParsePostPromotionsIDRetryResponse jd rsp =
     (case hr_Body rsp of
        Inl err \<Rightarrow> Inl err
      | Inr bodyBytes \<Rightarrow>
          (let response = \<lparr>PostPromotionsIDRetryResponse_Body = bodyBytes, PostPromotionsIDRetryResponse_HTTPResponse = Some rsp,
              PostPromotionsIDRetryResponse_JSON202 = None, PostPromotionsIDRetryResponse_ApplicationProblemJSON400 = None,
              PostPromotionsIDRetryResponse_ApplicationProblemJSON401 = None, PostPromotionsIDRetryResponse_ApplicationProblemJSON403 = None,
              PostPromotionsIDRetryResponse_ApplicationProblemJSON404 = None, PostPromotionsIDRetryResponse_ApplicationProblemJSON409 = None,
              PostPromotionsIDRetryResponse_ApplicationProblemJSON429 = None, PostPromotionsIDRetryResponse_ApplicationProblemJSON500 = None,
              PostPromotionsIDRetryResponse_ApplicationProblemJSON501 = None\<rparr> in
            if is_json rsp 202
            then map_sum id (\<lambda>dest. response\<lparr>PostPromotionsIDRetryResponse_JSON202 := Some dest\<rparr>) (jd_Promotion jd bodyBytes)
            else if is_json rsp 400
            then map_sum id (\<lambda>dest. response\<lparr>PostPromotionsIDRetryResponse_ApplicationProblemJSON400 := Some dest\<rparr>) (jd_Problem jd bodyBytes)
            else if is_json rsp 401
            then map_sum id (\<lambda>dest. response\<lparr>PostPromotionsIDRetryResponse_ApplicationProblemJSON401 := Some dest\<rparr>) (jd_Problem jd bodyBytes)
            else if is_json rsp 403
            then map_sum id (\<lambda>dest. response\<lparr>PostPromotionsIDRetryResponse_ApplicationProblemJSON403 := Some dest\<rparr>) (jd_Problem jd bodyBytes)
            else if is_json rsp 404
            then map_sum id (\<lambda>dest. response\<lparr>PostPromotionsIDRetryResponse_ApplicationProblemJSON404 := Some dest\<rparr>) (jd_Problem jd bodyBytes)
            else if is_json rsp 409
            then map_sum id (\<lambda>dest. response\<lparr>PostPromotionsIDRetryResponse_ApplicationProblemJSON409 := Some dest\<rparr>) (jd_Problem jd bodyBytes)
            else if is_json rsp 429
            then map_sum id (\<lambda>dest. response\<lparr>PostPromotionsIDRetryResponse_ApplicationProblemJSON429 := Some dest\<rparr>) (jd_Problem jd bodyBytes)
            else if is_json rsp 500
            then map_sum id (\<lambda>dest. response\<lparr>PostPromotionsIDRetryResponse_ApplicationProblemJSON500 := Some dest\<rparr>) (jd_Problem jd bodyBytes)
            else if is_json rsp 501
            then map_sum id (\<lambda>dest. response\<lparr>PostPromotionsIDRetryResponse_ApplicationProblemJSON501 := Some dest\<rparr>) (jd_Problem jd bodyBytes)
            else Inr response))"

definition ParseGetReleasesResponse :: "JsonDecoders \<Rightarrow> HttpResponse \<Rightarrow> (goerr, GetReleasesResponse) result" where
  "ParseGetReleasesResponse jd rsp =
     (case hr_Body rsp of
        Inl err \<Rightarrow> Inl err
      | Inr bodyBytes \<Rightarrow>
          (let response = \<lparr>GetReleasesResponse_Body = bodyBytes, GetReleasesResponse_HTTPResponse = Some rsp,
              GetReleasesResponse_JSON200 = None, GetReleasesResponse_ApplicationProblemJSON400 = None,
              GetReleasesResponse_ApplicationProblemJSON401 = None, GetReleasesResponse_ApplicationProblemJSON403 = None,
              GetReleasesResponse_ApplicationProblemJSON500 = None, GetReleasesResponse_ApplicationProblemJSON503 = None\<rparr> in
            if is_json rsp 200
            then map_sum id (\<lambda>dest. response\<lparr>GetReleasesResponse_JSON200 := Some dest\<rparr>) (jd_Releases jd bodyBytes)
            else if is_json rsp 400
            then map_sum id (\<lambda>dest. response\<lparr>GetReleasesResponse_ApplicationProblemJSON400 := Some dest\<rparr>) (jd_Problem jd bodyBytes)
            else if is_json rsp 401
            then map_sum id (\<lambda>dest. response\<lparr>GetReleasesResponse_ApplicationProblemJSON401 := Some dest\<rparr>) (jd_Problem jd bodyBytes)
            else if is_json rsp 403
            then map_sum id (\<lambda>dest. response\<lparr>GetReleasesResponse_ApplicationProblemJSON403 := Some dest\<rparr>) (jd_Problem jd bodyBytes)
            else if is_json rsp 500
            then map_sum id (\<lambda>dest. response\<lparr>GetReleasesResponse_ApplicationProblemJSON500 := Some dest\<rparr>) (jd_Problem jd bodyBytes)
            else if is_json rsp 503
            then map_sum id (\<lambda>dest. response\<lparr>GetReleasesResponse_ApplicationProblemJSON503 := Some dest\<rparr>) (jd_Problem jd bodyBytes)
            else Inr response))"

definition ParseGetTargetsResponse :: "JsonDecoders \<Rightarrow> HttpResponse \<Rightarrow> (goerr, GetTargetsResponse) result" where
  "ParseGetTargetsResponse jd rsp =
     (case hr_Body rsp of
        Inl err \<Rightarrow> Inl err
      | Inr bodyBytes \<Rightarrow>
          (let response = \<lparr>GetTargetsResponse_Body = bodyBytes, GetTargetsResponse_HTTPResponse = Some rsp,
              GetTargetsResponse_JSON200 = None, GetTargetsResponse_ApplicationProblemJSON400 = None,
              GetTargetsResponse_ApplicationProblemJSON401 = None, GetTargetsResponse_ApplicationProblemJSON403 = None,
              GetTargetsResponse_ApplicationProblemJSON500 = None, GetTargetsResponse_ApplicationProblemJSON503 = None\<rparr> in
            if is_json rsp 200
            then map_sum id (\<lambda>dest. response\<lparr>GetTargetsResponse_JSON200 := Some dest\<rparr>) (jd_Targets jd bodyBytes)
            else if is_json rsp 400
            then map_sum id (\<lambda>dest. response\<lparr>GetTargetsResponse_ApplicationProblemJSON400 := Some dest\<rparr>) (jd_Problem jd bodyBytes)
            else if is_json rsp 401
            then map_sum id (\<lambda>dest. response\<lparr>GetTargetsResponse_ApplicationProblemJSON401 := Some dest\<rparr>) (jd_Problem jd bodyBytes)
            else if is_json rsp 403
            then map_sum id (\<lambda>dest. response\<lparr>GetTargetsResponse_ApplicationProblemJSON403 := Some dest\<rparr>) (jd_Problem jd bodyBytes)
            else if is_json rsp 500
            then map_sum id (\<lambda>dest. response\<lparr>GetTargetsResponse_ApplicationProblemJSON500 := Some dest\<rparr>) (jd_Problem jd bodyBytes)
            else if is_json rsp 503
            then map_sum id (\<lambda>dest. response\<lparr>GetTargetsResponse_ApplicationProblemJSON503 := Some dest\<rparr>) (jd_Problem jd bodyBytes)
            else Inr response))"

definition ParseGetTargetsNameDriftResponse :: "JsonDecoders \<Rightarrow> HttpResponse \<Rightarrow> (goerr, GetTargetsNameDriftResponse) result" where
  "ParseGetTargetsNameDriftResponse jd rsp =
     (case hr_Body rsp of
        Inl err \<Rightarrow> Inl err
      | Inr bodyBytes \<Rightarrow>
          (let response = \<lparr>GetTargetsNameDriftResponse_Body = bodyBytes, GetTargetsNameDriftResponse_HTTPResponse = Some rsp,
              GetTargetsNameDriftResponse_JSON200 = None, GetTargetsNameDriftResponse_ApplicationProblemJSON400 = None,
              GetTargetsNameDriftResponse_ApplicationProblemJSON401 = None, GetTargetsNameDriftResponse_ApplicationProblemJSON403 = None,
              GetTargetsNameDriftResponse_ApplicationProblemJSON404 = None, GetTargetsNameDriftResponse_ApplicationProblemJSON500 = None,
              GetTargetsNameDriftResponse_ApplicationProblemJSON503 = None\<rparr> in
            if is_json rsp 200
            then map_sum id (\<lambda>dest. response\<lparr>GetTargetsNameDriftResponse_JSON200 := Some dest\<rparr>) (jd_Diff jd bodyBytes)
            else if is_json rsp 400
            then map_sum id (\<lambda>dest. response\<lparr>GetTargetsNameDriftResponse_ApplicationProblemJSON400 := Some dest\<rparr>) (jd_Problem jd bodyBytes)
            else if is_json rsp 401
            then map_sum id (\<lambda>dest. response\<lparr>GetTargetsNameDriftResponse_ApplicationProblemJSON401 := Some dest\<rparr>) (jd_Problem jd bodyBytes)
            else if is_json rsp 403
            then map_sum id (\<lambda>dest. response\<lparr>GetTargetsNameDriftResponse_ApplicationProblemJSON403 := Some dest\<rparr>) (jd_Problem jd bodyBytes)
            else if is_json rsp 404
            then map_sum id (\<lambda>dest. response\<lparr>GetTargetsNameDriftResponse_ApplicationProblemJSON404 := Some dest\<rparr>) (jd_Problem jd bodyBytes)
            else if is_json rsp 500
            then map_sum id (\<lambda>dest. response\<lparr>GetTargetsNameDriftResponse_ApplicationProblemJSON500 := Some dest\<rparr>) (jd_Problem jd bodyBytes)
            else if is_json rsp 503
            then map_sum id (\<lambda>dest. response\<lparr>GetTargetsNameDriftResponse_ApplicationProblemJSON503 := Some dest\<rparr>) (jd_Problem jd bodyBytes)
            else Inr response))"

definition ParseGetTargetsNameHealthResponse :: "JsonDecoders \<Rightarrow> HttpResponse \<Rightarrow> (goerr, GetTargetsNameHealthResponse) result" where
  "ParseGetTargetsNameHealthResponse jd rsp =
     (case hr_Body rsp of
        Inl err \<Rightarrow> Inl err
      | Inr bodyBytes \<Rightarrow>
          (let response = \<lparr>GetTargetsNameHealthResponse_Body = bodyBytes, GetTargetsNameHealthResponse_HTTPResponse = Some rsp,
              GetTargetsNameHealthResponse_JSON200 = None, GetTargetsNameHealthResponse_ApplicationProblemJSON400 = None,
              GetTargetsNameHealthResponse_ApplicationProblemJSON401 = None, GetTargetsNameHealthResponse_ApplicationProblemJSON403 = None,
              GetTargetsNameHealthResponse_ApplicationProblemJSON404 = None, GetTargetsNameHealthResponse_ApplicationProblemJSON500 = None,
              GetTargetsNameHealthResponse_ApplicationProblemJSON503 = None\<rparr> in
            if is_json rsp 200
            then map_sum id (\<lambda>dest. response\<lparr>GetTargetsNameHealthResponse_JSON200 := Some dest\<rparr>) (jd_Health jd bodyBytes)
            else if is_json rsp 400
            then map_sum id (\<lambda>dest. response\<lparr>GetTargetsNameHealthResponse_ApplicationProblemJSON400 := Some dest\<rparr>) (jd_Problem jd bodyBytes)
            else if is_json rsp 401
            then map_sum id (\<lambda>dest. response\<lparr>GetTargetsNameHealthResponse_ApplicationProblemJSON401 := Some dest\<rparr>) (jd_Problem jd bodyBytes)
            else if is_json rsp 403
            then map_sum id (\<lambda>dest. response\<lparr>GetTargetsNameHealthResponse_ApplicationProblemJSON403 := Some dest\<rparr>) (jd_Problem jd bodyBytes)
            else if is_json rsp 404
            then map_sum id (\<lambda>dest. response\<lparr>GetTargetsNameHealthResponse_ApplicationProblemJSON404 := Some dest\<rparr>) (jd_Problem jd bodyBytes)
            else if is_json rsp 500
            then map_sum id (\<lambda>dest. response\<lparr>GetTargetsNameHealthResponse_ApplicationProblemJSON500 := Some dest\<rparr>) (jd_Problem jd bodyBytes)
            else if is_json rsp 503
            then map_sum id (\<lambda>dest. response\<lparr>GetTargetsNameHealthResponse_ApplicationProblemJSON503 := Some dest\<rparr>) (jd_Problem jd bodyBytes)
            else Inr response))"
end
