(* ===== verification/Client_Trips.thy ===== *)
theory Client_Trips
  imports Client_Responses
begin

text \<open>
  What a client of the generated code reads of what a server of the generated code writes: for
  every response object of every operation, the parser fills the one field of the same status,
  with the same value.  The JSON text codec is an argument.
\<close>

section \<open>On the wire\<close>

text \<open>The text of a piece of body; a problem document is streamed by the same encoder.\<close>

fun body_text :: "encoder \<Rightarrow> body \<Rightarrow> string" where
  "body_text enc (BodyJSON txt) = txt"
| "body_text enc (BodyText txt) = txt"
| "body_text enc (BodyProblem p) = (case enc (RProblem p) of Inl _ \<Rightarrow> [] | Inr txt \<Rightarrow> txt)"

definition receive :: "(int \<Rightarrow> string) \<Rightarrow> encoder \<Rightarrow> World \<Rightarrow> HttpResponse" where
  "receive st enc wd =
     (let w = wd_writer wd in
      \<lparr>hr_Status = st (wire_status w), hr_StatusCode = wire_status w,
       hr_Header = map (\<lambda>(k, v). (k, [v])) (if w_status w = None then w_header w else w_sent w),
       hr_Body = Inr (concat (map (body_text enc) (w_body w)))\<rparr>)"

text \<open>The decoder of a value's type gives the value back.\<close>

primrec decodes :: "JsonDecoders \<Rightarrow> string \<Rightarrow> ApiResponse \<Rightarrow> bool" where
  "decodes jd txt (RApplications items asOf) \<longleftrightarrow> jd_ApplicationsPage jd txt = Inr (asOf, items)"
| "decodes jd txt (RApplication v) \<longleftrightarrow> jd_Application jd txt = Inr v"
| "decodes jd txt (RMatrix v) \<longleftrightarrow> jd_Matrix jd txt = Inr v"
| "decodes jd txt (RPromotions v) \<longleftrightarrow> jd_Promotions jd txt = Inr v"
| "decodes jd txt (RReleases v) \<longleftrightarrow> jd_Releases jd txt = Inr v"
| "decodes jd txt (RAudit items next) \<longleftrightarrow> jd_AuditPage jd txt = Inr (items, next)"
| "decodes jd txt (RDiff v) \<longleftrightarrow> jd_Diff jd txt = Inr v"
| "decodes jd txt (REnvironments v) \<longleftrightarrow> jd_Environments jd txt = Inr v"
| "decodes jd txt (RPromotion v) \<longleftrightarrow> jd_Promotion jd txt = Inr v"
| "decodes jd txt (RTargets v) \<longleftrightarrow> jd_Targets jd txt = Inr v"
| "decodes jd txt (RHealth v) \<longleftrightarrow> jd_Health jd txt = Inr v"
| "decodes jd txt (RProblem p) \<longleftrightarrow> jd_Problem jd txt = Inr p"

section \<open>Views\<close>

text \<open>The filled fields of a parsed response, each with the status it stands for.\<close>

definition filled :: "int \<Rightarrow> ('a \<Rightarrow> ApiResponse) \<Rightarrow> 'a option \<Rightarrow> (int \<times> ApiResponse) list" where
  "filled code f v = (case v of None \<Rightarrow> [] | Some x \<Rightarrow> [(code, f x)])"

definition GetApplicationsResponse_view :: "GetApplicationsResponse \<Rightarrow> (int \<times> ApiResponse) list" where
  "GetApplicationsResponse_view r = filled 200 (\<lambda>(asOf, items). RApplications items asOf) (GetApplicationsResponse_JSON200 r) @
     filled 400 RProblem (GetApplicationsResponse_ApplicationProblemJSON400 r) @
     filled 401 RProblem (GetApplicationsResponse_ApplicationProblemJSON401 r) @
     filled 403 RProblem (GetApplicationsResponse_ApplicationProblemJSON403 r) @
     filled 500 RProblem (GetApplicationsResponse_ApplicationProblemJSON500 r) @
     filled 503 RProblem (GetApplicationsResponse_ApplicationProblemJSON503 r)"

definition GetApplicationsNameResponse_view :: "GetApplicationsNameResponse \<Rightarrow> (int \<times> ApiResponse) list" where
  "GetApplicationsNameResponse_view r = filled 200 RApplication (GetApplicationsNameResponse_JSON200 r) @
     filled 400 RProblem (GetApplicationsNameResponse_ApplicationProblemJSON400 r) @
     filled 401 RProblem (GetApplicationsNameResponse_ApplicationProblemJSON401 r) @
     filled 403 RProblem (GetApplicationsNameResponse_ApplicationProblemJSON403 r) @
     filled 404 RProblem (GetApplicationsNameResponse_ApplicationProblemJSON404 r) @
     filled 500 RProblem (GetApplicationsNameResponse_ApplicationProblemJSON500 r) @
     filled 503 RProblem (GetApplicationsNameResponse_ApplicationProblemJSON503 r)"

definition GetApplicationsNameMatrixResponse_view :: "GetApplicationsNameMatrixResponse \<Rightarrow> (int \<times> ApiResponse) list" where
  "GetApplicationsNameMatrixResponse_view r = filled 200 RMatrix (GetApplicationsNameMatrixResponse_JSON200 r) @
     filled 400 RProblem (GetApplicationsNameMatrixResponse_ApplicationProblemJSON400 r) @
     filled 401 RProblem (GetApplicationsNameMatrixResponse_ApplicationProblemJSON401 r) @
     filled 403 RProblem (GetApplicationsNameMatrixResponse_ApplicationProblemJSON403 r) @
     filled 404 RProblem (GetApplicationsNameMatrixResponse_ApplicationProblemJSON404 r) @
     filled 500 RProblem (GetApplicationsNameMatrixResponse_ApplicationProblemJSON500 r) @
     filled 503 RProblem (GetApplicationsNameMatrixResponse_ApplicationProblemJSON503 r)"

definition GetApplicationsNamePromotionsResponse_view :: "GetApplicationsNamePromotionsResponse \<Rightarrow> (int \<times> ApiResponse) list" where
  "GetApplicationsNamePromotionsResponse_view r = filled 200 RPromotions (GetApplicationsNamePromotionsResponse_JSON200 r) @
     filled 400 RProblem (GetApplicationsNamePromotionsResponse_ApplicationProblemJSON400 r) @
     filled 401 RProblem (GetApplicationsNamePromotionsResponse_ApplicationProblemJSON401 r) @
     filled 403 RProblem (GetApplicationsNamePromotionsResponse_ApplicationProblemJSON403 r) @
     filled 500 RProblem (GetApplicationsNamePromotionsResponse_ApplicationProblemJSON500 r) @
     filled 503 RProblem (GetApplicationsNamePromotionsResponse_ApplicationProblemJSON503 r)"

definition GetApplicationsNameReleasesResponse_view :: "GetApplicationsNameReleasesResponse \<Rightarrow> (int \<times> ApiResponse) list" where
  "GetApplicationsNameReleasesResponse_view r = filled 200 RReleases (GetApplicationsNameReleasesResponse_JSON200 r) @
     filled 400 RProblem (GetApplicationsNameReleasesResponse_ApplicationProblemJSON400 r) @
     filled 401 RProblem (GetApplicationsNameReleasesResponse_ApplicationProblemJSON401 r) @
     filled 403 RProblem (GetApplicationsNameReleasesResponse_ApplicationProblemJSON403 r) @
     filled 500 RProblem (GetApplicationsNameReleasesResponse_ApplicationProblemJSON500 r) @
     filled 503 RProblem (GetApplicationsNameReleasesResponse_ApplicationProblemJSON503 r)"

definition GetAuditResponse_view :: "GetAuditResponse \<Rightarrow> (int \<times> ApiResponse) list" where
  "GetAuditResponse_view r = filled 200 (\<lambda>(items, next). RAudit items next) (GetAuditResponse_JSON200 r) @
     filled 400 RProblem (GetAuditResponse_ApplicationProblemJSON400 r) @
     filled 401 RProblem (GetAuditResponse_ApplicationProblemJSON401 r) @
     filled 403 RProblem (GetAuditResponse_ApplicationProblemJSON403 r) @
     filled 500 RProblem (GetAuditResponse_ApplicationProblemJSON500 r) @
     filled 503 RProblem (GetAuditResponse_ApplicationProblemJSON503 r)"

definition GetDiffResponse_view :: "GetDiffResponse \<Rightarrow> (int \<times> ApiResponse) list" where
  "GetDiffResponse_view r = filled 200 RDiff (GetDiffResponse_JSON200 r) @
     filled 400 RProblem (GetDiffResponse_ApplicationProblemJSON400 r) @
     filled 401 RProblem (GetDiffResponse_ApplicationProblemJSON401 r) @
     filled 403 RProblem (GetDiffResponse_ApplicationProblemJSON403 r) @
     filled 500 RProblem (GetDiffResponse_ApplicationProblemJSON500 r) @
     filled 503 RProblem (GetDiffResponse_ApplicationProblemJSON503 r)"

definition GetEnvironmentsResponse_view :: "GetEnvironmentsResponse \<Rightarrow> (int \<times> ApiResponse) list" where
  "GetEnvironmentsResponse_view r = filled 200 REnvironments (GetEnvironmentsResponse_JSON200 r) @
     filled 400 RProblem (GetEnvironmentsResponse_ApplicationProblemJSON400 r) @
     filled 401 RProblem (GetEnvironmentsResponse_ApplicationProblemJSON401 r) @
     filled 403 RProblem (GetEnvironmentsResponse_ApplicationProblemJSON403 r) @
     filled 500 RProblem (GetEnvironmentsResponse_ApplicationProblemJSON500 r) @
     filled 503 RProblem (GetEnvironmentsResponse_ApplicationProblemJSON503 r)"

definition GetPromotionsResponse_view :: "GetPromotionsResponse \<Rightarrow> (int \<times> ApiResponse) list" where
  "GetPromotionsResponse_view r = filled 200 RPromotions (GetPromotionsResponse_JSON200 r) @
     filled 400 RProblem (GetPromotionsResponse_ApplicationProblemJSON400 r) @
     filled 401 RProblem (GetPromotionsResponse_ApplicationProblemJSON401 r) @
     filled 403 RProblem (GetPromotionsResponse_ApplicationProblemJSON403 r) @
     filled 500 RProblem (GetPromotionsResponse_ApplicationProblemJSON500 r) @
     filled 503 RProblem (GetPromotionsResponse_ApplicationProblemJSON503 r)"

definition PostPromotionsResponse_view :: "PostPromotionsResponse \<Rightarrow> (int \<times> ApiResponse) list" where
  "PostPromotionsResponse_view r = filled 202 RPromotion (PostPromotionsResponse_JSON202 r) @
     filled 400 RProblem (PostPromotionsResponse_ApplicationProblemJSON400 r) @
     filled 401 RProblem (PostPromotionsResponse_ApplicationProblemJSON401 r) @
     filled 403 RProblem (PostPromotionsResponse_ApplicationProblemJSON403 r) @
     filled 404 RProblem (PostPromotionsResponse_ApplicationProblemJSON404 r) @
     filled 409 RProblem (PostPromotionsResponse_ApplicationProblemJSON409 r) @
     filled 429 RProblem (PostPromotionsResponse_ApplicationProblemJSON429 r) @
     filled 500 RProblem (PostPromotionsResponse_ApplicationProblemJSON500 r) @
     filled 501 RProblem (PostPromotionsResponse_ApplicationProblemJSON501 r)"

definition GetPromotionsIDResponse_view :: "GetPromotionsIDResponse \<Rightarrow> (int \<times> ApiResponse) list" where
  "GetPromotionsIDResponse_view r = filled 200 RPromotion (GetPromotionsIDResponse_JSON200 r) @
     filled 400 RProblem (GetPromotionsIDResponse_ApplicationProblemJSON400 r) @
     filled 401 RProblem (GetPromotionsIDResponse_ApplicationProblemJSON401 r) @
     filled 403 RProblem (GetPromotionsIDResponse_ApplicationProblemJSON403 r) @
     filled 404 RProblem (GetPromotionsIDResponse_ApplicationProblemJSON404 r) @
     filled 500 RProblem (GetPromotionsIDResponse_ApplicationProblemJSON500 r) @
     filled 503 RProblem (GetPromotionsIDResponse_ApplicationProblemJSON503 r)"

definition PostPromotionsIDApproveResponse_view :: "PostPromotionsIDApproveResponse \<Rightarrow> (int \<times> ApiResponse) list" where
  "PostPromotionsIDApproveResponse_view r = filled 200 RPromotion (PostPromotionsIDApproveResponse_JSON200 r) @
     filled 400 RProblem (PostPromotionsIDApproveResponse_ApplicationProblemJSON400 r) @
     filled 401 RProblem (PostPromotionsIDApproveResponse_ApplicationProblemJSON401 r) @
     filled 403 RProblem (PostPromotionsIDApproveResponse_ApplicationProblemJSON403 r) @
     filled 404 RProblem (PostPromotionsIDApproveResponse_ApplicationProblemJSON404 r) @
     filled 409 RProblem (PostPromotionsIDApproveResponse_ApplicationProblemJSON409 r) @
     filled 429 RProblem (PostPromotionsIDApproveResponse_ApplicationProblemJSON429 r) @
     filled 500 RProblem (PostPromotionsIDApproveResponse_ApplicationProblemJSON500 r) @
     filled 501 RProblem (PostPromotionsIDApproveResponse_ApplicationProblemJSON501 r)"

definition PostPromotionsIDCancelResponse_view :: "PostPromotionsIDCancelResponse \<Rightarrow> (int \<times> ApiResponse) list" where
  "PostPromotionsIDCancelResponse_view r = filled 202 RPromotion (PostPromotionsIDCancelResponse_JSON202 r) @
     filled 400 RProblem (PostPromotionsIDCancelResponse_ApplicationProblemJSON400 r) @
     filled 401 RProblem (PostPromotionsIDCancelResponse_ApplicationProblemJSON401 r) @
     filled 403 RProblem (PostPromotionsIDCancelResponse_ApplicationProblemJSON403 r) @
     filled 404 RProblem (PostPromotionsIDCancelResponse_ApplicationProblemJSON404 r) @
     filled 409 RProblem (PostPromotionsIDCancelResponse_ApplicationProblemJSON409 r) @
     filled 429 RProblem (PostPromotionsIDCancelResponse_ApplicationProblemJSON429 r) @
     filled 500 RProblem (PostPromotionsIDCancelResponse_ApplicationProblemJSON500 r) @
     filled 501 RProblem (PostPromotionsIDCancelResponse_ApplicationProblemJSON501 r)"

definition PostPromotionsIDRetryResponse_view :: "PostPromotionsIDRetryResponse \<Rightarrow> (int \<times> ApiResponse) list" where
  "PostPromotionsIDRetryResponse_view r = filled 202 RPromotion (PostPromotionsIDRetryResponse_JSON202 r) @
     filled 400 RProblem (PostPromotionsIDRetryResponse_ApplicationProblemJSON400 r) @
     filled 401 RProblem (PostPromotionsIDRetryResponse_ApplicationProblemJSON401 r) @
     filled 403 RProblem (PostPromotionsIDRetryResponse_ApplicationProblemJSON403 r) @
     filled 404 RProblem (PostPromotionsIDRetryResponse_ApplicationProblemJSON404 r) @
     filled 409 RProblem (PostPromotionsIDRetryResponse_ApplicationProblemJSON409 r) @
     filled 429 RProblem (PostPromotionsIDRetryResponse_ApplicationProblemJSON429 r) @
     filled 500 RProblem (PostPromotionsIDRetryResponse_ApplicationProblemJSON500 r) @
     filled 501 RProblem (PostPromotionsIDRetryResponse_ApplicationProblemJSON501 r)"

definition GetReleasesResponse_view :: "GetReleasesResponse \<Rightarrow> (int \<times> ApiResponse) list" where
  "GetReleasesResponse_view r = filled 200 RReleases (GetReleasesResponse_JSON200 r) @
     filled 400 RProblem (GetReleasesResponse_ApplicationProblemJSON400 r) @
     filled 401 RProblem (GetReleasesResponse_ApplicationProblemJSON401 r) @
     filled 403 RProblem (GetReleasesResponse_ApplicationProblemJSON403 r) @
     filled 500 RProblem (GetReleasesResponse_ApplicationProblemJSON500 r) @
     filled 503 RProblem (GetReleasesResponse_ApplicationProblemJSON503 r)"

definition GetTargetsResponse_view :: "GetTargetsResponse \<Rightarrow> (int \<times> ApiResponse) list" where
  "GetTargetsResponse_view r = filled 200 RTargets (GetTargetsResponse_JSON200 r) @
     filled 400 RProblem (GetTargetsResponse_ApplicationProblemJSON400 r) @
     filled 401 RProblem (GetTargetsResponse_ApplicationProblemJSON401 r) @
     filled 403 RProblem (GetTargetsResponse_ApplicationProblemJSON403 r) @
     filled 500 RProblem (GetTargetsResponse_ApplicationProblemJSON500 r) @
     filled 503 RProblem (GetTargetsResponse_ApplicationProblemJSON503 r)"

definition GetTargetsNameDriftResponse_view :: "GetTargetsNameDriftResponse \<Rightarrow> (int \<times> ApiResponse) list" where
  "GetTargetsNameDriftResponse_view r = filled 200 RDiff (GetTargetsNameDriftResponse_JSON200 r) @
     filled 400 RProblem (GetTargetsNameDriftResponse_ApplicationProblemJSON400 r) @
     filled 401 RProblem (GetTargetsNameDriftResponse_ApplicationProblemJSON401 r) @
     filled 403 RProblem (GetTargetsNameDriftResponse_ApplicationProblemJSON403 r) @
     filled 404 RProblem (GetTargetsNameDriftResponse_ApplicationProblemJSON404 r) @
     filled 500 RProblem (GetTargetsNameDriftResponse_ApplicationProblemJSON500 r) @
     filled 503 RProblem (GetTargetsNameDriftResponse_ApplicationProblemJSON503 r)"

definition GetTargetsNameHealthResponse_view :: "GetTargetsNameHealthResponse \<Rightarrow> (int \<times> ApiResponse) list" where
  "GetTargetsNameHealthResponse_view r = filled 200 RHealth (GetTargetsNameHealthResponse_JSON200 r) @
     filled 400 RProblem (GetTargetsNameHealthResponse_ApplicationProblemJSON400 r) @
     filled 401 RProblem (GetTargetsNameHealthResponse_ApplicationProblemJSON401 r) @
     filled 403 RProblem (GetTargetsNameHealthResponse_ApplicationProblemJSON403 r) @
     filled 404 RProblem (GetTargetsNameHealthResponse_ApplicationProblemJSON404 r) @
     filled 500 RProblem (GetTargetsNameHealthResponse_ApplicationProblemJSON500 r) @
     filled 503 RProblem (GetTargetsNameHealthResponse_ApplicationProblemJSON503 r)"

primrec GetApplicationsResponseObject_view :: "GetApplicationsResponseObject \<Rightarrow> int \<times> ApiResponse" where
  "GetApplicationsResponseObject_view (GetApplications200JSONResponse asOf items) = (200, RApplications items asOf)"
| "GetApplicationsResponseObject_view (GetApplications400ApplicationProblemPlusJSONResponse p) = (400, RProblem p)"
| "GetApplicationsResponseObject_view (GetApplications401ApplicationProblemPlusJSONResponse p) = (401, RProblem p)"
| "GetApplicationsResponseObject_view (GetApplications403ApplicationProblemPlusJSONResponse p) = (403, RProblem p)"
| "GetApplicationsResponseObject_view (GetApplications500ApplicationProblemPlusJSONResponse p) = (500, RProblem p)"
| "GetApplicationsResponseObject_view (GetApplications503ApplicationProblemPlusJSONResponse p) = (503, RProblem p)"

primrec GetApplicationsNameResponseObject_view :: "GetApplicationsNameResponseObject \<Rightarrow> int \<times> ApiResponse" where
  "GetApplicationsNameResponseObject_view (GetApplicationsName200JSONResponse v) = (200, RApplication v)"
| "GetApplicationsNameResponseObject_view (GetApplicationsName400ApplicationProblemPlusJSONResponse p) = (400, RProblem p)"
| "GetApplicationsNameResponseObject_view (GetApplicationsName401ApplicationProblemPlusJSONResponse p) = (401, RProblem p)"
| "GetApplicationsNameResponseObject_view (GetApplicationsName403ApplicationProblemPlusJSONResponse p) = (403, RProblem p)"
| "GetApplicationsNameResponseObject_view (GetApplicationsName404ApplicationProblemPlusJSONResponse p) = (404, RProblem p)"
| "GetApplicationsNameResponseObject_view (GetApplicationsName500ApplicationProblemPlusJSONResponse p) = (500, RProblem p)"
| "GetApplicationsNameResponseObject_view (GetApplicationsName503ApplicationProblemPlusJSONResponse p) = (503, RProblem p)"

primrec GetApplicationsNameMatrixResponseObject_view :: "GetApplicationsNameMatrixResponseObject \<Rightarrow> int \<times> ApiResponse" where
  "GetApplicationsNameMatrixResponseObject_view (GetApplicationsNameMatrix200JSONResponse v) = (200, RMatrix v)"
| "GetApplicationsNameMatrixResponseObject_view (GetApplicationsNameMatrix400ApplicationProblemPlusJSONResponse p) = (400, RProblem p)"
| "GetApplicationsNameMatrixResponseObject_view (GetApplicationsNameMatrix401ApplicationProblemPlusJSONResponse p) = (401, RProblem p)"
| "GetApplicationsNameMatrixResponseObject_view (GetApplicationsNameMatrix403ApplicationProblemPlusJSONResponse p) = (403, RProblem p)"
| "GetApplicationsNameMatrixResponseObject_view (GetApplicationsNameMatrix404ApplicationProblemPlusJSONResponse p) = (404, RProblem p)"
| "GetApplicationsNameMatrixResponseObject_view (GetApplicationsNameMatrix500ApplicationProblemPlusJSONResponse p) = (500, RProblem p)"
| "GetApplicationsNameMatrixResponseObject_view (GetApplicationsNameMatrix503ApplicationProblemPlusJSONResponse p) = (503, RProblem p)"

primrec GetApplicationsNamePromotionsResponseObject_view :: "GetApplicationsNamePromotionsResponseObject \<Rightarrow> int \<times> ApiResponse" where
  "GetApplicationsNamePromotionsResponseObject_view (GetApplicationsNamePromotions200JSONResponse v) = (200, RPromotions v)"
| "GetApplicationsNamePromotionsResponseObject_view (GetApplicationsNamePromotions400ApplicationProblemPlusJSONResponse p) = (400, RProblem p)"
| "GetApplicationsNamePromotionsResponseObject_view (GetApplicationsNamePromotions401ApplicationProblemPlusJSONResponse p) = (401, RProblem p)"
| "GetApplicationsNamePromotionsResponseObject_view (GetApplicationsNamePromotions403ApplicationProblemPlusJSONResponse p) = (403, RProblem p)"
| "GetApplicationsNamePromotionsResponseObject_view (GetApplicationsNamePromotions500ApplicationProblemPlusJSONResponse p) = (500, RProblem p)"
| "GetApplicationsNamePromotionsResponseObject_view (GetApplicationsNamePromotions503ApplicationProblemPlusJSONResponse p) = (503, RProblem p)"

primrec GetApplicationsNameReleasesResponseObject_view :: "GetApplicationsNameReleasesResponseObject \<Rightarrow> int \<times> ApiResponse" where
  "GetApplicationsNameReleasesResponseObject_view (GetApplicationsNameReleases200JSONResponse v) = (200, RReleases v)"
| "GetApplicationsNameReleasesResponseObject_view (GetApplicationsNameReleases400ApplicationProblemPlusJSONResponse p) = (400, RProblem p)"
| "GetApplicationsNameReleasesResponseObject_view (GetApplicationsNameReleases401ApplicationProblemPlusJSONResponse p) = (401, RProblem p)"
| "GetApplicationsNameReleasesResponseObject_view (GetApplicationsNameReleases403ApplicationProblemPlusJSONResponse p) = (403, RProblem p)"
| "GetApplicationsNameReleasesResponseObject_view (GetApplicationsNameReleases500ApplicationProblemPlusJSONResponse p) = (500, RProblem p)"
| "GetApplicationsNameReleasesResponseObject_view (GetApplicationsNameReleases503ApplicationProblemPlusJSONResponse p) = (503, RProblem p)"

primrec GetAuditResponseObject_view :: "GetAuditResponseObject \<Rightarrow> int \<times> ApiResponse" where
  "GetAuditResponseObject_view (GetAudit200JSONResponse items nextCursor) = (200, RAudit items nextCursor)"
| "GetAuditResponseObject_view (GetAudit400ApplicationProblemPlusJSONResponse p) = (400, RProblem p)"
| "GetAuditResponseObject_view (GetAudit401ApplicationProblemPlusJSONResponse p) = (401, RProblem p)"
| "GetAuditResponseObject_view (GetAudit403ApplicationProblemPlusJSONResponse p) = (403, RProblem p)"
| "GetAuditResponseObject_view (GetAudit500ApplicationProblemPlusJSONResponse p) = (500, RProblem p)"
| "GetAuditResponseObject_view (GetAudit503ApplicationProblemPlusJSONResponse p) = (503, RProblem p)"

primrec GetDiffResponseObject_view :: "GetDiffResponseObject \<Rightarrow> int \<times> ApiResponse" where
  "GetDiffResponseObject_view (GetDiff200JSONResponse v) = (200, RDiff v)"
| "GetDiffResponseObject_view (GetDiff400ApplicationProblemPlusJSONResponse p) = (400, RProblem p)"
| "GetDiffResponseObject_view (GetDiff401ApplicationProblemPlusJSONResponse p) = (401, RProblem p)"
| "GetDiffResponseObject_view (GetDiff403ApplicationProblemPlusJSONResponse p) = (403, RProblem p)"
| "GetDiffResponseObject_view (GetDiff500ApplicationProblemPlusJSONResponse p) = (500, RProblem p)"
| "GetDiffResponseObject_view (GetDiff503ApplicationProblemPlusJSONResponse p) = (503, RProblem p)"

primrec GetEnvironmentsResponseObject_view :: "GetEnvironmentsResponseObject \<Rightarrow> int \<times> ApiResponse" where
  "GetEnvironmentsResponseObject_view (GetEnvironments200JSONResponse v) = (200, REnvironments v)"
| "GetEnvironmentsResponseObject_view (GetEnvironments400ApplicationProblemPlusJSONResponse p) = (400, RProblem p)"
| "GetEnvironmentsResponseObject_view (GetEnvironments401ApplicationProblemPlusJSONResponse p) = (401, RProblem p)"
| "GetEnvironmentsResponseObject_view (GetEnvironments403ApplicationProblemPlusJSONResponse p) = (403, RProblem p)"
| "GetEnvironmentsResponseObject_view (GetEnvironments500ApplicationProblemPlusJSONResponse p) = (500, RProblem p)"
| "GetEnvironmentsResponseObject_view (GetEnvironments503ApplicationProblemPlusJSONResponse p) = (503, RProblem p)"

primrec GetPromotionsResponseObject_view :: "GetPromotionsResponseObject \<Rightarrow> int \<times> ApiResponse" where
  "GetPromotionsResponseObject_view (GetPromotions200JSONResponse v) = (200, RPromotions v)"
| "GetPromotionsResponseObject_view (GetPromotions400ApplicationProblemPlusJSONResponse p) = (400, RProblem p)"
| "GetPromotionsResponseObject_view (GetPromotions401ApplicationProblemPlusJSONResponse p) = (401, RProblem p)"
| "GetPromotionsResponseObject_view (GetPromotions403ApplicationProblemPlusJSONResponse p) = (403, RProblem p)"
| "GetPromotionsResponseObject_view (GetPromotions500ApplicationProblemPlusJSONResponse p) = (500, RProblem p)"
| "GetPromotionsResponseObject_view (GetPromotions503ApplicationProblemPlusJSONResponse p) = (503, RProblem p)"

primrec PostPromotionsResponseObject_view :: "PostPromotionsResponseObject \<Rightarrow> int \<times> ApiResponse" where
  "PostPromotionsResponseObject_view (PostPromotions202JSONResponse v) = (202, RPromotion v)"
| "PostPromotionsResponseObject_view (PostPromotions400ApplicationProblemPlusJSONResponse p) = (400, RProblem p)"
| "PostPromotionsResponseObject_view (PostPromotions401ApplicationProblemPlusJSONResponse p) = (401, RProblem p)"
| "PostPromotionsResponseObject_view (PostPromotions403ApplicationProblemPlusJSONResponse p) = (403, RProblem p)"
| "PostPromotionsResponseObject_view (PostPromotions404ApplicationProblemPlusJSONResponse p) = (404, RProblem p)"
| "PostPromotionsResponseObject_view (PostPromotions409ApplicationProblemPlusJSONResponse p) = (409, RProblem p)"
| "PostPromotionsResponseObject_view (PostPromotions429ApplicationProblemPlusJSONResponse p) = (429, RProblem p)"
| "PostPromotionsResponseObject_view (PostPromotions500ApplicationProblemPlusJSONResponse p) = (500, RProblem p)"
| "PostPromotionsResponseObject_view (PostPromotions501ApplicationProblemPlusJSONResponse p) = (501, RProblem p)"

primrec GetPromotionsIDResponseObject_view :: "GetPromotionsIDResponseObject \<Rightarrow> int \<times> ApiResponse" where
  "GetPromotionsIDResponseObject_view (GetPromotionsID200JSONResponse v) = (200, RPromotion v)"
| "GetPromotionsIDResponseObject_view (GetPromotionsID400ApplicationProblemPlusJSONResponse p) = (400, RProblem p)"
| "GetPromotionsIDResponseObject_view (GetPromotionsID401ApplicationProblemPlusJSONResponse p) = (401, RProblem p)"
| "GetPromotionsIDResponseObject_view (GetPromotionsID403ApplicationProblemPlusJSONResponse p) = (403, RProblem p)"
| "GetPromotionsIDResponseObject_view (GetPromotionsID404ApplicationProblemPlusJSONResponse p) = (404, RProblem p)"
| "GetPromotionsIDResponseObject_view (GetPromotionsID500ApplicationProblemPlusJSONResponse p) = (500, RProblem p)"
| "GetPromotionsIDResponseObject_view (GetPromotionsID503ApplicationProblemPlusJSONResponse p) = (503, RProblem p)"

primrec PostPromotionsIDApproveResponseObject_view :: "PostPromotionsIDApproveResponseObject \<Rightarrow> int \<times> ApiResponse" where
  "PostPromotionsIDApproveResponseObject_view (PostPromotionsIDApprove200JSONResponse v) = (200, RPromotion v)"
| "PostPromotionsIDApproveResponseObject_view (PostPromotionsIDApprove400ApplicationProblemPlusJSONResponse p) = (400, RProblem p)"
| "PostPromotionsIDApproveResponseObject_view (PostPromotionsIDApprove401ApplicationProblemPlusJSONResponse p) = (401, RProblem p)"
| "PostPromotionsIDApproveResponseObject_view (PostPromotionsIDApprove403ApplicationProblemPlusJSONResponse p) = (403, RProblem p)"
| "PostPromotionsIDApproveResponseObject_view (PostPromotionsIDApprove404ApplicationProblemPlusJSONResponse p) = (404, RProblem p)"
| "PostPromotionsIDApproveResponseObject_view (PostPromotionsIDApprove409ApplicationProblemPlusJSONResponse p) = (409, RProblem p)"
| "PostPromotionsIDApproveResponseObject_view (PostPromotionsIDApprove429ApplicationProblemPlusJSONResponse p) = (429, RProblem p)"
| "PostPromotionsIDApproveResponseObject_view (PostPromotionsIDApprove500ApplicationProblemPlusJSONResponse p) = (500, RProblem p)"
| "PostPromotionsIDApproveResponseObject_view (PostPromotionsIDApprove501ApplicationProblemPlusJSONResponse p) = (501, RProblem p)"

primrec PostPromotionsIDCancelResponseObject_view :: "PostPromotionsIDCancelResponseObject \<Rightarrow> int \<times> ApiResponse" where
  "PostPromotionsIDCancelResponseObject_view (PostPromotionsIDCancel202JSONResponse v) = (202, RPromotion v)"
| "PostPromotionsIDCancelResponseObject_view (PostPromotionsIDCancel400ApplicationProblemPlusJSONResponse p) = (400, RProblem p)"
| "PostPromotionsIDCancelResponseObject_view (PostPromotionsIDCancel401ApplicationProblemPlusJSONResponse p) = (401, RProblem p)"
| "PostPromotionsIDCancelResponseObject_view (PostPromotionsIDCancel403ApplicationProblemPlusJSONResponse p) = (403, RProblem p)"
| "PostPromotionsIDCancelResponseObject_view (PostPromotionsIDCancel404ApplicationProblemPlusJSONResponse p) = (404, RProblem p)"
| "PostPromotionsIDCancelResponseObject_view (PostPromotionsIDCancel409ApplicationProblemPlusJSONResponse p) = (409, RProblem p)"
| "PostPromotionsIDCancelResponseObject_view (PostPromotionsIDCancel429ApplicationProblemPlusJSONResponse p) = (429, RProblem p)"
| "PostPromotionsIDCancelResponseObject_view (PostPromotionsIDCancel500ApplicationProblemPlusJSONResponse p) = (500, RProblem p)"
| "PostPromotionsIDCancelResponseObject_view (PostPromotionsIDCancel501ApplicationProblemPlusJSONResponse p) = (501, RProblem p)"

primrec PostPromotionsIDRetryResponseObject_view :: "PostPromotionsIDRetryResponseObject \<Rightarrow> int \<times> ApiResponse" where
  "PostPromotionsIDRetryResponseObject_view (PostPromotionsIDRetry202JSONResponse v) = (202, RPromotion v)"
| "PostPromotionsIDRetryResponseObject_view (PostPromotionsIDRetry400ApplicationProblemPlusJSONResponse p) = (400, RProblem p)"
| "PostPromotionsIDRetryResponseObject_view (PostPromotionsIDRetry401ApplicationProblemPlusJSONResponse p) = (401, RProblem p)"
| "PostPromotionsIDRetryResponseObject_view (PostPromotionsIDRetry403ApplicationProblemPlusJSONResponse p) = (403, RProblem p)"
| "PostPromotionsIDRetryResponseObject_view (PostPromotionsIDRetry404ApplicationProblemPlusJSONResponse p) = (404, RProblem p)"
| "PostPromotionsIDRetryResponseObject_view (PostPromotionsIDRetry409ApplicationProblemPlusJSONResponse p) = (409, RProblem p)"
| "PostPromotionsIDRetryResponseObject_view (PostPromotionsIDRetry429ApplicationProblemPlusJSONResponse p) = (429, RProblem p)"
| "PostPromotionsIDRetryResponseObject_view (PostPromotionsIDRetry500ApplicationProblemPlusJSONResponse p) = (500, RProblem p)"
| "PostPromotionsIDRetryResponseObject_view (PostPromotionsIDRetry501ApplicationProblemPlusJSONResponse p) = (501, RProblem p)"

primrec GetReleasesResponseObject_view :: "GetReleasesResponseObject \<Rightarrow> int \<times> ApiResponse" where
  "GetReleasesResponseObject_view (GetReleases200JSONResponse v) = (200, RReleases v)"
| "GetReleasesResponseObject_view (GetReleases400ApplicationProblemPlusJSONResponse p) = (400, RProblem p)"
| "GetReleasesResponseObject_view (GetReleases401ApplicationProblemPlusJSONResponse p) = (401, RProblem p)"
| "GetReleasesResponseObject_view (GetReleases403ApplicationProblemPlusJSONResponse p) = (403, RProblem p)"
| "GetReleasesResponseObject_view (GetReleases500ApplicationProblemPlusJSONResponse p) = (500, RProblem p)"
| "GetReleasesResponseObject_view (GetReleases503ApplicationProblemPlusJSONResponse p) = (503, RProblem p)"

primrec GetTargetsResponseObject_view :: "GetTargetsResponseObject \<Rightarrow> int \<times> ApiResponse" where
  "GetTargetsResponseObject_view (GetTargets200JSONResponse v) = (200, RTargets v)"
| "GetTargetsResponseObject_view (GetTargets400ApplicationProblemPlusJSONResponse p) = (400, RProblem p)"
| "GetTargetsResponseObject_view (GetTargets401ApplicationProblemPlusJSONResponse p) = (401, RProblem p)"
| "GetTargetsResponseObject_view (GetTargets403ApplicationProblemPlusJSONResponse p) = (403, RProblem p)"
| "GetTargetsResponseObject_view (GetTargets500ApplicationProblemPlusJSONResponse p) = (500, RProblem p)"
| "GetTargetsResponseObject_view (GetTargets503ApplicationProblemPlusJSONResponse p) = (503, RProblem p)"

primrec GetTargetsNameDriftResponseObject_view :: "GetTargetsNameDriftResponseObject \<Rightarrow> int \<times> ApiResponse" where
  "GetTargetsNameDriftResponseObject_view (GetTargetsNameDrift200JSONResponse v) = (200, RDiff v)"
| "GetTargetsNameDriftResponseObject_view (GetTargetsNameDrift400ApplicationProblemPlusJSONResponse p) = (400, RProblem p)"
| "GetTargetsNameDriftResponseObject_view (GetTargetsNameDrift401ApplicationProblemPlusJSONResponse p) = (401, RProblem p)"
| "GetTargetsNameDriftResponseObject_view (GetTargetsNameDrift403ApplicationProblemPlusJSONResponse p) = (403, RProblem p)"
| "GetTargetsNameDriftResponseObject_view (GetTargetsNameDrift404ApplicationProblemPlusJSONResponse p) = (404, RProblem p)"
| "GetTargetsNameDriftResponseObject_view (GetTargetsNameDrift500ApplicationProblemPlusJSONResponse p) = (500, RProblem p)"
| "GetTargetsNameDriftResponseObject_view (GetTargetsNameDrift503ApplicationProblemPlusJSONResponse p) = (503, RProblem p)"

primrec GetTargetsNameHealthResponseObject_view :: "GetTargetsNameHealthResponseObject \<Rightarrow> int \<times> ApiResponse" where
  "GetTargetsNameHealthResponseObject_view (GetTargetsNameHealth200JSONResponse v) = (200, RHealth v)"
| "GetTargetsNameHealthResponseObject_view (GetTargetsNameHealth400ApplicationProblemPlusJSONResponse p) = (400, RProblem p)"
| "GetTargetsNameHealthResponseObject_view (GetTargetsNameHealth401ApplicationProblemPlusJSONResponse p) = (401, RProblem p)"
| "GetTargetsNameHealthResponseObject_view (GetTargetsNameHealth403ApplicationProblemPlusJSONResponse p) = (403, RProblem p)"
| "GetTargetsNameHealthResponseObject_view (GetTargetsNameHealth404ApplicationProblemPlusJSONResponse p) = (404, RProblem p)"
| "GetTargetsNameHealthResponseObject_view (GetTargetsNameHealth500ApplicationProblemPlusJSONResponse p) = (500, RProblem p)"
| "GetTargetsNameHealthResponseObject_view (GetTargetsNameHealth503ApplicationProblemPlusJSONResponse p) = (503, RProblem p)"

section \<open>Round trips\<close>

text \<open>A response nothing of which has been written yet; headers may be set.\<close>

definition fresh_world :: "World \<Rightarrow> bool" where
  "fresh_world wd \<longleftrightarrow>
     w_status (wd_writer wd) = None \<and> w_body (wd_writer wd) = [] \<and>
     (case wd_rec wd of None \<Rightarrow> True | Some r \<Rightarrow> \<not> rec_wroteHeader r)"

lemma fresh_new_world: "fresh_world new_world"
  by (simp add: fresh_world_def new_world_def)

definition round_trips ::
  "(encoder \<Rightarrow> 'o \<Rightarrow> World \<Rightarrow> goerr option \<times> World) \<Rightarrow> (JsonDecoders \<Rightarrow> HttpResponse \<Rightarrow> (goerr, 'r) result) \<Rightarrow>
   ('o \<Rightarrow> int \<times> ApiResponse) \<Rightarrow> ('r \<Rightarrow> (int \<times> ApiResponse) list) \<Rightarrow> bool" where
  "round_trips visit parse object_view view \<longleftrightarrow>
     (\<forall>enc jd st x txt wd. fresh_world wd \<longrightarrow> enc (snd (object_view x)) = Inr txt \<longrightarrow>
        decodes jd txt (snd (object_view x)) \<longrightarrow>
        (\<exists>wd' resp. visit enc x wd = (None, wd') \<and> parse jd (receive st enc wd') = Inr resp \<and>
           view resp = [object_view x]))"

lemma round_tripsI:
  assumes "\<And>enc jd st x t wd. fresh_world wd \<Longrightarrow> enc (snd (object_view x)) = Inr t \<Longrightarrow>
     decodes jd t (snd (object_view x)) \<Longrightarrow>
     \<exists>wd' resp. visit enc x wd = (None, wd') \<and> parse jd (receive st enc wd') = Inr resp \<and> view resp = [object_view x]"
  shows "round_trips visit parse object_view view"
  using assms by (simp add: round_trips_def)

lemma write_buffered_ok:
  "enc p = Inr txt \<Longrightarrow> write_buffered enc p ct code wd =
     (None, Write (BodyJSON txt) (WriteHeader code (SetHeader ''Content-Type'' ct wd)))"
  by (simp add: write_buffered_def)

lemma receive_written:
  assumes "fresh_world wd"
  shows "receive st enc (Write b (WriteHeader code (SetHeader ''Content-Type'' ct wd))) =
      \<lparr>hr_Status = st code, hr_StatusCode = code,
       hr_Header = map (\<lambda>(k, v). (k, [v])) (AList.update ''Content-Type'' ct (w_header (wd_writer wd))),
       hr_Body = Inr (body_text enc b)\<rparr>"
  using assms
  by (auto simp: fresh_world_def receive_def Write_def WriteHeader_def SetHeader_def net_Write_def
      net_WriteHeader_def wire_status_def Let_def split: option.splits)

lemma is_json_header:
  "is_json \<lparr>hr_Status = t, hr_StatusCode = c,
     hr_Header = map (\<lambda>(k, v). (k, [v])) (AList.update ''Content-Type'' ct h), hr_Body = b\<rparr> code
     \<longleftrightarrow> str_contains ct ''json'' \<and> c = code"
  by (simp add: is_json_def hr_header_get_def map_of_map update_conv')

lemma json_content_types: "str_contains ''application/json'' ''json''" "str_contains ''application/problem+json'' ''json''"
  by (simp_all add: str_contains_def)

lemmas trip_simps = write_buffered_ok receive_written is_json_header json_content_types filled_def

section \<open>Samples\<close>

definition sample_problem :: oa_Problem where
  "sample_problem =
     \<lparr>oa_Problem_AsOf = None, oa_Problem_Detail = None, oa_Problem_Errors = None, oa_Problem_Instance = None,
      oa_Problem_Region = None, oa_Problem_Resource = None, oa_Problem_Status = 403, oa_Problem_Title = ''Forbidden'',
      oa_Problem_Type = ''about:blank'', oa_Problem_Verb = None\<rparr>"

definition sample_encoder :: encoder where
  "sample_encoder v = (case v of RProblem p \<Rightarrow> Inr ''{}'' | _ \<Rightarrow> Inr ''[]'')"

definition sample_decoders :: JsonDecoders where
  "sample_decoders =
     \<lparr>jd_ApplicationsPage = (\<lambda>_. Inr (0, [])), jd_Application = (\<lambda>t. Inl (Opaque t)), jd_Matrix = (\<lambda>t. Inl (Opaque t)),
      jd_Promotions = (\<lambda>_. Inr []), jd_Releases = (\<lambda>_. Inr []), jd_AuditPage = (\<lambda>_. Inr ([], None)),
      jd_Diff = (\<lambda>t. Inl (Opaque t)), jd_Environments = (\<lambda>_. Inr []), jd_Promotion = (\<lambda>t. Inl (Opaque t)),
      jd_Targets = (\<lambda>_. Inr []), jd_Health = (\<lambda>_. Inr []), jd_Problem = (\<lambda>_. Inr sample_problem)\<rparr>"

lemma trip_GetApplications: "round_trips VisitGetApplicationsResponse ParseGetApplicationsResponse GetApplicationsResponseObject_view GetApplicationsResponse_view"
proof (rule round_tripsI)
  fix enc :: encoder and jd st x t and wd :: World
  assume "fresh_world wd" "enc (snd (GetApplicationsResponseObject_view x)) = Inr t" "decodes jd t (snd (GetApplicationsResponseObject_view x))"
  then show "\<exists>wd' resp. VisitGetApplicationsResponse enc x wd = (None, wd') \<and>
      ParseGetApplicationsResponse jd (receive st enc wd') = Inr resp \<and> GetApplicationsResponse_view resp = [GetApplicationsResponseObject_view x]"
    by (cases x) (simp_all add: ParseGetApplicationsResponse_def GetApplicationsResponse_view_def trip_simps)
qed

lemma trip_GetApplicationsName: "round_trips VisitGetApplicationsNameResponse ParseGetApplicationsNameResponse GetApplicationsNameResponseObject_view GetApplicationsNameResponse_view"
proof (rule round_tripsI)
  fix enc :: encoder and jd st x t and wd :: World
  assume "fresh_world wd" "enc (snd (GetApplicationsNameResponseObject_view x)) = Inr t" "decodes jd t (snd (GetApplicationsNameResponseObject_view x))"
  then show "\<exists>wd' resp. VisitGetApplicationsNameResponse enc x wd = (None, wd') \<and>
      ParseGetApplicationsNameResponse jd (receive st enc wd') = Inr resp \<and> GetApplicationsNameResponse_view resp = [GetApplicationsNameResponseObject_view x]"
    by (cases x) (simp_all add: ParseGetApplicationsNameResponse_def GetApplicationsNameResponse_view_def trip_simps)
qed

lemma trip_GetApplicationsNameMatrix: "round_trips VisitGetApplicationsNameMatrixResponse ParseGetApplicationsNameMatrixResponse GetApplicationsNameMatrixResponseObject_view GetApplicationsNameMatrixResponse_view"
proof (rule round_tripsI)
  fix enc :: encoder and jd st x t and wd :: World
  assume "fresh_world wd" "enc (snd (GetApplicationsNameMatrixResponseObject_view x)) = Inr t" "decodes jd t (snd (GetApplicationsNameMatrixResponseObject_view x))"
  then show "\<exists>wd' resp. VisitGetApplicationsNameMatrixResponse enc x wd = (None, wd') \<and>
      ParseGetApplicationsNameMatrixResponse jd (receive st enc wd') = Inr resp \<and> GetApplicationsNameMatrixResponse_view resp = [GetApplicationsNameMatrixResponseObject_view x]"
    by (cases x) (simp_all add: ParseGetApplicationsNameMatrixResponse_def GetApplicationsNameMatrixResponse_view_def trip_simps)
qed

lemma trip_GetApplicationsNamePromotions: "round_trips VisitGetApplicationsNamePromotionsResponse ParseGetApplicationsNamePromotionsResponse GetApplicationsNamePromotionsResponseObject_view GetApplicationsNamePromotionsResponse_view"
proof (rule round_tripsI)
  fix enc :: encoder and jd st x t and wd :: World
  assume "fresh_world wd" "enc (snd (GetApplicationsNamePromotionsResponseObject_view x)) = Inr t" "decodes jd t (snd (GetApplicationsNamePromotionsResponseObject_view x))"
  then show "\<exists>wd' resp. VisitGetApplicationsNamePromotionsResponse enc x wd = (None, wd') \<and>
      ParseGetApplicationsNamePromotionsResponse jd (receive st enc wd') = Inr resp \<and> GetApplicationsNamePromotionsResponse_view resp = [GetApplicationsNamePromotionsResponseObject_view x]"
    by (cases x) (simp_all add: ParseGetApplicationsNamePromotionsResponse_def GetApplicationsNamePromotionsResponse_view_def trip_simps)
qed

lemma trip_GetApplicationsNameReleases: "round_trips VisitGetApplicationsNameReleasesResponse ParseGetApplicationsNameReleasesResponse GetApplicationsNameReleasesResponseObject_view GetApplicationsNameReleasesResponse_view"
proof (rule round_tripsI)
  fix enc :: encoder and jd st x t and wd :: World
  assume "fresh_world wd" "enc (snd (GetApplicationsNameReleasesResponseObject_view x)) = Inr t" "decodes jd t (snd (GetApplicationsNameReleasesResponseObject_view x))"
  then show "\<exists>wd' resp. VisitGetApplicationsNameReleasesResponse enc x wd = (None, wd') \<and>
      ParseGetApplicationsNameReleasesResponse jd (receive st enc wd') = Inr resp \<and> GetApplicationsNameReleasesResponse_view resp = [GetApplicationsNameReleasesResponseObject_view x]"
    by (cases x) (simp_all add: ParseGetApplicationsNameReleasesResponse_def GetApplicationsNameReleasesResponse_view_def trip_simps)
qed

lemma trip_GetAudit: "round_trips VisitGetAuditResponse ParseGetAuditResponse GetAuditResponseObject_view GetAuditResponse_view"
proof (rule round_tripsI)
  fix enc :: encoder and jd st x t and wd :: World
  assume "fresh_world wd" "enc (snd (GetAuditResponseObject_view x)) = Inr t" "decodes jd t (snd (GetAuditResponseObject_view x))"
  then show "\<exists>wd' resp. VisitGetAuditResponse enc x wd = (None, wd') \<and>
      ParseGetAuditResponse jd (receive st enc wd') = Inr resp \<and> GetAuditResponse_view resp = [GetAuditResponseObject_view x]"
    by (cases x) (simp_all add: ParseGetAuditResponse_def GetAuditResponse_view_def trip_simps)
qed

lemma trip_GetDiff: "round_trips VisitGetDiffResponse ParseGetDiffResponse GetDiffResponseObject_view GetDiffResponse_view"
proof (rule round_tripsI)
  fix enc :: encoder and jd st x t and wd :: World
  assume "fresh_world wd" "enc (snd (GetDiffResponseObject_view x)) = Inr t" "decodes jd t (snd (GetDiffResponseObject_view x))"
  then show "\<exists>wd' resp. VisitGetDiffResponse enc x wd = (None, wd') \<and>
      ParseGetDiffResponse jd (receive st enc wd') = Inr resp \<and> GetDiffResponse_view resp = [GetDiffResponseObject_view x]"
    by (cases x) (simp_all add: ParseGetDiffResponse_def GetDiffResponse_view_def trip_simps)
qed

lemma trip_GetEnvironments: "round_trips VisitGetEnvironmentsResponse ParseGetEnvironmentsResponse GetEnvironmentsResponseObject_view GetEnvironmentsResponse_view"
proof (rule round_tripsI)
  fix enc :: encoder and jd st x t and wd :: World
  assume "fresh_world wd" "enc (snd (GetEnvironmentsResponseObject_view x)) = Inr t" "decodes jd t (snd (GetEnvironmentsResponseObject_view x))"
  then show "\<exists>wd' resp. VisitGetEnvironmentsResponse enc x wd = (None, wd') \<and>
      ParseGetEnvironmentsResponse jd (receive st enc wd') = Inr resp \<and> GetEnvironmentsResponse_view resp = [GetEnvironmentsResponseObject_view x]"
    by (cases x) (simp_all add: ParseGetEnvironmentsResponse_def GetEnvironmentsResponse_view_def trip_simps)
qed

lemma trip_GetPromotions: "round_trips VisitGetPromotionsResponse ParseGetPromotionsResponse GetPromotionsResponseObject_view GetPromotionsResponse_view"
proof (rule round_tripsI)
  fix enc :: encoder and jd st x t and wd :: World
  assume "fresh_world wd" "enc (snd (GetPromotionsResponseObject_view x)) = Inr t" "decodes jd t (snd (GetPromotionsResponseObject_view x))"
  then show "\<exists>wd' resp. VisitGetPromotionsResponse enc x wd = (None, wd') \<and>
      ParseGetPromotionsResponse jd (receive st enc wd') = Inr resp \<and> GetPromotionsResponse_view resp = [GetPromotionsResponseObject_view x]"
    by (cases x) (simp_all add: ParseGetPromotionsResponse_def GetPromotionsResponse_view_def trip_simps)
qed

lemma trip_PostPromotions: "round_trips VisitPostPromotionsResponse ParsePostPromotionsResponse PostPromotionsResponseObject_view PostPromotionsResponse_view"
proof (rule round_tripsI)
  fix enc :: encoder and jd st x t and wd :: World
  assume "fresh_world wd" "enc (snd (PostPromotionsResponseObject_view x)) = Inr t" "decodes jd t (snd (PostPromotionsResponseObject_view x))"
  then show "\<exists>wd' resp. VisitPostPromotionsResponse enc x wd = (None, wd') \<and>
      ParsePostPromotionsResponse jd (receive st enc wd') = Inr resp \<and> PostPromotionsResponse_view resp = [PostPromotionsResponseObject_view x]"
    by (cases x) (simp_all add: ParsePostPromotionsResponse_def PostPromotionsResponse_view_def trip_simps)
qed

lemma trip_GetPromotionsID: "round_trips VisitGetPromotionsIDResponse ParseGetPromotionsIDResponse GetPromotionsIDResponseObject_view GetPromotionsIDResponse_view"
proof (rule round_tripsI)
  fix enc :: encoder and jd st x t and wd :: World
  assume "fresh_world wd" "enc (snd (GetPromotionsIDResponseObject_view x)) = Inr t" "decodes jd t (snd (GetPromotionsIDResponseObject_view x))"
  then show "\<exists>wd' resp. VisitGetPromotionsIDResponse enc x wd = (None, wd') \<and>
      ParseGetPromotionsIDResponse jd (receive st enc wd') = Inr resp \<and> GetPromotionsIDResponse_view resp = [GetPromotionsIDResponseObject_view x]"
    by (cases x) (simp_all add: ParseGetPromotionsIDResponse_def GetPromotionsIDResponse_view_def trip_simps)
qed

lemma trip_PostPromotionsIDApprove: "round_trips VisitPostPromotionsIDApproveResponse ParsePostPromotionsIDApproveResponse PostPromotionsIDApproveResponseObject_view PostPromotionsIDApproveResponse_view"
proof (rule round_tripsI)
  fix enc :: encoder and jd st x t and wd :: World
  assume "fresh_world wd" "enc (snd (PostPromotionsIDApproveResponseObject_view x)) = Inr t" "decodes jd t (snd (PostPromotionsIDApproveResponseObject_view x))"
  then show "\<exists>wd' resp. VisitPostPromotionsIDApproveResponse enc x wd = (None, wd') \<and>
      ParsePostPromotionsIDApproveResponse jd (receive st enc wd') = Inr resp \<and> PostPromotionsIDApproveResponse_view resp = [PostPromotionsIDApproveResponseObject_view x]"
    by (cases x) (simp_all add: ParsePostPromotionsIDApproveResponse_def PostPromotionsIDApproveResponse_view_def trip_simps)
qed

lemma trip_PostPromotionsIDCancel: "round_trips VisitPostPromotionsIDCancelResponse ParsePostPromotionsIDCancelResponse PostPromotionsIDCancelResponseObject_view PostPromotionsIDCancelResponse_view"
proof (rule round_tripsI)
  fix enc :: encoder and jd st x t and wd :: World
  assume "fresh_world wd" "enc (snd (PostPromotionsIDCancelResponseObject_view x)) = Inr t" "decodes jd t (snd (PostPromotionsIDCancelResponseObject_view x))"
  then show "\<exists>wd' resp. VisitPostPromotionsIDCancelResponse enc x wd = (None, wd') \<and>
      ParsePostPromotionsIDCancelResponse jd (receive st enc wd') = Inr resp \<and> PostPromotionsIDCancelResponse_view resp = [PostPromotionsIDCancelResponseObject_view x]"
    by (cases x) (simp_all add: ParsePostPromotionsIDCancelResponse_def PostPromotionsIDCancelResponse_view_def trip_simps)
qed

lemma trip_PostPromotionsIDRetry: "round_trips VisitPostPromotionsIDRetryResponse ParsePostPromotionsIDRetryResponse PostPromotionsIDRetryResponseObject_view PostPromotionsIDRetryResponse_view"
proof (rule round_tripsI)
  fix enc :: encoder and jd st x t and wd :: World
  assume "fresh_world wd" "enc (snd (PostPromotionsIDRetryResponseObject_view x)) = Inr t" "decodes jd t (snd (PostPromotionsIDRetryResponseObject_view x))"
  then show "\<exists>wd' resp. VisitPostPromotionsIDRetryResponse enc x wd = (None, wd') \<and>
      ParsePostPromotionsIDRetryResponse jd (receive st enc wd') = Inr resp \<and> PostPromotionsIDRetryResponse_view resp = [PostPromotionsIDRetryResponseObject_view x]"
    by (cases x) (simp_all add: ParsePostPromotionsIDRetryResponse_def PostPromotionsIDRetryResponse_view_def trip_simps)
qed

lemma trip_GetReleases: "round_trips VisitGetReleasesResponse ParseGetReleasesResponse GetReleasesResponseObject_view GetReleasesResponse_view"
proof (rule round_tripsI)
  fix enc :: encoder and jd st x t and wd :: World
  assume "fresh_world wd" "enc (snd (GetReleasesResponseObject_view x)) = Inr t" "decodes jd t (snd (GetReleasesResponseObject_view x))"
  then show "\<exists>wd' resp. VisitGetReleasesResponse enc x wd = (None, wd') \<and>
      ParseGetReleasesResponse jd (receive st enc wd') = Inr resp \<and> GetReleasesResponse_view resp = [GetReleasesResponseObject_view x]"
    by (cases x) (simp_all add: ParseGetReleasesResponse_def GetReleasesResponse_view_def trip_simps)
qed

lemma trip_GetTargets: "round_trips VisitGetTargetsResponse ParseGetTargetsResponse GetTargetsResponseObject_view GetTargetsResponse_view"
proof (rule round_tripsI)
  fix enc :: encoder and jd st x t and wd :: World
  assume "fresh_world wd" "enc (snd (GetTargetsResponseObject_view x)) = Inr t" "decodes jd t (snd (GetTargetsResponseObject_view x))"
  then show "\<exists>wd' resp. VisitGetTargetsResponse enc x wd = (None, wd') \<and>
      ParseGetTargetsResponse jd (receive st enc wd') = Inr resp \<and> GetTargetsResponse_view resp = [GetTargetsResponseObject_view x]"
    by (cases x) (simp_all add: ParseGetTargetsResponse_def GetTargetsResponse_view_def trip_simps)
qed

lemma trip_GetTargetsNameDrift: "round_trips VisitGetTargetsNameDriftResponse ParseGetTargetsNameDriftResponse GetTargetsNameDriftResponseObject_view GetTargetsNameDriftResponse_view"
proof (rule round_tripsI)
  fix enc :: encoder and jd st x t and wd :: World
  assume "fresh_world wd" "enc (snd (GetTargetsNameDriftResponseObject_view x)) = Inr t" "decodes jd t (snd (GetTargetsNameDriftResponseObject_view x))"
  then show "\<exists>wd' resp. VisitGetTargetsNameDriftResponse enc x wd = (None, wd') \<and>
      ParseGetTargetsNameDriftResponse jd (receive st enc wd') = Inr resp \<and> GetTargetsNameDriftResponse_view resp = [GetTargetsNameDriftResponseObject_view x]"
    by (cases x) (simp_all add: ParseGetTargetsNameDriftResponse_def GetTargetsNameDriftResponse_view_def trip_simps)
qed

lemma trip_GetTargetsNameHealth: "round_trips VisitGetTargetsNameHealthResponse ParseGetTargetsNameHealthResponse GetTargetsNameHealthResponseObject_view GetTargetsNameHealthResponse_view"
proof (rule round_tripsI)
  fix enc :: encoder and jd st x t and wd :: World
  assume "fresh_world wd" "enc (snd (GetTargetsNameHealthResponseObject_view x)) = Inr t" "decodes jd t (snd (GetTargetsNameHealthResponseObject_view x))"
  then show "\<exists>wd' resp. VisitGetTargetsNameHealthResponse enc x wd = (None, wd') \<and>
      ParseGetTargetsNameHealthResponse jd (receive st enc wd') = Inr resp \<and> GetTargetsNameHealthResponse_view resp = [GetTargetsNameHealthResponseObject_view x]"
    by (cases x) (simp_all add: ParseGetTargetsNameHealthResponse_def GetTargetsNameHealthResponse_view_def trip_simps)
qed

section \<open>Claims\<close>

text \<open>C27: Client and server of the contract agree.  Whatever response object a server of one of the
  eighteen operations writes,
  whatever headers are set already, its client parses it into a response with exactly one field
  filled: the field of the status that was written, with the value that was encoded, provided
  the JSON codec gives back that value.\<close>
theorem responses_round_trip:
  "round_trips VisitGetApplicationsResponse ParseGetApplicationsResponse GetApplicationsResponseObject_view GetApplicationsResponse_view \<and>
   round_trips VisitGetApplicationsNameResponse ParseGetApplicationsNameResponse GetApplicationsNameResponseObject_view GetApplicationsNameResponse_view \<and>
   round_trips VisitGetApplicationsNameMatrixResponse ParseGetApplicationsNameMatrixResponse GetApplicationsNameMatrixResponseObject_view GetApplicationsNameMatrixResponse_view \<and>
   round_trips VisitGetApplicationsNamePromotionsResponse ParseGetApplicationsNamePromotionsResponse GetApplicationsNamePromotionsResponseObject_view GetApplicationsNamePromotionsResponse_view \<and>
   round_trips VisitGetApplicationsNameReleasesResponse ParseGetApplicationsNameReleasesResponse GetApplicationsNameReleasesResponseObject_view GetApplicationsNameReleasesResponse_view \<and>
   round_trips VisitGetAuditResponse ParseGetAuditResponse GetAuditResponseObject_view GetAuditResponse_view \<and>
   round_trips VisitGetDiffResponse ParseGetDiffResponse GetDiffResponseObject_view GetDiffResponse_view \<and>
   round_trips VisitGetEnvironmentsResponse ParseGetEnvironmentsResponse GetEnvironmentsResponseObject_view GetEnvironmentsResponse_view \<and>
   round_trips VisitGetPromotionsResponse ParseGetPromotionsResponse GetPromotionsResponseObject_view GetPromotionsResponse_view \<and>
   round_trips VisitPostPromotionsResponse ParsePostPromotionsResponse PostPromotionsResponseObject_view PostPromotionsResponse_view \<and>
   round_trips VisitGetPromotionsIDResponse ParseGetPromotionsIDResponse GetPromotionsIDResponseObject_view GetPromotionsIDResponse_view \<and>
   round_trips VisitPostPromotionsIDApproveResponse ParsePostPromotionsIDApproveResponse PostPromotionsIDApproveResponseObject_view PostPromotionsIDApproveResponse_view \<and>
   round_trips VisitPostPromotionsIDCancelResponse ParsePostPromotionsIDCancelResponse PostPromotionsIDCancelResponseObject_view PostPromotionsIDCancelResponse_view \<and>
   round_trips VisitPostPromotionsIDRetryResponse ParsePostPromotionsIDRetryResponse PostPromotionsIDRetryResponseObject_view PostPromotionsIDRetryResponse_view \<and>
   round_trips VisitGetReleasesResponse ParseGetReleasesResponse GetReleasesResponseObject_view GetReleasesResponse_view \<and>
   round_trips VisitGetTargetsResponse ParseGetTargetsResponse GetTargetsResponseObject_view GetTargetsResponse_view \<and>
   round_trips VisitGetTargetsNameDriftResponse ParseGetTargetsNameDriftResponse GetTargetsNameDriftResponseObject_view GetTargetsNameDriftResponse_view \<and>
   round_trips VisitGetTargetsNameHealthResponse ParseGetTargetsNameHealthResponse GetTargetsNameHealthResponseObject_view GetTargetsNameHealthResponse_view"
  by (intro conjI trip_GetApplications trip_GetApplicationsName trip_GetApplicationsNameMatrix trip_GetApplicationsNamePromotions trip_GetApplicationsNameReleases trip_GetAudit trip_GetDiff trip_GetEnvironments trip_GetPromotions trip_PostPromotions trip_GetPromotionsID trip_PostPromotionsIDApprove trip_PostPromotionsIDCancel trip_PostPromotionsIDRetry trip_GetReleases trip_GetTargets trip_GetTargetsNameDrift trip_GetTargetsNameHealth)

theorem responses_round_trip_witness:
  "\<exists>wd resp.
     VisitGetTargetsResponse sample_encoder (GetTargets403ApplicationProblemPlusJSONResponse sample_problem) new_world = (None, wd) \<and>
     ParseGetTargetsResponse sample_decoders (receive itoa sample_encoder wd) = Inr resp \<and>
     GetTargetsResponse_view resp = [(403, RProblem sample_problem)]"
proof -
  have "round_trips VisitGetTargetsResponse ParseGetTargetsResponse GetTargetsResponseObject_view GetTargetsResponse_view"
    using responses_round_trip by blast
  moreover have "sample_encoder (snd (GetTargetsResponseObject_view
      (GetTargets403ApplicationProblemPlusJSONResponse sample_problem))) = Inr ''{}''"
    "decodes sample_decoders ''{}'' (snd (GetTargetsResponseObject_view
      (GetTargets403ApplicationProblemPlusJSONResponse sample_problem)))"
    by (simp_all add: sample_encoder_def sample_decoders_def)
  ultimately show ?thesis using fresh_new_world unfolding round_trips_def by (metis GetTargetsResponseObject_view.simps(4))
qed

end
