(* ===== verification/Api_Client.thy ===== *)
theory Api_Client
  imports Client_Requests Client_Trips
begin

text \<open>
  The generated client (\<^verbatim>\<open>internal/api/openapi/keleustes.gen.go\<close>): its construction and
  options, the methods that build a request, let the editors at it and send it, and the ones
  that parse the answer too.  The transport threads a state of its own, \<open>'w\<close>.
\<close>

section \<open>The client\<close>

text \<open>An editor is a function on the request it is given; it may refuse.\<close>

type_synonym RequestEditorFn = "ClientRequest \<Rightarrow> (goerr, ClientRequest) result"

type_synonym 'w HttpRequestDoer = "ClientRequest \<Rightarrow> 'w \<Rightarrow> (goerr, HttpResponse) result \<times> 'w"

record 'w Client =
  Client_Server :: string
  Client_Client :: "'w HttpRequestDoer option"
  Client_RequestEditors :: "RequestEditorFn list"

type_synonym 'w ClientOption = "'w Client \<Rightarrow> (goerr, 'w Client) result"

fun apply_options :: "'w ClientOption list \<Rightarrow> 'w Client \<Rightarrow> (goerr, 'w Client) result" where
  "apply_options [] c = Inr c"
| "apply_options (opt # opts) c = on_ok (opt c) (apply_options opts)"

text \<open>\<open>dflt\<close> is the zero \<^verbatim>\<open>http.Client\<close>.\<close>

definition NewClient :: "'w HttpRequestDoer \<Rightarrow> string \<Rightarrow> 'w ClientOption list \<Rightarrow> (goerr, 'w Client) result" where
  "NewClient dflt server opts =
     on_ok (apply_options opts \<lparr>Client_Server = server, Client_Client = None, Client_RequestEditors = []\<rparr>) (\<lambda>client.
       let client1 = (if has_prefix (rev (Client_Server client)) ''/'' then client
                      else client\<lparr>Client_Server := Client_Server client @ ''/''\<rparr>)
       in Inr (if Client_Client client1 = None then client1\<lparr>Client_Client := Some dflt\<rparr> else client1))"

definition WithHTTPClient :: "'w HttpRequestDoer \<Rightarrow> 'w ClientOption" where
  "WithHTTPClient doer c = Inr (c\<lparr>Client_Client := Some doer\<rparr>)"

definition WithRequestEditorFn :: "RequestEditorFn \<Rightarrow> 'w ClientOption" where
  "WithRequestEditorFn f c = Inr (c\<lparr>Client_RequestEditors := Client_RequestEditors c @ [f]\<rparr>)"

definition WithBaseURL :: "authority_parser \<Rightarrow> string \<Rightarrow> 'w ClientOption" where
  "WithBaseURL pa baseURL c =
     on_ok (url_Parse pa baseURL) (\<lambda>newBaseURL. Inr (c\<lparr>Client_Server := url_String newBaseURL\<rparr>))"

definition NewClientWithResponses ::
  "'w HttpRequestDoer \<Rightarrow> string \<Rightarrow> 'w ClientOption list \<Rightarrow> (goerr, 'w Client) result" where
  "NewClientWithResponses dflt server opts = on_ok (NewClient dflt server opts) Inr"

fun run_editors :: "RequestEditorFn list \<Rightarrow> ClientRequest \<Rightarrow> (goerr, ClientRequest) result" where
  "run_editors [] req = Inr req"
| "run_editors (r # rs) req = on_ok (r req) (run_editors rs)"

definition applyEditors :: "'w Client \<Rightarrow> ClientRequest \<Rightarrow> RequestEditorFn list \<Rightarrow> (goerr, ClientRequest) result" where
  "applyEditors c req additionalEditors =
     on_ok (run_editors (Client_RequestEditors c) req) (run_editors additionalEditors)"

section \<open>Sending\<close>

text \<open>
  What every method does with the request it built.  Only a client that \<open>NewClient\<close> did not
  make can lack a transport; the program then stops, which is an error here.
\<close>

definition send_request ::
  "'w Client \<Rightarrow> (goerr, ClientRequest) result \<Rightarrow> RequestEditorFn list \<Rightarrow> 'w \<Rightarrow> (goerr, HttpResponse) result \<times> 'w" where
  "send_request c built reqEditors w =
     (case on_ok built (\<lambda>req. applyEditors c req reqEditors) of
        Inl err \<Rightarrow> (Inl err, w)
      | Inr req \<Rightarrow>
          (case Client_Client c of
             None \<Rightarrow> (Inl (Opaque ''nil HTTP client''), w)
           | Some doer \<Rightarrow> doer req w))"

definition parse_with ::
  "(HttpResponse \<Rightarrow> (goerr, 'r) result) \<Rightarrow> (goerr, HttpResponse) result \<times> 'w \<Rightarrow> (goerr, 'r) result \<times> 'w" where
  "parse_with parse rw = (on_ok (fst rw) parse, snd rw)"

section \<open>Methods\<close>

definition Client_GetApplications ::
  "ClientLib \<Rightarrow> 'w Client \<Rightarrow> oa_GetApplicationsParams option \<Rightarrow> RequestEditorFn list \<Rightarrow> 'w \<Rightarrow> (goerr, HttpResponse) result \<times> 'w" where
  "Client_GetApplications lib c params reqEditors w = send_request c (NewGetApplicationsRequest lib (Client_Server c) params) reqEditors w"

definition Client_GetApplicationsName ::
  "ClientLib \<Rightarrow> 'w Client \<Rightarrow> string \<Rightarrow> RequestEditorFn list \<Rightarrow> 'w \<Rightarrow> (goerr, HttpResponse) result \<times> 'w" where
  "Client_GetApplicationsName lib c name reqEditors w = send_request c (NewGetApplicationsNameRequest lib (Client_Server c) name) reqEditors w"

definition Client_GetApplicationsNameMatrix ::
  "ClientLib \<Rightarrow> 'w Client \<Rightarrow> string \<Rightarrow> RequestEditorFn list \<Rightarrow> 'w \<Rightarrow> (goerr, HttpResponse) result \<times> 'w" where
  "Client_GetApplicationsNameMatrix lib c name reqEditors w = send_request c (NewGetApplicationsNameMatrixRequest lib (Client_Server c) name) reqEditors w"

definition Client_GetApplicationsNamePromotions ::
  "ClientLib \<Rightarrow> 'w Client \<Rightarrow> string \<Rightarrow> RequestEditorFn list \<Rightarrow> 'w \<Rightarrow> (goerr, HttpResponse) result \<times> 'w" where
  "Client_GetApplicationsNamePromotions lib c name reqEditors w = send_request c (NewGetApplicationsNamePromotionsRequest lib (Client_Server c) name) reqEditors w"

definition Client_GetApplicationsNameReleases ::
  "ClientLib \<Rightarrow> 'w Client \<Rightarrow> string \<Rightarrow> RequestEditorFn list \<Rightarrow> 'w \<Rightarrow> (goerr, HttpResponse) result \<times> 'w" where
  "Client_GetApplicationsNameReleases lib c name reqEditors w = send_request c (NewGetApplicationsNameReleasesRequest lib (Client_Server c) name) reqEditors w"

definition Client_GetAudit ::
  "ClientLib \<Rightarrow> 'w Client \<Rightarrow> oa_GetAuditParams option \<Rightarrow> RequestEditorFn list \<Rightarrow> 'w \<Rightarrow> (goerr, HttpResponse) result \<times> 'w" where
  "Client_GetAudit lib c params reqEditors w = send_request c (NewGetAuditRequest lib (Client_Server c) params) reqEditors w"

definition Client_GetDiff ::
  "ClientLib \<Rightarrow> 'w Client \<Rightarrow> oa_GetDiffParams option \<Rightarrow> RequestEditorFn list \<Rightarrow> 'w \<Rightarrow> (goerr, HttpResponse) result \<times> 'w" where
  "Client_GetDiff lib c params reqEditors w = send_request c (NewGetDiffRequest lib (Client_Server c) params) reqEditors w"

definition Client_GetEnvironments ::
  "ClientLib \<Rightarrow> 'w Client \<Rightarrow> RequestEditorFn list \<Rightarrow> 'w \<Rightarrow> (goerr, HttpResponse) result \<times> 'w" where
  "Client_GetEnvironments lib c reqEditors w = send_request c (NewGetEnvironmentsRequest lib (Client_Server c)) reqEditors w"

definition Client_GetPromotions ::
  "ClientLib \<Rightarrow> 'w Client \<Rightarrow> oa_GetPromotionsParams option \<Rightarrow> RequestEditorFn list \<Rightarrow> 'w \<Rightarrow> (goerr, HttpResponse) result \<times> 'w" where
  "Client_GetPromotions lib c params reqEditors w = send_request c (NewGetPromotionsRequest lib (Client_Server c) params) reqEditors w"

definition Client_PostPromotionsWithBody ::
  "ClientLib \<Rightarrow> 'w Client \<Rightarrow> oa_PostPromotionsParams option \<Rightarrow> string \<Rightarrow> string \<Rightarrow> RequestEditorFn list \<Rightarrow> 'w \<Rightarrow> (goerr, HttpResponse) result \<times> 'w" where
  "Client_PostPromotionsWithBody lib c params contentType body reqEditors w = send_request c (NewPostPromotionsRequestWithBody lib (Client_Server c) params contentType body) reqEditors w"

definition Client_PostPromotions ::
  "ClientLib \<Rightarrow> 'w Client \<Rightarrow> oa_PostPromotionsParams option \<Rightarrow> oa_PromotionRequest \<Rightarrow> RequestEditorFn list \<Rightarrow> 'w \<Rightarrow> (goerr, HttpResponse) result \<times> 'w" where
  "Client_PostPromotions lib c params body reqEditors w = send_request c (NewPostPromotionsRequest lib (Client_Server c) params body) reqEditors w"

definition Client_GetPromotionsID ::
  "ClientLib \<Rightarrow> 'w Client \<Rightarrow> string \<Rightarrow> RequestEditorFn list \<Rightarrow> 'w \<Rightarrow> (goerr, HttpResponse) result \<times> 'w" where
  "Client_GetPromotionsID lib c i reqEditors w = send_request c (NewGetPromotionsIDRequest lib (Client_Server c) i) reqEditors w"

definition Client_PostPromotionsIDApproveWithBody ::
  "ClientLib \<Rightarrow> 'w Client \<Rightarrow> string \<Rightarrow> oa_PostPromotionsIDApproveParams option \<Rightarrow> string \<Rightarrow> string \<Rightarrow> RequestEditorFn list \<Rightarrow> 'w \<Rightarrow> (goerr, HttpResponse) result \<times> 'w" where
  "Client_PostPromotionsIDApproveWithBody lib c i params contentType body reqEditors w = send_request c (NewPostPromotionsIDApproveRequestWithBody lib (Client_Server c) i params contentType body) reqEditors w"

definition Client_PostPromotionsIDApprove ::
  "ClientLib \<Rightarrow> 'w Client \<Rightarrow> string \<Rightarrow> oa_PostPromotionsIDApproveParams option \<Rightarrow> oa_PostPromotionsIDApproveJSONBody \<Rightarrow> RequestEditorFn list \<Rightarrow> 'w \<Rightarrow> (goerr, HttpResponse) result \<times> 'w" where
  "Client_PostPromotionsIDApprove lib c i params body reqEditors w = send_request c (NewPostPromotionsIDApproveRequest lib (Client_Server c) i params body) reqEditors w"

definition Client_PostPromotionsIDCancel ::
  "ClientLib \<Rightarrow> 'w Client \<Rightarrow> string \<Rightarrow> oa_PostPromotionsIDCancelParams option \<Rightarrow> RequestEditorFn list \<Rightarrow> 'w \<Rightarrow> (goerr, HttpResponse) result \<times> 'w" where
  "Client_PostPromotionsIDCancel lib c i params reqEditors w = send_request c (NewPostPromotionsIDCancelRequest lib (Client_Server c) i params) reqEditors w"

definition Client_PostPromotionsIDRetry ::
  "ClientLib \<Rightarrow> 'w Client \<Rightarrow> string \<Rightarrow> oa_PostPromotionsIDRetryParams option \<Rightarrow> RequestEditorFn list \<Rightarrow> 'w \<Rightarrow> (goerr, HttpResponse) result \<times> 'w" where
  "Client_PostPromotionsIDRetry lib c i params reqEditors w = send_request c (NewPostPromotionsIDRetryRequest lib (Client_Server c) i params) reqEditors w"

definition Client_GetReleases ::
  "ClientLib \<Rightarrow> 'w Client \<Rightarrow> oa_GetReleasesParams option \<Rightarrow> RequestEditorFn list \<Rightarrow> 'w \<Rightarrow> (goerr, HttpResponse) result \<times> 'w" where
  "Client_GetReleases lib c params reqEditors w = send_request c (NewGetReleasesRequest lib (Client_Server c) params) reqEditors w"

definition Client_GetTargets ::
  "ClientLib \<Rightarrow> 'w Client \<Rightarrow> RequestEditorFn list \<Rightarrow> 'w \<Rightarrow> (goerr, HttpResponse) result \<times> 'w" where
  "Client_GetTargets lib c reqEditors w = send_request c (NewGetTargetsRequest lib (Client_Server c)) reqEditors w"

definition Client_GetTargetsNameDrift ::
  "ClientLib \<Rightarrow> 'w Client \<Rightarrow> string \<Rightarrow> RequestEditorFn list \<Rightarrow> 'w \<Rightarrow> (goerr, HttpResponse) result \<times> 'w" where
  "Client_GetTargetsNameDrift lib c name reqEditors w = send_request c (NewGetTargetsNameDriftRequest lib (Client_Server c) name) reqEditors w"

definition Client_GetTargetsNameHealth ::
  "ClientLib \<Rightarrow> 'w Client \<Rightarrow> string \<Rightarrow> RequestEditorFn list \<Rightarrow> 'w \<Rightarrow> (goerr, HttpResponse) result \<times> 'w" where
  "Client_GetTargetsNameHealth lib c name reqEditors w = send_request c (NewGetTargetsNameHealthRequest lib (Client_Server c) name) reqEditors w"

section \<open>Parsed responses\<close>

definition GetApplicationsWithResponse ::
  "ClientLib \<Rightarrow> JsonDecoders \<Rightarrow> 'w Client \<Rightarrow> oa_GetApplicationsParams option \<Rightarrow> RequestEditorFn list \<Rightarrow> 'w \<Rightarrow>
   (goerr, GetApplicationsResponse) result \<times> 'w" where
  "GetApplicationsWithResponse lib jd c params reqEditors w =
     parse_with (ParseGetApplicationsResponse jd) (Client_GetApplications lib c params reqEditors w)"

definition GetApplicationsNameWithResponse ::
  "ClientLib \<Rightarrow> JsonDecoders \<Rightarrow> 'w Client \<Rightarrow> string \<Rightarrow> RequestEditorFn list \<Rightarrow> 'w \<Rightarrow>
   (goerr, GetApplicationsNameResponse) result \<times> 'w" where
  "GetApplicationsNameWithResponse lib jd c name reqEditors w =
     parse_with (ParseGetApplicationsNameResponse jd) (Client_GetApplicationsName lib c name reqEditors w)"

definition GetApplicationsNameMatrixWithResponse ::
  "ClientLib \<Rightarrow> JsonDecoders \<Rightarrow> 'w Client \<Rightarrow> string \<Rightarrow> RequestEditorFn list \<Rightarrow> 'w \<Rightarrow>
   (goerr, GetApplicationsNameMatrixResponse) result \<times> 'w" where
  "GetApplicationsNameMatrixWithResponse lib jd c name reqEditors w =
     parse_with (ParseGetApplicationsNameMatrixResponse jd) (Client_GetApplicationsNameMatrix lib c name reqEditors w)"

definition GetApplicationsNamePromotionsWithResponse ::
  "ClientLib \<Rightarrow> JsonDecoders \<Rightarrow> 'w Client \<Rightarrow> string \<Rightarrow> RequestEditorFn list \<Rightarrow> 'w \<Rightarrow>
   (goerr, GetApplicationsNamePromotionsResponse) result \<times> 'w" where
  "GetApplicationsNamePromotionsWithResponse lib jd c name reqEditors w =
     parse_with (ParseGetApplicationsNamePromotionsResponse jd) (Client_GetApplicationsNamePromotions lib c name reqEditors w)"

definition GetApplicationsNameReleasesWithResponse ::
  "ClientLib \<Rightarrow> JsonDecoders \<Rightarrow> 'w Client \<Rightarrow> string \<Rightarrow> RequestEditorFn list \<Rightarrow> 'w \<Rightarrow>
   (goerr, GetApplicationsNameReleasesResponse) result \<times> 'w" where
  "GetApplicationsNameReleasesWithResponse lib jd c name reqEditors w =
     parse_with (ParseGetApplicationsNameReleasesResponse jd) (Client_GetApplicationsNameReleases lib c name reqEditors w)"

definition GetAuditWithResponse ::
  "ClientLib \<Rightarrow> JsonDecoders \<Rightarrow> 'w Client \<Rightarrow> oa_GetAuditParams option \<Rightarrow> RequestEditorFn list \<Rightarrow> 'w \<Rightarrow>
   (goerr, GetAuditResponse) result \<times> 'w" where
  "GetAuditWithResponse lib jd c params reqEditors w =
     parse_with (ParseGetAuditResponse jd) (Client_GetAudit lib c params reqEditors w)"

definition GetDiffWithResponse ::
  "ClientLib \<Rightarrow> JsonDecoders \<Rightarrow> 'w Client \<Rightarrow> oa_GetDiffParams option \<Rightarrow> RequestEditorFn list \<Rightarrow> 'w \<Rightarrow>
   (goerr, GetDiffResponse) result \<times> 'w" where
  "GetDiffWithResponse lib jd c params reqEditors w =
     parse_with (ParseGetDiffResponse jd) (Client_GetDiff lib c params reqEditors w)"

definition GetEnvironmentsWithResponse ::
  "ClientLib \<Rightarrow> JsonDecoders \<Rightarrow> 'w Client \<Rightarrow> RequestEditorFn list \<Rightarrow> 'w \<Rightarrow>
   (goerr, GetEnvironmentsResponse) result \<times> 'w" where
  "GetEnvironmentsWithResponse lib jd c reqEditors w =
     parse_with (ParseGetEnvironmentsResponse jd) (Client_GetEnvironments lib c reqEditors w)"

definition GetPromotionsWithResponse ::
  "ClientLib \<Rightarrow> JsonDecoders \<Rightarrow> 'w Client \<Rightarrow> oa_GetPromotionsParams option \<Rightarrow> RequestEditorFn list \<Rightarrow> 'w \<Rightarrow>
   (goerr, GetPromotionsResponse) result \<times> 'w" where
  "GetPromotionsWithResponse lib jd c params reqEditors w =
     parse_with (ParseGetPromotionsResponse jd) (Client_GetPromotions lib c params reqEditors w)"

definition PostPromotionsWithBodyWithResponse ::
  "ClientLib \<Rightarrow> JsonDecoders \<Rightarrow> 'w Client \<Rightarrow> oa_PostPromotionsParams option \<Rightarrow> string \<Rightarrow> string \<Rightarrow> RequestEditorFn list \<Rightarrow> 'w \<Rightarrow>
   (goerr, PostPromotionsResponse) result \<times> 'w" where
  "PostPromotionsWithBodyWithResponse lib jd c params contentType body reqEditors w =
     parse_with (ParsePostPromotionsResponse jd) (Client_PostPromotionsWithBody lib c params contentType body reqEditors w)"

definition PostPromotionsWithResponse ::
  "ClientLib \<Rightarrow> JsonDecoders \<Rightarrow> 'w Client \<Rightarrow> oa_PostPromotionsParams option \<Rightarrow> oa_PromotionRequest \<Rightarrow> RequestEditorFn list \<Rightarrow> 'w \<Rightarrow>
   (goerr, PostPromotionsResponse) result \<times> 'w" where
  "PostPromotionsWithResponse lib jd c params body reqEditors w =
     parse_with (ParsePostPromotionsResponse jd) (Client_PostPromotions lib c params body reqEditors w)"

definition GetPromotionsIDWithResponse ::
  "ClientLib \<Rightarrow> JsonDecoders \<Rightarrow> 'w Client \<Rightarrow> string \<Rightarrow> RequestEditorFn list \<Rightarrow> 'w \<Rightarrow>
   (goerr, GetPromotionsIDResponse) result \<times> 'w" where
  "GetPromotionsIDWithResponse lib jd c i reqEditors w =
     parse_with (ParseGetPromotionsIDResponse jd) (Client_GetPromotionsID lib c i reqEditors w)"

definition PostPromotionsIDApproveWithBodyWithResponse ::
  "ClientLib \<Rightarrow> JsonDecoders \<Rightarrow> 'w Client \<Rightarrow> string \<Rightarrow> oa_PostPromotionsIDApproveParams option \<Rightarrow> string \<Rightarrow> string \<Rightarrow> RequestEditorFn list \<Rightarrow> 'w \<Rightarrow>
   (goerr, PostPromotionsIDApproveResponse) result \<times> 'w" where
  "PostPromotionsIDApproveWithBodyWithResponse lib jd c i params contentType body reqEditors w =
     parse_with (ParsePostPromotionsIDApproveResponse jd) (Client_PostPromotionsIDApproveWithBody lib c i params contentType body reqEditors w)"

definition PostPromotionsIDApproveWithResponse ::
  "ClientLib \<Rightarrow> JsonDecoders \<Rightarrow> 'w Client \<Rightarrow> string \<Rightarrow> oa_PostPromotionsIDApproveParams option \<Rightarrow> oa_PostPromotionsIDApproveJSONBody \<Rightarrow> RequestEditorFn list \<Rightarrow> 'w \<Rightarrow>
   (goerr, PostPromotionsIDApproveResponse) result \<times> 'w" where
  "PostPromotionsIDApproveWithResponse lib jd c i params body reqEditors w =
     parse_with (ParsePostPromotionsIDApproveResponse jd) (Client_PostPromotionsIDApprove lib c i params body reqEditors w)"

definition PostPromotionsIDCancelWithResponse ::
  "ClientLib \<Rightarrow> JsonDecoders \<Rightarrow> 'w Client \<Rightarrow> string \<Rightarrow> oa_PostPromotionsIDCancelParams option \<Rightarrow> RequestEditorFn list \<Rightarrow> 'w \<Rightarrow>
   (goerr, PostPromotionsIDCancelResponse) result \<times> 'w" where
  "PostPromotionsIDCancelWithResponse lib jd c i params reqEditors w =
     parse_with (ParsePostPromotionsIDCancelResponse jd) (Client_PostPromotionsIDCancel lib c i params reqEditors w)"

definition PostPromotionsIDRetryWithResponse ::
  "ClientLib \<Rightarrow> JsonDecoders \<Rightarrow> 'w Client \<Rightarrow> string \<Rightarrow> oa_PostPromotionsIDRetryParams option \<Rightarrow> RequestEditorFn list \<Rightarrow> 'w \<Rightarrow>
   (goerr, PostPromotionsIDRetryResponse) result \<times> 'w" where
  "PostPromotionsIDRetryWithResponse lib jd c i params reqEditors w =
     parse_with (ParsePostPromotionsIDRetryResponse jd) (Client_PostPromotionsIDRetry lib c i params reqEditors w)"

definition GetReleasesWithResponse ::
  "ClientLib \<Rightarrow> JsonDecoders \<Rightarrow> 'w Client \<Rightarrow> oa_GetReleasesParams option \<Rightarrow> RequestEditorFn list \<Rightarrow> 'w \<Rightarrow>
   (goerr, GetReleasesResponse) result \<times> 'w" where
  "GetReleasesWithResponse lib jd c params reqEditors w =
     parse_with (ParseGetReleasesResponse jd) (Client_GetReleases lib c params reqEditors w)"

definition GetTargetsWithResponse ::
  "ClientLib \<Rightarrow> JsonDecoders \<Rightarrow> 'w Client \<Rightarrow> RequestEditorFn list \<Rightarrow> 'w \<Rightarrow>
   (goerr, GetTargetsResponse) result \<times> 'w" where
  "GetTargetsWithResponse lib jd c reqEditors w =
     parse_with (ParseGetTargetsResponse jd) (Client_GetTargets lib c reqEditors w)"

definition GetTargetsNameDriftWithResponse ::
  "ClientLib \<Rightarrow> JsonDecoders \<Rightarrow> 'w Client \<Rightarrow> string \<Rightarrow> RequestEditorFn list \<Rightarrow> 'w \<Rightarrow>
   (goerr, GetTargetsNameDriftResponse) result \<times> 'w" where
  "GetTargetsNameDriftWithResponse lib jd c name reqEditors w =
     parse_with (ParseGetTargetsNameDriftResponse jd) (Client_GetTargetsNameDrift lib c name reqEditors w)"

definition GetTargetsNameHealthWithResponse ::
  "ClientLib \<Rightarrow> JsonDecoders \<Rightarrow> 'w Client \<Rightarrow> string \<Rightarrow> RequestEditorFn list \<Rightarrow> 'w \<Rightarrow>
   (goerr, GetTargetsNameHealthResponse) result \<times> 'w" where
  "GetTargetsNameHealthWithResponse lib jd c name reqEditors w =
     parse_with (ParseGetTargetsNameHealthResponse jd) (Client_GetTargetsNameHealth lib c name reqEditors w)"

end
