(* ===== verification/Fixtures.thy ===== *)
theory Fixtures
  imports Crd_Source
begin

text \<open>
  The in-memory adapter of the port, \<^verbatim>\<open>internal/api/readmodel/fixtures/fixtures.go\<close>,
  over the decoded contract corpus (the embedded JSON files are its arguments), and the
  comparison of its promotion states with those of \<open>Crd_Source\<close>.
\<close>

section \<open>State\<close>

record Fixtures =
  Fixtures_apps :: "oa_Application list"
  Fixtures_matrix :: oa_Matrix
  Fixtures_proms :: "oa_Promotion list"
  Fixtures_releases :: "oa_Release list"
  Fixtures_envs :: "oa_Environment list"
  Fixtures_audit :: "oa_AuditEvent list"
  Fixtures_targets :: "oa_DeploymentTarget list"

text \<open>1 June 2026, 00:00 UTC.\<close>

definition appsAsOf :: time where
  "appsAsOf = 739767 * 86400 * 10 ^ 9"

definition flattenTargets :: "oa_Environment list \<Rightarrow> oa_DeploymentTarget list" where
  "flattenTargets envs =
     concat (map (\<lambda>env. case oa_Environment_Cells env of
        None \<Rightarrow> []
      | Some cells \<Rightarrow>
          concat (map (\<lambda>c. case oa_EnvCell_Targets c of None \<Rightarrow> [] | Some ts \<Rightarrow> ts) cells)) envs)"

definition NewFixtures ::
  "oa_Application list \<Rightarrow> oa_Matrix \<Rightarrow> oa_Promotion list \<Rightarrow> oa_Release list \<Rightarrow> oa_Environment list \<Rightarrow>
   oa_AuditEvent list \<Rightarrow> Fixtures" where
  "NewFixtures apps matrix proms releases envs audit =
     \<lparr>Fixtures_apps = apps, Fixtures_matrix = matrix, Fixtures_proms = proms, Fixtures_releases = releases,
      Fixtures_envs = envs, Fixtures_audit = audit, Fixtures_targets = flattenTargets envs\<rparr>"

section \<open>Matching\<close>

definition deref :: "string option \<Rightarrow> string" where
  "deref s = (case s of None \<Rightarrow> [] | Some v \<Rightarrow> v)"

definition appMatchesQuery :: "oa_Application \<Rightarrow> string \<Rightarrow> bool" where
  "appMatchesQuery a q0 =
     (let q = to_lower q0 in
      list_ex (\<lambda>v. str_contains (to_lower v) q)
        [oa_Application_Name a, deref (oa_Application_Project a), deref (oa_Application_Owner a)])"

definition appHasCell :: "Fixtures \<Rightarrow> string \<Rightarrow> string \<Rightarrow> string \<Rightarrow> bool" where
  "appHasCell f app env region =
     list_ex (\<lambda>row. oa_MatrixRow_Application row = app \<and>
        list_ex (\<lambda>c. \<not> (env \<noteq> [] \<and> deref (oa_MatrixCell_Env c) \<noteq> env) \<and>
                     \<not> (region \<noteq> [] \<and> deref (oa_MatrixCell_Region c) \<noteq> region))
          (oa_MatrixRow_Cells row)) (oa_Matrix_Rows (Fixtures_matrix f))"

definition appMatches :: "Fixtures \<Rightarrow> oa_Application \<Rightarrow> ApplicationFilter \<Rightarrow> bool" where
  "appMatches f a flt =
     (if ApplicationFilter_Project flt \<noteq> [] \<and> deref (oa_Application_Project a) \<noteq> ApplicationFilter_Project flt then False
      else if ApplicationFilter_Q flt \<noteq> [] \<and> \<not> appMatchesQuery a (ApplicationFilter_Q flt) then False
      else if (ApplicationFilter_Env flt \<noteq> [] \<or> ApplicationFilter_Region flt \<noteq> []) \<and>
              \<not> appHasCell f (oa_Application_Name a) (ApplicationFilter_Env flt) (ApplicationFilter_Region flt) then False
      else True)"

definition isTerminalPromotion :: "oa_Status \<Rightarrow> bool" where
  "isTerminalPromotion s \<longleftrightarrow> s = oa_StatusHealthy \<or> s = oa_StatusFailed"

definition promotionInState :: "oa_Promotion \<Rightarrow> string \<Rightarrow> bool" where
  "promotionInState p state =
     (if state = ''blocked'' then oa_Promotion_Status p = oa_StatusBlocked
      else if state = ''active'' then \<not> isTerminalPromotion (oa_Promotion_Status p)
      else if state = ''history'' then isTerminalPromotion (oa_Promotion_Status p)
      else True)"

definition projectOfApp :: "Fixtures \<Rightarrow> string \<Rightarrow> string" where
  "projectOfApp f app =
     (case find (\<lambda>a. oa_Application_Name a = app) (Fixtures_apps f) of
        Some a \<Rightarrow> deref (oa_Application_Project a)
      | None \<Rightarrow> [])"

text \<open>The bounds of a query are inclusive.\<close>

definition auditMatches :: "oa_AuditEvent \<Rightarrow> AuditQuery \<Rightarrow> bool" where
  "auditMatches e q =
     (if AuditQuery_Actor q \<noteq> [] \<and> oa_AuditEvent_Actor e \<noteq> AuditQuery_Actor q then False
      else if AuditQuery_Verb q \<noteq> [] \<and> oa_AuditEvent_Verb e \<noteq> AuditQuery_Verb q then False
      else if AuditQuery_Resource q \<noteq> [] \<and> \<not> str_contains (oa_AuditEvent_Target e) (AuditQuery_Resource q) then False
      else if (case AuditQuery_From q of None \<Rightarrow> False | Some from \<Rightarrow> oa_AuditEvent_At e < from) then False
      else if (case AuditQuery_To q of None \<Rightarrow> False | Some to \<Rightarrow> oa_AuditEvent_At e > to) then False
      else True)"

definition appOf :: "string \<Rightarrow> string" where
  "appOf target =
     (case last_index (CHR ''/'') target of
        Some i \<Rightarrow> if i + 1 < length target then drop (i + 1) target else target
      | None \<Rightarrow> target)"

section \<open>Operations\<close>

definition fx_ListApplications :: "Fixtures \<Rightarrow> ApplicationFilter \<Rightarrow> (goerr, ApplicationsPage) result" where
  "fx_ListApplications f flt =
     Inr \<lparr>ApplicationsPage_Items = filter (\<lambda>a. appMatches f a flt) (Fixtures_apps f),
          ApplicationsPage_AsOf = appsAsOf\<rparr>"

definition fx_GetApplication :: "Fixtures \<Rightarrow> string \<Rightarrow> (goerr, oa_Application) result" where
  "fx_GetApplication f name =
     (case find (\<lambda>a. oa_Application_Name a = name) (Fixtures_apps f) of
        Some a \<Rightarrow> Inr a
      | None \<Rightarrow> Inl ErrNotFound)"

definition fx_GetMatrix :: "Fixtures \<Rightarrow> string \<Rightarrow> (goerr, oa_Matrix) result" where
  "fx_GetMatrix f name =
     (if name = ''all'' then Inr (Fixtures_matrix f)
      else (case find (\<lambda>row. oa_MatrixRow_Application row = name) (oa_Matrix_Rows (Fixtures_matrix f)) of
              Some row \<Rightarrow> Inr ((Fixtures_matrix f)\<lparr>oa_Matrix_Rows := [row]\<rparr>)
            | None \<Rightarrow> Inl ErrNotFound))"

definition fx_ListApplicationReleases :: "Fixtures \<Rightarrow> string \<Rightarrow> (goerr, oa_Release list) result" where
  "fx_ListApplicationReleases f name = Inr (filter (\<lambda>r. oa_Release_App r = name) (Fixtures_releases f))"

definition fx_ListApplicationPromotions :: "Fixtures \<Rightarrow> string \<Rightarrow> (goerr, oa_Promotion list) result" where
  "fx_ListApplicationPromotions f name = Inr (filter (\<lambda>p. oa_Promotion_Application p = name) (Fixtures_proms f))"

definition fx_ListPromotions :: "Fixtures \<Rightarrow> string \<Rightarrow> (goerr, oa_Promotion list) result" where
  "fx_ListPromotions f state = Inr (filter (\<lambda>p. promotionInState p state) (Fixtures_proms f))"

definition fx_GetPromotion :: "Fixtures \<Rightarrow> string \<Rightarrow> (goerr, oa_Promotion) result" where
  "fx_GetPromotion f i =
     (case find (\<lambda>p. oa_Promotion_Ulid p = i) (Fixtures_proms f) of
        Some p \<Rightarrow> Inr p
      | None \<Rightarrow> Inl ErrNotFound)"

definition fx_ListReleases :: "Fixtures \<Rightarrow> string \<Rightarrow> (goerr, oa_Release list) result" where
  "fx_ListReleases f project =
     (if project = [] then Inr (Fixtures_releases f)
      else Inr (filter (\<lambda>r. projectOfApp f (oa_Release_App r) = project) (Fixtures_releases f)))"

definition fx_ListTargets :: "Fixtures \<Rightarrow> (goerr, oa_DeploymentTarget list) result" where
  "fx_ListTargets f = Inr (Fixtures_targets f)"

definition fx_findTarget :: "Fixtures \<Rightarrow> string \<Rightarrow> oa_DeploymentTarget option" where
  "fx_findTarget f name = find (\<lambda>t. oa_DeploymentTarget_Name t = name) (Fixtures_targets f)"

definition fx_GetTargetHealth :: "Fixtures \<Rightarrow> string \<Rightarrow> (goerr, oa_HealthCheck list) result" where
  "fx_GetTargetHealth f name =
     (case fx_findTarget f name of
        None \<Rightarrow> Inl ErrNotFound
      | Some t \<Rightarrow>
          let app = appOf name in
          Inr [\<lparr>oa_HealthCheck_LastProbe = oa_DeploymentTarget_LastSync t,
                oa_HealthCheck_Message = Some (''rollout '' @ oa_DeploymentTarget_Status t),
                oa_HealthCheck_Resource = ''Deployment/'' @ app,
                oa_HealthCheck_Status = oa_DeploymentTarget_Status t\<rparr>,
               \<lparr>oa_HealthCheck_LastProbe = oa_DeploymentTarget_LastSync t,
                oa_HealthCheck_Message = Some ''endpoints ready'',
                oa_HealthCheck_Resource = ''Service/'' @ app,
                oa_HealthCheck_Status = oa_StatusHealthy\<rparr>])"

definition fx_GetTargetDrift :: "Fixtures \<Rightarrow> string \<Rightarrow> (goerr, oa_Diff) result" where
  "fx_GetTargetDrift f name =
     (case fx_findTarget f name of
        None \<Rightarrow> Inl ErrNotFound
      | Some t \<Rightarrow>
          let app = appOf name;
              d = \<lparr>oa_Diff_Entries = [], oa_Diff_Left = Some ''git'', oa_Diff_Mode = oa_GitLive,
                   oa_Diff_Right = Some (oa_DeploymentTarget_Name t), oa_Diff_Summary = None\<rparr>
          in if (case oa_DeploymentTarget_Drift t of None \<Rightarrow> False | Some b \<Rightarrow> b)
             then Inr (d\<lparr>oa_Diff_Entries := oa_Diff_Entries d @
                    [\<lparr>oa_DiffEntry_Change = oa_Changed, oa_DiffEntry_Drift = Some True,
                      oa_DiffEntry_Object = ''Deployment/'' @ app,
                      oa_DiffEntry_Patch = Some (''@@ spec.replicas @@'' @ [CHR 0x0A] @ ''-replicas: 3'' @ [CHR 0x0A] @ ''+replicas: 2'')\<rparr>]\<rparr>)
             else Inr d)"

definition fx_ListEnvironments :: "Fixtures \<Rightarrow> (goerr, oa_Environment list) result" where
  "fx_ListEnvironments f = Inr (Fixtures_envs f)"

definition fx_GetDiff :: "DiffQuery \<Rightarrow> (goerr, oa_Diff) result" where
  "fx_GetDiff q =
     (let mode = (if DiffQuery_Mode q = [] then oa_GitLive else DiffQuery_Mode q);
          d0 = \<lparr>oa_Diff_Entries =
                  [\<lparr>oa_DiffEntry_Change = oa_Changed, oa_DiffEntry_Drift = Some False,
                    oa_DiffEntry_Object = ''Deployment/api'',
                    oa_DiffEntry_Patch = Some (''@@ image @@'' @ [CHR 0x0A] @ ''-image: api:1.4.1'' @ [CHR 0x0A] @ ''+image: api:1.4.2'')\<rparr>],
                oa_Diff_Left = None, oa_Diff_Mode = mode, oa_Diff_Right = None, oa_Diff_Summary = None\<rparr>;
          d1 = (if DiffQuery_Left q \<noteq> [] then d0\<lparr>oa_Diff_Left := Some (DiffQuery_Left q)\<rparr> else d0)
      in Inr (if DiffQuery_Right q \<noteq> [] then d1\<lparr>oa_Diff_Right := Some (DiffQuery_Right q)\<rparr> else d1))"

text \<open>The sort is stable and puts the newest event first.\<close>

definition fx_QueryAudit :: "Fixtures \<Rightarrow> AuditQuery \<Rightarrow> (goerr, AuditPage) result" where
  "fx_QueryAudit f q =
     (let items = filter (\<lambda>e. auditMatches e q) (Fixtures_audit f);
          sorted = sort_key (\<lambda>e. - oa_AuditEvent_At e) items;
          page = (if AuditQuery_Limit q > 0 \<and> int (length sorted) > AuditQuery_Limit q
                  then take (nat (AuditQuery_Limit q)) sorted else sorted)
      in Inr \<lparr>AuditPage_Items = page, AuditPage_NextCursor = []\<rparr>)"

definition fixtures_model :: "Fixtures \<Rightarrow> ReadModel" where
  "fixtures_model f =
     \<lparr>rm_ListApplications = fx_ListApplications f,
      rm_GetApplication = fx_GetApplication f,
      rm_GetMatrix = fx_GetMatrix f,
      rm_ListApplicationReleases = fx_ListApplicationReleases f,
      rm_ListApplicationPromotions = fx_ListApplicationPromotions f,
      rm_ListPromotions = fx_ListPromotions f,
      rm_GetPromotion = fx_GetPromotion f,
      rm_ListReleases = fx_ListReleases f,
      rm_ListTargets = fx_ListTargets f,
      rm_GetTargetHealth = fx_GetTargetHealth f,
      rm_GetTargetDrift = fx_GetTargetDrift f,
      rm_ListEnvironments = fx_ListEnvironments f,
      rm_GetDiff = fx_GetDiff,
      rm_QueryAudit = fx_QueryAudit f\<rparr>"

section \<open>The contract of the port\<close>

lemma appMatches_no_filter [simp]: "appMatches f a no_filter"
  by (simp add: appMatches_def no_filter_def)

lemma promotionInState_all [simp]: "promotionInState p []" "promotionInState p ''mine''"
  by (simp_all add: promotionInState_def)

interpretation fx: read_model "fixtures_model f"
proof (unfold_locales, goal_cases)
  case (1 page name)
  then show ?case
    by (auto simp: fixtures_model_def fx_ListApplications_def fx_GetApplication_def find_None_key
        split: option.splits dest!: find_Some_set)
next
  case (2 page flt)
  then show ?case by (auto simp: fixtures_model_def fx_ListApplications_def)
next
  case (3 name m)
  then show ?case
    by (auto simp: fixtures_model_def fx_GetMatrix_def split: option.splits dest!: find_Some_set)
next
  case (4 name all)
  then show ?case
    by (auto simp: fixtures_model_def fx_GetMatrix_def find_None_key split: option.splits dest!: find_Some_set)
next
  case (5 rs name)
  then show ?case by (auto simp: fixtures_model_def fx_ListReleases_def fx_ListApplicationReleases_def)
next
  case (6 ps name)
  then show ?case by (auto simp: fixtures_model_def fx_ListPromotions_def fx_ListApplicationPromotions_def)
next
  case (7 ps state)
  then show ?case by (auto simp: fixtures_model_def fx_ListPromotions_def)
next
  case 8
  show ?case by (simp add: fixtures_model_def fx_ListPromotions_def)
next
  case (9 ps pid)
  then show ?case
    by (auto simp: fixtures_model_def fx_ListPromotions_def fx_GetPromotion_def find_None_key
        split: option.splits dest!: find_Some_set)
next
  case (10 rs project)
  then show ?case by (auto simp: fixtures_model_def fx_ListReleases_def)
next
  case (11 ts name)
  then show ?case
    by (auto simp: fixtures_model_def fx_ListTargets_def fx_GetTargetDrift_def fx_findTarget_def Let_def find_None_key
        split: option.splits dest!: find_Some_set)
next
  case (12 ts name)
  then have "fx_findTarget f name = None"
    by (simp add: fixtures_model_def fx_ListTargets_def fx_findTarget_def find_None_key)
  then show ?case by (simp add: fixtures_model_def fx_GetTargetHealth_def)
next
  case (13 q)
  show ?case by (simp add: fixtures_model_def fx_GetDiff_def Let_def nonempty_ptr_def)
qed

section \<open>A sample trail\<close>

definition sample_event :: "string \<Rightarrow> time \<Rightarrow> oa_AuditEvent" where
  "sample_event ulid at =
     \<lparr>oa_AuditEvent_Actor = ''ada'', oa_AuditEvent_At = at, oa_AuditEvent_Evidence = None,
      oa_AuditEvent_Result = None, oa_AuditEvent_Target = ''prod-eu/shop'', oa_AuditEvent_Ulid = ulid,
      oa_AuditEvent_Verb = ''view''\<rparr>"

definition sample_trail :: Fixtures where
  "sample_trail =
     \<lparr>Fixtures_apps = [],
      Fixtures_matrix = \<lparr>oa_Matrix_AsOf = 0, oa_Matrix_Columns = [], oa_Matrix_Rows = []\<rparr>,
      Fixtures_proms = [], Fixtures_releases = [], Fixtures_envs = [],
      Fixtures_audit = [sample_event ''01A'' 1, sample_event ''01B'' 2], Fixtures_targets = []\<rparr>"

definition latest_view :: AuditQuery where
  "latest_view =
     \<lparr>AuditQuery_Resource = [], AuditQuery_Actor = ''ada'', AuditQuery_Verb = ''view'',
      AuditQuery_From = None, AuditQuery_To = Some 9, AuditQuery_Limit = 1\<rparr>"

section \<open>Claims\<close>

text \<open>C30: Audit queries.  For a limit the contract allows (1 to 1000) the fixtures answer
  with matching events only, newest first, each once, as many as there are up to the limit, and
  no matching event left out is newer than one returned.  (Nothing is claimed of other limits,
  to which the adapter does not apply the contract's default or maximum, nor of the cursor,
  which it leaves empty on a truncated page too.)\<close>
theorem audit_page_newest_first:
  assumes "0 < AuditQuery_Limit q" "AuditQuery_Limit q \<le> 1000"
  shows "\<exists>page rest. fx_QueryAudit f q = Inr page \<and>
    sorted_wrt (\<lambda>e e'. oa_AuditEvent_At e \<ge> oa_AuditEvent_At e') (AuditPage_Items page) \<and>
    int (length (AuditPage_Items page)) =
      min (int (length (filter (\<lambda>e. auditMatches e q) (Fixtures_audit f)))) (AuditQuery_Limit q) \<and>
    mset (AuditPage_Items page) + mset rest = mset (filter (\<lambda>e. auditMatches e q) (Fixtures_audit f)) \<and>
    (\<forall>e \<in> set (AuditPage_Items page). \<forall>e' \<in> set rest. oa_AuditEvent_At e \<ge> oa_AuditEvent_At e')"
proof -
  let ?all = "sort_key (\<lambda>e. - oa_AuditEvent_At e) (filter (\<lambda>e. auditMatches e q) (Fixtures_audit f))"
  let ?n = "nat (AuditQuery_Limit q)"
  have page: "fx_QueryAudit f q = Inr \<lparr>AuditPage_Items = take ?n ?all, AuditPage_NextCursor = []\<rparr>"
    using assms(1) by (simp add: fx_QueryAudit_def Let_def)
  have "sorted (map (\<lambda>e. - oa_AuditEvent_At e) ?all)" by simp
  then have "sorted_wrt (\<lambda>e e'. oa_AuditEvent_At e \<ge> oa_AuditEvent_At e') (take ?n ?all @ drop ?n ?all)"
    by (simp add: sorted_map)
  then have two: "sorted_wrt (\<lambda>e e'. oa_AuditEvent_At e \<ge> oa_AuditEvent_At e') (take ?n ?all)"
    "\<forall>e \<in> set (take ?n ?all). \<forall>e' \<in> set (drop ?n ?all). oa_AuditEvent_At e \<ge> oa_AuditEvent_At e'"
    unfolding sorted_wrt_append by blast+
  have "mset (take ?n ?all) + mset (drop ?n ?all) = mset ?all"
    by (metis append_take_drop_id mset_append)
  then have "mset (take ?n ?all) + mset (drop ?n ?all) = mset (filter (\<lambda>e. auditMatches e q) (Fixtures_audit f))"
    by (simp only: mset_sort)
  moreover have "int (length (take ?n ?all)) =
      min (int (length (filter (\<lambda>e. auditMatches e q) (Fixtures_audit f)))) (AuditQuery_Limit q)"
    using assms(1) by (simp only: length_take length_sort of_nat_min int_nat_eq if_True less_imp_le)
  ultimately show ?thesis using page two
    by (intro exI [of _ "\<lparr>AuditPage_Items = take ?n ?all, AuditPage_NextCursor = []\<rparr>"]
        exI [of _ "drop ?n ?all"]) simp
qed

theorem audit_page_newest_first_witness:
  "\<exists>page rest. fx_QueryAudit sample_trail latest_view = Inr page \<and> length (AuditPage_Items page) = 1 \<and>
     mset (AuditPage_Items page) + mset rest = mset (Fixtures_audit sample_trail) \<and>
     (\<forall>e \<in> set (AuditPage_Items page). \<forall>e' \<in> set rest. oa_AuditEvent_At e \<ge> oa_AuditEvent_At e')"
proof -
  have s: "filter (\<lambda>e. auditMatches e latest_view) (Fixtures_audit sample_trail) = Fixtures_audit sample_trail"
    "length (Fixtures_audit sample_trail) = 2" "AuditQuery_Limit latest_view = 1"
    by (simp_all add: sample_trail_def sample_event_def latest_view_def auditMatches_def)
  then have "0 < AuditQuery_Limit latest_view" "AuditQuery_Limit latest_view \<le> 1000" by simp_all
  from audit_page_newest_first [OF this, of sample_trail] show ?thesis
    unfolding s(1) by (simp add: s(2,3)) blast
qed

text \<open>The backends disagree on promotion states.  For a promotion shown by both, its place in
  a view differs exactly here: the fixtures keep blocked, rolled back and cancelled
  promotions active, where the CRD adapter does not, and leave rolled back and cancelled ones
  out of the history, where the CRD adapter puts them.\<close>
theorem backends_disagree_on_states:
  "promotionInState (promotionToAPI p) state \<noteq> promotionMatchesState p state \<longleftrightarrow>
     state = ''active'' \<and> PromotionStatus_Phase (Promotion_Status p)
        \<in> {PromotionPhaseBlocked, PromotionPhaseRolledBack, PromotionPhaseCanceled} \<or>
     state = ''history'' \<and> PromotionStatus_Phase (Promotion_Status p)
        \<in> {PromotionPhaseRolledBack, PromotionPhaseCanceled}"
  by (auto simp: promotionInState_def promotionMatchesState_def isTerminalPromotion_def isTerminalPhase_def
      promotionStatus_def Let_def)

text \<open>C31: Lookups and lists agree, on both backends.  Whenever the applications of a snapshot can
  be listed, an application is found by name exactly when it is listed, a lookup that fails
  says not found, and an application shown under any filter can be found.\<close>
theorem applications_found_iff_listed:
  assumes "rm = crd_source kf s now \<or> rm = fixtures_model f"
    and "rm_ListApplications rm no_filter = Inr page"
  shows "(is_ok (rm_GetApplication rm name) \<longleftrightarrow> name \<in> oa_Application_Name ` set (ApplicationsPage_Items page)) \<and>
    (isl (rm_GetApplication rm name) \<longrightarrow> rm_GetApplication rm name = Inl ErrNotFound) \<and>
    (\<exists>page'. rm_ListApplications rm flt = Inr page' \<and>
       (\<forall>a \<in> set (ApplicationsPage_Items page'). is_ok (rm_GetApplication rm (oa_Application_Name a))))"
  using assms(1)
proof
  assume rm: "rm = crd_source kf s now"
  note list = assms(2) [unfolded rm]
  obtain page' where "rm_ListApplications (crd_source kf s now) flt = Inr page'"
    using crd.application_filter [OF list] by blast
  then show ?thesis
    using crd.application_found_iff_listed [OF list] crd.filtered_application_found [OF list] unfolding rm by blast
next
  assume rm: "rm = fixtures_model f"
  note list = assms(2) [unfolded rm]
  obtain page' where "rm_ListApplications (fixtures_model f) flt = Inr page'"
    using fx.application_filter [OF list] by blast
  then show ?thesis
    using fx.application_found_iff_listed [OF list] fx.filtered_application_found [OF list] unfolding rm by blast
qed

theorem applications_found_iff_listed_witness:
  "is_ok (rm_GetApplication (crd_source sample_fns (sample_cluster\<lparr>Cluster_Applications := Inr [sample_app]\<rparr>) 1) ''app'')"
proof -
  let ?rm = "crd_source sample_fns (sample_cluster\<lparr>Cluster_Applications := Inr [sample_app]\<rparr>) 1"
  have "rm_ListApplications ?rm no_filter =
      Inr \<lparr>ApplicationsPage_Items = [applicationToAPI sample_fns sample_app], ApplicationsPage_AsOf = 1\<rparr>"
    by (simp add: crd_source_def ListApplications_def)
  from applications_found_iff_listed [OF disjI1 [OF refl] this, of "''app''"]
  show ?thesis by (simp add: sample_app_def sample_meta_def)
qed

text \<open>C32: No promotion is lost between views, on both backends.  A promotion shown in any state
  of the inbox is listed under its application, and if it carries a ULID, looking that ULID
  up finds a promotion.\<close>
theorem promotions_reachable_from_views:
  assumes "rm = crd_source kf s now \<or> rm = fixtures_model f"
    and "rm_ListPromotions rm [] = Inr all" and "rm_ListPromotions rm state = Inr ps" and "p \<in> set ps"
  shows "(\<exists>qs. rm_ListApplicationPromotions rm (oa_Promotion_Application p) = Inr qs \<and> p \<in> set qs) \<and>
    (oa_Promotion_Ulid p \<noteq> [] \<longrightarrow> is_ok (rm_GetPromotion rm (oa_Promotion_Ulid p)))"
  using assms(1)
proof
  assume rm: "rm = crd_source kf s now"
  have "p \<in> set all"
    using crd.promotion_filter [OF assms(2) [unfolded rm], of state] assms(3,4) by (auto simp: rm dest: subseq_set)
  then show ?thesis
    using crd.every_promotion_under_its_application [OF assms(3) [unfolded rm] assms(2) [unfolded rm] assms(4)]
      crd.promotion_found_by_ulid [OF assms(2) [unfolded rm]] unfolding rm by blast
next
  assume rm: "rm = fixtures_model f"
  have "p \<in> set all"
    using fx.promotion_filter [OF assms(2) [unfolded rm], of state] assms(3,4) by (auto simp: rm dest: subseq_set)
  then show ?thesis
    using fx.every_promotion_under_its_application [OF assms(3) [unfolded rm] assms(2) [unfolded rm] assms(4)]
      fx.promotion_found_by_ulid [OF assms(2) [unfolded rm]] unfolding rm by blast
qed

theorem promotions_reachable_from_views_witness:
  "is_ok (rm_GetPromotion (crd_source sample_fns (sample_cluster\<lparr>Cluster_Promotions :=
     Inr [sample_promo ''p1'' ''01J'' PromotionPhaseBlocked]\<rparr>) 1) ''01J'')"
proof -
  let ?p = "sample_promo ''p1'' ''01J'' PromotionPhaseBlocked"
  let ?rm = "crd_source sample_fns (sample_cluster\<lparr>Cluster_Promotions := Inr [?p]\<rparr>) 1"
  have ulid: "ulidOf (Promotion_ObjectMeta ?p) = ''01J''"
    by (simp add: sample_promo_def ulidOf_def dict_get_def)
  have "rm_ListPromotions ?rm [] = Inr [promotionToAPI ?p]"
    by (simp add: crd_source_def ListPromotions_def)
  moreover have "rm_ListPromotions ?rm ''blocked'' = Inr [promotionToAPI ?p]"
    by (simp add: crd_source_def ListPromotions_def promotionMatchesState_def sample_promo_def)
  ultimately show ?thesis
    using promotions_reachable_from_views [OF disjI1 [OF refl], of sample_fns _ 1 "[promotionToAPI ?p]" "''blocked''"
        "[promotionToAPI ?p]" "promotionToAPI ?p"] ulid by simp
qed

end
