(* ===== verification/Api_Auth.thy ===== *)
theory Api_Auth
  imports Api_Http Audit_Emitter
begin

text \<open>
  The authentication seam, \<^verbatim>\<open>internal/api/auth/auth.go\<close>: identities, the stub operator,
  the authorizer interface (a predicate) and the bearer-token middleware.
\<close>

section \<open>Identities\<close>

definition actorType :: "string \<Rightarrow> ActorType" where
  "actorType t =
     (if t = ActorCI then ActorCI
      else if t = ActorAgent then ActorAgent
      else if t = ActorSystem then ActorSystem
      else ActorHuman)"

definition Identity_Actor :: "Identity \<Rightarrow> Actor" where
  "Identity_Actor i =
     Actor (actorType (Identity_Type i)) (Identity_Subject i) (Identity_SubjectID i) (Identity_IDP i)
       (Identity_Groups i) None"

definition StubIdentity :: Identity where
  "StubIdentity =
     \<lparr>Identity_Type = ''human'', Identity_Subject = ''u_stub'', Identity_SubjectID = [],
      Identity_Name = ''Dev Operator'', Identity_Email = ''operator@keleustes.local'',
      Identity_IDP = ''stub-oidc'', Identity_Groups = []\<rparr>"

definition identityFromToken :: "string \<Rightarrow> Identity" where
  "identityFromToken tok = StubIdentity"

definition withIdentity :: "HttpRequest \<Rightarrow> Identity \<Rightarrow> HttpRequest" where
  "withIdentity r i = r\<lparr>Req_ctxIdentity := Some i\<rparr>"

definition FromContext :: "HttpRequest \<Rightarrow> Identity option" where
  "FromContext r = Req_ctxIdentity r"

text \<open>An authorizer is asked with the request's context, a verb, a resource and a scope.\<close>

type_synonym authorizer = "HttpRequest \<Rightarrow> string \<Rightarrow> string \<Rightarrow> string \<Rightarrow> bool"

definition AllowAll :: authorizer where
  "AllowAll = (\<lambda>_ _ _ _. True)"

section \<open>The middleware\<close>

record AuthConfig =
  AuthConfig_Required :: bool

definition bearerToken :: "HttpRequest \<Rightarrow> string option" where
  "bearerToken r =
     (let prefix = ''Bearer ''; h = header_get r ''Authorization'' in
      if length h \<le> length prefix \<or> \<not> equal_fold (take (length prefix) h) prefix then None
      else (let tok = trim_space (drop (length prefix) h) in
            if tok = [] then None else Some tok))"

definition unauthenticated_problem :: oa_Problem where
  "unauthenticated_problem =
     \<lparr>oa_Problem_AsOf = None, oa_Problem_Detail = Some ''authentication required'',
      oa_Problem_Errors = None, oa_Problem_Instance = None, oa_Problem_Region = None,
      oa_Problem_Resource = None, oa_Problem_Status = 401, oa_Problem_Title = ''Unauthenticated'',
      oa_Problem_Type = ''https://keleustes.skaphos.io/errors/unauthenticated'', oa_Problem_Verb = None\<rparr>"

definition writeUnauthenticated :: "World \<Rightarrow> World" where
  "writeUnauthenticated wd =
     Write (BodyProblem unauthenticated_problem)
       (WriteHeader 401 (SetHeader ''Content-Type'' ''application/problem+json'' wd))"

definition auth_Middleware :: "AuthConfig \<Rightarrow> http_handler \<Rightarrow> http_handler" where
  "auth_Middleware cfg next r wd =
     (if \<not> AuthConfig_Required cfg then next (withIdentity r StubIdentity) wd
      else (case bearerToken r of
              None \<Rightarrow> (False, writeUnauthenticated wd)
            | Some tok \<Rightarrow> next (withIdentity r (identityFromToken tok)) wd))"

lemma writeUnauthenticated_steps: "http_steps wd wd' \<Longrightarrow> http_steps wd (writeUnauthenticated wd')"
  by (auto simp: writeUnauthenticated_def)

lemma bearerToken_None: "header_get r ''Authorization'' = [] \<Longrightarrow> bearerToken r = None"
  by (simp add: bearerToken_def)

end
