(* ===== verification/Net_Mux.thy ===== *)
theory Net_Mux
  imports Api_Http Net_Url
begin

text \<open>
  What \<^verbatim>\<open>http.ServeMux\<close> does before it looks at its patterns: a request whose path is not in
  its shortest form is answered with a redirect to that form, except for \<^verbatim>\<open>CONNECT\<close>.  The
  status of the redirect is an argument, because it depends on the release of Go (301 Moved
  Permanently before Go 1.26, 307 Temporary Redirect since).  The patterns of the sources have
  no trailing slash and no host, so the other redirect of \<^verbatim>\<open>ServeMux\<close> does not occur.
\<close>

section \<open>Clean paths\<close>

text \<open>\<^verbatim>\<open>path.Clean\<close> on the elements of a rooted path.\<close>

fun clean_elements :: "string list \<Rightarrow> string list \<Rightarrow> string list" where
  "clean_elements done_rev [] = rev done_rev"
| "clean_elements done_rev (e # es) =
     (if e = [] \<or> e = ''.'' then clean_elements done_rev es
      else if e = ''..'' then clean_elements (tl done_rev) es
      else clean_elements (e # done_rev) es)"

definition path_Clean :: "string \<Rightarrow> string" where
  "path_Clean p = CHR ''/'' # join ''/'' (clean_elements [] (split_on (CHR ''/'') p))"

definition cleanPath :: "string \<Rightarrow> string" where
  "cleanPath p0 =
     (if p0 = [] then ''/''
      else (let p = (if hd p0 = CHR ''/'' then p0 else CHR ''/'' # p0);
                np = path_Clean p
            in if last p = CHR ''/'' \<and> np \<noteq> ''/'' then np @ ''/'' else np))"

section \<open>Redirects\<close>

definition hexEscapeNonASCII :: "string \<Rightarrow> string" where
  "hexEscapeNonASCII s = concat (map (\<lambda>c. let n = (of_char c :: nat) in
     if n < 128 then [c] else [CHR ''%'', hex_digit (n div 16), hex_digit (n mod 16)]) s)"

definition htmlEscape :: "string \<Rightarrow> string" where
  "htmlEscape s = concat (map (\<lambda>c.
     if c = CHR ''&'' then ''&amp;'' else if c = CHR ''<'' then ''&lt;''
     else if c = CHR ''>'' then ''&gt;'' else if c = CHR 0x22 then ''&#34;''
     else if c = CHR 0x27 then ''&#39;'' else [c]) s)"

definition StatusText :: "int \<Rightarrow> string" where
  "StatusText code = (if code = 301 then ''Moved Permanently''
     else if code = 307 then ''Temporary Redirect'' else [])"

text \<open>
  \<^verbatim>\<open>http.Redirect\<close> to a rooted URL with a clean path, which its own cleaning leaves as it is.
\<close>

definition Redirect :: "string \<Rightarrow> int \<Rightarrow> http_handler" where
  "Redirect url code r wd =
     (let bare = (map_of (w_header (wd_writer wd)) ''Content-Type'' = None);
          wd1 = SetHeader ''Location'' (hexEscapeNonASCII url) wd;
          wd2 = (if bare \<and> (Req_Method r = ''GET'' \<or> Req_Method r = ''HEAD'')
                 then SetHeader ''Content-Type'' ''text/html; charset=utf-8'' wd1 else wd1);
          wd3 = WriteHeader code wd2
      in (False,
          if bare \<and> Req_Method r = ''GET''
          then Write (BodyText (''<a href='' @ [CHR 0x22] @ htmlEscape url @ [CHR 0x22] @ ''>'' @ StatusText code @
                 ''</a>.'' @ [CHR 0x0A, CHR 0x0A])) wd3
          else wd3))"

text \<open>
  The URL is built with the escaped path as its path, so its percent signs are escaped once more.
\<close>

definition clean_url :: "HttpRequest \<Rightarrow> string" where
  "clean_url r = escape encodePath (cleanPath (Req_EscapedPath r)) @
     (if Req_RawQuery r = [] then [] else CHR ''?'' # Req_RawQuery r)"

definition clean_request :: "HttpRequest \<Rightarrow> bool" where
  "clean_request r \<longleftrightarrow> Req_Method r = ''CONNECT'' \<or> cleanPath (Req_EscapedPath r) = Req_EscapedPath r"

definition ServeMux :: "int \<Rightarrow> http_handler \<Rightarrow> http_handler" where
  "ServeMux code dispatch r wd =
     (if clean_request r then dispatch r wd else Redirect (clean_url r) code r wd)"

lemma ServeMux_clean: "clean_request r \<Longrightarrow> ServeMux code dispatch r wd = dispatch r wd"
  by (simp add: ServeMux_def)

lemma Redirect_steps: "\<not> fst (Redirect url code r wd) \<and> http_steps wd (snd (Redirect url code r wd))"
  by (auto simp: Redirect_def Let_def)

section \<open>Paths that are clean\<close>

lemma clean_elements_plain:
  "list_all (\<lambda>e. e \<noteq> [] \<and> e \<noteq> ''.'' \<and> e \<noteq> ''..'') es \<Longrightarrow> clean_elements acc es = rev acc @ es"
  by (induction es arbitrary: acc) auto

lemma join_slash: "es \<noteq> [] \<Longrightarrow> CHR ''/'' # join ''/'' es = concat (map (\<lambda>e. CHR ''/'' # e) es)"
  by (induction "''/''" es rule: join.induct) auto

lemma escape_empty: "escape m s = [] \<longleftrightarrow> s = []"
proof -
  have "escape_char m c \<noteq> []" for c by (simp add: escape_char_def Let_def)
  then show ?thesis by (cases s) (simp_all add: escape_Cons)
qed

lemma cleanPath_seg_path:
  assumes "segs \<noteq> []" "list_all (\<lambda>s. s \<noteq> [] \<and> s \<noteq> ''.'' \<and> s \<noteq> ''..'') segs"
  shows "cleanPath (seg_path segs) = seg_path segs"
proof -
  let ?es = "map (escape encodePathSegment) segs"
  have plain: "list_all (\<lambda>e. e \<noteq> [] \<and> e \<noteq> ''.'' \<and> e \<noteq> ''..'') ?es"
    using assms(2) by (simp only: list.pred_map comp_def escape_empty escape_dots not_False_eq_True)
  have path: "seg_path segs = concat (map (\<lambda>e. CHR ''/'' # e) ?es)"
    by (simp add: seg_path_def comp_def)
  have "split_on (CHR ''/'') (seg_path segs) = [] # ?es"
    using split_seg_path [of "[]" segs] by simp
  then have "path_Clean (seg_path segs) = CHR ''/'' # join ''/'' ?es"
    using clean_elements_plain [OF plain, of "[]"] by (simp add: path_Clean_def)
  then have np: "path_Clean (seg_path segs) = seg_path segs"
    using join_slash [of ?es] assms(1) path by simp
  obtain front s where segs: "segs = front @ [s]" using assms(1) by (metis rev_exhaust)
  have s: "escape encodePathSegment s \<noteq> []" using assms(2) by (simp add: segs escape_empty)
  have "seg_path segs = seg_path front @ CHR ''/'' # escape encodePathSegment s"
    by (simp add: segs seg_path_def)
  then have "last (seg_path segs) = last (escape encodePathSegment s)" "seg_path segs \<noteq> []"
    using s by simp_all
  moreover have "last (escape encodePathSegment s) \<noteq> CHR ''/''"
    using no_slash_escape [of s] last_in_set [OF s] by metis
  moreover have "hd (seg_path segs) = CHR ''/''" using assms(1) by (cases segs) (simp_all add: seg_path_simps)
  ultimately show ?thesis by (simp add: cleanPath_def np)
qed

end
