(* ===== verification/Api_Server.thy ===== *)
theory Api_Server
  imports Fixtures Api_Auth Api_Responses Net_Mux
begin

text \<open>
  The read API server, \<^verbatim>\<open>internal/api/server\<close>, with the part of the generated router
  (\<^verbatim>\<open>internal/api/openapi/keleustes.gen.go\<close>) between it and \<^verbatim>\<open>net/http\<close>: parameter
  binding (\<open>siw_\<close>), the strict handlers (\<open>sh_\<close>) with the authorization checkpoint, the
  operations (\<open>ssi_\<close>), the error sink, and the chain of middlewares.  The binder of
  \<^verbatim>\<open>oapi-codegen/runtime\<close>, the JSON codec, the embedded contract and the status with which
  \<^verbatim>\<open>ServeMux\<close> redirects are arguments, held in \<open>Runtime\<close>.
\<close>

section \<open>Responses and surroundings\<close>

text \<open>A binding error, and whether a required parameter is what is missing.\<close>

record bind_error =
  be_required :: bool
  be_err :: goerr

type_synonym 'v query_binder = "bool \<Rightarrow> string \<Rightarrow> (string \<times> string list) list \<Rightarrow> (bind_error, 'v option) result"

record Runtime =
  rt_BindQueryString :: "string query_binder"
  rt_BindQueryTime :: "time query_binder"
  rt_BindQueryInt :: "int query_binder"
  rt_BindStyled :: "string \<Rightarrow> string \<Rightarrow> (goerr, string) result"
  rt_DecodePromotionRequest :: "string \<Rightarrow> (goerr, oa_PromotionRequest) result"
  rt_DecodeApproveBody :: "string \<Rightarrow> (goerr, oa_PostPromotionsIDApproveJSONBody) result"
  rt_Encode :: encoder
  rt_GetSpec :: "(goerr, string) result"
  rt_RedirectStatus :: int

record Server =
  sv_rm :: ReadModel
  sv_authz :: authorizer
  sv_authCfg :: AuthConfig
  sv_Runtime :: Runtime

record Options =
  Options_Auth :: AuthConfig
  Options_Authz :: "authorizer option"

definition NewServer :: "Runtime \<Rightarrow> ReadModel \<Rightarrow> Options \<Rightarrow> Server" where
  "NewServer rt rm opts =
     \<lparr>sv_rm = rm,
      sv_authz = (case Options_Authz opts of None \<Rightarrow> AllowAll | Some a \<Rightarrow> a),
      sv_authCfg = Options_Auth opts, sv_Runtime = rt\<rparr>"

section \<open>Errors\<close>

definition errorBaseURI :: string where
  "errorBaseURI = ''https://keleustes.skaphos.io/errors/''"

definition strPtrIfSet :: "string \<Rightarrow> string option" where
  "strPtrIfSet s = (if s = [] then None else Some s)"

definition problem :: "int \<Rightarrow> string \<Rightarrow> string \<Rightarrow> string \<Rightarrow> oa_Problem" where
  "problem status slug title detail =
     \<lparr>oa_Problem_AsOf = None, oa_Problem_Detail = Some detail, oa_Problem_Errors = None,
      oa_Problem_Instance = None, oa_Problem_Region = None, oa_Problem_Resource = None,
      oa_Problem_Status = status, oa_Problem_Title = title,
      oa_Problem_Type = errorBaseURI @ slug, oa_Problem_Verb = None\<rparr>"

definition isParamError :: "goerr \<Rightarrow> bool" where
  "isParamError err \<longleftrightarrow>
     errors_as (\<lambda>e. case e of RequiredParamError _ \<Rightarrow> True | _ \<Rightarrow> False) err \<noteq> None \<or>
     errors_as (\<lambda>e. case e of InvalidParamFormatError _ _ \<Rightarrow> True | _ \<Rightarrow> False) err \<noteq> None \<or>
     errors_as (\<lambda>e. case e of TooManyValuesForParamError _ _ \<Rightarrow> True | _ \<Rightarrow> False) err \<noteq> None \<or>
     errors_as (\<lambda>e. case e of UnmarshalingParamError _ _ \<Rightarrow> True | _ \<Rightarrow> False) err \<noteq> None \<or>
     errors_as (\<lambda>e. case e of RequiredHeaderError _ _ \<Rightarrow> True | _ \<Rightarrow> False) err \<noteq> None"

definition as_forbidden :: "goerr \<Rightarrow> (string \<times> string) option" where
  "as_forbidden err =
     (case errors_as (\<lambda>e. case e of ForbiddenError _ _ \<Rightarrow> True | _ \<Rightarrow> False) err of
        Some (ForbiddenError v r) \<Rightarrow> Some (v, r)
      | _ \<Rightarrow> None)"

definition classify :: "goerr \<Rightarrow> oa_Problem" where
  "classify err =
     (if errors_is err ErrNotImplemented
      then problem 501 ''not_implemented'' ''Not implemented'' (error_string err)
      else if errors_is err ErrNotFound
      then problem 404 ''not_found'' ''Not found'' ''the requested resource does not exist''
      else if isParamError err
      then problem 400 ''invalid'' ''Invalid request'' (error_string err)
      else (case as_forbidden err of
              Some (verb, resource) \<Rightarrow>
                (problem 403 ''forbidden'' ''Forbidden'' ''caller lacks the required verb on the resource'')
                  \<lparr>oa_Problem_Verb := strPtrIfSet verb, oa_Problem_Resource := strPtrIfSet resource\<rparr>
            | None \<Rightarrow>
                if errors_is err ErrForbidden
                then problem 403 ''forbidden'' ''Forbidden'' ''caller lacks the required verb on the resource''
                else problem 500 ''degraded'' ''Internal error'' ''internal error''))"

definition writeProblem :: "oa_Problem \<Rightarrow> World \<Rightarrow> World" where
  "writeProblem p wd =
     Write (BodyProblem p) (WriteHeader (oa_Problem_Status p)
       (SetHeader ''Content-Type'' ''application/problem+json'' wd))"

definition writeProblemStatus :: "int \<Rightarrow> string \<Rightarrow> string \<Rightarrow> string \<Rightarrow> World \<Rightarrow> World" where
  "writeProblemStatus status slug title detail wd = writeProblem (problem status slug title detail) wd"

definition requestIDFromContext :: "HttpRequest \<Rightarrow> string" where
  "requestIDFromContext r = (case Req_ctxRequestID r of None \<Rightarrow> [] | Some i \<Rightarrow> i)"

definition onError :: "Server \<Rightarrow> HttpRequest \<Rightarrow> goerr \<Rightarrow> World \<Rightarrow> bool \<times> World" where
  "onError s r err wd =
     (let p = (classify err)\<lparr>oa_Problem_Instance := Some (Req_Path r)\<rparr>;
          wd' = (if oa_Problem_Status p = 500
                 then Log (ErrorLog err (Req_Path r) (requestIDFromContext r)) wd else wd)
      in (False, writeProblem p wd'))"

section \<open>Authorization\<close>

definition resourceOf :: "string \<Rightarrow> string" where
  "resourceOf operationID =
     (let name = trim_prefix operationID ''Get'' in
      if has_prefix name ''Applications'' then ''applications''
      else if has_prefix name ''Promotions'' then ''promotions''
      else if has_prefix name ''Releases'' then ''releases''
      else if has_prefix name ''Targets'' then ''targets''
      else if has_prefix name ''Environments'' then ''environments''
      else if has_prefix name ''Diff'' then ''diff''
      else if has_prefix name ''Audit'' then ''audit''
      else to_lower name)"

definition authzForOperation :: "string \<Rightarrow> string \<times> string" where
  "authzForOperation operationID =
     (if operationID = ''PostPromotions'' then (''promote'', ''promotions'')
      else if operationID = ''PostPromotionsIDApprove'' then (''approve'', ''promotions'')
      else if operationID = ''PostPromotionsIDCancel'' then (''cancel'', ''promotions'')
      else if operationID = ''PostPromotionsIDRetry'' then (''retry'', ''promotions'')
      else (''read'', resourceOf operationID))"

definition authzMiddleware ::
  "Server \<Rightarrow> (HttpRequest \<Rightarrow> (goerr, 'o) result) \<Rightarrow> string \<Rightarrow> HttpRequest \<Rightarrow> (goerr, 'o) result" where
  "authzMiddleware s f operationID r =
     (let (verb, resource) = authzForOperation operationID in
      if \<not> sv_authz s r verb resource [] then Inl (ForbiddenError verb resource)
      else f r)"

section \<open>Operations\<close>

abbreviation opt_val :: "string option \<Rightarrow> string" where
  "opt_val p \<equiv> (case p of None \<Rightarrow> [] | Some v \<Rightarrow> v)"

definition ssi_GetApplications :: "Server \<Rightarrow> oa_GetApplicationsParams \<Rightarrow> (goerr, GetApplicationsResponseObject) result" where
  "ssi_GetApplications s params =
     (let f = \<lparr>ApplicationFilter_Project = opt_val (oa_GetApplicationsParams_Project params),
               ApplicationFilter_Env = opt_val (oa_GetApplicationsParams_Env params),
               ApplicationFilter_Region = opt_val (oa_GetApplicationsParams_Region params),
               ApplicationFilter_Q = opt_val (oa_GetApplicationsParams_Q params)\<rparr>
      in case rm_ListApplications (sv_rm s) f of
           Inl err \<Rightarrow> Inl err
         | Inr page \<Rightarrow> Inr (GetApplications200JSONResponse (ApplicationsPage_AsOf page) (ApplicationsPage_Items page)))"

definition ssi_GetApplicationsName :: "Server \<Rightarrow> string \<Rightarrow> (goerr, GetApplicationsNameResponseObject) result" where
  "ssi_GetApplicationsName s name =
     (case rm_GetApplication (sv_rm s) name of Inl err \<Rightarrow> Inl err | Inr app \<Rightarrow> Inr (GetApplicationsName200JSONResponse app))"

definition ssi_GetApplicationsNameMatrix :: "Server \<Rightarrow> string \<Rightarrow> (goerr, GetApplicationsNameMatrixResponseObject) result" where
  "ssi_GetApplicationsNameMatrix s name =
     (case rm_GetMatrix (sv_rm s) name of Inl err \<Rightarrow> Inl err | Inr m \<Rightarrow> Inr (GetApplicationsNameMatrix200JSONResponse m))"

definition ssi_GetApplicationsNamePromotions :: "Server \<Rightarrow> string \<Rightarrow> (goerr, GetApplicationsNamePromotionsResponseObject) result" where
  "ssi_GetApplicationsNamePromotions s name =
     (case rm_ListApplicationPromotions (sv_rm s) name of Inl err \<Rightarrow> Inl err | Inr ps \<Rightarrow> Inr (GetApplicationsNamePromotions200JSONResponse ps))"

definition ssi_GetApplicationsNameReleases :: "Server \<Rightarrow> string \<Rightarrow> (goerr, GetApplicationsNameReleasesResponseObject) result" where
  "ssi_GetApplicationsNameReleases s name =
     (case rm_ListApplicationReleases (sv_rm s) name of Inl err \<Rightarrow> Inl err | Inr rs \<Rightarrow> Inr (GetApplicationsNameReleases200JSONResponse rs))"

definition ssi_GetAudit :: "Server \<Rightarrow> oa_GetAuditParams \<Rightarrow> (goerr, GetAuditResponseObject) result" where
  "ssi_GetAudit s params =
     (let q = \<lparr>AuditQuery_Resource = opt_val (oa_GetAuditParams_Resource params),
               AuditQuery_Actor = opt_val (oa_GetAuditParams_Actor params),
               AuditQuery_Verb = opt_val (oa_GetAuditParams_Verb params),
               AuditQuery_From = oa_GetAuditParams_From params,
               AuditQuery_To = oa_GetAuditParams_To params,
               AuditQuery_Limit = (case oa_GetAuditParams_Limit params of None \<Rightarrow> 0 | Some n \<Rightarrow> n)\<rparr>
      in case rm_QueryAudit (sv_rm s) q of
           Inl err \<Rightarrow> Inl err
         | Inr page \<Rightarrow>
             Inr (GetAudit200JSONResponse (AuditPage_Items page)
               (if AuditPage_NextCursor page \<noteq> [] then Some (AuditPage_NextCursor page) else None)))"

definition ssi_GetDiff :: "Server \<Rightarrow> oa_GetDiffParams \<Rightarrow> (goerr, GetDiffResponseObject) result" where
  "ssi_GetDiff s params =
     (let q = \<lparr>DiffQuery_Mode = oa_GetDiffParams_Mode params,
               DiffQuery_Left = opt_val (oa_GetDiffParams_Left params),
               DiffQuery_Right = opt_val (oa_GetDiffParams_Right params)\<rparr>
      in case rm_GetDiff (sv_rm s) q of Inl err \<Rightarrow> Inl err | Inr d \<Rightarrow> Inr (GetDiff200JSONResponse d))"

definition ssi_GetEnvironments :: "Server \<Rightarrow> (goerr, GetEnvironmentsResponseObject) result" where
  "ssi_GetEnvironments s =
     (case rm_ListEnvironments (sv_rm s) of Inl err \<Rightarrow> Inl err | Inr es \<Rightarrow> Inr (GetEnvironments200JSONResponse es))"

definition ssi_GetPromotions :: "Server \<Rightarrow> oa_GetPromotionsParams \<Rightarrow> (goerr, GetPromotionsResponseObject) result" where
  "ssi_GetPromotions s params =
     (let state = opt_val (oa_GetPromotionsParams_State params)
      in case rm_ListPromotions (sv_rm s) state of Inl err \<Rightarrow> Inl err | Inr ps \<Rightarrow> Inr (GetPromotions200JSONResponse ps))"

definition ssi_GetPromotionsID :: "Server \<Rightarrow> string \<Rightarrow> (goerr, GetPromotionsIDResponseObject) result" where
  "ssi_GetPromotionsID s i =
     (case rm_GetPromotion (sv_rm s) i of Inl err \<Rightarrow> Inl err | Inr p \<Rightarrow> Inr (GetPromotionsID200JSONResponse p))"

definition ssi_GetReleases :: "Server \<Rightarrow> oa_GetReleasesParams \<Rightarrow> (goerr, GetReleasesResponseObject) result" where
  "ssi_GetReleases s params =
     (let project = opt_val (oa_GetReleasesParams_Project params)
      in case rm_ListReleases (sv_rm s) project of Inl err \<Rightarrow> Inl err | Inr rs \<Rightarrow> Inr (GetReleases200JSONResponse rs))"

definition ssi_GetTargets :: "Server \<Rightarrow> (goerr, GetTargetsResponseObject) result" where
  "ssi_GetTargets s =
     (case rm_ListTargets (sv_rm s) of Inl err \<Rightarrow> Inl err | Inr ts \<Rightarrow> Inr (GetTargets200JSONResponse ts))"

definition ssi_GetTargetsNameDrift :: "Server \<Rightarrow> string \<Rightarrow> (goerr, GetTargetsNameDriftResponseObject) result" where
  "ssi_GetTargetsNameDrift s name =
     (case rm_GetTargetDrift (sv_rm s) name of Inl err \<Rightarrow> Inl err | Inr d \<Rightarrow> Inr (GetTargetsNameDrift200JSONResponse d))"

definition ssi_GetTargetsNameHealth :: "Server \<Rightarrow> string \<Rightarrow> (goerr, GetTargetsNameHealthResponseObject) result" where
  "ssi_GetTargetsNameHealth s name =
     (case rm_GetTargetHealth (sv_rm s) name of Inl err \<Rightarrow> Inl err | Inr hs \<Rightarrow> Inr (GetTargetsNameHealth200JSONResponse hs))"

definition ssi_PostPromotions ::
  "Server \<Rightarrow> oa_PostPromotionsParams \<Rightarrow> oa_PromotionRequest \<Rightarrow> (goerr, PostPromotionsResponseObject) result" where
  "ssi_PostPromotions s params body = Inl ErrNotImplemented"

definition ssi_PostPromotionsIDApprove ::
  "Server \<Rightarrow> string \<Rightarrow> oa_PostPromotionsIDApproveParams \<Rightarrow> oa_PostPromotionsIDApproveJSONBody \<Rightarrow>
   (goerr, PostPromotionsIDApproveResponseObject) result" where
  "ssi_PostPromotionsIDApprove s i params body = Inl ErrNotImplemented"

definition ssi_PostPromotionsIDCancel ::
  "Server \<Rightarrow> string \<Rightarrow> oa_PostPromotionsIDCancelParams \<Rightarrow> (goerr, PostPromotionsIDCancelResponseObject) result" where
  "ssi_PostPromotionsIDCancel s i params = Inl ErrNotImplemented"

definition ssi_PostPromotionsIDRetry ::
  "Server \<Rightarrow> string \<Rightarrow> oa_PostPromotionsIDRetryParams \<Rightarrow> (goerr, PostPromotionsIDRetryResponseObject) result" where
  "ssi_PostPromotionsIDRetry s i params = Inl ErrNotImplemented"

section \<open>The strict handlers\<close>

text \<open>
  The end every strict handler shares: an error goes to the sink; a response object is visited,
  and the error of a visit, a failed encoding, goes to the sink too.
\<close>

type_synonym 'o visitor = "encoder \<Rightarrow> 'o \<Rightarrow> World \<Rightarrow> goerr option \<times> World"

definition strict_respond ::
  "'o visitor \<Rightarrow> Server \<Rightarrow> HttpRequest \<Rightarrow> (goerr, 'o) result \<Rightarrow> World \<Rightarrow> bool \<times> World" where
  "strict_respond visit s r result wd =
     (case result of
        Inl err \<Rightarrow> onError s r err wd
      | Inr validResponse \<Rightarrow>
          (case visit (rt_Encode (sv_Runtime s)) validResponse wd of
             (Some err, wd) \<Rightarrow> onError s r err wd
           | (None, wd) \<Rightarrow> (False, wd)))"

definition sh_GetApplications :: "Server \<Rightarrow> oa_GetApplicationsParams \<Rightarrow> http_handler" where
  "sh_GetApplications s params r wd =
     strict_respond VisitGetApplicationsResponse s r (authzMiddleware s (\<lambda>r. ssi_GetApplications s params) ''GetApplications'' r) wd"

definition sh_GetApplicationsName :: "Server \<Rightarrow> string \<Rightarrow> http_handler" where
  "sh_GetApplicationsName s v r wd =
     strict_respond VisitGetApplicationsNameResponse s r (authzMiddleware s (\<lambda>r. ssi_GetApplicationsName s v) ''GetApplicationsName'' r) wd"

definition sh_GetApplicationsNameMatrix :: "Server \<Rightarrow> string \<Rightarrow> http_handler" where
  "sh_GetApplicationsNameMatrix s v r wd =
     strict_respond VisitGetApplicationsNameMatrixResponse s r (authzMiddleware s (\<lambda>r. ssi_GetApplicationsNameMatrix s v) ''GetApplicationsNameMatrix'' r) wd"

definition sh_GetApplicationsNamePromotions :: "Server \<Rightarrow> string \<Rightarrow> http_handler" where
  "sh_GetApplicationsNamePromotions s v r wd =
     strict_respond VisitGetApplicationsNamePromotionsResponse s r (authzMiddleware s (\<lambda>r. ssi_GetApplicationsNamePromotions s v) ''GetApplicationsNamePromotions'' r) wd"

definition sh_GetApplicationsNameReleases :: "Server \<Rightarrow> string \<Rightarrow> http_handler" where
  "sh_GetApplicationsNameReleases s v r wd =
     strict_respond VisitGetApplicationsNameReleasesResponse s r (authzMiddleware s (\<lambda>r. ssi_GetApplicationsNameReleases s v) ''GetApplicationsNameReleases'' r) wd"

definition sh_GetAudit :: "Server \<Rightarrow> oa_GetAuditParams \<Rightarrow> http_handler" where
  "sh_GetAudit s params r wd =
     strict_respond VisitGetAuditResponse s r (authzMiddleware s (\<lambda>r. ssi_GetAudit s params) ''GetAudit'' r) wd"

definition sh_GetDiff :: "Server \<Rightarrow> oa_GetDiffParams \<Rightarrow> http_handler" where
  "sh_GetDiff s params r wd =
     strict_respond VisitGetDiffResponse s r (authzMiddleware s (\<lambda>r. ssi_GetDiff s params) ''GetDiff'' r) wd"

definition sh_GetEnvironments :: "Server \<Rightarrow> http_handler" where
  "sh_GetEnvironments s r wd =
     strict_respond VisitGetEnvironmentsResponse s r (authzMiddleware s (\<lambda>r. ssi_GetEnvironments s) ''GetEnvironments'' r) wd"

definition sh_GetPromotions :: "Server \<Rightarrow> oa_GetPromotionsParams \<Rightarrow> http_handler" where
  "sh_GetPromotions s params r wd =
     strict_respond VisitGetPromotionsResponse s r (authzMiddleware s (\<lambda>r. ssi_GetPromotions s params) ''GetPromotions'' r) wd"

definition sh_GetPromotionsID :: "Server \<Rightarrow> string \<Rightarrow> http_handler" where
  "sh_GetPromotionsID s v r wd =
     strict_respond VisitGetPromotionsIDResponse s r (authzMiddleware s (\<lambda>r. ssi_GetPromotionsID s v) ''GetPromotionsID'' r) wd"

definition sh_GetReleases :: "Server \<Rightarrow> oa_GetReleasesParams \<Rightarrow> http_handler" where
  "sh_GetReleases s params r wd =
     strict_respond VisitGetReleasesResponse s r (authzMiddleware s (\<lambda>r. ssi_GetReleases s params) ''GetReleases'' r) wd"

definition sh_GetTargets :: "Server \<Rightarrow> http_handler" where
  "sh_GetTargets s r wd =
     strict_respond VisitGetTargetsResponse s r (authzMiddleware s (\<lambda>r. ssi_GetTargets s) ''GetTargets'' r) wd"

definition sh_GetTargetsNameDrift :: "Server \<Rightarrow> string \<Rightarrow> http_handler" where
  "sh_GetTargetsNameDrift s v r wd =
     strict_respond VisitGetTargetsNameDriftResponse s r (authzMiddleware s (\<lambda>r. ssi_GetTargetsNameDrift s v) ''GetTargetsNameDrift'' r) wd"

definition sh_GetTargetsNameHealth :: "Server \<Rightarrow> string \<Rightarrow> http_handler" where
  "sh_GetTargetsNameHealth s v r wd =
     strict_respond VisitGetTargetsNameHealthResponse s r (authzMiddleware s (\<lambda>r. ssi_GetTargetsNameHealth s v) ''GetTargetsNameHealth'' r) wd"

definition sh_PostPromotions :: "Server \<Rightarrow> oa_PostPromotionsParams \<Rightarrow> http_handler" where
  "sh_PostPromotions s params r wd =
     (case rt_DecodePromotionRequest (sv_Runtime s) (Req_Body r) of
        Inl err \<Rightarrow> onError s r (Wrapped (''can'' @ [CHR 0x27] @ ''t decode JSON body'') err) wd
      | Inr body \<Rightarrow> strict_respond VisitPostPromotionsResponse s r (authzMiddleware s (\<lambda>r. ssi_PostPromotions s params body) ''PostPromotions'' r) wd)"

definition sh_PostPromotionsIDApprove :: "Server \<Rightarrow> string \<Rightarrow> oa_PostPromotionsIDApproveParams \<Rightarrow> http_handler" where
  "sh_PostPromotionsIDApprove s v params r wd =
     (case rt_DecodeApproveBody (sv_Runtime s) (Req_Body r) of
        Inl err \<Rightarrow> onError s r (Wrapped (''can'' @ [CHR 0x27] @ ''t decode JSON body'') err) wd
      | Inr body \<Rightarrow> strict_respond VisitPostPromotionsIDApproveResponse s r (authzMiddleware s (\<lambda>r. ssi_PostPromotionsIDApprove s v params body) ''PostPromotionsIDApprove'' r) wd)"

definition sh_PostPromotionsIDCancel :: "Server \<Rightarrow> string \<Rightarrow> oa_PostPromotionsIDCancelParams \<Rightarrow> http_handler" where
  "sh_PostPromotionsIDCancel s v params r wd =
     strict_respond VisitPostPromotionsIDCancelResponse s r (authzMiddleware s (\<lambda>r. ssi_PostPromotionsIDCancel s v params) ''PostPromotionsIDCancel'' r) wd"

definition sh_PostPromotionsIDRetry :: "Server \<Rightarrow> string \<Rightarrow> oa_PostPromotionsIDRetryParams \<Rightarrow> http_handler" where
  "sh_PostPromotionsIDRetry s v params r wd =
     strict_respond VisitPostPromotionsIDRetryResponse s r (authzMiddleware s (\<lambda>r. ssi_PostPromotionsIDRetry s v params) ''PostPromotionsIDRetry'' r) wd"

section \<open>Parameter binding\<close>

definition bind_query ::
  "'v query_binder \<Rightarrow> Server \<Rightarrow> HttpRequest \<Rightarrow> bool \<Rightarrow> string \<Rightarrow> ('v option \<Rightarrow> World \<Rightarrow> bool \<times> World) \<Rightarrow>
   World \<Rightarrow> bool \<times> World" where
  "bind_query binder s r mandatory name k wd =
     (case binder mandatory name (Req_Query r) of
        Inl e \<Rightarrow> if be_required e then onError s r (RequiredParamError name) wd
                 else onError s r (InvalidParamFormatError name (be_err e)) wd
      | Inr v \<Rightarrow> k v wd)"

definition bind_path ::
  "Server \<Rightarrow> HttpRequest \<Rightarrow> string \<Rightarrow> string \<Rightarrow> (string \<Rightarrow> World \<Rightarrow> bool \<times> World) \<Rightarrow> World \<Rightarrow> bool \<times> World" where
  "bind_path s r name raw k wd =
     (case rt_BindStyled (sv_Runtime s) name raw of
        Inl err \<Rightarrow> onError s r (InvalidParamFormatError name err) wd
      | Inr v \<Rightarrow> k v wd)"

definition bind_idempotency_key ::
  "Server \<Rightarrow> HttpRequest \<Rightarrow> (string option \<Rightarrow> World \<Rightarrow> bool \<times> World) \<Rightarrow> World \<Rightarrow> bool \<times> World" where
  "bind_idempotency_key s r k wd =
     (case map_of (Req_Header r) ''Idempotency-Key'' of
        None \<Rightarrow> k None wd
      | Some vs \<Rightarrow>
          if length vs \<noteq> 1
          then onError s r (TooManyValuesForParamError ''Idempotency-Key'' (int (length vs))) wd
          else (case rt_BindStyled (sv_Runtime s) ''Idempotency-Key'' (hd vs) of
                  Inl err \<Rightarrow> onError s r (InvalidParamFormatError ''Idempotency-Key'' err) wd
                | Inr v \<Rightarrow> k (Some v) wd))"

definition siw_GetApplications :: "Server \<Rightarrow> http_handler" where
  "siw_GetApplications s r =
     bind_query (rt_BindQueryString (sv_Runtime s)) s r False ''project'' (\<lambda>p_project.
       bind_query (rt_BindQueryString (sv_Runtime s)) s r False ''env'' (\<lambda>p_env.
       bind_query (rt_BindQueryString (sv_Runtime s)) s r False ''region'' (\<lambda>p_region.
       bind_query (rt_BindQueryString (sv_Runtime s)) s r False ''q'' (\<lambda>p_q.
       sh_GetApplications s \<lparr>oa_GetApplicationsParams_Project = p_project, oa_GetApplicationsParams_Env = p_env, oa_GetApplicationsParams_Region = p_region, oa_GetApplicationsParams_Q = p_q\<rparr> r))))"

definition siw_GetApplicationsName :: "Server \<Rightarrow> string \<Rightarrow> http_handler" where
  "siw_GetApplicationsName s seg r = bind_path s r ''name'' seg (\<lambda>v. sh_GetApplicationsName s v r)"

definition siw_GetApplicationsNameMatrix :: "Server \<Rightarrow> string \<Rightarrow> http_handler" where
  "siw_GetApplicationsNameMatrix s seg r = bind_path s r ''name'' seg (\<lambda>v. sh_GetApplicationsNameMatrix s v r)"

definition siw_GetApplicationsNamePromotions :: "Server \<Rightarrow> string \<Rightarrow> http_handler" where
  "siw_GetApplicationsNamePromotions s seg r = bind_path s r ''name'' seg (\<lambda>v. sh_GetApplicationsNamePromotions s v r)"

definition siw_GetApplicationsNameReleases :: "Server \<Rightarrow> string \<Rightarrow> http_handler" where
  "siw_GetApplicationsNameReleases s seg r = bind_path s r ''name'' seg (\<lambda>v. sh_GetApplicationsNameReleases s v r)"

definition siw_GetAudit :: "Server \<Rightarrow> http_handler" where
  "siw_GetAudit s r =
     bind_query (rt_BindQueryString (sv_Runtime s)) s r False ''resource'' (\<lambda>p_resource.
       bind_query (rt_BindQueryString (sv_Runtime s)) s r False ''actor'' (\<lambda>p_actor.
       bind_query (rt_BindQueryString (sv_Runtime s)) s r False ''verb'' (\<lambda>p_verb.
       bind_query (rt_BindQueryTime (sv_Runtime s)) s r False ''from'' (\<lambda>p_from.
       bind_query (rt_BindQueryTime (sv_Runtime s)) s r False ''to'' (\<lambda>p_to.
       bind_query (rt_BindQueryInt (sv_Runtime s)) s r False ''limit'' (\<lambda>p_limit.
       sh_GetAudit s \<lparr>oa_GetAuditParams_Resource = p_resource, oa_GetAuditParams_Actor = p_actor, oa_GetAuditParams_Verb = p_verb, oa_GetAuditParams_From = p_from, oa_GetAuditParams_To = p_to, oa_GetAuditParams_Limit = p_limit\<rparr> r))))))"

definition siw_GetDiff :: "Server \<Rightarrow> http_handler" where
  "siw_GetDiff s r =
     bind_query (rt_BindQueryString (sv_Runtime s)) s r True ''mode'' (\<lambda>p_mode.
       bind_query (rt_BindQueryString (sv_Runtime s)) s r False ''left'' (\<lambda>p_left.
       bind_query (rt_BindQueryString (sv_Runtime s)) s r False ''right'' (\<lambda>p_right.
       sh_GetDiff s \<lparr>oa_GetDiffParams_Mode = (case p_mode of None \<Rightarrow> [] | Some v \<Rightarrow> v), oa_GetDiffParams_Left = p_left, oa_GetDiffParams_Right = p_right\<rparr> r)))"

definition siw_GetEnvironments :: "Server \<Rightarrow> http_handler" where
  "siw_GetEnvironments s r = sh_GetEnvironments s r"

definition siw_GetPromotions :: "Server \<Rightarrow> http_handler" where
  "siw_GetPromotions s r =
     bind_query (rt_BindQueryString (sv_Runtime s)) s r False ''state'' (\<lambda>p_state.
       sh_GetPromotions s \<lparr>oa_GetPromotionsParams_State = p_state\<rparr> r)"

definition siw_GetPromotionsID :: "Server \<Rightarrow> string \<Rightarrow> http_handler" where
  "siw_GetPromotionsID s seg r = bind_path s r ''id'' seg (\<lambda>v. sh_GetPromotionsID s v r)"

definition siw_GetReleases :: "Server \<Rightarrow> http_handler" where
  "siw_GetReleases s r =
     bind_query (rt_BindQueryString (sv_Runtime s)) s r False ''project'' (\<lambda>p_project.
       sh_GetReleases s \<lparr>oa_GetReleasesParams_Project = p_project\<rparr> r)"

definition siw_GetTargets :: "Server \<Rightarrow> http_handler" where
  "siw_GetTargets s r = sh_GetTargets s r"

definition siw_GetTargetsNameDrift :: "Server \<Rightarrow> string \<Rightarrow> http_handler" where
  "siw_GetTargetsNameDrift s seg r = bind_path s r ''name'' seg (\<lambda>v. sh_GetTargetsNameDrift s v r)"

definition siw_GetTargetsNameHealth :: "Server \<Rightarrow> string \<Rightarrow> http_handler" where
  "siw_GetTargetsNameHealth s seg r = bind_path s r ''name'' seg (\<lambda>v. sh_GetTargetsNameHealth s v r)"

definition siw_PostPromotions :: "Server \<Rightarrow> http_handler" where
  "siw_PostPromotions s r = bind_idempotency_key s r (\<lambda>key. sh_PostPromotions s \<lparr>oa_PostPromotionsParams_IdempotencyKey = key\<rparr> r)"

definition siw_PostPromotionsIDApprove :: "Server \<Rightarrow> string \<Rightarrow> http_handler" where
  "siw_PostPromotionsIDApprove s seg r = bind_path s r ''id'' seg (\<lambda>v. bind_idempotency_key s r (\<lambda>key. sh_PostPromotionsIDApprove s v \<lparr>oa_PostPromotionsIDApproveParams_IdempotencyKey = key\<rparr> r))"

definition siw_PostPromotionsIDCancel :: "Server \<Rightarrow> string \<Rightarrow> http_handler" where
  "siw_PostPromotionsIDCancel s seg r = bind_path s r ''id'' seg (\<lambda>v. bind_idempotency_key s r (\<lambda>key. sh_PostPromotionsIDCancel s v \<lparr>oa_PostPromotionsIDCancelParams_IdempotencyKey = key\<rparr> r))"

definition siw_PostPromotionsIDRetry :: "Server \<Rightarrow> string \<Rightarrow> http_handler" where
  "siw_PostPromotionsIDRetry s seg r = bind_path s r ''id'' seg (\<lambda>v. bind_idempotency_key s r (\<lambda>key. sh_PostPromotionsIDRetry s v \<lparr>oa_PostPromotionsIDRetryParams_IdempotencyKey = key\<rparr> r))"

section \<open>Routing\<close>

definition handleSpec :: "Server \<Rightarrow> http_handler" where
  "handleSpec s r wd =
     (False, case rt_GetSpec (sv_Runtime s) of
        Inl _ \<Rightarrow> writeProblemStatus 500 ''degraded'' ''Internal error'' ''internal error'' wd
      | Inr out \<Rightarrow> Write (BodyText out) (WriteHeader 200 (SetHeader ''Content-Type'' ''application/yaml'' wd)))"

definition handleOK :: http_handler where
  "handleOK r wd =
     (False, Write (BodyText ''ok'') (WriteHeader 200 (SetHeader ''Content-Type'' ''text/plain; charset=utf-8'' wd)))"

text \<open>
  A pattern is a list of segments, \<^const>\<open>None\<close> for a wildcard; a match gives the values of
  the wildcards.  No two patterns of the table overlap (see \<open>routes_unambiguous\<close>), so the
  first match is the one \<^verbatim>\<open>ServeMux\<close> takes.
\<close>

fun pattern_match :: "string option list \<Rightarrow> string list \<Rightarrow> string list option" where
  "pattern_match [] [] = Some []"
| "pattern_match (Some lit # ps) (seg # segs) = (if lit = seg then pattern_match ps segs else None)"
| "pattern_match (None # ps) (seg # segs) =
     (if seg = [] then None else map_option (\<lambda>vs. seg # vs) (pattern_match ps segs))"
| "pattern_match _ _ = None"

type_synonym route = "string \<times> string option list \<times> (Server \<Rightarrow> string list \<Rightarrow> http_handler)"

definition api_path :: "string option list \<Rightarrow> string option list" where
  "api_path ps = [Some ''api'', Some ''v1''] @ ps"

definition api_routes :: "route list" where
  "api_routes =
     [(''GET'', api_path [Some ''applications''], \<lambda>s vs. siw_GetApplications s),
      (''GET'', api_path [Some ''applications'', None], \<lambda>s vs. siw_GetApplicationsName s (hd vs)),
      (''GET'', api_path [Some ''applications'', None, Some ''matrix''], \<lambda>s vs. siw_GetApplicationsNameMatrix s (hd vs)),
      (''GET'', api_path [Some ''applications'', None, Some ''promotions''], \<lambda>s vs. siw_GetApplicationsNamePromotions s (hd vs)),
      (''GET'', api_path [Some ''applications'', None, Some ''releases''], \<lambda>s vs. siw_GetApplicationsNameReleases s (hd vs)),
      (''GET'', api_path [Some ''audit''], \<lambda>s vs. siw_GetAudit s),
      (''GET'', api_path [Some ''diff''], \<lambda>s vs. siw_GetDiff s),
      (''GET'', api_path [Some ''environments''], \<lambda>s vs. siw_GetEnvironments s),
      (''GET'', api_path [Some ''promotions''], \<lambda>s vs. siw_GetPromotions s),
      (''POST'', api_path [Some ''promotions''], \<lambda>s vs. siw_PostPromotions s),
      (''GET'', api_path [Some ''promotions'', None], \<lambda>s vs. siw_GetPromotionsID s (hd vs)),
      (''POST'', api_path [Some ''promotions'', None, Some ''approve''], \<lambda>s vs. siw_PostPromotionsIDApprove s (hd vs)),
      (''POST'', api_path [Some ''promotions'', None, Some ''cancel''], \<lambda>s vs. siw_PostPromotionsIDCancel s (hd vs)),
      (''POST'', api_path [Some ''promotions'', None, Some ''retry''], \<lambda>s vs. siw_PostPromotionsIDRetry s (hd vs)),
      (''GET'', api_path [Some ''releases''], \<lambda>s vs. siw_GetReleases s),
      (''GET'', api_path [Some ''targets''], \<lambda>s vs. siw_GetTargets s),
      (''GET'', api_path [Some ''targets'', None, Some ''drift''], \<lambda>s vs. siw_GetTargetsNameDrift s (hd vs)),
      (''GET'', api_path [Some ''targets'', None, Some ''health''], \<lambda>s vs. siw_GetTargetsNameHealth s (hd vs))]"

definition routes :: "route list" where
  "routes = api_routes @
     [(''GET'', api_path [Some ''openapi.yaml''], \<lambda>s vs. handleSpec s),
      (''GET'', [Some ''healthz''], \<lambda>s vs. handleOK),
      (''GET'', [Some ''readyz''], \<lambda>s vs. handleOK)]"

text \<open>A GET pattern also takes HEAD.\<close>

definition methods_of :: "string \<Rightarrow> string list" where
  "methods_of m = (if m = ''GET'' then [''GET'', ''HEAD''] else [m])"

definition route_matches :: "HttpRequest \<Rightarrow> route \<Rightarrow> bool" where
  "route_matches r = (\<lambda>(m, ps, h). Req_Method r \<in> set (methods_of m) \<and> pattern_match ps (Req_Segments r) \<noteq> None)"

definition http_Error :: "string \<Rightarrow> int \<Rightarrow> World \<Rightarrow> World" where
  "http_Error msg code wd =
     Write (BodyText (msg @ [CHR 0x0A])) (WriteHeader code
       (SetHeader ''X-Content-Type-Options'' ''nosniff'' (SetHeader ''Content-Type'' ''text/plain; charset=utf-8'' wd)))"

definition mux_dispatch :: "Server \<Rightarrow> http_handler" where
  "mux_dispatch s r wd =
     (case find (route_matches r) routes of
        Some (m, ps, h) \<Rightarrow> h s (the (pattern_match ps (Req_Segments r))) r wd
      | None \<Rightarrow>
          let allowed = concat (map (\<lambda>(m, ps, h). if pattern_match ps (Req_Segments r) \<noteq> None then methods_of m else []) routes)
          in if allowed \<noteq> []
             then (False, http_Error ''Method Not Allowed'' 405 (SetHeader ''Allow'' (join '', '' (sort allowed)) wd))
             else (False, http_Error ''404 page not found'' 404 wd))"

text \<open>A path that is not clean is redirected whether or not a pattern matches it.\<close>

definition mux :: "Server \<Rightarrow> http_handler" where
  "mux s = ServeMux (rt_RedirectStatus (sv_Runtime s)) (mux_dispatch s)"

section \<open>Middlewares\<close>

definition newRequestID :: "8 word list option \<Rightarrow> string" where
  "newRequestID rand_read =
     (case rand_read of
        None \<Rightarrow> ''unknown''
      | Some b \<Rightarrow> concat (map (\<lambda>w. [hex_digit (unat w div 16), hex_digit (unat w mod 16)]) b))"

definition requestIDMiddleware :: "8 word list option \<Rightarrow> http_handler \<Rightarrow> http_handler" where
  "requestIDMiddleware rand_read next r wd =
     (let i0 = header_get r ''X-Request-Id'';
          i = (if i0 = [] then newRequestID rand_read else i0)
      in next (r\<lparr>Req_ctxRequestID := Some i\<rparr>) (SetHeader ''X-Request-Id'' i wd))"

text \<open>
  The access line has verbosity 1, which the logger of the process, a development one, prints.
\<close>

definition loggingMiddleware :: "http_handler \<Rightarrow> http_handler" where
  "loggingMiddleware next r wd =
     (let (panicked, wd') = next r (wd\<lparr>wd_rec := Some \<lparr>rec_status = 200, rec_wroteHeader = False\<rparr>\<rparr>) in
      if panicked then (True, wd'\<lparr>wd_rec := wd_rec wd\<rparr>)
      else (let status = (case wd_rec wd' of None \<Rightarrow> 200 | Some rc \<Rightarrow> rec_status rc)
            in (False, (Log (AccessLog (Req_Method r) (Req_Path r) status (requestIDFromContext r)) wd')
                          \<lparr>wd_rec := wd_rec wd\<rparr>)))"

definition recoverMiddleware :: "http_handler \<Rightarrow> http_handler" where
  "recoverMiddleware next r wd =
     (let (panicked, wd') = next r wd in
      if \<not> panicked then (False, wd')
      else (False, writeProblemStatus 500 ''degraded'' ''Internal error'' ''internal error''
              (Log (PanicLog ''recovered from panic'' (Req_Path r) (requestIDFromContext r)) wd')))"

definition chain_middlewares :: "AuthConfig \<Rightarrow> 8 word list option \<Rightarrow> http_handler \<Rightarrow> http_handler" where
  "chain_middlewares cfg rand_read h =
     requestIDMiddleware rand_read (loggingMiddleware (recoverMiddleware (auth_Middleware cfg h)))"

definition Server_Handler :: "Server \<Rightarrow> 8 word list option \<Rightarrow> http_handler" where
  "Server_Handler s rand_read = chain_middlewares (sv_authCfg s) rand_read (mux s)"

section \<open>Handlers only step\<close>

definition stepping :: "(World \<Rightarrow> bool \<times> World) \<Rightarrow> bool" where
  "stepping h \<longleftrightarrow> (\<forall>wd. \<not> fst (h wd) \<and> http_steps wd (snd (h wd)))"

lemma writeProblem_steps: "http_steps wd wd' \<Longrightarrow> http_steps wd (writeProblem p wd')"
  by (auto simp: writeProblem_def)

lemma stepping_onError: "stepping (onError s r err)"
  by (auto simp: stepping_def onError_def Let_def intro!: writeProblem_steps)

lemma visit_steps: "visits visit \<Longrightarrow> http_steps wd (snd (visit enc x wd))"
proof -
  assume "visits visit"
  then obtain p ct code where "visit enc x wd = write_buffered enc p ct code wd"
    unfolding visits_def by blast
  then show ?thesis by (auto simp: write_buffered_def split: sum.splits)
qed

lemma onError_steps: "\<not> fst (onError s r err wd) \<and> http_steps wd (snd (onError s r err wd))"
  using stepping_onError by (simp add: stepping_def)

lemma strict_respond_steps:
  assumes "visits visit"
  shows "\<not> fst (strict_respond visit s r res wd) \<and> http_steps wd (snd (strict_respond visit s r res wd))"
proof (cases res)
  case (Inl err)
  then show ?thesis using onError_steps by (simp add: strict_respond_def)
next
  case (Inr x)
  obtain e wd' where run: "visit (rt_Encode (sv_Runtime s)) x wd = (e, wd')" by fastforce
  have "http_steps wd wd'" using visit_steps [OF assms, of wd "rt_Encode (sv_Runtime s)" x] run by simp
  then show ?thesis using Inr run onError_steps
    by (cases e) (auto simp: strict_respond_def intro: rtranclp_trans)
qed

lemma stepping_bind_query: "(\<And>v. stepping (k v)) \<Longrightarrow> stepping (bind_query b s r req n k)"
  using stepping_onError by (auto simp: stepping_def bind_query_def split: sum.splits)

lemma stepping_bind_path: "(\<And>v. stepping (k v)) \<Longrightarrow> stepping (bind_path s r n raw k)"
  using stepping_onError by (auto simp: stepping_def bind_path_def split: sum.splits)

lemma stepping_bind_key: "(\<And>v. stepping (k v)) \<Longrightarrow> stepping (bind_idempotency_key s r k)"
  using stepping_onError by (auto simp: stepping_def bind_idempotency_key_def split: sum.splits option.splits)

lemma sh_steps:
  "stepping (sh_GetApplications s p0 r)"
  "stepping (sh_GetApplicationsName s p1 r)"
  "stepping (sh_GetApplicationsNameMatrix s p2 r)"
  "stepping (sh_GetApplicationsNamePromotions s p3 r)"
  "stepping (sh_GetApplicationsNameReleases s p4 r)"
  "stepping (sh_GetAudit s p5 r)"
  "stepping (sh_GetDiff s p6 r)"
  "stepping (sh_GetEnvironments s r)"
  "stepping (sh_GetPromotions s p8 r)"
  "stepping (sh_GetPromotionsID s p9 r)"
  "stepping (sh_GetReleases s p10 r)"
  "stepping (sh_GetTargets s r)"
  "stepping (sh_GetTargetsNameDrift s p12 r)"
  "stepping (sh_GetTargetsNameHealth s p13 r)"
  "stepping (sh_PostPromotions s params14 r)"
  "stepping (sh_PostPromotionsIDApprove s v params15 r)"
  "stepping (sh_PostPromotionsIDCancel s v params16 r)"
  "stepping (sh_PostPromotionsIDRetry s v params17 r)"
  by (simp_all add: stepping_def strict_respond_steps onError_steps sh_GetApplications_def sh_GetApplicationsName_def sh_GetApplicationsNameMatrix_def sh_GetApplicationsNamePromotions_def sh_GetApplicationsNameReleases_def sh_GetAudit_def sh_GetDiff_def sh_GetEnvironments_def sh_GetPromotions_def sh_GetPromotionsID_def sh_GetReleases_def sh_GetTargets_def sh_GetTargetsNameDrift_def sh_GetTargetsNameHealth_def sh_PostPromotions_def sh_PostPromotionsIDApprove_def sh_PostPromotionsIDCancel_def sh_PostPromotionsIDRetry_def split: sum.splits)

lemma http_Error_steps: "http_steps wd wd' \<Longrightarrow> http_steps wd (http_Error msg code wd')"
  by (auto simp: http_Error_def)

lemmas siw_defs = siw_GetApplications_def siw_GetApplicationsName_def siw_GetApplicationsNameMatrix_def siw_GetApplicationsNamePromotions_def siw_GetApplicationsNameReleases_def siw_GetAudit_def siw_GetDiff_def siw_GetEnvironments_def siw_GetPromotions_def siw_GetPromotionsID_def siw_GetReleases_def siw_GetTargets_def siw_GetTargetsNameDrift_def siw_GetTargetsNameHealth_def siw_PostPromotions_def siw_PostPromotionsIDApprove_def siw_PostPromotionsIDCancel_def siw_PostPromotionsIDRetry_def
lemmas sh_defs = sh_GetApplications_def sh_GetApplicationsName_def sh_GetApplicationsNameMatrix_def sh_GetApplicationsNamePromotions_def sh_GetApplicationsNameReleases_def sh_GetAudit_def sh_GetDiff_def sh_GetEnvironments_def sh_GetPromotions_def sh_GetPromotionsID_def sh_GetReleases_def sh_GetTargets_def sh_GetTargetsNameDrift_def sh_GetTargetsNameHealth_def sh_PostPromotions_def sh_PostPromotionsIDApprove_def sh_PostPromotionsIDCancel_def sh_PostPromotionsIDRetry_def

lemma route_handlers_step:
  assumes "(m, ps, h) \<in> set routes"
  shows "stepping (h s vs r)"
proof -
  have ok: "stepping (handleOK r)" "stepping (handleSpec s r)"
    by (auto simp: stepping_def handleOK_def handleSpec_def writeProblemStatus_def intro!: writeProblem_steps
        split: sum.splits)
  show ?thesis
    using assms unfolding routes_def api_routes_def
    by (auto simp: ok siw_defs intro!: stepping_bind_query stepping_bind_path stepping_bind_key sh_steps)
qed

lemma mux_dispatch_steps: "stepping (mux_dispatch s r)"
proof (cases "find (route_matches r) routes")
  case None
  then show ?thesis
    by (auto simp: stepping_def mux_dispatch_def Let_def intro!: http_Error_steps simp del: concat_eq_Nil_conv)
next
  case (Some x)
  obtain m ps h where x: "x = (m, ps, h)" by (cases x)
  have "(m, ps, h) \<in> set routes" using find_Some_set [OF Some] x by simp
  from route_handlers_step [OF this] show ?thesis
    using Some x by (simp add: stepping_def mux_dispatch_def)
qed

lemma mux_steps: "stepping (mux s r)"
  using mux_dispatch_steps [of s r] Redirect_steps by (simp add: stepping_def mux_def ServeMux_def)

section \<open>The chain\<close>

definition steps_only :: "http_handler \<Rightarrow> bool" where
  "steps_only h \<longleftrightarrow> (\<forall>r wd. http_steps wd (snd (h r wd)))"

lemma auth_steps: "steps_only h \<Longrightarrow> steps_only (auth_Middleware cfg h)"
  by (auto simp: steps_only_def auth_Middleware_def intro: writeUnauthenticated_steps split: option.splits)

lemma recover_steps: "steps_only h \<Longrightarrow> steps_only (recoverMiddleware h)"
  unfolding steps_only_def
proof (intro allI)
  fix r wd
  assume "\<forall>r wd. http_steps wd (snd (h r wd))"
  then have "http_steps wd (snd (h r wd))" by blast
  then show "http_steps wd (snd (recoverMiddleware h r wd))"
    by (auto simp: recoverMiddleware_def Let_def writeProblemStatus_def case_prod_unfold
        intro!: writeProblem_steps)
qed

lemma recover_total: "\<not> fst (recoverMiddleware h r wd)"
  by (simp add: recoverMiddleware_def Let_def case_prod_unfold)

text \<open>
  What the two outer middlewares add to a run of the inner handler: the identifier header
  before, the access line with the status on the wire after.
\<close>

definition request_id :: "8 word list option \<Rightarrow> HttpRequest \<Rightarrow> string" where
  "request_id rand_read r =
     (let i = header_get r ''X-Request-Id'' in if i = [] then newRequestID rand_read else i)"

definition inner_world :: "8 word list option \<Rightarrow> HttpRequest \<Rightarrow> World \<Rightarrow> World" where
  "inner_world rand_read r wd =
     (SetHeader ''X-Request-Id'' (request_id rand_read r) wd)
       \<lparr>wd_rec := Some \<lparr>rec_status = 200, rec_wroteHeader = False\<rparr>\<rparr>"

lemma chain_run:
  assumes h: "steps_only h" and fresh: "w_status (wd_writer wd) = None"
    and run: "recoverMiddleware (auth_Middleware cfg h) (r\<lparr>Req_ctxRequestID := Some (request_id rand_read r)\<rparr>)
      (inner_world rand_read r wd) = (p, wd')"
  shows "chain_middlewares cfg rand_read h r wd =
    (False, wd'\<lparr>wd_rec := wd_rec wd, wd_log := wd_log wd' @
      [AccessLog (Req_Method r) (Req_Path r) (wire_status (wd_writer wd')) (request_id rand_read r)]\<rparr>)"
proof -
  have notp: "\<not> p" using recover_total run by (metis fst_conv)
  have steps: "http_steps (inner_world rand_read r wd) wd'"
    using recover_steps [OF auth_steps [OF h]] run unfolding steps_only_def by (metis snd_conv)
  have "recorded_status (inner_world rand_read r wd)"
    using fresh by (simp add: recorded_status_def inner_world_def wire_status_def SetHeader_def)
  then have rec: "recorded_status wd'" by (rule recorded_status_steps [OF steps])
  have "wd_rec wd' \<noteq> None" using rec_kept [OF steps] by (simp add: inner_world_def)
  then obtain rc where rc: "wd_rec wd' = Some rc" "rec_status rc = wire_status (wd_writer wd')"
    using rec by (auto simp: recorded_status_def)
  have chain: "chain_middlewares cfg rand_read h r wd =
      loggingMiddleware (recoverMiddleware (auth_Middleware cfg h))
        (r\<lparr>Req_ctxRequestID := Some (request_id rand_read r)\<rparr>) (SetHeader ''X-Request-Id'' (request_id rand_read r) wd)"
    by (simp add: chain_middlewares_def requestIDMiddleware_def request_id_def Let_def)
  show ?thesis
    unfolding chain loggingMiddleware_def
    using run notp rc
    by (simp add: inner_world_def Let_def Log_def SetHeader_def requestIDFromContext_def)
qed

lemma steps_only_mux: "steps_only (mux s)"
  using mux_steps by (auto simp: steps_only_def stepping_def)

section \<open>Denied requests\<close>

lemma onError_any_server: "onError (s\<lparr>sv_rm := rm\<rparr>) = onError s"
  by (simp add: fun_eq_iff onError_def)

lemma denied_respond:
  assumes "\<not> sv_authz s r (fst (authzForOperation op)) (snd (authzForOperation op)) []"
  shows "strict_respond visit s r (authzMiddleware s f op r) wd =
    onError s r (ForbiddenError (fst (authzForOperation op)) (snd (authzForOperation op))) wd"
  using assms by (simp add: strict_respond_def authzMiddleware_def case_prod_unfold Let_def)

lemma routes_denied:
  assumes "(m, ps, h) \<in> set routes" and "\<And>r v res sc. \<not> sv_authz s r v res sc"
  shows "h (s\<lparr>sv_rm := rm\<rparr>) vs r wd = h s vs r wd"
  using assms(1) unfolding routes_def api_routes_def
  by (auto simp: siw_defs sh_defs bind_query_def bind_path_def bind_idempotency_key_def onError_any_server
      authzMiddleware_def strict_respond_def handleSpec_def assms(2) case_prod_unfold Let_def
      split: sum.splits option.splits)

text \<open>A response whose status has not been sent takes the next one.\<close>

definition unsent :: "World \<Rightarrow> bool" where
  "unsent wd \<longleftrightarrow> w_status (wd_writer wd) = None \<and>
     (case wd_rec wd of None \<Rightarrow> True | Some rc \<Rightarrow> \<not> rec_wroteHeader rc)"

lemma unsent_worlds [simp]:
  "unsent new_world" "unsent (inner_world rand_read r new_world)"
  "unsent (SetHeader k v wd) = unsent wd" "unsent (Log l wd) = unsent wd"
  by (simp_all add: unsent_def new_world_def inner_world_def SetHeader_def Log_def)

lemma wire_status_simps [simp]:
  "unsent wd \<Longrightarrow> wire_status (wd_writer (WriteHeader code wd)) = code"
  "unsent wd \<Longrightarrow> wire_status (wd_writer (Write b (WriteHeader code wd))) = code"
  by (auto simp: unsent_def wire_status_def WriteHeader_def Write_def net_WriteHeader_def net_Write_def Let_def
      split: option.splits)

lemma onError_status:
  "unsent wd \<Longrightarrow> wire_status (wd_writer (snd (onError s r err wd))) = oa_Problem_Status (classify err)"
  by (simp add: onError_def writeProblem_def Let_def)

lemma Redirect_status:
  "unsent wd \<Longrightarrow> wire_status (wd_writer (snd (Redirect url code r wd))) = code"
  by (simp add: Redirect_def Let_def)

lemma http_Error_status:
  "unsent wd \<Longrightarrow> wire_status (wd_writer (http_Error msg code wd)) = code"
  by (simp add: http_Error_def)

lemma fresh_problem:
  "wd_writer (snd (onError s r err new_world)) =
     \<lparr>w_header = [(''Content-Type'', ''application/problem+json'')],
      w_status = Some (oa_Problem_Status (classify err)),
      w_sent = [(''Content-Type'', ''application/problem+json'')],
      w_body = [BodyProblem ((classify err)\<lparr>oa_Problem_Instance := Some (Req_Path r)\<rparr>)]\<rparr>"
  by (simp add: onError_def Let_def writeProblem_def Write_def WriteHeader_def SetHeader_def Log_def
      new_world_def net_Write_def net_WriteHeader_def)

lemma classify_simps:
  "oa_Problem_Status (classify (ForbiddenError v res)) = 403"
  "oa_Problem_Verb (classify (ForbiddenError v res)) = strPtrIfSet v"
  "oa_Problem_Resource (classify (ForbiddenError v res)) = strPtrIfSet res"
  "oa_Problem_Status (classify ErrNotImplemented) = 501"
  "oa_Problem_Status (classify (TooManyValuesForParamError p n)) = 400"
  by (simp_all add: classify_def errors_is_def errors_as_def isParamError_def as_forbidden_def problem_def)

lemma classify_status:
  "oa_Problem_Status (classify err) \<in> {400, 403, 404, 500, 501}"
  by (simp add: classify_def problem_def split: option.splits)

section \<open>Write requests\<close>

lemma post_routes:
  assumes "(m, ps, h) \<in> set routes" and "''POST'' \<in> set (methods_of m)"
  shows "\<exists>err. h s vs r wd = onError s r err wd \<and> h (s\<lparr>sv_rm := rm\<rparr>) vs r wd = onError s r err wd"
  using assms unfolding routes_def api_routes_def
  by (auto simp: methods_of_def siw_defs sh_defs bind_path_def bind_idempotency_key_def onError_any_server
      ssi_PostPromotions_def ssi_PostPromotionsIDApprove_def ssi_PostPromotionsIDCancel_def
      ssi_PostPromotionsIDRetry_def authzMiddleware_def strict_respond_def case_prod_unfold Let_def
      split: sum.splits option.splits)

lemma post_dispatch:
  assumes "Req_Method r = ''POST''" "unsent wd"
  shows "wire_status (wd_writer (snd (mux_dispatch s r wd))) \<in> {400, 403, 404, 405, 500, 501} \<and>
    mux_dispatch (s\<lparr>sv_rm := rm\<rparr>) r wd = mux_dispatch s r wd"
proof (cases "find (route_matches r) routes")
  case None
  then show ?thesis using assms(2)
    by (simp add: mux_dispatch_def Let_def http_Error_status del: concat_eq_Nil_conv)
next
  case (Some x)
  obtain m ps h where x: "x = (m, ps, h)" by (cases x)
  have mem: "(m, ps, h) \<in> set routes" and post: "''POST'' \<in> set (methods_of m)"
    using find_Some_set [OF Some] x assms(1) by (auto simp: route_matches_def)
  obtain err where "h s (the (pattern_match ps (Req_Segments r))) r wd = onError s r err wd"
    "h (s\<lparr>sv_rm := rm\<rparr>) (the (pattern_match ps (Req_Segments r))) r wd = onError s r err wd"
    using post_routes [OF mem post] by blast
  then have "mux_dispatch s r wd = onError s r err wd" "mux_dispatch (s\<lparr>sv_rm := rm\<rparr>) r wd = onError s r err wd"
    using Some x by (simp_all add: mux_dispatch_def)
  then show ?thesis using classify_status [of err] onError_status [OF assms(2)] by auto
qed

lemma post_mux:
  assumes "Req_Method r = ''POST''" "unsent wd"
  shows "wire_status (wd_writer (snd (mux s r wd)))
      \<in> {rt_RedirectStatus (sv_Runtime s), 400, 403, 404, 405, 500, 501} \<and>
    mux (s\<lparr>sv_rm := rm\<rparr>) r wd = mux s r wd"
  using post_dispatch [OF assms, where s = s and rm = rm] Redirect_status [OF assms(2)] by (simp add: mux_def ServeMux_def)

section \<open>Sample servers\<close>

definition sample_runtime :: Runtime where
  "sample_runtime =
     \<lparr>rt_BindQueryString = (\<lambda>req n q. case map_of q n of Some (v # _) \<Rightarrow> Inr (Some v)
         | _ \<Rightarrow> if req then Inl \<lparr>be_required = True, be_err = Opaque n\<rparr> else Inr None),
      rt_BindQueryTime = (\<lambda>_ _ _. Inr None), rt_BindQueryInt = (\<lambda>_ _ _. Inr None),
      rt_BindStyled = (\<lambda>_ v. Inr v),
      rt_DecodePromotionRequest = (\<lambda>body. Inl (Opaque ''unexpected EOF'')),
      rt_DecodeApproveBody = (\<lambda>body. Inl (Opaque ''unexpected EOF'')),
      rt_Encode = (\<lambda>_. Inr ''{}''), rt_GetSpec = Inr ''openapi: 3.0.3'', rt_RedirectStatus = 307\<rparr>"

definition deny_all :: Server where
  "deny_all =
     \<lparr>sv_rm = crd_source sample_fns sample_cluster 1, sv_authz = (\<lambda>_ _ _ _. False),
      sv_authCfg = \<lparr>AuthConfig_Required = True\<rparr>, sv_Runtime = sample_runtime\<rparr>"

definition sample_http :: "string \<Rightarrow> string list \<Rightarrow> HttpRequest" where
  "sample_http method segments =
     \<lparr>Req_Method = method, Req_Path = ''/'' @ join ''/'' segments,
      Req_EscapedPath = ''/'' @ join ''/'' segments, Req_Segments = segments, Req_Header = [],
      Req_RawQuery = [], Req_Query = [], Req_Body = ''{'', Req_ctxRequestID = None, Req_ctxIdentity = None\<rparr>"

section \<open>Claims\<close>

text \<open>C11: Classification looks through wrapping, and hides internal causes.  Wrapping an error
  any number of times keeps its problem's type, status, verb and resource; the status is one
  of five; and a problem with status 500 is the same document whatever the error was.\<close>
theorem classification_through_wrapping:
  "(let p = classify err; q = classify (foldr Wrapped msgs err) in
      oa_Problem_Type q = oa_Problem_Type p \<and> oa_Problem_Status q = oa_Problem_Status p \<and>
      oa_Problem_Verb q = oa_Problem_Verb p \<and> oa_Problem_Resource q = oa_Problem_Resource p) \<and>
   oa_Problem_Status (classify err) \<in> {400, 403, 404, 500, 501} \<and>
   (oa_Problem_Status (classify err) = 500 \<longleftrightarrow>
      classify err = problem 500 ''degraded'' ''Internal error'' ''internal error'')"
proof (intro conjI)
  have one: "oa_Problem_Type (classify (Wrapped m e)) = oa_Problem_Type (classify e) \<and>
      oa_Problem_Status (classify (Wrapped m e)) = oa_Problem_Status (classify e) \<and>
      oa_Problem_Verb (classify (Wrapped m e)) = oa_Problem_Verb (classify e) \<and>
      oa_Problem_Resource (classify (Wrapped m e)) = oa_Problem_Resource (classify e)" for m e
  proof -
    have "isParamError (Wrapped m e) = isParamError e" "as_forbidden (Wrapped m e) = as_forbidden e"
      by (simp_all add: isParamError_def as_forbidden_def errors_as_def)
    then show ?thesis by (simp add: classify_def problem_def split: option.splits)
  qed
  show "let p = classify err; q = classify (foldr Wrapped msgs err) in
      oa_Problem_Type q = oa_Problem_Type p \<and> oa_Problem_Status q = oa_Problem_Status p \<and>
      oa_Problem_Verb q = oa_Problem_Verb p \<and> oa_Problem_Resource q = oa_Problem_Resource p"
    unfolding Let_def by (induction msgs) (simp_all add: one)
  show "oa_Problem_Status (classify err) \<in> {400, 403, 404, 500, 501}" by (rule classify_status)
  show "oa_Problem_Status (classify err) = 500 \<longleftrightarrow>
      classify err = problem 500 ''degraded'' ''Internal error'' ''internal error''"
    by (auto simp: classify_def problem_def split: option.splits)
qed

text \<open>C12: A denied caller learns nothing.  When the authorizer refuses everything, the answer to
  any request, to the last byte and log line, is the same whatever the read model holds.\<close>
theorem denied_caller_learns_nothing:
  assumes "\<And>r v res sc. \<not> sv_authz s r v res sc"
  shows "Server_Handler (s\<lparr>sv_rm := rm\<rparr>) rand_read r wd = Server_Handler s rand_read r wd"
proof -
  have "mux_dispatch (s\<lparr>sv_rm := rm\<rparr>) r wd = mux_dispatch s r wd" for r wd
  proof (cases "find (route_matches r) routes")
    case (Some x)
    obtain m ps h where x: "x = (m, ps, h)" by (cases x)
    have "(m, ps, h) \<in> set routes" using find_Some_set [OF Some] x by simp
    then show ?thesis using routes_denied [OF _ assms] Some x by (simp add: mux_dispatch_def)
  qed (simp add: mux_dispatch_def)
  then have "mux (s\<lparr>sv_rm := rm\<rparr>) = mux s" by (simp add: fun_eq_iff mux_def ServeMux_def)
  then show ?thesis by (simp add: Server_Handler_def)
qed

theorem denied_caller_learns_nothing_witness:
  "Server_Handler (deny_all\<lparr>sv_rm := crd_source sample_fns (sample_cluster\<lparr>Cluster_Applications := Inr [sample_app]\<rparr>) 1\<rparr>)
     None (sample_http ''GET'' [''api'', ''v1'', ''applications'']) new_world =
   Server_Handler deny_all None (sample_http ''GET'' [''api'', ''v1'', ''applications'']) new_world"
  by (rule denied_caller_learns_nothing) (simp add: deny_all_def)

text \<open>What a denied caller is told.  For each of the eighteen operations, a refusal is a 403
  problem that names the verb and the resource that were asked for; the handler behind it
  plays no part.\<close>
theorem denial_names_verb_and_resource:
  assumes "op \<in> {''GetApplications'', ''GetApplicationsName'', ''GetApplicationsNameMatrix'',
      ''GetApplicationsNamePromotions'', ''GetApplicationsNameReleases'', ''GetAudit'', ''GetDiff'',
      ''GetEnvironments'', ''GetPromotions'', ''PostPromotions'', ''GetPromotionsID'', ''PostPromotionsIDApprove'',
      ''PostPromotionsIDCancel'', ''PostPromotionsIDRetry'', ''GetReleases'', ''GetTargets'',
      ''GetTargetsNameDrift'', ''GetTargetsNameHealth''}"
    and "authzForOperation op = (verb, resource)" and "\<not> sv_authz s r verb resource []"
  shows "verb \<in> {''read'', ''promote'', ''approve'', ''cancel'', ''retry''} \<and>
    resource \<in> {''applications'', ''promotions'', ''releases'', ''targets'', ''environments'', ''diff'', ''audit''} \<and>
    (let w = wd_writer (snd (strict_respond visit s r (authzMiddleware s f op r) new_world)) in
       wire_status w = 403 \<and>
       (\<exists>p. w_body w = [BodyProblem p] \<and> oa_Problem_Verb p = Some verb \<and> oa_Problem_Resource p = Some resource \<and>
          oa_Problem_Instance p = Some (Req_Path r)))"
proof -
  have table: "verb \<in> {''read'', ''promote'', ''approve'', ''cancel'', ''retry''} \<and>
      resource \<in> {''applications'', ''promotions'', ''releases'', ''targets'', ''environments'', ''diff'', ''audit''}"
    using assms(1,2) unfolding authzForOperation_def resourceOf_def trim_prefix_def
    by (elim insertE emptyE) simp_all
  then have "verb \<noteq> []" "resource \<noteq> []" by auto
  then show ?thesis
    using table assms(2,3)
    by (simp add: denied_respond fresh_problem classify_simps wire_status_def strPtrIfSet_def Let_def)
qed

theorem denial_names_verb_and_resource_witness:
  "(let w = wd_writer (snd (strict_respond VisitGetTargetsNameDriftResponse deny_all (sample_http ''GET'' [])
       (authzMiddleware deny_all (\<lambda>_. Inl ErrNotImplemented) ''GetTargetsNameDrift'' (sample_http ''GET'' [])) new_world)) in
     wire_status w = 403 \<and>
     (\<exists>p. w_body w = [BodyProblem p] \<and> oa_Problem_Verb p = Some ''read'' \<and> oa_Problem_Resource p = Some ''targets'' \<and>
        oa_Problem_Instance p = Some (Req_Path (sample_http ''GET'' []))))"
  using denial_names_verb_and_resource [of "''GetTargetsNameDrift''" "''read''" "''targets''" deny_all
      "sample_http ''GET'' []" VisitGetTargetsNameDriftResponse "\<lambda>_. Inl ErrNotImplemented"]
  by (simp add: authzForOperation_def resourceOf_def trim_prefix_def deny_all_def)

text \<open>C13: The write surface is inert.  A POST request to the server, on any path, never
  succeeds: behind all the middlewares its status is that of a redirect (an unclean path), 401
  (no token, where one is required), 400, 403, 404, 405, 500 or 501; and the answer, to the last
  byte and log line, does not depend on the read model.  (Which of its two statuses, 301 or 307,
  \<^verbatim>\<open>ServeMux\<close> redirects with depends on the release of Go.)\<close>
theorem writes_are_inert:
  assumes "Req_Method r = ''POST''" and "rt_RedirectStatus (sv_Runtime s) \<in> {301, 307}"
  shows "\<exists>wd. Server_Handler s rand_read r new_world = (False, wd) \<and>
    wire_status (wd_writer wd) \<in> {301, 307, 400, 401, 403, 404, 405, 500, 501} \<and>
    Server_Handler (s\<lparr>sv_rm := rm\<rparr>) rand_read r new_world = (False, wd)"
proof -
  let ?r = "r\<lparr>Req_ctxRequestID := Some (request_id rand_read r)\<rparr>" and ?wd = "inner_world rand_read r new_world"
  have post: "Req_Method (withIdentity ?r i) = ''POST''" for i by (simp add: withIdentity_def assms(1))
  have total: "\<not> fst (mux s r' ?wd)" for r' using mux_steps [of s r'] by (simp add: stepping_def)
  let ?codes = "{301, 307, 400, 401, 403, 404, 405, 500, 501} :: int set"
  have routed: "wire_status (wd_writer (snd (mux s (withIdentity ?r i) ?wd))) \<in> ?codes"
    "mux (s\<lparr>sv_rm := rm\<rparr>) (withIdentity ?r i) ?wd = mux s (withIdentity ?r i) ?wd" for i
    using post_mux [OF post, where wd = ?wd and s = s and rm = rm, of i] assms(2) by auto
  have "(\<exists>i. \<forall>h. auth_Middleware (sv_authCfg s) h ?r ?wd = h (withIdentity ?r i) ?wd) \<or>
      (\<forall>h. auth_Middleware (sv_authCfg s) h ?r ?wd = (False, writeUnauthenticated ?wd))"
    by (auto simp: auth_Middleware_def split: option.split)
  then obtain wd' where run: "auth_Middleware (sv_authCfg s) (mux s) ?r ?wd = (False, wd')"
      "auth_Middleware (sv_authCfg s) (mux (s\<lparr>sv_rm := rm\<rparr>)) ?r ?wd = (False, wd')"
    and status: "wire_status (wd_writer wd') \<in> ?codes"
  proof (elim disjE exE, goal_cases)
    case (1 i)
    then show ?case using routed [of i] total by (metis prod.collapse)
  next
    case 2
    have "wire_status (wd_writer (writeUnauthenticated ?wd)) \<in> ?codes" by (simp add: writeUnauthenticated_def)
    then show ?case using 2 by blast
  qed
  have new: "w_status (wd_writer new_world) = None" by (simp add: new_world_def)
  have "recoverMiddleware (auth_Middleware (sv_authCfg s) (mux s)) ?r ?wd = (False, wd')"
    "recoverMiddleware (auth_Middleware (sv_authCfg s) (mux (s\<lparr>sv_rm := rm\<rparr>))) ?r ?wd = (False, wd')"
    using run by (simp_all add: recoverMiddleware_def)
  from this(1) [THEN chain_run [OF steps_only_mux new]] this(2) [THEN chain_run [OF steps_only_mux new]]
  show ?thesis using status by (simp add: Server_Handler_def)
qed

theorem writes_are_inert_witness:
  "\<exists>wd. Server_Handler deny_all None (sample_http ''POST'' [''api'', ''v1'', ''promotions'', ''p'', ''retry'']) new_world = (False, wd) \<and>
     wire_status (wd_writer wd) \<in> {301, 307, 400, 401, 403, 404, 405, 500, 501}"
  using writes_are_inert [of "sample_http ''POST'' [''api'', ''v1'', ''promotions'', ''p'', ''retry'']" deny_all None "sv_rm deny_all"]
  by (auto simp: sample_http_def deny_all_def sample_runtime_def)

text \<open>A malformed body is reported as an internal error.  A promotion request whose JSON body
  cannot be decoded is answered 500, degraded, and not 400; this happens before the
  authorization checkpoint, so it is the answer to a denied caller too.\<close>
theorem malformed_body_is_degraded:
  assumes "Req_Method r = ''POST''" and "clean_request r" and "Req_Segments r = [''api'', ''v1'', ''promotions'']"
    and "map_of (Req_Header r) ''Idempotency-Key'' = None"
    and "rt_DecodePromotionRequest (sv_Runtime s) (Req_Body r) = Inl (Opaque msg)"
  shows "wire_status (wd_writer (snd (mux s r new_world))) = 500 \<and>
    w_body (wd_writer (snd (mux s r new_world))) =
      [BodyProblem ((problem 500 ''degraded'' ''Internal error'' ''internal error'')\<lparr>oa_Problem_Instance := Some (Req_Path r)\<rparr>)]"
proof -
  have "find (route_matches r) routes = Some (''POST'', api_path [Some ''promotions''], \<lambda>s vs. siw_PostPromotions s)"
    using assms(1,3) by (simp add: routes_def api_routes_def route_matches_def methods_of_def api_path_def)
  then have "mux s r new_world = onError s r (Wrapped (''can'' @ [CHR 0x27] @ ''t decode JSON body'') (Opaque msg)) new_world"
    using assms(2,4,5) by (simp add: mux_def ServeMux_def mux_dispatch_def siw_PostPromotions_def sh_PostPromotions_def bind_idempotency_key_def)
  moreover have "classify (Wrapped m (Opaque msg)) = problem 500 ''degraded'' ''Internal error'' ''internal error''" for m
    by (simp add: classify_def isParamError_def as_forbidden_def errors_as_def errors_is_def)
  ultimately show ?thesis by (simp add: fresh_problem wire_status_def problem_def)
qed

theorem malformed_body_is_degraded_witness:
  "wire_status (wd_writer (snd (mux deny_all (sample_http ''POST'' [''api'', ''v1'', ''promotions'']) new_world))) = 500"
  using malformed_body_is_degraded [of "sample_http ''POST'' [''api'', ''v1'', ''promotions'']" deny_all "''unexpected EOF''"]
  by (simp add: sample_http_def deny_all_def sample_runtime_def clean_request_def cleanPath_def path_Clean_def)

text \<open>C14: No token, no service.  Where authentication is required, a request without a usable
  bearer token gets a 401 problem as its only body, with a request identifier in the header
  (the client's own if it sent one) and one access line of status 401; nothing of the
  request reaches the routes.\<close>
theorem unauthenticated_is_turned_away:
  assumes "AuthConfig_Required (sv_authCfg s)" and "bearerToken r = None"
  shows "\<exists>wd. Server_Handler s rand_read r new_world = (False, wd) \<and>
    w_status (wd_writer wd) = Some 401 \<and> w_body (wd_writer wd) = [BodyProblem unauthenticated_problem] \<and>
    map_of (w_sent (wd_writer wd)) ''X-Request-Id'' = Some (request_id rand_read r) \<and>
    (header_get r ''X-Request-Id'' \<noteq> [] \<longrightarrow> request_id rand_read r = header_get r ''X-Request-Id'') \<and>
    wd_log wd = [AccessLog (Req_Method r) (Req_Path r) 401 (request_id rand_read r)]"
proof -
  let ?r = "r\<lparr>Req_ctxRequestID := Some (request_id rand_read r)\<rparr>"
  have "bearerToken ?r = None" using assms(2) by (simp add: bearerToken_def header_get_def)
  then have run: "recoverMiddleware (auth_Middleware (sv_authCfg s) (mux s)) ?r (inner_world rand_read r new_world) =
      (False, writeUnauthenticated (inner_world rand_read r new_world))"
    using assms(1) by (simp add: recoverMiddleware_def auth_Middleware_def)
  have "w_status (wd_writer new_world) = None" by (simp add: new_world_def)
  from chain_run [OF steps_only_mux this run]
  show ?thesis unfolding Server_Handler_def
    by (simp add: writeUnauthenticated_def inner_world_def Write_def WriteHeader_def SetHeader_def new_world_def
        net_Write_def net_WriteHeader_def wire_status_def request_id_def Let_def)
qed

theorem unauthenticated_is_turned_away_witness:
  "\<exists>wd. Server_Handler deny_all (Some [255]) (sample_http ''GET'' [''api'', ''v1'', ''targets'']) new_world = (False, wd) \<and>
     w_status (wd_writer wd) = Some 401"
  using unauthenticated_is_turned_away [of deny_all "sample_http ''GET'' [''api'', ''v1'', ''targets'']" "Some [255]"]
  by (auto simp: deny_all_def sample_http_def bearerToken_def header_get_def)

text \<open>C15: Panics stay inside.  Take a handler that acts on the response only through its writer
  and the log, behind the middleware chain, with authentication required or not.  If it panics
  on a request that was let through to it (as the stub operator, or as the bearer of a token),
  the chain still returns.  If no status had been sent the client gets a 500, otherwise the
  status stays the one already sent; the degraded problem is appended to what had been written;
  and the log gets the panic and then the access line, with the status on the wire.\<close>
theorem panics_are_contained:
  assumes "steps_only h"
    and "if AuthConfig_Required cfg then \<exists>tok. bearerToken r = Some tok \<and> who = identityFromToken tok
         else who = StubIdentity"
    and "h (withIdentity (r\<lparr>Req_ctxRequestID := Some (request_id rand_read r)\<rparr>) who)
           (inner_world rand_read r new_world) = (True, wd')"
  shows "\<exists>wd. chain_middlewares cfg rand_read h r new_world = (False, wd) \<and>
    w_status (wd_writer wd) = (case w_status (wd_writer wd') of None \<Rightarrow> Some 500 | Some st \<Rightarrow> Some st) \<and>
    w_body (wd_writer wd) = w_body (wd_writer wd') @
      [BodyProblem (problem 500 ''degraded'' ''Internal error'' ''internal error'')] \<and>
    wd_log wd = wd_log wd' @
      [PanicLog ''recovered from panic'' (Req_Path r) (request_id rand_read r),
       AccessLog (Req_Method r) (Req_Path r) (wire_status (wd_writer wd)) (request_id rand_read r)]"
proof -
  let ?r = "r\<lparr>Req_ctxRequestID := Some (request_id rand_read r)\<rparr>"
  have "bearerToken ?r = bearerToken r" by (simp add: bearerToken_def header_get_def)
  then have "auth_Middleware cfg h ?r (inner_world rand_read r new_world) = (True, wd')"
    using assms(2,3) by (auto simp: auth_Middleware_def split: if_splits)
  then obtain wd2 where run: "recoverMiddleware (auth_Middleware cfg h) ?r (inner_world rand_read r new_world) = (False, wd2)"
    and wd2: "wd2 = writeProblemStatus 500 ''degraded'' ''Internal error'' ''internal error''
      (Log (PanicLog ''recovered from panic'' (Req_Path ?r) (requestIDFromContext ?r)) wd')"
    by (simp add: recoverMiddleware_def)
  have steps: "http_steps (inner_world rand_read r new_world) wd'"
    using assms(1,3) unfolding steps_only_def by (metis snd_conv)
  have "recorded_status (inner_world rand_read r new_world)"
    by (simp add: recorded_status_def inner_world_def wire_status_def SetHeader_def new_world_def)
  then have "recorded_status wd'" by (rule recorded_status_steps [OF steps])
  moreover have "wd_rec wd' \<noteq> None" using rec_kept [OF steps] by (simp add: inner_world_def)
  ultimately obtain rc where rc: "wd_rec wd' = Some rc"
    "rec_wroteHeader rc \<longleftrightarrow> w_status (wd_writer wd') \<noteq> None"
    by (auto simp: recorded_status_def)
  have out: "w_status (wd_writer wd2) = (case w_status (wd_writer wd') of None \<Rightarrow> Some 500 | Some st \<Rightarrow> Some st)"
    "w_body (wd_writer wd2) = w_body (wd_writer wd') @
       [BodyProblem (problem 500 ''degraded'' ''Internal error'' ''internal error'')]"
    "wd_log wd2 = wd_log wd' @ [PanicLog ''recovered from panic'' (Req_Path r) (request_id rand_read r)]"
    using rc by (auto simp: wd2 writeProblemStatus_def writeProblem_def Write_def WriteHeader_def SetHeader_def
        Log_def net_Write_def net_WriteHeader_def problem_def Let_def requestIDFromContext_def split: option.splits)
  have "w_status (wd_writer new_world) = None" by (simp add: new_world_def)
  from chain_run [OF assms(1) this run] out show ?thesis by auto
qed

theorem panics_are_contained_witness:
  "\<exists>wd. chain_middlewares \<lparr>AuthConfig_Required = True\<rparr> None (\<lambda>r wd. (True, wd))
       ((sample_http ''GET'' [''x''])\<lparr>Req_Header := [(''Authorization'', [''Bearer dev''])]\<rparr>) new_world
     = (False, wd) \<and> w_status (wd_writer wd) = Some 500"
proof -
  let ?r = "(sample_http ''GET'' [''x''])\<lparr>Req_Header := [(''Authorization'', [''Bearer dev''])]\<rparr>"
  have tok: "bearerToken ?r = Some ''dev''" by code_simp
  then show ?thesis
    using panics_are_contained [of "\<lambda>r wd. (True, wd)" "\<lparr>AuthConfig_Required = True\<rparr>" ?r "identityFromToken ''dev''" None
        "inner_world None ?r new_world"]
    by (auto simp: steps_only_def inner_world_def SetHeader_def new_world_def)
qed

text \<open>C16: The access log tells the truth.  For any request to the server the last log line is an
  access line whose status is the one on the wire, and the handler never panics.\<close>
theorem access_log_is_wire_status:
  assumes "w_status (wd_writer wd) = None"
  shows "\<exists>wd'. Server_Handler s rand_read r wd = (False, wd') \<and>
    wd_log wd' \<noteq> [] \<and> last (wd_log wd') =
      AccessLog (Req_Method r) (Req_Path r) (wire_status (wd_writer wd')) (request_id rand_read r)"
proof -
  obtain p wd' where run: "recoverMiddleware (auth_Middleware (sv_authCfg s) (mux s))
      (r\<lparr>Req_ctxRequestID := Some (request_id rand_read r)\<rparr>) (inner_world rand_read r wd) = (p, wd')"
    by fastforce
  show ?thesis using chain_run [OF steps_only_mux assms run] by (simp add: Server_Handler_def)
qed

theorem access_log_is_wire_status_witness:
  "\<exists>wd'. Server_Handler deny_all None (sample_http ''GET'' [''healthz'']) new_world = (False, wd') \<and>
    last (wd_log wd') = AccessLog ''GET'' ''/healthz'' (wire_status (wd_writer wd')) ''unknown''"
  using access_log_is_wire_status [of new_world deny_all None "sample_http ''GET'' [''healthz'']"]
  by (auto simp: new_world_def sample_http_def request_id_def header_get_def newRequestID_def Let_def)

end
