(* ===== verification/Client_Server.thy ===== *)
theory Client_Server
  imports Client_Requests Api_Server
begin

text \<open>
  The generated client against the server: for each operation, the request the client builds,
  once it has travelled, reaches the operation's strict handler with the parameters the caller
  gave.  The two parameter libraries of \<^verbatim>\<open>oapi-codegen/runtime\<close>, the one that styles and
  the one that binds, are arguments; what is used of their documentation is \<open>styles\<close> and
  \<open>binds\<close>.
\<close>

section \<open>Delivery\<close>

text \<open>
  The transport sends method, escaped path (a slash if it is empty), query and body; the server
  reads the path's segments and the query back.
\<close>

definition segments_of :: "string \<Rightarrow> string list" where
  "segments_of path = map (\<lambda>e. case unescape encodePathSegment e of None \<Rightarrow> e | Some s \<Rightarrow> s) (split_on (CHR ''/'') (tl path))"

definition sent_path :: "URL \<Rightarrow> string" where
  "sent_path u = (if URL_Path u = [] then ''/'' else URL_Path u)"

definition deliver :: "ClientRequest \<Rightarrow> HttpRequest" where
  "deliver req =
     \<lparr>Req_Method = cr_Method req,
      Req_Path = (case unescape encodePath (sent_path (cr_URL req)) of None \<Rightarrow> [] | Some p \<Rightarrow> p),
      Req_EscapedPath = sent_path (cr_URL req),
      Req_Segments = segments_of (sent_path (cr_URL req)),
      Req_Header = cr_Header req,
      Req_RawQuery = URL_RawQuery (cr_URL req), Req_Query = parse_query (URL_RawQuery (cr_URL req)),
      Req_Body = cr_Body req, Req_ctxRequestID = None, Req_ctxIdentity = None\<rparr>"

section \<open>Operations\<close>

datatype operation =
    OpGetApplications "oa_GetApplicationsParams option"
  | OpGetApplicationsName string
  | OpGetApplicationsNameMatrix string
  | OpGetApplicationsNamePromotions string
  | OpGetApplicationsNameReleases string
  | OpGetAudit "oa_GetAuditParams option"
  | OpGetDiff "oa_GetDiffParams option"
  | OpGetEnvironments
  | OpGetPromotions "oa_GetPromotionsParams option"
  | OpPostPromotions "oa_PostPromotionsParams option" oa_PromotionRequest
  | OpGetPromotionsID string
  | OpPostPromotionsIDApprove string "oa_PostPromotionsIDApproveParams option" oa_PostPromotionsIDApproveJSONBody
  | OpPostPromotionsIDCancel string "oa_PostPromotionsIDCancelParams option"
  | OpPostPromotionsIDRetry string "oa_PostPromotionsIDRetryParams option"
  | OpGetReleases "oa_GetReleasesParams option"
  | OpGetTargets
  | OpGetTargetsNameDrift string
  | OpGetTargetsNameHealth string

primrec operation_request :: "ClientLib \<Rightarrow> string \<Rightarrow> operation \<Rightarrow> (goerr, ClientRequest) result" where
  "operation_request lib server (OpGetApplications params) = NewGetApplicationsRequest lib server params"
| "operation_request lib server (OpGetApplicationsName v) = NewGetApplicationsNameRequest lib server v"
| "operation_request lib server (OpGetApplicationsNameMatrix v) = NewGetApplicationsNameMatrixRequest lib server v"
| "operation_request lib server (OpGetApplicationsNamePromotions v) = NewGetApplicationsNamePromotionsRequest lib server v"
| "operation_request lib server (OpGetApplicationsNameReleases v) = NewGetApplicationsNameReleasesRequest lib server v"
| "operation_request lib server (OpGetAudit params) = NewGetAuditRequest lib server params"
| "operation_request lib server (OpGetDiff params) = NewGetDiffRequest lib server params"
| "operation_request lib server OpGetEnvironments = NewGetEnvironmentsRequest lib server"
| "operation_request lib server (OpGetPromotions params) = NewGetPromotionsRequest lib server params"
| "operation_request lib server (OpPostPromotions params body) = NewPostPromotionsRequest lib server params body"
| "operation_request lib server (OpGetPromotionsID v) = NewGetPromotionsIDRequest lib server v"
| "operation_request lib server (OpPostPromotionsIDApprove v params body) = NewPostPromotionsIDApproveRequest lib server v params body"
| "operation_request lib server (OpPostPromotionsIDCancel v params) = NewPostPromotionsIDCancelRequest lib server v params"
| "operation_request lib server (OpPostPromotionsIDRetry v params) = NewPostPromotionsIDRetryRequest lib server v params"
| "operation_request lib server (OpGetReleases params) = NewGetReleasesRequest lib server params"
| "operation_request lib server OpGetTargets = NewGetTargetsRequest lib server"
| "operation_request lib server (OpGetTargetsNameDrift v) = NewGetTargetsNameDriftRequest lib server v"
| "operation_request lib server (OpGetTargetsNameHealth v) = NewGetTargetsNameHealthRequest lib server v"

text \<open>What the server is to do with it: the strict handler of the operation, with the same parameters.\<close>

primrec operation_handler :: "Server \<Rightarrow> operation \<Rightarrow> http_handler" where
  "operation_handler s (OpGetApplications params) = sh_GetApplications s (case params of None \<Rightarrow> \<lparr>oa_GetApplicationsParams_Project = None, oa_GetApplicationsParams_Env = None, oa_GetApplicationsParams_Region = None, oa_GetApplicationsParams_Q = None\<rparr> | Some p \<Rightarrow> p)"
| "operation_handler s (OpGetApplicationsName v) = sh_GetApplicationsName s v"
| "operation_handler s (OpGetApplicationsNameMatrix v) = sh_GetApplicationsNameMatrix s v"
| "operation_handler s (OpGetApplicationsNamePromotions v) = sh_GetApplicationsNamePromotions s v"
| "operation_handler s (OpGetApplicationsNameReleases v) = sh_GetApplicationsNameReleases s v"
| "operation_handler s (OpGetAudit params) = sh_GetAudit s (case params of None \<Rightarrow> \<lparr>oa_GetAuditParams_Resource = None, oa_GetAuditParams_Actor = None, oa_GetAuditParams_Verb = None, oa_GetAuditParams_From = None, oa_GetAuditParams_To = None, oa_GetAuditParams_Limit = None\<rparr> | Some p \<Rightarrow> p)"
| "operation_handler s (OpGetDiff params) = sh_GetDiff s (case params of None \<Rightarrow> \<lparr>oa_GetDiffParams_Mode = [], oa_GetDiffParams_Left = None, oa_GetDiffParams_Right = None\<rparr> | Some p \<Rightarrow> p)"
| "operation_handler s OpGetEnvironments = sh_GetEnvironments s"
| "operation_handler s (OpGetPromotions params) = sh_GetPromotions s (case params of None \<Rightarrow> \<lparr>oa_GetPromotionsParams_State = None\<rparr> | Some p \<Rightarrow> p)"
| "operation_handler s (OpPostPromotions params body) = sh_PostPromotions s \<lparr>oa_PostPromotionsParams_IdempotencyKey = (case params of None \<Rightarrow> None | Some p \<Rightarrow> oa_PostPromotionsParams_IdempotencyKey p)\<rparr>"
| "operation_handler s (OpGetPromotionsID v) = sh_GetPromotionsID s v"
| "operation_handler s (OpPostPromotionsIDApprove v params body) = sh_PostPromotionsIDApprove s v \<lparr>oa_PostPromotionsIDApproveParams_IdempotencyKey = (case params of None \<Rightarrow> None | Some p \<Rightarrow> oa_PostPromotionsIDApproveParams_IdempotencyKey p)\<rparr>"
| "operation_handler s (OpPostPromotionsIDCancel v params) = sh_PostPromotionsIDCancel s v \<lparr>oa_PostPromotionsIDCancelParams_IdempotencyKey = (case params of None \<Rightarrow> None | Some p \<Rightarrow> oa_PostPromotionsIDCancelParams_IdempotencyKey p)\<rparr>"
| "operation_handler s (OpPostPromotionsIDRetry v params) = sh_PostPromotionsIDRetry s v \<lparr>oa_PostPromotionsIDRetryParams_IdempotencyKey = (case params of None \<Rightarrow> None | Some p \<Rightarrow> oa_PostPromotionsIDRetryParams_IdempotencyKey p)\<rparr>"
| "operation_handler s (OpGetReleases params) = sh_GetReleases s (case params of None \<Rightarrow> \<lparr>oa_GetReleasesParams_Project = None\<rparr> | Some p \<Rightarrow> p)"
| "operation_handler s OpGetTargets = sh_GetTargets s"
| "operation_handler s (OpGetTargetsNameDrift v) = sh_GetTargetsNameDrift s v"
| "operation_handler s (OpGetTargetsNameHealth v) = sh_GetTargetsNameHealth s v"

primrec operation_segments :: "operation \<Rightarrow> string list" where
  "operation_segments (OpGetApplications params) = [''applications'']"
| "operation_segments (OpGetApplicationsName v) = [''applications'', v]"
| "operation_segments (OpGetApplicationsNameMatrix v) = [''applications'', v, ''matrix'']"
| "operation_segments (OpGetApplicationsNamePromotions v) = [''applications'', v, ''promotions'']"
| "operation_segments (OpGetApplicationsNameReleases v) = [''applications'', v, ''releases'']"
| "operation_segments (OpGetAudit params) = [''audit'']"
| "operation_segments (OpGetDiff params) = [''diff'']"
| "operation_segments OpGetEnvironments = [''environments'']"
| "operation_segments (OpGetPromotions params) = [''promotions'']"
| "operation_segments (OpPostPromotions params body) = [''promotions'']"
| "operation_segments (OpGetPromotionsID v) = [''promotions'', v]"
| "operation_segments (OpPostPromotionsIDApprove v params body) = [''promotions'', v, ''approve'']"
| "operation_segments (OpPostPromotionsIDCancel v params) = [''promotions'', v, ''cancel'']"
| "operation_segments (OpPostPromotionsIDRetry v params) = [''promotions'', v, ''retry'']"
| "operation_segments (OpGetReleases params) = [''releases'']"
| "operation_segments OpGetTargets = [''targets'']"
| "operation_segments (OpGetTargetsNameDrift v) = [''targets'', v, ''drift'']"
| "operation_segments (OpGetTargetsNameHealth v) = [''targets'', v, ''health'']"

primrec operation_method :: "operation \<Rightarrow> string" where
  "operation_method (OpGetApplications params) = ''GET''"
| "operation_method (OpGetApplicationsName v) = ''GET''"
| "operation_method (OpGetApplicationsNameMatrix v) = ''GET''"
| "operation_method (OpGetApplicationsNamePromotions v) = ''GET''"
| "operation_method (OpGetApplicationsNameReleases v) = ''GET''"
| "operation_method (OpGetAudit params) = ''GET''"
| "operation_method (OpGetDiff params) = ''GET''"
| "operation_method OpGetEnvironments = ''GET''"
| "operation_method (OpGetPromotions params) = ''GET''"
| "operation_method (OpPostPromotions params body) = ''POST''"
| "operation_method (OpGetPromotionsID v) = ''GET''"
| "operation_method (OpPostPromotionsIDApprove v params body) = ''POST''"
| "operation_method (OpPostPromotionsIDCancel v params) = ''POST''"
| "operation_method (OpPostPromotionsIDRetry v params) = ''POST''"
| "operation_method (OpGetReleases params) = ''GET''"
| "operation_method OpGetTargets = ''GET''"
| "operation_method (OpGetTargetsNameDrift v) = ''GET''"
| "operation_method (OpGetTargetsNameHealth v) = ''GET''"

primrec operation_body :: "ClientLib \<Rightarrow> operation \<Rightarrow> (goerr, string) result" where
  "operation_body lib (OpGetApplications params) = Inr []"
| "operation_body lib (OpGetApplicationsName v) = Inr []"
| "operation_body lib (OpGetApplicationsNameMatrix v) = Inr []"
| "operation_body lib (OpGetApplicationsNamePromotions v) = Inr []"
| "operation_body lib (OpGetApplicationsNameReleases v) = Inr []"
| "operation_body lib (OpGetAudit params) = Inr []"
| "operation_body lib (OpGetDiff params) = Inr []"
| "operation_body lib OpGetEnvironments = Inr []"
| "operation_body lib (OpGetPromotions params) = Inr []"
| "operation_body lib (OpPostPromotions params body) = cb_MarshalPromotionRequest lib body"
| "operation_body lib (OpGetPromotionsID v) = Inr []"
| "operation_body lib (OpPostPromotionsIDApprove v params body) = cb_MarshalApproveBody lib body"
| "operation_body lib (OpPostPromotionsIDCancel v params) = Inr []"
| "operation_body lib (OpPostPromotionsIDRetry v params) = Inr []"
| "operation_body lib (OpGetReleases params) = Inr []"
| "operation_body lib OpGetTargets = Inr []"
| "operation_body lib (OpGetTargetsNameDrift v) = Inr []"
| "operation_body lib (OpGetTargetsNameHealth v) = Inr []"

primrec operation_params :: "operation \<Rightarrow> (string \<times> style_value option) list" where
  "operation_params (OpGetApplications params) = (case params of None \<Rightarrow> [] | Some p \<Rightarrow> [(''project'', map_option SVString (oa_GetApplicationsParams_Project p)), (''env'', map_option SVString (oa_GetApplicationsParams_Env p)), (''region'', map_option SVString (oa_GetApplicationsParams_Region p)), (''q'', map_option SVString (oa_GetApplicationsParams_Q p))])"
| "operation_params (OpGetApplicationsName v) = []"
| "operation_params (OpGetApplicationsNameMatrix v) = []"
| "operation_params (OpGetApplicationsNamePromotions v) = []"
| "operation_params (OpGetApplicationsNameReleases v) = []"
| "operation_params (OpGetAudit params) = (case params of None \<Rightarrow> [] | Some p \<Rightarrow> [(''resource'', map_option SVString (oa_GetAuditParams_Resource p)), (''actor'', map_option SVString (oa_GetAuditParams_Actor p)), (''verb'', map_option SVString (oa_GetAuditParams_Verb p)), (''from'', map_option SVTime (oa_GetAuditParams_From p)), (''to'', map_option SVTime (oa_GetAuditParams_To p)), (''limit'', map_option SVInt (oa_GetAuditParams_Limit p))])"
| "operation_params (OpGetDiff params) = (case params of None \<Rightarrow> [] | Some p \<Rightarrow> [(''mode'', Some (SVString (oa_GetDiffParams_Mode p))), (''left'', map_option SVString (oa_GetDiffParams_Left p)), (''right'', map_option SVString (oa_GetDiffParams_Right p))])"
| "operation_params OpGetEnvironments = []"
| "operation_params (OpGetPromotions params) = (case params of None \<Rightarrow> [] | Some p \<Rightarrow> [(''state'', map_option SVString (oa_GetPromotionsParams_State p))])"
| "operation_params (OpPostPromotions params body) = []"
| "operation_params (OpGetPromotionsID v) = []"
| "operation_params (OpPostPromotionsIDApprove v params body) = []"
| "operation_params (OpPostPromotionsIDCancel v params) = []"
| "operation_params (OpPostPromotionsIDRetry v params) = []"
| "operation_params (OpGetReleases params) = (case params of None \<Rightarrow> [] | Some p \<Rightarrow> [(''project'', map_option SVString (oa_GetReleasesParams_Project p))])"
| "operation_params OpGetTargets = []"
| "operation_params (OpGetTargetsNameDrift v) = []"
| "operation_params (OpGetTargetsNameHealth v) = []"

primrec operation_key :: "operation \<Rightarrow> string option" where
  "operation_key (OpGetApplications params) = None"
| "operation_key (OpGetApplicationsName v) = None"
| "operation_key (OpGetApplicationsNameMatrix v) = None"
| "operation_key (OpGetApplicationsNamePromotions v) = None"
| "operation_key (OpGetApplicationsNameReleases v) = None"
| "operation_key (OpGetAudit params) = None"
| "operation_key (OpGetDiff params) = None"
| "operation_key OpGetEnvironments = None"
| "operation_key (OpGetPromotions params) = None"
| "operation_key (OpPostPromotions params body) = (case params of None \<Rightarrow> None | Some p \<Rightarrow> oa_PostPromotionsParams_IdempotencyKey p)"
| "operation_key (OpGetPromotionsID v) = None"
| "operation_key (OpPostPromotionsIDApprove v params body) = (case params of None \<Rightarrow> None | Some p \<Rightarrow> oa_PostPromotionsIDApproveParams_IdempotencyKey p)"
| "operation_key (OpPostPromotionsIDCancel v params) = (case params of None \<Rightarrow> None | Some p \<Rightarrow> oa_PostPromotionsIDCancelParams_IdempotencyKey p)"
| "operation_key (OpPostPromotionsIDRetry v params) = (case params of None \<Rightarrow> None | Some p \<Rightarrow> oa_PostPromotionsIDRetryParams_IdempotencyKey p)"
| "operation_key (OpGetReleases params) = None"
| "operation_key OpGetTargets = None"
| "operation_key (OpGetTargetsNameDrift v) = None"
| "operation_key (OpGetTargetsNameHealth v) = None"

primrec operation_json :: "operation \<Rightarrow> bool" where
  "operation_json (OpGetApplications params) = False"
| "operation_json (OpGetApplicationsName v) = False"
| "operation_json (OpGetApplicationsNameMatrix v) = False"
| "operation_json (OpGetApplicationsNamePromotions v) = False"
| "operation_json (OpGetApplicationsNameReleases v) = False"
| "operation_json (OpGetAudit params) = False"
| "operation_json (OpGetDiff params) = False"
| "operation_json OpGetEnvironments = False"
| "operation_json (OpGetPromotions params) = False"
| "operation_json (OpPostPromotions params body) = True"
| "operation_json (OpGetPromotionsID v) = False"
| "operation_json (OpPostPromotionsIDApprove v params body) = True"
| "operation_json (OpPostPromotionsIDCancel v params) = False"
| "operation_json (OpPostPromotionsIDRetry v params) = False"
| "operation_json (OpGetReleases params) = False"
| "operation_json OpGetTargets = False"
| "operation_json (OpGetTargetsNameDrift v) = False"
| "operation_json (OpGetTargetsNameHealth v) = False"

section \<open>The two runtime libraries\<close>

text \<open>The text of a value in a query, by the two formats a caller may choose for instants.\<close>

fun value_text :: "(time \<Rightarrow> string) \<Rightarrow> style_value \<Rightarrow> string" where
  "value_text fmt (SVString v) = v"
| "value_text fmt (SVTime t) = fmt t"
| "value_text fmt (SVInt n) = itoa n"

text \<open>
  Styling a primitive value: a path parameter is escaped as a segment, a query parameter is
  \<^verbatim>\<open>name=value\<close> with the value escaped as a query component, a header is taken as it is.
\<close>

definition styles :: "(time \<Rightarrow> string) \<Rightarrow> ClientLib \<Rightarrow> bool" where
  "styles fmt lib \<longleftrightarrow>
     (\<forall>n v. cb_StyleParam lib ''simple'' False n (SVString v) ParamLocationPath = Inr (escape encodePathSegment v) \<and>
        cb_StyleParam lib ''simple'' False n (SVString v) ParamLocationHeader = Inr v) \<and>
     (\<forall>n v. cb_StyleParam lib ''form'' True n v ParamLocationQuery = Inr (fragment_of (n, value_text fmt v)))"

text \<open>
  Binding: a parameter that is absent is \<^const>\<open>None\<close>, or an error if it is required; one
  that is present once is read back.  A path or header value without a percent sign is taken as
  it is.
\<close>

definition binds_query :: "('v \<Rightarrow> string) \<Rightarrow> 'v query_binder \<Rightarrow> bool" where
  "binds_query text binder \<longleftrightarrow>
     (\<forall>q n. (map_of q n = None \<longrightarrow> binder False n q = Inr None) \<and>
        (\<forall>mandatory v. map_of q n = Some [text v] \<longrightarrow> binder mandatory n q = Inr (Some v)))"

definition binds :: "(time \<Rightarrow> string) \<Rightarrow> Runtime \<Rightarrow> bool" where
  "binds fmt rt \<longleftrightarrow>
     binds_query (\<lambda>v. v) (rt_BindQueryString rt) \<and> binds_query fmt (rt_BindQueryTime rt) \<and>
     binds_query itoa (rt_BindQueryInt rt) \<and>
     (\<forall>n v. CHR ''%'' \<notin> set v \<longrightarrow> rt_BindStyled rt n v = Inr v)"

section \<open>Building requests\<close>

abbreviation api_base :: "string list" where
  "api_base \<equiv> [''api'', ''v1'']"

text \<open>A server URL the client can be given: the API's root below some host.\<close>

definition api_server :: "ClientLib \<Rightarrow> string \<Rightarrow> bool" where
  "api_server lib server \<longleftrightarrow>
     (\<exists>u. url_Parse (cb_parseAuthority lib) server = Inr u \<and> http_url (cb_parseAuthority lib) u \<and>
        URL_Path u = seg_path api_base @ ''/'')"

definition api_url :: "ClientLib \<Rightarrow> string list \<Rightarrow> string \<Rightarrow> URL \<Rightarrow> bool" where
  "api_url lib segs query u \<longleftrightarrow> http_url (cb_parseAuthority lib) u \<and> URL_Path u = seg_path (api_base @ segs) \<and>
     URL_RawQuery u = query"

lemma literal_path: "list_all (\<lambda>c. is_letter c \<or> is_digit c) s \<Longrightarrow> escape m s = s"
  by (induction s) (auto simp: escape_Cons escape_char_def shouldEscape_def is_letter_def is_digit_def)

lemma seg_path_prefix: "segs \<noteq> [] \<Longrightarrow> has_prefix (seg_path segs) ''/''"
  by (cases segs) (simp_all add: seg_path_simps)

lemmas seg_path_facts = seg_path_prefix canonical_seg_path clean_seg_path [simplified]

lemma operation_url_segments:
  assumes "api_server lib server" "segs \<noteq> []" "''.'' \<notin> set segs" "''..'' \<notin> set segs"
  shows "\<exists>u. operation_url lib server (seg_path segs) = Inr u \<and> api_url lib segs [] u"
proof -
  obtain u where u: "url_Parse (cb_parseAuthority lib) server = Inr u" "http_url (cb_parseAuthority lib) u"
    "URL_Path u = seg_path api_base @ ''/''" using assms(1) by (auto simp: api_server_def)
  let ?u = "empty_URL\<lparr>URL_Scheme := URL_Scheme u, URL_Host := URL_Host u, URL_Path := seg_path (api_base @ segs)\<rparr>"
  have "has_prefix (seg_path segs) ''/''" by (rule seg_path_prefix [OF assms(2)])
  then have "operation_url lib server (seg_path segs) = Inr ?u"
    unfolding operation_url_def using u ResolveReference_segments [OF u(3), of segs] assms(2-4) by simp
  moreover have "http_url (cb_parseAuthority lib) ?u"
    using u(2) unfolding http_url_def by (simp add: empty_URL_def seg_path_facts)
  ultimately show ?thesis by (auto simp: api_url_def empty_URL_def)
qed

text \<open>The styled fragments of the parameters that are present.\<close>

definition present :: "(time \<Rightarrow> string) \<Rightarrow> (string \<times> style_value option) list \<Rightarrow> (string \<times> string) list" where
  "present fmt ps = List.map_filter (\<lambda>(n, v). map_option (\<lambda>v. (n, value_text fmt v)) v) ps"

lemma present_simps [simp]:
  "present fmt [] = []"
  "present fmt ((n, None) # ps) = present fmt ps"
  "present fmt ((n, Some v) # ps) = (n, value_text fmt v) # present fmt ps"
  by (simp_all add: present_def map_filter_simps)

lemma present_names: "(n, v) \<in> set (present fmt ps) \<Longrightarrow> n \<in> fst ` set ps"
  by (induction ps) (auto simp: present_def map_filter_simps split: option.splits)

lemma distinct_present: "distinct (map fst ps) \<Longrightarrow> distinct (map fst (present fmt ps))"
proof (induction ps)
  case (Cons nv ps)
  obtain n v where nv: "nv = (n, v)" by (cases nv)
  have "n \<notin> fst ` set (present fmt ps)" using Cons.prems present_names [of n _ fmt ps] nv by auto
  then show ?case using Cons nv by (cases v) auto
qed simp

lemma map_of_present:
  "distinct (map fst ps) \<Longrightarrow> (n, v) \<in> set ps \<Longrightarrow> map_of (present fmt ps) n = map_option (value_text fmt) v"
proof (induction ps)
  case (Cons mw ps)
  obtain m w where mw: "mw = (m, w)" by (cases mw)
  show ?case
  proof (cases "(n, v) = (m, w)")
    case True
    have "map_of (present fmt ps) m = None"
      using Cons.prems(1) mw present_names [of m _ fmt ps] by (auto simp: map_of_eq_None_iff)
    then show ?thesis using True mw by (cases w) auto
  next
    case False
    then have "m \<noteq> n" using Cons.prems mw by (auto simp: image_iff)
    then show ?thesis using Cons False mw by (cases w) auto
  qed
qed simp

lemma styled_fragments_present:
  assumes "styles fmt lib" "\<forall>n \<in> fst ` set ps. query_name n"
  shows "styled_fragments lib ps = Inr (map fragment_of (present fmt ps))"
  using assms(2)
proof (induction ps)
  case (Cons nv ps)
  obtain n v where nv: "nv = (n, v)" by (cases nv)
  have IH: "styled_fragments lib ps = Inr (map fragment_of (present fmt ps))" using Cons by simp
  show ?case
  proof (cases v)
    case (Some x)
    have "query_name n" using Cons.prems nv by simp
    then have "split_on (CHR ''&'') (fragment_of (n, value_text fmt x)) = [fragment_of (n, value_text fmt x)]"
      by (intro split_on_no_sep fragment_no_amp)
    then show ?thesis using IH nv Some assms(1) by (simp add: styles_def)
  qed (use IH nv in simp)
qed simp

definition param_fragments :: "(time \<Rightarrow> string) \<Rightarrow> (string \<times> style_value option) list \<Rightarrow> string" where
  "param_fragments fmt ps = join ''&'' (map fragment_of (present fmt ps))"

lemma set_query_present:
  assumes "styles fmt lib" "\<forall>n \<in> fst ` set ps. query_name n" "api_url lib segs [] u"
  shows "\<exists>u'. set_query lib u ps = Inr u' \<and> api_url lib segs (param_fragments fmt ps) u'"
proof -
  have "query_name n" if "(n, v) \<in> set (present fmt ps)" for n v
    using present_names [OF that] assms(2) by blast
  then have "clean (set ''#'') (param_fragments fmt ps)" unfolding param_fragments_def by (rule clean_fragments)
  moreover have "encode_query (parse_query []) = []"
    by (simp add: parse_query_def query_pair_def map_filter_simps encode_query_def)
  ultimately show ?thesis
    using assms(3) styled_fragments_present [OF assms(1,2)]
    by (simp add: set_query_def api_url_def http_url_def Let_def param_fragments_def seg_path_facts)
qed

lemma http_NewRequest_api:
  "api_url lib segs q u \<Longrightarrow>
   http_NewRequest lib m (url_String u) body = Inr \<lparr>cr_Method = m, cr_URL = u, cr_Header = [], cr_Body = body\<rparr>"
  by (simp add: http_NewRequest_def api_url_def url_Parse_String)

text \<open>What is built for an operation.\<close>

definition operation_header :: "operation \<Rightarrow> (string \<times> string list) list" where
  "operation_header op =
     (if operation_json op then [(''Content-Type'', [''application/json''])] else []) @
     (case operation_key op of None \<Rightarrow> [] | Some k \<Rightarrow> [(''Idempotency-Key'', [k])])"

definition builds :: "(time \<Rightarrow> string) \<Rightarrow> ClientLib \<Rightarrow> string \<Rightarrow> operation \<Rightarrow> string \<Rightarrow> bool" where
  "builds fmt lib server op body \<longleftrightarrow>
     (\<exists>u. operation_request lib server op =
        Inr \<lparr>cr_Method = operation_method op, cr_URL = u, cr_Header = operation_header op, cr_Body = body\<rparr> \<and>
        api_url lib (operation_segments op) (param_fragments fmt (operation_params op)) u)"

lemma buildsI:
  assumes "operation_request lib server op =
      Inr \<lparr>cr_Method = operation_method op, cr_URL = u, cr_Header = operation_header op, cr_Body = body\<rparr>"
    "api_url lib (operation_segments op) (param_fragments fmt (operation_params op)) u"
  shows "builds fmt lib server op body"
  using assms by (auto simp: builds_def)

lemma builds_path:
  assumes "api_server lib server" "operation_segments op \<noteq> []" "''.'' \<notin> set (operation_segments op)"
    "''..'' \<notin> set (operation_segments op)" "operation_params op = []"
    "\<And>u. operation_url lib server (seg_path (operation_segments op)) = Inr u \<Longrightarrow>
       (\<And>m b. http_NewRequest lib m (url_String u) b = Inr \<lparr>cr_Method = m, cr_URL = u, cr_Header = [], cr_Body = b\<rparr>) \<Longrightarrow>
       operation_request lib server op =
         Inr \<lparr>cr_Method = operation_method op, cr_URL = u, cr_Header = operation_header op, cr_Body = body\<rparr>"
  shows "builds fmt lib server op body"
proof -
  obtain u where u: "operation_url lib server (seg_path (operation_segments op)) = Inr u" "api_url lib (operation_segments op) [] u"
    using operation_url_segments [OF assms(1-4)] by blast
  from assms(6) [OF u(1) http_NewRequest_api [OF u(2)]] u(2) assms(5)
  show ?thesis by (intro buildsI) (simp_all add: param_fragments_def)
qed

lemma builds_query:
  assumes "api_server lib server" "styles fmt lib" "operation_segments op \<noteq> []" "''.'' \<notin> set (operation_segments op)"
    "''..'' \<notin> set (operation_segments op)" "\<forall>n \<in> fst ` set (operation_params op). query_name n"
    "\<And>u u'. operation_url lib server (seg_path (operation_segments op)) = Inr u \<Longrightarrow>
       set_query lib u (operation_params op) = Inr u' \<Longrightarrow>
       (\<And>m b. http_NewRequest lib m (url_String u') b = Inr \<lparr>cr_Method = m, cr_URL = u', cr_Header = [], cr_Body = b\<rparr>) \<Longrightarrow>
       operation_request lib server op =
         Inr \<lparr>cr_Method = operation_method op, cr_URL = u', cr_Header = operation_header op, cr_Body = body\<rparr>"
  shows "builds fmt lib server op body"
proof -
  obtain u where u: "operation_url lib server (seg_path (operation_segments op)) = Inr u" "api_url lib (operation_segments op) [] u"
    using operation_url_segments [OF assms(1,3-5)] by blast
  obtain u' where u': "set_query lib u (operation_params op) = Inr u'"
    "api_url lib (operation_segments op) (param_fragments fmt (operation_params op)) u'"
    using set_query_present [OF assms(2,6) u(2)] by blast
  from assms(7) [OF u(1) u'(1) http_NewRequest_api [OF u'(2)]] u'(2) show ?thesis by (intro buildsI) simp_all
qed

lemma styled_path: "styles fmt lib \<Longrightarrow>
    cb_StyleParam lib ''simple'' False n (SVString v) ParamLocationPath = Inr (escape encodePathSegment v)"
  by (simp add: styles_def)

lemma styled_header: "styles fmt lib \<Longrightarrow> cb_StyleParam lib ''simple'' False n (SVString v) ParamLocationHeader = Inr v"
  by (simp add: styles_def)

lemma key_header:
  "styles fmt lib \<Longrightarrow> map_of (cr_Header req) ''Idempotency-Key'' = None \<Longrightarrow>
   set_idempotency_key lib key req =
     Inr (req\<lparr>cr_Header := cr_Header req @ (case key of None \<Rightarrow> [] | Some k \<Rightarrow> [(''Idempotency-Key'', [k])])\<rparr>)"
proof -
  have "map_of h k = None \<Longrightarrow> AList.update k v h = h @ [(k, v)]" for h and k :: string and v :: "string list"
    by (induction h) (auto split: if_splits)
  then show "styles fmt lib \<Longrightarrow> map_of (cr_Header req) ''Idempotency-Key'' = None \<Longrightarrow> ?thesis"
    by (simp add: set_idempotency_key_def header_set_def styled_header split: option.splits)
qed

lemma seg_paths:
  "''/applications'' = seg_path [''applications'']"
  "''/applications/'' @ escape encodePathSegment v = seg_path [''applications'', v]"
  "''/applications/'' @ escape encodePathSegment v @ ''/matrix'' = seg_path [''applications'', v, ''matrix'']"
  "''/applications/'' @ escape encodePathSegment v @ ''/promotions'' = seg_path [''applications'', v, ''promotions'']"
  "''/applications/'' @ escape encodePathSegment v @ ''/releases'' = seg_path [''applications'', v, ''releases'']"
  "''/audit'' = seg_path [''audit'']"
  "''/diff'' = seg_path [''diff'']"
  "''/environments'' = seg_path [''environments'']"
  "''/promotions'' = seg_path [''promotions'']"
  "''/promotions/'' @ escape encodePathSegment v = seg_path [''promotions'', v]"
  "''/promotions/'' @ escape encodePathSegment v @ ''/approve'' = seg_path [''promotions'', v, ''approve'']"
  "''/promotions/'' @ escape encodePathSegment v @ ''/cancel'' = seg_path [''promotions'', v, ''cancel'']"
  "''/promotions/'' @ escape encodePathSegment v @ ''/retry'' = seg_path [''promotions'', v, ''retry'']"
  "''/releases'' = seg_path [''releases'']"
  "''/targets'' = seg_path [''targets'']"
  "''/targets/'' @ escape encodePathSegment v @ ''/drift'' = seg_path [''targets'', v, ''drift'']"
  "''/targets/'' @ escape encodePathSegment v @ ''/health'' = seg_path [''targets'', v, ''health'']"
  by (simp_all add: seg_path_simps literal_path is_letter_def is_digit_def)

lemmas building = styled_path key_header operation_header_def header_add_def add_value_def query_name_def
  is_letter_def is_digit_def

lemma build_GetApplications:
  assumes "api_server lib server" "styles fmt lib"
  shows "builds fmt lib server (OpGetApplications params) []"
proof (cases params)
  case None
  show ?thesis unfolding None
    by (rule builds_path [OF assms(1)]) (simp_all add: NewGetApplicationsRequest_def seg_paths(1) [simplified] building)
next
  case (Some p)
  show ?thesis unfolding Some
    by (rule builds_query [OF assms]) (auto simp: NewGetApplicationsRequest_def seg_paths(1) [simplified] building)
qed

lemma build_GetApplicationsName:
  assumes "api_server lib server" "styles fmt lib" "v \<noteq> ''.''" "v \<noteq> ''..''"
  shows "builds fmt lib server (OpGetApplicationsName v) []"
  using assms(2-)
  by (intro builds_path [OF assms(1)]) (simp_all add: NewGetApplicationsNameRequest_def seg_paths(2) [simplified] building)

lemma build_GetApplicationsNameMatrix:
  assumes "api_server lib server" "styles fmt lib" "v \<noteq> ''.''" "v \<noteq> ''..''"
  shows "builds fmt lib server (OpGetApplicationsNameMatrix v) []"
  using assms(2-)
  by (intro builds_path [OF assms(1)]) (simp_all add: NewGetApplicationsNameMatrixRequest_def seg_paths(3) [simplified] building)

lemma build_GetApplicationsNamePromotions:
  assumes "api_server lib server" "styles fmt lib" "v \<noteq> ''.''" "v \<noteq> ''..''"
  shows "builds fmt lib server (OpGetApplicationsNamePromotions v) []"
  using assms(2-)
  by (intro builds_path [OF assms(1)]) (simp_all add: NewGetApplicationsNamePromotionsRequest_def seg_paths(4) [simplified] building)

lemma build_GetApplicationsNameReleases:
  assumes "api_server lib server" "styles fmt lib" "v \<noteq> ''.''" "v \<noteq> ''..''"
  shows "builds fmt lib server (OpGetApplicationsNameReleases v) []"
  using assms(2-)
  by (intro builds_path [OF assms(1)]) (simp_all add: NewGetApplicationsNameReleasesRequest_def seg_paths(5) [simplified] building)

lemma build_GetAudit:
  assumes "api_server lib server" "styles fmt lib"
  shows "builds fmt lib server (OpGetAudit params) []"
proof (cases params)
  case None
  show ?thesis unfolding None
    by (rule builds_path [OF assms(1)]) (simp_all add: NewGetAuditRequest_def seg_paths(6) [simplified] building)
next
  case (Some p)
  show ?thesis unfolding Some
    by (rule builds_query [OF assms]) (auto simp: NewGetAuditRequest_def seg_paths(6) [simplified] building)
qed

lemma build_GetDiff:
  assumes "api_server lib server" "styles fmt lib"
  shows "builds fmt lib server (OpGetDiff params) []"
proof (cases params)
  case None
  show ?thesis unfolding None
    by (rule builds_path [OF assms(1)]) (simp_all add: NewGetDiffRequest_def seg_paths(7) [simplified] building)
next
  case (Some p)
  show ?thesis unfolding Some
    by (rule builds_query [OF assms]) (auto simp: NewGetDiffRequest_def seg_paths(7) [simplified] building)
qed

lemma build_GetEnvironments:
  assumes "api_server lib server" "styles fmt lib"
  shows "builds fmt lib server OpGetEnvironments []"
  using assms(2-)
  by (intro builds_path [OF assms(1)]) (simp_all add: NewGetEnvironmentsRequest_def seg_paths(8) [simplified] building)

lemma build_GetPromotions:
  assumes "api_server lib server" "styles fmt lib"
  shows "builds fmt lib server (OpGetPromotions params) []"
proof (cases params)
  case None
  show ?thesis unfolding None
    by (rule builds_path [OF assms(1)]) (simp_all add: NewGetPromotionsRequest_def seg_paths(9) [simplified] building)
next
  case (Some p)
  show ?thesis unfolding Some
    by (rule builds_query [OF assms]) (auto simp: NewGetPromotionsRequest_def seg_paths(9) [simplified] building)
qed

lemma build_PostPromotions:
  assumes "api_server lib server" "styles fmt lib" "cb_MarshalPromotionRequest lib body = Inr buf"
  shows "builds fmt lib server (OpPostPromotions params body) buf"
  using assms(2-)
  by (intro builds_path [OF assms(1)]) (simp_all add: NewPostPromotionsRequest_def NewPostPromotionsRequestWithBody_def seg_paths(9) [simplified] building)

lemma build_GetPromotionsID:
  assumes "api_server lib server" "styles fmt lib" "v \<noteq> ''.''" "v \<noteq> ''..''"
  shows "builds fmt lib server (OpGetPromotionsID v) []"
  using assms(2-)
  by (intro builds_path [OF assms(1)]) (simp_all add: NewGetPromotionsIDRequest_def seg_paths(10) [simplified] building)

lemma build_PostPromotionsIDApprove:
  assumes "api_server lib server" "styles fmt lib" "v \<noteq> ''.''" "v \<noteq> ''..''" "cb_MarshalApproveBody lib body = Inr buf"
  shows "builds fmt lib server (OpPostPromotionsIDApprove v params body) buf"
  using assms(2-)
  by (intro builds_path [OF assms(1)]) (simp_all add: NewPostPromotionsIDApproveRequest_def NewPostPromotionsIDApproveRequestWithBody_def seg_paths(11) [simplified] building)

lemma build_PostPromotionsIDCancel:
  assumes "api_server lib server" "styles fmt lib" "v \<noteq> ''.''" "v \<noteq> ''..''"
  shows "builds fmt lib server (OpPostPromotionsIDCancel v params) []"
  using assms(2-)
  by (intro builds_path [OF assms(1)]) (simp_all add: NewPostPromotionsIDCancelRequest_def seg_paths(12) [simplified] building)

lemma build_PostPromotionsIDRetry:
  assumes "api_server lib server" "styles fmt lib" "v \<noteq> ''.''" "v \<noteq> ''..''"
  shows "builds fmt lib server (OpPostPromotionsIDRetry v params) []"
  using assms(2-)
  by (intro builds_path [OF assms(1)]) (simp_all add: NewPostPromotionsIDRetryRequest_def seg_paths(13) [simplified] building)

lemma build_GetReleases:
  assumes "api_server lib server" "styles fmt lib"
  shows "builds fmt lib server (OpGetReleases params) []"
proof (cases params)
  case None
  show ?thesis unfolding None
    by (rule builds_path [OF assms(1)]) (simp_all add: NewGetReleasesRequest_def seg_paths(14) [simplified] building)
next
  case (Some p)
  show ?thesis unfolding Some
    by (rule builds_query [OF assms]) (auto simp: NewGetReleasesRequest_def seg_paths(14) [simplified] building)
qed

lemma build_GetTargets:
  assumes "api_server lib server" "styles fmt lib"
  shows "builds fmt lib server OpGetTargets []"
  using assms(2-)
  by (intro builds_path [OF assms(1)]) (simp_all add: NewGetTargetsRequest_def seg_paths(15) [simplified] building)

lemma build_GetTargetsNameDrift:
  assumes "api_server lib server" "styles fmt lib" "v \<noteq> ''.''" "v \<noteq> ''..''"
  shows "builds fmt lib server (OpGetTargetsNameDrift v) []"
  using assms(2-)
  by (intro builds_path [OF assms(1)]) (simp_all add: NewGetTargetsNameDriftRequest_def seg_paths(16) [simplified] building)

lemma build_GetTargetsNameHealth:
  assumes "api_server lib server" "styles fmt lib" "v \<noteq> ''.''" "v \<noteq> ''..''"
  shows "builds fmt lib server (OpGetTargetsNameHealth v) []"
  using assms(2-)
  by (intro builds_path [OF assms(1)]) (simp_all add: NewGetTargetsNameHealthRequest_def seg_paths(17) [simplified] building)


section \<open>Routing\<close>

lemma segments_of_seg_path: "segs \<noteq> [] \<Longrightarrow> segments_of (seg_path segs) = segs"
proof (cases segs)
  case (Cons x xs)
  then show ?thesis
    using split_seg_path [OF no_slash_escape, of x xs]
    by (simp add: segments_of_def seg_path_simps comp_def)
qed simp

lemmas routing = fun_eq_iff mux_dispatch_def routes_def api_routes_def route_matches_def methods_of_def api_path_def

lemma route_GetApplications:
  assumes "Req_Method r = ''GET''" "Req_Segments r = [''api'', ''v1'', ''applications'']"
  shows "mux_dispatch s r = siw_GetApplications s r"
  using assms by (simp add: routing)

lemma route_GetApplicationsName:
  assumes "Req_Method r = ''GET''" "Req_Segments r = [''api'', ''v1'', ''applications'', v]" "v \<noteq> []"
  shows "mux_dispatch s r = siw_GetApplicationsName s v r"
  using assms by (simp add: routing)

lemma route_GetApplicationsNameMatrix:
  assumes "Req_Method r = ''GET''" "Req_Segments r = [''api'', ''v1'', ''applications'', v, ''matrix'']" "v \<noteq> []"
  shows "mux_dispatch s r = siw_GetApplicationsNameMatrix s v r"
  using assms by (simp add: routing)

lemma route_GetApplicationsNamePromotions:
  assumes "Req_Method r = ''GET''" "Req_Segments r = [''api'', ''v1'', ''applications'', v, ''promotions'']" "v \<noteq> []"
  shows "mux_dispatch s r = siw_GetApplicationsNamePromotions s v r"
  using assms by (simp add: routing)

lemma route_GetApplicationsNameReleases:
  assumes "Req_Method r = ''GET''" "Req_Segments r = [''api'', ''v1'', ''applications'', v, ''releases'']" "v \<noteq> []"
  shows "mux_dispatch s r = siw_GetApplicationsNameReleases s v r"
  using assms by (simp add: routing)

lemma route_GetAudit:
  assumes "Req_Method r = ''GET''" "Req_Segments r = [''api'', ''v1'', ''audit'']"
  shows "mux_dispatch s r = siw_GetAudit s r"
  using assms by (simp add: routing)

lemma route_GetDiff:
  assumes "Req_Method r = ''GET''" "Req_Segments r = [''api'', ''v1'', ''diff'']"
  shows "mux_dispatch s r = siw_GetDiff s r"
  using assms by (simp add: routing)

lemma route_GetEnvironments:
  assumes "Req_Method r = ''GET''" "Req_Segments r = [''api'', ''v1'', ''environments'']"
  shows "mux_dispatch s r = siw_GetEnvironments s r"
  using assms by (simp add: routing)

lemma route_GetPromotions:
  assumes "Req_Method r = ''GET''" "Req_Segments r = [''api'', ''v1'', ''promotions'']"
  shows "mux_dispatch s r = siw_GetPromotions s r"
  using assms by (simp add: routing)

lemma route_PostPromotions:
  assumes "Req_Method r = ''POST''" "Req_Segments r = [''api'', ''v1'', ''promotions'']"
  shows "mux_dispatch s r = siw_PostPromotions s r"
  using assms by (simp add: routing)

lemma route_GetPromotionsID:
  assumes "Req_Method r = ''GET''" "Req_Segments r = [''api'', ''v1'', ''promotions'', v]" "v \<noteq> []"
  shows "mux_dispatch s r = siw_GetPromotionsID s v r"
  using assms by (simp add: routing)

lemma route_PostPromotionsIDApprove:
  assumes "Req_Method r = ''POST''" "Req_Segments r = [''api'', ''v1'', ''promotions'', v, ''approve'']" "v \<noteq> []"
  shows "mux_dispatch s r = siw_PostPromotionsIDApprove s v r"
  using assms by (simp add: routing)

lemma route_PostPromotionsIDCancel:
  assumes "Req_Method r = ''POST''" "Req_Segments r = [''api'', ''v1'', ''promotions'', v, ''cancel'']" "v \<noteq> []"
  shows "mux_dispatch s r = siw_PostPromotionsIDCancel s v r"
  using assms by (simp add: routing)

lemma route_PostPromotionsIDRetry:
  assumes "Req_Method r = ''POST''" "Req_Segments r = [''api'', ''v1'', ''promotions'', v, ''retry'']" "v \<noteq> []"
  shows "mux_dispatch s r = siw_PostPromotionsIDRetry s v r"
  using assms by (simp add: routing)

lemma route_GetReleases:
  assumes "Req_Method r = ''GET''" "Req_Segments r = [''api'', ''v1'', ''releases'']"
  shows "mux_dispatch s r = siw_GetReleases s r"
  using assms by (simp add: routing)

lemma route_GetTargets:
  assumes "Req_Method r = ''GET''" "Req_Segments r = [''api'', ''v1'', ''targets'']"
  shows "mux_dispatch s r = siw_GetTargets s r"
  using assms by (simp add: routing)

lemma route_GetTargetsNameDrift:
  assumes "Req_Method r = ''GET''" "Req_Segments r = [''api'', ''v1'', ''targets'', v, ''drift'']" "v \<noteq> []"
  shows "mux_dispatch s r = siw_GetTargetsNameDrift s v r"
  using assms by (simp add: routing)

lemma route_GetTargetsNameHealth:
  assumes "Req_Method r = ''GET''" "Req_Segments r = [''api'', ''v1'', ''targets'', v, ''health'']" "v \<noteq> []"
  shows "mux_dispatch s r = siw_GetTargetsNameHealth s v r"
  using assms by (simp add: routing)

section \<open>Binding\<close>

lemma bind_string:
  "binds fmt rt \<Longrightarrow> map_of q n = map_option (\<lambda>v. [value_text fmt v]) (map_option SVString x) \<Longrightarrow>
   rt_BindQueryString rt False n q = Inr x"
  by (cases x) (simp_all add: binds_def binds_query_def)

lemma bind_mandatory_string:
  "binds fmt rt \<Longrightarrow> map_of q n = map_option (\<lambda>v. [value_text fmt v]) (Some (SVString x)) \<Longrightarrow>
   rt_BindQueryString rt True n q = Inr (Some x)"
  by (simp add: binds_def binds_query_def)

lemma bind_time:
  "binds fmt rt \<Longrightarrow> map_of q n = map_option (\<lambda>v. [value_text fmt v]) (map_option SVTime x) \<Longrightarrow>
   rt_BindQueryTime rt False n q = Inr x"
  by (cases x) (simp_all add: binds_def binds_query_def)

lemma bind_int:
  "binds fmt rt \<Longrightarrow> map_of q n = map_option (\<lambda>v. [value_text fmt v]) (map_option SVInt x) \<Longrightarrow>
   rt_BindQueryInt rt False n q = Inr x"
  by (cases x) (simp_all add: binds_def binds_query_def)

lemma bind_absent:
  "binds fmt rt \<Longrightarrow> map_of q n = None \<Longrightarrow>
   rt_BindQueryString rt False n q = Inr None \<and> rt_BindQueryTime rt False n q = Inr None \<and>
   rt_BindQueryInt rt False n q = Inr None"
  by (simp add: binds_def binds_query_def)

lemma bind_path_value:
  "binds fmt (sv_Runtime s) \<Longrightarrow> CHR ''%'' \<notin> set v \<Longrightarrow> bind_path s r n v k wd = k v wd"
  by (simp add: binds_def bind_path_def)

lemma bind_key_value:
  "binds fmt (sv_Runtime s) \<Longrightarrow> map_of (Req_Header r) ''Idempotency-Key'' = map_option (\<lambda>k. [k]) key \<Longrightarrow>
   (\<forall>k. key = Some k \<longrightarrow> CHR ''%'' \<notin> set k) \<Longrightarrow> bind_idempotency_key s r f wd = f key wd"
  by (cases key) (simp_all add: binds_def bind_idempotency_key_def)

text \<open>A request that carries the operation's parameters.\<close>

definition carries :: "(time \<Rightarrow> string) \<Rightarrow> operation \<Rightarrow> HttpRequest \<Rightarrow> bool" where
  "carries fmt op r \<longleftrightarrow>
     Req_Method r = operation_method op \<and> clean_request r \<and> Req_Segments r = api_base @ operation_segments op \<and>
     (operation_params op = [] \<longrightarrow> Req_Query r = []) \<and>
     (\<forall>(n, v) \<in> set (operation_params op). map_of (Req_Query r) n = map_option (\<lambda>v. [value_text fmt v]) v) \<and>
     map_of (Req_Header r) ''Idempotency-Key'' = map_option (\<lambda>k. [k]) (operation_key op)"

text \<open>
  The operations whose parameters survive: a path value is one segment of the path that is
  neither empty nor a dot segment, no value holds a percent sign, and a required parameter is
  there.
\<close>

definition deliverable :: "operation \<Rightarrow> bool" where
  "deliverable op \<longleftrightarrow>
     list_all (\<lambda>v. v \<noteq> [] \<and> v \<noteq> ''.'' \<and> v \<noteq> ''..'' \<and> CHR ''%'' \<notin> set v) (operation_segments op) \<and>
     (\<forall>k. operation_key op = Some k \<longrightarrow> CHR ''%'' \<notin> set k) \<and> op \<noteq> OpGetDiff None"

lemma handle_GetApplications:
  assumes "binds fmt (sv_Runtime s)" "deliverable (OpGetApplications params)" "carries fmt (OpGetApplications params) r"
  shows "mux_dispatch s r wd = operation_handler s (OpGetApplications params) r wd"
proof -
  have run: "mux_dispatch s r = siw_GetApplications s r" using assms(3) by (intro route_GetApplications) (simp_all add: carries_def)
  show ?thesis
  proof (cases params)
    case None
    then have "map_of (Req_Query r) n = None" for n using assms(3) by (simp add: carries_def)
    then show ?thesis using None run bind_absent [OF assms(1)]
      by (simp add: siw_GetApplications_def bind_query_def)
  next
    case (Some p)
    have q: "\<forall>(n, v) \<in> set (operation_params (OpGetApplications (Some p))). map_of (Req_Query r) n = map_option (\<lambda>v. [value_text fmt v]) v"
      using assms(3) Some by (simp add: carries_def)
    note run
  moreover have "rt_BindQueryString (sv_Runtime s) False ''project'' (Req_Query r) = Inr (oa_GetApplicationsParams_Project p)"
    by (rule bind_string [OF assms(1)]) (use q in simp)
  moreover have "rt_BindQueryString (sv_Runtime s) False ''env'' (Req_Query r) = Inr (oa_GetApplicationsParams_Env p)"
    by (rule bind_string [OF assms(1)]) (use q in simp)
  moreover have "rt_BindQueryString (sv_Runtime s) False ''region'' (Req_Query r) = Inr (oa_GetApplicationsParams_Region p)"
    by (rule bind_string [OF assms(1)]) (use q in simp)
  moreover have "rt_BindQueryString (sv_Runtime s) False ''q'' (Req_Query r) = Inr (oa_GetApplicationsParams_Q p)"
    by (rule bind_string [OF assms(1)]) (use q in simp)
    ultimately show ?thesis using Some by (cases p) (simp add: siw_GetApplications_def bind_query_def)
  qed
qed

lemma handle_GetApplicationsName:
  assumes "binds fmt (sv_Runtime s)" "deliverable (OpGetApplicationsName v)" "carries fmt (OpGetApplicationsName v) r"
  shows "mux_dispatch s r wd = operation_handler s (OpGetApplicationsName v) r wd"
proof -
  have "mux_dispatch s r = siw_GetApplicationsName s v r" using assms(2,3) by (intro route_GetApplicationsName) (simp_all add: carries_def deliverable_def)
  then show ?thesis
    using assms by (simp add: siw_GetApplicationsName_def carries_def deliverable_def bind_path_value bind_key_value)
qed

lemma handle_GetApplicationsNameMatrix:
  assumes "binds fmt (sv_Runtime s)" "deliverable (OpGetApplicationsNameMatrix v)" "carries fmt (OpGetApplicationsNameMatrix v) r"
  shows "mux_dispatch s r wd = operation_handler s (OpGetApplicationsNameMatrix v) r wd"
proof -
  have "mux_dispatch s r = siw_GetApplicationsNameMatrix s v r" using assms(2,3) by (intro route_GetApplicationsNameMatrix) (simp_all add: carries_def deliverable_def)
  then show ?thesis
    using assms by (simp add: siw_GetApplicationsNameMatrix_def carries_def deliverable_def bind_path_value bind_key_value)
qed

lemma handle_GetApplicationsNamePromotions:
  assumes "binds fmt (sv_Runtime s)" "deliverable (OpGetApplicationsNamePromotions v)" "carries fmt (OpGetApplicationsNamePromotions v) r"
  shows "mux_dispatch s r wd = operation_handler s (OpGetApplicationsNamePromotions v) r wd"
proof -
  have "mux_dispatch s r = siw_GetApplicationsNamePromotions s v r" using assms(2,3) by (intro route_GetApplicationsNamePromotions) (simp_all add: carries_def deliverable_def)
  then show ?thesis
    using assms by (simp add: siw_GetApplicationsNamePromotions_def carries_def deliverable_def bind_path_value bind_key_value)
qed

lemma handle_GetApplicationsNameReleases:
  assumes "binds fmt (sv_Runtime s)" "deliverable (OpGetApplicationsNameReleases v)" "carries fmt (OpGetApplicationsNameReleases v) r"
  shows "mux_dispatch s r wd = operation_handler s (OpGetApplicationsNameReleases v) r wd"
proof -
  have "mux_dispatch s r = siw_GetApplicationsNameReleases s v r" using assms(2,3) by (intro route_GetApplicationsNameReleases) (simp_all add: carries_def deliverable_def)
  then show ?thesis
    using assms by (simp add: siw_GetApplicationsNameReleases_def carries_def deliverable_def bind_path_value bind_key_value)
qed

lemma handle_GetAudit:
  assumes "binds fmt (sv_Runtime s)" "deliverable (OpGetAudit params)" "carries fmt (OpGetAudit params) r"
  shows "mux_dispatch s r wd = operation_handler s (OpGetAudit params) r wd"
proof -
  have run: "mux_dispatch s r = siw_GetAudit s r" using assms(3) by (intro route_GetAudit) (simp_all add: carries_def)
  show ?thesis
  proof (cases params)
    case None
    then have "map_of (Req_Query r) n = None" for n using assms(3) by (simp add: carries_def)
    then show ?thesis using None run bind_absent [OF assms(1)]
      by (simp add: siw_GetAudit_def bind_query_def)
  next
    case (Some p)
    have q: "\<forall>(n, v) \<in> set (operation_params (OpGetAudit (Some p))). map_of (Req_Query r) n = map_option (\<lambda>v. [value_text fmt v]) v"
      using assms(3) Some by (simp add: carries_def)
    note run
  moreover have "rt_BindQueryString (sv_Runtime s) False ''resource'' (Req_Query r) = Inr (oa_GetAuditParams_Resource p)"
    by (rule bind_string [OF assms(1)]) (use q in simp)
  moreover have "rt_BindQueryString (sv_Runtime s) False ''actor'' (Req_Query r) = Inr (oa_GetAuditParams_Actor p)"
    by (rule bind_string [OF assms(1)]) (use q in simp)
  moreover have "rt_BindQueryString (sv_Runtime s) False ''verb'' (Req_Query r) = Inr (oa_GetAuditParams_Verb p)"
    by (rule bind_string [OF assms(1)]) (use q in simp)
  moreover have "rt_BindQueryTime (sv_Runtime s) False ''from'' (Req_Query r) = Inr (oa_GetAuditParams_From p)"
    by (rule bind_time [OF assms(1)]) (use q in simp)
  moreover have "rt_BindQueryTime (sv_Runtime s) False ''to'' (Req_Query r) = Inr (oa_GetAuditParams_To p)"
    by (rule bind_time [OF assms(1)]) (use q in simp)
  moreover have "rt_BindQueryInt (sv_Runtime s) False ''limit'' (Req_Query r) = Inr (oa_GetAuditParams_Limit p)"
    by (rule bind_int [OF assms(1)]) (use q in simp)
    ultimately show ?thesis using Some by (cases p) (simp add: siw_GetAudit_def bind_query_def)
  qed
qed

lemma handle_GetDiff:
  assumes "binds fmt (sv_Runtime s)" "deliverable (OpGetDiff params)" "carries fmt (OpGetDiff params) r"
  shows "mux_dispatch s r wd = operation_handler s (OpGetDiff params) r wd"
proof -
  have run: "mux_dispatch s r = siw_GetDiff s r" using assms(3) by (intro route_GetDiff) (simp_all add: carries_def)
  show ?thesis
  proof (cases params)
    case None
    then show ?thesis using assms(2) by (simp add: deliverable_def)
  next
    case (Some p)
    have q: "\<forall>(n, v) \<in> set (operation_params (OpGetDiff (Some p))). map_of (Req_Query r) n = map_option (\<lambda>v. [value_text fmt v]) v"
      using assms(3) Some by (simp add: carries_def)
    note run
  moreover have "rt_BindQueryString (sv_Runtime s) True ''mode'' (Req_Query r) = Inr (Some (oa_GetDiffParams_Mode p))"
    by (rule bind_mandatory_string [OF assms(1)]) (use q in simp)
  moreover have "rt_BindQueryString (sv_Runtime s) False ''left'' (Req_Query r) = Inr (oa_GetDiffParams_Left p)"
    by (rule bind_string [OF assms(1)]) (use q in simp)
  moreover have "rt_BindQueryString (sv_Runtime s) False ''right'' (Req_Query r) = Inr (oa_GetDiffParams_Right p)"
    by (rule bind_string [OF assms(1)]) (use q in simp)
    ultimately show ?thesis using Some by (cases p) (simp add: siw_GetDiff_def bind_query_def)
  qed
qed

lemma handle_GetEnvironments:
  assumes "binds fmt (sv_Runtime s)" "deliverable OpGetEnvironments" "carries fmt OpGetEnvironments r"
  shows "mux_dispatch s r wd = operation_handler s OpGetEnvironments r wd"
proof -
  have "mux_dispatch s r = siw_GetEnvironments s r" using assms(2,3) by (intro route_GetEnvironments) (simp_all add: carries_def deliverable_def)
  then show ?thesis
    using assms by (simp add: siw_GetEnvironments_def carries_def deliverable_def bind_path_value bind_key_value)
qed

lemma handle_GetPromotions:
  assumes "binds fmt (sv_Runtime s)" "deliverable (OpGetPromotions params)" "carries fmt (OpGetPromotions params) r"
  shows "mux_dispatch s r wd = operation_handler s (OpGetPromotions params) r wd"
proof -
  have run: "mux_dispatch s r = siw_GetPromotions s r" using assms(3) by (intro route_GetPromotions) (simp_all add: carries_def)
  show ?thesis
  proof (cases params)
    case None
    then have "map_of (Req_Query r) n = None" for n using assms(3) by (simp add: carries_def)
    then show ?thesis using None run bind_absent [OF assms(1)]
      by (simp add: siw_GetPromotions_def bind_query_def)
  next
    case (Some p)
    have q: "\<forall>(n, v) \<in> set (operation_params (OpGetPromotions (Some p))). map_of (Req_Query r) n = map_option (\<lambda>v. [value_text fmt v]) v"
      using assms(3) Some by (simp add: carries_def)
    note run
  moreover have "rt_BindQueryString (sv_Runtime s) False ''state'' (Req_Query r) = Inr (oa_GetPromotionsParams_State p)"
    by (rule bind_string [OF assms(1)]) (use q in simp)
    ultimately show ?thesis using Some by (cases p) (simp add: siw_GetPromotions_def bind_query_def)
  qed
qed

lemma handle_PostPromotions:
  assumes "binds fmt (sv_Runtime s)" "deliverable (OpPostPromotions params body)" "carries fmt (OpPostPromotions params body) r"
  shows "mux_dispatch s r wd = operation_handler s (OpPostPromotions params body) r wd"
proof -
  have "mux_dispatch s r = siw_PostPromotions s r" using assms(2,3) by (intro route_PostPromotions) (simp_all add: carries_def deliverable_def)
  then show ?thesis
    using assms by (simp add: siw_PostPromotions_def carries_def deliverable_def bind_path_value bind_key_value)
qed

lemma handle_GetPromotionsID:
  assumes "binds fmt (sv_Runtime s)" "deliverable (OpGetPromotionsID v)" "carries fmt (OpGetPromotionsID v) r"
  shows "mux_dispatch s r wd = operation_handler s (OpGetPromotionsID v) r wd"
proof -
  have "mux_dispatch s r = siw_GetPromotionsID s v r" using assms(2,3) by (intro route_GetPromotionsID) (simp_all add: carries_def deliverable_def)
  then show ?thesis
    using assms by (simp add: siw_GetPromotionsID_def carries_def deliverable_def bind_path_value bind_key_value)
qed

lemma handle_PostPromotionsIDApprove:
  assumes "binds fmt (sv_Runtime s)" "deliverable (OpPostPromotionsIDApprove v params body)" "carries fmt (OpPostPromotionsIDApprove v params body) r"
  shows "mux_dispatch s r wd = operation_handler s (OpPostPromotionsIDApprove v params body) r wd"
proof -
  have "mux_dispatch s r = siw_PostPromotionsIDApprove s v r" using assms(2,3) by (intro route_PostPromotionsIDApprove) (simp_all add: carries_def deliverable_def)
  then show ?thesis
    using assms by (simp add: siw_PostPromotionsIDApprove_def carries_def deliverable_def bind_path_value bind_key_value)
qed

lemma handle_PostPromotionsIDCancel:
  assumes "binds fmt (sv_Runtime s)" "deliverable (OpPostPromotionsIDCancel v params)" "carries fmt (OpPostPromotionsIDCancel v params) r"
  shows "mux_dispatch s r wd = operation_handler s (OpPostPromotionsIDCancel v params) r wd"
proof -
  have "mux_dispatch s r = siw_PostPromotionsIDCancel s v r" using assms(2,3) by (intro route_PostPromotionsIDCancel) (simp_all add: carries_def deliverable_def)
  then show ?thesis
    using assms by (simp add: siw_PostPromotionsIDCancel_def carries_def deliverable_def bind_path_value bind_key_value)
qed

lemma handle_PostPromotionsIDRetry:
  assumes "binds fmt (sv_Runtime s)" "deliverable (OpPostPromotionsIDRetry v params)" "carries fmt (OpPostPromotionsIDRetry v params) r"
  shows "mux_dispatch s r wd = operation_handler s (OpPostPromotionsIDRetry v params) r wd"
proof -
  have "mux_dispatch s r = siw_PostPromotionsIDRetry s v r" using assms(2,3) by (intro route_PostPromotionsIDRetry) (simp_all add: carries_def deliverable_def)
  then show ?thesis
    using assms by (simp add: siw_PostPromotionsIDRetry_def carries_def deliverable_def bind_path_value bind_key_value)
qed

lemma handle_GetReleases:
  assumes "binds fmt (sv_Runtime s)" "deliverable (OpGetReleases params)" "carries fmt (OpGetReleases params) r"
  shows "mux_dispatch s r wd = operation_handler s (OpGetReleases params) r wd"
proof -
  have run: "mux_dispatch s r = siw_GetReleases s r" using assms(3) by (intro route_GetReleases) (simp_all add: carries_def)
  show ?thesis
  proof (cases params)
    case None
    then have "map_of (Req_Query r) n = None" for n using assms(3) by (simp add: carries_def)
    then show ?thesis using None run bind_absent [OF assms(1)]
      by (simp add: siw_GetReleases_def bind_query_def)
  next
    case (Some p)
    have q: "\<forall>(n, v) \<in> set (operation_params (OpGetReleases (Some p))). map_of (Req_Query r) n = map_option (\<lambda>v. [value_text fmt v]) v"
      using assms(3) Some by (simp add: carries_def)
    note run
  moreover have "rt_BindQueryString (sv_Runtime s) False ''project'' (Req_Query r) = Inr (oa_GetReleasesParams_Project p)"
    by (rule bind_string [OF assms(1)]) (use q in simp)
    ultimately show ?thesis using Some by (cases p) (simp add: siw_GetReleases_def bind_query_def)
  qed
qed

lemma handle_GetTargets:
  assumes "binds fmt (sv_Runtime s)" "deliverable OpGetTargets" "carries fmt OpGetTargets r"
  shows "mux_dispatch s r wd = operation_handler s OpGetTargets r wd"
proof -
  have "mux_dispatch s r = siw_GetTargets s r" using assms(2,3) by (intro route_GetTargets) (simp_all add: carries_def deliverable_def)
  then show ?thesis
    using assms by (simp add: siw_GetTargets_def carries_def deliverable_def bind_path_value bind_key_value)
qed

lemma handle_GetTargetsNameDrift:
  assumes "binds fmt (sv_Runtime s)" "deliverable (OpGetTargetsNameDrift v)" "carries fmt (OpGetTargetsNameDrift v) r"
  shows "mux_dispatch s r wd = operation_handler s (OpGetTargetsNameDrift v) r wd"
proof -
  have "mux_dispatch s r = siw_GetTargetsNameDrift s v r" using assms(2,3) by (intro route_GetTargetsNameDrift) (simp_all add: carries_def deliverable_def)
  then show ?thesis
    using assms by (simp add: siw_GetTargetsNameDrift_def carries_def deliverable_def bind_path_value bind_key_value)
qed

lemma handle_GetTargetsNameHealth:
  assumes "binds fmt (sv_Runtime s)" "deliverable (OpGetTargetsNameHealth v)" "carries fmt (OpGetTargetsNameHealth v) r"
  shows "mux_dispatch s r wd = operation_handler s (OpGetTargetsNameHealth v) r wd"
proof -
  have "mux_dispatch s r = siw_GetTargetsNameHealth s v r" using assms(2,3) by (intro route_GetTargetsNameHealth) (simp_all add: carries_def deliverable_def)
  then show ?thesis
    using assms by (simp add: siw_GetTargetsNameHealth_def carries_def deliverable_def bind_path_value bind_key_value)
qed

lemma dispatch_operation:
  assumes "binds fmt (sv_Runtime s)" "deliverable op" "carries fmt op r"
  shows "mux_dispatch s r wd = operation_handler s op r wd"
  using assms by (cases op) (simp_all only: handle_GetApplications handle_GetApplicationsName handle_GetApplicationsNameMatrix handle_GetApplicationsNamePromotions handle_GetApplicationsNameReleases handle_GetAudit handle_GetDiff handle_GetEnvironments handle_GetPromotions handle_PostPromotions handle_GetPromotionsID handle_PostPromotionsIDApprove handle_PostPromotionsIDCancel handle_PostPromotionsIDRetry handle_GetReleases handle_GetTargets handle_GetTargetsNameDrift handle_GetTargetsNameHealth)

lemma mux_operation:
  assumes "binds fmt (sv_Runtime s)" "deliverable op" "carries fmt op r"
  shows "mux s r wd = operation_handler s op r wd"
  using dispatch_operation [OF assms] assms(3) by (simp add: mux_def ServeMux_clean carries_def)

text \<open>The path of such a request is clean.\<close>

lemma delivered_path:
  assumes "api_url lib segs query u" "list_all (\<lambda>v. v \<noteq> [] \<and> v \<noteq> ''.'' \<and> v \<noteq> ''..'') segs"
  shows "sent_path u = seg_path (api_base @ segs)" "cleanPath (sent_path u) = sent_path u"
proof -
  show sent: "sent_path u = seg_path (api_base @ segs)"
    using assms(1) by (simp add: sent_path_def api_url_def seg_path_simps)
  show "cleanPath (sent_path u) = sent_path u"
    unfolding sent by (rule cleanPath_seg_path) (use assms(2) in simp_all)
qed

section \<open>Travelling\<close>

definition operation_path :: "operation \<Rightarrow> string" where
  "operation_path op = concat (map (\<lambda>s. CHR ''/'' # s) (api_base @ operation_segments op))"

lemma builds_carries:
  assumes "builds fmt lib server op body" "styles fmt lib" "deliverable op"
    "\<forall>n \<in> fst ` set (operation_params op). query_name n" "distinct (map fst (operation_params op))"
  shows "\<exists>req. operation_request lib server op = Inr req \<and> Req_Body (deliver req) = body \<and> carries fmt op (deliver req) \<and>
    Req_Path (deliver req) = operation_path op"
proof -
  let ?ps = "operation_params op"
  obtain u where req: "operation_request lib server op =
      Inr \<lparr>cr_Method = operation_method op, cr_URL = u, cr_Header = operation_header op, cr_Body = body\<rparr>"
    and u: "api_url lib (operation_segments op) (param_fragments fmt ?ps) u"
    using assms(1) by (auto simp: builds_def)
  have plain: "list_all (\<lambda>v. v \<noteq> [] \<and> v \<noteq> ''.'' \<and> v \<noteq> ''..'') (operation_segments op)"
    using assms(3) by (simp add: deliverable_def list_all_iff)
  note sent = delivered_path [OF u plain]
  let ?r = "deliver \<lparr>cr_Method = operation_method op, cr_URL = u, cr_Header = operation_header op, cr_Body = body\<rparr>"
  have names: "query_name n" if "(n, v) \<in> set (present fmt ?ps)" for n v
    using present_names [OF that] assms(4) by blast
  have "map_of (Req_Query ?r) n = map_option (\<lambda>v. [v]) (map_of (present fmt ?ps) n)" for n
    using u map_of_parse_query [OF names distinct_present [OF assms(5)]]
    by (simp add: deliver_def api_url_def param_fragments_def)
  then have "map_of (Req_Query ?r) n = map_option (\<lambda>v. [value_text fmt v]) v" if "(n, v) \<in> set ?ps" for n v
    using map_of_present [OF assms(5) that, of fmt] by (simp add: option.map_comp comp_def)
  moreover have "Req_Segments ?r = api_base @ operation_segments op"
    using sent(1) segments_of_seg_path [of "api_base @ operation_segments op"] by (simp add: deliver_def)
  moreover have "?ps = [] \<longrightarrow> Req_Query ?r = []"
    using u by (auto simp: deliver_def api_url_def param_fragments_def parse_query_def query_pair_def map_filter_simps)
  moreover have "map_of (operation_header op) ''Idempotency-Key'' = map_option (\<lambda>k. [k]) (operation_key op)"
    by (simp add: operation_header_def split: option.splits)
  moreover have "clean_request ?r" using sent(2) by (simp add: clean_request_def deliver_def)
  ultimately have "carries fmt op ?r" by (auto simp: carries_def deliver_def)
  moreover have "Req_Path ?r = operation_path op"
    using sent(1) unescape_seg_path [of "api_base @ operation_segments op"]
    by (simp add: deliver_def operation_path_def)
  ultimately show ?thesis using req by (simp add: deliver_def)
qed

lemma query_names:
  "query_name ''project''" "query_name ''env''" "query_name ''region''" "query_name ''q''" "query_name ''resource''"
  "query_name ''actor''" "query_name ''verb''" "query_name ''from''" "query_name ''to''" "query_name ''limit''"
  "query_name ''mode''" "query_name ''left''" "query_name ''right''" "query_name ''state''"
  by (simp_all add: query_name_def is_letter_def is_digit_def)

lemma operation_param_names: "\<forall>n \<in> fst ` set (operation_params op). query_name n"
  by (cases op) (auto simp: query_names split: option.splits)

lemma operation_params_distinct: "distinct (map fst (operation_params op))"
  by (cases op) (simp_all split: option.split)

lemma operation_builds:
  assumes "api_server lib server" "styles fmt lib" "deliverable op" "operation_body lib op = Inr body"
  shows "builds fmt lib server op body"
  using assms(3,4) by (cases op) (auto simp: deliverable_def intro!: build_GetApplications [OF assms(1,2)] build_GetApplicationsName [OF assms(1,2)] build_GetApplicationsNameMatrix [OF assms(1,2)] build_GetApplicationsNamePromotions [OF assms(1,2)] build_GetApplicationsNameReleases [OF assms(1,2)] build_GetAudit [OF assms(1,2)] build_GetDiff [OF assms(1,2)] build_GetEnvironments [OF assms(1,2)] build_GetPromotions [OF assms(1,2)] build_PostPromotions [OF assms(1,2)] build_GetPromotionsID [OF assms(1,2)] build_PostPromotionsIDApprove [OF assms(1,2)] build_PostPromotionsIDCancel [OF assms(1,2)] build_PostPromotionsIDRetry [OF assms(1,2)] build_GetReleases [OF assms(1,2)] build_GetTargets [OF assms(1,2)] build_GetTargetsNameDrift [OF assms(1,2)] build_GetTargetsNameHealth [OF assms(1,2)])

section \<open>Samples\<close>

text \<open>Runtime libraries that keep their documentation, and a server URL.\<close>

definition sample_client_lib :: ClientLib where
  "sample_client_lib =
     \<lparr>cb_parseAuthority = (\<lambda>h. Inr h),
      cb_StyleParam = (\<lambda>style explode n v loc.
        case loc of
          ParamLocationPath \<Rightarrow> Inr (escape encodePathSegment (value_text itoa v))
        | ParamLocationQuery \<Rightarrow> Inr (fragment_of (n, value_text itoa v))
        | ParamLocationHeader \<Rightarrow> Inr (value_text itoa v)),
      cb_MarshalPromotionRequest = (\<lambda>_. Inr ''{}''), cb_MarshalApproveBody = (\<lambda>_. Inr ''{}'')\<rparr>"

lemma styles_sample: "styles itoa sample_client_lib"
  by (simp add: styles_def sample_client_lib_def)

text \<open>Reading a decimal number back.\<close>

definition digits_val :: "string \<Rightarrow> nat" where
  "digits_val s = foldl (\<lambda>n c. 10 * n + (of_char c - 48)) 0 s"

definition atoi :: "string \<Rightarrow> int" where
  "atoi s = (if has_prefix s ''-'' then - int (digits_val (tl s)) else int (digits_val s))"

lemma digits_val_digits: "digits_val (digits n) = n"
proof (induction n rule: digits.induct)
  case (1 n)
  show ?case
  proof (cases "n < 10")
    case False
    then have "digits n = digits (n div 10) @ [char_of (n mod 10 + 48)]" by (subst digits.simps) simp
    then show ?thesis using 1 False by (simp add: digits_val_def of_char_of)
  qed (simp add: digits.simps digits_val_def of_char_of)
qed

lemma digits_no_sign: "\<not> has_prefix (digits n) ''-''"
proof (induction n rule: digits.induct)
  case (1 n)
  show ?case
  proof (cases "n < 10")
    case True
    have "(of_char (char_of (n + 48)) :: nat) = n + 48" using True by (simp add: of_char_of)
    moreover have "(of_char (CHR ''-'') :: nat) = 45" by simp
    ultimately have "(of_char (char_of (n + 48) :: char) :: nat) \<noteq> of_char (CHR ''-'')" by simp
    then have "char_of (n + 48) \<noteq> CHR ''-''" by metis
    then show ?thesis using True by (simp add: digits.simps)
  next
    case False
    then have "digits n = digits (n div 10) @ [char_of (n mod 10 + 48)]" by (subst digits.simps) simp
    moreover have "digits (n div 10) \<noteq> []" by (subst digits.simps) simp
    ultimately show ?thesis using 1 False by (cases "digits (n div 10)") auto
  qed
qed

lemma atoi_itoa: "atoi (itoa i) = i"
  by (simp add: atoi_def itoa_def digits_val_digits digits_no_sign)

definition bind_with :: "(string \<Rightarrow> 'v) \<Rightarrow> 'v query_binder" where
  "bind_with read mandatory n q =
     (case map_of q n of
        None \<Rightarrow> if mandatory then Inl \<lparr>be_required = True, be_err = Opaque n\<rparr> else Inr None
      | Some vs \<Rightarrow> Inr (Some (read (hd vs))))"

definition sample_binding_runtime :: Runtime where
  "sample_binding_runtime = sample_runtime\<lparr>rt_BindQueryString := bind_with (\<lambda>v. v),
     rt_BindQueryTime := bind_with atoi, rt_BindQueryInt := bind_with atoi\<rparr>"

lemma binds_sample: "binds itoa sample_binding_runtime"
  by (simp add: binds_def binds_query_def bind_with_def sample_binding_runtime_def sample_runtime_def atoi_itoa)

abbreviation sample_server :: string where
  "sample_server \<equiv> ''http://localhost:8443/api/v1/''"

lemma api_server_sample: "api_server sample_client_lib sample_server"
proof -
  let ?u = "empty_URL\<lparr>URL_Scheme := ''http'', URL_Host := ''localhost:8443'', URL_Path := ''/api/v1/''\<rparr>"
  have "url_Parse (\<lambda>h. Inr h) sample_server = Inr ?u" by code_simp
  moreover have "canonical encodePath ''/api/v1/'' = Some ''/api/v1/''" by code_simp
  moreover have "seg_path api_base @ ''/'' = ''/api/v1/''" by code_simp
  moreover have "list_all is_scheme_char ''http'' \<and> is_letter (CHR ''h'') \<and> to_lower ''http'' = ''http''" by code_simp
  ultimately show ?thesis
    by (simp add: api_server_def http_url_def sample_client_lib_def empty_URL_def)
qed

section \<open>Claims\<close>

text \<open>C7: A call reaches its handler.  For each of the eighteen operations, with parameters that
  survive a path, the request the generated client builds against the API's base URL is
  delivered to that operation's strict handler, with the caller's parameters and the encoded
  body, whatever escaping and query encoding lie between.\<close>
theorem requests_reach_their_handlers:
  assumes "api_server lib server" and "styles fmt lib" and "binds fmt (sv_Runtime s)"
    and "deliverable op" and "operation_body lib op = Inr body"
  shows "\<exists>req. operation_request lib server op = Inr req \<and> Req_Body (deliver req) = body \<and>
    mux s (deliver req) wd = operation_handler s op (deliver req) wd"
  using builds_carries [OF operation_builds [OF assms(1,2,4,5)] assms(2,4)
      operation_param_names operation_params_distinct]
    mux_operation [OF assms(3,4)] by blast

theorem requests_reach_their_handlers_witness:
  "\<exists>req. NewGetApplicationsNameMatrixRequest sample_client_lib sample_server ''shop/eu west?'' = Inr req \<and>
     mux (deny_all\<lparr>sv_Runtime := sample_binding_runtime\<rparr>) (deliver req) new_world =
       sh_GetApplicationsNameMatrix (deny_all\<lparr>sv_Runtime := sample_binding_runtime\<rparr>) ''shop/eu west?'' (deliver req) new_world"
proof -
  have "deliverable (OpGetApplicationsNameMatrix ''shop/eu west?'')" by (simp add: deliverable_def)
  from requests_reach_their_handlers [OF api_server_sample styles_sample _ this,
      of "deny_all\<lparr>sv_Runtime := sample_binding_runtime\<rparr>"]
  show ?thesis using binds_sample by auto
qed

lemma dotdot_url:
  assumes "api_server lib server"
  shows "\<exists>u. operation_url lib server (seg_path [''applications'', ''..'', ''releases'']) = Inr u \<and> api_url lib [''releases''] [] u"
proof -
  let ?segs = "[''applications'', ''..'', ''releases'']"
  obtain u where u: "url_Parse (cb_parseAuthority lib) server = Inr u" "http_url (cb_parseAuthority lib) u"
    "URL_Path u = seg_path api_base @ ''/''" using assms by (auto simp: api_server_def)
  let ?u = "empty_URL\<lparr>URL_Scheme := URL_Scheme u, URL_Host := URL_Host u, URL_Path := seg_path (api_base @ [''releases''])\<rparr>"
  have "resolvePath (seg_path api_base @ ''/'') (''.'' @ seg_path ?segs) = seg_path (api_base @ [''releases''])" by code_simp
  then have "url_ParseRef (cb_parseAuthority lib) u (''.'' @ seg_path ?segs) = Inr ?u"
    unfolding url_ParseRef_def url_Parse_relative [of ?segs, OF list.distinct(2)]
    using u(3) canonical_seg_path [of "api_base @ [''releases'']"]
    by (simp add: ResolveReference_def keep_path_def set_path_def empty_URL_def)
  moreover have "has_prefix (seg_path ?segs) ''/''" by (rule seg_path_prefix) simp
  ultimately have "operation_url lib server (seg_path ?segs) = Inr ?u"
    unfolding operation_url_def using u(1) by simp
  moreover have "http_url (cb_parseAuthority lib) ?u"
    using u(2) unfolding http_url_def by (simp add: empty_URL_def seg_path_facts)
  ultimately show ?thesis by (auto simp: api_url_def empty_URL_def)
qed

text \<open>C8: A name of two dots leaves its resource.  Escaping a path parameter leaves dots alone and
  resolving the reference then removes them with the segment before, so the request for the
  releases of the application \<^verbatim>\<open>..\<close> is answered by the handler of the releases of the whole
  fleet, and not with an error.\<close>
theorem dot_name_leaves_its_resource:
  assumes "api_server lib server" and "styles fmt lib" and "binds fmt (sv_Runtime s)"
  shows "\<exists>req. NewGetApplicationsNameReleasesRequest lib server ''..'' = Inr req \<and>
    mux s (deliver req) wd = sh_GetReleases s \<lparr>oa_GetReleasesParams_Project = None\<rparr> (deliver req) wd"
proof -
  obtain u where u: "operation_url lib server (seg_path [''applications'', ''..'', ''releases'']) = Inr u"
    "api_url lib [''releases''] [] u" using dotdot_url [OF assms(1)] by blast
  let ?req = "\<lparr>cr_Method = ''GET'', cr_URL = u, cr_Header = [], cr_Body = []\<rparr>"
  have "''/applications/'' @ escape encodePathSegment ''..'' @ ''/releases'' = seg_path [''applications'', ''..'', ''releases'']"
    by code_simp
  then have "NewGetApplicationsNameReleasesRequest lib server ''..'' = Inr ?req"
    unfolding NewGetApplicationsNameReleasesRequest_def styled_path [OF assms(2)]
    using u http_NewRequest_api [OF u(2)] by simp
  moreover have "carries fmt (OpGetReleases None) (deliver ?req)"
    using u(2) delivered_path [OF u(2)] segments_of_seg_path [of "api_base @ [''releases'']"]
    by (simp add: carries_def clean_request_def deliver_def api_url_def parse_query_def query_pair_def map_filter_simps)
  moreover have "deliverable (OpGetReleases None)" by (simp add: deliverable_def)
  ultimately show ?thesis using mux_operation [OF assms(3), of "OpGetReleases None"] by auto
qed

theorem dot_name_leaves_its_resource_witness:
  "\<exists>req. NewGetApplicationsNameReleasesRequest sample_client_lib sample_server ''..'' = Inr req \<and>
     mux (deny_all\<lparr>sv_Runtime := sample_binding_runtime\<rparr>) (deliver req) new_world =
       sh_GetReleases (deny_all\<lparr>sv_Runtime := sample_binding_runtime\<rparr>) \<lparr>oa_GetReleasesParams_Project = None\<rparr>
         (deliver req) new_world"
  by (rule dot_name_leaves_its_resource [OF api_server_sample styles_sample]) (simp add: binds_sample)

end
