(* ===== verification/Cli_Over_Http.thy ===== *)
theory Cli_Over_Http
  imports Cli_Commands Api_Client Client_Server
begin

text \<open>
  The read verbs of \<^verbatim>\<open>keleustesctl\<close> end to end: the command line's client
  (\<^verbatim>\<open>internal/cli/apiclient.go\<close>), the generated client, the wire, the server with its
  middlewares and the generated router, and back.  What is printed is what a call on the
  server's read model gives.
\<close>

section \<open>The client of the command line\<close>

definition authEditor :: RequestEditorFn where
  "authEditor req = Inr (header_set ''Authorization'' ''Bearer dev'' req)"

definition newAPIClient :: "'w HttpRequestDoer \<Rightarrow> string \<Rightarrow> (goerr, 'w Client) result" where
  "newAPIClient dflt base = NewClientWithResponses dflt base [WithRequestEditorFn authEditor]"

text \<open>What the commands use of the generated client.\<close>

definition as_api_client :: "ClientLib \<Rightarrow> JsonDecoders \<Rightarrow> unit Client \<Rightarrow> api_client" where
  "as_api_client lib jd c =
     \<lparr>ac_GetApplications = map_sum id
        (\<lambda>r. \<lparr>ar_JSON200 = map_option snd (GetApplicationsResponse_JSON200 r),
              ar_StatusCode = GetApplicationsResponse_StatusCode r, ar_Body = GetApplicationsResponse_Body r\<rparr>)
        (fst (GetApplicationsWithResponse lib jd c
           (Some \<lparr>oa_GetApplicationsParams_Project = None, oa_GetApplicationsParams_Env = None,
                  oa_GetApplicationsParams_Region = None, oa_GetApplicationsParams_Q = None\<rparr>) [] ())),
      ac_GetApplicationsName = (\<lambda>name. map_sum id
        (\<lambda>r. \<lparr>ar_JSON200 = GetApplicationsNameResponse_JSON200 r,
              ar_StatusCode = GetApplicationsNameResponse_StatusCode r, ar_Body = GetApplicationsNameResponse_Body r\<rparr>)
        (fst (GetApplicationsNameWithResponse lib jd c name [] ()))),
      ac_GetApplicationsNameMatrix = (\<lambda>name. map_sum id
        (\<lambda>r. \<lparr>ar_JSON200 = GetApplicationsNameMatrixResponse_JSON200 r,
              ar_StatusCode = GetApplicationsNameMatrixResponse_StatusCode r,
              ar_Body = GetApplicationsNameMatrixResponse_Body r\<rparr>)
        (fst (GetApplicationsNameMatrixWithResponse lib jd c name [] ()))),
      ac_GetApplicationsNameReleases = (\<lambda>name. map_sum id
        (\<lambda>r. \<lparr>ar_JSON200 = GetApplicationsNameReleasesResponse_JSON200 r,
              ar_StatusCode = GetApplicationsNameReleasesResponse_StatusCode r,
              ar_Body = GetApplicationsNameReleasesResponse_Body r\<rparr>)
        (fst (GetApplicationsNameReleasesWithResponse lib jd c name [] ()))),
      ac_GetApplicationsNamePromotions = (\<lambda>name. map_sum id
        (\<lambda>r. \<lparr>ar_JSON200 = GetApplicationsNamePromotionsResponse_JSON200 r,
              ar_StatusCode = GetApplicationsNamePromotionsResponse_StatusCode r,
              ar_Body = GetApplicationsNamePromotionsResponse_Body r\<rparr>)
        (fst (GetApplicationsNamePromotionsWithResponse lib jd c name [] ()))),
      ac_GetDiff = (\<lambda>params. map_sum id
        (\<lambda>r. \<lparr>ar_JSON200 = GetDiffResponse_JSON200 r,
              ar_StatusCode = GetDiffResponse_StatusCode r, ar_Body = GetDiffResponse_Body r\<rparr>)
        (fst (GetDiffWithResponse lib jd c (Some params) [] ())))\<rparr>"

text \<open>A transport to a server in the same world.\<close>

definition server_doer :: "(int \<Rightarrow> string) \<Rightarrow> Server \<Rightarrow> 8 word list option \<Rightarrow> unit HttpRequestDoer" where
  "server_doer st s rand_read req w =
     (Inr (receive st (rt_Encode (sv_Runtime s)) (snd (Server_Handler s rand_read (deliver req) new_world))), w)"

section \<open>Through the middlewares\<close>

lemma bearer_dev: "header_get r ''Authorization'' = ''Bearer dev'' \<Longrightarrow> bearerToken r = Some ''dev''"
proof -
  have "equal_fold (take (length ''Bearer '') ''Bearer dev'') ''Bearer '' \<and>
      trim_space (drop (length ''Bearer '') ''Bearer dev'') = ''dev''" by code_simp
  then show "header_get r ''Authorization'' = ''Bearer dev'' \<Longrightarrow> bearerToken r = Some ''dev''"
    by (simp add: bearerToken_def)
qed

lemma auth_editor_carries:
  assumes "carries fmt op (deliver req)"
  shows "carries fmt op (deliver (header_set ''Authorization'' v req))"
    and "header_get (deliver (header_set ''Authorization'' v req)) ''Authorization'' = v"
    and "Req_Path (deliver (header_set ''Authorization'' v req)) = Req_Path (deliver req)"
  using assms by (auto simp: carries_def clean_request_def deliver_def header_set_def header_get_def update_conv')

lemma served:
  assumes "binds fmt (sv_Runtime s)" "deliverable op" "carries fmt op r" "header_get r ''Authorization'' = ''Bearer dev''"
  obtains r' wd wd' where "operation_handler s op r' wd = (False, wd')" "fresh_world wd" "Req_Path r' = Req_Path r"
    and "receive st enc (snd (Server_Handler s rand_read r new_world)) = receive st enc wd'"
proof -
  let ?r = "r\<lparr>Req_ctxRequestID := Some (request_id rand_read r)\<rparr>"
  define r' where "r' = withIdentity ?r (if AuthConfig_Required (sv_authCfg s) then identityFromToken ''dev'' else StubIdentity)"
  let ?wd = "inner_world rand_read r new_world"
  have tok: "bearerToken ?r = Some ''dev''" by (rule bearer_dev) (use assms(4) in \<open>simp add: header_get_def\<close>)
  have carry: "carries fmt op r'" using assms(3) by (auto simp: carries_def clean_request_def r'_def withIdentity_def)
  obtain p wd' where run: "operation_handler s op r' ?wd = (p, wd')" by fastforce
  have m: "mux s r' ?wd = (p, wd')" using mux_operation [OF assms(1,2) carry] run by simp
  then have p: "\<not> p" using mux_steps [of s r'] by (auto simp: stepping_def) (metis fst_conv)
  have "auth_Middleware (sv_authCfg s) (mux s) ?r ?wd = mux s r' ?wd"
    using tok by (simp add: auth_Middleware_def r'_def)
  then have chain: "recoverMiddleware (auth_Middleware (sv_authCfg s) (mux s)) ?r ?wd = (False, wd')"
    using m p by (simp add: recoverMiddleware_def)
  have "w_status (wd_writer new_world) = None" by (simp add: new_world_def)
  from chain_run [OF steps_only_mux this chain]
  have "wd_writer (snd (Server_Handler s rand_read r new_world)) = wd_writer wd'" by (simp add: Server_Handler_def)
  then have "receive st enc (snd (Server_Handler s rand_read r new_world)) = receive st enc wd'"
    by (simp add: receive_def)
  moreover have "fresh_world ?wd" by (simp add: fresh_world_def inner_world_def SetHeader_def new_world_def)
  moreover have "Req_Path r' = Req_Path r" by (simp add: r'_def withIdentity_def)
  ultimately show ?thesis using run p by (intro that [of r' ?wd wd']) simp_all
qed

lemma receive_problem:
  assumes "fresh_world wd"
  shows "receive st enc (snd (onError s r err wd)) =
    \<lparr>hr_Status = st (oa_Problem_Status (classify err)), hr_StatusCode = oa_Problem_Status (classify err),
     hr_Header = map (\<lambda>(k, v). (k, [v])) (AList.update ''Content-Type'' ''application/problem+json'' (w_header (wd_writer wd))),
     hr_Body = Inr (body_text enc (BodyProblem ((classify err)\<lparr>oa_Problem_Instance := Some (Req_Path r)\<rparr>)))\<rparr>"
proof -
  have "fresh_world (Log l wd)" for l using assms by (simp add: fresh_world_def Log_def)
  moreover have "w_header (wd_writer (Log l wd)) = w_header (wd_writer wd)" for l by (simp add: Log_def)
  ultimately show ?thesis using assms
    by (simp add: onError_def writeProblem_def receive_written Let_def)
qed

section \<open>One exchange\<close>

text \<open>A client of the command line whose transport leads to the server.\<close>

definition leads_to :: "(int \<Rightarrow> string) \<Rightarrow> Server \<Rightarrow> 8 word list option \<Rightarrow> unit Client \<Rightarrow> bool" where
  "leads_to st s rand_read c \<longleftrightarrow>
     Client_RequestEditors c = [authEditor] \<and> Client_Client c = Some (server_doer st s rand_read)"

lemma newAPIClient_leads_to:
  assumes "newAPIClient (server_doer st s rand_read) base = Inr c"
  shows "leads_to st s rand_read c"
  using assms
  by (auto simp: newAPIClient_def NewClientWithResponses_def NewClient_def WithRequestEditorFn_def leads_to_def Let_def
      split: if_splits)

text \<open>What the value on the wire is, for the result of an operation.\<close>

definition wire_value :: "operation \<Rightarrow> ('v \<Rightarrow> ApiResponse) \<Rightarrow> (goerr, 'v) result \<Rightarrow> ApiResponse" where
  "wire_value op payload res =
     (case res of
        Inr v \<Rightarrow> payload v
      | Inl err \<Rightarrow> RProblem ((classify err)\<lparr>oa_Problem_Instance := Some (operation_path op)\<rparr>))"

definition survives :: "encoder \<Rightarrow> JsonDecoders \<Rightarrow> ApiResponse \<Rightarrow> bool" where
  "survives enc jd v \<longleftrightarrow> (\<exists>txt. enc v = Inr txt \<and> decodes jd txt v)"

definition answers :: "JsonDecoders \<Rightarrow> operation \<Rightarrow> ('v \<Rightarrow> ApiResponse) \<Rightarrow> (goerr, 'v) result \<Rightarrow> HttpResponse \<Rightarrow> bool" where
  "answers jd op payload res rsp \<longleftrightarrow>
     (\<exists>txt. hr_Body rsp = Inr txt \<and> decodes jd txt (wire_value op payload res)) \<and>
     (case res of
        Inr v \<Rightarrow> is_json rsp 200
      | Inl err \<Rightarrow> hr_StatusCode rsp = oa_Problem_Status (classify err) \<and> \<not> is_json rsp 200)"

text \<open>An operation whose handler ends in the visit of a 200 response or in the error sink.\<close>

definition responds :: "Server \<Rightarrow> operation \<Rightarrow> ('v \<Rightarrow> ApiResponse) \<Rightarrow> (goerr, 'v) result \<Rightarrow> bool" where
  "responds s op payload res \<longleftrightarrow>
     (\<forall>r wd. operation_handler s op r wd =
        (case res of
           Inl err \<Rightarrow> onError s r err wd
         | Inr v \<Rightarrow>
             (case write_buffered (rt_Encode (sv_Runtime s)) (payload v) ''application/json'' 200 wd of
                (Some err, wd) \<Rightarrow> onError s r err wd
              | (None, wd) \<Rightarrow> (False, wd))))"

lemma exchange:
  assumes "leads_to st s rand_read c" "api_server lib (Client_Server c)" "styles fmt lib" "binds fmt (sv_Runtime s)"
    and "deliverable op" "operation_body lib op = Inr body" "responds s op payload res"
    and "survives (rt_Encode (sv_Runtime s)) jd (wire_value op payload res)"
  shows "\<exists>rsp. send_request c (operation_request lib (Client_Server c) op) [] w = (Inr rsp, w) \<and>
    answers jd op payload res rsp"
proof -
  let ?enc = "rt_Encode (sv_Runtime s)"
  obtain req where req: "operation_request lib (Client_Server c) op = Inr req" "carries fmt op (deliver req)"
    "Req_Path (deliver req) = operation_path op"
    using builds_carries [OF operation_builds [OF assms(2,3,5,6)] assms(3,5)
        operation_param_names operation_params_distinct] by blast
  let ?req = "header_set ''Authorization'' ''Bearer dev'' req"
  note carry = auth_editor_carries [OF req(2), of "''Bearer dev''"]
  define rsp where "rsp = receive st ?enc (snd (Server_Handler s rand_read (deliver ?req) new_world))"
  have send: "send_request c (operation_request lib (Client_Server c) op) [] w = (Inr rsp, w)"
    using assms(1) req(1)
    by (simp add: send_request_def leads_to_def applyEditors_def authEditor_def server_doer_def rsp_def)
  obtain r' wd wd' where run: "operation_handler s op r' wd = (False, wd')" and fresh: "fresh_world wd"
    and path: "Req_Path r' = Req_Path (deliver ?req)" and rsp: "rsp = receive st ?enc wd'"
    unfolding rsp_def by (rule served [OF assms(4,5) carry(1,2)]) blast
  obtain t where t: "?enc (wire_value op payload res) = Inr t" "decodes jd t (wire_value op payload res)"
    using assms(8) by (auto simp: survives_def)
  have "answers jd op payload res rsp"
  proof (cases res)
    case (Inr v)
    then have "wd' = Write (BodyJSON t) (WriteHeader 200 (SetHeader ''Content-Type'' ''application/json'' wd))"
      using assms(7) run t(1) by (simp add: responds_def wire_value_def write_buffered_ok)
    then show ?thesis using t(2) Inr fresh by (simp add: answers_def rsp trip_simps)
  next
    case (Inl err)
    then have "wd' = snd (onError s r' err wd)" using assms(7) run by (simp add: responds_def)
    moreover have "oa_Problem_Status (classify err) \<noteq> 200" using classify_status [of err] by auto
    ultimately show ?thesis
      using t Inl fresh path carry(3) req(3)
      by (simp add: answers_def rsp receive_problem is_json_header json_content_types wire_value_def)
  qed
  then show ?thesis using send by blast
qed

section \<open>The six verbs\<close>

datatype verb =
    VAppList
  | VAppGet string
  | VMatrix "string list"
  | VReleaseList string
  | VDiff string
  | VBlockers string

primrec run_verb :: "cli_env \<Rightarrow> 'w stream \<Rightarrow> verb \<Rightarrow> 'w \<Rightarrow> goerr option \<times> 'w" where
  "run_verb env put VAppList w = runAppList env put w"
| "run_verb env put (VAppGet name) w = runAppGet env put name w"
| "run_verb env put (VMatrix args) w = runMatrix env put args w"
| "run_verb env put (VReleaseList app) w = runReleaseList env put app w"
| "run_verb env put (VDiff app) w = runDiff env put app w"
| "run_verb env put (VBlockers app) w = runBlockers env put app w"

definition matrix_name :: "string list \<Rightarrow> string" where
  "matrix_name args = (case args of [name] \<Rightarrow> name | _ \<Rightarrow> ''all'')"

definition cli_diff_params :: "cli_env \<Rightarrow> string \<Rightarrow> oa_GetDiffParams" where
  "cli_diff_params env app = diff_params app (env_Flag env ''from'') (env_Flag env ''to'')"

primrec verb_operation :: "cli_env \<Rightarrow> verb \<Rightarrow> operation" where
  "verb_operation env VAppList = OpGetApplications
     (Some \<lparr>oa_GetApplicationsParams_Project = None, oa_GetApplicationsParams_Env = None,
            oa_GetApplicationsParams_Region = None, oa_GetApplicationsParams_Q = None\<rparr>)"
| "verb_operation env (VAppGet name) = OpGetApplicationsName name"
| "verb_operation env (VMatrix args) = OpGetApplicationsNameMatrix (matrix_name args)"
| "verb_operation env (VReleaseList app) = OpGetApplicationsNameReleases app"
| "verb_operation env (VDiff app) = OpGetDiff (Some (cli_diff_params env app))"
| "verb_operation env (VBlockers app) = OpGetApplicationsNamePromotions app"

definition no_filter :: ApplicationFilter where
  "no_filter = \<lparr>ApplicationFilter_Project = [], ApplicationFilter_Env = [], ApplicationFilter_Region = [],
     ApplicationFilter_Q = []\<rparr>"

definition diff_query :: "oa_GetDiffParams \<Rightarrow> DiffQuery" where
  "diff_query p = \<lparr>DiffQuery_Mode = oa_GetDiffParams_Mode p, DiffQuery_Left = opt_val (oa_GetDiffParams_Left p),
     DiffQuery_Right = opt_val (oa_GetDiffParams_Right p)\<rparr>"

text \<open>
  The specification: the same verb on the read model itself.  A result is rendered; an error
  is told by the problem it is classified as.
\<close>

definition problem_error :: "string \<Rightarrow> oa_Problem \<Rightarrow> goerr" where
  "problem_error operation p =
     Opaque (operation @ '': '' @
       (case oa_Problem_Detail p of Some d \<Rightarrow> if d \<noteq> [] then d else oa_Problem_Title p | None \<Rightarrow> oa_Problem_Title p) @
       '' (type='' @ oa_Problem_Type p @ '', http '' @ itoa (oa_Problem_Status p) @ '')'')"

definition direct ::
  "string \<Rightarrow> (goerr, 'v) result \<Rightarrow> ('v \<Rightarrow> 'w \<Rightarrow> goerr option \<times> 'w) \<Rightarrow> 'w \<Rightarrow> goerr option \<times> 'w" where
  "direct operation res render w =
     (case res of Inl err \<Rightarrow> (Some (problem_error operation (classify err)), w) | Inr v \<Rightarrow> render v w)"

primrec direct_verb :: "cli_env \<Rightarrow> ReadModel \<Rightarrow> 'w stream \<Rightarrow> verb \<Rightarrow> 'w \<Rightarrow> goerr option \<times> 'w" where
  "direct_verb env rm put VAppList w =
     direct ''list applications'' (rm_ListApplications rm no_filter) (\<lambda>page. renderApplications put (ApplicationsPage_Items page)) w"
| "direct_verb env rm put (VAppGet name) w =
     direct (''get application '' @ go_quote name) (rm_GetApplication rm name) (\<lambda>a. renderApplications put [a]) w"
| "direct_verb env rm put (VMatrix args) w =
     direct ''matrix'' (rm_GetMatrix rm (matrix_name args))
       (\<lambda>m. renderMatrix (env_FormatTime env) put m (env_Flag env ''env'')) w"
| "direct_verb env rm put (VReleaseList app) w =
     direct ''list releases'' (rm_ListApplicationReleases rm app) (renderReleases (env_FormatTime env) put) w"
| "direct_verb env rm put (VDiff app) w =
     direct ''diff'' (rm_GetDiff rm (diff_query (cli_diff_params env app))) (renderDiff put) w"
| "direct_verb env rm put (VBlockers app) w =
     direct ''blockers'' (rm_ListApplicationPromotions rm app)
       (\<lambda>ps. renderPromotions put (blocked_to (env_Flag env ''to'') ps)) w"

text \<open>The one value that crosses the wire.\<close>

primrec verb_wire_value :: "cli_env \<Rightarrow> ReadModel \<Rightarrow> verb \<Rightarrow> ApiResponse" where
  "verb_wire_value env rm VAppList = wire_value (verb_operation env VAppList)
     (\<lambda>page. RApplications (ApplicationsPage_Items page) (ApplicationsPage_AsOf page)) (rm_ListApplications rm no_filter)"
| "verb_wire_value env rm (VAppGet name) = wire_value (OpGetApplicationsName name) RApplication (rm_GetApplication rm name)"
| "verb_wire_value env rm (VMatrix args) = wire_value (OpGetApplicationsNameMatrix (matrix_name args)) RMatrix
     (rm_GetMatrix rm (matrix_name args))"
| "verb_wire_value env rm (VReleaseList app) = wire_value (OpGetApplicationsNameReleases app) RReleases
     (rm_ListApplicationReleases rm app)"
| "verb_wire_value env rm (VDiff app) = wire_value (OpGetDiff (Some (cli_diff_params env app))) RDiff
     (rm_GetDiff rm (diff_query (cli_diff_params env app)))"
| "verb_wire_value env rm (VBlockers app) = wire_value (OpGetApplicationsNamePromotions app) RPromotions
     (rm_ListApplicationPromotions rm app)"

section \<open>Each end\<close>

lemma verb_responds:
  assumes "sv_authz s = AllowAll"
  shows "responds s (verb_operation env VAppList)
      (\<lambda>page. RApplications (ApplicationsPage_Items page) (ApplicationsPage_AsOf page)) (rm_ListApplications (sv_rm s) no_filter)"
    and "responds s (OpGetApplicationsName name) RApplication (rm_GetApplication (sv_rm s) name)"
    and "responds s (OpGetApplicationsNameMatrix name) RMatrix (rm_GetMatrix (sv_rm s) name)"
    and "responds s (OpGetApplicationsNameReleases name) RReleases (rm_ListApplicationReleases (sv_rm s) name)"
    and "responds s (OpGetDiff (Some p)) RDiff (rm_GetDiff (sv_rm s) (diff_query p))"
    and "responds s (OpGetApplicationsNamePromotions name) RPromotions (rm_ListApplicationPromotions (sv_rm s) name)"
  using assms
  by (auto simp: responds_def strict_respond_def authzMiddleware_def AllowAll_def case_prod_unfold no_filter_def diff_query_def
      sh_GetApplications_def ssi_GetApplications_def sh_GetApplicationsName_def ssi_GetApplicationsName_def
      sh_GetApplicationsNameMatrix_def ssi_GetApplicationsNameMatrix_def sh_GetApplicationsNameReleases_def
      ssi_GetApplicationsNameReleases_def sh_GetDiff_def ssi_GetDiff_def sh_GetApplicationsNamePromotions_def
      ssi_GetApplicationsNamePromotions_def split: sum.splits)

text \<open>What a parsed response tells the command.\<close>

definition tells :: "JsonDecoders \<Rightarrow> operation \<Rightarrow> ('v \<Rightarrow> 'a) \<Rightarrow> (goerr, 'v) result \<Rightarrow> 'a api_response \<Rightarrow> bool" where
  "tells jd op f res resp \<longleftrightarrow>
     (case res of
        Inr v \<Rightarrow> ar_JSON200 resp = Some (f v)
      | Inl err \<Rightarrow> ar_JSON200 resp = None \<and> ar_StatusCode resp = oa_Problem_Status (classify err) \<and>
          jd_Problem jd (ar_Body resp) = Inr ((classify err)\<lparr>oa_Problem_Instance := Some (operation_path op)\<rparr>))"

lemma told_GetApplications:
  assumes "answers jd op (\<lambda>page. RApplications (ApplicationsPage_Items page) (ApplicationsPage_AsOf page)) res rsp"
  shows "\<exists>r. ParseGetApplicationsResponse jd rsp = Inr r \<and>
    tells jd op ApplicationsPage_Items res
      \<lparr>ar_JSON200 = map_option snd (GetApplicationsResponse_JSON200 r), ar_StatusCode = GetApplicationsResponse_StatusCode r,
       ar_Body = GetApplicationsResponse_Body r\<rparr>"
  using assms
  by (cases res)
    (auto simp: answers_def wire_value_def tells_def ParseGetApplicationsResponse_def GetApplicationsResponse_StatusCode_def
      response_StatusCode_def Let_def)

lemma told_GetApplicationsName:
  assumes "answers jd op RApplication res rsp"
  shows "\<exists>r. ParseGetApplicationsNameResponse jd rsp = Inr r \<and>
    tells jd op (\<lambda>v. v) res
      \<lparr>ar_JSON200 = GetApplicationsNameResponse_JSON200 r, ar_StatusCode = GetApplicationsNameResponse_StatusCode r,
       ar_Body = GetApplicationsNameResponse_Body r\<rparr>"
  using assms
  by (cases res)
    (auto simp: answers_def wire_value_def tells_def ParseGetApplicationsNameResponse_def GetApplicationsNameResponse_StatusCode_def
      response_StatusCode_def Let_def)

lemma told_GetApplicationsNameMatrix:
  assumes "answers jd op RMatrix res rsp"
  shows "\<exists>r. ParseGetApplicationsNameMatrixResponse jd rsp = Inr r \<and>
    tells jd op (\<lambda>v. v) res
      \<lparr>ar_JSON200 = GetApplicationsNameMatrixResponse_JSON200 r, ar_StatusCode = GetApplicationsNameMatrixResponse_StatusCode r,
       ar_Body = GetApplicationsNameMatrixResponse_Body r\<rparr>"
  using assms
  by (cases res)
    (auto simp: answers_def wire_value_def tells_def ParseGetApplicationsNameMatrixResponse_def GetApplicationsNameMatrixResponse_StatusCode_def
      response_StatusCode_def Let_def)

lemma told_GetApplicationsNameReleases:
  assumes "answers jd op RReleases res rsp"
  shows "\<exists>r. ParseGetApplicationsNameReleasesResponse jd rsp = Inr r \<and>
    tells jd op (\<lambda>v. v) res
      \<lparr>ar_JSON200 = GetApplicationsNameReleasesResponse_JSON200 r, ar_StatusCode = GetApplicationsNameReleasesResponse_StatusCode r,
       ar_Body = GetApplicationsNameReleasesResponse_Body r\<rparr>"
  using assms
  by (cases res)
    (auto simp: answers_def wire_value_def tells_def ParseGetApplicationsNameReleasesResponse_def GetApplicationsNameReleasesResponse_StatusCode_def
      response_StatusCode_def Let_def)

lemma told_GetApplicationsNamePromotions:
  assumes "answers jd op RPromotions res rsp"
  shows "\<exists>r. ParseGetApplicationsNamePromotionsResponse jd rsp = Inr r \<and>
    tells jd op (\<lambda>v. v) res
      \<lparr>ar_JSON200 = GetApplicationsNamePromotionsResponse_JSON200 r, ar_StatusCode = GetApplicationsNamePromotionsResponse_StatusCode r,
       ar_Body = GetApplicationsNamePromotionsResponse_Body r\<rparr>"
  using assms
  by (cases res)
    (auto simp: answers_def wire_value_def tells_def ParseGetApplicationsNamePromotionsResponse_def GetApplicationsNamePromotionsResponse_StatusCode_def
      response_StatusCode_def Let_def)

lemma told_GetDiff:
  assumes "answers jd op RDiff res rsp"
  shows "\<exists>r. ParseGetDiffResponse jd rsp = Inr r \<and>
    tells jd op (\<lambda>v. v) res
      \<lparr>ar_JSON200 = GetDiffResponse_JSON200 r, ar_StatusCode = GetDiffResponse_StatusCode r,
       ar_Body = GetDiffResponse_Body r\<rparr>"
  using assms
  by (cases res)
    (auto simp: answers_def wire_value_def tells_def ParseGetDiffResponse_def GetDiffResponse_StatusCode_def
      response_StatusCode_def Let_def)

lemma api_call_tells:
  assumes "env_NewAPIClient env = Inr client" "request client = Inr resp" "env_DecodeProblem env = jd_Problem jd"
    "tells jd op f res resp"
  shows "api_call env operation request render w = direct operation res (\<lambda>v. render (f v)) w"
proof (cases res)
  case (Inl err)
  have "oa_Problem_Type (classify err) \<noteq> []"
    by (simp add: classify_def problem_def errorBaseURI_def split: option.splits)
  then show ?thesis using assms Inl
    by (simp add: api_call_def tells_def apiError_def direct_def problem_error_def split: option.split)
qed (use assms in \<open>simp add: api_call_def tells_def direct_def\<close>)

text \<open>A command line set up against a server.\<close>

definition wired ::
  "cli_env \<Rightarrow> Server \<Rightarrow> ClientLib \<Rightarrow> JsonDecoders \<Rightarrow> (time \<Rightarrow> string) \<Rightarrow> bool" where
  "wired env s lib jd fmt \<longleftrightarrow>
     (\<exists>st rand_read base c. newAPIClient (server_doer st s rand_read) base = Inr c \<and>
        api_server lib (Client_Server c) \<and> env_NewAPIClient env = Inr (as_api_client lib jd c)) \<and>
     env_DecodeProblem env = jd_Problem jd \<and> styles fmt lib \<and> binds fmt (sv_Runtime s) \<and> sv_authz s = AllowAll"

text \<open>The request of an operation is answered with what the server holds.\<close>

definition exchanges ::
  "unit Client \<Rightarrow> ClientLib \<Rightarrow> JsonDecoders \<Rightarrow> operation \<Rightarrow> ('v \<Rightarrow> ApiResponse) \<Rightarrow> (goerr, 'v) result \<Rightarrow> bool" where
  "exchanges c lib jd op payload res \<longleftrightarrow>
     (\<exists>rsp. (\<forall>w. send_request c (operation_request lib (Client_Server c) op) [] w = (Inr rsp, w)) \<and>
        answers jd op payload res rsp)"

lemma wired_exchange:
  assumes "leads_to st s rand_read c" "api_server lib (Client_Server c)" "styles fmt lib" "binds fmt (sv_Runtime s)"
    "deliverable op" "operation_body lib op = Inr body" "responds s op payload res"
    "survives (rt_Encode (sv_Runtime s)) jd (wire_value op payload res)"
  shows "exchanges c lib jd op payload res"
proof -
  obtain rsp where "send_request c (operation_request lib (Client_Server c) op) [] () = (Inr rsp, ())"
    "answers jd op payload res rsp"
    using exchange [OF assms, of "()"] by blast
  then show ?thesis unfolding exchanges_def by auto
qed

lemma call_GetApplications:
  assumes "exchanges c lib jd (verb_operation env VAppList) (\<lambda>page. RApplications (ApplicationsPage_Items page) (ApplicationsPage_AsOf page)) res"
  shows "\<exists>resp. ac_GetApplications (as_api_client lib jd c) = Inr resp \<and> tells jd (verb_operation env VAppList) ApplicationsPage_Items res resp"
  using assms told_GetApplications unfolding exchanges_def
  by (fastforce simp: as_api_client_def GetApplicationsWithResponse_def Client_GetApplications_def parse_with_def)

lemma call_GetApplicationsName:
  assumes "exchanges c lib jd (OpGetApplicationsName name) RApplication res"
  shows "\<exists>resp. ac_GetApplicationsName (as_api_client lib jd c) name = Inr resp \<and> tells jd (OpGetApplicationsName name) (\<lambda>v. v) res resp"
  using assms told_GetApplicationsName unfolding exchanges_def
  by (fastforce simp: as_api_client_def GetApplicationsNameWithResponse_def Client_GetApplicationsName_def parse_with_def)

lemma call_GetApplicationsNameMatrix:
  assumes "exchanges c lib jd (OpGetApplicationsNameMatrix name) RMatrix res"
  shows "\<exists>resp. ac_GetApplicationsNameMatrix (as_api_client lib jd c) name = Inr resp \<and> tells jd (OpGetApplicationsNameMatrix name) (\<lambda>v. v) res resp"
  using assms told_GetApplicationsNameMatrix unfolding exchanges_def
  by (fastforce simp: as_api_client_def GetApplicationsNameMatrixWithResponse_def Client_GetApplicationsNameMatrix_def parse_with_def)

lemma call_GetApplicationsNameReleases:
  assumes "exchanges c lib jd (OpGetApplicationsNameReleases name) RReleases res"
  shows "\<exists>resp. ac_GetApplicationsNameReleases (as_api_client lib jd c) name = Inr resp \<and> tells jd (OpGetApplicationsNameReleases name) (\<lambda>v. v) res resp"
  using assms told_GetApplicationsNameReleases unfolding exchanges_def
  by (fastforce simp: as_api_client_def GetApplicationsNameReleasesWithResponse_def Client_GetApplicationsNameReleases_def parse_with_def)

lemma call_GetDiff:
  assumes "exchanges c lib jd (OpGetDiff (Some p)) RDiff res"
  shows "\<exists>resp. ac_GetDiff (as_api_client lib jd c) p = Inr resp \<and> tells jd (OpGetDiff (Some p)) (\<lambda>v. v) res resp"
  using assms told_GetDiff unfolding exchanges_def
  by (fastforce simp: as_api_client_def GetDiffWithResponse_def Client_GetDiff_def parse_with_def)

lemma call_GetApplicationsNamePromotions:
  assumes "exchanges c lib jd (OpGetApplicationsNamePromotions name) RPromotions res"
  shows "\<exists>resp. ac_GetApplicationsNamePromotions (as_api_client lib jd c) name = Inr resp \<and> tells jd (OpGetApplicationsNamePromotions name) (\<lambda>v. v) res resp"
  using assms told_GetApplicationsNamePromotions unfolding exchanges_def
  by (fastforce simp: as_api_client_def GetApplicationsNamePromotionsWithResponse_def Client_GetApplicationsNamePromotions_def parse_with_def)

section \<open>Samples\<close>

text \<open>An open server on the sample cluster, and a command line wired to it.\<close>

definition open_server :: Server where
  "open_server = deny_all\<lparr>sv_authz := AllowAll, sv_Runtime := sample_binding_runtime\<lparr>rt_Encode := sample_encoder\<rparr>\<rparr>"

definition sample_api_client :: "unit Client" where
  "sample_api_client = \<lparr>Client_Server = sample_server, Client_Client = Some (server_doer itoa open_server None),
     Client_RequestEditors = [authEditor]\<rparr>"

definition sample_env :: cli_env where
  "sample_env = \<lparr>env_NewAPIClient = Inr (as_api_client sample_client_lib sample_decoders sample_api_client),
     env_Flag = (\<lambda>_. []), env_DecodeProblem = jd_Problem sample_decoders, env_FormatTime = itoa\<rparr>"

lemma wired_sample: "wired sample_env open_server sample_client_lib sample_decoders itoa"
proof -
  have "newAPIClient (server_doer itoa open_server None) ''http://localhost:8443/api/v1'' = Inr sample_api_client"
    by (simp add: newAPIClient_def NewClientWithResponses_def NewClient_def WithRequestEditorFn_def sample_api_client_def)
  moreover have "binds itoa (sv_Runtime open_server)"
    using binds_sample by (simp add: binds_def open_server_def)
  moreover have "api_server sample_client_lib (Client_Server sample_api_client)"
    using api_server_sample by (simp add: sample_api_client_def)
  moreover have "env_NewAPIClient sample_env = Inr (as_api_client sample_client_lib sample_decoders sample_api_client)"
    "env_DecodeProblem sample_env = jd_Problem sample_decoders" "sv_authz open_server = AllowAll"
    by (simp_all add: sample_env_def open_server_def)
  ultimately show ?thesis unfolding wired_def using styles_sample by blast
qed

section \<open>Claims\<close>

text \<open>C6: The command line shows what the read model holds.  For each of the six read verbs, a run of
  the command over HTTP, through the generated client, the middlewares, the router and the
  response codecs, writes and returns exactly what the same verb does on the server's read
  model directly: the rendered result, or the error as its problem document tells it, provided
  the application's name survives a path and the one value that crosses the wire survives
  JSON.\<close>
theorem cli_shows_the_read_model:
  assumes "wired env s lib jd fmt" and "deliverable (verb_operation env v)"
    and "survives (rt_Encode (sv_Runtime s)) jd (verb_wire_value env (sv_rm s) v)"
  shows "run_verb env put v w = direct_verb env (sv_rm s) put v w"
proof -
  obtain st rand_read c where c: "leads_to st s rand_read c" "api_server lib (Client_Server c)"
    "env_NewAPIClient env = Inr (as_api_client lib jd c)"
    using assms(1) newAPIClient_leads_to unfolding wired_def by blast
  have lib: "styles fmt lib" "binds fmt (sv_Runtime s)" "sv_authz s = AllowAll" "env_DecodeProblem env = jd_Problem jd"
    using assms(1) by (auto simp: wired_def)
  note ex = wired_exchange [OF c(1,2) lib(1,2)]
  note call = api_call_tells [OF c(3) _ lib(4)]
  show ?thesis
  proof (cases v)
    case VAppList
    have "exchanges c lib jd (verb_operation env VAppList)
        (\<lambda>page. RApplications (ApplicationsPage_Items page) (ApplicationsPage_AsOf page))
        (rm_ListApplications (sv_rm s) no_filter)"
      by (rule ex [OF _ _ verb_responds(1) [OF lib(3)]]) (use assms(2,3) VAppList in simp_all)
    from call_GetApplications [OF this] show ?thesis using VAppList call by (auto simp: runAppList_def)
  next
    case (VAppGet name)
    have "exchanges c lib jd (OpGetApplicationsName name) RApplication (rm_GetApplication (sv_rm s) name)"
      by (rule ex [OF _ _ verb_responds(2) [OF lib(3)]]) (use assms(2,3) VAppGet in simp_all)
    from call_GetApplicationsName [OF this] show ?thesis using VAppGet call by (auto simp: runAppGet_def)
  next
    case (VMatrix args)
    have "exchanges c lib jd (OpGetApplicationsNameMatrix (matrix_name args)) RMatrix (rm_GetMatrix (sv_rm s) (matrix_name args))"
      by (rule ex [OF _ _ verb_responds(3) [OF lib(3)]]) (use assms(2,3) VMatrix in simp_all)
    from call_GetApplicationsNameMatrix [OF this] show ?thesis using VMatrix call
      by (auto simp: runMatrix_def matrix_name_def)
  next
    case (VReleaseList app)
    have "exchanges c lib jd (OpGetApplicationsNameReleases app) RReleases (rm_ListApplicationReleases (sv_rm s) app)"
      by (rule ex [OF _ _ verb_responds(4) [OF lib(3)]]) (use assms(2,3) VReleaseList in simp_all)
    from call_GetApplicationsNameReleases [OF this] show ?thesis using VReleaseList call by (auto simp: runReleaseList_def)
  next
    case (VDiff app)
    have "exchanges c lib jd (OpGetDiff (Some (cli_diff_params env app))) RDiff (rm_GetDiff (sv_rm s) (diff_query (cli_diff_params env app)))"
      by (rule ex [OF _ _ verb_responds(5) [OF lib(3)]]) (use assms(2,3) VDiff in simp_all)
    from call_GetDiff [OF this] show ?thesis using VDiff call by (auto simp: runDiff_def cli_diff_params_def)
  next
    case (VBlockers app)
    have "exchanges c lib jd (OpGetApplicationsNamePromotions app) RPromotions (rm_ListApplicationPromotions (sv_rm s) app)"
      by (rule ex [OF _ _ verb_responds(6) [OF lib(3)]]) (use assms(2,3) VBlockers in simp_all)
    from call_GetApplicationsNamePromotions [OF this] show ?thesis using VBlockers call by (auto simp: runBlockers_def)
  qed
qed

theorem cli_shows_the_read_model_witness:
  "run_verb sample_env (\<lambda>line out. (None, out @ line)) (VReleaseList ''shop'') [] =
     direct_verb sample_env (sv_rm open_server) (\<lambda>line out. (None, out @ line)) (VReleaseList ''shop'') []"
proof (rule cli_shows_the_read_model [OF wired_sample])
  show "deliverable (verb_operation sample_env (VReleaseList ''shop''))" by (simp add: deliverable_def)
  have "rm_ListApplicationReleases (sv_rm open_server) ''shop'' = Inr []"
    by (simp add: open_server_def deny_all_def crd_source_def ListApplicationReleases_def sample_cluster_def)
  then show "survives (rt_Encode (sv_Runtime open_server)) sample_decoders
      (verb_wire_value sample_env (sv_rm open_server) (VReleaseList ''shop''))"
    by (simp add: survives_def wire_value_def open_server_def sample_encoder_def sample_decoders_def)
qed

end
