(* ===== verification/Cli_Get.thy ===== *)
theory Cli_Get
  imports Cli_Output
begin

text \<open>
  The read verbs on the cluster: \<^verbatim>\<open>keleustesctl get\<close> (\<^verbatim>\<open>internal/cli/get.go\<close>) and
  \<^verbatim>\<open>describe\<close> (\<^verbatim>\<open>internal/cli/describe.go\<close>).  The dynamic client is an argument; a watch is
  the list of events its channel delivers before it is closed or the context is done, each an
  event type and, where the object is an untyped one, that object.
\<close>

section \<open>The dynamic client\<close>

record dyn_client =
  dc_List :: "SchemaGVR \<Rightarrow> string option \<Rightarrow> (goerr, json list) result"
  dc_Get :: "SchemaGVR \<Rightarrow> string \<Rightarrow> string \<Rightarrow> (goerr, json) result"
  dc_Watch :: "SchemaGVR \<Rightarrow> string option \<Rightarrow> (goerr, (string \<times> json option) list) result"
  dc_IsNotFound :: "goerr \<Rightarrow> bool"

text \<open>An empty namespace asks for all of them.\<close>

definition namespace_scope :: "string \<Rightarrow> string option" where
  "namespace_scope namespace = (if namespace = [] then None else Some namespace)"

definition get_error :: "dyn_client \<Rightarrow> resolvedKind \<Rightarrow> string \<Rightarrow> string \<Rightarrow> goerr \<Rightarrow> goerr" where
  "get_error dc kind namespace name err =
     (if dc_IsNotFound dc err
      then Opaque (SchemaGVK_Kind (resolvedKind_GVK kind) @ '' '' @ go_quote name @ '' not found in namespace '' @
             go_quote namespace)
      else Wrapped (''get '' @ SchemaGVR_Resource (resolvedKind_GVR kind) @ ''/'' @ name) err)"

section \<open>Get\<close>

definition runGetList ::
  "unstr_lib \<Rightarrow> time \<Rightarrow> dyn_client \<Rightarrow> 'w stream \<Rightarrow> resolvedKind \<Rightarrow> string \<Rightarrow> outputFormat \<Rightarrow> 'w \<Rightarrow> goerr option \<times> 'w" where
  "runGetList ul now dc put kind namespace format w =
     (case dc_List dc (resolvedKind_GVR kind) (namespace_scope namespace) of
        Inl err \<Rightarrow> (Some (Wrapped (''list '' @ SchemaGVR_Resource (resolvedKind_GVR kind)) err), w)
      | Inr items \<Rightarrow> renderList ul now put kind items format w)"

definition runGetOne ::
  "unstr_lib \<Rightarrow> time \<Rightarrow> dyn_client \<Rightarrow> 'w stream \<Rightarrow> resolvedKind \<Rightarrow> string \<Rightarrow> string \<Rightarrow> outputFormat \<Rightarrow> 'w \<Rightarrow>
   goerr option \<times> 'w" where
  "runGetOne ul now dc put kind namespace name format w =
     (case dc_Get dc (resolvedKind_GVR kind) namespace name of
        Inl err \<Rightarrow> (Some (get_error dc kind namespace name err), w)
      | Inr obj \<Rightarrow> renderOne ul now put kind obj format w)"

definition watch_row :: "unstr_lib \<Rightarrow> time \<Rightarrow> resolvedKind \<Rightarrow> string \<Rightarrow> json \<Rightarrow> string list" where
  "watch_row ul now kind event obj = event # table_row ul now kind obj"

fun watch_loop ::
  "unstr_lib \<Rightarrow> 'w stream \<Rightarrow> resolvedKind \<Rightarrow> (time \<times> string \<times> json option) list \<Rightarrow> 'w \<Rightarrow> goerr option \<times> 'w" where
  "watch_loop ul put kind [] w = (None, w)"
| "watch_loop ul put kind ((now, event, object) # evs) w =
     (case object of
        None \<Rightarrow> watch_loop ul put kind evs w
      | Some obj \<Rightarrow>
          (case Fprintln put (join tab (watch_row ul now kind event obj)) w of
             (Some err, w) \<Rightarrow> (Some err, w)
           | (None, w) \<Rightarrow> watch_loop ul put kind evs w))"

text \<open>Each event is printed at an instant of its own, \<open>clock\<close> of its position.\<close>

definition runWatch ::
  "unstr_lib \<Rightarrow> (nat \<Rightarrow> time) \<Rightarrow> dyn_client \<Rightarrow> 'w stream \<Rightarrow> resolvedKind \<Rightarrow> string \<Rightarrow> 'w \<Rightarrow> goerr option \<times> 'w" where
  "runWatch ul clock dc put kind namespace w =
     (case dc_Watch dc (resolvedKind_GVR kind) (namespace_scope namespace) of
        Inl err \<Rightarrow> (Some (Wrapped (''watch '' @ SchemaGVR_Resource (resolvedKind_GVR kind)) err), w)
      | Inr events \<Rightarrow>
          (case Fprintln put (join tab (''EVENT'' # table_header kind)) w of
             (Some err, w) \<Rightarrow> (Some err, w)
           | (None, w) \<Rightarrow> watch_loop ul put kind (zip (map clock [0..<length events]) events) w))"

record get_flags =
  get_namespace :: string
  get_allNamespaces :: bool
  get_output :: string
  get_watch :: bool

text \<open>The command; its framework has checked that there are one or two arguments.\<close>

definition runGet ::
  "unstr_lib \<Rightarrow> (nat \<Rightarrow> time) \<Rightarrow> (goerr, dyn_client) result \<Rightarrow> 'w stream \<Rightarrow> get_flags \<Rightarrow> string \<Rightarrow> string option \<Rightarrow>
   'w \<Rightarrow> goerr option \<times> 'w" where
  "runGet ul clock newKubeContext put flags kindArg nameArg w =
     (case parseOutputFormat (get_output flags) of
        Inl err \<Rightarrow> (Some err, w)
      | Inr format \<Rightarrow>
          (case resolveKind kindArg of
             Inl err \<Rightarrow> (Some err, w)
           | Inr kind \<Rightarrow>
               (case newKubeContext of
                  Inl err \<Rightarrow> (Some err, w)
                | Inr dc \<Rightarrow>
                    (let ns = (if get_allNamespaces flags then [] else get_namespace flags) in
                     case nameArg of
                       Some name \<Rightarrow>
                         if get_watch flags
                         then (Some (Opaque ''--watch is only supported on list operations''), w)
                         else runGetOne ul (clock 0) dc put kind ns name format w
                     | None \<Rightarrow>
                         if get_watch flags then runWatch ul clock dc put kind ns w
                         else runGetList ul (clock 0) dc put kind ns format w))))"

section \<open>Describe\<close>

text \<open>\<^verbatim>\<open>errWriter\<close>: the first error is kept and stops all later writes.\<close>

type_synonym 'w errWriter = "goerr option \<times> 'w"

definition ew_printf :: "'w stream \<Rightarrow> string \<Rightarrow> 'w errWriter \<Rightarrow> 'w errWriter" where
  "ew_printf put s e = (case e of (Some err, w) \<Rightarrow> (Some err, w) | (None, w) \<Rightarrow> put s w)"

text \<open>A sequence of writes through it.\<close>

definition ew_prints :: "'w stream \<Rightarrow> string list \<Rightarrow> 'w errWriter \<Rightarrow> 'w errWriter" where
  "ew_prints put ss e = fold (ew_printf put) ss e"

definition sortedKeys :: "dict \<Rightarrow> string list" where
  "sortedKeys m = sort (map fst m)"

text \<open>\<^verbatim>\<open>%-15s\<close>\<close>

definition pad_right :: "nat \<Rightarrow> string \<Rightarrow> string" where
  "pad_right n s = s @ replicate (n - rune_count s) (CHR '' '')"

definition condition_line :: "string \<Rightarrow> string \<Rightarrow> string \<Rightarrow> string \<Rightarrow> string" where
  "condition_line type status reason message =
     ''    '' @ pad_right 15 type @ '' '' @ pad_right 7 status @ '' '' @ pad_right 25 reason @ '' '' @ message @ newline"

definition opt_scalar :: "unstr_lib \<Rightarrow> json option \<Rightarrow> string" where
  "opt_scalar ul v = (case v of None \<Rightarrow> [] | Some v \<Rightarrow> scalarToString (ul_FormatG ul) v)"

definition condition_text :: "unstr_lib \<Rightarrow> json \<Rightarrow> string list" where
  "condition_text ul c =
     (case c of
        JObj m \<Rightarrow> [condition_line (opt_scalar ul (map_of m ''type'')) (opt_scalar ul (map_of m ''status''))
                    (opt_scalar ul (map_of m ''reason'')) (opt_scalar ul (map_of m ''message''))]
      | _ \<Rightarrow> [])"

definition renderConditions :: "unstr_lib \<Rightarrow> json list \<Rightarrow> string list" where
  "renderConditions ul conds =
     [''  Conditions:'' @ newline, condition_line ''TYPE'' ''STATUS'' ''REASON'' ''MESSAGE''] @
     concat (map (condition_text ul) conds)"

definition trim_newlines :: "string \<Rightarrow> string" where
  "trim_newlines s = rev (dropWhile (\<lambda>c. c = CHR 0x0A) (rev s))"

definition writeIndentedYAML :: "unstr_lib \<Rightarrow> json option \<Rightarrow> string \<Rightarrow> string list" where
  "writeIndentedYAML ul v prefix =
     (case v of
        None \<Rightarrow> [prefix @ ''<empty>'' @ newline]
      | Some JNull \<Rightarrow> [prefix @ ''<empty>'' @ newline]
      | Some v \<Rightarrow>
          (case ul_MarshalYAML ul v of
             Inl err \<Rightarrow> [prefix @ ''<marshal error: '' @ error_string err @ ''>'' @ newline]
           | Inr b \<Rightarrow> map (\<lambda>line. prefix @ line @ newline) (split_on (CHR 0x0A) (trim_newlines b))))"

definition dict_lines :: "string list \<Rightarrow> dict \<Rightarrow> string list" where
  "dict_lines keys m = map (\<lambda>k. ''  '' @ k @ ''='' @ dict_get m k @ newline) keys"

definition metadata_text :: "unstr_lib \<Rightarrow> time \<Rightarrow> resolvedKind \<Rightarrow> json \<Rightarrow> string list" where
  "metadata_text ul now kind obj =
     [''Kind:        '' @ SchemaGVK_Kind (resolvedKind_GVK kind) @ newline,
      ''Name:        '' @ ul_GetName ul obj @ newline,
      ''Namespace:   '' @ ul_GetNamespace ul obj @ newline,
      ''Created:     '' @ ul_FormatTime ul (ul_GetCreationTimestamp ul obj) @ '' ('' @
        formatAge now (ul_GetCreationTimestamp ul obj) @ '' ago)'' @ newline,
      ''Generation:  '' @ itoa (ul_GetGeneration ul obj) @ newline] @
     (let labels = ul_GetLabels ul obj in
      if labels = [] then [] else (''Labels:'' @ newline) # dict_lines (sortedKeys labels) labels) @
     (let anns = ul_GetAnnotations ul obj in
      if anns = [] then []
      else (''Annotations:'' @ newline) #
        dict_lines (filter (\<lambda>k. \<not> has_prefix k ''kubectl.kubernetes.io/'') (sortedKeys anns)) anns)"

definition status_text :: "unstr_lib \<Rightarrow> (string \<times> json) list \<Rightarrow> string list" where
  "status_text ul status =
     [''Status:'' @ newline] @
     (case map_of status ''observedGeneration'' of
        None \<Rightarrow> [] | Some og \<Rightarrow> [''  ObservedGeneration: '' @ go_v (ul_FormatG ul) og @ newline]) @
     (case map_of status ''phase'' of
        Some (JString phase) \<Rightarrow> if phase \<noteq> [] then [''  Phase:              '' @ phase @ newline] else []
      | _ \<Rightarrow> []) @
     (case map_of status ''state'' of
        Some (JString state) \<Rightarrow> if state \<noteq> [] then [''  State:              '' @ state @ newline] else []
      | _ \<Rightarrow> []) @
     (case map_of status ''conditions'' of
        Some (JArr conds) \<Rightarrow> if conds \<noteq> [] then renderConditions ul conds else []
      | _ \<Rightarrow> []) @
     (case map_of status ''blockers'' of
        Some (JArr blockers) \<Rightarrow>
          if blockers \<noteq> []
          then (''  Blockers:'' @ newline) # map (\<lambda>b. ''    - '' @ go_v (ul_FormatG ul) b @ newline) blockers
          else []
      | _ \<Rightarrow> [])"

text \<open>All writes of the description, in order.\<close>

definition describe_text :: "unstr_lib \<Rightarrow> time \<Rightarrow> resolvedKind \<Rightarrow> json \<Rightarrow> string list" where
  "describe_text ul now kind obj =
     metadata_text ul now kind obj @
     [''Spec:'' @ newline] @ writeIndentedYAML ul (json_field obj ''spec'') ''  '' @
     (case json_field obj ''status'' of
        Some (JObj status) \<Rightarrow> if status \<noteq> [] then status_text ul status else []
      | _ \<Rightarrow> [])"

definition renderDescribe ::
  "unstr_lib \<Rightarrow> time \<Rightarrow> 'w stream \<Rightarrow> resolvedKind \<Rightarrow> json \<Rightarrow> 'w \<Rightarrow> goerr option \<times> 'w" where
  "renderDescribe ul now put kind obj w = ew_prints put (describe_text ul now kind obj) (None, w)"

definition runDescribe ::
  "unstr_lib \<Rightarrow> time \<Rightarrow> (goerr, dyn_client) result \<Rightarrow> 'w stream \<Rightarrow> string \<Rightarrow> string list \<Rightarrow> 'w \<Rightarrow> goerr option \<times> 'w" where
  "runDescribe ul now newKubeContext put namespace args w =
     (case splitDescribeArgs args of
        Inl err \<Rightarrow> (Some err, w)
      | Inr (kindArg, name) \<Rightarrow>
          (case resolveKind kindArg of
             Inl err \<Rightarrow> (Some err, w)
           | Inr kind \<Rightarrow>
               (case newKubeContext of
                  Inl err \<Rightarrow> (Some err, w)
                | Inr dc \<Rightarrow>
                    (case dc_Get dc (resolvedKind_GVR kind) namespace name of
                       Inl err \<Rightarrow> (Some (get_error dc kind namespace name err), w)
                     | Inr obj \<Rightarrow> renderDescribe ul now put kind obj w))))"

section \<open>Describing\<close>

lemma ew_prints_Cons: "ew_prints put (s # ss) e = ew_prints put ss (ew_printf put s e)"
  by (simp add: ew_prints_def)

lemma ew_prints_stopped: "ew_prints put ss (Some err, w) = (Some err, w)"
  by (induction ss) (simp_all add: ew_prints_def ew_printf_def)

text \<open>The state after a sequence of writes.\<close>

definition written :: "'w stream \<Rightarrow> string list \<Rightarrow> 'w \<Rightarrow> 'w" where
  "written put ss w = fold (\<lambda>s w. snd (put s w)) ss w"

text \<open>
  What a run through the error writer did: the longest prefix of writes that succeed one after
  the other, and then, unless that was all, one write that failed, whose error it returns.
\<close>

definition stops_at_error :: "'w stream \<Rightarrow> string list \<Rightarrow> 'w \<Rightarrow> goerr option \<times> 'w \<Rightarrow> bool" where
  "stops_at_error put ss w r \<longleftrightarrow>
     (\<exists>pre post. ss = pre @ post \<and>
        (\<forall>us u vs. pre = us @ u # vs \<longrightarrow> fst (put u (written put us w)) = None) \<and>
        (case post of
           [] \<Rightarrow> r = (None, written put pre w)
         | s # _ \<Rightarrow> (\<exists>err. r = (Some err, snd (put s (written put pre w))) \<and>
                       fst (put s (written put pre w)) = Some err)))"

lemma written_simps [simp]: "written put [] w = w" "written put (s # ss) w = written put ss (snd (put s w))"
  by (simp_all add: written_def)

lemma stops_at_errorI:
  assumes "ss = pre @ post"
    and "\<And>us u vs. pre = us @ u # vs \<Longrightarrow> fst (put u (written put us w)) = None"
    and "case post of [] \<Rightarrow> r = (None, written put pre w)
      | s # _ \<Rightarrow> (\<exists>err. r = (Some err, snd (put s (written put pre w))) \<and>
                    fst (put s (written put pre w)) = Some err)"
  shows "stops_at_error put ss w r"
  using assms unfolding stops_at_error_def by blast

lemma stops_at_error_Cons:
  assumes "fst (put s w) = None" "stops_at_error put ss (snd (put s w)) r"
  shows "stops_at_error put (s # ss) w r"
proof -
  obtain pre post where p: "ss = pre @ post"
      "\<forall>us u vs. pre = us @ u # vs \<longrightarrow> fst (put u (written put us (snd (put s w)))) = None"
      "case post of [] \<Rightarrow> r = (None, written put pre (snd (put s w)))
       | t # _ \<Rightarrow> (\<exists>err. r = (Some err, snd (put t (written put pre (snd (put s w))))) \<and>
                     fst (put t (written put pre (snd (put s w)))) = Some err)"
    using assms(2) unfolding stops_at_error_def by blast
  have "fst (put u (written put us w)) = None" if "s # pre = us @ u # vs" for us u vs
    using that assms(1) p(2) by (cases us) auto
  then show ?thesis
    using p(1,3) by (intro stops_at_errorI[of _ "s # pre" post]) (auto split: list.splits)
qed

lemma ew_prints_stops: "stops_at_error put ss w (ew_prints put ss (None, w))"
proof (induction ss arbitrary: w)
  case Nil
  show ?case by (simp add: stops_at_error_def ew_prints_def)
next
  case (Cons s ss)
  show ?case
  proof (cases "fst (put s w)")
    case None
    then have "ew_prints put (s # ss) (None, w) = ew_prints put ss (None, snd (put s w))"
      by (cases "put s w") (simp add: ew_prints_Cons ew_printf_def)
    then show ?thesis using stops_at_error_Cons [of put s w ss] None Cons.IH by simp
  next
    case (Some err)
    then have "ew_prints put (s # ss) (None, w) = (Some err, snd (put s w))"
      by (cases "put s w") (simp add: ew_prints_Cons ew_printf_def ew_prints_stopped)
    then show ?thesis using Some by (intro stops_at_errorI[of _ "[]" "s # ss"]) simp_all
  qed
qed

lemma kinds_no_slash:
  assumes "k \<in> set keleustesKinds" "a \<in> set (resolvedKind_Aliases k)"
  shows "CHR ''/'' \<notin> set a" "a \<noteq> []"
proof -
  have "list_all (\<lambda>k. list_all (\<lambda>a. list_all (\<lambda>c. c \<noteq> CHR ''/'') a \<and> a \<noteq> []) (resolvedKind_Aliases k)) keleustesKinds"
    by code_simp
  then show "CHR ''/'' \<notin> set a" "a \<noteq> []" using assms by (auto simp: list_all_iff)
qed

lemma to_lower_slash: "CHR ''/'' \<in> set s \<Longrightarrow> CHR ''/'' \<in> set (to_lower s)"
proof -
  have "ascii_lower (CHR ''/'') = CHR ''/''" by (simp add: ascii_lower_def)
  then show "CHR ''/'' \<in> set s \<Longrightarrow> CHR ''/'' \<in> set (to_lower s)"
    unfolding to_lower_def set_map by (metis imageI)
qed

lemma split_kind_name:
  assumes "k \<in> set keleustesKinds" "to_lower a \<in> set (resolvedKind_Aliases k)" "name \<noteq> []"
  shows "splitDescribeArgs [a @ ''/'' @ name] = Inr (a, name)"
proof -
  have "CHR ''/'' \<notin> set a" "a \<noteq> []"
    using kinds_no_slash [OF assms(1,2)] to_lower_slash by (auto simp: to_lower_def)
  then show ?thesis using assms(3) splitN2_cut [of "CHR ''/''" a name] by (simp add: splitDescribeArgs_def)
qed

text \<open>A small library and cluster to run the command on.\<close>

definition sample_ul :: unstr_lib where
  "sample_ul =
     \<lparr>ul_NestedFieldCopy = (\<lambda>v ks. Inr (json_at v ks)),
      ul_NestedSlice = (\<lambda>v ks. Inr (case json_at v ks of Some (JArr vs) \<Rightarrow> Some vs | _ \<Rightarrow> None)),
      ul_GetName = (\<lambda>_. ''shop''), ul_GetNamespace = (\<lambda>_. ''team''), ul_GetCreationTimestamp = (\<lambda>_. 0),
      ul_GetGeneration = (\<lambda>_. 1), ul_GetLabels = (\<lambda>_. []), ul_GetAnnotations = (\<lambda>_. []),
      ul_EncodeJSON = (\<lambda>_. Inr ''{}''), ul_MarshalYAML = (\<lambda>_. Inr ''{}''), ul_FormatG = (\<lambda>_. ''1.5''),
      ul_FormatTime = (\<lambda>_. ''0001-01-01T00:00:00Z'')\<rparr>"

definition sample_dyn :: dyn_client where
  "sample_dyn = \<lparr>dc_List = (\<lambda>_ _. Inr []), dc_Get = (\<lambda>_ _ _. Inr (JObj [])), dc_Watch = (\<lambda>_ _. Inr []),
     dc_IsNotFound = (\<lambda>_. False)\<rparr>"

text \<open>A terminal that takes the given number of writes.\<close>

definition short_terminal :: "(nat \<times> string list) stream" where
  "short_terminal s w = (if fst w = 0 then (Some (Opaque ''broken pipe''), w) else (None, fst w - 1, snd w @ [s]))"

text \<open>C40: Describing an object.  Under any alias of its kind, in any case, and with a name that
  is not empty, the command does the same whether kind and name are written as one argument with
  a slash or as two.  When the cluster does not return the object it writes nothing and reports
  that read's error.  Otherwise it writes the lines of the description in order as long as each
  write succeeds; it returns no error only if they all did, and if one fails it returns that
  write's error and attempts no later one.\<close>
theorem describe_by_any_name:
  assumes "k \<in> set keleustesKinds" and "to_lower a \<in> set (resolvedKind_Aliases k)"
    and "to_lower b \<in> set (resolvedKind_Aliases k)" and "name \<noteq> []"
  shows "runDescribe ul now (Inr dc) put namespace [a @ ''/'' @ name] w =
      runDescribe ul now (Inr dc) put namespace [b, name] w \<and>
    (case dc_Get dc (resolvedKind_GVR k) namespace name of
       Inl err \<Rightarrow> runDescribe ul now (Inr dc) put namespace [b, name] w =
         (Some (get_error dc k namespace name err), w)
     | Inr obj \<Rightarrow> stops_at_error put (describe_text ul now k obj) w
         (runDescribe ul now (Inr dc) put namespace [b, name] w))"
proof -
  have "runDescribe ul now (Inr dc) put namespace [a @ ''/'' @ name] w =
      (case dc_Get dc (resolvedKind_GVR k) namespace name of
         Inl err \<Rightarrow> (Some (get_error dc k namespace name err), w)
       | Inr obj \<Rightarrow> renderDescribe ul now put k obj w)"
    unfolding runDescribe_def split_kind_name [OF assms(1,2,4)]
    by (simp add: resolveKind_alias [OF assms(1,2)])
  moreover have "runDescribe ul now (Inr dc) put namespace [b, name] w =
      (case dc_Get dc (resolvedKind_GVR k) namespace name of
         Inl err \<Rightarrow> (Some (get_error dc k namespace name err), w)
       | Inr obj \<Rightarrow> renderDescribe ul now put k obj w)"
    by (simp add: runDescribe_def splitDescribeArgs_def resolveKind_alias [OF assms(1,3)])
  ultimately show ?thesis by (simp add: renderDescribe_def ew_prints_stops split: sum.split)
qed

theorem describe_by_any_name_witness:
  "runDescribe sample_ul 1 (Inr sample_dyn) short_terminal ''team'' [''APP'' @ ''/'' @ ''shop''] (2, []) =
     runDescribe sample_ul 1 (Inr sample_dyn) short_terminal ''team'' [''Application'', ''shop''] (2, []) \<and>
   stops_at_error short_terminal (describe_text sample_ul 1 (hd keleustesKinds) (JObj [])) (2, [])
     (runDescribe sample_ul 1 (Inr sample_dyn) short_terminal ''team'' [''Application'', ''shop''] (2, []))"
proof -
  have "hd keleustesKinds \<in> set keleustesKinds" by (simp add: keleustesKinds_def)
  moreover have "resolvedKind_Aliases (hd keleustesKinds) = [''app'', ''application'', ''applications'']"
    by (simp add: keleustesKinds_def)
  moreover have "to_lower ''APP'' = ''app''" "to_lower ''Application'' = ''application''" by code_simp+
  ultimately have h: "hd keleustesKinds \<in> set keleustesKinds"
    "to_lower ''APP'' \<in> set (resolvedKind_Aliases (hd keleustesKinds))"
    "to_lower ''Application'' \<in> set (resolvedKind_Aliases (hd keleustesKinds))" by simp_all
  have get: "dc_Get sample_dyn (resolvedKind_GVR (hd keleustesKinds)) ''team'' ''shop'' = Inr (JObj [])"
    by (simp add: sample_dyn_def)
  show ?thesis
    using describe_by_any_name [OF h, of "''shop''" sample_ul 1 sample_dyn short_terminal "''team''" "(2, [])"]
    unfolding get by simp
qed

end
