(* ===== verification/Cli_Root.thy ===== *)
theory Cli_Root
  imports Cli_Get Cli_Commands
begin

text \<open>
  The tree of commands of \<^verbatim>\<open>keleustesctl\<close>: \<^verbatim>\<open>internal/cli/root.go\<close>, the \<^verbatim>\<open>new...Command\<close>
  functions of \<^verbatim>\<open>commands.go\<close>, \<^verbatim>\<open>get.go\<close> and \<^verbatim>\<open>describe.go\<close>, the Kubernetes context of
  \<^verbatim>\<open>clientutil.go\<close>, and \<^verbatim>\<open>cmd/keleustesctl/main.go\<close>.

  \<^verbatim>\<open>cobra\<close> finds the command, parses its flags and checks its arguments before it calls
  \<^verbatim>\<open>RunE\<close>: a command is the data it is built with, the parsed flags are an argument of
  \<^verbatim>\<open>RunE\<close>, and \<open>args_accepted\<close> is what the validators document.  A panic of the Go code, an
  index out of range, is the outcome \<open>Panicked\<close>.
\<close>

section \<open>Commands\<close>

datatype args_rule = AnyArgs | ExactArgs nat | MaximumNArgs nat | RangeArgs nat nat

fun args_accepted :: "args_rule \<Rightarrow> nat \<Rightarrow> bool" where
  "args_accepted AnyArgs n = True"
| "args_accepted (ExactArgs k) n = (n = k)"
| "args_accepted (MaximumNArgs k) n = (n \<le> k)"
| "args_accepted (RangeArgs lo hi) n = (lo \<le> n \<and> n \<le> hi)"

datatype flag_value = FlagString string | FlagBool bool

record cli_flag =
  flag_Name :: string
  flag_Shorthand :: string
  flag_Default :: flag_value

text \<open>The flags given on the command line, by name.\<close>

type_synonym given = "string \<Rightarrow> flag_value option"

definition string_flag :: "string \<Rightarrow> string \<Rightarrow> string \<Rightarrow> cli_flag" where
  "string_flag n short dflt = \<lparr>flag_Name = n, flag_Shorthand = short, flag_Default = FlagString dflt\<rparr>"

definition bool_flag :: "string \<Rightarrow> string \<Rightarrow> bool \<Rightarrow> cli_flag" where
  "bool_flag n short dflt = \<lparr>flag_Name = n, flag_Shorthand = short, flag_Default = FlagBool dflt\<rparr>"

definition flag_lookup :: "cli_flag list \<Rightarrow> given \<Rightarrow> string \<Rightarrow> flag_value option" where
  "flag_lookup fs given n =
     (case find (\<lambda>f. flag_Name f = n) fs of
        None \<Rightarrow> None
      | Some f \<Rightarrow> Some (case given n of None \<Rightarrow> flag_Default f | Some v \<Rightarrow> v))"

text \<open>
  \<^verbatim>\<open>GetString\<close> without its error, and the variables of \<^verbatim>\<open>StringVar\<close> and \<^verbatim>\<open>BoolVar\<close>: the zero
  value when there is no such flag of that type.
\<close>

definition GetString :: "cli_flag list \<Rightarrow> given \<Rightarrow> string \<Rightarrow> string" where
  "GetString fs given n = (case flag_lookup fs given n of Some (FlagString s) \<Rightarrow> s | _ \<Rightarrow> [])"

definition GetBool :: "cli_flag list \<Rightarrow> given \<Rightarrow> string \<Rightarrow> bool" where
  "GetBool fs given n = (case flag_lookup fs given n of Some (FlagBool b) \<Rightarrow> b | _ \<Rightarrow> False)"

datatype 'w outcome = Panicked | Returned "goerr option" 'w

text \<open>\<^verbatim>\<open>RunE\<close> is called with the command's path, its flags and its arguments.\<close>

type_synonym 'w run = "string \<Rightarrow> given \<Rightarrow> string list \<Rightarrow> 'w \<Rightarrow> 'w outcome"

datatype 'w command = Command (cmd_Use: string) (cmd_Short: string) (cmd_Args: args_rule)
  (cmd_Flags: "cli_flag list") (cmd_RunE: "'w run option") (cmd_Sub: "'w command list")

definition cmd_Name :: "'w command \<Rightarrow> string" where
  "cmd_Name c = takeWhile (\<lambda>ch. ch \<noteq> CHR '' '') (cmd_Use c)"

definition returned :: "goerr option \<times> 'w \<Rightarrow> 'w outcome" where
  "returned r = Returned (fst r) (snd r)"

text \<open>\<^verbatim>\<open>args[0]\<close>\<close>

definition with_arg0 :: "string list \<Rightarrow> (string \<Rightarrow> 'w outcome) \<Rightarrow> 'w outcome" where
  "with_arg0 args k = (case args of [] \<Rightarrow> Panicked | a # _ \<Rightarrow> k a)"

section \<open>What the commands are run with\<close>

record 'cfg config_lib =
  cf_ClientConfig :: "string option \<Rightarrow> (goerr, 'cfg) result"
  cf_NewForConfig :: "'cfg \<Rightarrow> (goerr, dyn_client) result"

definition newKubeContext :: "'cfg config_lib \<Rightarrow> string \<Rightarrow> (goerr, dyn_client) result" where
  "newKubeContext lib kubeconfig =
     (case cf_ClientConfig lib (if kubeconfig \<noteq> [] then Some kubeconfig else None) of
        Inl err \<Rightarrow> Inl (Wrapped ''load kubeconfig'' err)
      | Inr cfg \<Rightarrow>
          (case cf_NewForConfig lib cfg of
             Inl err \<Rightarrow> Inl (Wrapped ''build dynamic client'' err)
           | Inr dyn \<Rightarrow> Inr dyn))"

text \<open>
  The surroundings: the API client for a value of \<^verbatim>\<open>--api-url\<close>, the output, the libraries.
\<close>

record ('w, 'cfg) session =
  se_APIClient :: "string \<Rightarrow> (goerr, api_client) result"
  se_DecodeProblem :: "string \<Rightarrow> (goerr, oa_Problem) result"
  se_FormatTime :: "time \<Rightarrow> string"
  se_out :: "'w stream"
  se_unstr :: unstr_lib
  se_clock :: "nat \<Rightarrow> time"
  se_config :: "'cfg config_lib"

definition api_url_flag :: cli_flag where
  "api_url_flag = string_flag ''api-url'' [] []"

text \<open>The merged flag set of a command below the root has the persistent flag too.\<close>

definition cmd_env :: "('w, 'cfg) session \<Rightarrow> cli_flag list \<Rightarrow> given \<Rightarrow> cli_env" where
  "cmd_env S fs given =
     \<lparr>env_NewAPIClient = se_APIClient S (GetString (api_url_flag # fs) given ''api-url''),
      env_Flag = GetString (api_url_flag # fs) given, env_DecodeProblem = se_DecodeProblem S,
      env_FormatTime = se_FormatTime S\<rparr>"

section \<open>The tree\<close>

definition newAppCommand :: "('w, 'cfg) session \<Rightarrow> 'w command" where
  "newAppCommand S =
     Command ''app'' ''Inspect applications'' AnyArgs [] None
       [Command ''list'' ''List applications'' AnyArgs []
          (Some (\<lambda>path given args w. returned (runAppList (cmd_env S [] given) (se_out S) w))) [],
        Command ''get NAME'' ''Show detail for one application'' (ExactArgs 1) []
          (Some (\<lambda>path given args w. with_arg0 args (\<lambda>name.
             returned (runAppGet (cmd_env S [] given) (se_out S) name w)))) []]"

definition matrix_flags :: "cli_flag list" where
  "matrix_flags = [string_flag ''env'' [] []]"

definition newMatrixCommand :: "('w, 'cfg) session \<Rightarrow> 'w command" where
  "newMatrixCommand S =
     Command ''matrix [APPLICATION]'' ''Show the application/environment matrix'' (MaximumNArgs 1)
       matrix_flags
       (Some (\<lambda>path given args w.
          returned (runMatrix (cmd_env S matrix_flags given) (se_out S) args w))) []"

definition newReleaseCommand :: "('w, 'cfg) session \<Rightarrow> 'w command" where
  "newReleaseCommand S =
     Command ''release'' ''Inspect releases'' AnyArgs [] None
       [Command ''list APPLICATION'' ''List releases for an application'' (ExactArgs 1) []
          (Some (\<lambda>path given args w. with_arg0 args (\<lambda>app.
             returned (runReleaseList (cmd_env S [] given) (se_out S) app w)))) []]"

definition newPromoteCommand :: "'w command" where
  "newPromoteCommand =
     Command ''promote APPLICATION'' ''Request a promotion for an application'' (ExactArgs 1)
       [string_flag ''release'' [] [], string_flag ''to'' [] [], string_flag ''cell'' [] [],
        string_flag ''region'' [] [], string_flag ''change'' [] [], bool_flag ''pr'' [] False]
       (Some (\<lambda>path given args w. Returned (Some (notImplemented path)) w)) []"

definition diff_flags :: "cli_flag list" where
  "diff_flags = [string_flag ''from'' [] [], string_flag ''to'' [] []]"

definition newDiffCommand :: "('w, 'cfg) session \<Rightarrow> 'w command" where
  "newDiffCommand S =
     Command ''diff APPLICATION'' ''Diff an application across environments'' (ExactArgs 1) diff_flags
       (Some (\<lambda>path given args w. with_arg0 args (\<lambda>app.
          returned (runDiff (cmd_env S diff_flags given) (se_out S) app w)))) []"

definition blockers_flags :: "cli_flag list" where
  "blockers_flags = [string_flag ''to'' [] []]"

definition newBlockersCommand :: "('w, 'cfg) session \<Rightarrow> 'w command" where
  "newBlockersCommand S =
     Command ''blockers APPLICATION'' ''Show promotion blockers for an application'' (ExactArgs 1)
       blockers_flags
       (Some (\<lambda>path given args w. with_arg0 args (\<lambda>app.
          returned (runBlockers (cmd_env S blockers_flags given) (se_out S) app w)))) []"

definition newRollbackCommand :: "'w command" where
  "newRollbackCommand =
     Command ''rollback APPLICATION'' ''Roll an application back to an earlier release'' (ExactArgs 1)
       [string_flag ''to-release'' [] [], string_flag ''env'' [] [], string_flag ''cell'' [] []]
       (Some (\<lambda>path given args w. Returned (Some (notImplemented path)) w)) []"

definition newVersionCommand :: "('w, 'cfg) session \<Rightarrow> 'w command" where
  "newVersionCommand S =
     Command ''version'' ''Print keleustesctl version'' AnyArgs []
       (Some (\<lambda>path given args w. returned (runVersion (se_out S) w))) []"

definition get_command_flags :: "cli_flag list" where
  "get_command_flags =
     [string_flag ''namespace'' ''n'' ''default'', bool_flag ''all-namespaces'' ''A'' False,
      string_flag ''output'' ''o'' [], bool_flag ''watch'' ''w'' False,
      string_flag ''kubeconfig'' [] []]"

definition newGetCommand :: "('w, 'cfg) session \<Rightarrow> 'w command" where
  "newGetCommand S =
     Command ''get KIND [NAME]'' ''List or fetch Keleustes resources'' (RangeArgs 1 2)
       get_command_flags
       (Some (\<lambda>path given args w. with_arg0 args (\<lambda>kindArg.
          returned (runGet (se_unstr S) (se_clock S)
            (newKubeContext (se_config S) (GetString get_command_flags given ''kubeconfig'')) (se_out S)
            \<lparr>get_namespace = GetString get_command_flags given ''namespace'',
             get_allNamespaces = GetBool get_command_flags given ''all-namespaces'',
             get_output = GetString get_command_flags given ''output'',
             get_watch = GetBool get_command_flags given ''watch''\<rparr>
            kindArg (if length args = 2 then Some (args ! 1) else None) w)))) []"

definition describe_command_flags :: "cli_flag list" where
  "describe_command_flags =
     [string_flag ''namespace'' ''n'' ''default'', string_flag ''kubeconfig'' [] []]"

definition newDescribeCommand :: "('w, 'cfg) session \<Rightarrow> 'w command" where
  "newDescribeCommand S =
     Command ''describe KIND/NAME'' ''Show detailed state of a Keleustes resource'' (RangeArgs 1 2)
       describe_command_flags
       (Some (\<lambda>path given args w. returned (runDescribe (se_unstr S) (se_clock S 0)
          (newKubeContext (se_config S) (GetString describe_command_flags given ''kubeconfig''))
          (se_out S) (GetString describe_command_flags given ''namespace'') args w))) []"

definition NewRootCommand :: "('w, 'cfg) session \<Rightarrow> 'w command" where
  "NewRootCommand S =
     Command ''keleustesctl'' ''Keleustes operator CLI'' AnyArgs [api_url_flag] None
       [newGetCommand S, newDescribeCommand S, newAppCommand S, newMatrixCommand S,
        newReleaseCommand S, newPromoteCommand, newDiffCommand S, newBlockersCommand S,
        newRollbackCommand, newVersionCommand S]"

text \<open>Every command of a tree with its path, \<^verbatim>\<open>CommandPath\<close>.\<close>

function commands_of :: "string \<Rightarrow> 'w command \<Rightarrow> (string \<times> 'w command) list" where
  "commands_of parent c =
     (let path = (if parent = [] then cmd_Name c else parent @ '' '' @ cmd_Name c)
      in (path, c) # concat (map (commands_of path) (cmd_Sub c)))"
  by pat_completeness auto
termination
proof (relation "measure (\<lambda>(_, c). size c)", goal_cases)
  case (2 parent c path x)
  then show ?case by (cases c) (auto dest: size_list_estimation'[of _ _ _ size] simp: less_Suc_eq_le)
qed simp

declare commands_of.simps [simp del]

text \<open>\<^verbatim>\<open>main\<close>: what it writes to the error stream and the exit status.\<close>

definition kctl_main :: "goerr option \<Rightarrow> string \<times> int" where
  "kctl_main err = (case err of Some e \<Rightarrow> (error_string e @ [CHR 0x0A], 1) | None \<Rightarrow> ([], 0))"

section \<open>Every command of the tree\<close>

lemma names [simp]:
  "cmd_Name (Command use short a fs r cs) = takeWhile (\<lambda>ch. ch \<noteq> CHR '' '') use"
  by (simp add: cmd_Name_def)

lemmas tree_defs = NewRootCommand_def newGetCommand_def newDescribeCommand_def newAppCommand_def
  newMatrixCommand_def newReleaseCommand_def newPromoteCommand_def newDiffCommand_def
  newBlockersCommand_def newRollbackCommand_def newVersionCommand_def

lemmas flag_defs = get_command_flags_def describe_command_flags_def matrix_flags_def diff_flags_def
  blockers_flags_def api_url_flag_def string_flag_def bool_flag_def

text \<open>What is asked of one command: its flags are apart, and it does not panic.\<close>

definition flags_apart :: "cli_flag list \<Rightarrow> bool" where
  "flags_apart fs \<longleftrightarrow> distinct (map flag_Name fs)
     \<and> distinct (filter (\<lambda>s. s \<noteq> []) (map flag_Shorthand fs))"

definition runs_safely :: "string \<Rightarrow> 'w command \<Rightarrow> bool" where
  "runs_safely path c \<longleftrightarrow> flags_apart (cmd_Flags c)
     \<and> (path \<noteq> ''keleustesctl'' \<longrightarrow> flags_apart (api_url_flag # cmd_Flags c))
     \<and> (\<forall>run given args w. cmd_RunE c = Some run \<longrightarrow> args_accepted (cmd_Args c) (length args)
          \<longrightarrow> run path given args w \<noteq> Panicked)"

lemma with_arg0_accepted: "args \<noteq> [] \<Longrightarrow> with_arg0 args k = k (hd args)"
  by (cases args) (simp_all add: with_arg0_def)

lemma returned_runs [simp]: "returned r \<noteq> Panicked"
  by (simp add: returned_def)

lemma args_nonempty [simp]:
  "length args = Suc 0 \<Longrightarrow> args \<noteq> []" "Suc 0 \<le> length args \<Longrightarrow> args \<noteq> []"
  by auto

lemma root_commands:
  "commands_of [] (NewRootCommand S) =
    [(''keleustesctl'', NewRootCommand S), (''keleustesctl get'', newGetCommand S),
     (''keleustesctl describe'', newDescribeCommand S), (''keleustesctl app'', newAppCommand S),
     (''keleustesctl app list'', cmd_Sub (newAppCommand S) ! 0),
     (''keleustesctl app get'', cmd_Sub (newAppCommand S) ! 1),
     (''keleustesctl matrix'', newMatrixCommand S), (''keleustesctl release'', newReleaseCommand S),
     (''keleustesctl release list'', cmd_Sub (newReleaseCommand S) ! 0),
     (''keleustesctl promote'', newPromoteCommand), (''keleustesctl diff'', newDiffCommand S),
     (''keleustesctl blockers'', newBlockersCommand S),
     (''keleustesctl rollback'', newRollbackCommand), (''keleustesctl version'', newVersionCommand S)]"
  by (simp add: tree_defs commands_of.simps Let_def)

lemma all_run_safely:
  "list_all (\<lambda>(path, c). runs_safely path c) (commands_of [] (NewRootCommand S))"
  unfolding root_commands
  by (simp add: tree_defs runs_safely_def flags_apart_def flag_defs with_arg0_accepted)

section \<open>The property\<close>

text \<open>C35: The command line's entry.  Every command of the tree, run with a number of arguments
  its validator accepts, returns and never indexes past them; registering its flags does not
  clash, among themselves or with the persistent one; the paths of the commands are distinct;
  the two verbs of the write path report that they are not implemented and write nothing; and
  the process exits with status 1 exactly when the command returned an error.\<close>

theorem commands_never_panic:
  assumes "(path, c) \<in> set (commands_of [] (NewRootCommand S))"
    and "cmd_RunE c = Some run" "args_accepted (cmd_Args c) (length args)"
  shows "\<exists>err w'. run path given args w = Returned err w'
    \<and> (path \<in> {''keleustesctl promote'', ''keleustesctl rollback''}
         \<longrightarrow> err = Some (notImplemented path) \<and> w' = w)
    \<and> (snd (kctl_main err) = 1 \<longleftrightarrow> err \<noteq> None)
    \<and> flags_apart (api_url_flag # cmd_Flags c)
    \<and> distinct (map fst (commands_of [] (NewRootCommand S)))"
proof -
  have "runs_safely path c" using all_run_safely assms(1) by (auto simp: list_all_iff)
  moreover have "path \<noteq> ''keleustesctl''"
    using assms(1,2) unfolding root_commands by (auto simp: tree_defs)
  ultimately have "run path given args w \<noteq> Panicked" "flags_apart (api_url_flag # cmd_Flags c)"
    using assms(2,3) unfolding runs_safely_def by blast+
  moreover have "path \<in> {''keleustesctl promote'', ''keleustesctl rollback''}
      \<Longrightarrow> run path given args w = Returned (Some (notImplemented path)) w"
    using assms(1,2) unfolding root_commands by (auto simp: tree_defs)
  moreover have "distinct (map fst (commands_of [] (NewRootCommand S)))"
    unfolding root_commands by simp
  ultimately show ?thesis
    by (cases "run path given args w") (auto simp: kctl_main_def split: option.split)
qed

definition sample_session :: "(nat \<times> string list, unit) session" where
  "sample_session =
     \<lparr>se_APIClient = (\<lambda>_. Inl (Opaque ''connection refused'')),
      se_DecodeProblem = (\<lambda>_. Inl (Opaque ''no JSON'')), se_FormatTime = (\<lambda>_. []),
      se_out = short_terminal, se_unstr = sample_ul, se_clock = (\<lambda>_. 0),
      se_config = \<lparr>cf_ClientConfig = (\<lambda>_. Inr ()), cf_NewForConfig = (\<lambda>_. Inr sample_dyn)\<rparr>\<rparr>"

theorem commands_never_panic_witness:
  "\<exists>run. cmd_RunE (newPromoteCommand :: (nat \<times> string list) command) = Some run
    \<and> run ''keleustesctl promote'' (\<lambda>_. None) [''web''] (3, [])
      = Returned (Some (Opaque ''keleustesctl promote: not implemented in this scaffold'')) (3, [])"
proof -
  obtain run where run: "cmd_RunE (newPromoteCommand :: (nat \<times> string list) command) = Some run"
    by (simp add: newPromoteCommand_def)
  have mem: "(''keleustesctl promote'', newPromoteCommand)
      \<in> set (commands_of [] (NewRootCommand sample_session))"
    unfolding root_commands by simp
  have "args_accepted (cmd_Args (newPromoteCommand :: (nat \<times> string list) command)) (length [''web''])"
    by (simp add: newPromoteCommand_def)
  from commands_never_panic[OF mem run this, of "\<lambda>_. None" "(3, [])"] run show ?thesis
    by (auto simp: notImplemented_def)
qed

end
