(* ===== verification/Go_Heap.thy ===== *)
theory Go_Heap
  imports Go_Prelude
begin

text \<open>
  Go's memory, as far as the generated deep copies use it: a heap of variables and backing
  arrays, values that point into it, the types of the API structs, and the statements
  \<^verbatim>\<open>controller-gen\<close> writes.

  An address is an index into the heap and an allocation appends a cell, so an address is
  fresh when it is at least the length of the heap.  A slice is nil or refers to its
  backing array (the generated code only reads whole slices and makes slices whose length
  is their capacity); a map inside a library type is seen as a reference to its entries.
  A function that fills \<^verbatim>\<open>*out\<close> from \<^verbatim>\<open>*in\<close> is a \<open>copier\<close>: it takes the value read
  through \<^verbatim>\<open>in\<close> and returns the value written through \<^verbatim>\<open>out\<close>, with the heap after its
  allocations.

  \<open>view\<close> reads the whole value that hangs below a Go value, \<open>addrs\<close> is the set of cells it
  is spread over.  \<open>copies T cp\<close> is the contract of a deep copy: the copy reads the same, all
  its cells are new, and no old cell has changed.
\<close>

section \<open>Values, cells and types\<close>

datatype gval = GStr string | GInt int | GBool bool | GNil | GRef nat
  | GStruct "(string \<times> gval) list"

datatype cell = CVar gval | CArr "gval list"

type_synonym heap = "cell list"
type_synonym copier = "gval \<Rightarrow> heap \<Rightarrow> gval \<times> heap"

datatype gtype = TString | TInt | TBool | TPtr gtype | TSlice gtype
  | TStruct "(string \<times> gtype) list"

text \<open>What is read through a value, all references followed.\<close>

datatype reading = RStr string | RInt int | RBool bool | RNil | RPtr reading
  | RSlice "reading list" | RStruct "(string \<times> reading) list"

definition load :: "heap \<Rightarrow> nat \<Rightarrow> gval option" where
  "load h a = (if a < length h then (case h ! a of CVar x \<Rightarrow> Some x | CArr _ \<Rightarrow> None) else None)"

definition elems :: "heap \<Rightarrow> nat \<Rightarrow> gval list option" where
  "elems h a = (if a < length h then (case h ! a of CVar _ \<Rightarrow> None | CArr xs \<Rightarrow> Some xs) else None)"

function (sequential) view :: "gtype \<Rightarrow> gval \<Rightarrow> heap \<Rightarrow> reading option"
  and view_fields :: "(string \<times> gtype) list \<Rightarrow> (string \<times> gval) list \<Rightarrow> heap
    \<Rightarrow> (string \<times> reading) list option" where
  "view TString v h = (case v of GStr s \<Rightarrow> Some (RStr s) | _ \<Rightarrow> None)"
| "view TInt v h = (case v of GInt i \<Rightarrow> Some (RInt i) | _ \<Rightarrow> None)"
| "view TBool v h = (case v of GBool b \<Rightarrow> Some (RBool b) | _ \<Rightarrow> None)"
| "view (TPtr T) v h = (case v of
      GNil \<Rightarrow> Some RNil
    | GRef a \<Rightarrow> (case load h a of Some x \<Rightarrow> map_option RPtr (view T x h) | None \<Rightarrow> None)
    | _ \<Rightarrow> None)"
| "view (TSlice T) v h = (case v of
      GNil \<Rightarrow> Some RNil
    | GRef a \<Rightarrow> (case elems h a of
          Some xs \<Rightarrow> map_option RSlice (those (map (\<lambda>x. view T x h) xs))
        | None \<Rightarrow> None)
    | _ \<Rightarrow> None)"
| "view (TStruct fs) v h = (case v of
      GStruct vs \<Rightarrow> map_option RStruct (view_fields fs vs h)
    | _ \<Rightarrow> None)"
| "view_fields [] [] h = Some []"
| "view_fields ((f, T) # fs) ((g, x) # vs) h =
     (if f = g
      then (case view T x h of
          Some r \<Rightarrow> map_option ((#) (f, r)) (view_fields fs vs h)
        | None \<Rightarrow> None)
      else None)"
| "view_fields _ _ h = None"
  by pat_completeness auto
termination
  by (relation "measure (case_sum (\<lambda>(T, _). size T)
       (\<lambda>(fs, _). size_list (size_prod (\<lambda>_. 0) size) fs))") auto

function (sequential) addrs :: "gtype \<Rightarrow> gval \<Rightarrow> heap \<Rightarrow> nat set"
  and addrs_fields :: "(string \<times> gtype) list \<Rightarrow> (string \<times> gval) list \<Rightarrow> heap \<Rightarrow> nat set" where
  "addrs (TPtr T) (GRef a) h =
     insert a (case load h a of Some x \<Rightarrow> addrs T x h | None \<Rightarrow> {})"
| "addrs (TSlice T) (GRef a) h =
     insert a (case elems h a of
         Some xs \<Rightarrow> \<Union> (set (map (\<lambda>x. addrs T x h) xs))
       | None \<Rightarrow> {})"
| "addrs (TStruct fs) (GStruct vs) h = addrs_fields fs vs h"
| "addrs _ _ h = {}"
| "addrs_fields ((f, T) # fs) ((g, x) # vs) h = addrs T x h \<union> addrs_fields fs vs h"
| "addrs_fields _ _ h = {}"
  by pat_completeness auto
termination
  by (relation "measure (case_sum (\<lambda>(T, _). size T)
       (\<lambda>(fs, _). size_list (size_prod (\<lambda>_. 0) size) fs))") auto

text \<open>A type without references: assigning a value of it copies it.\<close>

fun flat :: "gtype \<Rightarrow> bool" where
  "flat (TPtr T) = False"
| "flat (TSlice T) = False"
| "flat (TStruct fs) = list_all flat (map snd fs)"
| "flat _ = True"

text \<open>The zero value of a type.\<close>

fun zero_of :: "gtype \<Rightarrow> gval" where
  "zero_of TString = GStr []"
| "zero_of TInt = GInt 0"
| "zero_of TBool = GBool False"
| "zero_of (TPtr T) = GNil"
| "zero_of (TSlice T) = GNil"
| "zero_of (TStruct fs) = GStruct (map (\<lambda>(f, T). (f, zero_of T)) fs)"

section \<open>The statements of a generated function\<close>

definition field :: "string \<Rightarrow> gval \<Rightarrow> gval" where
  "field f v = (case v of
      GStruct vs \<Rightarrow> (case map_of vs f of Some x \<Rightarrow> x | None \<Rightarrow> GNil)
    | _ \<Rightarrow> GNil)"

definition set_field :: "string \<Rightarrow> gval \<Rightarrow> gval \<Rightarrow> gval" where
  "set_field f x v = (case v of
      GStruct vs \<Rightarrow> GStruct (map (\<lambda>(g, y). (g, if g = f then x else y)) vs)
    | _ \<Rightarrow> v)"

text \<open>
  A body starts with \<^verbatim>\<open>*out = *in\<close> and then runs one statement per listed field:
  each reads \<^verbatim>\<open>in.F\<close> and sets \<^verbatim>\<open>out.F\<close>.
\<close>

fun run_fields :: "(string \<times> copier) list \<Rightarrow> gval \<Rightarrow> gval \<times> heap \<Rightarrow> gval \<times> heap" where
  "run_fields [] v oh = oh"
| "run_fields ((f, cp) # ss) v (out, h) =
     (let (x, h') = cp (field f v) h in run_fields ss v (set_field f x out, h'))"

definition copy_body :: "(string \<times> copier) list \<Rightarrow> copier" where
  "copy_body ss v h = run_fields ss v (v, h)"

text \<open>\<^verbatim>\<open>out.F = in.F\<close>.\<close>

definition assigned :: copier where
  "assigned v h = (v, h)"

text \<open>
  \<^verbatim>\<open>new(T)\<close>, then the new variable is filled by \<^verbatim>\<open>(*in).DeepCopyInto(*out)\<close>, or by
  \<^verbatim>\<open>**out = **in\<close>; a nil pointer stays nil.
\<close>

definition new_into :: "gtype \<Rightarrow> copier \<Rightarrow> copier" where
  "new_into T cp p h = (case p of
      GRef a \<Rightarrow>
        (let b = length h;
             h1 = h @ [CVar (zero_of T)];
             (x, h2) = cp (case load h1 a of Some v \<Rightarrow> v | None \<Rightarrow> GNil) h1
         in (GRef b, h2[b := CVar x]))
    | _ \<Rightarrow> (p, h))"

definition new_assigned :: "gtype \<Rightarrow> copier" where
  "new_assigned T = new_into T assigned"

text \<open>
  \<^verbatim>\<open>make([]T, len(*in))\<close> and the loop \<^verbatim>\<open>for i := range *in { (*in)[i].DeepCopyInto(&(*out)[i]) }\<close>;
  a nil slice stays nil.
\<close>

definition elem :: "heap \<Rightarrow> nat \<Rightarrow> nat \<Rightarrow> gval" where
  "elem h a i = (case elems h a of
      Some xs \<Rightarrow> if i < length xs then xs ! i else GNil
    | None \<Rightarrow> GNil)"

definition set_elem :: "heap \<Rightarrow> nat \<Rightarrow> nat \<Rightarrow> gval \<Rightarrow> heap" where
  "set_elem h b i x = (case elems h b of Some xs \<Rightarrow> h[b := CArr (xs[i := x])] | None \<Rightarrow> h)"

fun copy_loop :: "copier \<Rightarrow> nat \<Rightarrow> nat \<Rightarrow> nat list \<Rightarrow> heap \<Rightarrow> heap" where
  "copy_loop cp a b [] h = h"
| "copy_loop cp a b (i # is) h =
     (let (x, h') = cp (elem h a i) h in copy_loop cp a b is (set_elem h' b i x))"

definition len_at :: "heap \<Rightarrow> nat \<Rightarrow> nat" where
  "len_at h a = (case elems h a of Some xs \<Rightarrow> length xs | None \<Rightarrow> 0)"

definition made_into :: "gtype \<Rightarrow> copier \<Rightarrow> copier" where
  "made_into T cp p h = (case p of
      GRef a \<Rightarrow>
        (let n = len_at h a; b = length h; h1 = h @ [CArr (replicate n (zero_of T))]
         in (GRef b, copy_loop cp a b [0..<n] h1))
    | _ \<Rightarrow> (p, h))"

text \<open>\<^verbatim>\<open>make([]T, len(*in))\<close> and \<^verbatim>\<open>copy(*out, *in)\<close>.\<close>

definition made_copied :: "gtype \<Rightarrow> copier" where
  "made_copied T p h = (case p of
      GRef a \<Rightarrow>
        (let n = len_at h a; b = length h; h1 = h @ [CArr (replicate n (zero_of T))]
         in (GRef b, h1[b := CArr (case elems h1 a of Some xs \<Rightarrow> take n xs | None \<Rightarrow> [])]))
    | _ \<Rightarrow> (p, h))"

text \<open>
  \<^verbatim>\<open>func (in *T) DeepCopy() *T\<close>: a nil receiver gives nil, otherwise \<^verbatim>\<open>new(T)\<close> and
  \<^verbatim>\<open>in.DeepCopyInto(out)\<close>.
\<close>

definition deep_copy :: "gtype \<Rightarrow> copier \<Rightarrow> copier" where
  "deep_copy T into p h = (if p = GNil then (GNil, h) else new_into T into p h)"

text \<open>
  \<^verbatim>\<open>DeepCopyObject\<close> returns a \<^verbatim>\<open>runtime.Object\<close>: no interface value when the copy is the
  nil pointer, otherwise the copy with its dynamic type.
\<close>

definition deep_copy_object ::
    "string \<Rightarrow> copier \<Rightarrow> gval \<Rightarrow> heap \<Rightarrow> (string \<times> gval) option \<times> heap" where
  "deep_copy_object name dc p h =
     (let (c, h') = dc p h in if c \<noteq> GNil then (Some (name, c), h') else (None, h'))"

section \<open>The contract\<close>

definition extends :: "heap \<Rightarrow> heap \<Rightarrow> bool" where
  "extends h h' \<longleftrightarrow> take (length h) h' = h"

definition copies :: "gtype \<Rightarrow> copier \<Rightarrow> bool" where
  "copies T cp \<longleftrightarrow> (\<forall>v h r. view T v h = Some r \<longrightarrow>
     (case cp v h of (v', h') \<Rightarrow>
        extends h h' \<and> view T v' h' = Some r \<and> addrs T v' h' \<subseteq> {length h..<length h'}))"

text \<open>
  Every field of the struct has its statement, in order; a field without one holds no
  reference.
\<close>

fun implements :: "(string \<times> gtype) list \<Rightarrow> (string \<times> copier) list \<Rightarrow> bool" where
  "implements [] ss \<longleftrightarrow> ss = []"
| "implements ((f, T) # fs) [] \<longleftrightarrow> flat T \<and> implements fs []"
| "implements ((f, T) # fs) ((g, cp) # ss) \<longleftrightarrow>
     (if f = g then copies T cp \<and> implements fs ss
      else flat T \<and> implements fs ((g, cp) # ss))"


section \<open>Reading and framing\<close>

lemma load_Some: "load h a = Some x \<longleftrightarrow> a < length h \<and> h ! a = CVar x"
  by (auto simp: load_def split: cell.splits)

lemma elems_Some: "elems h a = Some xs \<longleftrightarrow> a < length h \<and> h ! a = CArr xs"
  by (auto simp: elems_def split: cell.splits)

lemma those_Some: "those os = Some xs \<longleftrightarrow> os = map Some xs"
  by (induction os arbitrary: xs) (auto split: option.splits)

lemma extends_refl [simp]: "extends h h"
  by (simp add: extends_def)

lemma extends_length: "extends h h' \<Longrightarrow> length h \<le> length h'"
  unfolding extends_def by (metis nat_le_linear take_all length_take min.absorb_iff2 order_refl)

lemma extends_nth: "extends h h' \<Longrightarrow> a < length h \<Longrightarrow> h' ! a = h ! a"
  unfolding extends_def by (metis nth_take)

lemma extendsI:
  "length h \<le> length h' \<Longrightarrow> (\<And>a. a < length h \<Longrightarrow> h' ! a = h ! a) \<Longrightarrow> extends h h'"
  unfolding extends_def by (intro nth_equalityI) auto

lemma extends_trans:
  assumes "extends h h1" "extends h1 h2"
  shows "extends h h2"
proof (rule extendsI)
  show "length h \<le> length h2" using assms[THEN extends_length] by simp
  show "h2 ! a = h ! a" if "a < length h" for a
    using that assms extends_length[OF assms(1)] extends_nth by simp
qed

lemma extends_append [simp]: "extends h (h @ c)"
  by (simp add: extends_def)

lemma extends_update: "extends h h' \<Longrightarrow> length h \<le> b \<Longrightarrow> extends h (h'[b := c])"
  by (auto simp: extends_def)

text \<open>Every cell a readable value is spread over is allocated.\<close>

lemma view_elem:
  assumes "map (\<lambda>x. view T x h) xs = map Some rs" "x \<in> set xs"
  obtains q where "view T x h = Some q"
  using assms by (auto simp: in_set_conv_nth list_eq_iff_nth_eq)

lemma view_bound:
  "view T v h = Some r \<Longrightarrow> addrs T v h \<subseteq> {..<length h}"
  "view_fields fs vs h = Some rs \<Longrightarrow> addrs_fields fs vs h \<subseteq> {..<length h}"
proof (induction T v h and fs vs h arbitrary: r and rs rule: view_view_fields.induct)
  case (4 T v h)
  show ?case
  proof (cases v)
    case (GRef a)
    then obtain x r' where x: "load h a = Some x" "view T x h = Some r'"
      using 4(2) by (auto split: option.splits)
    moreover have "a < length h" using x(1) by (simp add: load_Some)
    ultimately show ?thesis using 4(1)[OF GRef x] GRef by simp
  qed (use 4(2) in auto)
next
  case (5 T v h)
  show ?case
  proof (cases v)
    case (GRef a)
    then obtain xs rs where x: "elems h a = Some xs" "map (\<lambda>x. view T x h) xs = map Some rs"
      using 5(2) by (auto split: option.splits simp: those_Some)
    have "addrs T z h \<subseteq> {..<length h}" if z: "z \<in> set xs" for z
      using view_elem[OF x(2) z] 5(1)[OF GRef x(1) z] by metis
    moreover have "a < length h" using x(1) by (simp add: elems_Some)
    ultimately show ?thesis using GRef x(1) by auto
  qed (use 5(2) in auto)
next
  case (6 fs v h)
  then show ?case by (auto split: gval.splits)
next
  case (8 f T fs g x vs h)
  then show ?case by (force split: if_splits option.splits)
qed (auto split: gval.splits)

text \<open>A value reads the same in every heap that agrees on the cells it is spread over.\<close>

lemma view_frame:
  "view T v h = Some r \<Longrightarrow> (\<And>a. a \<in> addrs T v h \<Longrightarrow> a < length h' \<and> h' ! a = h ! a)
     \<Longrightarrow> view T v h' = Some r \<and> addrs T v h' = addrs T v h"
  "view_fields fs vs h = Some rs
     \<Longrightarrow> (\<And>a. a \<in> addrs_fields fs vs h \<Longrightarrow> a < length h' \<and> h' ! a = h ! a)
     \<Longrightarrow> view_fields fs vs h' = Some rs \<and> addrs_fields fs vs h' = addrs_fields fs vs h"
proof (induction T v h and fs vs h arbitrary: r and rs rule: view_view_fields.induct)
  case (4 T v h)
  show ?case
  proof (cases v)
    case (GRef a)
    then obtain x r' where x: "load h a = Some x" "view T x h = Some r'" "r = RPtr r'"
      using 4(2) by (auto split: option.splits)
    then have "load h' a = Some x" using 4(3) GRef by (auto simp: load_Some)
    moreover have "view T x h' = Some r' \<and> addrs T x h' = addrs T x h"
      using 4(1)[OF GRef x(1,2)] 4(3) GRef x by auto
    ultimately show ?thesis using GRef x by simp
  qed (use 4 in auto)
next
  case (5 T v h)
  show ?case
  proof (cases v)
    case (GRef a)
    then obtain xs rs where x: "elems h a = Some xs" "map (\<lambda>x. view T x h) xs = map Some rs"
        "r = RSlice rs"
      using 5(2) by (auto split: option.splits simp: those_Some)
    then have e: "elems h' a = Some xs" using 5(3) GRef by (auto simp: elems_Some)
    have each: "view T z h' = view T z h \<and> addrs T z h' = addrs T z h" if z: "z \<in> set xs" for z
    proof -
      obtain q where q: "view T z h = Some q" using view_elem[OF x(2) z] .
      have "a \<in> addrs T z h \<Longrightarrow> a < length h' \<and> h' ! a = h ! a" for a
        using 5(3)[of a] GRef x(1) z by auto
      then show ?thesis using 5(1)[OF GRef x(1) z q] q by simp
    qed
    have "map (\<lambda>x. view T x h') xs = map Some rs" using x(2) each by (metis (no_types, lifting) map_eq_conv)
    then show ?thesis using GRef x e each by (simp add: those_Some)
  qed (use 5 in auto)
next
  case (6 fs v h)
  then show ?case by (auto split: gval.splits)
next
  case (8 f T fs g x vs h)
  then show ?case by (force split: if_splits option.splits)
qed (auto split: gval.splits)

lemma view_extends:
  assumes "view T v h = Some r" "extends h h'"
  shows "view T v h' = Some r" "addrs T v h' = addrs T v h"
  using view_frame(1)[OF assms(1), of h'] view_bound(1)[OF assms(1)]
    extends_length[OF assms(2)] extends_nth[OF assms(2)] by fastforce+

lemma view_fields_extends:
  assumes "view_fields fs vs h = Some rs" "extends h h'"
  shows "view_fields fs vs h' = Some rs" "addrs_fields fs vs h' = addrs_fields fs vs h"
  using view_frame(2)[OF assms(1), of h'] view_bound(2)[OF assms(1)]
    extends_length[OF assms(2)] extends_nth[OF assms(2)] by fastforce+

lemma flat_addrs:
  "flat T \<Longrightarrow> addrs T v h = {}"
  "list_all flat (map snd fs) \<Longrightarrow> addrs_fields fs vs h = {}"
  by (induction T v h and fs vs h rule: addrs_addrs_fields.induct) auto

section \<open>Every statement keeps the contract\<close>

lemma copiesI:
  assumes "\<And>v h r. view T v h = Some r \<Longrightarrow> \<exists>v' h'. cp v h = (v', h') \<and> extends h h'
      \<and> view T v' h' = Some r \<and> addrs T v' h' \<subseteq> {length h..<length h'}"
  shows "copies T cp"
  unfolding copies_def using assms by fastforce

lemma copiesE:
  assumes "copies T cp" "view T v h = Some r"
  obtains v' h' where "cp v h = (v', h')" "extends h h'" "view T v' h' = Some r"
    "addrs T v' h' \<subseteq> {length h..<length h'}"
  using assms unfolding copies_def by (cases "cp v h") fastforce

lemma copies_assigned: "flat T \<Longrightarrow> copies T assigned"
  by (rule copiesI) (simp add: assigned_def flat_addrs)

text \<open>Overwriting a cell leaves the values it is no part of.\<close>

lemma view_update:
  assumes "view T v h = Some r" "b \<notin> addrs T v h"
  shows "view T v (h[b := c]) = Some r" "addrs T v (h[b := c]) = addrs T v h"
proof -
  have "a < length (h[b := c]) \<and> h[b := c] ! a = h ! a" if "a \<in> addrs T v h" for a
    using that view_bound(1)[OF assms(1)] assms(2) by (cases "a = b") auto
  from view_frame(1)[OF assms(1) this]
  show "view T v (h[b := c]) = Some r" "addrs T v (h[b := c]) = addrs T v h" by simp_all
qed

lemma new_into_GRef:
  assumes "copies T cp" "load h a = Some x" "view T x h = Some r"
  obtains x' h' where "new_into T cp (GRef a) h = (GRef (length h), h')" "extends h h'"
    "load h' (length h) = Some x'" "view T x' h' = Some r"
    "addrs T x' h' \<subseteq> {Suc (length h)..<length h'}"
proof -
  let ?h1 = "h @ [CVar (zero_of T)]"
  have v1: "view T x ?h1 = Some r" using view_extends(1)[OF assms(3)] by simp
  obtain x' h2 where c: "cp x ?h1 = (x', h2)" "extends ?h1 h2" "view T x' h2 = Some r"
      "addrs T x' h2 \<subseteq> {length ?h1..<length h2}"
    by (rule copiesE[OF assms(1) v1])
  let ?h' = "h2[length h := CVar x']"
  have "length h \<notin> addrs T x' h2" using c(4) by auto
  note u = view_update[OF c(3) this, of "CVar x'"]
  have "load ?h1 a = Some x" using assms(2) by (simp add: load_Some nth_append)
  then have "new_into T cp (GRef a) h = (GRef (length h), ?h')"
    using c(1) by (simp add: new_into_def Let_def)
  moreover have "extends h ?h'"
    using extends_trans[OF extends_append c(2)] by (rule extends_update) simp
  moreover have "load ?h' (length h) = Some x'"
    using extends_length[OF c(2)] by (simp add: load_Some)
  ultimately show thesis using that u c(4) by simp
qed

lemma copies_new_into:
  assumes "copies T cp"
  shows "copies (TPtr T) (new_into T cp)"
proof (rule copiesI)
  fix v h r
  assume v: "view (TPtr T) v h = Some r"
  show "\<exists>v' h'. new_into T cp v h = (v', h') \<and> extends h h' \<and> view (TPtr T) v' h' = Some r
      \<and> addrs (TPtr T) v' h' \<subseteq> {length h..<length h'}"
  proof (cases v)
    case (GRef a)
    then obtain x r' where x: "load h a = Some x" "view T x h = Some r'" "r = RPtr r'"
      using v by (auto split: option.splits)
    obtain x' h' where n: "new_into T cp (GRef a) h = (GRef (length h), h')" "extends h h'"
        "load h' (length h) = Some x'" "view T x' h' = Some r'"
        "addrs T x' h' \<subseteq> {Suc (length h)..<length h'}"
      by (rule new_into_GRef[OF assms x(1,2)])
    moreover have "length h < length h'" using n(3) by (simp add: load_Some)
    ultimately show ?thesis using GRef x(3) by auto
  qed (use v in \<open>auto simp: new_into_def\<close>)
qed

lemma copies_new_assigned: "flat T \<Longrightarrow> copies (TPtr T) (new_assigned T)"
  unfolding new_assigned_def by (intro copies_new_into copies_assigned)

lemma copies_deep_copy: "copies T into \<Longrightarrow> copies (TPtr T) (deep_copy T into)"
proof -
  have "deep_copy T into = new_into T into"
    by (intro ext) (simp add: deep_copy_def new_into_def)
  then show "copies T into \<Longrightarrow> ?thesis" by (simp add: copies_new_into)
qed

text \<open>The loop over a slice: the elements below the index are copied.\<close>

lemma copy_loop_step:
  assumes "copies T cp" "elems h0 a = Some xs" "\<forall>j < length xs. view T (xs ! j) h0 = Some (rs ! j)"
    and "extends h0 h" "elems h (length h0) = Some ys" "length ys = length xs"
    and "\<forall>j < k. view T (ys ! j) h = Some (rs ! j)
           \<and> addrs T (ys ! j) h \<subseteq> {Suc (length h0)..<length h}"
    and "k \<le> length xs"
  shows "\<exists>zs h'. copy_loop cp a (length h0) [k..<length xs] h = h' \<and> extends h0 h'
      \<and> elems h' (length h0) = Some zs \<and> length zs = length xs
      \<and> (\<forall>j < length xs. view T (zs ! j) h' = Some (rs ! j)
           \<and> addrs T (zs ! j) h' \<subseteq> {Suc (length h0)..<length h'})"
  using assms(4-)
proof (induction "length xs - k" arbitrary: k h ys)
  case 0
  then show ?case by simp
next
  case (Suc m)
  let ?b = "length h0"
  have k: "k < length xs" using Suc.hyps(2) by simp
  have "elems h a = Some xs"
    using assms(2) extends_nth[OF Suc.prems(1)] extends_length[OF Suc.prems(1)]
    by (simp add: elems_Some)
  then have e: "elem h a k = xs ! k" using k by (simp add: elem_def)
  have "view T (xs ! k) h = Some (rs ! k)"
    using view_extends(1)[OF _ Suc.prems(1)] assms(3) k by blast
  from copiesE[OF assms(1) this] obtain x h1 where c: "cp (xs ! k) h = (x, h1)"
      "extends h h1" "view T x h1 = Some (rs ! k)" "addrs T x h1 \<subseteq> {length h..<length h1}" .
  let ?h2 = "h1[?b := CArr (ys[k := x])]"
  have b: "?b < length h" using Suc.prems(2) by (simp add: elems_Some)
  have l: "length h \<le> length h1" using extends_length[OF c(2)] .
  have eb: "elems h1 ?b = Some ys"
    using Suc.prems(2) extends_nth[OF c(2) b] l by (simp add: elems_Some)
  have "extends h0 ?h2"
    using extends_trans[OF Suc.prems(1) c(2)] by (rule extends_update) simp
  moreover have "elems ?h2 ?b = Some (ys[k := x])" using b l by (simp add: elems_Some)
  moreover have "view T (ys[k := x] ! j) ?h2 = Some (rs ! j)
      \<and> addrs T (ys[k := x] ! j) ?h2 \<subseteq> {Suc ?b..<length ?h2}" if j: "j < Suc k" for j
  proof (cases "j = k")
    case True
    have "?b \<notin> addrs T x h1" using c(4) b by auto
    from view_update[OF c(3) this, of "CArr (ys[k := x])"] show ?thesis
      using True c(4) b k Suc.prems(3) by (simp add: subset_iff) (meson Suc_leI less_le_trans)
  next
    case False
    then have v: "view T (ys ! j) h = Some (rs ! j)" "addrs T (ys ! j) h \<subseteq> {Suc ?b..<length h}"
      using Suc.prems(4) j by auto
    note w = view_extends[OF v(1) c(2)]
    have "?b \<notin> addrs T (ys ! j) h1" using v(2) w(2) by auto
    from view_update[OF w(1) this, of "CArr (ys[k := x])"] show ?thesis
      using False v(2) w(2) l by (auto simp: subset_iff)
  qed
  ultimately have "\<exists>zs h'. copy_loop cp a ?b [Suc k..<length xs] ?h2 = h' \<and> extends h0 h'
      \<and> elems h' ?b = Some zs \<and> length zs = length xs
      \<and> (\<forall>j < length xs. view T (zs ! j) h' = Some (rs ! j)
           \<and> addrs T (zs ! j) h' \<subseteq> {Suc ?b..<length h'})"
    using Suc.hyps(2) k Suc.prems(3) by (intro Suc.hyps(1)[where ys = "ys[k := x]"]) auto
  moreover have "copy_loop cp a ?b [k..<length xs] h = copy_loop cp a ?b [Suc k..<length xs] ?h2"
    using k c(1) e eb by (simp add: upt_conv_Cons set_elem_def)
  ultimately show ?case by simp
qed

lemma slice_view:
  assumes "elems h' b = Some zs" "length zs = length rs"
    and "\<forall>j < length rs. view T (zs ! j) h' = Some (rs ! j) \<and> addrs T (zs ! j) h' \<subseteq> {Suc b..<n}"
    and "b < n"
  shows "view (TSlice T) (GRef b) h' = Some (RSlice rs)" "addrs (TSlice T) (GRef b) h' \<subseteq> {b..<n}"
proof -
  have "map (\<lambda>x. view T x h') zs = map Some rs"
    using assms by (intro nth_equalityI) auto
  then show "view (TSlice T) (GRef b) h' = Some (RSlice rs)"
    using assms(1) by (simp add: those_Some)
  have "addrs T z h' \<subseteq> {b..<n}" if "z \<in> set zs" for z
  proof -
    obtain j where "j < length rs" "z = zs ! j"
      using \<open>z \<in> set zs\<close> assms(2) in_set_conv_nth[of z zs] by auto
    then have "addrs T z h' \<subseteq> {Suc b..<n}" using assms(3) by simp
    then show ?thesis by auto
  qed
  then show "addrs (TSlice T) (GRef b) h' \<subseteq> {b..<n}" using assms(1,4) by auto
qed

lemma view_slice_GRef:
  assumes "view (TSlice T) (GRef a) h = Some r"
  obtains xs rs where "elems h a = Some xs" "r = RSlice rs" "length rs = length xs"
    "\<forall>j < length xs. view T (xs ! j) h = Some (rs ! j)"
proof -
  obtain xs rs where x: "elems h a = Some xs" "map (\<lambda>x. view T x h) xs = map Some rs"
      "r = RSlice rs"
    using assms by (auto split: option.splits simp: those_Some)
  then show thesis using that by (metis (no_types, lifting) length_map nth_map)
qed

lemma copies_made_into:
  assumes "copies T cp"
  shows "copies (TSlice T) (made_into T cp)"
proof (rule copiesI)
  fix v h r
  assume v: "view (TSlice T) v h = Some r"
  show "\<exists>v' h'. made_into T cp v h = (v', h') \<and> extends h h' \<and> view (TSlice T) v' h' = Some r
      \<and> addrs (TSlice T) v' h' \<subseteq> {length h..<length h'}"
  proof (cases v)
    case (GRef a)
    obtain xs rs where x: "elems h a = Some xs" "r = RSlice rs" "length rs = length xs"
        "\<forall>j < length xs. view T (xs ! j) h = Some (rs ! j)"
      using view_slice_GRef[OF v[unfolded GRef]] .
    let ?ys = "replicate (length xs) (zero_of T)"
    have "elems (h @ [CArr ?ys]) (length h) = Some ?ys" by (simp add: elems_Some)
    from copy_loop_step[OF assms x(1,4) extends_append this, of 0] obtain zs h' where l:
        "copy_loop cp a (length h) [0..<length xs] (h @ [CArr ?ys]) = h'" "extends h h'"
        "elems h' (length h) = Some zs" "length zs = length xs"
        "\<forall>j < length xs. view T (zs ! j) h' = Some (rs ! j)
           \<and> addrs T (zs ! j) h' \<subseteq> {Suc (length h)..<length h'}"
      by auto
    have "length h < length h'" using l(3) by (simp add: elems_Some)
    from slice_view[OF l(3) _ _ this, of rs T] l(4,5) x(3)
    have "view (TSlice T) (GRef (length h)) h' = Some (RSlice rs)"
        "addrs (TSlice T) (GRef (length h)) h' \<subseteq> {length h..<length h'}" by simp_all
    moreover have "made_into T cp v h = (GRef (length h), h')"
      using GRef x(1) l(1) by (simp add: made_into_def len_at_def)
    ultimately show ?thesis using x(2) l(2) by blast
  qed (use v in \<open>auto simp: made_into_def\<close>)
qed

lemma copies_made_copied:
  assumes "flat T"
  shows "copies (TSlice T) (made_copied T)"
proof (rule copiesI)
  fix v h r
  assume v: "view (TSlice T) v h = Some r"
  show "\<exists>v' h'. made_copied T v h = (v', h') \<and> extends h h' \<and> view (TSlice T) v' h' = Some r
      \<and> addrs (TSlice T) v' h' \<subseteq> {length h..<length h'}"
  proof (cases v)
    case (GRef a)
    obtain xs rs where x: "elems h a = Some xs" "r = RSlice rs" "length rs = length xs"
        "\<forall>j < length xs. view T (xs ! j) h = Some (rs ! j)"
      using view_slice_GRef[OF v[unfolded GRef]] .
    let ?h' = "h @ [CArr xs]"
    have m: "made_copied T v h = (GRef (length h), ?h')"
    proof -
      have "elems (h @ [CArr (replicate (length xs) (zero_of T))]) a = Some xs"
        using x(1) by (simp add: elems_Some nth_append)
      then show ?thesis using GRef x(1) by (simp add: made_copied_def len_at_def Let_def)
    qed
    have e: "elems ?h' (length h) = Some xs" by (simp add: elems_Some)
    have "\<forall>j < length rs. view T (xs ! j) ?h' = Some (rs ! j)
        \<and> addrs T (xs ! j) ?h' \<subseteq> {Suc (length h)..<length ?h'}"
      using x(3,4) view_extends(1)[OF _ extends_append] assms by (simp add: flat_addrs)
    from slice_view[OF e x(3)[symmetric] this] show ?thesis using m x(2) by simp
  qed (use v in \<open>auto simp: made_copied_def\<close>)
qed

text \<open>
  The whole body.  The fields before the ones still to be treated are \<open>pre\<close> in the value
  that is read and \<open>pre'\<close> in the value that is written.
\<close>

lemma field_at [simp]:
  "f \<notin> fst ` set pre \<Longrightarrow> field f (GStruct (pre @ (f, x) # vs)) = x"
  by (induction pre) (auto simp: field_def)

lemma set_field_at [simp]:
  assumes "f \<notin> fst ` set pre" "f \<notin> fst ` set vs"
  shows "set_field f y (GStruct (pre @ (f, x) # vs)) = GStruct (pre @ (f, y) # vs)"
proof -
  have "map (\<lambda>(g, z). (g, if g = f then y else z)) ps = ps" if "f \<notin> fst ` set ps" for ps
    using that by (induction ps) auto
  then show ?thesis using assms by (simp add: set_field_def)
qed

lemma view_fields_names: "view_fields fs vs h = Some rs \<Longrightarrow> map fst vs = map fst fs"
  by (induction fs vs h arbitrary: rs rule: view_view_fields.induct(2)
        [where P = "\<lambda>_ _ _. True"]) (auto split: if_splits option.splits)

lemma run_fields_copies:
  assumes "implements fs ss" "view_fields fs vs h = Some rs"
    and "distinct (map fst pre @ map fst fs)" "map fst pre' = map fst pre"
  shows "\<exists>vs' h'. run_fields ss (GStruct (pre @ vs)) (GStruct (pre' @ vs), h)
        = (GStruct (pre' @ vs'), h')
      \<and> extends h h' \<and> view_fields fs vs' h' = Some rs
      \<and> addrs_fields fs vs' h' \<subseteq> {length h..<length h'}"
  using assms
proof (induction fs ss arbitrary: pre pre' vs h rs rule: implements.induct)
  case (1 ss)
  then show ?case by (cases vs) auto
next
  case (2 f T fs)
  then have "list_all flat (map snd ((f, T) # fs))"
  proof -
    have "implements fs [] \<Longrightarrow> list_all flat (map snd fs)" for fs
      by (induction fs) auto
    then show ?thesis using 2 by auto
  qed
  then have "addrs_fields ((f, T) # fs) vs h = {}" by (rule flat_addrs(2))
  then show ?case using 2 by simp
next
  case (3 f T fs g cp ss)
  obtain x ws r rs' where v: "vs = (f, x) # ws" "view T x h = Some r"
      "view_fields fs ws h = Some rs'" "rs = (f, r) # rs'"
    using 3(4) by (cases vs) (auto split: if_splits option.splits)
  have names: "f \<notin> fst ` set pre" "f \<notin> fst ` set pre'" "f \<notin> fst ` set ws"
    using 3(5,6) view_fields_names[OF v(3)] by (auto simp: image_set simp del: set_map)
  show ?case
  proof (cases "f = g")
    case True
    then have cp: "copies T cp" "implements fs ss" using 3(3) by auto
    from copiesE[OF cp(1) v(2)] obtain x' h1 where c: "cp x h = (x', h1)" "extends h h1"
        "view T x' h1 = Some r" "addrs T x' h1 \<subseteq> {length h..<length h1}" .
    have "view_fields fs ws h1 = Some rs'" using view_fields_extends(1)[OF v(3) c(2)] .
    from 3(1)[OF True cp(2) this, of "pre @ [(f, x)]" "pre' @ [(f, x')]"] obtain ws' h' where l:
        "run_fields ss (GStruct (pre @ (f, x) # ws)) (GStruct (pre' @ (f, x') # ws), h1)
           = (GStruct (pre' @ (f, x') # ws'), h')"
        "extends h1 h'" "view_fields fs ws' h' = Some rs'"
        "addrs_fields fs ws' h' \<subseteq> {length h1..<length h'}"
      using 3(5,6) by auto
    have "run_fields ((g, cp) # ss) (GStruct (pre @ vs)) (GStruct (pre' @ vs), h)
        = (GStruct (pre' @ (f, x') # ws'), h')"
      using v(1) True c(1) l(1) names by simp
    moreover have "view_fields ((f, T) # fs) ((f, x') # ws') h' = Some rs"
      using l(3) view_extends(1)[OF c(3) l(2)] v(4) by simp
    moreover have "addrs_fields ((f, T) # fs) ((f, x') # ws') h' \<subseteq> {length h..<length h'}"
      using l(4) c(4) view_extends(2)[OF c(3) l(2)] extends_length[OF c(2)]
        extends_length[OF l(2)] by force
    ultimately show ?thesis using extends_trans[OF c(2) l(2)] by blast
  next
    case False
    then have fl: "flat T" "implements fs ((g, cp) # ss)" using 3(3) by auto
    from 3(2)[OF False fl(2) v(3), of "pre @ [(f, x)]" "pre' @ [(f, x)]"] obtain ws' h' where l:
        "run_fields ((g, cp) # ss) (GStruct (pre @ (f, x) # ws)) (GStruct (pre' @ (f, x) # ws), h)
           = (GStruct (pre' @ (f, x) # ws'), h')"
        "extends h h'" "view_fields fs ws' h' = Some rs'"
        "addrs_fields fs ws' h' \<subseteq> {length h..<length h'}"
      using 3(5,6) by auto
    have "view_fields ((f, T) # fs) ((f, x) # ws') h' = Some rs"
      using l(3) view_extends(1)[OF v(2) l(2)] v(4) by simp
    then show ?thesis using l v(1) flat_addrs(1)[OF fl(1)] by auto
  qed
qed

lemma copies_body:
  assumes "distinct (map fst fs)" "implements fs ss"
  shows "copies (TStruct fs) (copy_body ss)"
proof (rule copiesI)
  fix v h r
  assume "view (TStruct fs) v h = Some r"
  then obtain vs rs where v: "v = GStruct vs" "view_fields fs vs h = Some rs" "r = RStruct rs"
    by (auto split: gval.splits)
  from run_fields_copies[OF assms(2) v(2), of "[]" "[]"] assms(1) obtain vs' h' where
      "run_fields ss (GStruct vs) (GStruct vs, h) = (GStruct vs', h')" "extends h h'"
      "view_fields fs vs' h' = Some rs" "addrs_fields fs vs' h' \<subseteq> {length h..<length h'}"
    by auto
  then show "\<exists>v' h'. copy_body ss v h = (v', h') \<and> extends h h' \<and> view (TStruct fs) v' h' = Some r
      \<and> addrs (TStruct fs) v' h' \<subseteq> {length h..<length h'}"
    using v by (simp add: copy_body_def)
qed

end
