(* ===== verification/Deep_Copies.thy ===== *)
theory Deep_Copies
  imports Go_Heap
begin

text \<open>
  The generated deep copies of the API types, \<^verbatim>\<open>api/v1alpha1/zz_generated.deepcopy.go\<close>:
  for every struct its type (the fields of the \<^verbatim>\<open>*_types.go\<close> file, in order),
  \<^verbatim>\<open>DeepCopyInto\<close> with one entry per statement, \<^verbatim>\<open>DeepCopy\<close>, and for the kinds and their
  lists \<^verbatim>\<open>DeepCopyObject\<close>.  The vocabulary of the statements is in \<^verbatim>\<open>Go_Heap\<close>.

  The structs of \<^verbatim>\<open>k8s.io/apimachinery/pkg/apis/meta/v1\<close> are library code: their types and
  their deep copies are the parameter \<open>v1_lib\<close>.  \<open>v1_ok\<close> is what the library documents of
  them: its own deep copies are deep, and the structs the generated code assigns,
  \<^verbatim>\<open>TypeMeta\<close> and \<^verbatim>\<open>Duration\<close>, hold no reference.
\<close>

named_theorems deep \<open>what is known to be copied, and to hold no reference\<close>

section \<open>The library types\<close>

record v1_lib =
  v1_TypeMeta :: gtype
  v1_Duration :: gtype
  v1_Time :: gtype
  v1_ListMeta :: gtype
  v1_ObjectMeta :: gtype
  v1_Condition :: gtype
  v1_Time_DeepCopyInto :: copier
  v1_Time_DeepCopy :: copier
  v1_ListMeta_DeepCopyInto :: copier
  v1_ObjectMeta_DeepCopyInto :: copier
  v1_Condition_DeepCopyInto :: copier

definition v1_ok :: "v1_lib \<Rightarrow> bool" where
  "v1_ok L \<longleftrightarrow> flat (v1_TypeMeta L) \<and> flat (v1_Duration L)
     \<and> copies (v1_Time L) (v1_Time_DeepCopyInto L)
     \<and> copies (TPtr (v1_Time L)) (v1_Time_DeepCopy L)
     \<and> copies (v1_ListMeta L) (v1_ListMeta_DeepCopyInto L)
     \<and> copies (v1_ObjectMeta L) (v1_ObjectMeta_DeepCopyInto L)
     \<and> copies (v1_Condition L) (v1_Condition_DeepCopyInto L)"

lemma v1_laws [deep]:
  assumes "v1_ok L"
  shows "flat (v1_TypeMeta L)" "flat (v1_Duration L)"
    "copies (v1_Time L) (v1_Time_DeepCopyInto L)"
    "copies (TPtr (v1_Time L)) (v1_Time_DeepCopy L)"
    "copies (v1_ListMeta L) (v1_ListMeta_DeepCopyInto L)"
    "copies (v1_ObjectMeta L) (v1_ObjectMeta_DeepCopyInto L)"
    "copies (v1_Condition L) (v1_Condition_DeepCopyInto L)"
  using assms by (simp_all add: v1_ok_def)

lemmas [deep] = copies_assigned copies_made_into copies_made_copied copies_new_into
  copies_new_assigned copies_deep_copy

section \<open>The API types\<close>

subsection \<open>\<^verbatim>\<open>OwnerInfo\<close>\<close>

definition OwnerInfo_gtype :: "v1_lib \<Rightarrow> gtype" where
  "OwnerInfo_gtype L = TStruct [
     (''Team'', TString), (''Contact'', TString)]"

definition OwnerInfo_DeepCopyInto :: "v1_lib \<Rightarrow> copier" where
  "OwnerInfo_DeepCopyInto L = copy_body []"

definition OwnerInfo_DeepCopy :: "v1_lib \<Rightarrow> copier" where
  "OwnerInfo_DeepCopy L =
     deep_copy (OwnerInfo_gtype L) (OwnerInfo_DeepCopyInto L)"

lemma OwnerInfo_flat [deep]: "v1_ok L \<Longrightarrow> flat (OwnerInfo_gtype L)"
  by (simp add: OwnerInfo_gtype_def deep)

lemma OwnerInfo_copies [deep]: "v1_ok L \<Longrightarrow>
    copies (OwnerInfo_gtype L) (OwnerInfo_DeepCopyInto L)"
  unfolding OwnerInfo_gtype_def OwnerInfo_DeepCopyInto_def
  by (rule copies_body) (simp_all add: deep)

subsection \<open>\<^verbatim>\<open>LocalObjectReference\<close>\<close>

definition LocalObjectReference_gtype :: "v1_lib \<Rightarrow> gtype" where
  "LocalObjectReference_gtype L = TStruct [
     (''Name'', TString)]"

definition LocalObjectReference_DeepCopyInto :: "v1_lib \<Rightarrow> copier" where
  "LocalObjectReference_DeepCopyInto L = copy_body []"

definition LocalObjectReference_DeepCopy :: "v1_lib \<Rightarrow> copier" where
  "LocalObjectReference_DeepCopy L =
     deep_copy (LocalObjectReference_gtype L) (LocalObjectReference_DeepCopyInto L)"

lemma LocalObjectReference_flat [deep]: "v1_ok L \<Longrightarrow> flat (LocalObjectReference_gtype L)"
  by (simp add: LocalObjectReference_gtype_def deep)

lemma LocalObjectReference_copies [deep]: "v1_ok L \<Longrightarrow>
    copies (LocalObjectReference_gtype L) (LocalObjectReference_DeepCopyInto L)"
  unfolding LocalObjectReference_gtype_def LocalObjectReference_DeepCopyInto_def
  by (rule copies_body) (simp_all add: deep)

subsection \<open>\<^verbatim>\<open>ApplicationManifest\<close>\<close>

definition ApplicationManifest_gtype :: "v1_lib \<Rightarrow> gtype" where
  "ApplicationManifest_gtype L = TStruct [
     (''Type'', TString), (''Repo'', TString), (''BasePath'', TString), (''Chart'', TString)]"

definition ApplicationManifest_DeepCopyInto :: "v1_lib \<Rightarrow> copier" where
  "ApplicationManifest_DeepCopyInto L = copy_body []"

definition ApplicationManifest_DeepCopy :: "v1_lib \<Rightarrow> copier" where
  "ApplicationManifest_DeepCopy L =
     deep_copy (ApplicationManifest_gtype L) (ApplicationManifest_DeepCopyInto L)"

lemma ApplicationManifest_flat [deep]: "v1_ok L \<Longrightarrow> flat (ApplicationManifest_gtype L)"
  by (simp add: ApplicationManifest_gtype_def deep)

lemma ApplicationManifest_copies [deep]: "v1_ok L \<Longrightarrow>
    copies (ApplicationManifest_gtype L) (ApplicationManifest_DeepCopyInto L)"
  unfolding ApplicationManifest_gtype_def ApplicationManifest_DeepCopyInto_def
  by (rule copies_body) (simp_all add: deep)

subsection \<open>\<^verbatim>\<open>ApplicationDeployment\<close>\<close>

definition ApplicationDeployment_gtype :: "v1_lib \<Rightarrow> gtype" where
  "ApplicationDeployment_gtype L = TStruct [
     (''Strategy'', TString), (''Manifest'', ApplicationManifest_gtype L)]"

definition ApplicationDeployment_DeepCopyInto :: "v1_lib \<Rightarrow> copier" where
  "ApplicationDeployment_DeepCopyInto L = copy_body [
     (''Manifest'', assigned)]"

definition ApplicationDeployment_DeepCopy :: "v1_lib \<Rightarrow> copier" where
  "ApplicationDeployment_DeepCopy L =
     deep_copy (ApplicationDeployment_gtype L) (ApplicationDeployment_DeepCopyInto L)"

lemma ApplicationDeployment_flat [deep]: "v1_ok L \<Longrightarrow> flat (ApplicationDeployment_gtype L)"
  by (simp add: ApplicationDeployment_gtype_def deep)

lemma ApplicationDeployment_copies [deep]: "v1_ok L \<Longrightarrow>
    copies (ApplicationDeployment_gtype L) (ApplicationDeployment_DeepCopyInto L)"
  unfolding ApplicationDeployment_gtype_def ApplicationDeployment_DeepCopyInto_def
  by (rule copies_body) (simp_all add: deep)

subsection \<open>\<^verbatim>\<open>ApplicationTopology\<close>\<close>

definition ApplicationTopology_gtype :: "v1_lib \<Rightarrow> gtype" where
  "ApplicationTopology_gtype L = TStruct [
     (''Environments'', TSlice TString)]"

definition ApplicationTopology_DeepCopyInto :: "v1_lib \<Rightarrow> copier" where
  "ApplicationTopology_DeepCopyInto L = copy_body [
     (''Environments'', made_copied TString)]"

definition ApplicationTopology_DeepCopy :: "v1_lib \<Rightarrow> copier" where
  "ApplicationTopology_DeepCopy L =
     deep_copy (ApplicationTopology_gtype L) (ApplicationTopology_DeepCopyInto L)"

lemma ApplicationTopology_copies [deep]: "v1_ok L \<Longrightarrow>
    copies (ApplicationTopology_gtype L) (ApplicationTopology_DeepCopyInto L)"
  unfolding ApplicationTopology_gtype_def ApplicationTopology_DeepCopyInto_def
  by (rule copies_body) (simp_all add: deep)

subsection \<open>\<^verbatim>\<open>ApplicationSpec\<close>\<close>

definition ApplicationSpec_gtype :: "v1_lib \<Rightarrow> gtype" where
  "ApplicationSpec_gtype L = TStruct [
     (''Owner'', OwnerInfo_gtype L), (''SourceRefs'', TSlice (LocalObjectReference_gtype L)),
     (''Deployment'', ApplicationDeployment_gtype L),
     (''Topology'', ApplicationTopology_gtype L)]"

definition ApplicationSpec_DeepCopyInto :: "v1_lib \<Rightarrow> copier" where
  "ApplicationSpec_DeepCopyInto L = copy_body [
     (''Owner'', assigned), (''SourceRefs'', made_copied (LocalObjectReference_gtype L)),
     (''Deployment'', assigned), (''Topology'', ApplicationTopology_DeepCopyInto L)]"

definition ApplicationSpec_DeepCopy :: "v1_lib \<Rightarrow> copier" where
  "ApplicationSpec_DeepCopy L =
     deep_copy (ApplicationSpec_gtype L) (ApplicationSpec_DeepCopyInto L)"

lemma ApplicationSpec_copies [deep]: "v1_ok L \<Longrightarrow>
    copies (ApplicationSpec_gtype L) (ApplicationSpec_DeepCopyInto L)"
  unfolding ApplicationSpec_gtype_def ApplicationSpec_DeepCopyInto_def
  by (rule copies_body) (simp_all add: deep)

subsection \<open>\<^verbatim>\<open>ApplicationStatus\<close>\<close>

definition ApplicationStatus_gtype :: "v1_lib \<Rightarrow> gtype" where
  "ApplicationStatus_gtype L = TStruct [
     (''ObservedGeneration'', TInt), (''Conditions'', TSlice (v1_Condition L))]"

definition ApplicationStatus_DeepCopyInto :: "v1_lib \<Rightarrow> copier" where
  "ApplicationStatus_DeepCopyInto L = copy_body [
     (''Conditions'', made_into (v1_Condition L) (v1_Condition_DeepCopyInto L))]"

definition ApplicationStatus_DeepCopy :: "v1_lib \<Rightarrow> copier" where
  "ApplicationStatus_DeepCopy L =
     deep_copy (ApplicationStatus_gtype L) (ApplicationStatus_DeepCopyInto L)"

lemma ApplicationStatus_copies [deep]: "v1_ok L \<Longrightarrow>
    copies (ApplicationStatus_gtype L) (ApplicationStatus_DeepCopyInto L)"
  unfolding ApplicationStatus_gtype_def ApplicationStatus_DeepCopyInto_def
  by (rule copies_body) (simp_all add: deep)

subsection \<open>\<^verbatim>\<open>Application\<close>\<close>

definition Application_gtype :: "v1_lib \<Rightarrow> gtype" where
  "Application_gtype L = TStruct [
     (''TypeMeta'', v1_TypeMeta L), (''ObjectMeta'', v1_ObjectMeta L),
     (''Spec'', ApplicationSpec_gtype L), (''Status'', ApplicationStatus_gtype L)]"

definition Application_DeepCopyInto :: "v1_lib \<Rightarrow> copier" where
  "Application_DeepCopyInto L = copy_body [
     (''TypeMeta'', assigned), (''ObjectMeta'', v1_ObjectMeta_DeepCopyInto L),
     (''Spec'', ApplicationSpec_DeepCopyInto L), (''Status'', ApplicationStatus_DeepCopyInto L)]"

definition Application_DeepCopy :: "v1_lib \<Rightarrow> copier" where
  "Application_DeepCopy L =
     deep_copy (Application_gtype L) (Application_DeepCopyInto L)"

definition Application_DeepCopyObject ::
    "v1_lib \<Rightarrow> gval \<Rightarrow> heap \<Rightarrow> (string \<times> gval) option \<times> heap" where
  "Application_DeepCopyObject L = deep_copy_object ''Application'' (Application_DeepCopy L)"

lemma Application_copies [deep]: "v1_ok L \<Longrightarrow>
    copies (Application_gtype L) (Application_DeepCopyInto L)"
  unfolding Application_gtype_def Application_DeepCopyInto_def
  by (rule copies_body) (simp_all add: deep)

subsection \<open>\<^verbatim>\<open>ApplicationList\<close>\<close>

definition ApplicationList_gtype :: "v1_lib \<Rightarrow> gtype" where
  "ApplicationList_gtype L = TStruct [
     (''TypeMeta'', v1_TypeMeta L), (''ListMeta'', v1_ListMeta L),
     (''Items'', TSlice (Application_gtype L))]"

definition ApplicationList_DeepCopyInto :: "v1_lib \<Rightarrow> copier" where
  "ApplicationList_DeepCopyInto L = copy_body [
     (''TypeMeta'', assigned), (''ListMeta'', v1_ListMeta_DeepCopyInto L),
     (''Items'', made_into (Application_gtype L) (Application_DeepCopyInto L))]"

definition ApplicationList_DeepCopy :: "v1_lib \<Rightarrow> copier" where
  "ApplicationList_DeepCopy L =
     deep_copy (ApplicationList_gtype L) (ApplicationList_DeepCopyInto L)"

definition ApplicationList_DeepCopyObject ::
    "v1_lib \<Rightarrow> gval \<Rightarrow> heap \<Rightarrow> (string \<times> gval) option \<times> heap" where
  "ApplicationList_DeepCopyObject L = deep_copy_object ''ApplicationList'' (ApplicationList_DeepCopy L)"

lemma ApplicationList_copies [deep]: "v1_ok L \<Longrightarrow>
    copies (ApplicationList_gtype L) (ApplicationList_DeepCopyInto L)"
  unfolding ApplicationList_gtype_def ApplicationList_DeepCopyInto_def
  by (rule copies_body) (simp_all add: deep)

subsection \<open>\<^verbatim>\<open>ApprovalSpec\<close>\<close>

definition ApprovalSpec_gtype :: "v1_lib \<Rightarrow> gtype" where
  "ApprovalSpec_gtype L = TStruct [
     (''PromotionRef'', LocalObjectReference_gtype L), (''Decision'', TString),
     (''Reviewer'', TString), (''Comment'', TString)]"

definition ApprovalSpec_DeepCopyInto :: "v1_lib \<Rightarrow> copier" where
  "ApprovalSpec_DeepCopyInto L = copy_body [
     (''PromotionRef'', assigned)]"

definition ApprovalSpec_DeepCopy :: "v1_lib \<Rightarrow> copier" where
  "ApprovalSpec_DeepCopy L =
     deep_copy (ApprovalSpec_gtype L) (ApprovalSpec_DeepCopyInto L)"

lemma ApprovalSpec_flat [deep]: "v1_ok L \<Longrightarrow> flat (ApprovalSpec_gtype L)"
  by (simp add: ApprovalSpec_gtype_def deep)

lemma ApprovalSpec_copies [deep]: "v1_ok L \<Longrightarrow>
    copies (ApprovalSpec_gtype L) (ApprovalSpec_DeepCopyInto L)"
  unfolding ApprovalSpec_gtype_def ApprovalSpec_DeepCopyInto_def
  by (rule copies_body) (simp_all add: deep)

subsection \<open>\<^verbatim>\<open>ApprovalStatus\<close>\<close>

definition ApprovalStatus_gtype :: "v1_lib \<Rightarrow> gtype" where
  "ApprovalStatus_gtype L = TStruct [
     (''ObservedGeneration'', TInt), (''RecordedAt'', TPtr (v1_Time L)),
     (''Conditions'', TSlice (v1_Condition L))]"

definition ApprovalStatus_DeepCopyInto :: "v1_lib \<Rightarrow> copier" where
  "ApprovalStatus_DeepCopyInto L = copy_body [
     (''RecordedAt'', v1_Time_DeepCopy L),
     (''Conditions'', made_into (v1_Condition L) (v1_Condition_DeepCopyInto L))]"

definition ApprovalStatus_DeepCopy :: "v1_lib \<Rightarrow> copier" where
  "ApprovalStatus_DeepCopy L =
     deep_copy (ApprovalStatus_gtype L) (ApprovalStatus_DeepCopyInto L)"

lemma ApprovalStatus_copies [deep]: "v1_ok L \<Longrightarrow>
    copies (ApprovalStatus_gtype L) (ApprovalStatus_DeepCopyInto L)"
  unfolding ApprovalStatus_gtype_def ApprovalStatus_DeepCopyInto_def
  by (rule copies_body) (simp_all add: deep)

subsection \<open>\<^verbatim>\<open>Approval\<close>\<close>

definition Approval_gtype :: "v1_lib \<Rightarrow> gtype" where
  "Approval_gtype L = TStruct [
     (''TypeMeta'', v1_TypeMeta L), (''ObjectMeta'', v1_ObjectMeta L),
     (''Spec'', ApprovalSpec_gtype L), (''Status'', ApprovalStatus_gtype L)]"

definition Approval_DeepCopyInto :: "v1_lib \<Rightarrow> copier" where
  "Approval_DeepCopyInto L = copy_body [
     (''TypeMeta'', assigned), (''ObjectMeta'', v1_ObjectMeta_DeepCopyInto L),
     (''Spec'', assigned), (''Status'', ApprovalStatus_DeepCopyInto L)]"

definition Approval_DeepCopy :: "v1_lib \<Rightarrow> copier" where
  "Approval_DeepCopy L =
     deep_copy (Approval_gtype L) (Approval_DeepCopyInto L)"

definition Approval_DeepCopyObject ::
    "v1_lib \<Rightarrow> gval \<Rightarrow> heap \<Rightarrow> (string \<times> gval) option \<times> heap" where
  "Approval_DeepCopyObject L = deep_copy_object ''Approval'' (Approval_DeepCopy L)"

lemma Approval_copies [deep]: "v1_ok L \<Longrightarrow>
    copies (Approval_gtype L) (Approval_DeepCopyInto L)"
  unfolding Approval_gtype_def Approval_DeepCopyInto_def
  by (rule copies_body) (simp_all add: deep)

subsection \<open>\<^verbatim>\<open>ApprovalList\<close>\<close>

definition ApprovalList_gtype :: "v1_lib \<Rightarrow> gtype" where
  "ApprovalList_gtype L = TStruct [
     (''TypeMeta'', v1_TypeMeta L), (''ListMeta'', v1_ListMeta L),
     (''Items'', TSlice (Approval_gtype L))]"

definition ApprovalList_DeepCopyInto :: "v1_lib \<Rightarrow> copier" where
  "ApprovalList_DeepCopyInto L = copy_body [
     (''TypeMeta'', assigned), (''ListMeta'', v1_ListMeta_DeepCopyInto L),
     (''Items'', made_into (Approval_gtype L) (Approval_DeepCopyInto L))]"

definition ApprovalList_DeepCopy :: "v1_lib \<Rightarrow> copier" where
  "ApprovalList_DeepCopy L =
     deep_copy (ApprovalList_gtype L) (ApprovalList_DeepCopyInto L)"

definition ApprovalList_DeepCopyObject ::
    "v1_lib \<Rightarrow> gval \<Rightarrow> heap \<Rightarrow> (string \<times> gval) option \<times> heap" where
  "ApprovalList_DeepCopyObject L = deep_copy_object ''ApprovalList'' (ApprovalList_DeepCopy L)"

lemma ApprovalList_copies [deep]: "v1_ok L \<Longrightarrow>
    copies (ApprovalList_gtype L) (ApprovalList_DeepCopyInto L)"
  unfolding ApprovalList_gtype_def ApprovalList_DeepCopyInto_def
  by (rule copies_body) (simp_all add: deep)

subsection \<open>\<^verbatim>\<open>CellSpec\<close>\<close>

definition CellSpec_gtype :: "v1_lib \<Rightarrow> gtype" where
  "CellSpec_gtype L = TStruct [
     (''Environment'', TString), (''Purpose'', TString), (''FailureBoundary'', TString),
     (''Regions'', TSlice TString)]"

definition CellSpec_DeepCopyInto :: "v1_lib \<Rightarrow> copier" where
  "CellSpec_DeepCopyInto L = copy_body [
     (''Regions'', made_copied TString)]"

definition CellSpec_DeepCopy :: "v1_lib \<Rightarrow> copier" where
  "CellSpec_DeepCopy L =
     deep_copy (CellSpec_gtype L) (CellSpec_DeepCopyInto L)"

lemma CellSpec_copies [deep]: "v1_ok L \<Longrightarrow>
    copies (CellSpec_gtype L) (CellSpec_DeepCopyInto L)"
  unfolding CellSpec_gtype_def CellSpec_DeepCopyInto_def
  by (rule copies_body) (simp_all add: deep)

subsection \<open>\<^verbatim>\<open>CellStatus\<close>\<close>

definition CellStatus_gtype :: "v1_lib \<Rightarrow> gtype" where
  "CellStatus_gtype L = TStruct [
     (''ObservedGeneration'', TInt), (''Conditions'', TSlice (v1_Condition L))]"

definition CellStatus_DeepCopyInto :: "v1_lib \<Rightarrow> copier" where
  "CellStatus_DeepCopyInto L = copy_body [
     (''Conditions'', made_into (v1_Condition L) (v1_Condition_DeepCopyInto L))]"

definition CellStatus_DeepCopy :: "v1_lib \<Rightarrow> copier" where
  "CellStatus_DeepCopy L =
     deep_copy (CellStatus_gtype L) (CellStatus_DeepCopyInto L)"

lemma CellStatus_copies [deep]: "v1_ok L \<Longrightarrow>
    copies (CellStatus_gtype L) (CellStatus_DeepCopyInto L)"
  unfolding CellStatus_gtype_def CellStatus_DeepCopyInto_def
  by (rule copies_body) (simp_all add: deep)

subsection \<open>\<^verbatim>\<open>Cell\<close>\<close>

definition Cell_gtype :: "v1_lib \<Rightarrow> gtype" where
  "Cell_gtype L = TStruct [
     (''TypeMeta'', v1_TypeMeta L), (''ObjectMeta'', v1_ObjectMeta L),
     (''Spec'', CellSpec_gtype L), (''Status'', CellStatus_gtype L)]"

definition Cell_DeepCopyInto :: "v1_lib \<Rightarrow> copier" where
  "Cell_DeepCopyInto L = copy_body [
     (''TypeMeta'', assigned), (''ObjectMeta'', v1_ObjectMeta_DeepCopyInto L),
     (''Spec'', CellSpec_DeepCopyInto L), (''Status'', CellStatus_DeepCopyInto L)]"

definition Cell_DeepCopy :: "v1_lib \<Rightarrow> copier" where
  "Cell_DeepCopy L =
     deep_copy (Cell_gtype L) (Cell_DeepCopyInto L)"

definition Cell_DeepCopyObject ::
    "v1_lib \<Rightarrow> gval \<Rightarrow> heap \<Rightarrow> (string \<times> gval) option \<times> heap" where
  "Cell_DeepCopyObject L = deep_copy_object ''Cell'' (Cell_DeepCopy L)"

lemma Cell_copies [deep]: "v1_ok L \<Longrightarrow>
    copies (Cell_gtype L) (Cell_DeepCopyInto L)"
  unfolding Cell_gtype_def Cell_DeepCopyInto_def
  by (rule copies_body) (simp_all add: deep)

subsection \<open>\<^verbatim>\<open>CellList\<close>\<close>

definition CellList_gtype :: "v1_lib \<Rightarrow> gtype" where
  "CellList_gtype L = TStruct [
     (''TypeMeta'', v1_TypeMeta L), (''ListMeta'', v1_ListMeta L),
     (''Items'', TSlice (Cell_gtype L))]"

definition CellList_DeepCopyInto :: "v1_lib \<Rightarrow> copier" where
  "CellList_DeepCopyInto L = copy_body [
     (''TypeMeta'', assigned), (''ListMeta'', v1_ListMeta_DeepCopyInto L),
     (''Items'', made_into (Cell_gtype L) (Cell_DeepCopyInto L))]"

definition CellList_DeepCopy :: "v1_lib \<Rightarrow> copier" where
  "CellList_DeepCopy L =
     deep_copy (CellList_gtype L) (CellList_DeepCopyInto L)"

definition CellList_DeepCopyObject ::
    "v1_lib \<Rightarrow> gval \<Rightarrow> heap \<Rightarrow> (string \<times> gval) option \<times> heap" where
  "CellList_DeepCopyObject L = deep_copy_object ''CellList'' (CellList_DeepCopy L)"

lemma CellList_copies [deep]: "v1_ok L \<Longrightarrow>
    copies (CellList_gtype L) (CellList_DeepCopyInto L)"
  unfolding CellList_gtype_def CellList_DeepCopyInto_def
  by (rule copies_body) (simp_all add: deep)

subsection \<open>\<^verbatim>\<open>DeploymentSpec\<close>\<close>

definition DeploymentSpec_gtype :: "v1_lib \<Rightarrow> gtype" where
  "DeploymentSpec_gtype L = TStruct [
     (''Application'', TString), (''TargetRef'', LocalObjectReference_gtype L),
     (''Release'', TString)]"

definition DeploymentSpec_DeepCopyInto :: "v1_lib \<Rightarrow> copier" where
  "DeploymentSpec_DeepCopyInto L = copy_body [
     (''TargetRef'', assigned)]"

definition DeploymentSpec_DeepCopy :: "v1_lib \<Rightarrow> copier" where
  "DeploymentSpec_DeepCopy L =
     deep_copy (DeploymentSpec_gtype L) (DeploymentSpec_DeepCopyInto L)"

lemma DeploymentSpec_flat [deep]: "v1_ok L \<Longrightarrow> flat (DeploymentSpec_gtype L)"
  by (simp add: DeploymentSpec_gtype_def deep)

lemma DeploymentSpec_copies [deep]: "v1_ok L \<Longrightarrow>
    copies (DeploymentSpec_gtype L) (DeploymentSpec_DeepCopyInto L)"
  unfolding DeploymentSpec_gtype_def DeploymentSpec_DeepCopyInto_def
  by (rule copies_body) (simp_all add: deep)

subsection \<open>\<^verbatim>\<open>DeploymentStatus\<close>\<close>

definition DeploymentStatus_gtype :: "v1_lib \<Rightarrow> gtype" where
  "DeploymentStatus_gtype L = TStruct [
     (''ObservedGeneration'', TInt), (''Conditions'', TSlice (v1_Condition L)),
     (''LastSyncRun'', TString)]"

definition DeploymentStatus_DeepCopyInto :: "v1_lib \<Rightarrow> copier" where
  "DeploymentStatus_DeepCopyInto L = copy_body [
     (''Conditions'', made_into (v1_Condition L) (v1_Condition_DeepCopyInto L))]"

definition DeploymentStatus_DeepCopy :: "v1_lib \<Rightarrow> copier" where
  "DeploymentStatus_DeepCopy L =
     deep_copy (DeploymentStatus_gtype L) (DeploymentStatus_DeepCopyInto L)"

lemma DeploymentStatus_copies [deep]: "v1_ok L \<Longrightarrow>
    copies (DeploymentStatus_gtype L) (DeploymentStatus_DeepCopyInto L)"
  unfolding DeploymentStatus_gtype_def DeploymentStatus_DeepCopyInto_def
  by (rule copies_body) (simp_all add: deep)

subsection \<open>\<^verbatim>\<open>Deployment\<close>\<close>

definition Deployment_gtype :: "v1_lib \<Rightarrow> gtype" where
  "Deployment_gtype L = TStruct [
     (''TypeMeta'', v1_TypeMeta L), (''ObjectMeta'', v1_ObjectMeta L),
     (''Spec'', DeploymentSpec_gtype L), (''Status'', DeploymentStatus_gtype L)]"

definition Deployment_DeepCopyInto :: "v1_lib \<Rightarrow> copier" where
  "Deployment_DeepCopyInto L = copy_body [
     (''TypeMeta'', assigned), (''ObjectMeta'', v1_ObjectMeta_DeepCopyInto L),
     (''Spec'', assigned), (''Status'', DeploymentStatus_DeepCopyInto L)]"

definition Deployment_DeepCopy :: "v1_lib \<Rightarrow> copier" where
  "Deployment_DeepCopy L =
     deep_copy (Deployment_gtype L) (Deployment_DeepCopyInto L)"

definition Deployment_DeepCopyObject ::
    "v1_lib \<Rightarrow> gval \<Rightarrow> heap \<Rightarrow> (string \<times> gval) option \<times> heap" where
  "Deployment_DeepCopyObject L = deep_copy_object ''Deployment'' (Deployment_DeepCopy L)"

lemma Deployment_copies [deep]: "v1_ok L \<Longrightarrow>
    copies (Deployment_gtype L) (Deployment_DeepCopyInto L)"
  unfolding Deployment_gtype_def Deployment_DeepCopyInto_def
  by (rule copies_body) (simp_all add: deep)

subsection \<open>\<^verbatim>\<open>DeploymentList\<close>\<close>

definition DeploymentList_gtype :: "v1_lib \<Rightarrow> gtype" where
  "DeploymentList_gtype L = TStruct [
     (''TypeMeta'', v1_TypeMeta L), (''ListMeta'', v1_ListMeta L),
     (''Items'', TSlice (Deployment_gtype L))]"

definition DeploymentList_DeepCopyInto :: "v1_lib \<Rightarrow> copier" where
  "DeploymentList_DeepCopyInto L = copy_body [
     (''TypeMeta'', assigned), (''ListMeta'', v1_ListMeta_DeepCopyInto L),
     (''Items'', made_into (Deployment_gtype L) (Deployment_DeepCopyInto L))]"

definition DeploymentList_DeepCopy :: "v1_lib \<Rightarrow> copier" where
  "DeploymentList_DeepCopy L =
     deep_copy (DeploymentList_gtype L) (DeploymentList_DeepCopyInto L)"

definition DeploymentList_DeepCopyObject ::
    "v1_lib \<Rightarrow> gval \<Rightarrow> heap \<Rightarrow> (string \<times> gval) option \<times> heap" where
  "DeploymentList_DeepCopyObject L = deep_copy_object ''DeploymentList'' (DeploymentList_DeepCopy L)"

lemma DeploymentList_copies [deep]: "v1_ok L \<Longrightarrow>
    copies (DeploymentList_gtype L) (DeploymentList_DeepCopyInto L)"
  unfolding DeploymentList_gtype_def DeploymentList_DeepCopyInto_def
  by (rule copies_body) (simp_all add: deep)

subsection \<open>\<^verbatim>\<open>DeploymentTargetCluster\<close>\<close>

definition DeploymentTargetCluster_gtype :: "v1_lib \<Rightarrow> gtype" where
  "DeploymentTargetCluster_gtype L = TStruct [
     (''Name'', TString), (''KubeconfigSecretRef'', TPtr (LocalObjectReference_gtype L))]"

definition DeploymentTargetCluster_DeepCopyInto :: "v1_lib \<Rightarrow> copier" where
  "DeploymentTargetCluster_DeepCopyInto L = copy_body [
     (''KubeconfigSecretRef'', new_assigned (LocalObjectReference_gtype L))]"

definition DeploymentTargetCluster_DeepCopy :: "v1_lib \<Rightarrow> copier" where
  "DeploymentTargetCluster_DeepCopy L =
     deep_copy (DeploymentTargetCluster_gtype L) (DeploymentTargetCluster_DeepCopyInto L)"

lemma DeploymentTargetCluster_copies [deep]: "v1_ok L \<Longrightarrow>
    copies (DeploymentTargetCluster_gtype L) (DeploymentTargetCluster_DeepCopyInto L)"
  unfolding DeploymentTargetCluster_gtype_def DeploymentTargetCluster_DeepCopyInto_def
  by (rule copies_body) (simp_all add: deep)

subsection \<open>\<^verbatim>\<open>DeploymentTargetSpec\<close>\<close>

definition DeploymentTargetSpec_gtype :: "v1_lib \<Rightarrow> gtype" where
  "DeploymentTargetSpec_gtype L = TStruct [
     (''Environment'', TString), (''Cell'', TString), (''Region'', TString),
     (''Cluster'', DeploymentTargetCluster_gtype L)]"

definition DeploymentTargetSpec_DeepCopyInto :: "v1_lib \<Rightarrow> copier" where
  "DeploymentTargetSpec_DeepCopyInto L = copy_body [
     (''Cluster'', DeploymentTargetCluster_DeepCopyInto L)]"

definition DeploymentTargetSpec_DeepCopy :: "v1_lib \<Rightarrow> copier" where
  "DeploymentTargetSpec_DeepCopy L =
     deep_copy (DeploymentTargetSpec_gtype L) (DeploymentTargetSpec_DeepCopyInto L)"

lemma DeploymentTargetSpec_copies [deep]: "v1_ok L \<Longrightarrow>
    copies (DeploymentTargetSpec_gtype L) (DeploymentTargetSpec_DeepCopyInto L)"
  unfolding DeploymentTargetSpec_gtype_def DeploymentTargetSpec_DeepCopyInto_def
  by (rule copies_body) (simp_all add: deep)

subsection \<open>\<^verbatim>\<open>DeploymentTargetStatus\<close>\<close>

definition DeploymentTargetStatus_gtype :: "v1_lib \<Rightarrow> gtype" where
  "DeploymentTargetStatus_gtype L = TStruct [
     (''ObservedGeneration'', TInt), (''Conditions'', TSlice (v1_Condition L)),
     (''Reachable'', TBool), (''LastContactedAt'', TPtr (v1_Time L))]"

definition DeploymentTargetStatus_DeepCopyInto :: "v1_lib \<Rightarrow> copier" where
  "DeploymentTargetStatus_DeepCopyInto L = copy_body [
     (''Conditions'', made_into (v1_Condition L) (v1_Condition_DeepCopyInto L)),
     (''LastContactedAt'', v1_Time_DeepCopy L)]"

definition DeploymentTargetStatus_DeepCopy :: "v1_lib \<Rightarrow> copier" where
  "DeploymentTargetStatus_DeepCopy L =
     deep_copy (DeploymentTargetStatus_gtype L) (DeploymentTargetStatus_DeepCopyInto L)"

lemma DeploymentTargetStatus_copies [deep]: "v1_ok L \<Longrightarrow>
    copies (DeploymentTargetStatus_gtype L) (DeploymentTargetStatus_DeepCopyInto L)"
  unfolding DeploymentTargetStatus_gtype_def DeploymentTargetStatus_DeepCopyInto_def
  by (rule copies_body) (simp_all add: deep)

subsection \<open>\<^verbatim>\<open>DeploymentTarget\<close>\<close>

definition DeploymentTarget_gtype :: "v1_lib \<Rightarrow> gtype" where
  "DeploymentTarget_gtype L = TStruct [
     (''TypeMeta'', v1_TypeMeta L), (''ObjectMeta'', v1_ObjectMeta L),
     (''Spec'', DeploymentTargetSpec_gtype L), (''Status'', DeploymentTargetStatus_gtype L)]"

definition DeploymentTarget_DeepCopyInto :: "v1_lib \<Rightarrow> copier" where
  "DeploymentTarget_DeepCopyInto L = copy_body [
     (''TypeMeta'', assigned), (''ObjectMeta'', v1_ObjectMeta_DeepCopyInto L),
     (''Spec'', DeploymentTargetSpec_DeepCopyInto L),
     (''Status'', DeploymentTargetStatus_DeepCopyInto L)]"

definition DeploymentTarget_DeepCopy :: "v1_lib \<Rightarrow> copier" where
  "DeploymentTarget_DeepCopy L =
     deep_copy (DeploymentTarget_gtype L) (DeploymentTarget_DeepCopyInto L)"

definition DeploymentTarget_DeepCopyObject ::
    "v1_lib \<Rightarrow> gval \<Rightarrow> heap \<Rightarrow> (string \<times> gval) option \<times> heap" where
  "DeploymentTarget_DeepCopyObject L = deep_copy_object ''DeploymentTarget'' (DeploymentTarget_DeepCopy L)"

lemma DeploymentTarget_copies [deep]: "v1_ok L \<Longrightarrow>
    copies (DeploymentTarget_gtype L) (DeploymentTarget_DeepCopyInto L)"
  unfolding DeploymentTarget_gtype_def DeploymentTarget_DeepCopyInto_def
  by (rule copies_body) (simp_all add: deep)

subsection \<open>\<^verbatim>\<open>DeploymentTargetList\<close>\<close>

definition DeploymentTargetList_gtype :: "v1_lib \<Rightarrow> gtype" where
  "DeploymentTargetList_gtype L = TStruct [
     (''TypeMeta'', v1_TypeMeta L), (''ListMeta'', v1_ListMeta L),
     (''Items'', TSlice (DeploymentTarget_gtype L))]"

definition DeploymentTargetList_DeepCopyInto :: "v1_lib \<Rightarrow> copier" where
  "DeploymentTargetList_DeepCopyInto L = copy_body [
     (''TypeMeta'', assigned), (''ListMeta'', v1_ListMeta_DeepCopyInto L),
     (''Items'', made_into (DeploymentTarget_gtype L) (DeploymentTarget_DeepCopyInto L))]"

definition DeploymentTargetList_DeepCopy :: "v1_lib \<Rightarrow> copier" where
  "DeploymentTargetList_DeepCopy L =
     deep_copy (DeploymentTargetList_gtype L) (DeploymentTargetList_DeepCopyInto L)"

definition DeploymentTargetList_DeepCopyObject ::
    "v1_lib \<Rightarrow> gval \<Rightarrow> heap \<Rightarrow> (string \<times> gval) option \<times> heap" where
  "DeploymentTargetList_DeepCopyObject L = deep_copy_object ''DeploymentTargetList'' (DeploymentTargetList_DeepCopy L)"

lemma DeploymentTargetList_copies [deep]: "v1_ok L \<Longrightarrow>
    copies (DeploymentTargetList_gtype L) (DeploymentTargetList_DeepCopyInto L)"
  unfolding DeploymentTargetList_gtype_def DeploymentTargetList_DeepCopyInto_def
  by (rule copies_body) (simp_all add: deep)

subsection \<open>\<^verbatim>\<open>EnvironmentChangeControl\<close>\<close>

definition EnvironmentChangeControl_gtype :: "v1_lib \<Rightarrow> gtype" where
  "EnvironmentChangeControl_gtype L = TStruct [
     (''Required'', TBool)]"

definition EnvironmentChangeControl_DeepCopyInto :: "v1_lib \<Rightarrow> copier" where
  "EnvironmentChangeControl_DeepCopyInto L = copy_body []"

definition EnvironmentChangeControl_DeepCopy :: "v1_lib \<Rightarrow> copier" where
  "EnvironmentChangeControl_DeepCopy L =
     deep_copy (EnvironmentChangeControl_gtype L) (EnvironmentChangeControl_DeepCopyInto L)"

lemma EnvironmentChangeControl_flat [deep]: "v1_ok L \<Longrightarrow> flat (EnvironmentChangeControl_gtype L)"
  by (simp add: EnvironmentChangeControl_gtype_def deep)

lemma EnvironmentChangeControl_copies [deep]: "v1_ok L \<Longrightarrow>
    copies (EnvironmentChangeControl_gtype L) (EnvironmentChangeControl_DeepCopyInto L)"
  unfolding EnvironmentChangeControl_gtype_def EnvironmentChangeControl_DeepCopyInto_def
  by (rule copies_body) (simp_all add: deep)

subsection \<open>\<^verbatim>\<open>EnvironmentSpec\<close>\<close>

definition EnvironmentSpec_gtype :: "v1_lib \<Rightarrow> gtype" where
  "EnvironmentSpec_gtype L = TStruct [
     (''Order'', TInt), (''Protected'', TBool),
     (''ChangeControl'', EnvironmentChangeControl_gtype L)]"

definition EnvironmentSpec_DeepCopyInto :: "v1_lib \<Rightarrow> copier" where
  "EnvironmentSpec_DeepCopyInto L = copy_body [
     (''ChangeControl'', assigned)]"

definition EnvironmentSpec_DeepCopy :: "v1_lib \<Rightarrow> copier" where
  "EnvironmentSpec_DeepCopy L =
     deep_copy (EnvironmentSpec_gtype L) (EnvironmentSpec_DeepCopyInto L)"

lemma EnvironmentSpec_flat [deep]: "v1_ok L \<Longrightarrow> flat (EnvironmentSpec_gtype L)"
  by (simp add: EnvironmentSpec_gtype_def deep)

lemma EnvironmentSpec_copies [deep]: "v1_ok L \<Longrightarrow>
    copies (EnvironmentSpec_gtype L) (EnvironmentSpec_DeepCopyInto L)"
  unfolding EnvironmentSpec_gtype_def EnvironmentSpec_DeepCopyInto_def
  by (rule copies_body) (simp_all add: deep)

subsection \<open>\<^verbatim>\<open>EnvironmentStatus\<close>\<close>

definition EnvironmentStatus_gtype :: "v1_lib \<Rightarrow> gtype" where
  "EnvironmentStatus_gtype L = TStruct [
     (''ObservedGeneration'', TInt), (''Conditions'', TSlice (v1_Condition L))]"

definition EnvironmentStatus_DeepCopyInto :: "v1_lib \<Rightarrow> copier" where
  "EnvironmentStatus_DeepCopyInto L = copy_body [
     (''Conditions'', made_into (v1_Condition L) (v1_Condition_DeepCopyInto L))]"

definition EnvironmentStatus_DeepCopy :: "v1_lib \<Rightarrow> copier" where
  "EnvironmentStatus_DeepCopy L =
     deep_copy (EnvironmentStatus_gtype L) (EnvironmentStatus_DeepCopyInto L)"

lemma EnvironmentStatus_copies [deep]: "v1_ok L \<Longrightarrow>
    copies (EnvironmentStatus_gtype L) (EnvironmentStatus_DeepCopyInto L)"
  unfolding EnvironmentStatus_gtype_def EnvironmentStatus_DeepCopyInto_def
  by (rule copies_body) (simp_all add: deep)

subsection \<open>\<^verbatim>\<open>Environment\<close>\<close>

definition Environment_gtype :: "v1_lib \<Rightarrow> gtype" where
  "Environment_gtype L = TStruct [
     (''TypeMeta'', v1_TypeMeta L), (''ObjectMeta'', v1_ObjectMeta L),
     (''Spec'', EnvironmentSpec_gtype L), (''Status'', EnvironmentStatus_gtype L)]"

definition Environment_DeepCopyInto :: "v1_lib \<Rightarrow> copier" where
  "Environment_DeepCopyInto L = copy_body [
     (''TypeMeta'', assigned), (''ObjectMeta'', v1_ObjectMeta_DeepCopyInto L),
     (''Spec'', assigned), (''Status'', EnvironmentStatus_DeepCopyInto L)]"

definition Environment_DeepCopy :: "v1_lib \<Rightarrow> copier" where
  "Environment_DeepCopy L =
     deep_copy (Environment_gtype L) (Environment_DeepCopyInto L)"

definition Environment_DeepCopyObject ::
    "v1_lib \<Rightarrow> gval \<Rightarrow> heap \<Rightarrow> (string \<times> gval) option \<times> heap" where
  "Environment_DeepCopyObject L = deep_copy_object ''Environment'' (Environment_DeepCopy L)"

lemma Environment_copies [deep]: "v1_ok L \<Longrightarrow>
    copies (Environment_gtype L) (Environment_DeepCopyInto L)"
  unfolding Environment_gtype_def Environment_DeepCopyInto_def
  by (rule copies_body) (simp_all add: deep)

subsection \<open>\<^verbatim>\<open>EnvironmentList\<close>\<close>

definition EnvironmentList_gtype :: "v1_lib \<Rightarrow> gtype" where
  "EnvironmentList_gtype L = TStruct [
     (''TypeMeta'', v1_TypeMeta L), (''ListMeta'', v1_ListMeta L),
     (''Items'', TSlice (Environment_gtype L))]"

definition EnvironmentList_DeepCopyInto :: "v1_lib \<Rightarrow> copier" where
  "EnvironmentList_DeepCopyInto L = copy_body [
     (''TypeMeta'', assigned), (''ListMeta'', v1_ListMeta_DeepCopyInto L),
     (''Items'', made_into (Environment_gtype L) (Environment_DeepCopyInto L))]"

definition EnvironmentList_DeepCopy :: "v1_lib \<Rightarrow> copier" where
  "EnvironmentList_DeepCopy L =
     deep_copy (EnvironmentList_gtype L) (EnvironmentList_DeepCopyInto L)"

definition EnvironmentList_DeepCopyObject ::
    "v1_lib \<Rightarrow> gval \<Rightarrow> heap \<Rightarrow> (string \<times> gval) option \<times> heap" where
  "EnvironmentList_DeepCopyObject L = deep_copy_object ''EnvironmentList'' (EnvironmentList_DeepCopy L)"

lemma EnvironmentList_copies [deep]: "v1_ok L \<Longrightarrow>
    copies (EnvironmentList_gtype L) (EnvironmentList_DeepCopyInto L)"
  unfolding EnvironmentList_gtype_def EnvironmentList_DeepCopyInto_def
  by (rule copies_body) (simp_all add: deep)

subsection \<open>\<^verbatim>\<open>FreezeWindowSpec\<close>\<close>

definition FreezeWindowSpec_gtype :: "v1_lib \<Rightarrow> gtype" where
  "FreezeWindowSpec_gtype L = TStruct [
     (''Reason'', TString), (''Start'', v1_Time L), (''End'', v1_Time L),
     (''Environments'', TSlice TString), (''Cells'', TSlice TString)]"

definition FreezeWindowSpec_DeepCopyInto :: "v1_lib \<Rightarrow> copier" where
  "FreezeWindowSpec_DeepCopyInto L = copy_body [
     (''Start'', v1_Time_DeepCopyInto L), (''End'', v1_Time_DeepCopyInto L),
     (''Environments'', made_copied TString), (''Cells'', made_copied TString)]"

definition FreezeWindowSpec_DeepCopy :: "v1_lib \<Rightarrow> copier" where
  "FreezeWindowSpec_DeepCopy L =
     deep_copy (FreezeWindowSpec_gtype L) (FreezeWindowSpec_DeepCopyInto L)"

lemma FreezeWindowSpec_copies [deep]: "v1_ok L \<Longrightarrow>
    copies (FreezeWindowSpec_gtype L) (FreezeWindowSpec_DeepCopyInto L)"
  unfolding FreezeWindowSpec_gtype_def FreezeWindowSpec_DeepCopyInto_def
  by (rule copies_body) (simp_all add: deep)

subsection \<open>\<^verbatim>\<open>FreezeWindowStatus\<close>\<close>

definition FreezeWindowStatus_gtype :: "v1_lib \<Rightarrow> gtype" where
  "FreezeWindowStatus_gtype L = TStruct [
     (''ObservedGeneration'', TInt), (''Active'', TBool),
     (''Conditions'', TSlice (v1_Condition L))]"

definition FreezeWindowStatus_DeepCopyInto :: "v1_lib \<Rightarrow> copier" where
  "FreezeWindowStatus_DeepCopyInto L = copy_body [
     (''Conditions'', made_into (v1_Condition L) (v1_Condition_DeepCopyInto L))]"

definition FreezeWindowStatus_DeepCopy :: "v1_lib \<Rightarrow> copier" where
  "FreezeWindowStatus_DeepCopy L =
     deep_copy (FreezeWindowStatus_gtype L) (FreezeWindowStatus_DeepCopyInto L)"

lemma FreezeWindowStatus_copies [deep]: "v1_ok L \<Longrightarrow>
    copies (FreezeWindowStatus_gtype L) (FreezeWindowStatus_DeepCopyInto L)"
  unfolding FreezeWindowStatus_gtype_def FreezeWindowStatus_DeepCopyInto_def
  by (rule copies_body) (simp_all add: deep)

subsection \<open>\<^verbatim>\<open>FreezeWindow\<close>\<close>

definition FreezeWindow_gtype :: "v1_lib \<Rightarrow> gtype" where
  "FreezeWindow_gtype L = TStruct [
     (''TypeMeta'', v1_TypeMeta L), (''ObjectMeta'', v1_ObjectMeta L),
     (''Spec'', FreezeWindowSpec_gtype L), (''Status'', FreezeWindowStatus_gtype L)]"

definition FreezeWindow_DeepCopyInto :: "v1_lib \<Rightarrow> copier" where
  "FreezeWindow_DeepCopyInto L = copy_body [
     (''TypeMeta'', assigned), (''ObjectMeta'', v1_ObjectMeta_DeepCopyInto L),
     (''Spec'', FreezeWindowSpec_DeepCopyInto L),
     (''Status'', FreezeWindowStatus_DeepCopyInto L)]"

definition FreezeWindow_DeepCopy :: "v1_lib \<Rightarrow> copier" where
  "FreezeWindow_DeepCopy L =
     deep_copy (FreezeWindow_gtype L) (FreezeWindow_DeepCopyInto L)"

definition FreezeWindow_DeepCopyObject ::
    "v1_lib \<Rightarrow> gval \<Rightarrow> heap \<Rightarrow> (string \<times> gval) option \<times> heap" where
  "FreezeWindow_DeepCopyObject L = deep_copy_object ''FreezeWindow'' (FreezeWindow_DeepCopy L)"

lemma FreezeWindow_copies [deep]: "v1_ok L \<Longrightarrow>
    copies (FreezeWindow_gtype L) (FreezeWindow_DeepCopyInto L)"
  unfolding FreezeWindow_gtype_def FreezeWindow_DeepCopyInto_def
  by (rule copies_body) (simp_all add: deep)

subsection \<open>\<^verbatim>\<open>FreezeWindowList\<close>\<close>

definition FreezeWindowList_gtype :: "v1_lib \<Rightarrow> gtype" where
  "FreezeWindowList_gtype L = TStruct [
     (''TypeMeta'', v1_TypeMeta L), (''ListMeta'', v1_ListMeta L),
     (''Items'', TSlice (FreezeWindow_gtype L))]"

definition FreezeWindowList_DeepCopyInto :: "v1_lib \<Rightarrow> copier" where
  "FreezeWindowList_DeepCopyInto L = copy_body [
     (''TypeMeta'', assigned), (''ListMeta'', v1_ListMeta_DeepCopyInto L),
     (''Items'', made_into (FreezeWindow_gtype L) (FreezeWindow_DeepCopyInto L))]"

definition FreezeWindowList_DeepCopy :: "v1_lib \<Rightarrow> copier" where
  "FreezeWindowList_DeepCopy L =
     deep_copy (FreezeWindowList_gtype L) (FreezeWindowList_DeepCopyInto L)"

definition FreezeWindowList_DeepCopyObject ::
    "v1_lib \<Rightarrow> gval \<Rightarrow> heap \<Rightarrow> (string \<times> gval) option \<times> heap" where
  "FreezeWindowList_DeepCopyObject L = deep_copy_object ''FreezeWindowList'' (FreezeWindowList_DeepCopy L)"

lemma FreezeWindowList_copies [deep]: "v1_ok L \<Longrightarrow>
    copies (FreezeWindowList_gtype L) (FreezeWindowList_DeepCopyInto L)"
  unfolding FreezeWindowList_gtype_def FreezeWindowList_DeepCopyInto_def
  by (rule copies_body) (simp_all add: deep)

subsection \<open>\<^verbatim>\<open>HealthCheckSpec\<close>\<close>

definition HealthCheckSpec_gtype :: "v1_lib \<Rightarrow> gtype" where
  "HealthCheckSpec_gtype L = TStruct [
     (''Application'', TString), (''TargetRef'', TPtr (LocalObjectReference_gtype L))]"

definition HealthCheckSpec_DeepCopyInto :: "v1_lib \<Rightarrow> copier" where
  "HealthCheckSpec_DeepCopyInto L = copy_body [
     (''TargetRef'', new_assigned (LocalObjectReference_gtype L))]"

definition HealthCheckSpec_DeepCopy :: "v1_lib \<Rightarrow> copier" where
  "HealthCheckSpec_DeepCopy L =
     deep_copy (HealthCheckSpec_gtype L) (HealthCheckSpec_DeepCopyInto L)"

lemma HealthCheckSpec_copies [deep]: "v1_ok L \<Longrightarrow>
    copies (HealthCheckSpec_gtype L) (HealthCheckSpec_DeepCopyInto L)"
  unfolding HealthCheckSpec_gtype_def HealthCheckSpec_DeepCopyInto_def
  by (rule copies_body) (simp_all add: deep)

subsection \<open>\<^verbatim>\<open>HealthCheckStatus\<close>\<close>

definition HealthCheckStatus_gtype :: "v1_lib \<Rightarrow> gtype" where
  "HealthCheckStatus_gtype L = TStruct [
     (''ObservedGeneration'', TInt), (''State'', TString), (''Summary'', TString),
     (''Conditions'', TSlice (v1_Condition L))]"

definition HealthCheckStatus_DeepCopyInto :: "v1_lib \<Rightarrow> copier" where
  "HealthCheckStatus_DeepCopyInto L = copy_body [
     (''Conditions'', made_into (v1_Condition L) (v1_Condition_DeepCopyInto L))]"

definition HealthCheckStatus_DeepCopy :: "v1_lib \<Rightarrow> copier" where
  "HealthCheckStatus_DeepCopy L =
     deep_copy (HealthCheckStatus_gtype L) (HealthCheckStatus_DeepCopyInto L)"

lemma HealthCheckStatus_copies [deep]: "v1_ok L \<Longrightarrow>
    copies (HealthCheckStatus_gtype L) (HealthCheckStatus_DeepCopyInto L)"
  unfolding HealthCheckStatus_gtype_def HealthCheckStatus_DeepCopyInto_def
  by (rule copies_body) (simp_all add: deep)

subsection \<open>\<^verbatim>\<open>HealthCheck\<close>\<close>

definition HealthCheck_gtype :: "v1_lib \<Rightarrow> gtype" where
  "HealthCheck_gtype L = TStruct [
     (''TypeMeta'', v1_TypeMeta L), (''ObjectMeta'', v1_ObjectMeta L),
     (''Spec'', HealthCheckSpec_gtype L), (''Status'', HealthCheckStatus_gtype L)]"

definition HealthCheck_DeepCopyInto :: "v1_lib \<Rightarrow> copier" where
  "HealthCheck_DeepCopyInto L = copy_body [
     (''TypeMeta'', assigned), (''ObjectMeta'', v1_ObjectMeta_DeepCopyInto L),
     (''Spec'', HealthCheckSpec_DeepCopyInto L), (''Status'', HealthCheckStatus_DeepCopyInto L)]"

definition HealthCheck_DeepCopy :: "v1_lib \<Rightarrow> copier" where
  "HealthCheck_DeepCopy L =
     deep_copy (HealthCheck_gtype L) (HealthCheck_DeepCopyInto L)"

definition HealthCheck_DeepCopyObject ::
    "v1_lib \<Rightarrow> gval \<Rightarrow> heap \<Rightarrow> (string \<times> gval) option \<times> heap" where
  "HealthCheck_DeepCopyObject L = deep_copy_object ''HealthCheck'' (HealthCheck_DeepCopy L)"

lemma HealthCheck_copies [deep]: "v1_ok L \<Longrightarrow>
    copies (HealthCheck_gtype L) (HealthCheck_DeepCopyInto L)"
  unfolding HealthCheck_gtype_def HealthCheck_DeepCopyInto_def
  by (rule copies_body) (simp_all add: deep)

subsection \<open>\<^verbatim>\<open>HealthCheckList\<close>\<close>

definition HealthCheckList_gtype :: "v1_lib \<Rightarrow> gtype" where
  "HealthCheckList_gtype L = TStruct [
     (''TypeMeta'', v1_TypeMeta L), (''ListMeta'', v1_ListMeta L),
     (''Items'', TSlice (HealthCheck_gtype L))]"

definition HealthCheckList_DeepCopyInto :: "v1_lib \<Rightarrow> copier" where
  "HealthCheckList_DeepCopyInto L = copy_body [
     (''TypeMeta'', assigned), (''ListMeta'', v1_ListMeta_DeepCopyInto L),
     (''Items'', made_into (HealthCheck_gtype L) (HealthCheck_DeepCopyInto L))]"

definition HealthCheckList_DeepCopy :: "v1_lib \<Rightarrow> copier" where
  "HealthCheckList_DeepCopy L =
     deep_copy (HealthCheckList_gtype L) (HealthCheckList_DeepCopyInto L)"

definition HealthCheckList_DeepCopyObject ::
    "v1_lib \<Rightarrow> gval \<Rightarrow> heap \<Rightarrow> (string \<times> gval) option \<times> heap" where
  "HealthCheckList_DeepCopyObject L = deep_copy_object ''HealthCheckList'' (HealthCheckList_DeepCopy L)"

lemma HealthCheckList_copies [deep]: "v1_ok L \<Longrightarrow>
    copies (HealthCheckList_gtype L) (HealthCheckList_DeepCopyInto L)"
  unfolding HealthCheckList_gtype_def HealthCheckList_DeepCopyInto_def
  by (rule copies_body) (simp_all add: deep)

subsection \<open>\<^verbatim>\<open>SecretKeyRef\<close>\<close>

definition SecretKeyRef_gtype :: "v1_lib \<Rightarrow> gtype" where
  "SecretKeyRef_gtype L = TStruct [
     (''Name'', TString), (''Key'', TString)]"

definition SecretKeyRef_DeepCopyInto :: "v1_lib \<Rightarrow> copier" where
  "SecretKeyRef_DeepCopyInto L = copy_body []"

definition SecretKeyRef_DeepCopy :: "v1_lib \<Rightarrow> copier" where
  "SecretKeyRef_DeepCopy L =
     deep_copy (SecretKeyRef_gtype L) (SecretKeyRef_DeepCopyInto L)"

lemma SecretKeyRef_flat [deep]: "v1_ok L \<Longrightarrow> flat (SecretKeyRef_gtype L)"
  by (simp add: SecretKeyRef_gtype_def deep)

lemma SecretKeyRef_copies [deep]: "v1_ok L \<Longrightarrow>
    copies (SecretKeyRef_gtype L) (SecretKeyRef_DeepCopyInto L)"
  unfolding SecretKeyRef_gtype_def SecretKeyRef_DeepCopyInto_def
  by (rule copies_body) (simp_all add: deep)

subsection \<open>\<^verbatim>\<open>NotifierWebhookEndpoint\<close>\<close>

definition NotifierWebhookEndpoint_gtype :: "v1_lib \<Rightarrow> gtype" where
  "NotifierWebhookEndpoint_gtype L = TStruct [
     (''URL'', TString), (''AuthSecretRef'', TPtr (SecretKeyRef_gtype L))]"

definition NotifierWebhookEndpoint_DeepCopyInto :: "v1_lib \<Rightarrow> copier" where
  "NotifierWebhookEndpoint_DeepCopyInto L = copy_body [
     (''AuthSecretRef'', new_assigned (SecretKeyRef_gtype L))]"

definition NotifierWebhookEndpoint_DeepCopy :: "v1_lib \<Rightarrow> copier" where
  "NotifierWebhookEndpoint_DeepCopy L =
     deep_copy (NotifierWebhookEndpoint_gtype L) (NotifierWebhookEndpoint_DeepCopyInto L)"

lemma NotifierWebhookEndpoint_copies [deep]: "v1_ok L \<Longrightarrow>
    copies (NotifierWebhookEndpoint_gtype L) (NotifierWebhookEndpoint_DeepCopyInto L)"
  unfolding NotifierWebhookEndpoint_gtype_def NotifierWebhookEndpoint_DeepCopyInto_def
  by (rule copies_body) (simp_all add: deep)

subsection \<open>\<^verbatim>\<open>NotifierEndpoint\<close>\<close>

definition NotifierEndpoint_gtype :: "v1_lib \<Rightarrow> gtype" where
  "NotifierEndpoint_gtype L = TStruct [
     (''Builtin'', TString), (''Webhook'', TPtr (NotifierWebhookEndpoint_gtype L))]"

definition NotifierEndpoint_DeepCopyInto :: "v1_lib \<Rightarrow> copier" where
  "NotifierEndpoint_DeepCopyInto L = copy_body [

     (''Webhook'', new_into (NotifierWebhookEndpoint_gtype L) (NotifierWebhookEndpoint_DeepCopyInto L))]"

definition NotifierEndpoint_DeepCopy :: "v1_lib \<Rightarrow> copier" where
  "NotifierEndpoint_DeepCopy L =
     deep_copy (NotifierEndpoint_gtype L) (NotifierEndpoint_DeepCopyInto L)"

lemma NotifierEndpoint_copies [deep]: "v1_ok L \<Longrightarrow>
    copies (NotifierEndpoint_gtype L) (NotifierEndpoint_DeepCopyInto L)"
  unfolding NotifierEndpoint_gtype_def NotifierEndpoint_DeepCopyInto_def
  by (rule copies_body) (simp_all add: deep)

subsection \<open>\<^verbatim>\<open>NotifierEventSelector\<close>\<close>

definition NotifierEventSelector_gtype :: "v1_lib \<Rightarrow> gtype" where
  "NotifierEventSelector_gtype L = TStruct [
     (''Include'', TSlice TString), (''Exclude'', TSlice TString)]"

definition NotifierEventSelector_DeepCopyInto :: "v1_lib \<Rightarrow> copier" where
  "NotifierEventSelector_DeepCopyInto L = copy_body [
     (''Include'', made_copied TString), (''Exclude'', made_copied TString)]"

definition NotifierEventSelector_DeepCopy :: "v1_lib \<Rightarrow> copier" where
  "NotifierEventSelector_DeepCopy L =
     deep_copy (NotifierEventSelector_gtype L) (NotifierEventSelector_DeepCopyInto L)"

lemma NotifierEventSelector_copies [deep]: "v1_ok L \<Longrightarrow>
    copies (NotifierEventSelector_gtype L) (NotifierEventSelector_DeepCopyInto L)"
  unfolding NotifierEventSelector_gtype_def NotifierEventSelector_DeepCopyInto_def
  by (rule copies_body) (simp_all add: deep)

subsection \<open>\<^verbatim>\<open>NotifierFilters\<close>\<close>

definition NotifierFilters_gtype :: "v1_lib \<Rightarrow> gtype" where
  "NotifierFilters_gtype L = TStruct [
     (''Environments'', TSlice TString), (''Applications'', TSlice TString)]"

definition NotifierFilters_DeepCopyInto :: "v1_lib \<Rightarrow> copier" where
  "NotifierFilters_DeepCopyInto L = copy_body [
     (''Environments'', made_copied TString), (''Applications'', made_copied TString)]"

definition NotifierFilters_DeepCopy :: "v1_lib \<Rightarrow> copier" where
  "NotifierFilters_DeepCopy L =
     deep_copy (NotifierFilters_gtype L) (NotifierFilters_DeepCopyInto L)"

lemma NotifierFilters_copies [deep]: "v1_ok L \<Longrightarrow>
    copies (NotifierFilters_gtype L) (NotifierFilters_DeepCopyInto L)"
  unfolding NotifierFilters_gtype_def NotifierFilters_DeepCopyInto_def
  by (rule copies_body) (simp_all add: deep)

subsection \<open>\<^verbatim>\<open>NotifierDelivery\<close>\<close>

definition NotifierDelivery_gtype :: "v1_lib \<Rightarrow> gtype" where
  "NotifierDelivery_gtype L = TStruct [
     (''Mode'', TString), (''Timeout'', TPtr (v1_Duration L)), (''Retries'', TInt),
     (''Backoff'', TString)]"

definition NotifierDelivery_DeepCopyInto :: "v1_lib \<Rightarrow> copier" where
  "NotifierDelivery_DeepCopyInto L = copy_body [
     (''Timeout'', new_assigned (v1_Duration L))]"

definition NotifierDelivery_DeepCopy :: "v1_lib \<Rightarrow> copier" where
  "NotifierDelivery_DeepCopy L =
     deep_copy (NotifierDelivery_gtype L) (NotifierDelivery_DeepCopyInto L)"

lemma NotifierDelivery_copies [deep]: "v1_ok L \<Longrightarrow>
    copies (NotifierDelivery_gtype L) (NotifierDelivery_DeepCopyInto L)"
  unfolding NotifierDelivery_gtype_def NotifierDelivery_DeepCopyInto_def
  by (rule copies_body) (simp_all add: deep)

subsection \<open>\<^verbatim>\<open>NotifierSpec\<close>\<close>

definition NotifierSpec_gtype :: "v1_lib \<Rightarrow> gtype" where
  "NotifierSpec_gtype L = TStruct [
     (''Endpoint'', NotifierEndpoint_gtype L), (''Events'', NotifierEventSelector_gtype L),
     (''Filters'', NotifierFilters_gtype L), (''Delivery'', NotifierDelivery_gtype L)]"

definition NotifierSpec_DeepCopyInto :: "v1_lib \<Rightarrow> copier" where
  "NotifierSpec_DeepCopyInto L = copy_body [
     (''Endpoint'', NotifierEndpoint_DeepCopyInto L),
     (''Events'', NotifierEventSelector_DeepCopyInto L),
     (''Filters'', NotifierFilters_DeepCopyInto L),
     (''Delivery'', NotifierDelivery_DeepCopyInto L)]"

definition NotifierSpec_DeepCopy :: "v1_lib \<Rightarrow> copier" where
  "NotifierSpec_DeepCopy L =
     deep_copy (NotifierSpec_gtype L) (NotifierSpec_DeepCopyInto L)"

lemma NotifierSpec_copies [deep]: "v1_ok L \<Longrightarrow>
    copies (NotifierSpec_gtype L) (NotifierSpec_DeepCopyInto L)"
  unfolding NotifierSpec_gtype_def NotifierSpec_DeepCopyInto_def
  by (rule copies_body) (simp_all add: deep)

subsection \<open>\<^verbatim>\<open>NotifierStatus\<close>\<close>

definition NotifierStatus_gtype :: "v1_lib \<Rightarrow> gtype" where
  "NotifierStatus_gtype L = TStruct [
     (''ObservedGeneration'', TInt), (''Conditions'', TSlice (v1_Condition L))]"

definition NotifierStatus_DeepCopyInto :: "v1_lib \<Rightarrow> copier" where
  "NotifierStatus_DeepCopyInto L = copy_body [
     (''Conditions'', made_into (v1_Condition L) (v1_Condition_DeepCopyInto L))]"

definition NotifierStatus_DeepCopy :: "v1_lib \<Rightarrow> copier" where
  "NotifierStatus_DeepCopy L =
     deep_copy (NotifierStatus_gtype L) (NotifierStatus_DeepCopyInto L)"

lemma NotifierStatus_copies [deep]: "v1_ok L \<Longrightarrow>
    copies (NotifierStatus_gtype L) (NotifierStatus_DeepCopyInto L)"
  unfolding NotifierStatus_gtype_def NotifierStatus_DeepCopyInto_def
  by (rule copies_body) (simp_all add: deep)

subsection \<open>\<^verbatim>\<open>Notifier\<close>\<close>

definition Notifier_gtype :: "v1_lib \<Rightarrow> gtype" where
  "Notifier_gtype L = TStruct [
     (''TypeMeta'', v1_TypeMeta L), (''ObjectMeta'', v1_ObjectMeta L),
     (''Spec'', NotifierSpec_gtype L), (''Status'', NotifierStatus_gtype L)]"

definition Notifier_DeepCopyInto :: "v1_lib \<Rightarrow> copier" where
  "Notifier_DeepCopyInto L = copy_body [
     (''TypeMeta'', assigned), (''ObjectMeta'', v1_ObjectMeta_DeepCopyInto L),
     (''Spec'', NotifierSpec_DeepCopyInto L), (''Status'', NotifierStatus_DeepCopyInto L)]"

definition Notifier_DeepCopy :: "v1_lib \<Rightarrow> copier" where
  "Notifier_DeepCopy L =
     deep_copy (Notifier_gtype L) (Notifier_DeepCopyInto L)"

definition Notifier_DeepCopyObject ::
    "v1_lib \<Rightarrow> gval \<Rightarrow> heap \<Rightarrow> (string \<times> gval) option \<times> heap" where
  "Notifier_DeepCopyObject L = deep_copy_object ''Notifier'' (Notifier_DeepCopy L)"

lemma Notifier_copies [deep]: "v1_ok L \<Longrightarrow>
    copies (Notifier_gtype L) (Notifier_DeepCopyInto L)"
  unfolding Notifier_gtype_def Notifier_DeepCopyInto_def
  by (rule copies_body) (simp_all add: deep)

subsection \<open>\<^verbatim>\<open>NotifierList\<close>\<close>

definition NotifierList_gtype :: "v1_lib \<Rightarrow> gtype" where
  "NotifierList_gtype L = TStruct [
     (''TypeMeta'', v1_TypeMeta L), (''ListMeta'', v1_ListMeta L),
     (''Items'', TSlice (Notifier_gtype L))]"

definition NotifierList_DeepCopyInto :: "v1_lib \<Rightarrow> copier" where
  "NotifierList_DeepCopyInto L = copy_body [
     (''TypeMeta'', assigned), (''ListMeta'', v1_ListMeta_DeepCopyInto L),
     (''Items'', made_into (Notifier_gtype L) (Notifier_DeepCopyInto L))]"

definition NotifierList_DeepCopy :: "v1_lib \<Rightarrow> copier" where
  "NotifierList_DeepCopy L =
     deep_copy (NotifierList_gtype L) (NotifierList_DeepCopyInto L)"

definition NotifierList_DeepCopyObject ::
    "v1_lib \<Rightarrow> gval \<Rightarrow> heap \<Rightarrow> (string \<times> gval) option \<times> heap" where
  "NotifierList_DeepCopyObject L = deep_copy_object ''NotifierList'' (NotifierList_DeepCopy L)"

lemma NotifierList_copies [deep]: "v1_ok L \<Longrightarrow>
    copies (NotifierList_gtype L) (NotifierList_DeepCopyInto L)"
  unfolding NotifierList_gtype_def NotifierList_DeepCopyInto_def
  by (rule copies_body) (simp_all add: deep)

subsection \<open>\<^verbatim>\<open>PromotionFrom\<close>\<close>

definition PromotionFrom_gtype :: "v1_lib \<Rightarrow> gtype" where
  "PromotionFrom_gtype L = TStruct [
     (''Environment'', TString)]"

definition PromotionFrom_DeepCopyInto :: "v1_lib \<Rightarrow> copier" where
  "PromotionFrom_DeepCopyInto L = copy_body []"

definition PromotionFrom_DeepCopy :: "v1_lib \<Rightarrow> copier" where
  "PromotionFrom_DeepCopy L =
     deep_copy (PromotionFrom_gtype L) (PromotionFrom_DeepCopyInto L)"

lemma PromotionFrom_flat [deep]: "v1_ok L \<Longrightarrow> flat (PromotionFrom_gtype L)"
  by (simp add: PromotionFrom_gtype_def deep)

lemma PromotionFrom_copies [deep]: "v1_ok L \<Longrightarrow>
    copies (PromotionFrom_gtype L) (PromotionFrom_DeepCopyInto L)"
  unfolding PromotionFrom_gtype_def PromotionFrom_DeepCopyInto_def
  by (rule copies_body) (simp_all add: deep)

subsection \<open>\<^verbatim>\<open>PromotionTo\<close>\<close>

definition PromotionTo_gtype :: "v1_lib \<Rightarrow> gtype" where
  "PromotionTo_gtype L = TStruct [
     (''Environment'', TString), (''Cells'', TSlice TString), (''Regions'', TSlice TString)]"

definition PromotionTo_DeepCopyInto :: "v1_lib \<Rightarrow> copier" where
  "PromotionTo_DeepCopyInto L = copy_body [
     (''Cells'', made_copied TString), (''Regions'', made_copied TString)]"

definition PromotionTo_DeepCopy :: "v1_lib \<Rightarrow> copier" where
  "PromotionTo_DeepCopy L =
     deep_copy (PromotionTo_gtype L) (PromotionTo_DeepCopyInto L)"

lemma PromotionTo_copies [deep]: "v1_ok L \<Longrightarrow>
    copies (PromotionTo_gtype L) (PromotionTo_DeepCopyInto L)"
  unfolding PromotionTo_gtype_def PromotionTo_DeepCopyInto_def
  by (rule copies_body) (simp_all add: deep)

subsection \<open>\<^verbatim>\<open>PromotionChange\<close>\<close>

definition PromotionChange_gtype :: "v1_lib \<Rightarrow> gtype" where
  "PromotionChange_gtype L = TStruct [
     (''Provider'', TString), (''ID'', TString)]"

definition PromotionChange_DeepCopyInto :: "v1_lib \<Rightarrow> copier" where
  "PromotionChange_DeepCopyInto L = copy_body []"

definition PromotionChange_DeepCopy :: "v1_lib \<Rightarrow> copier" where
  "PromotionChange_DeepCopy L =
     deep_copy (PromotionChange_gtype L) (PromotionChange_DeepCopyInto L)"

lemma PromotionChange_flat [deep]: "v1_ok L \<Longrightarrow> flat (PromotionChange_gtype L)"
  by (simp add: PromotionChange_gtype_def deep)

lemma PromotionChange_copies [deep]: "v1_ok L \<Longrightarrow>
    copies (PromotionChange_gtype L) (PromotionChange_DeepCopyInto L)"
  unfolding PromotionChange_gtype_def PromotionChange_DeepCopyInto_def
  by (rule copies_body) (simp_all add: deep)

subsection \<open>\<^verbatim>\<open>PromotionSpec\<close>\<close>

definition PromotionSpec_gtype :: "v1_lib \<Rightarrow> gtype" where
  "PromotionSpec_gtype L = TStruct [
     (''Application'', TString), (''Release'', TString), (''From'', PromotionFrom_gtype L),
     (''To'', PromotionTo_gtype L), (''Mode'', TString), (''Change'', PromotionChange_gtype L),
     (''PolicyRefs'', TSlice (LocalObjectReference_gtype L))]"

definition PromotionSpec_DeepCopyInto :: "v1_lib \<Rightarrow> copier" where
  "PromotionSpec_DeepCopyInto L = copy_body [
     (''From'', assigned), (''To'', PromotionTo_DeepCopyInto L), (''Change'', assigned),
     (''PolicyRefs'', made_copied (LocalObjectReference_gtype L))]"

definition PromotionSpec_DeepCopy :: "v1_lib \<Rightarrow> copier" where
  "PromotionSpec_DeepCopy L =
     deep_copy (PromotionSpec_gtype L) (PromotionSpec_DeepCopyInto L)"

lemma PromotionSpec_copies [deep]: "v1_ok L \<Longrightarrow>
    copies (PromotionSpec_gtype L) (PromotionSpec_DeepCopyInto L)"
  unfolding PromotionSpec_gtype_def PromotionSpec_DeepCopyInto_def
  by (rule copies_body) (simp_all add: deep)

subsection \<open>\<^verbatim>\<open>PromotionStatus\<close>\<close>

definition PromotionStatus_gtype :: "v1_lib \<Rightarrow> gtype" where
  "PromotionStatus_gtype L = TStruct [
     (''ObservedGeneration'', TInt), (''Phase'', TString), (''Blockers'', TSlice TString),
     (''Conditions'', TSlice (v1_Condition L))]"

definition PromotionStatus_DeepCopyInto :: "v1_lib \<Rightarrow> copier" where
  "PromotionStatus_DeepCopyInto L = copy_body [
     (''Blockers'', made_copied TString),
     (''Conditions'', made_into (v1_Condition L) (v1_Condition_DeepCopyInto L))]"

definition PromotionStatus_DeepCopy :: "v1_lib \<Rightarrow> copier" where
  "PromotionStatus_DeepCopy L =
     deep_copy (PromotionStatus_gtype L) (PromotionStatus_DeepCopyInto L)"

lemma PromotionStatus_copies [deep]: "v1_ok L \<Longrightarrow>
    copies (PromotionStatus_gtype L) (PromotionStatus_DeepCopyInto L)"
  unfolding PromotionStatus_gtype_def PromotionStatus_DeepCopyInto_def
  by (rule copies_body) (simp_all add: deep)

subsection \<open>\<^verbatim>\<open>Promotion\<close>\<close>

definition Promotion_gtype :: "v1_lib \<Rightarrow> gtype" where
  "Promotion_gtype L = TStruct [
     (''TypeMeta'', v1_TypeMeta L), (''ObjectMeta'', v1_ObjectMeta L),
     (''Spec'', PromotionSpec_gtype L), (''Status'', PromotionStatus_gtype L)]"

definition Promotion_DeepCopyInto :: "v1_lib \<Rightarrow> copier" where
  "Promotion_DeepCopyInto L = copy_body [
     (''TypeMeta'', assigned), (''ObjectMeta'', v1_ObjectMeta_DeepCopyInto L),
     (''Spec'', PromotionSpec_DeepCopyInto L), (''Status'', PromotionStatus_DeepCopyInto L)]"

definition Promotion_DeepCopy :: "v1_lib \<Rightarrow> copier" where
  "Promotion_DeepCopy L =
     deep_copy (Promotion_gtype L) (Promotion_DeepCopyInto L)"

definition Promotion_DeepCopyObject ::
    "v1_lib \<Rightarrow> gval \<Rightarrow> heap \<Rightarrow> (string \<times> gval) option \<times> heap" where
  "Promotion_DeepCopyObject L = deep_copy_object ''Promotion'' (Promotion_DeepCopy L)"

lemma Promotion_copies [deep]: "v1_ok L \<Longrightarrow>
    copies (Promotion_gtype L) (Promotion_DeepCopyInto L)"
  unfolding Promotion_gtype_def Promotion_DeepCopyInto_def
  by (rule copies_body) (simp_all add: deep)

subsection \<open>\<^verbatim>\<open>PromotionList\<close>\<close>

definition PromotionList_gtype :: "v1_lib \<Rightarrow> gtype" where
  "PromotionList_gtype L = TStruct [
     (''TypeMeta'', v1_TypeMeta L), (''ListMeta'', v1_ListMeta L),
     (''Items'', TSlice (Promotion_gtype L))]"

definition PromotionList_DeepCopyInto :: "v1_lib \<Rightarrow> copier" where
  "PromotionList_DeepCopyInto L = copy_body [
     (''TypeMeta'', assigned), (''ListMeta'', v1_ListMeta_DeepCopyInto L),
     (''Items'', made_into (Promotion_gtype L) (Promotion_DeepCopyInto L))]"

definition PromotionList_DeepCopy :: "v1_lib \<Rightarrow> copier" where
  "PromotionList_DeepCopy L =
     deep_copy (PromotionList_gtype L) (PromotionList_DeepCopyInto L)"

definition PromotionList_DeepCopyObject ::
    "v1_lib \<Rightarrow> gval \<Rightarrow> heap \<Rightarrow> (string \<times> gval) option \<times> heap" where
  "PromotionList_DeepCopyObject L = deep_copy_object ''PromotionList'' (PromotionList_DeepCopy L)"

lemma PromotionList_copies [deep]: "v1_ok L \<Longrightarrow>
    copies (PromotionList_gtype L) (PromotionList_DeepCopyInto L)"
  unfolding PromotionList_gtype_def PromotionList_DeepCopyInto_def
  by (rule copies_body) (simp_all add: deep)

subsection \<open>\<^verbatim>\<open>PromotionPolicySpec\<close>\<close>

definition PromotionPolicySpec_gtype :: "v1_lib \<Rightarrow> gtype" where
  "PromotionPolicySpec_gtype L = TStruct [
     (''Required'', TSlice TString)]"

definition PromotionPolicySpec_DeepCopyInto :: "v1_lib \<Rightarrow> copier" where
  "PromotionPolicySpec_DeepCopyInto L = copy_body [
     (''Required'', made_copied TString)]"

definition PromotionPolicySpec_DeepCopy :: "v1_lib \<Rightarrow> copier" where
  "PromotionPolicySpec_DeepCopy L =
     deep_copy (PromotionPolicySpec_gtype L) (PromotionPolicySpec_DeepCopyInto L)"

lemma PromotionPolicySpec_copies [deep]: "v1_ok L \<Longrightarrow>
    copies (PromotionPolicySpec_gtype L) (PromotionPolicySpec_DeepCopyInto L)"
  unfolding PromotionPolicySpec_gtype_def PromotionPolicySpec_DeepCopyInto_def
  by (rule copies_body) (simp_all add: deep)

subsection \<open>\<^verbatim>\<open>PromotionPolicyStatus\<close>\<close>

definition PromotionPolicyStatus_gtype :: "v1_lib \<Rightarrow> gtype" where
  "PromotionPolicyStatus_gtype L = TStruct [
     (''ObservedGeneration'', TInt), (''Conditions'', TSlice (v1_Condition L))]"

definition PromotionPolicyStatus_DeepCopyInto :: "v1_lib \<Rightarrow> copier" where
  "PromotionPolicyStatus_DeepCopyInto L = copy_body [
     (''Conditions'', made_into (v1_Condition L) (v1_Condition_DeepCopyInto L))]"

definition PromotionPolicyStatus_DeepCopy :: "v1_lib \<Rightarrow> copier" where
  "PromotionPolicyStatus_DeepCopy L =
     deep_copy (PromotionPolicyStatus_gtype L) (PromotionPolicyStatus_DeepCopyInto L)"

lemma PromotionPolicyStatus_copies [deep]: "v1_ok L \<Longrightarrow>
    copies (PromotionPolicyStatus_gtype L) (PromotionPolicyStatus_DeepCopyInto L)"
  unfolding PromotionPolicyStatus_gtype_def PromotionPolicyStatus_DeepCopyInto_def
  by (rule copies_body) (simp_all add: deep)

subsection \<open>\<^verbatim>\<open>PromotionPolicy\<close>\<close>

definition PromotionPolicy_gtype :: "v1_lib \<Rightarrow> gtype" where
  "PromotionPolicy_gtype L = TStruct [
     (''TypeMeta'', v1_TypeMeta L), (''ObjectMeta'', v1_ObjectMeta L),
     (''Spec'', PromotionPolicySpec_gtype L), (''Status'', PromotionPolicyStatus_gtype L)]"

definition PromotionPolicy_DeepCopyInto :: "v1_lib \<Rightarrow> copier" where
  "PromotionPolicy_DeepCopyInto L = copy_body [
     (''TypeMeta'', assigned), (''ObjectMeta'', v1_ObjectMeta_DeepCopyInto L),
     (''Spec'', PromotionPolicySpec_DeepCopyInto L),
     (''Status'', PromotionPolicyStatus_DeepCopyInto L)]"

definition PromotionPolicy_DeepCopy :: "v1_lib \<Rightarrow> copier" where
  "PromotionPolicy_DeepCopy L =
     deep_copy (PromotionPolicy_gtype L) (PromotionPolicy_DeepCopyInto L)"

definition PromotionPolicy_DeepCopyObject ::
    "v1_lib \<Rightarrow> gval \<Rightarrow> heap \<Rightarrow> (string \<times> gval) option \<times> heap" where
  "PromotionPolicy_DeepCopyObject L = deep_copy_object ''PromotionPolicy'' (PromotionPolicy_DeepCopy L)"

lemma PromotionPolicy_copies [deep]: "v1_ok L \<Longrightarrow>
    copies (PromotionPolicy_gtype L) (PromotionPolicy_DeepCopyInto L)"
  unfolding PromotionPolicy_gtype_def PromotionPolicy_DeepCopyInto_def
  by (rule copies_body) (simp_all add: deep)

subsection \<open>\<^verbatim>\<open>PromotionPolicyList\<close>\<close>

definition PromotionPolicyList_gtype :: "v1_lib \<Rightarrow> gtype" where
  "PromotionPolicyList_gtype L = TStruct [
     (''TypeMeta'', v1_TypeMeta L), (''ListMeta'', v1_ListMeta L),
     (''Items'', TSlice (PromotionPolicy_gtype L))]"

definition PromotionPolicyList_DeepCopyInto :: "v1_lib \<Rightarrow> copier" where
  "PromotionPolicyList_DeepCopyInto L = copy_body [
     (''TypeMeta'', assigned), (''ListMeta'', v1_ListMeta_DeepCopyInto L),
     (''Items'', made_into (PromotionPolicy_gtype L) (PromotionPolicy_DeepCopyInto L))]"

definition PromotionPolicyList_DeepCopy :: "v1_lib \<Rightarrow> copier" where
  "PromotionPolicyList_DeepCopy L =
     deep_copy (PromotionPolicyList_gtype L) (PromotionPolicyList_DeepCopyInto L)"

definition PromotionPolicyList_DeepCopyObject ::
    "v1_lib \<Rightarrow> gval \<Rightarrow> heap \<Rightarrow> (string \<times> gval) option \<times> heap" where
  "PromotionPolicyList_DeepCopyObject L = deep_copy_object ''PromotionPolicyList'' (PromotionPolicyList_DeepCopy L)"

lemma PromotionPolicyList_copies [deep]: "v1_ok L \<Longrightarrow>
    copies (PromotionPolicyList_gtype L) (PromotionPolicyList_DeepCopyInto L)"
  unfolding PromotionPolicyList_gtype_def PromotionPolicyList_DeepCopyInto_def
  by (rule copies_body) (simp_all add: deep)

subsection \<open>\<^verbatim>\<open>ReleaseArtifact\<close>\<close>

definition ReleaseArtifact_gtype :: "v1_lib \<Rightarrow> gtype" where
  "ReleaseArtifact_gtype L = TStruct [
     (''Type'', TString), (''Ref'', TString), (''Digest'', TString), (''Version'', TString)]"

definition ReleaseArtifact_DeepCopyInto :: "v1_lib \<Rightarrow> copier" where
  "ReleaseArtifact_DeepCopyInto L = copy_body []"

definition ReleaseArtifact_DeepCopy :: "v1_lib \<Rightarrow> copier" where
  "ReleaseArtifact_DeepCopy L =
     deep_copy (ReleaseArtifact_gtype L) (ReleaseArtifact_DeepCopyInto L)"

lemma ReleaseArtifact_flat [deep]: "v1_ok L \<Longrightarrow> flat (ReleaseArtifact_gtype L)"
  by (simp add: ReleaseArtifact_gtype_def deep)

lemma ReleaseArtifact_copies [deep]: "v1_ok L \<Longrightarrow>
    copies (ReleaseArtifact_gtype L) (ReleaseArtifact_DeepCopyInto L)"
  unfolding ReleaseArtifact_gtype_def ReleaseArtifact_DeepCopyInto_def
  by (rule copies_body) (simp_all add: deep)

subsection \<open>\<^verbatim>\<open>ReleaseProvenance\<close>\<close>

definition ReleaseProvenance_gtype :: "v1_lib \<Rightarrow> gtype" where
  "ReleaseProvenance_gtype L = TStruct [
     (''Commit'', TString), (''BuildURL'', TString), (''SBOMRef'', TString)]"

definition ReleaseProvenance_DeepCopyInto :: "v1_lib \<Rightarrow> copier" where
  "ReleaseProvenance_DeepCopyInto L = copy_body []"

definition ReleaseProvenance_DeepCopy :: "v1_lib \<Rightarrow> copier" where
  "ReleaseProvenance_DeepCopy L =
     deep_copy (ReleaseProvenance_gtype L) (ReleaseProvenance_DeepCopyInto L)"

lemma ReleaseProvenance_flat [deep]: "v1_ok L \<Longrightarrow> flat (ReleaseProvenance_gtype L)"
  by (simp add: ReleaseProvenance_gtype_def deep)

lemma ReleaseProvenance_copies [deep]: "v1_ok L \<Longrightarrow>
    copies (ReleaseProvenance_gtype L) (ReleaseProvenance_DeepCopyInto L)"
  unfolding ReleaseProvenance_gtype_def ReleaseProvenance_DeepCopyInto_def
  by (rule copies_body) (simp_all add: deep)

subsection \<open>\<^verbatim>\<open>ReleaseSpec\<close>\<close>

definition ReleaseSpec_gtype :: "v1_lib \<Rightarrow> gtype" where
  "ReleaseSpec_gtype L = TStruct [
     (''Application'', TString), (''Artifacts'', TSlice (ReleaseArtifact_gtype L)),
     (''Provenance'', ReleaseProvenance_gtype L)]"

definition ReleaseSpec_DeepCopyInto :: "v1_lib \<Rightarrow> copier" where
  "ReleaseSpec_DeepCopyInto L = copy_body [
     (''Artifacts'', made_copied (ReleaseArtifact_gtype L)), (''Provenance'', assigned)]"

definition ReleaseSpec_DeepCopy :: "v1_lib \<Rightarrow> copier" where
  "ReleaseSpec_DeepCopy L =
     deep_copy (ReleaseSpec_gtype L) (ReleaseSpec_DeepCopyInto L)"

lemma ReleaseSpec_copies [deep]: "v1_ok L \<Longrightarrow>
    copies (ReleaseSpec_gtype L) (ReleaseSpec_DeepCopyInto L)"
  unfolding ReleaseSpec_gtype_def ReleaseSpec_DeepCopyInto_def
  by (rule copies_body) (simp_all add: deep)

subsection \<open>\<^verbatim>\<open>ReleaseStatus\<close>\<close>

definition ReleaseStatus_gtype :: "v1_lib \<Rightarrow> gtype" where
  "ReleaseStatus_gtype L = TStruct [
     (''ObservedGeneration'', TInt), (''Conditions'', TSlice (v1_Condition L))]"

definition ReleaseStatus_DeepCopyInto :: "v1_lib \<Rightarrow> copier" where
  "ReleaseStatus_DeepCopyInto L = copy_body [
     (''Conditions'', made_into (v1_Condition L) (v1_Condition_DeepCopyInto L))]"

definition ReleaseStatus_DeepCopy :: "v1_lib \<Rightarrow> copier" where
  "ReleaseStatus_DeepCopy L =
     deep_copy (ReleaseStatus_gtype L) (ReleaseStatus_DeepCopyInto L)"

lemma ReleaseStatus_copies [deep]: "v1_ok L \<Longrightarrow>
    copies (ReleaseStatus_gtype L) (ReleaseStatus_DeepCopyInto L)"
  unfolding ReleaseStatus_gtype_def ReleaseStatus_DeepCopyInto_def
  by (rule copies_body) (simp_all add: deep)

subsection \<open>\<^verbatim>\<open>Release\<close>\<close>

definition Release_gtype :: "v1_lib \<Rightarrow> gtype" where
  "Release_gtype L = TStruct [
     (''TypeMeta'', v1_TypeMeta L), (''ObjectMeta'', v1_ObjectMeta L),
     (''Spec'', ReleaseSpec_gtype L), (''Status'', ReleaseStatus_gtype L)]"

definition Release_DeepCopyInto :: "v1_lib \<Rightarrow> copier" where
  "Release_DeepCopyInto L = copy_body [
     (''TypeMeta'', assigned), (''ObjectMeta'', v1_ObjectMeta_DeepCopyInto L),
     (''Spec'', ReleaseSpec_DeepCopyInto L), (''Status'', ReleaseStatus_DeepCopyInto L)]"

definition Release_DeepCopy :: "v1_lib \<Rightarrow> copier" where
  "Release_DeepCopy L =
     deep_copy (Release_gtype L) (Release_DeepCopyInto L)"

definition Release_DeepCopyObject ::
    "v1_lib \<Rightarrow> gval \<Rightarrow> heap \<Rightarrow> (string \<times> gval) option \<times> heap" where
  "Release_DeepCopyObject L = deep_copy_object ''Release'' (Release_DeepCopy L)"

lemma Release_copies [deep]: "v1_ok L \<Longrightarrow>
    copies (Release_gtype L) (Release_DeepCopyInto L)"
  unfolding Release_gtype_def Release_DeepCopyInto_def
  by (rule copies_body) (simp_all add: deep)

subsection \<open>\<^verbatim>\<open>ReleaseList\<close>\<close>

definition ReleaseList_gtype :: "v1_lib \<Rightarrow> gtype" where
  "ReleaseList_gtype L = TStruct [
     (''TypeMeta'', v1_TypeMeta L), (''ListMeta'', v1_ListMeta L),
     (''Items'', TSlice (Release_gtype L))]"

definition ReleaseList_DeepCopyInto :: "v1_lib \<Rightarrow> copier" where
  "ReleaseList_DeepCopyInto L = copy_body [
     (''TypeMeta'', assigned), (''ListMeta'', v1_ListMeta_DeepCopyInto L),
     (''Items'', made_into (Release_gtype L) (Release_DeepCopyInto L))]"

definition ReleaseList_DeepCopy :: "v1_lib \<Rightarrow> copier" where
  "ReleaseList_DeepCopy L =
     deep_copy (ReleaseList_gtype L) (ReleaseList_DeepCopyInto L)"

definition ReleaseList_DeepCopyObject ::
    "v1_lib \<Rightarrow> gval \<Rightarrow> heap \<Rightarrow> (string \<times> gval) option \<times> heap" where
  "ReleaseList_DeepCopyObject L = deep_copy_object ''ReleaseList'' (ReleaseList_DeepCopy L)"

lemma ReleaseList_copies [deep]: "v1_ok L \<Longrightarrow>
    copies (ReleaseList_gtype L) (ReleaseList_DeepCopyInto L)"
  unfolding ReleaseList_gtype_def ReleaseList_DeepCopyInto_def
  by (rule copies_body) (simp_all add: deep)

subsection \<open>\<^verbatim>\<open>SourceVerify\<close>\<close>

definition SourceVerify_gtype :: "v1_lib \<Rightarrow> gtype" where
  "SourceVerify_gtype L = TStruct [
     (''Cosign'', TBool), (''RequireSBOM'', TBool)]"

definition SourceVerify_DeepCopyInto :: "v1_lib \<Rightarrow> copier" where
  "SourceVerify_DeepCopyInto L = copy_body []"

definition SourceVerify_DeepCopy :: "v1_lib \<Rightarrow> copier" where
  "SourceVerify_DeepCopy L =
     deep_copy (SourceVerify_gtype L) (SourceVerify_DeepCopyInto L)"

lemma SourceVerify_flat [deep]: "v1_ok L \<Longrightarrow> flat (SourceVerify_gtype L)"
  by (simp add: SourceVerify_gtype_def deep)

lemma SourceVerify_copies [deep]: "v1_ok L \<Longrightarrow>
    copies (SourceVerify_gtype L) (SourceVerify_DeepCopyInto L)"
  unfolding SourceVerify_gtype_def SourceVerify_DeepCopyInto_def
  by (rule copies_body) (simp_all add: deep)

subsection \<open>\<^verbatim>\<open>SourceSpec\<close>\<close>

definition SourceSpec_gtype :: "v1_lib \<Rightarrow> gtype" where
  "SourceSpec_gtype L = TStruct [
     (''Type'', TString), (''Image'', TString), (''Repo'', TString), (''Chart'', TString),
     (''Semver'', TString), (''Verify'', SourceVerify_gtype L)]"

definition SourceSpec_DeepCopyInto :: "v1_lib \<Rightarrow> copier" where
  "SourceSpec_DeepCopyInto L = copy_body [
     (''Verify'', assigned)]"

definition SourceSpec_DeepCopy :: "v1_lib \<Rightarrow> copier" where
  "SourceSpec_DeepCopy L =
     deep_copy (SourceSpec_gtype L) (SourceSpec_DeepCopyInto L)"

lemma SourceSpec_flat [deep]: "v1_ok L \<Longrightarrow> flat (SourceSpec_gtype L)"
  by (simp add: SourceSpec_gtype_def deep)

lemma SourceSpec_copies [deep]: "v1_ok L \<Longrightarrow>
    copies (SourceSpec_gtype L) (SourceSpec_DeepCopyInto L)"
  unfolding SourceSpec_gtype_def SourceSpec_DeepCopyInto_def
  by (rule copies_body) (simp_all add: deep)

subsection \<open>\<^verbatim>\<open>SourceObservedRevision\<close>\<close>

definition SourceObservedRevision_gtype :: "v1_lib \<Rightarrow> gtype" where
  "SourceObservedRevision_gtype L = TStruct [
     (''Tag'', TString), (''Digest'', TString), (''ObservedAt'', TPtr (v1_Time L))]"

definition SourceObservedRevision_DeepCopyInto :: "v1_lib \<Rightarrow> copier" where
  "SourceObservedRevision_DeepCopyInto L = copy_body [
     (''ObservedAt'', v1_Time_DeepCopy L)]"

definition SourceObservedRevision_DeepCopy :: "v1_lib \<Rightarrow> copier" where
  "SourceObservedRevision_DeepCopy L =
     deep_copy (SourceObservedRevision_gtype L) (SourceObservedRevision_DeepCopyInto L)"

lemma SourceObservedRevision_copies [deep]: "v1_ok L \<Longrightarrow>
    copies (SourceObservedRevision_gtype L) (SourceObservedRevision_DeepCopyInto L)"
  unfolding SourceObservedRevision_gtype_def SourceObservedRevision_DeepCopyInto_def
  by (rule copies_body) (simp_all add: deep)

subsection \<open>\<^verbatim>\<open>SourceStatus\<close>\<close>

definition SourceStatus_gtype :: "v1_lib \<Rightarrow> gtype" where
  "SourceStatus_gtype L = TStruct [
     (''ObservedGeneration'', TInt), (''Conditions'', TSlice (v1_Condition L)),
     (''LatestRevision'', TPtr (SourceObservedRevision_gtype L))]"

definition SourceStatus_DeepCopyInto :: "v1_lib \<Rightarrow> copier" where
  "SourceStatus_DeepCopyInto L = copy_body [
     (''Conditions'', made_into (v1_Condition L) (v1_Condition_DeepCopyInto L)),
     (''LatestRevision'', new_into (SourceObservedRevision_gtype L) (SourceObservedRevision_DeepCopyInto L))]"

definition SourceStatus_DeepCopy :: "v1_lib \<Rightarrow> copier" where
  "SourceStatus_DeepCopy L =
     deep_copy (SourceStatus_gtype L) (SourceStatus_DeepCopyInto L)"

lemma SourceStatus_copies [deep]: "v1_ok L \<Longrightarrow>
    copies (SourceStatus_gtype L) (SourceStatus_DeepCopyInto L)"
  unfolding SourceStatus_gtype_def SourceStatus_DeepCopyInto_def
  by (rule copies_body) (simp_all add: deep)

subsection \<open>\<^verbatim>\<open>Source\<close>\<close>

definition Source_gtype :: "v1_lib \<Rightarrow> gtype" where
  "Source_gtype L = TStruct [
     (''TypeMeta'', v1_TypeMeta L), (''ObjectMeta'', v1_ObjectMeta L),
     (''Spec'', SourceSpec_gtype L), (''Status'', SourceStatus_gtype L)]"

definition Source_DeepCopyInto :: "v1_lib \<Rightarrow> copier" where
  "Source_DeepCopyInto L = copy_body [
     (''TypeMeta'', assigned), (''ObjectMeta'', v1_ObjectMeta_DeepCopyInto L),
     (''Spec'', assigned), (''Status'', SourceStatus_DeepCopyInto L)]"

definition Source_DeepCopy :: "v1_lib \<Rightarrow> copier" where
  "Source_DeepCopy L =
     deep_copy (Source_gtype L) (Source_DeepCopyInto L)"

definition Source_DeepCopyObject ::
    "v1_lib \<Rightarrow> gval \<Rightarrow> heap \<Rightarrow> (string \<times> gval) option \<times> heap" where
  "Source_DeepCopyObject L = deep_copy_object ''Source'' (Source_DeepCopy L)"

lemma Source_copies [deep]: "v1_ok L \<Longrightarrow>
    copies (Source_gtype L) (Source_DeepCopyInto L)"
  unfolding Source_gtype_def Source_DeepCopyInto_def
  by (rule copies_body) (simp_all add: deep)

subsection \<open>\<^verbatim>\<open>SourceList\<close>\<close>

definition SourceList_gtype :: "v1_lib \<Rightarrow> gtype" where
  "SourceList_gtype L = TStruct [
     (''TypeMeta'', v1_TypeMeta L), (''ListMeta'', v1_ListMeta L),
     (''Items'', TSlice (Source_gtype L))]"

definition SourceList_DeepCopyInto :: "v1_lib \<Rightarrow> copier" where
  "SourceList_DeepCopyInto L = copy_body [
     (''TypeMeta'', assigned), (''ListMeta'', v1_ListMeta_DeepCopyInto L),
     (''Items'', made_into (Source_gtype L) (Source_DeepCopyInto L))]"

definition SourceList_DeepCopy :: "v1_lib \<Rightarrow> copier" where
  "SourceList_DeepCopy L =
     deep_copy (SourceList_gtype L) (SourceList_DeepCopyInto L)"

definition SourceList_DeepCopyObject ::
    "v1_lib \<Rightarrow> gval \<Rightarrow> heap \<Rightarrow> (string \<times> gval) option \<times> heap" where
  "SourceList_DeepCopyObject L = deep_copy_object ''SourceList'' (SourceList_DeepCopy L)"

lemma SourceList_copies [deep]: "v1_ok L \<Longrightarrow>
    copies (SourceList_gtype L) (SourceList_DeepCopyInto L)"
  unfolding SourceList_gtype_def SourceList_DeepCopyInto_def
  by (rule copies_body) (simp_all add: deep)

subsection \<open>\<^verbatim>\<open>SyncPlanSpec\<close>\<close>

definition SyncPlanSpec_gtype :: "v1_lib \<Rightarrow> gtype" where
  "SyncPlanSpec_gtype L = TStruct [
     (''Application'', TString), (''TargetRefs'', TSlice (LocalObjectReference_gtype L)),
     (''AutoSync'', TBool), (''Suspended'', TBool)]"

definition SyncPlanSpec_DeepCopyInto :: "v1_lib \<Rightarrow> copier" where
  "SyncPlanSpec_DeepCopyInto L = copy_body [
     (''TargetRefs'', made_copied (LocalObjectReference_gtype L))]"

definition SyncPlanSpec_DeepCopy :: "v1_lib \<Rightarrow> copier" where
  "SyncPlanSpec_DeepCopy L =
     deep_copy (SyncPlanSpec_gtype L) (SyncPlanSpec_DeepCopyInto L)"

lemma SyncPlanSpec_copies [deep]: "v1_ok L \<Longrightarrow>
    copies (SyncPlanSpec_gtype L) (SyncPlanSpec_DeepCopyInto L)"
  unfolding SyncPlanSpec_gtype_def SyncPlanSpec_DeepCopyInto_def
  by (rule copies_body) (simp_all add: deep)

subsection \<open>\<^verbatim>\<open>SyncPlanStatus\<close>\<close>

definition SyncPlanStatus_gtype :: "v1_lib \<Rightarrow> gtype" where
  "SyncPlanStatus_gtype L = TStruct [
     (''ObservedGeneration'', TInt), (''Conditions'', TSlice (v1_Condition L)),
     (''LastSyncRun'', TString)]"

definition SyncPlanStatus_DeepCopyInto :: "v1_lib \<Rightarrow> copier" where
  "SyncPlanStatus_DeepCopyInto L = copy_body [
     (''Conditions'', made_into (v1_Condition L) (v1_Condition_DeepCopyInto L))]"

definition SyncPlanStatus_DeepCopy :: "v1_lib \<Rightarrow> copier" where
  "SyncPlanStatus_DeepCopy L =
     deep_copy (SyncPlanStatus_gtype L) (SyncPlanStatus_DeepCopyInto L)"

lemma SyncPlanStatus_copies [deep]: "v1_ok L \<Longrightarrow>
    copies (SyncPlanStatus_gtype L) (SyncPlanStatus_DeepCopyInto L)"
  unfolding SyncPlanStatus_gtype_def SyncPlanStatus_DeepCopyInto_def
  by (rule copies_body) (simp_all add: deep)

subsection \<open>\<^verbatim>\<open>SyncPlan\<close>\<close>

definition SyncPlan_gtype :: "v1_lib \<Rightarrow> gtype" where
  "SyncPlan_gtype L = TStruct [
     (''TypeMeta'', v1_TypeMeta L), (''ObjectMeta'', v1_ObjectMeta L),
     (''Spec'', SyncPlanSpec_gtype L), (''Status'', SyncPlanStatus_gtype L)]"

definition SyncPlan_DeepCopyInto :: "v1_lib \<Rightarrow> copier" where
  "SyncPlan_DeepCopyInto L = copy_body [
     (''TypeMeta'', assigned), (''ObjectMeta'', v1_ObjectMeta_DeepCopyInto L),
     (''Spec'', SyncPlanSpec_DeepCopyInto L), (''Status'', SyncPlanStatus_DeepCopyInto L)]"

definition SyncPlan_DeepCopy :: "v1_lib \<Rightarrow> copier" where
  "SyncPlan_DeepCopy L =
     deep_copy (SyncPlan_gtype L) (SyncPlan_DeepCopyInto L)"

definition SyncPlan_DeepCopyObject ::
    "v1_lib \<Rightarrow> gval \<Rightarrow> heap \<Rightarrow> (string \<times> gval) option \<times> heap" where
  "SyncPlan_DeepCopyObject L = deep_copy_object ''SyncPlan'' (SyncPlan_DeepCopy L)"

lemma SyncPlan_copies [deep]: "v1_ok L \<Longrightarrow>
    copies (SyncPlan_gtype L) (SyncPlan_DeepCopyInto L)"
  unfolding SyncPlan_gtype_def SyncPlan_DeepCopyInto_def
  by (rule copies_body) (simp_all add: deep)

subsection \<open>\<^verbatim>\<open>SyncPlanList\<close>\<close>

definition SyncPlanList_gtype :: "v1_lib \<Rightarrow> gtype" where
  "SyncPlanList_gtype L = TStruct [
     (''TypeMeta'', v1_TypeMeta L), (''ListMeta'', v1_ListMeta L),
     (''Items'', TSlice (SyncPlan_gtype L))]"

definition SyncPlanList_DeepCopyInto :: "v1_lib \<Rightarrow> copier" where
  "SyncPlanList_DeepCopyInto L = copy_body [
     (''TypeMeta'', assigned), (''ListMeta'', v1_ListMeta_DeepCopyInto L),
     (''Items'', made_into (SyncPlan_gtype L) (SyncPlan_DeepCopyInto L))]"

definition SyncPlanList_DeepCopy :: "v1_lib \<Rightarrow> copier" where
  "SyncPlanList_DeepCopy L =
     deep_copy (SyncPlanList_gtype L) (SyncPlanList_DeepCopyInto L)"

definition SyncPlanList_DeepCopyObject ::
    "v1_lib \<Rightarrow> gval \<Rightarrow> heap \<Rightarrow> (string \<times> gval) option \<times> heap" where
  "SyncPlanList_DeepCopyObject L = deep_copy_object ''SyncPlanList'' (SyncPlanList_DeepCopy L)"

lemma SyncPlanList_copies [deep]: "v1_ok L \<Longrightarrow>
    copies (SyncPlanList_gtype L) (SyncPlanList_DeepCopyInto L)"
  unfolding SyncPlanList_gtype_def SyncPlanList_DeepCopyInto_def
  by (rule copies_body) (simp_all add: deep)

subsection \<open>\<^verbatim>\<open>SyncRunSpec\<close>\<close>

definition SyncRunSpec_gtype :: "v1_lib \<Rightarrow> gtype" where
  "SyncRunSpec_gtype L = TStruct [
     (''PlanRef'', LocalObjectReference_gtype L),
     (''TargetRef'', LocalObjectReference_gtype L), (''Revision'', TString)]"

definition SyncRunSpec_DeepCopyInto :: "v1_lib \<Rightarrow> copier" where
  "SyncRunSpec_DeepCopyInto L = copy_body [
     (''PlanRef'', assigned), (''TargetRef'', assigned)]"

definition SyncRunSpec_DeepCopy :: "v1_lib \<Rightarrow> copier" where
  "SyncRunSpec_DeepCopy L =
     deep_copy (SyncRunSpec_gtype L) (SyncRunSpec_DeepCopyInto L)"

lemma SyncRunSpec_flat [deep]: "v1_ok L \<Longrightarrow> flat (SyncRunSpec_gtype L)"
  by (simp add: SyncRunSpec_gtype_def deep)

lemma SyncRunSpec_copies [deep]: "v1_ok L \<Longrightarrow>
    copies (SyncRunSpec_gtype L) (SyncRunSpec_DeepCopyInto L)"
  unfolding SyncRunSpec_gtype_def SyncRunSpec_DeepCopyInto_def
  by (rule copies_body) (simp_all add: deep)

subsection \<open>\<^verbatim>\<open>SyncRunStatus\<close>\<close>

definition SyncRunStatus_gtype :: "v1_lib \<Rightarrow> gtype" where
  "SyncRunStatus_gtype L = TStruct [
     (''ObservedGeneration'', TInt), (''Phase'', TString), (''StartedAt'', TPtr (v1_Time L)),
     (''CompletedAt'', TPtr (v1_Time L)), (''Conditions'', TSlice (v1_Condition L))]"

definition SyncRunStatus_DeepCopyInto :: "v1_lib \<Rightarrow> copier" where
  "SyncRunStatus_DeepCopyInto L = copy_body [
     (''StartedAt'', v1_Time_DeepCopy L), (''CompletedAt'', v1_Time_DeepCopy L),
     (''Conditions'', made_into (v1_Condition L) (v1_Condition_DeepCopyInto L))]"

definition SyncRunStatus_DeepCopy :: "v1_lib \<Rightarrow> copier" where
  "SyncRunStatus_DeepCopy L =
     deep_copy (SyncRunStatus_gtype L) (SyncRunStatus_DeepCopyInto L)"

lemma SyncRunStatus_copies [deep]: "v1_ok L \<Longrightarrow>
    copies (SyncRunStatus_gtype L) (SyncRunStatus_DeepCopyInto L)"
  unfolding SyncRunStatus_gtype_def SyncRunStatus_DeepCopyInto_def
  by (rule copies_body) (simp_all add: deep)

subsection \<open>\<^verbatim>\<open>SyncRun\<close>\<close>

definition SyncRun_gtype :: "v1_lib \<Rightarrow> gtype" where
  "SyncRun_gtype L = TStruct [
     (''TypeMeta'', v1_TypeMeta L), (''ObjectMeta'', v1_ObjectMeta L),
     (''Spec'', SyncRunSpec_gtype L), (''Status'', SyncRunStatus_gtype L)]"

definition SyncRun_DeepCopyInto :: "v1_lib \<Rightarrow> copier" where
  "SyncRun_DeepCopyInto L = copy_body [
     (''TypeMeta'', assigned), (''ObjectMeta'', v1_ObjectMeta_DeepCopyInto L),
     (''Spec'', assigned), (''Status'', SyncRunStatus_DeepCopyInto L)]"

definition SyncRun_DeepCopy :: "v1_lib \<Rightarrow> copier" where
  "SyncRun_DeepCopy L =
     deep_copy (SyncRun_gtype L) (SyncRun_DeepCopyInto L)"

definition SyncRun_DeepCopyObject ::
    "v1_lib \<Rightarrow> gval \<Rightarrow> heap \<Rightarrow> (string \<times> gval) option \<times> heap" where
  "SyncRun_DeepCopyObject L = deep_copy_object ''SyncRun'' (SyncRun_DeepCopy L)"

lemma SyncRun_copies [deep]: "v1_ok L \<Longrightarrow>
    copies (SyncRun_gtype L) (SyncRun_DeepCopyInto L)"
  unfolding SyncRun_gtype_def SyncRun_DeepCopyInto_def
  by (rule copies_body) (simp_all add: deep)

subsection \<open>\<^verbatim>\<open>SyncRunList\<close>\<close>

definition SyncRunList_gtype :: "v1_lib \<Rightarrow> gtype" where
  "SyncRunList_gtype L = TStruct [
     (''TypeMeta'', v1_TypeMeta L), (''ListMeta'', v1_ListMeta L),
     (''Items'', TSlice (SyncRun_gtype L))]"

definition SyncRunList_DeepCopyInto :: "v1_lib \<Rightarrow> copier" where
  "SyncRunList_DeepCopyInto L = copy_body [
     (''TypeMeta'', assigned), (''ListMeta'', v1_ListMeta_DeepCopyInto L),
     (''Items'', made_into (SyncRun_gtype L) (SyncRun_DeepCopyInto L))]"

definition SyncRunList_DeepCopy :: "v1_lib \<Rightarrow> copier" where
  "SyncRunList_DeepCopy L =
     deep_copy (SyncRunList_gtype L) (SyncRunList_DeepCopyInto L)"

definition SyncRunList_DeepCopyObject ::
    "v1_lib \<Rightarrow> gval \<Rightarrow> heap \<Rightarrow> (string \<times> gval) option \<times> heap" where
  "SyncRunList_DeepCopyObject L = deep_copy_object ''SyncRunList'' (SyncRunList_DeepCopy L)"

lemma SyncRunList_copies [deep]: "v1_ok L \<Longrightarrow>
    copies (SyncRunList_gtype L) (SyncRunList_DeepCopyInto L)"
  unfolding SyncRunList_gtype_def SyncRunList_DeepCopyInto_def
  by (rule copies_body) (simp_all add: deep)

section \<open>All of them\<close>

text \<open>The structs of the API group with \<^verbatim>\<open>DeepCopy\<close>, in the order of the file.\<close>

definition api_copies :: "v1_lib \<Rightarrow> (string \<times> gtype \<times> copier) list" where
  "api_copies L = [
     (''Application'', Application_gtype L, Application_DeepCopy L),
     (''ApplicationDeployment'', ApplicationDeployment_gtype L, ApplicationDeployment_DeepCopy L),
     (''ApplicationList'', ApplicationList_gtype L, ApplicationList_DeepCopy L),
     (''ApplicationManifest'', ApplicationManifest_gtype L, ApplicationManifest_DeepCopy L),
     (''ApplicationSpec'', ApplicationSpec_gtype L, ApplicationSpec_DeepCopy L),
     (''ApplicationStatus'', ApplicationStatus_gtype L, ApplicationStatus_DeepCopy L),
     (''ApplicationTopology'', ApplicationTopology_gtype L, ApplicationTopology_DeepCopy L),
     (''Approval'', Approval_gtype L, Approval_DeepCopy L),
     (''ApprovalList'', ApprovalList_gtype L, ApprovalList_DeepCopy L),
     (''ApprovalSpec'', ApprovalSpec_gtype L, ApprovalSpec_DeepCopy L),
     (''ApprovalStatus'', ApprovalStatus_gtype L, ApprovalStatus_DeepCopy L),
     (''Cell'', Cell_gtype L, Cell_DeepCopy L),
     (''CellList'', CellList_gtype L, CellList_DeepCopy L),
     (''CellSpec'', CellSpec_gtype L, CellSpec_DeepCopy L),
     (''CellStatus'', CellStatus_gtype L, CellStatus_DeepCopy L),
     (''Deployment'', Deployment_gtype L, Deployment_DeepCopy L),
     (''DeploymentList'', DeploymentList_gtype L, DeploymentList_DeepCopy L),
     (''DeploymentSpec'', DeploymentSpec_gtype L, DeploymentSpec_DeepCopy L),
     (''DeploymentStatus'', DeploymentStatus_gtype L, DeploymentStatus_DeepCopy L),
     (''DeploymentTarget'', DeploymentTarget_gtype L, DeploymentTarget_DeepCopy L),
     (''DeploymentTargetCluster'', DeploymentTargetCluster_gtype L, DeploymentTargetCluster_DeepCopy L),
     (''DeploymentTargetList'', DeploymentTargetList_gtype L, DeploymentTargetList_DeepCopy L),
     (''DeploymentTargetSpec'', DeploymentTargetSpec_gtype L, DeploymentTargetSpec_DeepCopy L),
     (''DeploymentTargetStatus'', DeploymentTargetStatus_gtype L, DeploymentTargetStatus_DeepCopy L),
     (''Environment'', Environment_gtype L, Environment_DeepCopy L),
     (''EnvironmentChangeControl'', EnvironmentChangeControl_gtype L, EnvironmentChangeControl_DeepCopy L),
     (''EnvironmentList'', EnvironmentList_gtype L, EnvironmentList_DeepCopy L),
     (''EnvironmentSpec'', EnvironmentSpec_gtype L, EnvironmentSpec_DeepCopy L),
     (''EnvironmentStatus'', EnvironmentStatus_gtype L, EnvironmentStatus_DeepCopy L),
     (''FreezeWindow'', FreezeWindow_gtype L, FreezeWindow_DeepCopy L),
     (''FreezeWindowList'', FreezeWindowList_gtype L, FreezeWindowList_DeepCopy L),
     (''FreezeWindowSpec'', FreezeWindowSpec_gtype L, FreezeWindowSpec_DeepCopy L),
     (''FreezeWindowStatus'', FreezeWindowStatus_gtype L, FreezeWindowStatus_DeepCopy L),
     (''HealthCheck'', HealthCheck_gtype L, HealthCheck_DeepCopy L),
     (''HealthCheckList'', HealthCheckList_gtype L, HealthCheckList_DeepCopy L),
     (''HealthCheckSpec'', HealthCheckSpec_gtype L, HealthCheckSpec_DeepCopy L),
     (''HealthCheckStatus'', HealthCheckStatus_gtype L, HealthCheckStatus_DeepCopy L),
     (''LocalObjectReference'', LocalObjectReference_gtype L, LocalObjectReference_DeepCopy L),
     (''Notifier'', Notifier_gtype L, Notifier_DeepCopy L),
     (''NotifierDelivery'', NotifierDelivery_gtype L, NotifierDelivery_DeepCopy L),
     (''NotifierEndpoint'', NotifierEndpoint_gtype L, NotifierEndpoint_DeepCopy L),
     (''NotifierEventSelector'', NotifierEventSelector_gtype L, NotifierEventSelector_DeepCopy L),
     (''NotifierFilters'', NotifierFilters_gtype L, NotifierFilters_DeepCopy L),
     (''NotifierList'', NotifierList_gtype L, NotifierList_DeepCopy L),
     (''NotifierSpec'', NotifierSpec_gtype L, NotifierSpec_DeepCopy L),
     (''NotifierStatus'', NotifierStatus_gtype L, NotifierStatus_DeepCopy L),
     (''NotifierWebhookEndpoint'', NotifierWebhookEndpoint_gtype L, NotifierWebhookEndpoint_DeepCopy L),
     (''OwnerInfo'', OwnerInfo_gtype L, OwnerInfo_DeepCopy L),
     (''Promotion'', Promotion_gtype L, Promotion_DeepCopy L),
     (''PromotionChange'', PromotionChange_gtype L, PromotionChange_DeepCopy L),
     (''PromotionFrom'', PromotionFrom_gtype L, PromotionFrom_DeepCopy L),
     (''PromotionList'', PromotionList_gtype L, PromotionList_DeepCopy L),
     (''PromotionPolicy'', PromotionPolicy_gtype L, PromotionPolicy_DeepCopy L),
     (''PromotionPolicyList'', PromotionPolicyList_gtype L, PromotionPolicyList_DeepCopy L),
     (''PromotionPolicySpec'', PromotionPolicySpec_gtype L, PromotionPolicySpec_DeepCopy L),
     (''PromotionPolicyStatus'', PromotionPolicyStatus_gtype L, PromotionPolicyStatus_DeepCopy L),
     (''PromotionSpec'', PromotionSpec_gtype L, PromotionSpec_DeepCopy L),
     (''PromotionStatus'', PromotionStatus_gtype L, PromotionStatus_DeepCopy L),
     (''PromotionTo'', PromotionTo_gtype L, PromotionTo_DeepCopy L),
     (''Release'', Release_gtype L, Release_DeepCopy L),
     (''ReleaseArtifact'', ReleaseArtifact_gtype L, ReleaseArtifact_DeepCopy L),
     (''ReleaseList'', ReleaseList_gtype L, ReleaseList_DeepCopy L),
     (''ReleaseProvenance'', ReleaseProvenance_gtype L, ReleaseProvenance_DeepCopy L),
     (''ReleaseSpec'', ReleaseSpec_gtype L, ReleaseSpec_DeepCopy L),
     (''ReleaseStatus'', ReleaseStatus_gtype L, ReleaseStatus_DeepCopy L),
     (''SecretKeyRef'', SecretKeyRef_gtype L, SecretKeyRef_DeepCopy L),
     (''Source'', Source_gtype L, Source_DeepCopy L),
     (''SourceList'', SourceList_gtype L, SourceList_DeepCopy L),
     (''SourceObservedRevision'', SourceObservedRevision_gtype L, SourceObservedRevision_DeepCopy L),
     (''SourceSpec'', SourceSpec_gtype L, SourceSpec_DeepCopy L),
     (''SourceStatus'', SourceStatus_gtype L, SourceStatus_DeepCopy L),
     (''SourceVerify'', SourceVerify_gtype L, SourceVerify_DeepCopy L),
     (''SyncPlan'', SyncPlan_gtype L, SyncPlan_DeepCopy L),
     (''SyncPlanList'', SyncPlanList_gtype L, SyncPlanList_DeepCopy L),
     (''SyncPlanSpec'', SyncPlanSpec_gtype L, SyncPlanSpec_DeepCopy L),
     (''SyncPlanStatus'', SyncPlanStatus_gtype L, SyncPlanStatus_DeepCopy L),
     (''SyncRun'', SyncRun_gtype L, SyncRun_DeepCopy L),
     (''SyncRunList'', SyncRunList_gtype L, SyncRunList_DeepCopy L),
     (''SyncRunSpec'', SyncRunSpec_gtype L, SyncRunSpec_DeepCopy L),
     (''SyncRunStatus'', SyncRunStatus_gtype L, SyncRunStatus_DeepCopy L)]"

text \<open>The types with \<^verbatim>\<open>DeepCopyObject\<close>: the kinds of the API group and their lists.\<close>

definition api_objects :: "v1_lib
    \<Rightarrow> (string \<times> gtype \<times> (gval \<Rightarrow> heap \<Rightarrow> (string \<times> gval) option \<times> heap)) list" where
  "api_objects L = [
     (''Application'', Application_gtype L, Application_DeepCopyObject L),
     (''ApplicationList'', ApplicationList_gtype L, ApplicationList_DeepCopyObject L),
     (''Approval'', Approval_gtype L, Approval_DeepCopyObject L),
     (''ApprovalList'', ApprovalList_gtype L, ApprovalList_DeepCopyObject L),
     (''Cell'', Cell_gtype L, Cell_DeepCopyObject L),
     (''CellList'', CellList_gtype L, CellList_DeepCopyObject L),
     (''Deployment'', Deployment_gtype L, Deployment_DeepCopyObject L),
     (''DeploymentList'', DeploymentList_gtype L, DeploymentList_DeepCopyObject L),
     (''DeploymentTarget'', DeploymentTarget_gtype L, DeploymentTarget_DeepCopyObject L),
     (''DeploymentTargetList'', DeploymentTargetList_gtype L, DeploymentTargetList_DeepCopyObject L),
     (''Environment'', Environment_gtype L, Environment_DeepCopyObject L),
     (''EnvironmentList'', EnvironmentList_gtype L, EnvironmentList_DeepCopyObject L),
     (''FreezeWindow'', FreezeWindow_gtype L, FreezeWindow_DeepCopyObject L),
     (''FreezeWindowList'', FreezeWindowList_gtype L, FreezeWindowList_DeepCopyObject L),
     (''HealthCheck'', HealthCheck_gtype L, HealthCheck_DeepCopyObject L),
     (''HealthCheckList'', HealthCheckList_gtype L, HealthCheckList_DeepCopyObject L),
     (''Notifier'', Notifier_gtype L, Notifier_DeepCopyObject L),
     (''NotifierList'', NotifierList_gtype L, NotifierList_DeepCopyObject L),
     (''Promotion'', Promotion_gtype L, Promotion_DeepCopyObject L),
     (''PromotionList'', PromotionList_gtype L, PromotionList_DeepCopyObject L),
     (''PromotionPolicy'', PromotionPolicy_gtype L, PromotionPolicy_DeepCopyObject L),
     (''PromotionPolicyList'', PromotionPolicyList_gtype L, PromotionPolicyList_DeepCopyObject L),
     (''Release'', Release_gtype L, Release_DeepCopyObject L),
     (''ReleaseList'', ReleaseList_gtype L, ReleaseList_DeepCopyObject L),
     (''Source'', Source_gtype L, Source_DeepCopyObject L),
     (''SourceList'', SourceList_gtype L, SourceList_DeepCopyObject L),
     (''SyncPlan'', SyncPlan_gtype L, SyncPlan_DeepCopyObject L),
     (''SyncPlanList'', SyncPlanList_gtype L, SyncPlanList_DeepCopyObject L),
     (''SyncRun'', SyncRun_gtype L, SyncRun_DeepCopyObject L),
     (''SyncRunList'', SyncRunList_gtype L, SyncRunList_DeepCopyObject L)]"

text \<open>What the clients of a deep copy rely on, for every type of the group.\<close>

definition copies_pointer :: "gtype \<Rightarrow> copier \<Rightarrow> bool" where
  "copies_pointer T dc \<longleftrightarrow> copies (TPtr T) dc
     \<and> (\<forall>p h. fst (dc p h) = GNil \<longleftrightarrow> p = GNil) \<and> (\<forall>h. snd (dc GNil h) = h)"

lemma copies_pointer_deep_copy [deep]:
  "copies T into \<Longrightarrow> copies_pointer T (deep_copy T into)"
  unfolding copies_pointer_def
  by (auto simp: copies_deep_copy deep_copy_def new_into_def Let_def
      split: gval.splits prod.splits)

lemma DeepCopy_copies:
  assumes "v1_ok L" "(name, T, dc) \<in> set (api_copies L)"
  shows "copies_pointer T dc"
proof -
  have "list_all (\<lambda>(n, T, dc). copies_pointer T dc) (api_copies L)"
    unfolding api_copies_def
      Application_DeepCopy_def ApplicationDeployment_DeepCopy_def
      ApplicationList_DeepCopy_def ApplicationManifest_DeepCopy_def
      ApplicationSpec_DeepCopy_def ApplicationStatus_DeepCopy_def
      ApplicationTopology_DeepCopy_def Approval_DeepCopy_def
      ApprovalList_DeepCopy_def ApprovalSpec_DeepCopy_def
      ApprovalStatus_DeepCopy_def Cell_DeepCopy_def
      CellList_DeepCopy_def CellSpec_DeepCopy_def
      CellStatus_DeepCopy_def Deployment_DeepCopy_def
      DeploymentList_DeepCopy_def DeploymentSpec_DeepCopy_def
      DeploymentStatus_DeepCopy_def DeploymentTarget_DeepCopy_def
      DeploymentTargetCluster_DeepCopy_def DeploymentTargetList_DeepCopy_def
      DeploymentTargetSpec_DeepCopy_def DeploymentTargetStatus_DeepCopy_def
      Environment_DeepCopy_def EnvironmentChangeControl_DeepCopy_def
      EnvironmentList_DeepCopy_def EnvironmentSpec_DeepCopy_def
      EnvironmentStatus_DeepCopy_def FreezeWindow_DeepCopy_def
      FreezeWindowList_DeepCopy_def FreezeWindowSpec_DeepCopy_def
      FreezeWindowStatus_DeepCopy_def HealthCheck_DeepCopy_def
      HealthCheckList_DeepCopy_def HealthCheckSpec_DeepCopy_def
      HealthCheckStatus_DeepCopy_def LocalObjectReference_DeepCopy_def
      Notifier_DeepCopy_def NotifierDelivery_DeepCopy_def
      NotifierEndpoint_DeepCopy_def NotifierEventSelector_DeepCopy_def
      NotifierFilters_DeepCopy_def NotifierList_DeepCopy_def
      NotifierSpec_DeepCopy_def NotifierStatus_DeepCopy_def
      NotifierWebhookEndpoint_DeepCopy_def OwnerInfo_DeepCopy_def
      Promotion_DeepCopy_def PromotionChange_DeepCopy_def
      PromotionFrom_DeepCopy_def PromotionList_DeepCopy_def
      PromotionPolicy_DeepCopy_def PromotionPolicyList_DeepCopy_def
      PromotionPolicySpec_DeepCopy_def PromotionPolicyStatus_DeepCopy_def
      PromotionSpec_DeepCopy_def PromotionStatus_DeepCopy_def
      PromotionTo_DeepCopy_def Release_DeepCopy_def
      ReleaseArtifact_DeepCopy_def ReleaseList_DeepCopy_def
      ReleaseProvenance_DeepCopy_def ReleaseSpec_DeepCopy_def
      ReleaseStatus_DeepCopy_def SecretKeyRef_DeepCopy_def
      Source_DeepCopy_def SourceList_DeepCopy_def
      SourceObservedRevision_DeepCopy_def SourceSpec_DeepCopy_def
      SourceStatus_DeepCopy_def SourceVerify_DeepCopy_def
      SyncPlan_DeepCopy_def SyncPlanList_DeepCopy_def
      SyncPlanSpec_DeepCopy_def SyncPlanStatus_DeepCopy_def
      SyncRun_DeepCopy_def SyncRunList_DeepCopy_def
      SyncRunSpec_DeepCopy_def SyncRunStatus_DeepCopy_def
     
    using assms(1) by (simp add: deep)
  then show ?thesis using assms(2) by (auto simp: list_all_iff)
qed

definition copies_object ::
    "string \<Rightarrow> gtype \<Rightarrow> (gval \<Rightarrow> heap \<Rightarrow> (string \<times> gval) option \<times> heap) \<Rightarrow> bool" where
  "copies_object name T obj \<longleftrightarrow> (\<exists>dc. copies_pointer T dc \<and> obj = deep_copy_object name dc)"

lemma copies_object_deep_copy [deep]:
  "copies T into \<Longrightarrow> copies_object name T (deep_copy_object name (deep_copy T into))"
  unfolding copies_object_def using copies_pointer_deep_copy by blast

lemma DeepCopyObject_copies:
  assumes "v1_ok L" "(name, T, obj) \<in> set (api_objects L)"
  shows "copies_object name T obj"
proof -
  have "list_all (\<lambda>(n, T, obj). copies_object n T obj) (api_objects L)"
    unfolding api_objects_def
      Application_DeepCopyObject_def
      ApplicationList_DeepCopyObject_def
      Approval_DeepCopyObject_def
      ApprovalList_DeepCopyObject_def
      Cell_DeepCopyObject_def
      CellList_DeepCopyObject_def
      Deployment_DeepCopyObject_def
      DeploymentList_DeepCopyObject_def
      DeploymentTarget_DeepCopyObject_def
      DeploymentTargetList_DeepCopyObject_def
      Environment_DeepCopyObject_def
      EnvironmentList_DeepCopyObject_def
      FreezeWindow_DeepCopyObject_def
      FreezeWindowList_DeepCopyObject_def
      HealthCheck_DeepCopyObject_def
      HealthCheckList_DeepCopyObject_def
      Notifier_DeepCopyObject_def
      NotifierList_DeepCopyObject_def
      Promotion_DeepCopyObject_def
      PromotionList_DeepCopyObject_def
      PromotionPolicy_DeepCopyObject_def
      PromotionPolicyList_DeepCopyObject_def
      Release_DeepCopyObject_def
      ReleaseList_DeepCopyObject_def
      Source_DeepCopyObject_def
      SourceList_DeepCopyObject_def
      SyncPlan_DeepCopyObject_def
      SyncPlanList_DeepCopyObject_def
      SyncRun_DeepCopyObject_def
      SyncRunList_DeepCopyObject_def
      Application_DeepCopy_def ApplicationDeployment_DeepCopy_def
      ApplicationList_DeepCopy_def ApplicationManifest_DeepCopy_def
      ApplicationSpec_DeepCopy_def ApplicationStatus_DeepCopy_def
      ApplicationTopology_DeepCopy_def Approval_DeepCopy_def
      ApprovalList_DeepCopy_def ApprovalSpec_DeepCopy_def
      ApprovalStatus_DeepCopy_def Cell_DeepCopy_def
      CellList_DeepCopy_def CellSpec_DeepCopy_def
      CellStatus_DeepCopy_def Deployment_DeepCopy_def
      DeploymentList_DeepCopy_def DeploymentSpec_DeepCopy_def
      DeploymentStatus_DeepCopy_def DeploymentTarget_DeepCopy_def
      DeploymentTargetCluster_DeepCopy_def DeploymentTargetList_DeepCopy_def
      DeploymentTargetSpec_DeepCopy_def DeploymentTargetStatus_DeepCopy_def
      Environment_DeepCopy_def EnvironmentChangeControl_DeepCopy_def
      EnvironmentList_DeepCopy_def EnvironmentSpec_DeepCopy_def
      EnvironmentStatus_DeepCopy_def FreezeWindow_DeepCopy_def
      FreezeWindowList_DeepCopy_def FreezeWindowSpec_DeepCopy_def
      FreezeWindowStatus_DeepCopy_def HealthCheck_DeepCopy_def
      HealthCheckList_DeepCopy_def HealthCheckSpec_DeepCopy_def
      HealthCheckStatus_DeepCopy_def LocalObjectReference_DeepCopy_def
      Notifier_DeepCopy_def NotifierDelivery_DeepCopy_def
      NotifierEndpoint_DeepCopy_def NotifierEventSelector_DeepCopy_def
      NotifierFilters_DeepCopy_def NotifierList_DeepCopy_def
      NotifierSpec_DeepCopy_def NotifierStatus_DeepCopy_def
      NotifierWebhookEndpoint_DeepCopy_def OwnerInfo_DeepCopy_def
      Promotion_DeepCopy_def PromotionChange_DeepCopy_def
      PromotionFrom_DeepCopy_def PromotionList_DeepCopy_def
      PromotionPolicy_DeepCopy_def PromotionPolicyList_DeepCopy_def
      PromotionPolicySpec_DeepCopy_def PromotionPolicyStatus_DeepCopy_def
      PromotionSpec_DeepCopy_def PromotionStatus_DeepCopy_def
      PromotionTo_DeepCopy_def Release_DeepCopy_def
      ReleaseArtifact_DeepCopy_def ReleaseList_DeepCopy_def
      ReleaseProvenance_DeepCopy_def ReleaseSpec_DeepCopy_def
      ReleaseStatus_DeepCopy_def SecretKeyRef_DeepCopy_def
      Source_DeepCopy_def SourceList_DeepCopy_def
      SourceObservedRevision_DeepCopy_def SourceSpec_DeepCopy_def
      SourceStatus_DeepCopy_def SourceVerify_DeepCopy_def
      SyncPlan_DeepCopy_def SyncPlanList_DeepCopy_def
      SyncPlanSpec_DeepCopy_def SyncPlanStatus_DeepCopy_def
      SyncRun_DeepCopy_def SyncRunList_DeepCopy_def
      SyncRunSpec_DeepCopy_def SyncRunStatus_DeepCopy_def
     
    using assms(1) by (simp add: deep)
  then show ?thesis using assms(2) by (auto simp: list_all_iff)
qed

lemma copies_pointer_apart:
  assumes "copies_pointer T dc" "view (TPtr T) p h = Some r" "dc p h = (c, h')"
  shows "view (TPtr T) c h' = Some r" "view (TPtr T) p h' = Some r"
    "addrs (TPtr T) c h' \<inter> addrs (TPtr T) p h' = {}" "c = GNil \<longleftrightarrow> p = GNil"
proof -
  have "copies (TPtr T) dc" using assms(1) by (simp add: copies_pointer_def)
  from copiesE[OF this assms(2)] assms(3)
  have c: "extends h h'" "view (TPtr T) c h' = Some r"
      "addrs (TPtr T) c h' \<subseteq> {length h..<length h'}" by auto
  show "view (TPtr T) c h' = Some r" by (rule c(2))
  note p = view_extends[OF assms(2) c(1)]
  show "view (TPtr T) p h' = Some r" by (rule p(1))
  have "addrs (TPtr T) p h' \<subseteq> {..<length h}" unfolding p(2) by (rule view_bound(1)[OF assms(2)])
  then show "addrs (TPtr T) c h' \<inter> addrs (TPtr T) p h' = {}" using c(3) by fastforce
  show "c = GNil \<longleftrightarrow> p = GNil" using assms(1,3) by (metis copies_pointer_def fst_conv)
qed

text \<open>Only the cells \<open>S\<close> are overwritten between two heaps; others may be allocated.\<close>

definition changes_only :: "nat set \<Rightarrow> heap \<Rightarrow> heap \<Rightarrow> bool" where
  "changes_only S h h' \<longleftrightarrow> length h \<le> length h' \<and> (\<forall>a < length h. a \<notin> S \<longrightarrow> h' ! a = h ! a)"

lemma changes_only_update: "a \<in> S \<Longrightarrow> changes_only S h (h[a := c])"
  unfolding changes_only_def by (metis length_list_update nth_list_update_neq order_refl)

lemma view_changes_only:
  assumes "view T v h = Some r" "changes_only S h h'" "S \<inter> addrs T v h = {}"
  shows "view T v h' = Some r"
proof -
  have "a < length h' \<and> h' ! a = h ! a" if "a \<in> addrs T v h" for a
    using that assms(2,3) view_bound(1)[OF assms(1)] unfolding changes_only_def by fastforce
  then show ?thesis using view_frame(1)[OF assms(1)] by blast
qed

section \<open>A library to run the copies with\<close>

definition example_v1 :: v1_lib where
  "example_v1 = \<lparr>v1_TypeMeta = TStruct [(''Kind'', TString), (''APIVersion'', TString)],
     v1_Duration = TInt, v1_Time = TInt,
     v1_ListMeta = TStruct [(''ResourceVersion'', TString)],
     v1_ObjectMeta = TStruct [(''Name'', TString),
       (''Finalizers'', TSlice TString)],
     v1_Condition = TStruct [(''Type'', TString), (''Status'', TString)],
     v1_Time_DeepCopyInto = assigned, v1_Time_DeepCopy = new_assigned TInt,
     v1_ListMeta_DeepCopyInto = copy_body [],
     v1_ObjectMeta_DeepCopyInto = copy_body [(''Finalizers'', made_copied TString)],
     v1_Condition_DeepCopyInto = copy_body []\<rparr>"

lemma example_v1_ok: "v1_ok example_v1"
  by (simp add: v1_ok_def example_v1_def deep copies_body)

text \<open>A pointer to an \<^verbatim>\<open>ApplicationTopology\<close> with two environments.\<close>

definition example_heap :: heap where
  "example_heap = [CArr [GStr ''dev'', GStr ''prod''],
     CVar (GStruct [(''Environments'', GRef 0)])]"

lemmas example_run = example_heap_def ApplicationTopology_DeepCopy_def
  ApplicationTopology_DeepCopyInto_def ApplicationTopology_gtype_def deep_copy_def new_into_def
  copy_body_def made_copied_def len_at_def elems_def load_def field_def set_field_def

lemma example_topology: "(''ApplicationTopology'', ApplicationTopology_gtype example_v1,
    ApplicationTopology_DeepCopy example_v1) \<in> set (api_copies example_v1)"
  by (simp add: api_copies_def)

section \<open>The properties\<close>

text \<open>C20: \<^verbatim>\<open>DeepCopy\<close> of every struct of the API group returns a pointer through which the
  same value is read as through the receiver, to the last slice element and pointer; the
  receiver still reads the same; receiver and copy share no cell of memory; and the copy is
  nil exactly when the receiver is.\<close>

theorem deep_copies_are_deep:
  assumes "v1_ok L" "(name, T, dc) \<in> set (api_copies L)"
    and "view (TPtr T) p h = Some r" "dc p h = (c, h')"
  shows "view (TPtr T) c h' = Some r \<and> view (TPtr T) p h' = Some r
    \<and> addrs (TPtr T) c h' \<inter> addrs (TPtr T) p h' = {} \<and> (c = GNil \<longleftrightarrow> p = GNil)"
  using copies_pointer_apart[OF DeepCopy_copies[OF assms(1,2)] assms(3,4)] by simp

theorem deep_copies_are_deep_witness:
  "ApplicationTopology_DeepCopy example_v1 (GRef 1) example_heap = (GRef 2, example_heap
      @ [CVar (GStruct [(''Environments'', GRef 3)]), CArr [GStr ''dev'', GStr ''prod'']])
   \<and> addrs (TPtr (ApplicationTopology_gtype example_v1)) (GRef 2) (example_heap
      @ [CVar (GStruct [(''Environments'', GRef 3)]), CArr [GStr ''dev'', GStr ''prod'']])
     \<inter> addrs (TPtr (ApplicationTopology_gtype example_v1)) (GRef 1) (example_heap
      @ [CVar (GStruct [(''Environments'', GRef 3)]), CArr [GStr ''dev'', GStr ''prod'']]) = {}"
proof -
  have run: "ApplicationTopology_DeepCopy example_v1 (GRef 1) example_heap = (GRef 2, example_heap
      @ [CVar (GStruct [(''Environments'', GRef 3)]), CArr [GStr ''dev'', GStr ''prod'']])"
    by (simp add: example_run)
  have "view (TPtr (ApplicationTopology_gtype example_v1)) (GRef 1) example_heap
      = Some (RPtr (RStruct [(''Environments'', RSlice [RStr ''dev'', RStr ''prod''])]))"
    by (simp add: example_run)
  from deep_copies_are_deep[OF example_v1_ok example_topology this run] run show ?thesis
    by blast
qed

text \<open>C21: Whatever is done to the memory of a deep copy, and whatever is allocated, the
  original reads as before; and whatever is done to the memory of the original, the copy
  reads as it was taken.  (The controllers copy a status, change it, and compare it with the
  copy.)\<close>

theorem deep_copies_are_isolated:
  assumes "v1_ok L" "(name, T, dc) \<in> set (api_copies L)"
    and "view (TPtr T) p h = Some r" "dc p h = (c, h')"
  shows "(\<forall>h''. changes_only (addrs (TPtr T) c h') h' h'' \<longrightarrow> view (TPtr T) p h'' = Some r)
    \<and> (\<forall>h''. changes_only (addrs (TPtr T) p h') h' h'' \<longrightarrow> view (TPtr T) c h'' = Some r)"
proof -
  note d = copies_pointer_apart[OF DeepCopy_copies[OF assms(1,2)] assms(3,4)]
  then show ?thesis using view_changes_only[OF d(1)] view_changes_only[OF d(2)] by blast
qed

theorem deep_copies_are_isolated_witness:
  "view (TPtr (ApplicationTopology_gtype example_v1)) (GRef 1)
     ((snd (ApplicationTopology_DeepCopy example_v1 (GRef 1) example_heap))
        [3 := CArr [GStr ''canary'']])
   = Some (RPtr (RStruct [(''Environments'', RSlice [RStr ''dev'', RStr ''prod''])]))"
proof -
  let ?h' = "example_heap
      @ [CVar (GStruct [(''Environments'', GRef 3)]), CArr [GStr ''dev'', GStr ''prod'']]"
  have run: "ApplicationTopology_DeepCopy example_v1 (GRef 1) example_heap = (GRef 2, ?h')"
    by (simp add: example_run)
  have v: "view (TPtr (ApplicationTopology_gtype example_v1)) (GRef 1) example_heap
      = Some (RPtr (RStruct [(''Environments'', RSlice [RStr ''dev'', RStr ''prod''])]))"
    by (simp add: example_run)
  have "3 \<in> addrs (TPtr (ApplicationTopology_gtype example_v1)) (GRef 2) ?h'"
    by (simp add: example_run)
  then have "changes_only (addrs (TPtr (ApplicationTopology_gtype example_v1)) (GRef 2) ?h') ?h'
      (?h'[3 := CArr [GStr ''canary'']])"
    by (rule changes_only_update)
  with deep_copies_are_isolated[OF example_v1_ok example_topology v run] run show ?thesis
    by auto
qed

text \<open>C22: \<^verbatim>\<open>DeepCopyObject\<close> of a kind or list returns the nil interface exactly for the nil
  pointer, never a typed nil inside an interface; otherwise it returns a non-nil pointer with
  its own type, a deep copy of the receiver.  The types that have it are the API group's
  fifteen kinds and their lists.\<close>

theorem deep_copy_objects:
  assumes "v1_ok L" "(name, T, obj) \<in> set (api_objects L)"
    and "view (TPtr T) p h = Some r" "obj p h = (o', h')"
  shows "(o' = None \<longleftrightarrow> p = GNil)
    \<and> (\<forall>t c. o' = Some (t, c) \<longrightarrow> t = name \<and> c \<noteq> GNil \<and> view (TPtr T) c h' = Some r
         \<and> addrs (TPtr T) c h' \<inter> addrs (TPtr T) p h' = {})
    \<and> map fst (api_objects L) = concat (map (\<lambda>k. [k, k @ ''List''])
        [''Application'', ''Approval'', ''Cell'', ''Deployment'', ''DeploymentTarget'',
         ''Environment'', ''FreezeWindow'', ''HealthCheck'', ''Notifier'', ''Promotion'',
         ''PromotionPolicy'', ''Release'', ''Source'', ''SyncPlan'', ''SyncRun''])"
proof -
  obtain dc where dc: "copies_pointer T dc" "obj = deep_copy_object name dc"
    using DeepCopyObject_copies[OF assms(1,2)] by (auto simp: copies_object_def)
  obtain c where c: "dc p h = (c, h')" "o' = (if c \<noteq> GNil then Some (name, c) else None)"
    using assms(4) dc(2) by (auto simp: deep_copy_object_def split: prod.splits if_splits)
  have "map fst (api_objects L) = concat (map (\<lambda>k. [k, k @ ''List''])
        [''Application'', ''Approval'', ''Cell'', ''Deployment'', ''DeploymentTarget'',
         ''Environment'', ''FreezeWindow'', ''HealthCheck'', ''Notifier'', ''Promotion'',
         ''PromotionPolicy'', ''Release'', ''Source'', ''SyncPlan'', ''SyncRun''])"
    by (simp add: api_objects_def)
  with copies_pointer_apart[OF dc(1) assms(3) c(1)] c(2) show ?thesis by simp
qed

theorem deep_copy_objects_witness:
  "(let v = GStruct [(''TypeMeta'', GStruct [(''Kind'', GStr []), (''APIVersion'', GStr [])]),
        (''ListMeta'', GStruct [(''ResourceVersion'', GStr ''7'')]), (''Items'', GNil)]
    in CellList_DeepCopyObject example_v1 (GRef 0) [CVar v]
         = (Some (''CellList'', GRef 1), [CVar v, CVar v])
       \<and> addrs (TPtr (CellList_gtype example_v1)) (GRef 1) [CVar v, CVar v]
         \<inter> addrs (TPtr (CellList_gtype example_v1)) (GRef 0) [CVar v, CVar v] = {})"
proof -
  let ?v = "GStruct [(''TypeMeta'', GStruct [(''Kind'', GStr []), (''APIVersion'', GStr [])]),
        (''ListMeta'', GStruct [(''ResourceVersion'', GStr ''7'')]), (''Items'', GNil)]"
  have mem: "(''CellList'', CellList_gtype example_v1, CellList_DeepCopyObject example_v1)
      \<in> set (api_objects example_v1)"
    by (simp add: api_objects_def)
  have view: "view (TPtr (CellList_gtype example_v1)) (GRef 0) [CVar ?v]
      = Some (RPtr (RStruct [(''TypeMeta'', RStruct [(''Kind'', RStr []), (''APIVersion'', RStr [])]),
         (''ListMeta'', RStruct [(''ResourceVersion'', RStr ''7'')]), (''Items'', RNil)]))"
    by (simp add: load_def CellList_gtype_def example_v1_def)
  have run: "CellList_DeepCopyObject example_v1 (GRef 0) [CVar ?v]
      = (Some (''CellList'', GRef 1), [CVar ?v, CVar ?v])"
    by (simp add: example_run example_v1_def CellList_DeepCopyObject_def deep_copy_object_def
        CellList_DeepCopy_def CellList_DeepCopyInto_def assigned_def made_into_def)
  from deep_copy_objects[OF example_v1_ok mem view run] run show ?thesis by (simp add: Let_def)
qed

end
