(* ===== verification/Entry_Apiserver.thy ===== *)
theory Entry_Apiserver
  imports Fixtures Crd_Source Api_Server
begin

text \<open>
  The API server's process, \<^verbatim>\<open>cmd/apiserver/main.go\<close>: the choice of the read model, the
  probe handler, and the life of the process as a step relation, because \<^verbatim>\<open>main\<close> and the two
  \<^verbatim>\<open>serve\<close> goroutines interleave.

  What the operating system and \<^verbatim>\<open>net/http\<close> answer is in the steps: \<^verbatim>\<open>net.Listen\<close> and
  \<^verbatim>\<open>Shutdown\<close> succeed or fail at will; \<^verbatim>\<open>Serve\<close> returns only with an error, and with
  \<^verbatim>\<open>http.ErrServerClosed\<close> exactly when \<^verbatim>\<open>Shutdown\<close> was called on its server; the second
  signal ends the process with status 1, as \<^verbatim>\<open>ctrl.SetupSignalHandler\<close> documents.  The flags
  are an argument (parsing them ends the process itself on a malformed one), the time limit of
  the drain is one of the reasons for which \<^verbatim>\<open>Shutdown\<close> may fail, and the reason why it
  returns at all.  A call that can fail, the log line of its failure and \<^verbatim>\<open>os.Exit\<close> are three
  steps, so another goroutine may log, or \<^verbatim>\<open>main\<close> may return, between them; so are the arrival
  of the second signal and the exit it leads to.  Each step names the actor that takes it.
\<close>

section \<open>The read model\<close>

text \<open>\<^verbatim>\<open>ctrl.GetConfig\<close> and \<^verbatim>\<open>client.New\<close>; a client is seen as the cluster it reads.\<close>

record 'cfg cluster_lib =
  cl_GetConfig :: "(goerr, 'cfg) result"
  cl_New :: "'cfg \<Rightarrow> (goerr, Cluster) result"

definition newClusterClient :: "'cfg cluster_lib \<Rightarrow> (goerr, Cluster) result" where
  "newClusterClient lib =
     (case cl_GetConfig lib of
        Inl err \<Rightarrow> Inl (Wrapped ''load rest config'' err)
      | Inr cfg \<Rightarrow> cl_New lib cfg)"

definition buildReadModel ::
    "'cfg cluster_lib \<Rightarrow> kube_fns \<Rightarrow> time \<Rightarrow> Fixtures \<Rightarrow> string \<Rightarrow> (goerr, ReadModel) result" where
  "buildReadModel lib kf now corpus backend =
     (if backend = ''fixtures'' then Inr (fixtures_model corpus)
      else if backend = ''crd'' then
        (case newClusterClient lib of
           Inl err \<Rightarrow> Inl err
         | Inr c \<Rightarrow> Inr (crd_source kf c now))
      else Inl (Opaque (''unknown --read-model '' @ go_quote backend @ '': want fixtures or crd'')))"

section \<open>The probe handler\<close>

definition probe_ok :: http_handler where
  "probe_ok r wd =
     (False, Write (BodyText ''ok'')
       (WriteHeader 200 (SetHeader ''Content-Type'' ''text/plain; charset=utf-8'' wd)))"

definition probe_dispatch :: http_handler where
  "probe_dispatch r wd =
     (if Req_Segments r = [''healthz''] \<or> Req_Segments r = [''readyz'']
      then (if Req_Method r \<in> set (methods_of ''GET'') then probe_ok r wd
            else (False, http_Error ''Method Not Allowed'' 405
                    (SetHeader ''Allow'' (join '', '' (methods_of ''GET'')) wd)))
      else (False, http_Error ''404 page not found'' 404 wd))"

definition probeHandler :: "int \<Rightarrow> http_handler" where
  "probeHandler redirect = ServeMux redirect probe_dispatch"

section \<open>The process\<close>

datatype server_id = ProbeServer | ApiServer

datatype process_line = PError goerr string string | PInfo string

datatype serve_pc = AtListen | AtAnnounce | AtServe | AtFatal process_line | AtExit | ServeReturned

datatype main_pc = AwaitSignal | CallShutdown | AwaitShutdown | MainFatal process_line | MainExit
  | CallProbeShutdown | AwaitProbeShutdown | MainReturned

datatype actor = ActorOs | ActorMain | ActorServer server_id

record apiproc =
  ap_pc :: "server_id \<Rightarrow> serve_pc"
  ap_closed :: "server_id \<Rightarrow> bool"
  ap_announce :: "server_id \<Rightarrow> string"
  ap_handler :: "server_id \<Rightarrow> http_handler"
  ap_main :: main_pc
  ap_signals :: nat
  ap_log :: "process_line list"
  ap_exit :: "int option"

record api_flags =
  af_listenAddr :: string
  af_probeAddr :: string
  af_readModel :: string
  af_authRequired :: bool

definition api_flag_defaults :: api_flags where
  "api_flag_defaults = \<lparr>af_listenAddr = '':8443'', af_probeAddr = '':8081'',
     af_readModel = ''fixtures'', af_authRequired = False\<rparr>"

definition os_exit :: "int \<Rightarrow> apiproc \<Rightarrow> apiproc" where
  "os_exit code p = p\<lparr>ap_exit := Some code\<rparr>"

definition plog :: "process_line \<Rightarrow> apiproc \<Rightarrow> apiproc" where
  "plog l p = p\<lparr>ap_log := ap_log p @ [l]\<rparr>"

definition server_name :: "server_id \<Rightarrow> string" where
  "server_name s = (case s of ProbeServer \<Rightarrow> ''health probe server'' | ApiServer \<Rightarrow> ''api server'')"

text \<open>\<^verbatim>\<open>main\<close> up to the two \<^verbatim>\<open>go serve(...)\<close>.\<close>

definition apiserver_start ::
    "'cfg cluster_lib \<Rightarrow> kube_fns \<Rightarrow> time \<Rightarrow> Fixtures \<Rightarrow> Runtime \<Rightarrow> 8 word list option
     \<Rightarrow> api_flags \<Rightarrow> apiproc" where
  "apiserver_start lib kf now corpus rt rand_read fl =
     (let p = \<lparr>ap_pc = (\<lambda>_. AtListen), ap_closed = (\<lambda>_. False), ap_announce = (\<lambda>_. []),
               ap_handler = (\<lambda>_ r wd. (False, wd)), ap_main = AwaitSignal, ap_signals = 0,
               ap_log = [], ap_exit = None\<rparr>
      in case buildReadModel lib kf now corpus (af_readModel fl) of
           Inl err \<Rightarrow> os_exit 1 (plog (PError err ''unable to build read model'' (af_readModel fl)) p)
         | Inr rm \<Rightarrow>
             (let srv = NewServer rt rm \<lparr>Options_Auth = \<lparr>AuthConfig_Required = af_authRequired fl\<rparr>,
                          Options_Authz = Some AllowAll\<rparr>
              in p\<lparr>ap_handler := (\<lambda>s. case s of ProbeServer \<Rightarrow> probeHandler (rt_RedirectStatus rt)
                                     | ApiServer \<Rightarrow> Server_Handler srv rand_read),
                   ap_announce := (\<lambda>s. case s of ProbeServer \<Rightarrow> []
                      | ApiServer \<Rightarrow> ''listening on '' @ af_listenAddr fl @
                          '' (backend: '' @ af_readModel fl @ '')'')\<rparr>))"

text \<open>
  \<^verbatim>\<open>serve\<close>: the goroutine binds, announces if it has something to announce, and serves until
  \<^verbatim>\<open>Serve\<close> returns.  A failure takes it to \<^const>\<open>AtFatal\<close>, where it still has to log the
  line, and from there to \<^const>\<open>AtExit\<close>, where \<^verbatim>\<open>os.Exit(1)\<close> is what is left to do.
\<close>

definition ErrServerClosed :: goerr where
  "ErrServerClosed = Opaque ''http: Server closed''"

definition at_pc :: "server_id \<Rightarrow> serve_pc \<Rightarrow> apiproc \<Rightarrow> apiproc" where
  "at_pc s pc p = p\<lparr>ap_pc := (ap_pc p)(s := pc)\<rparr>"

definition serve_listen :: "server_id \<Rightarrow> goerr option \<Rightarrow> apiproc \<Rightarrow> apiproc" where
  "serve_listen s r p =
     (case r of
        Some err \<Rightarrow> at_pc s (AtFatal (PError err ''server failed to bind'' (server_name s))) p
      | None \<Rightarrow> at_pc s AtAnnounce p)"

definition serve_announce :: "server_id \<Rightarrow> apiproc \<Rightarrow> apiproc" where
  "serve_announce s p =
     at_pc s AtServe (if ap_announce p s \<noteq> [] then plog (PInfo (ap_announce p s)) p else p)"

definition serve_return :: "server_id \<Rightarrow> goerr \<Rightarrow> apiproc \<Rightarrow> apiproc" where
  "serve_return s err p =
     (if \<not> errors_is err ErrServerClosed
      then at_pc s (AtFatal (PError err ''server failed'' (server_name s))) p
      else at_pc s ServeReturned p)"

definition serve_fatal :: "server_id \<Rightarrow> process_line \<Rightarrow> apiproc \<Rightarrow> apiproc" where
  "serve_fatal s l p = at_pc s AtExit (plog l p)"

text \<open>\<^verbatim>\<open>main\<close> from \<^verbatim>\<open><-ctx.Done()\<close> on; returning from \<^verbatim>\<open>main\<close> is status 0.\<close>

definition main_resume :: "apiproc \<Rightarrow> apiproc" where
  "main_resume p = plog (PInfo ''shutting down'') (p\<lparr>ap_main := CallShutdown\<rparr>)"

definition close_server :: "server_id \<Rightarrow> main_pc \<Rightarrow> apiproc \<Rightarrow> apiproc" where
  "close_server s pc p = p\<lparr>ap_closed := (ap_closed p)(s := True), ap_main := pc\<rparr>"

definition main_after_shutdown :: "goerr option \<Rightarrow> apiproc \<Rightarrow> apiproc" where
  "main_after_shutdown r p =
     (case r of
        Some err \<Rightarrow> p\<lparr>ap_main := MainFatal (PError err ''graceful shutdown failed'' [])\<rparr>
      | None \<Rightarrow> p\<lparr>ap_main := CallProbeShutdown\<rparr>)"

definition main_fatal :: "process_line \<Rightarrow> apiproc \<Rightarrow> apiproc" where
  "main_fatal l p = (plog l p)\<lparr>ap_main := MainExit\<rparr>"

definition main_return :: "goerr option \<Rightarrow> apiproc \<Rightarrow> apiproc" where
  "main_return r p = os_exit 0 (p\<lparr>ap_main := MainReturned\<rparr>)"

text \<open>
  The interleavings, and what the environment may do.  Nothing follows \<^verbatim>\<open>os.Exit\<close>.  The
  handler of \<^verbatim>\<open>ctrl.SetupSignalHandler\<close> cancels the context on the first signal and exits with
  status 1 on the second.
\<close>

inductive api_step :: "actor \<Rightarrow> apiproc \<Rightarrow> apiproc \<Rightarrow> bool" where
  listen: "ap_exit p = None \<Longrightarrow> ap_pc p s = AtListen
    \<Longrightarrow> api_step (ActorServer s) p (serve_listen s r p)"
| announce: "ap_exit p = None \<Longrightarrow> ap_pc p s = AtAnnounce
    \<Longrightarrow> api_step (ActorServer s) p (serve_announce s p)"
| returns: "ap_exit p = None \<Longrightarrow> ap_pc p s = AtServe
    \<Longrightarrow> errors_is err ErrServerClosed \<longleftrightarrow> ap_closed p s
    \<Longrightarrow> api_step (ActorServer s) p (serve_return s err p)"
| fatal: "ap_exit p = None \<Longrightarrow> ap_pc p s = AtFatal l
    \<Longrightarrow> api_step (ActorServer s) p (serve_fatal s l p)"
| fatal_exit: "ap_exit p = None \<Longrightarrow> ap_pc p s = AtExit
    \<Longrightarrow> api_step (ActorServer s) p (os_exit 1 p)"
| signal: "ap_exit p = None \<Longrightarrow> ap_signals p = 0 \<Longrightarrow> api_step ActorOs p (p\<lparr>ap_signals := 1\<rparr>)"
| signal_again: "ap_exit p = None \<Longrightarrow> ap_signals p = 1
    \<Longrightarrow> api_step ActorOs p (p\<lparr>ap_signals := 2\<rparr>)"
| signal_exit: "ap_exit p = None \<Longrightarrow> ap_signals p = 2 \<Longrightarrow> api_step ActorOs p (os_exit 1 p)"
| resume: "ap_exit p = None \<Longrightarrow> ap_main p = AwaitSignal \<Longrightarrow> ap_signals p > 0
    \<Longrightarrow> api_step ActorMain p (main_resume p)"
| shutdown: "ap_exit p = None \<Longrightarrow> ap_main p = CallShutdown
    \<Longrightarrow> api_step ActorMain p (close_server ApiServer AwaitShutdown p)"
| drained: "ap_exit p = None \<Longrightarrow> ap_main p = AwaitShutdown
    \<Longrightarrow> api_step ActorMain p (main_after_shutdown r p)"
| main_fatal: "ap_exit p = None \<Longrightarrow> ap_main p = MainFatal l
    \<Longrightarrow> api_step ActorMain p (main_fatal l p)"
| main_exit: "ap_exit p = None \<Longrightarrow> ap_main p = MainExit \<Longrightarrow> api_step ActorMain p (os_exit 1 p)"
| probe_shutdown: "ap_exit p = None \<Longrightarrow> ap_main p = CallProbeShutdown
    \<Longrightarrow> api_step ActorMain p (close_server ProbeServer AwaitProbeShutdown p)"
| probe_drained: "ap_exit p = None \<Longrightarrow> ap_main p = AwaitProbeShutdown
    \<Longrightarrow> api_step ActorMain p (main_return r p)"

inductive_cases api_stepE: "api_step a p p'"

text \<open>A run, with the actors of its steps in their order.\<close>

inductive api_run :: "apiproc \<Rightarrow> actor list \<Rightarrow> apiproc \<Rightarrow> bool" where
  start: "api_run p [] p"
| continue: "api_run p as q \<Longrightarrow> api_step a q r \<Longrightarrow> api_run p (as @ [a]) r"

lemmas proc_defs = serve_listen_def serve_announce_def serve_return_def serve_fatal_def
  main_resume_def close_server_def main_after_shutdown_def main_fatal_def main_return_def
  os_exit_def plog_def at_pc_def

section \<open>The invariant of the process\<close>

definition has_error :: "apiproc \<Rightarrow> bool" where
  "has_error p \<longleftrightarrow> (\<exists>e m x. PError e m x \<in> set (ap_log p))"

definition announced :: "apiproc \<Rightarrow> bool" where
  "announced p \<longleftrightarrow> (\<exists>x. PInfo (''listening on '' @ x) \<in> set (ap_log p))"

definition exit_pending :: "apiproc \<Rightarrow> bool" where
  "exit_pending p \<longleftrightarrow> ap_main p = MainExit \<or> (\<exists>s. ap_pc p s = AtExit)"

definition servers_inv :: "apiproc \<Rightarrow> bool" where
  "servers_inv p \<longleftrightarrow>
     (\<forall>s. ap_pc p s = ServeReturned \<longrightarrow> ap_closed p s)
   \<and> (\<forall>s l. ap_pc p s = AtFatal l \<longrightarrow> (\<exists>e m x. l = PError e m x))
   \<and> (announced p \<longrightarrow> ap_pc p ApiServer \<notin> {AtListen, AtAnnounce})
   \<and> ap_announce p ProbeServer = []"

definition main_inv :: "apiproc \<Rightarrow> bool" where
  "main_inv p \<longleftrightarrow>
     (ap_main p \<noteq> AwaitSignal \<longrightarrow> ap_signals p > 0)
   \<and> (\<forall>l. ap_main p = MainFatal l \<longrightarrow> (\<exists>e m x. l = PError e m x))
   \<and> (ap_closed p ApiServer \<longleftrightarrow> ap_main p \<notin> {AwaitSignal, CallShutdown})
   \<and> (ap_closed p ProbeServer \<longleftrightarrow> ap_main p \<in> {AwaitProbeShutdown, MainReturned})"

text \<open>An error line and a pending exit go together; who has exited had a reason.\<close>

definition exit_inv :: "apiproc \<Rightarrow> bool" where
  "exit_inv p \<longleftrightarrow> ap_signals p \<le> 2
   \<and> (case ap_exit p of
        None \<Rightarrow> (has_error p \<longleftrightarrow> exit_pending p) \<and> ap_main p \<noteq> MainReturned
      | Some c \<Rightarrow>
          (c = 0 \<and> ap_main p = MainReturned \<and> (has_error p \<longleftrightarrow> (\<exists>s. ap_pc p s = AtExit)))
        \<or> (c = 1 \<and> (has_error p \<or> ap_signals p = 2)))"

lemma log_simps [simp]:
  "has_error (p\<lparr>ap_log := ls @ [PError e m x]\<rparr>)"
  "has_error (p\<lparr>ap_log := ap_log q @ [PInfo m]\<rparr>) \<longleftrightarrow> has_error q"
  "announced (p\<lparr>ap_log := ap_log q @ [PError e m x]\<rparr>) \<longleftrightarrow> announced q"
  "announced (p\<lparr>ap_log := ap_log q @ [PInfo ''shutting down'']\<rparr>) \<longleftrightarrow> announced q"
  by (auto simp: has_error_def announced_def)

lemma log_update [simp]:
  "has_error (p\<lparr>ap_pc := f\<rparr>) = has_error p" "has_error (p\<lparr>ap_main := m\<rparr>) = has_error p"
  "has_error (p\<lparr>ap_closed := g\<rparr>) = has_error p" "has_error (p\<lparr>ap_signals := n\<rparr>) = has_error p"
  "has_error (p\<lparr>ap_exit := c\<rparr>) = has_error p"
  "announced (p\<lparr>ap_pc := f\<rparr>) = announced p" "announced (p\<lparr>ap_main := m\<rparr>) = announced p"
  "announced (p\<lparr>ap_closed := g\<rparr>) = announced p" "announced (p\<lparr>ap_signals := n\<rparr>) = announced p"
  "announced (p\<lparr>ap_exit := c\<rparr>) = announced p"
  by (simp_all add: has_error_def announced_def)

lemma at_exit_update:
  "f s \<noteq> AtExit \<Longrightarrow> (\<exists>t. (f(s := c)) t = AtExit) \<longleftrightarrow> c = AtExit \<or> (\<exists>t. f t = AtExit)"
  by (metis fun_upd_apply)

lemma servers_inv_step: "api_step a p p' \<Longrightarrow> main_inv p \<Longrightarrow> servers_inv p \<Longrightarrow> servers_inv p'"
proof (induction rule: api_step.induct)
  case (announce p s)
  then show ?case by (cases s) (auto simp: servers_inv_def serve_announce_def at_pc_def plog_def announced_def)
next
  case (fatal p s l)
  then obtain e m x where "l = PError e m x" unfolding servers_inv_def by blast
  then show ?case using fatal by (auto simp: servers_inv_def proc_defs)
qed (auto simp: servers_inv_def main_inv_def proc_defs split: option.splits)

lemma main_inv_step: "api_step a p p' \<Longrightarrow> main_inv p \<Longrightarrow> main_inv p'"
  by (induction rule: api_step.induct) (auto simp: main_inv_def proc_defs split: option.splits)

lemma exit_inv_step:
  "api_step a p p' \<Longrightarrow> main_inv p \<Longrightarrow> servers_inv p \<Longrightarrow> exit_inv p \<Longrightarrow> exit_inv p'"
proof (induction rule: api_step.induct)
  case (fatal p s l)
  then obtain e m x where "l = PError e m x" unfolding servers_inv_def by blast
  then show ?case
    using fatal by (auto simp: exit_inv_def exit_pending_def proc_defs at_exit_update simp del: fun_upd_apply)
next
  case (main_fatal p l)
  then obtain e m x where "l = PError e m x" unfolding main_inv_def by blast
  then show ?case using main_fatal by (auto simp: exit_inv_def exit_pending_def proc_defs)
qed (auto simp: exit_inv_def exit_pending_def proc_defs at_exit_update simp del: fun_upd_apply
    split: option.splits if_splits)

lemma api_run_inv:
  assumes "api_run p as p'" "main_inv p" "servers_inv p" "exit_inv p"
  shows "main_inv p' \<and> servers_inv p' \<and> exit_inv p'"
  using assms
  by (induction rule: api_run.induct) (auto intro: servers_inv_step main_inv_step exit_inv_step)

lemma apiserver_start_inv:
  assumes "p = apiserver_start lib kf now corpus rt rand_read fl"
  shows "main_inv p" "servers_inv p" "exit_inv p"
  unfolding assms
  by (auto simp: apiserver_start_def Let_def main_inv_def servers_inv_def exit_inv_def
      exit_pending_def has_error_def announced_def os_exit_def plog_def split: sum.splits)

section \<open>What each actor has left to do\<close>

definition serve_rank :: "serve_pc \<Rightarrow> nat" where
  "serve_rank c = (case c of AtListen \<Rightarrow> 5 | AtAnnounce \<Rightarrow> 4 | AtServe \<Rightarrow> 3 | AtFatal _ \<Rightarrow> 2
     | AtExit \<Rightarrow> 1 | ServeReturned \<Rightarrow> 0)"

definition main_rank :: "main_pc \<Rightarrow> nat" where
  "main_rank c = (case c of AwaitSignal \<Rightarrow> 5 | CallShutdown \<Rightarrow> 4 | AwaitShutdown \<Rightarrow> 3
     | MainFatal _ \<Rightarrow> 2 | MainExit \<Rightarrow> 1
     | CallProbeShutdown \<Rightarrow> 2 | AwaitProbeShutdown \<Rightarrow> 1 | MainReturned \<Rightarrow> 0)"

text \<open>The steps an actor can still take; an exited process has none, so its last one counts.\<close>

definition left_of :: "actor \<Rightarrow> apiproc \<Rightarrow> nat" where
  "left_of a p = (if ap_exit p \<noteq> None then 0 else
     case a of ActorOs \<Rightarrow> 3 - ap_signals p | ActorMain \<Rightarrow> main_rank (ap_main p)
     | ActorServer s \<Rightarrow> serve_rank (ap_pc p s))"

lemma left_of_step:
  "api_step a p p' \<Longrightarrow> left_of a p' < left_of a p"
  "api_step a p p' \<Longrightarrow> b \<noteq> a \<Longrightarrow> left_of b p' \<le> left_of b p"
  by (induction rule: api_step.induct; cases b;
      simp add: left_of_def proc_defs serve_rank_def main_rank_def split: option.splits)+

lemma left_of_run: "api_run p as p' \<Longrightarrow> count_list as a + left_of a p' \<le> left_of a p"
proof (induction rule: api_run.induct)
  case (continue p as q b r)
  then show ?case
    using left_of_step(1)[of b q r] left_of_step(2)[of b q r a] by (cases "a = b") auto
qed simp

lemma left_of_start: "left_of a (apiserver_start lib kf now corpus rt rand_read fl) \<le>
    (case a of ActorOs \<Rightarrow> 3 | _ \<Rightarrow> 5)"
  by (auto simp: apiserver_start_def Let_def left_of_def os_exit_def plog_def serve_rank_def
      main_rank_def split: sum.splits actor.splits)

lemma exited_no_step: "ap_exit p \<noteq> None \<Longrightarrow> \<not> api_step a p p'"
  by (auto elim: api_stepE)

lemma main_can_step:
  assumes "ap_exit p = None" "0 < ap_signals p" "ap_main p \<noteq> MainReturned"
  shows "\<exists>p'. api_step ActorMain p p'"
  using assms by (cases "ap_main p") (blast intro: api_step.intros)+

lemma failed_server_can_step:
  assumes "ap_exit p = None" "ap_pc p s = AtExit \<or> ap_pc p s = AtFatal l"
  shows "\<exists>p'. api_step (ActorServer s) p p'"
  using assms by (blast intro: api_step.intros)

section \<open>Two runs\<close>

text \<open>A start that got its read model, with both sockets still to be bound.\<close>

definition ready_to_serve :: "apiproc \<Rightarrow> bool" where
  "ready_to_serve p \<longleftrightarrow> ap_exit p = None \<and> (\<forall>s. ap_pc p s = AtListen) \<and> (\<forall>s. \<not> ap_closed p s)
     \<and> ap_main p = AwaitSignal \<and> ap_signals p = 0 \<and> ap_log p = [] \<and> ap_announce p ApiServer \<noteq> []"

lemma start_ready:
  "af_readModel fl = ''fixtures''
     \<Longrightarrow> ready_to_serve (apiserver_start lib kf now corpus rt rand_read fl)"
  by (simp add: ready_to_serve_def apiserver_start_def buildReadModel_def Let_def)

text \<open>A bind, a signal and an orderly shutdown.\<close>

lemma run_rev:
  "api_run p (rev []) p"
  "api_run p (rev as) q \<Longrightarrow> api_step a q r \<Longrightarrow> api_run p (rev (a # as)) r"
  by (auto intro: api_run.intros)


text \<open>
  A signal that comes before the goroutine has run: the socket is bound and the listening
  line logged although the server is already shut down and will not accept.
\<close>

lemma listening_line_after_shutdown:
  assumes "ready_to_serve p"
  shows "\<exists>as p'. api_run p as p' \<and> ap_closed p' ApiServer
    \<and> ap_log p' = [PInfo ''shutting down'', PInfo (ap_announce p ApiServer)]"
proof -
  note r = assms[unfolded ready_to_serve_def]
  let ?p1 = "p\<lparr>ap_signals := 1\<rparr>"
  let ?p2 = "main_resume ?p1"
  let ?p3 = "close_server ApiServer AwaitShutdown ?p2"
  let ?p4 = "serve_listen ApiServer None ?p3"
  let ?p5 = "serve_announce ApiServer ?p4"
  have "api_step ActorOs p ?p1" using r by (intro signal) simp_all
  moreover have "api_step ActorMain ?p1 ?p2" using r by (intro resume) (simp_all add: proc_defs)
  moreover have "api_step ActorMain ?p2 ?p3" using r by (intro shutdown) (simp_all add: proc_defs)
  moreover have "api_step (ActorServer ApiServer) ?p3 ?p4"
    using r by (intro listen) (simp_all add: proc_defs)
  moreover have "api_step (ActorServer ApiServer) ?p4 ?p5"
    using r by (intro announce) (simp_all add: proc_defs)
  ultimately have "api_run p (rev [ActorServer ApiServer, ActorServer ApiServer, ActorMain,
      ActorMain, ActorOs]) ?p5"
    by - (rule run_rev | assumption)+
  moreover have "ap_closed ?p5 ApiServer
      \<and> ap_log ?p5 = [PInfo ''shutting down'', PInfo (ap_announce p ApiServer)]"
    using r by (simp add: proc_defs)
  ultimately show ?thesis by blast
qed

definition sample_start :: apiproc where
  "sample_start = apiserver_start
     \<lparr>cl_GetConfig = Inl (Opaque ''no configuration''), cl_New = (\<lambda>_ :: unit. Inr sample_cluster)\<rparr>
     sample_fns 0 sample_trail sample_runtime None api_flag_defaults"


lemma sample_signalled: "\<exists>p. api_run sample_start [ActorOs] p \<and> ap_exit p = None \<and> 0 < ap_signals p"
proof -
  have r: "ready_to_serve sample_start"
    unfolding sample_start_def by (intro start_ready) (simp add: api_flag_defaults_def)
  then have "api_step ActorOs sample_start (sample_start\<lparr>ap_signals := 1\<rparr>)"
    by (intro signal) (simp_all add: ready_to_serve_def)
  from api_run.continue[OF api_run.start this] r show ?thesis
    by (intro exI[of _ "sample_start\<lparr>ap_signals := 1\<rparr>"]) (simp add: ready_to_serve_def)
qed

section \<open>The properties\<close>

text \<open>Whatever backend the process serves meets the contract of the read-model port: the
  flag selects the fixtures or the cluster adapter and nothing else, both satisfy the
  contract, and a cluster that cannot be reached gives the client's error and no server.\<close>

theorem backends_meet_the_port:
  "(case buildReadModel lib kf now corpus backend of
      Inr rm \<Rightarrow> read_model rm
        \<and> (rm = fixtures_model corpus \<and> backend = ''fixtures''
           \<or> (\<exists>c. newClusterClient lib = Inr c \<and> rm = crd_source kf c now) \<and> backend = ''crd'')
    | Inl err \<Rightarrow> backend \<noteq> ''fixtures''
        \<and> (if backend = ''crd'' then newClusterClient lib = Inl err
           else err = Opaque (''unknown --read-model '' @ go_quote backend @ '': want fixtures or crd'')))"
proof (cases "backend = ''fixtures''")
  case True
  then show ?thesis by (simp add: buildReadModel_def fx.read_model_axioms)
next
  case False
  then show ?thesis
    by (cases "newClusterClient lib") (simp_all add: buildReadModel_def crd.read_model_axioms)
qed



text \<open>C24: A signal takes the process down, whatever it interrupts.  In every state that the
  process can reach, once the first signal has come and as long as the process lives, \<^verbatim>\<open>main\<close>
  itself has a step to take, with no further signal and no help from the servers; a server
  goroutine that has failed has one too; an exited process takes none.  And no run holds more
  than five steps of \<^verbatim>\<open>main\<close>, five of each server, and three of the signal handler.  So a run
  in which \<^verbatim>\<open>main\<close> is scheduled until it cannot go on has exited after at most five of its
  steps.  That \<^verbatim>\<open>Shutdown\<close> returns, with an error or without one, is what its deadline is
  for, and is assumed.\<close>

theorem apiserver_runs_end:
  assumes "api_run (apiserver_start lib kf now corpus rt rand_read fl) as p"
  shows "(ap_exit p = None \<and> 0 < ap_signals p \<longrightarrow> (\<exists>p'. api_step ActorMain p p'))
    \<and> (\<forall>s l. ap_exit p = None \<and> ap_pc p s \<in> {AtFatal l, AtExit}
          \<longrightarrow> (\<exists>p'. api_step (ActorServer s) p p'))
    \<and> (ap_exit p \<noteq> None \<longrightarrow> (\<forall>a p'. \<not> api_step a p p'))
    \<and> count_list as ActorMain \<le> 5 \<and> (\<forall>s. count_list as (ActorServer s) \<le> 5)
    \<and> count_list as ActorOs \<le> 3"
proof -
  from api_run_inv[OF assms apiserver_start_inv[OF refl]] have "exit_inv p" by blast
  then have "ap_exit p = None \<Longrightarrow> ap_main p \<noteq> MainReturned" by (simp add: exit_inv_def)
  moreover have "count_list as a \<le> (case a of ActorOs \<Rightarrow> 3 | _ \<Rightarrow> 5)" for a
    using left_of_run[OF assms, of a] left_of_start[of a lib kf now corpus rt rand_read fl]
    by linarith
  from this[of ActorMain] this[of ActorOs] this[of "ActorServer s" for s]
  have "count_list as ActorMain \<le> 5" "count_list as ActorOs \<le> 3"
    "count_list as (ActorServer s) \<le> 5" for s by simp_all
  ultimately show ?thesis
    using main_can_step[of p] failed_server_can_step[of p] exited_no_step[of p] by auto
qed

theorem apiserver_runs_end_witness:
  "\<exists>p. api_run sample_start [ActorOs] p \<and> (\<exists>p'. api_step ActorMain p p')"
proof -
  obtain p where p: "api_run sample_start [ActorOs] p" "ap_exit p = None" "0 < ap_signals p"
    using sample_signalled by blast
  with apiserver_runs_end[OF p(1)[unfolded sample_start_def]] show ?thesis by blast
qed

end
