(* ===== verification/Entry_Manager.thy ===== *)
theory Entry_Manager
  imports Observability Deep_Copies Cli_Kinds
begin

text \<open>
  The controller manager's process, \<^verbatim>\<open>cmd/manager/main.go\<close>, with what it is put together
  from: the registration of the API types (\<^verbatim>\<open>api/v1alpha1/groupversion_info.go\<close> and the
  \<^verbatim>\<open>init\<close> functions of the \<^verbatim>\<open>*_types.go\<close> files) and the fifteen
  \<^verbatim>\<open>SetupWithManager\<close> methods of \<^verbatim>\<open>internal/controller\<close>.

  \<^verbatim>\<open>controller-runtime\<close> and \<^verbatim>\<open>apimachinery\<close> are library code.  A manager is known by the
  calls that were made on it: the library is the function \<open>answer\<close> from the calls so far and
  the next call to the error that call returns, if any.  A scheme is a parameter with the
  types it knows; \<open>scheme_lawful\<close> is what the library documents of registering types.
  Parsing the command line and \<^verbatim>\<open>ctrl.GetConfigOrDie\<close> end the process themselves when they
  fail, so the parsed flags are an argument and a configuration is there; the logger's set-up
  is left out.
\<close>

section \<open>The scheme\<close>

type_synonym GroupVersion = "string \<times> string"

definition api_GroupVersion :: GroupVersion where
  "api_GroupVersion = (''keleustes.skaphos.io'', ''v1alpha1'')"

type_synonym 's scheme_fn = "'s \<Rightarrow> goerr option \<times> 's"

record 's builder =
  builder_groupVersion :: GroupVersion
  builder_SchemeBuilder :: "'s scheme_fn list"

record 's scheme_lib =
  lib_NewScheme :: 's
  lib_AddKnownTypes :: "GroupVersion \<Rightarrow> string list \<Rightarrow> 's \<Rightarrow> 's"
  lib_AddToGroupVersion :: "GroupVersion \<Rightarrow> 's \<Rightarrow> 's"
  lib_AddToScheme :: "'s scheme_fn list \<Rightarrow> 's scheme_fn"
  lib_clientgo_AddToScheme :: "'s scheme_fn"
  lib_known :: "'s \<Rightarrow> (GroupVersion \<times> string) set"
  lib_metaTypes :: "GroupVersion \<Rightarrow> (GroupVersion \<times> string) set"
  lib_clientgoTypes :: "(GroupVersion \<times> string) set"

definition builder_Register :: "'s scheme_lib \<Rightarrow> string list \<Rightarrow> 's builder \<Rightarrow> 's builder" where
  "builder_Register lib objects b =
     b\<lparr>builder_SchemeBuilder := builder_SchemeBuilder b @
        [\<lambda>s. (None, lib_AddToGroupVersion lib (builder_groupVersion b)
                       (lib_AddKnownTypes lib (builder_groupVersion b) objects s))]\<rparr>"

definition SchemeBuilder :: "'s builder" where
  "SchemeBuilder = \<lparr>builder_groupVersion = api_GroupVersion, builder_SchemeBuilder = []\<rparr>"

text \<open>The \<^verbatim>\<open>init\<close> functions, in the order of the files.\<close>

definition init_Application :: "'s scheme_lib \<Rightarrow> 's builder \<Rightarrow> 's builder" where
  "init_Application lib = builder_Register lib [''Application'', ''ApplicationList'']"

definition init_Approval :: "'s scheme_lib \<Rightarrow> 's builder \<Rightarrow> 's builder" where
  "init_Approval lib = builder_Register lib [''Approval'', ''ApprovalList'']"

definition init_Cell :: "'s scheme_lib \<Rightarrow> 's builder \<Rightarrow> 's builder" where
  "init_Cell lib = builder_Register lib [''Cell'', ''CellList'']"

definition init_Deployment :: "'s scheme_lib \<Rightarrow> 's builder \<Rightarrow> 's builder" where
  "init_Deployment lib = builder_Register lib [''Deployment'', ''DeploymentList'']"

definition init_DeploymentTarget :: "'s scheme_lib \<Rightarrow> 's builder \<Rightarrow> 's builder" where
  "init_DeploymentTarget lib = builder_Register lib [''DeploymentTarget'', ''DeploymentTargetList'']"

definition init_Environment :: "'s scheme_lib \<Rightarrow> 's builder \<Rightarrow> 's builder" where
  "init_Environment lib = builder_Register lib [''Environment'', ''EnvironmentList'']"

definition init_FreezeWindow :: "'s scheme_lib \<Rightarrow> 's builder \<Rightarrow> 's builder" where
  "init_FreezeWindow lib = builder_Register lib [''FreezeWindow'', ''FreezeWindowList'']"

definition init_HealthCheck :: "'s scheme_lib \<Rightarrow> 's builder \<Rightarrow> 's builder" where
  "init_HealthCheck lib = builder_Register lib [''HealthCheck'', ''HealthCheckList'']"

definition init_Notifier :: "'s scheme_lib \<Rightarrow> 's builder \<Rightarrow> 's builder" where
  "init_Notifier lib = builder_Register lib [''Notifier'', ''NotifierList'']"

definition init_Promotion :: "'s scheme_lib \<Rightarrow> 's builder \<Rightarrow> 's builder" where
  "init_Promotion lib = builder_Register lib [''Promotion'', ''PromotionList'']"

definition init_PromotionPolicy :: "'s scheme_lib \<Rightarrow> 's builder \<Rightarrow> 's builder" where
  "init_PromotionPolicy lib = builder_Register lib [''PromotionPolicy'', ''PromotionPolicyList'']"

definition init_Release :: "'s scheme_lib \<Rightarrow> 's builder \<Rightarrow> 's builder" where
  "init_Release lib = builder_Register lib [''Release'', ''ReleaseList'']"

definition init_Source :: "'s scheme_lib \<Rightarrow> 's builder \<Rightarrow> 's builder" where
  "init_Source lib = builder_Register lib [''Source'', ''SourceList'']"

definition init_SyncPlan :: "'s scheme_lib \<Rightarrow> 's builder \<Rightarrow> 's builder" where
  "init_SyncPlan lib = builder_Register lib [''SyncPlan'', ''SyncPlanList'']"

definition init_SyncRun :: "'s scheme_lib \<Rightarrow> 's builder \<Rightarrow> 's builder" where
  "init_SyncRun lib = builder_Register lib [''SyncRun'', ''SyncRunList'']"

definition SchemeBuilder_registered :: "'s scheme_lib \<Rightarrow> 's builder" where
  "SchemeBuilder_registered lib = fold (\<lambda>f b. f b)
     [init_Application lib,
      init_Approval lib,
      init_Cell lib,
      init_Deployment lib,
      init_DeploymentTarget lib,
      init_Environment lib,
      init_FreezeWindow lib,
      init_HealthCheck lib,
      init_Notifier lib,
      init_Promotion lib,
      init_PromotionPolicy lib,
      init_Release lib,
      init_Source lib,
      init_SyncPlan lib,
      init_SyncRun lib]
     SchemeBuilder"

definition AddToScheme :: "'s scheme_lib \<Rightarrow> 's scheme_fn" where
  "AddToScheme lib = lib_AddToScheme lib (builder_SchemeBuilder (SchemeBuilder_registered lib))"

text \<open>\<^verbatim>\<open>utilruntime.Must\<close> panics on an error, which ends the process: \<^const>\<open>None\<close>.\<close>

definition Must :: "goerr option \<times> 's \<Rightarrow> 's option" where
  "Must r = (case fst r of None \<Rightarrow> Some (snd r) | Some _ \<Rightarrow> None)"

definition manager_scheme :: "'s scheme_lib \<Rightarrow> 's option" where
  "manager_scheme lib =
     (case Must (lib_clientgo_AddToScheme lib (lib_NewScheme lib)) of
        None \<Rightarrow> None
      | Some s \<Rightarrow> Must (AddToScheme lib s))"

text \<open>
  A new scheme knows nothing; registering adds exactly the types named, and for a group and
  version the library's own types of it (\<^verbatim>\<open>WatchEvent\<close>, \<^verbatim>\<open>ListOptions\<close> and so on); the functions
  of a scheme builder run in order until one fails; the built-in types of Kubernetes do register.
\<close>

definition scheme_lawful :: "'s scheme_lib \<Rightarrow> bool" where
  "scheme_lawful lib \<longleftrightarrow>
     lib_known lib (lib_NewScheme lib) = {}
   \<and> (\<forall>gv ks s. lib_known lib (lib_AddKnownTypes lib gv ks s) = lib_known lib s \<union> {gv} \<times> set ks)
   \<and> (\<forall>gv s. lib_known lib (lib_AddToGroupVersion lib gv s) = lib_known lib s \<union> lib_metaTypes lib gv)
   \<and> (\<forall>s. lib_AddToScheme lib [] s = (None, s))
   \<and> (\<forall>f fs s. lib_AddToScheme lib (f # fs) s =
        (case f s of (Some e, s') \<Rightarrow> (Some e, s') | (None, s') \<Rightarrow> lib_AddToScheme lib fs s'))
   \<and> (\<forall>s. fst (lib_clientgo_AddToScheme lib s) = None)
   \<and> (\<forall>s. lib_known lib (snd (lib_clientgo_AddToScheme lib s)) = lib_known lib s \<union> lib_clientgoTypes lib)"

section \<open>Controllers\<close>

record ctrl_builder =
  ctrl_For :: string
  ctrl_Named :: string

definition NewControllerManagedBy :: ctrl_builder where
  "NewControllerManagedBy = \<lparr>ctrl_For = [], ctrl_Named = []\<rparr>"

definition For :: "string \<Rightarrow> ctrl_builder \<Rightarrow> ctrl_builder" where
  "For kind b = b\<lparr>ctrl_For := kind\<rparr>"

definition Named :: "string \<Rightarrow> ctrl_builder \<Rightarrow> ctrl_builder" where
  "Named n b = b\<lparr>ctrl_Named := n\<rparr>"

record 's ManagerOptions =
  mo_Scheme :: 's
  mo_MetricsBindAddress :: string
  mo_HealthProbeBindAddress :: string
  mo_LeaderElection :: bool
  mo_LeaderElectionID :: string

datatype 's mgr_call =
    NewManager "'s ManagerOptions"
  | Complete ctrl_builder string
  | AddHealthzCheck string
  | AddReadyzCheck string
  | Start

type_synonym 's manager = "'s mgr_call list"
type_synonym 's answer = "'s manager \<Rightarrow> 's mgr_call \<Rightarrow> goerr option"
type_synonym 's mgr_op = "'s manager \<Rightarrow> goerr option \<times> 's manager"

definition mgr_do :: "'s answer \<Rightarrow> 's mgr_call \<Rightarrow> 's mgr_op" where
  "mgr_do ans c mgr = (ans mgr c, mgr @ [c])"

definition ApplicationReconciler_SetupWithManager :: "'s answer \<Rightarrow> 's mgr_op" where
  "ApplicationReconciler_SetupWithManager ans =
     mgr_do ans (Complete (Named ''application'' (For ''Application'' NewControllerManagedBy)) ''ApplicationReconciler'')"

definition SourceReconciler_SetupWithManager :: "'s answer \<Rightarrow> 's mgr_op" where
  "SourceReconciler_SetupWithManager ans =
     mgr_do ans (Complete (Named ''source'' (For ''Source'' NewControllerManagedBy)) ''SourceReconciler'')"

definition ReleaseReconciler_SetupWithManager :: "'s answer \<Rightarrow> 's mgr_op" where
  "ReleaseReconciler_SetupWithManager ans =
     mgr_do ans (Complete (Named ''release'' (For ''Release'' NewControllerManagedBy)) ''ReleaseReconciler'')"

definition EnvironmentReconciler_SetupWithManager :: "'s answer \<Rightarrow> 's mgr_op" where
  "EnvironmentReconciler_SetupWithManager ans =
     mgr_do ans (Complete (Named ''environment'' (For ''Environment'' NewControllerManagedBy)) ''EnvironmentReconciler'')"

definition CellReconciler_SetupWithManager :: "'s answer \<Rightarrow> 's mgr_op" where
  "CellReconciler_SetupWithManager ans =
     mgr_do ans (Complete (Named ''cell'' (For ''Cell'' NewControllerManagedBy)) ''CellReconciler'')"

definition DeploymentTargetReconciler_SetupWithManager :: "'s answer \<Rightarrow> 's mgr_op" where
  "DeploymentTargetReconciler_SetupWithManager ans =
     mgr_do ans (Complete (Named ''deploymenttarget'' (For ''DeploymentTarget'' NewControllerManagedBy)) ''DeploymentTargetReconciler'')"

definition DeploymentReconciler_SetupWithManager :: "'s answer \<Rightarrow> 's mgr_op" where
  "DeploymentReconciler_SetupWithManager ans =
     mgr_do ans (Complete (Named ''deployment'' (For ''Deployment'' NewControllerManagedBy)) ''DeploymentReconciler'')"

definition PromotionReconciler_SetupWithManager :: "'s answer \<Rightarrow> 's mgr_op" where
  "PromotionReconciler_SetupWithManager ans =
     mgr_do ans (Complete (Named ''promotion'' (For ''Promotion'' NewControllerManagedBy)) ''PromotionReconciler'')"

definition PromotionPolicyReconciler_SetupWithManager :: "'s answer \<Rightarrow> 's mgr_op" where
  "PromotionPolicyReconciler_SetupWithManager ans =
     mgr_do ans (Complete (Named ''promotionpolicy'' (For ''PromotionPolicy'' NewControllerManagedBy)) ''PromotionPolicyReconciler'')"

definition ApprovalReconciler_SetupWithManager :: "'s answer \<Rightarrow> 's mgr_op" where
  "ApprovalReconciler_SetupWithManager ans =
     mgr_do ans (Complete (Named ''approval'' (For ''Approval'' NewControllerManagedBy)) ''ApprovalReconciler'')"

definition FreezeWindowReconciler_SetupWithManager :: "'s answer \<Rightarrow> 's mgr_op" where
  "FreezeWindowReconciler_SetupWithManager ans =
     mgr_do ans (Complete (Named ''freezewindow'' (For ''FreezeWindow'' NewControllerManagedBy)) ''FreezeWindowReconciler'')"

definition SyncPlanReconciler_SetupWithManager :: "'s answer \<Rightarrow> 's mgr_op" where
  "SyncPlanReconciler_SetupWithManager ans =
     mgr_do ans (Complete (Named ''syncplan'' (For ''SyncPlan'' NewControllerManagedBy)) ''SyncPlanReconciler'')"

definition SyncRunReconciler_SetupWithManager :: "'s answer \<Rightarrow> 's mgr_op" where
  "SyncRunReconciler_SetupWithManager ans =
     mgr_do ans (Complete (Named ''syncrun'' (For ''SyncRun'' NewControllerManagedBy)) ''SyncRunReconciler'')"

definition HealthCheckReconciler_SetupWithManager :: "'s answer \<Rightarrow> 's mgr_op" where
  "HealthCheckReconciler_SetupWithManager ans =
     mgr_do ans (Complete (Named ''healthcheck'' (For ''HealthCheck'' NewControllerManagedBy)) ''HealthCheckReconciler'')"

definition NotifierReconciler_SetupWithManager :: "'s answer \<Rightarrow> 's mgr_op" where
  "NotifierReconciler_SetupWithManager ans =
     mgr_do ans (Complete (Named ''notifier'' (For ''Notifier'' NewControllerManagedBy)) ''NotifierReconciler'')"

section \<open>The process\<close>

datatype setup_line = SetupError goerr string "(string \<times> string) list" | SetupInfo string

record manager_flags =
  mf_metricsAddr :: string
  mf_probeAddr :: string
  mf_enableLeaderElection :: bool

definition manager_flag_defaults :: manager_flags where
  "manager_flag_defaults =
     \<lparr>mf_metricsAddr = '':8080'', mf_probeAddr = '':8081'', mf_enableLeaderElection = False\<rparr>"

record ('f, 's) boot =
  boot_metrics :: "'f Metrics"
  boot_manager :: "'s manager"
  boot_log :: "setup_line list"
  boot_exit :: "int option"

definition fresh_boot :: "('f, 's) boot" where
  "fresh_boot =
     \<lparr>boot_metrics = initial_metrics, boot_manager = [], boot_log = [], boot_exit = None\<rparr>"

text \<open>
  A statement of \<^verbatim>\<open>main\<close>: \<open>OrExit\<close> is
  \<^verbatim>\<open>if err := op; err != nil { setupLog.Error(err, msg, kvs...); os.Exit(1) }\<close>.
  Nothing runs after \<^verbatim>\<open>os.Exit\<close>.
\<close>

datatype 's boot_stmt = OrExit "'s mgr_op" string "(string \<times> string) list" | Info string

fun run_boot :: "'s boot_stmt list \<Rightarrow> ('f, 's) boot \<Rightarrow> ('f, 's) boot" where
  "run_boot [] p = p"
| "run_boot (OrExit op msg kvs # ss) p =
     (case op (boot_manager p) of
        (None, mgr) \<Rightarrow> run_boot ss (p\<lparr>boot_manager := mgr\<rparr>)
      | (Some err, mgr) \<Rightarrow> p\<lparr>boot_manager := mgr, boot_log := boot_log p @ [SetupError err msg kvs],
                             boot_exit := Some 1\<rparr>)"
| "run_boot (Info msg # ss) p = run_boot ss (p\<lparr>boot_log := boot_log p @ [SetupInfo msg]\<rparr>)"

definition manager_options :: "'s \<Rightarrow> manager_flags \<Rightarrow> 's ManagerOptions" where
  "manager_options scheme fl =
     \<lparr>mo_Scheme = scheme, mo_MetricsBindAddress = mf_metricsAddr fl, mo_HealthProbeBindAddress = mf_probeAddr fl,
      mo_LeaderElection = mf_enableLeaderElection fl,
      mo_LeaderElectionID = ''keleustes.skaphos.io''\<rparr>"

definition manager_controllers :: "'s answer \<Rightarrow> (string \<times> 's mgr_op) list" where
  "manager_controllers ans =
     [(''Application'', ApplicationReconciler_SetupWithManager ans),
      (''Source'', SourceReconciler_SetupWithManager ans),
      (''Release'', ReleaseReconciler_SetupWithManager ans),
      (''Environment'', EnvironmentReconciler_SetupWithManager ans),
      (''Cell'', CellReconciler_SetupWithManager ans),
      (''DeploymentTarget'', DeploymentTargetReconciler_SetupWithManager ans),
      (''Deployment'', DeploymentReconciler_SetupWithManager ans),
      (''Promotion'', PromotionReconciler_SetupWithManager ans),
      (''PromotionPolicy'', PromotionPolicyReconciler_SetupWithManager ans),
      (''Approval'', ApprovalReconciler_SetupWithManager ans),
      (''FreezeWindow'', FreezeWindowReconciler_SetupWithManager ans),
      (''SyncPlan'', SyncPlanReconciler_SetupWithManager ans),
      (''SyncRun'', SyncRunReconciler_SetupWithManager ans),
      (''HealthCheck'', HealthCheckReconciler_SetupWithManager ans),
      (''Notifier'', NotifierReconciler_SetupWithManager ans)]"

definition manager_main :: "'s \<Rightarrow> 's answer \<Rightarrow> manager_flags \<Rightarrow> ('f, 's) boot \<Rightarrow> ('f, 's) boot" where
  "manager_main scheme ans fl p =
     run_boot
       ([OrExit (mgr_do ans (NewManager (manager_options scheme fl))) ''unable to start manager'' []]
        @ map (\<lambda>(kind, setup). OrExit setup ''unable to set up controller'' [(''controller'', kind)])
            (manager_controllers ans)
        @ [OrExit (mgr_do ans (AddHealthzCheck ''healthz'')) ''unable to set up health check'' [],
           OrExit (mgr_do ans (AddReadyzCheck ''readyz'')) ''unable to set up ready check'' [],
           Info ''starting manager'',
           OrExit (mgr_do ans Start) ''problem running manager'' []])
       (p\<lparr>boot_metrics := Register (boot_metrics p)\<rparr>)"

text \<open>
  The process: \<^verbatim>\<open>init\<close> fills the scheme, or panics (\<^const>\<open>None\<close>), before \<^verbatim>\<open>main\<close> runs.
\<close>

definition manager_process :: "'s scheme_lib \<Rightarrow> 's answer \<Rightarrow> manager_flags \<Rightarrow> ('f, 's) boot option" where
  "manager_process lib ans fl =
     (case manager_scheme lib of
        None \<Rightarrow> None
      | Some scheme \<Rightarrow> Some (manager_main scheme ans fl fresh_boot))"

section \<open>What a run does\<close>

text \<open>The calls a list of statements makes, if each succeeds.\<close>

fun makes :: "'s answer \<Rightarrow> 's boot_stmt list \<Rightarrow> 's mgr_call list \<Rightarrow> bool" where
  "makes ans [] cs \<longleftrightarrow> cs = []"
| "makes ans (Info msg # ss) cs \<longleftrightarrow> makes ans ss cs"
| "makes ans (OrExit op msg kvs # ss) (c # cs) \<longleftrightarrow> op = mgr_do ans c \<and> makes ans ss cs"
| "makes ans (OrExit op msg kvs # ss) [] \<longleftrightarrow> False"

lemma makes_append:
  "makes ans ss cs \<Longrightarrow> makes ans ss' cs' \<Longrightarrow> makes ans (ss @ ss') (cs @ cs')"
  by (induction ans ss cs rule: makes.induct) auto

lemma makes_map:
  "list_all2 (\<lambda>x c. op x = mgr_do ans c) xs cs
    \<Longrightarrow> makes ans (map (\<lambda>x. OrExit (op x) (msg x) (kvs x)) xs) cs"
  by (induction rule: list_all2_induct) auto

definition said :: "'s boot_stmt list \<Rightarrow> setup_line list" where
  "said ss = concat (map (\<lambda>st. case st of Info m \<Rightarrow> [SetupInfo m] | OrExit _ _ _ \<Rightarrow> []) ss)"

lemma said_simps [simp]:
  "said [] = []" "said (Info m # ss) = SetupInfo m # said ss" "said (OrExit f m k # ss) = said ss"
  "said (ss @ ss') = said ss @ said ss'"
  by (simp_all add: said_def)

text \<open>The calls of a run are a prefix of the programmed ones; only the last can have failed.\<close>

lemma run_boot_runs:
  assumes "makes ans ss cs" "boot_exit p = None"
  shows "(boot_exit (run_boot ss p) = None
      \<and> boot_manager (run_boot ss p) = boot_manager p @ cs
      \<and> boot_log (run_boot ss p) = boot_log p @ said ss
      \<and> (\<forall>i < length cs. ans (boot_manager p @ take i cs) (cs ! i) = None))
    \<or> (\<exists>n < length cs. boot_exit (run_boot ss p) = Some 1
      \<and> boot_manager (run_boot ss p) = boot_manager p @ take (Suc n) cs
      \<and> (\<forall>i < n. ans (boot_manager p @ take i cs) (cs ! i) = None)
      \<and> ans (boot_manager p @ take n cs) (cs ! n) \<noteq> None)"
  using assms
proof (induction ans ss cs arbitrary: p rule: makes.induct)
  case (1 ans cs)
  then show ?case by simp
next
  case (2 ans msg ss cs)
  let ?p = "p\<lparr>boot_log := boot_log p @ [SetupInfo msg]\<rparr>"
  from 2(1)[of ?p] 2(2,3) show ?case by simp
next
  case (3 ans op msg kvs ss c cs)
  have op: "op = mgr_do ans c" "makes ans ss cs" using 3(2) by simp_all
  show ?case
  proof (cases "ans (boot_manager p) c")
    case None
    let ?p = "p\<lparr>boot_manager := boot_manager p @ [c]\<rparr>"
    have r: "run_boot (OrExit op msg kvs # ss) p = run_boot ss ?p"
      using op None by (simp add: mgr_do_def)
    have all: "(\<forall>i < Suc m. ans (boot_manager p @ take i (c # cs)) ((c # cs) ! i) = None)
        \<longleftrightarrow> (\<forall>i < m. ans (boot_manager p @ c # take i cs) (cs ! i) = None)" for m
      using None by (simp add: All_less_Suc2)
    have "boot_exit ?p = None" using 3(3) by simp
    from 3(1)[OF op(2) this] show ?thesis unfolding r
    proof (elim disjE, goal_cases)
      case 1
      then show ?case using all[of "length cs"] by simp
    next
      case 2
      then obtain n where n: "n < length cs" "boot_exit (run_boot ss ?p) = Some 1"
          "boot_manager (run_boot ss ?p) = boot_manager ?p @ take (Suc n) cs"
          "\<forall>i<n. ans (boot_manager ?p @ take i cs) (cs ! i) = None"
          "ans (boot_manager ?p @ take n cs) (cs ! n) \<noteq> None" by auto
      then show ?case using all[of n] by (intro disjI2 exI[of _ "Suc n"]) simp
    qed
  next
    case (Some e)
    then show ?thesis using op by (intro disjI2 exI[of _ 0]) (simp add: mgr_do_def)
  qed
next
  case 4
  then show ?case by simp
qed

text \<open>The calls of the manager, in order.\<close>

definition manager_kinds :: "string list" where
  "manager_kinds = [''Application'', ''Source'', ''Release'', ''Environment'', ''Cell'', ''DeploymentTarget'', ''Deployment'', ''Promotion'', ''PromotionPolicy'', ''Approval'', ''FreezeWindow'', ''SyncPlan'', ''SyncRun'', ''HealthCheck'', ''Notifier'']"

definition controller_call :: "string \<Rightarrow> 's mgr_call" where
  "controller_call k = Complete \<lparr>ctrl_For = k, ctrl_Named = to_lower k\<rparr> (k @ ''Reconciler'')"

definition manager_calls :: "'s \<Rightarrow> manager_flags \<Rightarrow> 's mgr_call list" where
  "manager_calls scheme fl =
     [NewManager (manager_options scheme fl)]
     @ map controller_call manager_kinds
     @ [AddHealthzCheck ''healthz'', AddReadyzCheck ''readyz'', Start]"

lemma manager_kinds_lower:
  "map to_lower manager_kinds = [''application'', ''source'', ''release'', ''environment'', ''cell'', ''deploymenttarget'', ''deployment'', ''promotion'', ''promotionpolicy'', ''approval'', ''freezewindow'', ''syncplan'', ''syncrun'', ''healthcheck'', ''notifier'']"
  by code_simp

lemmas kind_lower = manager_kinds_lower [unfolded manager_kinds_def list.map list.inject]

lemmas setup_call = controller_call_def NewControllerManagedBy_def For_def Named_def kind_lower

lemma ApplicationReconciler_setup: "ApplicationReconciler_SetupWithManager ans = mgr_do ans (controller_call ''Application'')"
  by (simp add: ApplicationReconciler_SetupWithManager_def setup_call)

lemma SourceReconciler_setup: "SourceReconciler_SetupWithManager ans = mgr_do ans (controller_call ''Source'')"
  by (simp add: SourceReconciler_SetupWithManager_def setup_call)

lemma ReleaseReconciler_setup: "ReleaseReconciler_SetupWithManager ans = mgr_do ans (controller_call ''Release'')"
  by (simp add: ReleaseReconciler_SetupWithManager_def setup_call)

lemma EnvironmentReconciler_setup: "EnvironmentReconciler_SetupWithManager ans = mgr_do ans (controller_call ''Environment'')"
  by (simp add: EnvironmentReconciler_SetupWithManager_def setup_call)

lemma CellReconciler_setup: "CellReconciler_SetupWithManager ans = mgr_do ans (controller_call ''Cell'')"
  by (simp add: CellReconciler_SetupWithManager_def setup_call)

lemma DeploymentTargetReconciler_setup: "DeploymentTargetReconciler_SetupWithManager ans = mgr_do ans (controller_call ''DeploymentTarget'')"
  by (simp add: DeploymentTargetReconciler_SetupWithManager_def setup_call)

lemma DeploymentReconciler_setup: "DeploymentReconciler_SetupWithManager ans = mgr_do ans (controller_call ''Deployment'')"
  by (simp add: DeploymentReconciler_SetupWithManager_def setup_call)

lemma PromotionReconciler_setup: "PromotionReconciler_SetupWithManager ans = mgr_do ans (controller_call ''Promotion'')"
  by (simp add: PromotionReconciler_SetupWithManager_def setup_call)

lemma PromotionPolicyReconciler_setup: "PromotionPolicyReconciler_SetupWithManager ans = mgr_do ans (controller_call ''PromotionPolicy'')"
  by (simp add: PromotionPolicyReconciler_SetupWithManager_def setup_call)

lemma ApprovalReconciler_setup: "ApprovalReconciler_SetupWithManager ans = mgr_do ans (controller_call ''Approval'')"
  by (simp add: ApprovalReconciler_SetupWithManager_def setup_call)

lemma FreezeWindowReconciler_setup: "FreezeWindowReconciler_SetupWithManager ans = mgr_do ans (controller_call ''FreezeWindow'')"
  by (simp add: FreezeWindowReconciler_SetupWithManager_def setup_call)

lemma SyncPlanReconciler_setup: "SyncPlanReconciler_SetupWithManager ans = mgr_do ans (controller_call ''SyncPlan'')"
  by (simp add: SyncPlanReconciler_SetupWithManager_def setup_call)

lemma SyncRunReconciler_setup: "SyncRunReconciler_SetupWithManager ans = mgr_do ans (controller_call ''SyncRun'')"
  by (simp add: SyncRunReconciler_SetupWithManager_def setup_call)

lemma HealthCheckReconciler_setup: "HealthCheckReconciler_SetupWithManager ans = mgr_do ans (controller_call ''HealthCheck'')"
  by (simp add: HealthCheckReconciler_SetupWithManager_def setup_call)

lemma NotifierReconciler_setup: "NotifierReconciler_SetupWithManager ans = mgr_do ans (controller_call ''Notifier'')"
  by (simp add: NotifierReconciler_SetupWithManager_def setup_call)

lemmas setups = ApplicationReconciler_setup
  SourceReconciler_setup
  ReleaseReconciler_setup
  EnvironmentReconciler_setup
  CellReconciler_setup
  DeploymentTargetReconciler_setup
  DeploymentReconciler_setup
  PromotionReconciler_setup
  PromotionPolicyReconciler_setup
  ApprovalReconciler_setup
  FreezeWindowReconciler_setup
  SyncPlanReconciler_setup
  SyncRunReconciler_setup
  HealthCheckReconciler_setup
  NotifierReconciler_setup

lemma manager_controllers_make:
  "list_all2 (\<lambda>x c. snd x = mgr_do ans c) (manager_controllers ans) (map controller_call manager_kinds)"
  unfolding manager_controllers_def manager_kinds_def list.map list.rel_inject snd_conv
  by (intro conjI list.rel_intros(1) setups)

lemma manager_main_makes:
  "\<exists>ss. manager_main scheme ans fl p = run_boot ss (p\<lparr>boot_metrics := Register (boot_metrics p)\<rparr>)
     \<and> makes ans ss (manager_calls scheme fl) \<and> said ss = [SetupInfo ''starting manager'']"
proof -
  let ?ctl = "map (\<lambda>(kind, setup). OrExit setup ''unable to set up controller'' [(''controller'', kind)])
      (manager_controllers ans)"
  have eq: "?ctl = map (\<lambda>x. OrExit (snd x) ''unable to set up controller'' [(''controller'', fst x)])
      (manager_controllers ans)"
    by (simp add: case_prod_beta)
  have m: "makes ans ?ctl
      (map controller_call manager_kinds)"
    unfolding eq by (rule makes_map[OF manager_controllers_make])
  let ?tl = "[OrExit (mgr_do ans (AddHealthzCheck ''healthz'')) ''unable to set up health check'' [],
      OrExit (mgr_do ans (AddReadyzCheck ''readyz'')) ''unable to set up ready check'' [],
      Info ''starting manager'', OrExit (mgr_do ans Start) ''problem running manager'' []]"
  let ?hd = "[OrExit (mgr_do ans (NewManager (manager_options scheme fl))) ''unable to start manager'' []]"
  have "said ?ctl = []" unfolding eq by (simp add: said_def)
  then have "said (?hd @ ?ctl @ ?tl) = [SetupInfo ''starting manager'']" by simp
  moreover have "makes ans (?hd @ ?ctl @ ?tl) (manager_calls scheme fl)"
    unfolding manager_calls_def by (intro makes_append m) simp_all
  ultimately show ?thesis unfolding manager_main_def by blast
qed

section \<open>What registering does\<close>

definition api_kinds :: "string list" where
  "api_kinds = [''Application'', ''Approval'', ''Cell'', ''Deployment'', ''DeploymentTarget'', ''Environment'', ''FreezeWindow'', ''HealthCheck'', ''Notifier'', ''Promotion'', ''PromotionPolicy'', ''Release'', ''Source'', ''SyncPlan'', ''SyncRun'']"

lemma registered_functions:
  "builder_SchemeBuilder (SchemeBuilder_registered lib) = map (\<lambda>k s. (None,
     lib_AddToGroupVersion lib api_GroupVersion
       (lib_AddKnownTypes lib api_GroupVersion [k, k @ ''List''] s))) api_kinds"
  by (simp add: SchemeBuilder_registered_def SchemeBuilder_def builder_Register_def api_kinds_def
      init_Application_def init_Approval_def init_Cell_def init_Deployment_def init_DeploymentTarget_def init_Environment_def init_FreezeWindow_def init_HealthCheck_def init_Notifier_def init_Promotion_def init_PromotionPolicy_def init_Release_def init_Source_def init_SyncPlan_def init_SyncRun_def)

lemma scheme_laws:
  assumes "scheme_lawful lib"
  shows "lib_known lib (lib_AddKnownTypes lib gv ks s) = lib_known lib s \<union> {gv} \<times> set ks"
    "lib_known lib (lib_AddToGroupVersion lib gv s) = lib_known lib s \<union> lib_metaTypes lib gv"
    "lib_AddToScheme lib [] s = (None, s)"
    "f s = (None, s') \<Longrightarrow> lib_AddToScheme lib (f # fs) s = lib_AddToScheme lib fs s'"
    "fst (lib_clientgo_AddToScheme lib s) = None"
    "lib_known lib (snd (lib_clientgo_AddToScheme lib s)) = lib_known lib s \<union> lib_clientgoTypes lib"
    "lib_known lib (lib_NewScheme lib) = {}"
  using assms unfolding scheme_lawful_def by (simp_all del: split_paired_All)

definition list_kinds :: "string list \<Rightarrow> string list" where
  "list_kinds ks = concat (map (\<lambda>k. [k, k @ ''List'']) ks)"

lemma AddToScheme_knows:
  assumes "scheme_lawful lib"
  shows "\<exists>s'. lib_AddToScheme lib (map (\<lambda>k s. (None,
      lib_AddToGroupVersion lib gv (lib_AddKnownTypes lib gv [k, k @ ''List''] s))) ks) s = (None, s')
    \<and> lib_known lib s' = lib_known lib s \<union> {gv} \<times> set (list_kinds ks)
        \<union> (if ks = [] then {} else lib_metaTypes lib gv)"
proof (induction ks arbitrary: s)
  case Nil
  then show ?case using scheme_laws(3)[OF assms] by (simp add: list_kinds_def)
next
  case (Cons k ks)
  let ?s1 = "lib_AddToGroupVersion lib gv (lib_AddKnownTypes lib gv [k, k @ ''List''] s)"
  have "lib_known lib ?s1 = lib_known lib s \<union> {gv} \<times> {k, k @ ''List''} \<union> lib_metaTypes lib gv"
    by (simp add: scheme_laws[OF assms])
  moreover obtain s' where "lib_AddToScheme lib (map (\<lambda>k s. (None,
      lib_AddToGroupVersion lib gv (lib_AddKnownTypes lib gv [k, k @ ''List''] s))) ks) ?s1 = (None, s')"
      "lib_known lib s' = lib_known lib ?s1 \<union> {gv} \<times> set (list_kinds ks)
        \<union> (if ks = [] then {} else lib_metaTypes lib gv)"
    using Cons.IH[of ?s1] by blast
  ultimately show ?case
    by (intro exI[of _ s']) (auto simp: scheme_laws(4)[OF assms] list_kinds_def)
qed

lemma manager_scheme_knows:
  assumes "scheme_lawful lib"
  shows "\<exists>s. manager_scheme lib = Some s \<and> lib_known lib s =
    lib_clientgoTypes lib \<union> lib_metaTypes lib api_GroupVersion \<union> {api_GroupVersion} \<times> set (list_kinds api_kinds)"
proof -
  let ?s0 = "snd (lib_clientgo_AddToScheme lib (lib_NewScheme lib))"
  obtain s where "AddToScheme lib ?s0 = (None, s)"
      "lib_known lib s = lib_known lib ?s0 \<union> {api_GroupVersion} \<times> set (list_kinds api_kinds)
        \<union> lib_metaTypes lib api_GroupVersion"
    using AddToScheme_knows[OF assms, of api_GroupVersion api_kinds ?s0]
    unfolding AddToScheme_def registered_functions by (auto simp: api_kinds_def)
  then show ?thesis
    by (auto simp: manager_scheme_def Must_def scheme_laws[OF assms])
qed

definition controllers_of :: "'s manager \<Rightarrow> ctrl_builder list" where
  "controllers_of mgr = concat (map (\<lambda>c. case c of Complete b r \<Rightarrow> [b] | _ \<Rightarrow> []) mgr)"

lemma manager_calls_controllers:
  "controllers_of (manager_calls scheme fl) = map (\<lambda>k. \<lparr>ctrl_For = k, ctrl_Named = to_lower k\<rparr>) manager_kinds"
  by (simp add: controllers_of_def manager_calls_def controller_call_def comp_def)

lemma manager_main_calls:
  assumes "boot_exit (manager_main scheme ans fl p) = None" "boot_exit p = None" "boot_manager p = []"
  shows "boot_manager (manager_main scheme ans fl p) = manager_calls scheme fl"
proof -
  obtain ss where ss: "manager_main scheme ans fl p = run_boot ss (p\<lparr>boot_metrics := Register (boot_metrics p)\<rparr>)"
      "makes ans ss (manager_calls scheme fl)"
    using manager_main_makes[of scheme ans fl p] by blast
  then show ?thesis
    using run_boot_runs[OF ss(2), of "p\<lparr>boot_metrics := Register (boot_metrics p)\<rparr>"] assms by auto
qed

lemma all_calls_succeed:
  assumes "\<And>mgr c. ans mgr c = None"
  shows "boot_exit (manager_main scheme ans fl (fresh_boot :: ('f, 's) boot)) = None"
proof -
  let ?b = "fresh_boot :: ('f, 's) boot"
  let ?q = "?b\<lparr>boot_metrics := Register (boot_metrics ?b)\<rparr>"
  obtain ss where "manager_main scheme ans fl ?b = run_boot ss ?q"
      "makes ans ss (manager_calls scheme fl)"
    using manager_main_makes[of scheme ans fl ?b] by blast
  moreover have "boot_exit ?q = None" by (simp add: fresh_boot_def)
  ultimately show ?thesis
    using run_boot_runs[of ans ss "manager_calls scheme fl" ?q] assms by auto
qed

lemma api_objects_kinds: "map fst (api_objects L) = list_kinds api_kinds"
  by (simp add: api_objects_def api_kinds_def list_kinds_def)

lemma manager_kinds_registered: "mset manager_kinds = mset api_kinds"
  by (simp add: manager_kinds_def api_kinds_def)

lemma set_list_kinds: "set (list_kinds ks) = (\<Union>k \<in> set ks. {k, k @ ''List''})"
  by (auto simp: list_kinds_def)

lemma distinct_lower: "distinct (map to_lower manager_kinds)"
  unfolding manager_kinds_lower by simp

lemma same_kinds:
  "mset manager_kinds = mset (map (SchemaGVK_Kind \<circ> resolvedKind_GVK) keleustesKinds)"
  by (simp add: manager_kinds_def keleustesKinds_def gvk_def)

lemma registry_group:
  "list_all (\<lambda>k. (SchemaGVK_Group (resolvedKind_GVK k), SchemaGVK_Version (resolvedKind_GVK k))
     = api_GroupVersion) keleustesKinds"
  by (simp add: keleustesKinds_def gvk_def keleustesGroup_def keleustesVersion_def api_GroupVersion_def)

section \<open>The properties\<close>

text \<open>C25: The manager's start.  Either every call succeeds: the manager is created with the
  flags' options, each of the fifteen controllers is set up under its own name, the two health
  checks are added, \<^verbatim>\<open>starting manager\<close> is logged and the manager runs.  Or the process exits
  with status 1 at the first call that fails, and no later one is made; in particular the
  manager is never started with a controller missing.  Either way the metrics were registered
  exactly once.\<close>

theorem manager_starts_complete_or_exits:
  fixes scheme :: 's and ans :: "'s answer" and fl :: manager_flags
  defines "p \<equiv> manager_main scheme ans fl (fresh_boot :: ('f, 's) boot)"
  shows "((boot_exit p = None \<and> boot_manager p = manager_calls scheme fl
        \<and> boot_log p = [SetupInfo ''starting manager'']
        \<and> (\<forall>i < length (manager_calls scheme fl). ans (take i (manager_calls scheme fl)) (manager_calls scheme fl ! i) = None))
     \<or> (\<exists>n < length (manager_calls scheme fl). boot_exit p = Some 1
        \<and> boot_manager p = take (Suc n) (manager_calls scheme fl)
        \<and> (\<forall>i < n. ans (take i (manager_calls scheme fl)) (manager_calls scheme fl ! i) = None)
        \<and> ans (take n (manager_calls scheme fl)) (manager_calls scheme fl ! n) \<noteq> None))
   \<and> Metrics_registrations (boot_metrics p) = 1"
proof -
  let ?b = "fresh_boot :: ('f, 's) boot"
  obtain ss where ss: "p = run_boot ss (?b\<lparr>boot_metrics := Register (boot_metrics ?b)\<rparr>)"
      "makes ans ss (manager_calls scheme fl)" "said ss = [SetupInfo ''starting manager'']"
    using manager_main_makes[of scheme ans fl ?b] unfolding p_def by blast
  have "boot_metrics (run_boot ss q) = boot_metrics q" for ss and q :: "('f, 's) boot"
    by (induction ss q rule: run_boot.induct) (auto split: option.splits prod.splits)
  then have "Metrics_registrations (boot_metrics p) = 1"
    unfolding ss(1) by (simp add: fresh_boot_def Register_def initial_metrics_def)
  then show ?thesis
    using run_boot_runs[OF ss(2), of "?b\<lparr>boot_metrics := Register (boot_metrics ?b)\<rparr>"]
    unfolding ss(1) ss(3) by (simp add: fresh_boot_def)
qed

theorem manager_starts_complete_or_exits_witness:
  "boot_exit (manager_main () (\<lambda>mgr c. if c = Start then Some (Opaque ''lost lease'') else None)
     manager_flag_defaults (fresh_boot :: (int, unit) boot)) = Some 1"
proof -
  let ?ans = "\<lambda>mgr c. if c = Start then Some (Opaque ''lost lease'') else None"
  let ?cs = "manager_calls () manager_flag_defaults"
  have last: "?cs ! 18 = Start" "18 < length ?cs"
    by (simp_all add: manager_calls_def manager_kinds_def)
  show ?thesis
  proof (rule ccontr)
    assume "boot_exit (manager_main () ?ans manager_flag_defaults (fresh_boot :: (int, unit) boot)) \<noteq> Some 1"
    then have "\<forall>i < length ?cs. ?ans (take i ?cs) (?cs ! i) = None"
      using manager_starts_complete_or_exits[of "()" ?ans manager_flag_defaults, where ?'f = int]
      by blast
    then have "?ans (take 18 ?cs) (?cs ! 18) = None" using last(2) by blast
    then show False using last(1) by simp
  qed
qed

text \<open>C26: The parts agree on the kinds.  Filling the scheme does not panic.  A manager that
  came up was created with that scheme; what the scheme knows beyond the library's own types is
  exactly the types that have a \<^verbatim>\<open>DeepCopyObject\<close>, under the group and version that the command
  line asks for; these are the kind and the list kind of each controller of the manager; and the
  controllers are one for each kind of the command line's registry and no other, under distinct
  names.\<close>

theorem manager_controls_the_registered_kinds:
  assumes "scheme_lawful lib"
  shows "\<exists>s p. manager_scheme lib = Some s
    \<and> manager_process lib ans fl = Some (p :: ('f, 's) boot)
    \<and> lib_known lib s = lib_clientgoTypes lib \<union> lib_metaTypes lib api_GroupVersion
         \<union> {api_GroupVersion} \<times> set (map fst (api_objects L))
    \<and> list_all (\<lambda>k. (SchemaGVK_Group (resolvedKind_GVK k), SchemaGVK_Version (resolvedKind_GVK k))
         = api_GroupVersion) keleustesKinds
    \<and> (boot_exit p = None \<longrightarrow>
         (\<exists>opts rest. boot_manager p = NewManager opts # rest \<and> mo_Scheme opts = s)
       \<and> set (map fst (api_objects L))
           = (\<Union>b \<in> set (controllers_of (boot_manager p)). {ctrl_For b, ctrl_For b @ ''List''})
       \<and> distinct (map ctrl_Named (controllers_of (boot_manager p)))
       \<and> mset (map ctrl_For (controllers_of (boot_manager p)))
           = mset (map (SchemaGVK_Kind \<circ> resolvedKind_GVK) keleustesKinds))"
proof -
  obtain s where s: "manager_scheme lib = Some s" "lib_known lib s = lib_clientgoTypes lib
      \<union> lib_metaTypes lib api_GroupVersion \<union> {api_GroupVersion} \<times> set (list_kinds api_kinds)"
    using manager_scheme_knows[OF assms] by blast
  let ?p = "manager_main s ans fl (fresh_boot :: ('f, 's) boot)"
  have calls: "boot_exit ?p = None \<Longrightarrow> boot_manager ?p = manager_calls s fl"
    by (rule manager_main_calls) (simp_all add: fresh_boot_def)
  have ctrls: "map ctrl_For (controllers_of (manager_calls s fl)) = manager_kinds"
    "map ctrl_Named (controllers_of (manager_calls s fl)) = map to_lower manager_kinds"
    by (simp_all add: manager_calls_controllers comp_def)
  have "set (list_kinds api_kinds) = (\<Union>k \<in> set manager_kinds. {k, k @ ''List''})"
    unfolding set_list_kinds mset_eq_setD[OF manager_kinds_registered] by (rule refl)
  also have "\<dots> = (\<Union>b \<in> set (controllers_of (manager_calls s fl)). {ctrl_For b, ctrl_For b @ ''List''})"
    unfolding ctrls(1)[symmetric] by auto
  finally have names: "set (list_kinds api_kinds) = \<dots>" .
  have first: "\<exists>opts rest. manager_calls s fl = NewManager opts # rest \<and> mo_Scheme opts = s"
    by (simp add: manager_calls_def manager_options_def)
  have "manager_process lib ans fl = Some ?p" by (simp add: manager_process_def s(1))
  then show ?thesis
    unfolding api_objects_kinds
    using s registry_group calls names first ctrls same_kinds distinct_lower
    by (intro exI[of _ s] exI[of _ ?p] conjI impI) simp_all
qed

text \<open>A library to run it with: a scheme is the list of the types it knows.\<close>

fun apply_all :: "'s scheme_fn list \<Rightarrow> 's scheme_fn" where
  "apply_all [] s = (None, s)"
| "apply_all (f # fs) s =
     (case f s of (Some e, s') \<Rightarrow> (Some e, s') | (None, s') \<Rightarrow> apply_all fs s')"

definition example_scheme_lib :: "(GroupVersion \<times> string) list scheme_lib" where
  "example_scheme_lib =
     \<lparr>lib_NewScheme = [], lib_AddKnownTypes = (\<lambda>gv ks s. s @ map (Pair gv) ks),
      lib_AddToGroupVersion = (\<lambda>gv s. s @ [(gv, ''WatchEvent'')]), lib_AddToScheme = apply_all,
      lib_clientgo_AddToScheme = (\<lambda>s. (None, s @ [(([], ''v1''), ''Pod'')])), lib_known = set,
      lib_metaTypes = (\<lambda>gv. {(gv, ''WatchEvent'')}), lib_clientgoTypes = {(([], ''v1''), ''Pod'')}\<rparr>"

theorem manager_controls_the_registered_kinds_witness:
  "\<exists>p. manager_process example_scheme_lib (\<lambda>_ _. None) manager_flag_defaults = Some (p :: (int, _) boot)
    \<and> boot_exit p = None
    \<and> set (map fst (api_objects example_v1))
        = (\<Union>b \<in> set (controllers_of (boot_manager p)). {ctrl_For b, ctrl_For b @ ''List''})"
proof -
  have lawful: "scheme_lawful example_scheme_lib"
    by (auto simp: scheme_lawful_def example_scheme_lib_def split: prod.splits option.splits)
  obtain p where p: "manager_process example_scheme_lib (\<lambda>_ _. None) manager_flag_defaults = Some (p :: (int, _) boot)"
      "boot_exit p = None \<longrightarrow> set (map fst (api_objects example_v1))
        = (\<Union>b \<in> set (controllers_of (boot_manager p)). {ctrl_For b, ctrl_For b @ ''List''})"
    using manager_controls_the_registered_kinds[OF lawful, of "\<lambda>_ _. None"
        manager_flag_defaults example_v1, where ?'f = int]
    by (elim exE conjE) (rule that, assumption, rule impI, drule (1) mp, elim conjE, assumption)
  have "boot_exit p = None"
    using p(1) all_calls_succeed[of "\<lambda>_ _. None"]
    by (auto simp: manager_process_def simp del: split_paired_All split: option.splits)
  with p show ?thesis by blast
qed

end
