(* ===== verification/Spec2Isabelle.thy ===== *)
theory Spec2Isabelle
  imports Audit_Webhook Controllers Observability Cli_Over_Http Cli_Root Client_Trips
    Deep_Copies Entry_Apiserver Entry_Manager
begin

text \<open>
  Keleustes is a control plane for GitOps delivery.  A manager runs fifteen Kubernetes
  controllers (\<^verbatim>\<open>internal/controller\<close>) over the custom resources of
  \<^verbatim>\<open>api/v1alpha1\<close>; an admission webhook (\<^verbatim>\<open>internal/audit\<close>) writes an audit event for each
  change of such a resource before it is admitted; a stateless API server
  (\<^verbatim>\<open>internal/api\<close>) answers the operator's UI and the command line
  (\<^verbatim>\<open>internal/cli\<close>) from a read model of the cluster or of fixtures.  This library models
  the Go code of these parts and proves what makes them correct.

  \<^bold>\<open>Shared theories.\<close>
    \<^item> \<open>Go_Prelude\<close>: the functions of \<^verbatim>\<open>strings\<close>, \<^verbatim>\<open>strconv\<close> and \<^verbatim>\<open>sort\<close> the code calls, on
      strings of bytes; instants as nanoseconds; \<open>result\<close>, a sum with the error on the left.
      Letter case is that of ASCII.  \<^verbatim>\<open>sort.Slice\<close> is unstable: \<open>slice_sorted\<close> relates a list
      to every result it may have.
    \<^item> \<open>Go_Errors\<close>: the error values that cross components, \<^verbatim>\<open>errors.Is\<close> and \<^verbatim>\<open>errors.As\<close>.
    \<^item> \<open>Json_Values\<close>: the values of \<^verbatim>\<open>map[string]any\<close> trees; \<open>json_eqv\<close> is equality up to the
      order of map fields.
    \<^item> \<open>Api_Types\<close>, \<open>Openapi_Types\<close>: one record per struct of \<^verbatim>\<open>api/v1alpha1\<close> and of the
      generated contract types, with the field order of the source; pointers are options, maps
      association lists, closed string enums their lists of values.

  \<^bold>\<open>The audit trail\<close> (\<^verbatim>\<open>internal/audit\<close>).
    \<^item> \<open>Audit_Redaction\<close>: \<^verbatim>\<open>redaction/redact.go\<close>.  Completeness and precision of the walk,
      redaction of all Secret payloads, idempotence, independence of Go's map order, and the
      two rules that cannot match.
    \<^item> \<open>Audit_Ulid\<close>: \<^verbatim>\<open>ulid.go\<close> on 64-bit words.  Shape, order by time below the 48-bit horizon,
      injectivity.
    \<^item> \<open>Audit_Emitter\<close>: envelope, JSON form, payload registry, \<^verbatim>\<open>Emit\<close> and its two emitters.  The
      locale \<open>emitter\<close> states what an emitter promises (a failed emission leaves the events as
      they were, a successful one appends one) and is interpreted on both.
    \<^item> \<open>Audit_Webhook\<close>: \<^verbatim>\<open>webhook/handler.go\<close>.  Write before act, no Secret in the trail, which
      requests are admitted.

  \<^bold>\<open>Controllers\<close> (\<open>Controllers\<close>): each \<^verbatim>\<open>Reconcile\<close>, against an arbitrary API client.  The locale
  \<open>scaffold_reconciler\<close> holds the proofs once, over the read, the status change and the write; it
  is interpreted on all fifteen.  \<open>lawful_client\<close>, \<open>lawful_lib\<close> and \<open>lawful_equal\<close> state what is
  used of controller-runtime: a status update changes the status of one object or nothing, a
  condition set is the one found, equal means equal.  \<open>deliver\<close> is a sequence of reconciliations
  in any order of the work queue.

  \<^bold>\<open>Observability\<close> (\<open>Observability\<close>): labels, log fields, metrics (\<^verbatim>\<open>internal/observability\<close>) and
  the sync phases (\<^verbatim>\<open>internal/sync\<close>).

  \<^bold>\<open>The API server\<close> (\<^verbatim>\<open>internal/api\<close>).
    \<^item> \<open>Read_Model\<close>: the port as a record of fourteen operations, and the locale \<open>read_model\<close> of
      the laws its clients rely on.
    \<^item> \<open>Crd_Source\<close>, \<open>Fixtures\<close>: the two backends, each interpreted as a \<open>read_model\<close>; a
      \<open>Cluster\<close> is what each list call to the API server returns.  Matrix, environments, inbox
      views, audit queries, where the backends differ.
    \<^item> \<open>Api_Http\<close>: requests, the response writer and the status recorder; \<open>http_step\<close> is the
      step relation of handlers, with the invariant that the recorder shows the status on the
      wire.
    \<^item> \<open>Api_Responses\<close>: the response objects of the generated contract with their \<^verbatim>\<open>Visit\<close>
      methods; \<open>visits\<close> is what the strict handlers use of them.
    \<^item> \<open>Api_Auth\<close>: \<^verbatim>\<open>auth/auth.go\<close>.  \<open>Net_Mux\<close>: clean paths and redirects, what \<^verbatim>\<open>ServeMux\<close> does
      to a request before its patterns.
    \<^item> \<open>Api_Server\<close>: for each of the eighteen operations the generated parameter binding
      (\<open>siw_\<close>), strict handler (\<open>sh_\<close>) and the server's method (\<open>ssi_\<close>); routes, error
      classification, authorization checkpoint and the chain of middlewares.

  \<^bold>\<open>The generated client\<close> (\<^verbatim>\<open>internal/api/openapi/keleustes.gen.go\<close>).
    \<^item> \<open>Net_Url\<close>: the part of \<^verbatim>\<open>net/url\<close> the client uses (escaping, parsing and printing,
      resolution of a relative reference, query strings).
    \<^item> \<open>Client_Requests\<close>, \<open>Api_Client\<close>: the request builder, the client method and the
      \<^verbatim>\<open>WithResponse\<close> method of each operation.  \<open>Client_Responses\<close>: the response records and
      the \<^verbatim>\<open>Parse\<close> functions.
    \<^item> \<open>Client_Trips\<close>: what a visitor writes, the parser reads back, for every response object.
      \<open>Client_Server\<close>: the request a builder makes reaches its handler with its arguments, and
      the names for which it does not.

  \<^bold>\<open>Deep copies\<close> (\<^verbatim>\<open>api/v1alpha1/zz_generated.deepcopy.go\<close>).  \<open>Go_Heap\<close>: Go's memory as a list of
  cells, values with addresses, the statements of a generated copy, and \<open>copies\<close>, the contract
  every statement keeps.  \<open>Deep_Copies\<close>: the eighty types with their copies; the value read
  through a copy is the original's and no cell is shared.  (\<open>Controllers\<close> can therefore take the
  copy of a status to be the value.)

  \<^bold>\<open>The processes\<close> (\<^verbatim>\<open>cmd\<close>).  \<open>Entry_Manager\<close>: registration of the types, the set-up of the
  controllers and the manager's start, as a program that stops at the first failing call.
  \<open>Entry_Apiserver\<close>: the choice of the read model and the probe handler; the process as the step
  relation \<open>api_step\<close> over the program counters of \<^verbatim>\<open>main\<close> and of two servers, each step with
  the actor that takes it (a failure, its log line and \<^verbatim>\<open>os.Exit\<close> are three), with its invariant
  and, for each actor, a measure of the steps it has left; once a signal has come, \<^verbatim>\<open>main\<close> has a
  step to take until the process has exited.

  \<^bold>\<open>The command line\<close> (\<^verbatim>\<open>internal/cli\<close>).
    \<^item> \<open>Cli_Kinds\<close>: the registry of kinds.  \<open>Cli_Output\<close>: columns, ages, tables; the type
      \<open>column_path\<close> is the specification of a column, and ages are computed in binary64 as the
      code does.  \<open>Cli_Commands\<close>: the verbs that call the API server.  \<open>Cli_Get\<close>: \<^verbatim>\<open>get\<close>,
      \<^verbatim>\<open>watch\<close> and \<^verbatim>\<open>describe\<close>.
    \<^item> \<open>Cli_Over_Http\<close>: the read verbs composed with the generated client, the wire, and the
      server: what is printed is what a call on the server's read model gives.
    \<^item> \<open>Cli_Root\<close>: the tree of commands as data, their flags and argument rules, and what each
      runs; an index out of range is an outcome of its own.

  \<^bold>\<open>Parameters.\<close>  Code outside the repository is an argument: the Kubernetes client, the
  condition helpers, \<^verbatim>\<open>unstructured\<close>, JSON and YAML codecs, the parameter binder and styler of the
  contract generator, the structs of apimachinery, controller-runtime, the clock, the random
  source, time formatting.  All loops are structural or have a
  measure; no fuel is used.

  \<^bold>\<open>Not modelled.\<close>  Mutexes, and goroutines other than those of the API server's process (each
  call is one step); latency, stack traces and verbosity of log lines (every line is taken to be
  enabled and written); the transport of HTTP messages (a request and a response arrive as they
  were sent, a connection does not fail while a response is written) and the special treatment
  of informational and invalid status codes, none of which the sources send; finding a command,
  parsing flags and completion in the shell, which are \<^verbatim>\<open>cobra\<close>'s; the UI, which is TypeScript.
  A watch is the finite list of the events its channel delivers before it is closed.  The status
  of a \<^verbatim>\<open>ServeMux\<close> redirect is an argument, since it depends on the release of Go.  Bytes stand
  for characters, so ASCII case folding is exact for the identifiers the code compares and an
  approximation beyond them.  A stream may refuse a write, but the writes a tabwriter makes before
  its flush are not told apart from the flush.  A deep copy is taken into fresh memory; copying a
  value into itself is not considered.
\<close>

end
